(* ===== verification/Prelude.thy ===== *)
theory Prelude
  imports Main "HOL-Library.Word"
begin

text \<open>
  Shared vocabulary of the development: the machine integers of the C++ code as words, byte
  buffers as lists, \<open>memcpy\<close> into a buffer (\<open>blit\<close>), the modular clock comparison that three
  classes of the library share, and the fact collections the component theories add to.
\<close>

unbundle bit_operations_syntax

section \<open>Types and fact collections\<close>

type_synonym u8 = "8 word"
type_synonym u16 = "16 word"
type_synonym u32 = "32 word"
type_synonym u64 = "64 word"
type_synonym bytes = "u8 list"
type_synonym addr = "u8 list"

named_theorems const_simps \<open>unfolds the protocol constants\<close>
named_theorems len_simps \<open>lengths of encoders and buffers\<close>
named_theorems frame_simps \<open>fields an operation leaves alone\<close>
named_theorems inv_intros \<open>an operation keeps an invariant\<close>

section \<open>Copying bytes into a buffer\<close>

text \<open>
  \<open>blit off xs buf\<close> is \<open>memcpy(buf + off, xs, |xs|)\<close> for a copy that stays inside the buffer.
\<close>

definition blit :: "nat \<Rightarrow> 'a list \<Rightarrow> 'a list \<Rightarrow> 'a list" where
  "blit off xs buf = take off buf @ xs @ drop (off + length xs) buf"

lemma length_blit [len_simps, simp]:
  "off + length xs \<le> length buf \<Longrightarrow> length (blit off xs buf) = length buf"
  by (simp add: blit_def)

lemma blit_Nil [simp]: "blit off [] buf = buf"
  by (simp add: blit_def)

lemma take_blit: "off + length xs \<le> length buf \<Longrightarrow>
  take (off + length xs) (blit off xs buf) = take off buf @ xs"
  by (simp add: blit_def)

lemma take_blit_le: "n \<le> off \<Longrightarrow> off \<le> length buf \<Longrightarrow> take n (blit off xs buf) = take n buf"
  by (simp add: blit_def)

lemma blit_append: "off + length xs + length ys \<le> length buf \<Longrightarrow>
  blit (off + length xs) ys (blit off xs buf) = blit off (xs @ ys) buf"
  by (simp add: blit_def ac_simps)

lemma blit_Cons_snoc: "off < length buf \<Longrightarrow> off + Suc (length xs) \<le> length buf \<Longrightarrow>
  blit (Suc off) xs (buf[off := x]) = blit off (x # xs) buf"
  by (simp add: blit_def take_Suc_conv_app_nth upd_conv_take_nth_drop ac_simps)

lemma blit_single: "off < length buf \<Longrightarrow> blit off [x] buf = buf[off := x]"
  by (simp add: blit_def upd_conv_take_nth_drop)

lemma nth_blit: "off + length xs \<le> length buf \<Longrightarrow> i < length buf \<Longrightarrow>
  blit off xs buf ! i = (if off \<le> i \<and> i < off + length xs then xs ! (i - off) else buf ! i)"
  by (auto simp: blit_def nth_append)

lemma blit_0_whole: "length xs = length buf \<Longrightarrow> blit 0 xs buf = xs"
  by (simp add: blit_def)

section \<open>The wrapping millisecond clock\<close>

text \<open>
  \<open>time_after\<close> and \<open>time_after_or_eq\<close> read the difference of two 32-bit millisecond stamps as a
  signed number.
\<close>

definition time_after :: "u32 \<Rightarrow> u32 \<Rightarrow> bool" where
  "time_after now target \<longleftrightarrow> sint (now - target) > 0"

definition time_after_or_eq :: "u32 \<Rightarrow> u32 \<Rightarrow> bool" where
  "time_after_or_eq now target \<longleftrightarrow> sint (now - target) \<ge> 0"

lemma unat_u32_less: "unat (x :: u32) < 2 ^ 32"
  using unsigned_less [of x, where ?'a = nat] by simp

lemma sint_u32: "sint (x :: u32) = (if unat x < 2 ^ 31 then int (unat x) else int (unat x) - 2 ^ 32)"
proof -
  define n where "n = unat x"
  have *: "sint x = signed_take_bit 31 (int n)"
    by (simp add: sint_uint n_def)
  have b: "n < 2 ^ 32"
    using unat_u32_less [of x] by (simp add: n_def)
  have "sint x = (if n < 2 ^ 31 then int n else int n - 2 ^ 32)"
  proof (cases "n < 2 ^ 31")
    case True
    then have "int n < 2 ^ 31" by simp
    then have "signed_take_bit 31 (int n) = int n"
      using signed_take_bit_int_eq_self [of 31 "int n"] by linarith
    then show ?thesis using True by (simp only: * if_True)
  next
    case False
    have "signed_take_bit 31 (int n) = (int n + 2 ^ 31) mod 2 ^ 32 - 2 ^ 31"
      by (simp add: signed_take_bit_eq_take_bit_shift take_bit_eq_mod)
    also have "(int n + 2 ^ 31) mod 2 ^ 32 = (int n + 2 ^ 31 - 2 ^ 32) mod 2 ^ 32"
      by (simp only: minus_mod_self2)
    also have "\<dots> = int n + 2 ^ 31 - 2 ^ 32"
      by (rule mod_pos_pos_trivial) (use False b in simp_all)
    finally show ?thesis using False by (simp only: * if_False)
  qed
  then show ?thesis by (simp only: n_def)
qed

lemma time_after_or_eq_iff: "time_after_or_eq now target \<longleftrightarrow> unat (now - target) < 2 ^ 31"
proof -
  define n where "n = unat (now - target)"
  have "n < 2 ^ 32" using unat_u32_less by (simp add: n_def)
  then show ?thesis
    unfolding time_after_or_eq_def sint_u32 n_def [symmetric] by (simp split: if_splits)
qed

lemma time_after_iff:
  "time_after now target \<longleftrightarrow> 0 < unat (now - target) \<and> unat (now - target) < 2 ^ 31"
proof -
  define n where "n = unat (now - target)"
  have "n < 2 ^ 32" using unat_u32_less by (simp add: n_def)
  then show ?thesis
    unfolding time_after_def sint_u32 n_def [symmetric] by (simp split: if_splits)
qed

lemma unat_of_nat_u32: "n < 2 ^ 32 \<Longrightarrow> unat (of_nat n :: u32) = n"
  by (simp add: unat_of_nat take_bit_eq_mod)

lemma unat_neg_u32:
  assumes "0 < n" "n < 2 ^ 32"
  shows "unat (- of_nat n :: u32) = 2 ^ 32 - n"
proof -
  have "of_nat n + (of_nat (2 ^ 32 - n) :: u32) = of_nat (2 ^ 32)"
    using assms by (simp only: of_nat_add [symmetric]) simp
  also have "(of_nat (2 ^ 32) :: u32) = 0" by simp
  finally have "- of_nat n = (of_nat (2 ^ 32 - n) :: u32)"
    by (simp only: neg_eq_iff_add_eq_0)
  then show ?thesis
    using assms by (simp only:) (rule unat_of_nat_u32, simp)
qed

text \<open>Two stamps less than \<open>2 ^ 31\<close> ms apart compare by the time that passed, across a wrap.\<close>

lemma unat_elapsed:
  assumes "d < 2 ^ 31" "e < 2 ^ 31"
  shows "unat ((t + of_nat e) - (t + of_nat d) :: u32) = (if d \<le> e then e - d else 2 ^ 32 - (d - e))"
proof -
  have eq: "(t + of_nat e) - (t + of_nat d) = (of_nat e - of_nat d :: u32)" by simp
  show ?thesis
  proof (cases "d \<le> e")
    case True
    then have *: "(of_nat e - of_nat d :: u32) = of_nat (e - d)" by (simp add: of_nat_diff)
    have "e - d < 2 ^ 32" using assms by simp
    then show ?thesis using True by (simp only: eq * unat_of_nat_u32 if_True)
  next
    case False
    then have "(of_nat (d - e) :: u32) = of_nat d - of_nat e" by (simp add: of_nat_diff)
    then have *: "(of_nat e - of_nat d :: u32) = - of_nat (d - e)" by simp
    have "0 < d - e" "d - e < 2 ^ 32" using assms False by simp_all
    then show ?thesis using False by (simp only: eq * unat_neg_u32 if_False)
  qed
qed

lemma time_after_elapsed:
  "d < 2 ^ 31 \<Longrightarrow> e < 2 ^ 31 \<Longrightarrow> time_after (t + of_nat e) (t + of_nat d) \<longleftrightarrow> d < e"
  unfolding time_after_iff by (simp only: unat_elapsed) (simp; linarith)

lemma time_after_or_eq_elapsed:
  "d < 2 ^ 31 \<Longrightarrow> e < 2 ^ 31 \<Longrightarrow> time_after_or_eq (t + of_nat e) (t + of_nat d) \<longleftrightarrow> d \<le> e"
  unfolding time_after_or_eq_iff by (simp only: unat_elapsed) (simp; linarith)

end
