(* ===== verification/Crc16.thy ===== *)
theory Crc16
  imports Prelude
begin

text \<open>
  CRC-16/CCITT-FALSE (\<open>security/crc16.hpp\<close>): the table the constructor builds, the table-driven
  loop, and \<open>crc16_append\<close> / \<open>crc16_verify\<close>.  The lemmas relate the table-driven loop to a
  bit-serial shift register, show that a frame verifies exactly when the CRC over the whole frame
  is zero, and that every burst of at most 16 flipped bits is detected.
\<close>

section \<open>The code\<close>

text \<open>One iteration of the inner loop of the \<open>Crc16Table\<close> constructor.\<close>

definition crc_bit :: "u16 \<Rightarrow> u16" where
  "crc_bit crc = (if crc AND 0x8000 \<noteq> 0 then push_bit 1 crc XOR 0x1021 else push_bit 1 crc)"

definition crc_entry :: "nat \<Rightarrow> u16" where
  "crc_entry i = (crc_bit ^^ 8) (push_bit 8 (of_nat i))"

definition crc16_table :: "u16 list" where
  "crc16_table = map crc_entry [0..<256]"

definition crc16_step :: "u16 \<Rightarrow> u8 \<Rightarrow> u16" where
  "crc16_step crc d =
     (let idx = ucast (drop_bit 8 crc XOR ucast d) :: u8
      in push_bit 8 crc XOR crc16_table ! unat idx)"

definition crc16_compute :: "bytes \<Rightarrow> u16" where
  "crc16_compute data = foldl crc16_step 0xFFFF data"

text \<open>
  \<open>crc16_append buffer n\<close> writes the CRC of the first \<open>n\<close> bytes right behind them.
\<close>

definition crc16_append :: "bytes \<Rightarrow> nat \<Rightarrow> bytes" where
  "crc16_append buffer n =
     (let crc = crc16_compute (take n buffer)
      in buffer[n := ucast (drop_bit 8 crc), n + 1 := ucast crc])"

definition crc16_verify :: "bytes \<Rightarrow> bool" where
  "crc16_verify data =
     (if length data < 2 then False
      else let n = length data - 2;
               computed = crc16_compute (take n data);
               stored = push_bit 8 (ucast (data ! n)) OR ucast (data ! (n + 1))
           in computed = stored)"

section \<open>The bit step is linear and injective\<close>

declare push_bit_Suc [simp del] drop_bit_Suc [simp del] bit_numeral_word_iff [simp del]

lemma bit_0x8000: "bit (0x8000 :: u16) n \<longleftrightarrow> n = 15"
proof -
  have "(0x8000 :: u16) = 2 ^ 15" by simp
  then have "bit (0x8000 :: u16) n \<longleftrightarrow> bit ((2 :: u16) ^ 15) n" by (simp only:)
  then show ?thesis by (simp only: bit_exp_iff possible_bit_word) auto
qed

lemma bit_0xFF: "bit (0xFF :: u16) n \<longleftrightarrow> n < 8"
proof -
  have "(0xFF :: u16) = mask 8" by (simp add: mask_eq_exp_minus_1)
  then have "bit (0xFF :: u16) n \<longleftrightarrow> bit (mask 8 :: u16) n" by (simp only:)
  then show ?thesis by (simp only: bit_mask_iff possible_bit_word) auto
qed

lemma and_0x8000: "(c :: u16) AND 0x8000 \<noteq> 0 \<longleftrightarrow> bit c 15"
proof
  assume *: "c AND 0x8000 \<noteq> 0"
  show "bit c 15"
  proof (rule ccontr)
    assume "\<not> bit c 15"
    then have "c AND 0x8000 = 0" by (intro bit_word_eqI) (auto simp: bit_and_iff bit_0x8000)
    with * show False ..
  qed
next
  assume "bit c 15"
  then have "bit (c AND 0x8000) 15" by (simp add: bit_and_iff bit_0x8000)
  then show "c AND 0x8000 \<noteq> 0" by (metis bit_0_eq bot_apply bot_bool_def)
qed

lemma crc_bit_alt: "crc_bit c = push_bit 1 c XOR (if bit c 15 then 0x1021 else 0)"
  by (simp add: crc_bit_def and_0x8000)

lemma crc_bit_xor: "crc_bit (a XOR b) = crc_bit a XOR crc_bit b"
  by (simp add: crc_bit_alt bit_xor_iff push_bit_xor) (auto simp: ac_simps)

lemma crc_bit_0 [simp]: "crc_bit 0 = 0"
  by (simp add: crc_bit_alt)

lemma crc_bits_0 [simp]: "(crc_bit ^^ n) 0 = 0"
  by (induction n) simp_all

lemma crc_bits_xor: "(crc_bit ^^ n) (a XOR b) = (crc_bit ^^ n) a XOR (crc_bit ^^ n) b"
  by (induction n) (simp_all add: crc_bit_xor)

lemma crc_bit_eq_0: "crc_bit c = 0 \<longleftrightarrow> c = 0"
proof
  assume *: "crc_bit c = 0"
  have "\<not> bit c 15"
  proof
    assume "bit c 15"
    with * have "push_bit 1 c XOR 0x1021 = 0" by (simp add: crc_bit_alt)
    then have "bit (push_bit 1 c XOR 0x1021) 0 = bit (0 :: u16) 0" by (rule arg_cong)
    then show False by (simp add: bit_xor_iff bit_push_bit_iff)
  qed
  with * have p: "push_bit 1 c = 0" by (simp add: crc_bit_alt)
  show "c = 0"
  proof (rule bit_word_eqI)
    fix n assume n: "n < LENGTH(16)"
    have "bit (push_bit 1 c) (Suc n) = bit (0 :: u16) (Suc n)" using p by simp
    with n \<open>\<not> bit c 15\<close> show "bit c n = bit (0 :: u16) n"
      by (cases "n = 15") (auto simp: bit_simps)
  qed
qed simp

lemma crc_bits_eq_0: "(crc_bit ^^ n) c = 0 \<longleftrightarrow> c = 0"
  by (induction n) (simp_all add: crc_bit_eq_0)

lemma xor_eq_0_iff_eq: "a XOR b = 0 \<longleftrightarrow> a = (b :: 'a :: len word)"
  by (auto intro: bit_word_eqI simp: bit_eq_iff bit_xor_iff)

lemma crc_bits_inj: "(crc_bit ^^ n) a = (crc_bit ^^ n) b \<longleftrightarrow> a = b"
  using crc_bits_eq_0 [of n "a XOR b"] by (simp add: crc_bits_xor xor_eq_0_iff_eq)

lemma crc_bits_low:
  assumes "\<And>j. 16 - k \<le> j \<Longrightarrow> \<not> bit c j" "n \<le> k" "k \<le> 16"
  shows "(crc_bit ^^ n) c = push_bit n c"
  using assms(2)
proof (induction n)
  case (Suc n)
  then have "(crc_bit ^^ n) c = push_bit n c" by simp
  moreover have "\<not> bit (push_bit n c) 15"
    using Suc.prems assms(1) [of "15 - n"] assms(3) by (auto simp: bit_simps)
  ultimately have "(crc_bit ^^ Suc n) c = push_bit 1 (push_bit n c)"
    using crc_bit_alt [of "push_bit n c"] by simp
  then show ?case by (simp add: push_bit_push_bit)
qed simp

section \<open>The table-driven loop is the bit-serial register\<close>

lemma crc16_table_nth: "i < 256 \<Longrightarrow> crc16_table ! i = crc_entry i"
  by (simp add: crc16_table_def)

lemma crc16_step_bits: "crc16_step crc d = (crc_bit ^^ 8) (crc XOR push_bit 8 (ucast d))"
proof -
  define idx where "idx = (ucast (drop_bit 8 crc XOR ucast d) :: u8)"
  have i: "unat idx < 256" using unsigned_less [of idx, where ?'a = nat] by simp
  have split: "crc XOR push_bit 8 (ucast d) = push_bit 8 (ucast idx) XOR (crc AND 0xFF)"
  proof (rule bit_word_eqI)
    fix n assume "n < LENGTH(16)"
    then show "bit (crc XOR push_bit 8 (ucast d)) n = bit (push_bit 8 (ucast idx) XOR (crc AND 0xFF)) n"
      by (auto simp: idx_def bit_0xFF bit_simps)
  qed
  have low: "(crc_bit ^^ 8) (crc AND 0xFF) = push_bit 8 crc"
  proof -
    have "(crc_bit ^^ 8) (crc AND 0xFF) = push_bit 8 (crc AND 0xFF)"
      by (rule crc_bits_low [of 8]) (auto simp: bit_0xFF bit_simps)
    also have "\<dots> = push_bit 8 crc"
      by (rule bit_word_eqI) (simp only: bit_push_bit_iff bit_and_iff bit_0xFF possible_bit_word, auto)
    finally show ?thesis .
  qed
  have "of_nat (unat idx) = (ucast idx :: u16)" by simp
  then have "crc16_table ! unat idx = (crc_bit ^^ 8) (push_bit 8 (ucast idx))"
    using i by (simp only: crc16_table_nth crc_entry_def)
  then show ?thesis
    unfolding split crc_bits_xor low by (simp add: crc16_step_def idx_def Let_def ac_simps)
qed

text \<open>
  The reference: a 16-bit register fed one message bit at a time, most significant bit of each
  byte first; the generator is added when the bit shifted out differs from the message bit.
\<close>

definition crc_serial :: "u16 \<Rightarrow> bool \<Rightarrow> u16" where
  "crc_serial crc b = push_bit 1 crc XOR (if bit crc 15 \<noteq> b then 0x1021 else 0)"

definition byte_bits :: "u8 \<Rightarrow> bool list" where
  "byte_bits d = map (bit d) (rev [0..<8])"

definition frame_bits :: "bytes \<Rightarrow> bool list" where
  "frame_bits f = concat (map byte_bits f)"

lemma crc_serial_bit: "crc_serial s b = crc_bit (s XOR (if b then 0x8000 else 0))"
proof -
  have "push_bit 1 (0x8000 :: u16) = 0"
    by (rule bit_word_eqI) (simp only: bit_push_bit_iff bit_0x8000 possible_bit_word bit_0_eq, auto)
  then have "crc_bit 0x8000 = 0x1021"
    unfolding crc_bit_alt using bit_0x8000 [of 15] by (simp only: if_True xor.left_neutral simp_thms)
  then show ?thesis
    by (cases b; cases "bit s 15") (simp_all add: crc_serial_def crc_bit_xor crc_bit_alt [of s] xor.assoc)
qed

text \<open>The bits fed so far, as a word aligned at the top.\<close>

fun top_bits :: "bool list \<Rightarrow> u16" where
  "top_bits [] = 0"
| "top_bits (b # bs) = (if b then 0x8000 else 0) XOR drop_bit 1 (top_bits bs)"

lemma bit_top_bits: "bit (top_bits bs) i \<longleftrightarrow> i < 16 \<and> 15 - i < length bs \<and> bs ! (15 - i)"
proof (induction bs arbitrary: i)
  case (Cons b bs)
  have step: "bit (top_bits (b # bs)) i \<longleftrightarrow> (b \<and> i = 15) \<noteq> bit (top_bits bs) (Suc i)"
    by (simp add: bit_xor_iff bit_drop_bit_eq bit_0x8000)
  consider "i < 15" | "i = 15" | "15 < i" by linarith
  then show ?case
  proof cases
    case 1
    then have "15 - i = Suc (15 - Suc i)" by simp
    with 1 show ?thesis unfolding step Cons.IH by simp
  next
    case 2
    then show ?thesis unfolding step Cons.IH by simp
  next
    case 3
    then show ?thesis unfolding step Cons.IH by simp
  qed
qed simp

lemma crc_serial_fold:
  "length bs \<le> 16 \<Longrightarrow> foldl crc_serial s bs = (crc_bit ^^ length bs) (s XOR top_bits bs)"
proof (induction bs arbitrary: s)
  case (Cons b bs)
  let ?t = "drop_bit 1 (top_bits bs)"
  have low: "\<not> bit (top_bits bs) 0" using Cons.prems by (simp add: bit_top_bits)
  have "crc_bit ?t = push_bit 1 ?t"
    using bit_top_bits [of bs 16] by (simp add: crc_bit_alt bit_drop_bit_eq)
  also have "\<dots> = top_bits bs"
  proof (rule bit_word_eqI)
    fix n assume "n < LENGTH(16)"
    then show "bit (push_bit 1 ?t) n = bit (top_bits bs) n"
      using low by (cases n) (auto simp: bit_simps)
  qed
  finally have t: "crc_bit ?t = top_bits bs" .
  have "foldl crc_serial s (b # bs) = (crc_bit ^^ length bs) (crc_serial s b XOR top_bits bs)"
    using Cons by simp
  also have "crc_serial s b XOR top_bits bs = crc_bit (s XOR top_bits (b # bs))"
    by (simp only: crc_serial_bit crc_bit_xor top_bits.simps xor.assoc t)
  finally show ?case by (simp add: funpow_swap1)
qed simp

lemma length_byte_bits [len_simps, simp]: "length (byte_bits d) = 8"
  by (simp add: byte_bits_def)

lemma byte_bits_nth: "k < 8 \<Longrightarrow> byte_bits d ! k = bit d (7 - k)"
  by (simp add: byte_bits_def rev_nth del: upt_Suc)

lemma top_bits_byte: "top_bits (byte_bits d) = push_bit 8 (ucast d)"
proof (rule bit_word_eqI)
  fix n assume "n < LENGTH(16)"
  then have "15 - n < 8 \<longleftrightarrow> 8 \<le> n" and "8 \<le> n \<Longrightarrow> 7 - (15 - n) = n - 8" and "n < 16" by auto
  then show "bit (top_bits (byte_bits d)) n = bit (push_bit 8 (ucast d) :: u16) n"
    unfolding bit_top_bits by (auto simp: byte_bits_nth bit_simps)
qed

lemma crc16_step_serial: "crc16_step s d = foldl crc_serial s (byte_bits d)"
proof -
  have "length (byte_bits d) \<le> 16" by simp
  from crc_serial_fold [OF this, of s] show ?thesis
    by (simp only: crc16_step_bits top_bits_byte length_byte_bits)
qed

lemma crc_fold_serial: "foldl crc16_step s f = foldl crc_serial s (frame_bits f)"
proof (induction f arbitrary: s)
  case (Cons d f)
  have "frame_bits (d # f) = byte_bits d @ frame_bits f" by (simp add: frame_bits_def)
  then show ?case
    by (simp only: foldl_append foldl_Cons Cons.IH) (simp only: crc16_step_serial)
qed (simp add: frame_bits_def)

section \<open>Codewords and error detection\<close>

text \<open>
  What error detection needs of a checksum register: no two register states, and no two symbols,
  are confused by a step.
\<close>

locale checksum_register =
  fixes step :: "'s \<Rightarrow> 'b \<Rightarrow> 's"
  assumes state_inj: "step s b = step s' b \<Longrightarrow> s = s'"
    and symbol_inj: "step s b = step s b' \<Longrightarrow> b = b'"
begin

lemma fold_state_inj: "foldl step s xs = foldl step s' xs \<Longrightarrow> s = s'"
  by (induction xs arbitrary: s s') (auto dest: state_inj)

lemma window_inj:
  assumes "foldl step s (pre @ w @ post) = foldl step s (pre @ w' @ post)"
    and "\<And>s. foldl step s w = foldl step s w' \<Longrightarrow> w = w'"
  shows "w = w'"
  using assms(1) by (auto dest!: fold_state_inj intro: assms(2))

lemma single_symbol:
  assumes "foldl step s xs = foldl step s (xs[i := b])" "i < length xs"
  shows "b = xs ! i"
proof -
  have "foldl step s (take i xs @ [xs ! i] @ drop (Suc i) xs) =
      foldl step s (take i xs @ [b] @ drop (Suc i) xs)"
    using assms by (simp add: upd_conv_take_nth_drop id_take_nth_drop [symmetric])
  then have "[xs ! i] = [b]" by (rule window_inj) (auto dest: symbol_inj)
  then show ?thesis by simp
qed

end

lemma top_bits_inj: "length bs = length cs \<Longrightarrow> length bs \<le> 16 \<Longrightarrow> top_bits bs = top_bits cs \<Longrightarrow> bs = cs"
proof (rule nth_equalityI)
  have nth: "bit (top_bits xs) (15 - i) = xs ! i" if "length xs \<le> 16" "i < length xs" for xs i
    using that diff_le_self [of 15 i] by (auto simp: bit_top_bits simp del: diff_le_self)
  fix i assume "length bs = length cs" "length bs \<le> 16" "top_bits bs = top_bits cs" "i < length bs"
  then show "bs ! i = cs ! i" using nth [of bs i] nth [of cs i] by simp
qed

lemma xor_left_cancel: "(a :: 'a :: len word) XOR b = a XOR c \<longleftrightarrow> b = c"
  by (metis xor.assoc xor.left_neutral xor_self_eq)

lemma xor_right_cancel: "(a :: 'a :: len word) XOR c = b XOR c \<longleftrightarrow> a = b"
  by (metis xor.assoc xor.right_neutral xor_self_eq)

lemma crc_serial_window_inj:
  assumes "foldl crc_serial s bs = foldl crc_serial s cs" "length bs = length cs" "length bs \<le> 16"
  shows "bs = cs"
proof (rule top_bits_inj [OF assms(2,3)])
  show "top_bits bs = top_bits cs"
    using assms by (simp add: crc_serial_fold crc_bits_inj xor_left_cancel)
qed

interpretation crc_serial: checksum_register crc_serial
proof
  fix s s' b assume "crc_serial s b = crc_serial s' b"
  then show "s = s'"
    using crc_bits_inj [of 1] by (simp add: crc_serial_bit xor_right_cancel)
next
  fix s b b' assume "crc_serial s b = crc_serial s b'"
  then have "[b] = [b']" using crc_serial_window_inj [of s "[b]" "[b']"] by simp
  then show "b = b'" by simp
qed

lemma byte_bits_inj: "byte_bits b = byte_bits c \<longleftrightarrow> b = c"
proof
  assume *: "byte_bits b = byte_bits c"
  show "b = c"
  proof (rule bit_word_eqI)
    fix n assume "n < LENGTH(8)"
    then have "byte_bits b ! (7 - n) = bit b n" "byte_bits c ! (7 - n) = bit c n"
      by (simp_all add: byte_bits_nth)
    then show "bit b n = bit c n" using * by simp
  qed
qed simp

interpretation crc_table: checksum_register crc16_step
proof
  fix s s' b assume "crc16_step s b = crc16_step s' b"
  then show "s = s'" unfolding crc16_step_serial by (rule crc_serial.fold_state_inj)
next
  fix s b b' assume "crc16_step s b = crc16_step s b'"
  then have "byte_bits b = byte_bits b'"
    unfolding crc16_step_serial by (rule crc_serial_window_inj) simp_all
  then show "b = b'" by (simp add: byte_bits_inj)
qed

text \<open>Feeding a register its own contents clears it, so a frame with its CRC is a codeword.\<close>

lemma crc16_two_bytes:
  "foldl crc16_step s [a, b] = (crc_bit ^^ 16) (s XOR (push_bit 8 (ucast a) OR ucast b))"
proof -
  have "length (byte_bits a @ byte_bits b) \<le> 16" by simp
  from crc_serial_fold [OF this, of s]
  have "foldl crc16_step s [a, b] = (crc_bit ^^ 16) (s XOR top_bits (byte_bits a @ byte_bits b))"
    by (simp add: crc16_step_serial del: funpow.simps)
  also have "top_bits (byte_bits a @ byte_bits b) = push_bit 8 (ucast a) OR ucast b"
  proof (rule bit_word_eqI)
    fix n assume "n < LENGTH(16)"
    then consider "8 \<le> n" "n < 16" "15 - n < 8" "7 - (15 - n) = n - 8"
      | "n < 8" "\<not> 15 - n < 8" "7 - (15 - n - 8) = n" "15 - n - 8 < 8" by fastforce
    then show "bit (top_bits (byte_bits a @ byte_bits b)) n = bit (push_bit 8 (ucast a) OR ucast b :: u16) n"
      unfolding bit_top_bits
      by cases (auto simp: byte_bits_nth nth_append bit_simps dest: bit_imp_le_length)
  qed
  finally show ?thesis .
qed

lemma crc16_residue: "foldl crc16_step s [a, b] = 0 \<longleftrightarrow> s = push_bit 8 (ucast a) OR ucast b"
  unfolding crc16_two_bytes crc_bits_eq_0 by (rule xor_eq_0_iff_eq)

lemma take_last_two:
  assumes "2 \<le> length f"
  shows "f = take (length f - 2) f @ [f ! (length f - 2), f ! (length f - 2 + 1)]"
proof -
  have "drop (length f - 2) f = f ! (length f - 2) # drop (Suc (length f - 2)) f"
    "drop (Suc (length f - 2)) f = f ! Suc (length f - 2) # drop (Suc (Suc (length f - 2))) f"
    using assms by (intro Cons_nth_drop_Suc [symmetric]; simp)+
  then have "drop (length f - 2) f = [f ! (length f - 2), f ! (length f - 2 + 1)]"
    using assms by simp
  then show ?thesis using append_take_drop_id [of "length f - 2" f] by simp
qed

lemma crc16_verify_codeword: "crc16_verify f \<longleftrightarrow> 2 \<le> length f \<and> crc16_compute f = 0"
proof (cases "2 \<le> length f")
  case True
  let ?n = "length f - 2"
  have "crc16_compute f = foldl crc16_step (crc16_compute (take ?n f)) [f ! ?n, f ! (?n + 1)]"
    unfolding crc16_compute_def by (subst take_last_two [OF True]) (simp only: foldl_append)
  then show ?thesis using True by (simp add: crc16_verify_def Let_def crc16_residue del: foldl.simps)
qed (simp add: crc16_verify_def)

text \<open>Two frames of the same length that differ only inside a window of 16 bits.\<close>

definition burst_differs :: "nat \<Rightarrow> bytes \<Rightarrow> bytes \<Rightarrow> bool" where
  "burst_differs k f g \<longleftrightarrow> length f = length g \<and> f \<noteq> g \<and>
     take k (frame_bits f) = take k (frame_bits g) \<and>
     drop (k + 16) (frame_bits f) = drop (k + 16) (frame_bits g)"

lemma length_frame_bits [len_simps]: "length (frame_bits f) = 8 * length f"
  by (induction f) (simp_all add: frame_bits_def)

lemma frame_bits_inj: "length f = length g \<Longrightarrow> frame_bits f = frame_bits g \<Longrightarrow> f = g"
proof (induction f g rule: list_induct2)
  case (Cons a f b g)
  then have "byte_bits a = byte_bits b" "frame_bits f = frame_bits g"
    by (simp_all add: frame_bits_def)
  with Cons show ?case by (simp add: byte_bits_inj)
qed simp

lemma burst_crc_differs:
  assumes "burst_differs k f g"
  shows "crc16_compute f \<noteq> crc16_compute g"
proof
  let ?w = "\<lambda>f. take 16 (drop k (frame_bits f))"
  assume eq: "crc16_compute f = crc16_compute g"
  have split: "frame_bits f = take k (frame_bits f) @ ?w f @ drop (k + 16) (frame_bits f)" for f
    by (metis add.commute append_take_drop_id drop_drop)
  from assms have len: "length f = length g"
    and pre: "take k (frame_bits f) = take k (frame_bits g)"
    and post: "drop (k + 16) (frame_bits f) = drop (k + 16) (frame_bits g)"
    by (simp_all add: burst_differs_def)
  have "foldl crc_serial 0xFFFF (take k (frame_bits f) @ ?w f @ drop (k + 16) (frame_bits f)) =
      foldl crc_serial 0xFFFF (take k (frame_bits f) @ ?w g @ drop (k + 16) (frame_bits f))"
    using eq split [of f] split [of g] by (simp only: crc16_compute_def crc_fold_serial pre post)
  then have "?w f = ?w g"
    by (rule crc_serial.window_inj) (rule crc_serial_window_inj, auto simp: length_frame_bits len)
  then have "frame_bits f = frame_bits g"
    using split [of f] split [of g] pre post by simp
  with assms show False using frame_bits_inj len by (auto simp: burst_differs_def)
qed

definition crc_trailer :: "u16 \<Rightarrow> bytes" where
  "crc_trailer c = [ucast (drop_bit 8 c), ucast c]"

lemma length_crc_trailer [len_simps, simp]: "length (crc_trailer c) = 2"
  by (simp add: crc_trailer_def)

lemma crc16_append_blit:
  "n + 2 \<le> length buf \<Longrightarrow>
   crc16_append buf n = blit n (crc_trailer (crc16_compute (take n buf))) buf"
  by (simp add: crc16_append_def Let_def crc_trailer_def blit_single [symmetric] blit_append
      blit_append [of n "[_]" "[_]", simplified])

lemma crc16_trailer_verify: "crc16_verify (xs @ crc_trailer (crc16_compute xs))"
proof -
  let ?c = "crc16_compute xs"
  have "push_bit 8 (ucast (ucast (drop_bit 8 ?c) :: u8)) OR ucast (ucast ?c :: u8) = ?c"
    by (rule bit_word_eqI) (auto simp: bit_simps)
  then have "foldl crc16_step ?c (crc_trailer ?c) = 0"
    unfolding crc_trailer_def crc16_residue by (rule sym)
  then show ?thesis by (simp add: crc16_verify_codeword) (simp add: crc16_compute_def)
qed

lemma crc16_append_take:
  "n + 2 \<le> length buf \<Longrightarrow>
   take (n + 2) (crc16_append buf n) = take n buf @ crc_trailer (crc16_compute (take n buf))"
  using take_blit [of n "crc_trailer (crc16_compute (take n buf))" buf]
  by (simp add: crc16_append_blit)

end
