(* ===== verification/Sha256.thy ===== *)
theory Sha256
  imports Prelude "HOL-Library.While_Combinator"
begin

text \<open>
  The streaming SHA-256 of \<open>security/sha256.hpp\<close>: the context with its 64-byte buffer, \<open>update\<close>'s
  copy loop (kept as a \<open>while\<close> loop over the remaining data and the context), \<open>finalize\<close>'s padding
  and the compression function.  The lemmas show that the loop stops, that feeding data in pieces
  is feeding it at once, and that the digest is the compression folded over the padded message.
\<close>

section \<open>The code\<close>

record sha256 =
  sha_state :: "u32 list"
  sha_buf :: bytes
  sha_buf_len :: nat
  sha_count :: u64

definition BLOCK_SIZE :: nat where [simp]: "BLOCK_SIZE = 64"
definition DIGEST_SIZE :: nat where [simp]: "DIGEST_SIZE = 32"

definition sha_reset :: "sha256 \<Rightarrow> sha256" where
  "sha_reset s = s\<lparr> sha_state :=
       [0x6a09e667, 0xbb67ae85, 0x3c6ef372, 0xa54ff53a,
        0x510e527f, 0x9b05688c, 0x1f83d9ab, 0x5be0cd19],
     sha_count := 0, sha_buf_len := 0 \<rparr>"

definition sha_init :: sha256 where
  "sha_init = sha_reset \<lparr> sha_state = replicate 8 0, sha_buf = replicate BLOCK_SIZE 0,
     sha_buf_len = 0, sha_count = 0 \<rparr>"

definition K256 :: "u32 list" where
  "K256 = concat [
      [0x428a2f98, 0x71374491, 0xb5c0fbcf, 0xe9b5dba5, 0x3956c25b, 0x59f111f1, 0x923f82a4, 0xab1c5ed5],
      [0xd807aa98, 0x12835b01, 0x243185be, 0x550c7dc3, 0x72be5d74, 0x80deb1fe, 0x9bdc06a7, 0xc19bf174],
      [0xe49b69c1, 0xefbe4786, 0x0fc19dc6, 0x240ca1cc, 0x2de92c6f, 0x4a7484aa, 0x5cb0a9dc, 0x76f988da],
      [0x983e5152, 0xa831c66d, 0xb00327c8, 0xbf597fc7, 0xc6e00bf3, 0xd5a79147, 0x06ca6351, 0x14292967],
      [0x27b70a85, 0x2e1b2138, 0x4d2c6dfc, 0x53380d13, 0x650a7354, 0x766a0abb, 0x81c2c92e, 0x92722c85],
      [0xa2bfe8a1, 0xa81a664b, 0xc24b8b70, 0xc76c51a3, 0xd192e819, 0xd6990624, 0xf40e3585, 0x106aa070],
      [0x19a4c116, 0x1e376c08, 0x2748774c, 0x34b0bcb5, 0x391c0cb3, 0x4ed8aa4a, 0x5b9cca4f, 0x682e6ff3],
      [0x748f82ee, 0x78a5636f, 0x84c87814, 0x8cc70208, 0x90befffa, 0xa4506ceb, 0xbef9a3f7, 0xc67178f2]]"

definition rotr :: "u32 \<Rightarrow> nat \<Rightarrow> u32" where
  "rotr x n = drop_bit n x OR push_bit (32 - n) x"
definition ch :: "u32 \<Rightarrow> u32 \<Rightarrow> u32 \<Rightarrow> u32" where
  "ch x y z = (x AND y) XOR (NOT x AND z)"
definition maj :: "u32 \<Rightarrow> u32 \<Rightarrow> u32 \<Rightarrow> u32" where
  "maj x y z = (x AND y) XOR (x AND z) XOR (y AND z)"
definition sigma0 :: "u32 \<Rightarrow> u32" where
  "sigma0 x = rotr x 2 XOR rotr x 13 XOR rotr x 22"
definition sigma1 :: "u32 \<Rightarrow> u32" where
  "sigma1 x = rotr x 6 XOR rotr x 11 XOR rotr x 25"
definition gamma0 :: "u32 \<Rightarrow> u32" where
  "gamma0 x = rotr x 7 XOR rotr x 18 XOR drop_bit 3 x"
definition gamma1 :: "u32 \<Rightarrow> u32" where
  "gamma1 x = rotr x 17 XOR rotr x 19 XOR drop_bit 10 x"

text \<open>The message schedule \<open>W\<close>: sixteen words of the block, then 48 derived ones.\<close>

definition block_word :: "bytes \<Rightarrow> nat \<Rightarrow> u32" where
  "block_word block i =
     push_bit 24 (ucast (block ! (i * 4 + 0))) OR push_bit 16 (ucast (block ! (i * 4 + 1))) OR
     push_bit 8 (ucast (block ! (i * 4 + 2))) OR ucast (block ! (i * 4 + 3))"

definition schedule_step :: "nat \<Rightarrow> u32 list \<Rightarrow> u32 list" where
  "schedule_step i W = W @ [gamma1 (W ! (i - 2)) + W ! (i - 7) + gamma0 (W ! (i - 15)) + W ! (i - 16)]"

definition schedule :: "bytes \<Rightarrow> u32 list" where
  "schedule block = fold schedule_step [16..<64] (map (block_word block) [0..<16])"

text \<open>One round on the working variables \<open>a..h\<close>.\<close>

definition round_step :: "u32 list \<Rightarrow> nat \<Rightarrow> u32 list \<Rightarrow> u32 list" where
  "round_step W i v =
     (let a = v!0; b = v!1; c = v!2; d = v!3; e = v!4; f = v!5; g = v!6; h = v!7;
          t1 = h + sigma1 e + ch e f g + K256 ! i + W ! i;
          t2 = sigma0 a + maj a b c
      in [t1 + t2, a, b, c, d + t1, e, f, g])"

definition compress :: "bytes \<Rightarrow> u32 list \<Rightarrow> u32 list" where
  "compress block st =
     map2 (+) st (let W = schedule block in fold (round_step W) [0..<64] st)"

definition transform :: "bytes \<Rightarrow> sha256 \<Rightarrow> sha256" where
  "transform block s = s\<lparr> sha_state := compress block (sha_state s) \<rparr>"

text \<open>One iteration of the copy loop of \<open>update\<close>: the data still to feed, and the context.\<close>

definition update_body :: "bytes \<times> sha256 \<Rightarrow> bytes \<times> sha256" where
  "update_body ds =
     (let (data, s) = ds;
          space = BLOCK_SIZE - sha_buf_len s;
          n = (if length data < space then length data else space);
          s1 = s\<lparr> sha_buf := blit (sha_buf_len s) (take n data) (sha_buf s),
                  sha_buf_len := sha_buf_len s + n,
                  sha_count := sha_count s + of_nat n \<rparr>;
          s2 = (if sha_buf_len s1 = BLOCK_SIZE
                then (transform (sha_buf s1) s1)\<lparr> sha_buf_len := 0 \<rparr> else s1)
      in (drop n data, s2))"

definition sha_update :: "bytes \<Rightarrow> sha256 \<Rightarrow> sha256" where
  "sha_update data s = snd (while (\<lambda>(d, _). d \<noteq> []) update_body (data, s))"

text \<open>\<open>while (buf_len_ < n) buf_[buf_len_++] = 0;\<close>\<close>

definition zero_fill :: "nat \<Rightarrow> sha256 \<Rightarrow> sha256" where
  "zero_fill n s = s\<lparr> sha_buf := blit (sha_buf_len s) (replicate (n - sha_buf_len s) 0) (sha_buf s),
                      sha_buf_len := max n (sha_buf_len s) \<rparr>"

definition push_bytes :: "bytes \<Rightarrow> sha256 \<Rightarrow> sha256" where
  "push_bytes xs s = s\<lparr> sha_buf := blit (sha_buf_len s) xs (sha_buf s),
                        sha_buf_len := sha_buf_len s + length xs \<rparr>"

definition length_bytes :: "u64 \<Rightarrow> bytes" where
  "length_bytes total_bits = map (\<lambda>i. ucast (drop_bit (i * 8) total_bits)) (rev [0..<8])"

definition digest_bytes :: "u32 list \<Rightarrow> bytes" where
  "digest_bytes st =
     concat (map (\<lambda>w. [ucast (drop_bit 24 w), ucast (drop_bit 16 w), ucast (drop_bit 8 w), ucast w]) st)"

definition sha_finalize :: "sha256 \<Rightarrow> bytes" where
  "sha_finalize s =
     (let total_bits = sha_count s * 8;
          s1 = push_bytes [0x80] s;
          s2 = (if sha_buf_len s1 > 56
                then let z = zero_fill BLOCK_SIZE s1 in (transform (sha_buf z) z)\<lparr> sha_buf_len := 0 \<rparr>
                else s1);
          s3 = zero_fill 56 s2;
          s4 = push_bytes (length_bytes total_bits) s3;
          s5 = transform (sha_buf s4) s4
      in digest_bytes (sha_state s5))"

definition sha_hash :: "bytes \<Rightarrow> bytes" where
  "sha_hash data = sha_finalize (sha_update data sha_init)"

section \<open>Feeding one byte at a time\<close>

definition sha_wf :: "sha256 \<Rightarrow> bool" where
  "sha_wf s \<longleftrightarrow> length (sha_buf s) = 64 \<and> sha_buf_len s < 64"

definition feed :: "u8 \<Rightarrow> sha256 \<Rightarrow> sha256" where
  "feed b s =
     (let s1 = (push_bytes [b] s)\<lparr> sha_count := sha_count s + 1 \<rparr>
      in if sha_buf_len s1 = 64 then (transform (sha_buf s1) s1)\<lparr> sha_buf_len := 0 \<rparr> else s1)"

lemma sha_wf_init [simp]: "sha_wf sha_init"
  by (simp add: sha_wf_def sha_init_def sha_reset_def)

lemma sha_wf_feed [simp]: "sha_wf s \<Longrightarrow> sha_wf (feed b s)"
  by (auto simp: sha_wf_def feed_def Let_def push_bytes_def transform_def)

lemma sha_wf_feeds [simp]: "sha_wf s \<Longrightarrow> sha_wf (fold feed xs s)"
  by (induction xs arbitrary: s) simp_all

text \<open>Bytes that leave the buffer unfilled are just appended to it.\<close>

lemma feeds_append:
  "sha_wf s \<Longrightarrow> sha_buf_len s + length xs < 64 \<Longrightarrow>
   fold feed xs s = (push_bytes xs s)\<lparr> sha_count := sha_count s + of_nat (length xs) \<rparr>"
proof (induction xs arbitrary: s)
  case Nil
  show ?case by (simp add: push_bytes_def)
next
  case (Cons x xs)
  have f: "feed x s = (push_bytes [x] s)\<lparr> sha_count := sha_count s + 1 \<rparr>"
    using Cons.prems by (simp add: feed_def push_bytes_def Let_def)
  have "fold feed (x # xs) s =
      (push_bytes xs (feed x s))\<lparr> sha_count := sha_count (feed x s) + of_nat (length xs) \<rparr>"
    using Cons.prems Cons.IH [of "feed x s"] by (simp add: f push_bytes_def sha_wf_def)
  also have "\<dots> = (push_bytes (x # xs) s)\<lparr> sha_count := sha_count s + of_nat (length (x # xs)) \<rparr>"
    using Cons.prems blit_append [of "sha_buf_len s" "[x]" xs "sha_buf s"]
    by (simp add: f push_bytes_def sha_wf_def add.assoc)
  finally show ?case .
qed

lemma update_body_feeds:
  assumes "sha_wf s"
  shows "update_body (data, s) =
    (drop (64 - sha_buf_len s) data, fold feed (take (64 - sha_buf_len s) data) s)"
proof -
  let ?n = "64 - sha_buf_len s"
  have len: "length (sha_buf s) = 64" "sha_buf_len s < 64" using assms by (auto simp: sha_wf_def)
  show ?thesis
  proof (cases "length data < ?n")
    case True
    then have "fold feed data s = (push_bytes data s)\<lparr> sha_count := sha_count s + of_nat (length data) \<rparr>"
      using assms by (intro feeds_append) auto
    then show ?thesis using True len by (simp add: update_body_def Let_def push_bytes_def)
  next
    case False
    define xs where "xs = take (?n - 1) data"
    define x where "x = data ! (?n - 1)"
    have n: "?n = Suc (?n - 1)" "?n - 1 < length data" using False len by auto
    then have t: "take ?n data = xs @ [x]"
      using take_Suc_conv_app_nth [OF n(2)] by (simp add: xs_def x_def)
    have l: "length xs = ?n - 1" using n by (simp add: xs_def)
    have f: "fold feed xs s = (push_bytes xs s)\<lparr> sha_count := sha_count s + of_nat (length xs) \<rparr>"
      using assms l len by (intro feeds_append) auto
    have b: "blit (sha_buf_len s + length xs) [x] (blit (sha_buf_len s) xs (sha_buf s)) =
        blit (sha_buf_len s) (xs @ [x]) (sha_buf s)"
      using l len by (intro blit_append) auto
    have "\<not> length data < ?n" using False .
    moreover have l': "sha_buf_len s + length xs = 63" using l len by simp
    note b [unfolded l']
    ultimately show ?thesis
      using l len l' by (simp add: update_body_def Let_def t f feed_def push_bytes_def transform_def algebra_simps)
  qed
qed

lemma drop_shorter: "d \<noteq> [] \<Longrightarrow> n < 64 \<Longrightarrow> length (drop (64 - n) d) < length d"
  by (cases d) simp_all

lemma update_loop_terminates:
  assumes "sha_wf s"
  shows "\<exists>t. while_option (\<lambda>(d, _). d \<noteq> []) update_body (data, s) = Some t"
proof (rule measure_while_option_Some [where P = "\<lambda>(d, s). sha_wf s" and f = "\<lambda>(d, s). length d"])
  fix ds :: "bytes \<times> sha256"
  assume "case ds of (d, s) \<Rightarrow> sha_wf s" "case ds of (d, _) \<Rightarrow> d \<noteq> []"
  then show "(case update_body ds of (d, s) \<Rightarrow> sha_wf s) \<and>
      (case update_body ds of (d, s) \<Rightarrow> length d) < (case ds of (d, s) \<Rightarrow> length d)"
    using drop_shorter [of "fst ds" "sha_buf_len (snd ds)"]
    by (cases ds) (simp add: update_body_feeds, simp add: sha_wf_def)
qed (use assms in simp)

lemma sha_update_feeds:
  assumes "sha_wf s"
  shows "sha_update data s = fold feed data s"
  unfolding sha_update_def
proof (rule while_rule [where P = "\<lambda>(d, t). sha_wf t \<and> fold feed d t = fold feed data s"
      and r = "measure (\<lambda>(d, _). length d)"])
  fix ds :: "bytes \<times> sha256"
  assume P: "case ds of (d, t) \<Rightarrow> sha_wf t \<and> fold feed d t = fold feed data s"
    and b: "case ds of (d, _) \<Rightarrow> d \<noteq> []"
  obtain d t where ds: "ds = (d, t)" by fastforce
  let ?n = "64 - sha_buf_len t"
  have "fold feed (drop ?n d) (fold feed (take ?n d) t) = fold feed (take ?n d @ drop ?n d) t"
    by (simp only: fold_append comp_apply)
  then show "case update_body ds of (d, t) \<Rightarrow> sha_wf t \<and> fold feed d t = fold feed data s"
    using P by (simp add: ds update_body_feeds)
  show "(update_body ds, ds) \<in> measure (\<lambda>(d, _). length d)"
    using P b drop_shorter [of d "sha_buf_len t"] by (simp add: ds update_body_feeds) (simp add: sha_wf_def)
qed (use assms in auto)

lemma sha_wf_update [simp]: "sha_wf s \<Longrightarrow> sha_wf (sha_update data s)"
  by (simp add: sha_update_feeds)

lemma sha_update_append: "sha_wf s \<Longrightarrow> sha_update (xs @ ys) s = sha_update ys (sha_update xs s)"
  by (simp add: sha_update_feeds)

section \<open>The digest is the compression folded over the padded message\<close>

definition sha_blocks :: "bytes \<Rightarrow> bytes list" where
  "sha_blocks xs = map (\<lambda>i. take 64 (drop (64 * i) xs)) [0..<length xs div 64]"

definition initial_hash :: "u32 list" where
  "initial_hash = sha_state sha_init"

text \<open>FIPS 180-4 padding: a one bit, zeros up to 56 modulo 64 bytes, and the length in bits.\<close>

definition sha_pad :: "bytes \<Rightarrow> bytes" where
  "sha_pad xs = xs @ [0x80] @ replicate ((119 - length xs mod 64) mod 64) 0
     @ length_bytes (of_nat (length xs) * 8)"

definition sha_spec :: "bytes \<Rightarrow> bytes" where
  "sha_spec xs = digest_bytes (fold compress (sha_blocks (sha_pad xs)) initial_hash)"

lemma sha_blocks_append:
  assumes "length xs = 64 * q"
  shows "sha_blocks (xs @ ys) = sha_blocks xs @ sha_blocks ys"
proof -
  let ?f = "\<lambda>zs i. take 64 (drop (64 * i) zs)"
  have d: "length (xs @ ys) div 64 = q + length ys div 64" "length xs div 64 = q" using assms by simp_all
  have u: "[0..<q + length ys div 64] = [0..<q] @ map (\<lambda>i. i + q) [0..<length ys div 64]"
    using upt_add_eq_append [OF le0, of q "length ys div 64"] map_add_upt [of q "length ys div 64"]
    by (simp only: add.commute [of q])
  have 1: "map (?f (xs @ ys)) [0..<q] = map (?f xs) [0..<q]"
    by (rule map_cong [OF refl]) (use assms in auto)
  have 2: "map (\<lambda>i. ?f (xs @ ys) (i + q)) [0..<length ys div 64] = map (?f ys) [0..<length ys div 64]"
    by (rule map_cong [OF refl]) (use assms in \<open>simp add: distrib_left\<close>)
  show ?thesis
    unfolding sha_blocks_def d u map_append map_map comp_def 1 2 ..
qed

lemma sha_blocks_one: "length b = 64 \<Longrightarrow> sha_blocks b = [b]"
  by (simp add: sha_blocks_def)

lemma mod_64_wrap:
  "n mod 64 = 63 \<Longrightarrow> Suc n mod 64 = 0 \<and> Suc n div 64 = Suc (n div 64) \<and> Suc n = 64 * Suc (n div 64)"
  "n mod 64 \<noteq> 63 \<Longrightarrow> n mod 64 < 63 \<and> Suc n mod 64 = Suc (n mod 64) \<and> Suc n div 64 = n div 64"
proof -
  assume *: "n mod 64 = 63"
  then have "Suc n mod 64 = 0" "Suc n div 64 = Suc (n div 64)" by (simp_all add: mod_Suc div_Suc)
  then show "Suc n mod 64 = 0 \<and> Suc n div 64 = Suc (n div 64) \<and> Suc n = 64 * Suc (n div 64)"
    using div_mult_mod_eq [of "Suc n" 64] by simp
next
  assume *: "n mod 64 \<noteq> 63"
  have "n mod 64 < 64" by simp
  with * have "n mod 64 < 63" by linarith
  with * show "n mod 64 < 63 \<and> Suc n mod 64 = Suc (n mod 64) \<and> Suc n div 64 = n div 64"
    by (simp add: mod_Suc div_Suc)
qed

text \<open>What the context holds after any amount of data.\<close>

lemma feeds_state:
  defines "s xs \<equiv> fold feed xs sha_init" and "q xs \<equiv> length xs div 64"
  shows "sha_buf_len (s xs) = length xs mod 64"
    and "take (length xs mod 64) (sha_buf (s xs)) = drop (64 * q xs) xs"
    and "sha_state (s xs) = fold compress (sha_blocks (take (64 * q xs) xs)) initial_hash"
    and "sha_count (s xs) = of_nat (length xs)"
proof (induction xs rule: rev_induct)
  case Nil
  show "sha_buf_len (s []) = length [] mod 64" "take (length [] mod 64) (sha_buf (s [])) = drop (64 * q []) []"
    "sha_state (s []) = fold compress (sha_blocks (take (64 * q []) [])) initial_hash"
    "sha_count (s []) = of_nat (length [])"
    by (simp_all add: s_def q_def sha_init_def sha_reset_def initial_hash_def sha_blocks_def)
next
  case (snoc x xs)
  let ?r = "length xs mod 64"
  have S: "s (xs @ [x]) = feed x (s xs)" by (simp add: s_def)
  have wf: "sha_wf (s xs)" by (simp add: s_def)
  have len: "length (sha_buf (s xs)) = 64" "sha_buf_len (s xs) = ?r" "?r < 64"
    using wf snoc by (simp_all add: sha_wf_def)
  have buf: "take (Suc ?r) (blit ?r [x] (sha_buf (s xs))) = drop (64 * q xs) xs @ [x]"
    using take_blit [of ?r "[x]" "sha_buf (s xs)"] len snoc by simp
  have d: "64 * q xs \<le> length xs" by (simp add: q_def)
  show "sha_count (s (xs @ [x])) = of_nat (length (xs @ [x]))"
    using snoc by (simp add: S feed_def Let_def push_bytes_def transform_def)
  consider "?r = 63" "length (xs @ [x]) mod 64 = 0" "q (xs @ [x]) = Suc (q xs)" "Suc (length xs) = 64 * Suc (q xs)"
    | "?r < 63" "length (xs @ [x]) mod 64 = Suc ?r" "q (xs @ [x]) = q xs"
    using mod_64_wrap [of "length xs"] by (cases "length xs mod 64 = 63") (auto simp: q_def)
  then show "sha_buf_len (s (xs @ [x])) = length (xs @ [x]) mod 64"
    and "take (length (xs @ [x]) mod 64) (sha_buf (s (xs @ [x]))) = drop (64 * q (xs @ [x])) (xs @ [x])"
    and "sha_state (s (xs @ [x])) = fold compress (sha_blocks (take (64 * q (xs @ [x])) (xs @ [x]))) initial_hash"
  proof (atomize (full), cases)
    case 1
    have b: "blit ?r [x] (sha_buf (s xs)) = drop (64 * q xs) xs @ [x]"
      using buf len 1(1) by simp
    have l: "length (take (64 * q xs) xs) = 64 * q xs" using d by simp
    have "sha_blocks (xs @ [x]) = sha_blocks (take (64 * q xs) xs) @ [drop (64 * q xs) xs @ [x]]"
      using sha_blocks_append [OF l, of "drop (64 * q xs) xs @ [x]"] 1(4) d
      by (simp add: sha_blocks_one append_assoc [symmetric] del: append_assoc)
    then show "sha_buf_len (s (xs @ [x])) = length (xs @ [x]) mod 64 \<and>
      take (length (xs @ [x]) mod 64) (sha_buf (s (xs @ [x]))) = drop (64 * q (xs @ [x])) (xs @ [x]) \<and>
      sha_state (s (xs @ [x])) = fold compress (sha_blocks (take (64 * q (xs @ [x])) (xs @ [x]))) initial_hash"
      using 1 len snoc(3) b by (simp add: S feed_def Let_def push_bytes_def transform_def)
  next
    case 2
    then show "sha_buf_len (s (xs @ [x])) = length (xs @ [x]) mod 64 \<and>
      take (length (xs @ [x]) mod 64) (sha_buf (s (xs @ [x]))) = drop (64 * q (xs @ [x])) (xs @ [x]) \<and>
      sha_state (s (xs @ [x])) = fold compress (sha_blocks (take (64 * q (xs @ [x])) (xs @ [x]))) initial_hash"
      using len snoc(3) buf d by (simp add: S feed_def Let_def push_bytes_def transform_def)
  qed
qed

lemma length_length_bytes [len_simps, simp]: "length (length_bytes n) = 8"
  by (simp add: length_bytes_def)

lemma push_bytes_push_bytes:
  "sha_buf_len s + length xs + length ys \<le> length (sha_buf s) \<Longrightarrow>
   push_bytes ys (push_bytes xs s) = push_bytes (xs @ ys) s"
  by (simp add: push_bytes_def blit_append add.assoc)

lemma zero_fill_push: "sha_buf_len s \<le> n \<Longrightarrow> zero_fill n s = push_bytes (replicate (n - sha_buf_len s) 0) s"
  by (simp add: zero_fill_def push_bytes_def)

lemma push_bytes_fields [simp]:
  "sha_buf_len (push_bytes xs s) = sha_buf_len s + length xs"
  "sha_state (push_bytes xs s) = sha_state s" "sha_count (push_bytes xs s) = sha_count s"
  by (simp_all add: push_bytes_def)

lemma push_bytes_full:
  assumes "sha_buf_len s + length xs = length (sha_buf s)"
  shows "sha_buf (push_bytes xs s) = take (sha_buf_len s) (sha_buf s) @ xs"
  using assms take_blit [of "sha_buf_len s" xs "sha_buf s"] by (simp add: push_bytes_def)

text \<open>Both branches of the padding, by where the buffered tail ends.\<close>

lemma finalize_one_block:
  assumes "length (sha_buf s) = 64" "sha_buf_len s < 56"
  shows "sha_finalize s = digest_bytes (compress (take (sha_buf_len s) (sha_buf s) @ [0x80]
    @ replicate (55 - sha_buf_len s) 0 @ length_bytes (sha_count s * 8)) (sha_state s))"
proof -
  let ?r = "sha_buf_len s"
  have z: "zero_fill 56 (push_bytes [0x80] s) = push_bytes ([0x80] @ replicate (55 - ?r) 0) s"
    using assms by (simp add: zero_fill_push push_bytes_push_bytes)
  have p: "push_bytes (length_bytes (sha_count s * 8)) (push_bytes ([0x80] @ replicate (55 - ?r) 0) s) =
      push_bytes (([0x80] @ replicate (55 - ?r) 0) @ length_bytes (sha_count s * 8)) s"
    using assms by (intro push_bytes_push_bytes) simp
  show ?thesis
    using assms by (simp add: sha_finalize_def Let_def z p transform_def push_bytes_full del: append_Cons append_assoc)
      simp
qed

lemma finalize_two_blocks:
  assumes "length (sha_buf s) = 64" "56 \<le> sha_buf_len s" "sha_buf_len s < 64"
  shows "sha_finalize s = digest_bytes (compress (replicate 56 0 @ length_bytes (sha_count s * 8))
    (compress (take (sha_buf_len s) (sha_buf s) @ [0x80] @ replicate (63 - sha_buf_len s) 0) (sha_state s)))"
proof -
  let ?r = "sha_buf_len s"
  define z where "z = zero_fill 64 (push_bytes [0x80] s)"
  define t where "t = (transform (sha_buf z) z)\<lparr>sha_buf_len := 0\<rparr>"
  have z: "z = push_bytes ([0x80] @ replicate (63 - ?r) 0) s"
    using assms unfolding z_def by (simp add: zero_fill_push push_bytes_push_bytes)
  have buf: "sha_buf z = take ?r (sha_buf s) @ [0x80] @ replicate (63 - ?r) 0"
    unfolding z using assms by (subst push_bytes_full) simp_all
  have t: "length (sha_buf t) = 64" "sha_buf_len t = 0" "sha_count t = sha_count s"
    "sha_state t = compress (sha_buf z) (sha_state s)"
    using assms buf by (simp_all add: t_def transform_def z del: append_Cons)
  have p: "push_bytes (length_bytes (sha_count s * 8)) (zero_fill 56 t) =
      push_bytes (replicate 56 0 @ length_bytes (sha_count s * 8)) t"
    using t by (simp add: zero_fill_push push_bytes_push_bytes)
  have full: "sha_buf (push_bytes (replicate 56 0 @ length_bytes (sha_count s * 8)) t) =
      replicate 56 0 @ length_bytes (sha_count s * 8)"
    using t by (subst push_bytes_full) simp_all
  have "56 < sha_buf_len (push_bytes [0x80] s)" using assms by simp
  then have "sha_finalize s = digest_bytes (sha_state (transform
      (sha_buf (push_bytes (length_bytes (sha_count s * 8)) (zero_fill 56 t)))
      (push_bytes (length_bytes (sha_count s * 8)) (zero_fill 56 t))))"
    by (simp only: sha_finalize_def Let_def if_True BLOCK_SIZE_def z_def [symmetric] t_def [symmetric])
  then show ?thesis unfolding p full by (simp only: transform_def t buf) (simp add: t buf)
qed

lemma sha_finalize_feeds: "sha_finalize (fold feed xs sha_init) = sha_spec xs"
proof -
  define s where "s = fold feed xs sha_init"
  define q where "q = length xs div 64"
  define r where "r = length xs mod 64"
  define lb where "lb = length_bytes (of_nat (length xs) * 8)"
  let ?H = "fold compress (sha_blocks (take (64 * q) xs)) initial_hash"
  have st: "sha_buf_len s = r" "take r (sha_buf s) = drop (64 * q) xs" "sha_state s = ?H"
      "sha_count s = of_nat (length xs)"
    using feeds_state [of xs] by (simp_all add: s_def q_def r_def)
  have len: "length (sha_buf s) = 64" "r < 64" "length (drop (64 * q) xs) = r" "length (take (64 * q) xs) = 64 * q"
    using sha_wf_feeds [OF sha_wf_init, of xs]
    by (simp_all add: s_def sha_wf_def r_def q_def minus_mult_div_eq_mod)
  have pad: "sha_pad xs = take (64 * q) xs @ drop (64 * q) xs @ [0x80] @ replicate ((119 - r) mod 64) 0 @ lb"
    by (simp add: sha_pad_def r_def lb_def)
  show ?thesis
  proof (cases "r < 56")
    case True
    then have "(119 - r) mod 64 = 55 - r"
      using mod_add_self2 [of "55 - r" 64] by simp
    then have "sha_blocks (sha_pad xs) = sha_blocks (take (64 * q) xs)
        @ [drop (64 * q) xs @ [0x80] @ replicate (55 - r) 0 @ lb]"
      unfolding pad using len True
      by (subst sha_blocks_append [OF len(4)]) (simp add: sha_blocks_one lb_def)
    moreover have "sha_finalize s = digest_bytes (compress (drop (64 * q) xs @ [0x80] @ replicate (55 - r) 0 @ lb) ?H)"
      using finalize_one_block [of s] len True st by (simp add: lb_def)
    ultimately show ?thesis by (simp add: sha_spec_def s_def)
  next
    case False
    let ?b1 = "drop (64 * q) xs @ [0x80] @ replicate (63 - r) 0"
    let ?b2 = "replicate 56 0 @ lb"
    have m: "(119 - r) mod 64 = (63 - r) + 56" using False len(2) by simp
    have "sha_pad xs = take (64 * q) xs @ ?b1 @ ?b2"
      unfolding pad m replicate_add by simp
    moreover have "sha_blocks (?b1 @ ?b2) = [?b1, ?b2]"
    proof -
      have l1: "length ?b1 = 64" and l2: "length ?b2 = 64"
        using len by (simp_all add: lb_def)
      have split: "sha_blocks (?b1 @ ?b2) = sha_blocks ?b1 @ sha_blocks ?b2"
        using l1 by (intro sha_blocks_append [of _ 1]) (simp only: mult_1_right)
      show ?thesis unfolding split sha_blocks_one [OF l1] sha_blocks_one [OF l2] by simp
    qed
    ultimately have "sha_blocks (sha_pad xs) = sha_blocks (take (64 * q) xs) @ [?b1, ?b2]"
      by (simp only: sha_blocks_append [OF len(4)])
    moreover have "sha_finalize s = digest_bytes (compress ?b2 (compress ?b1 ?H))"
      using finalize_two_blocks [of s] len False st by (simp add: lb_def)
    ultimately show ?thesis by (simp add: sha_spec_def s_def)
  qed
qed

lemma sha_hash_spec: "sha_hash xs = sha_spec xs"
  by (simp add: sha_hash_def sha_update_feeds sha_finalize_feeds)

lemma sha_finalize_update: "sha_finalize (sha_update ys (sha_update xs sha_init)) = sha_hash (xs @ ys)"
  by (simp add: sha_hash_def sha_update_append)

lemma length_digest_bytes [len_simps, simp]: "length (digest_bytes st) = 4 * length st"
  by (induction st) (simp_all add: digest_bytes_def)

lemma length_round: "length v = 8 \<Longrightarrow> length (fold (round_step W) is v) = 8"
  by (induction "is" arbitrary: v) (simp_all add: round_step_def Let_def)

lemma length_compress [len_simps]: "length st = 8 \<Longrightarrow> length (compress b st) = 8"
  by (simp add: compress_def Let_def length_round)

lemma length_sha_hash [len_simps, simp]: "length (sha_hash xs) = 32"
proof -
  have "length (fold compress bs st) = 8" if "length st = 8" for bs st
    using that by (induction bs arbitrary: st) (simp_all add: length_compress)
  moreover have "length initial_hash = 8"
    by (simp add: initial_hash_def sha_init_def sha_reset_def)
  ultimately show ?thesis by (simp add: sha_hash_spec sha_spec_def)
qed

end
