(* ===== verification/Fips180.thy ===== *)
theory Fips180
  imports Sha256
begin

text \<open>
  SHA-256 as FIPS 180-4 defines it, written from the standard and not from the code: the constants as
  fractional parts of roots of the first primes (sections 4.2.2, 5.3.3), the functions (4.1.2), the padding (5.1.1),
  the schedule as a recursion and the rounds on eight variables (6.2.2).  The lemmas show that the tables
  and the compression function of \<open>security/sha256.hpp\<close> are these.
\<close>

unbundle bit_operations_syntax

section \<open>Constants\<close>

text \<open>The sieve of Eratosthenes.\<close>

function sieve :: "int list \<Rightarrow> int list" where
  "sieve [] = []"
| "sieve (p # xs) = p # sieve (filter (\<lambda>n. n mod p \<noteq> 0) xs)"
  by pat_completeness auto
termination by (relation "measure length") (simp_all add: le_imp_less_Suc)

definition first_primes :: "int list" where
  "first_primes = sieve [2..311]"

text \<open>The integer \<open>k\<close>-th root, bit by bit.\<close>

definition root_bit :: "nat \<Rightarrow> int \<Rightarrow> nat \<Rightarrow> int \<Rightarrow> int" where
  "root_bit k n b r = (if (r + 2 ^ b) ^ k \<le> n then r + 2 ^ b else r)"

definition floor_root :: "nat \<Rightarrow> int \<Rightarrow> int" where
  "floor_root k n = fold (root_bit k n) (rev [0..<36]) 0"

lemma root_bits:
  assumes "0 < k" "0 \<le> r" "r ^ k \<le> n" "n < (r + 2 ^ b) ^ k"
  shows "let s = fold (root_bit k n) (rev [0..<b]) r in 0 \<le> s \<and> s ^ k \<le> n \<and> n < (s + 1) ^ k"
  using assms(2-4)
proof (induction b arbitrary: r)
  case (Suc b)
  have "r + 2 ^ Suc b = r + 2 ^ b + 2 ^ b" by simp
  note n = Suc.prems(3) [unfolded this]
  show ?case
  proof (cases "(r + 2 ^ b) ^ k \<le> n")
    case True
    then show ?thesis using Suc.IH [OF _ True n] Suc.prems(1) by (simp add: root_bit_def)
  next
    case False
    then show ?thesis using Suc.IH [OF Suc.prems(1,2)] by (simp add: root_bit_def)
  qed
qed simp

lemma floor_root:
  assumes "0 < k" "0 \<le> n" "n < 2 ^ (36 * k)"
  shows "0 \<le> floor_root k n" "floor_root k n ^ k \<le> n" "n < (floor_root k n + 1) ^ k"
  using root_bits [of k 0 n 36] assms by (simp_all add: floor_root_def Let_def power_mult zero_power)

text \<open>The first 32 bits of the fractional part of the \<open>k\<close>-th root of \<open>p\<close>.\<close>

definition root_word :: "nat \<Rightarrow> int \<Rightarrow> u32" where
  "root_word k p = of_int (floor_root k (p * 2 ^ (32 * k)))"

definition fips_K :: "u32 list" where
  "fips_K = map (root_word 3) first_primes"

definition fips_H0 :: "u32 list" where
  "fips_H0 = map (root_word 2) (take 8 first_primes)"

text \<open>A word \<open>w\<close> is checked by bracketing the root with the integer part \<open>c\<close>.\<close>

definition root_brackets :: "nat \<Rightarrow> int \<Rightarrow> int \<Rightarrow> u32 \<Rightarrow> bool" where
  "root_brackets k p c w \<longleftrightarrow>
     0 \<le> c \<and> 0 \<le> p \<and> p < 2 ^ (4 * k) \<and> (uint w + c * 2 ^ 32) ^ k \<le> p * 2 ^ (32 * k) \<and>
     p * 2 ^ (32 * k) < (uint w + c * 2 ^ 32 + 1) ^ k"

lemma root_brackets_word:
  assumes "0 < k" "root_brackets k p c w"
  shows "root_word k p = w"
proof -
  let ?n = "p * 2 ^ (32 * k)" and ?r = "uint w + c * 2 ^ 32"
  note b = assms(2) [unfolded root_brackets_def]
  have "(36 :: nat) * k = 4 * k + 32 * k" by simp
  then have "?n < 2 ^ (36 * k)" using b by (simp only: power_add) simp
  then have f: "0 \<le> floor_root k ?n" "floor_root k ?n ^ k \<le> ?n" "?n < (floor_root k ?n + 1) ^ k"
    using floor_root [of k ?n] assms(1) b by auto
  have "0 \<le> ?r" using b by simp
  then have "floor_root k ?n < ?r + 1" "?r < floor_root k ?n + 1"
    using power_less_imp_less_base [of "floor_root k ?n" k "?r + 1"] power_less_imp_less_base [of ?r k "floor_root k ?n + 1"] f b
    by linarith+
  then have "floor_root k ?n = ?r" by simp
  moreover have "(of_int (2 ^ 32) :: u32) = 0" by code_simp
  then have "(of_int (c * 2 ^ 32) :: u32) = 0" by (simp only: of_int_mult mult_zero_right)
  ultimately show ?thesis by (simp add: root_word_def del: of_int_mult)
qed

lemma first_primes: "first_primes =
  [2, 3, 5, 7, 11, 13, 17, 19, 23, 29, 31, 37, 41, 43, 47, 53, 59, 61, 67, 71, 73, 79, 83, 89, 97, 101, 103, 107, 109,
   113, 127, 131, 137, 139, 149, 151, 157, 163, 167, 173, 179, 181, 191, 193, 197, 199, 211, 223, 227, 229, 233, 239,
   241, 251, 257, 263, 269, 271, 277, 281, 283, 293, 307, 311]"
  by code_simp

lemma root_words:
  assumes "0 < k" "list_all (\<lambda>(p, w). \<exists>c. root_brackets k p c w) (zip ps ws)" "length ps = length ws"
  shows "map (root_word k) ps = ws"
  using assms root_brackets_word [OF assms(1)] by (intro nth_equalityI) (auto simp: list_all_length)

lemma cube_roots: "list_all (\<lambda>(p, w). \<exists>c. root_brackets 3 p c w) (zip first_primes K256)"
proof -
  have "list_all (\<lambda>(p, w). root_brackets 3 p (int (length (filter (\<lambda>c. c ^ 3 \<le> p) [1..6]))) w) (zip first_primes K256)"
    unfolding first_primes K256_def by (simp add: root_brackets_def upto_rec1)
  then show ?thesis by (auto simp: list_all_iff)
qed

lemma fips_K_table: "fips_K = K256"
  unfolding fips_K_def by (rule root_words [OF _ cube_roots]) (simp_all add: first_primes K256_def)

lemma fips_H0_table: "fips_H0 = initial_hash"
proof -
  have "list_all (\<lambda>(p, w). root_brackets 2 p (int (length (filter (\<lambda>c. c ^ 2 \<le> p) [1..6]))) w)
      (zip (take 8 first_primes) initial_hash)"
    unfolding first_primes initial_hash_def sha_init_def sha_reset_def by (simp add: root_brackets_def upto_rec1)
  then show ?thesis
    unfolding fips_H0_def by (intro root_words) (auto simp: first_primes initial_hash_def sha_init_def sha_reset_def list_all_iff)
qed

section \<open>Functions\<close>

definition fips_Ch :: "u32 \<Rightarrow> u32 \<Rightarrow> u32 \<Rightarrow> u32" where
  "fips_Ch x y z = (x AND y) XOR (NOT x AND z)"

definition fips_Maj :: "u32 \<Rightarrow> u32 \<Rightarrow> u32 \<Rightarrow> u32" where
  "fips_Maj x y z = (x AND y) XOR (x AND z) XOR (y AND z)"

definition fips_Sum0 :: "u32 \<Rightarrow> u32" where
  "fips_Sum0 x = word_rotr 2 x XOR word_rotr 13 x XOR word_rotr 22 x"

definition fips_Sum1 :: "u32 \<Rightarrow> u32" where
  "fips_Sum1 x = word_rotr 6 x XOR word_rotr 11 x XOR word_rotr 25 x"

definition fips_sig0 :: "u32 \<Rightarrow> u32" where
  "fips_sig0 x = word_rotr 7 x XOR word_rotr 18 x XOR drop_bit 3 x"

definition fips_sig1 :: "u32 \<Rightarrow> u32" where
  "fips_sig1 x = word_rotr 17 x XOR word_rotr 19 x XOR drop_bit 10 x"

lemma rotr_word_rotr: "0 < n \<Longrightarrow> n < 32 \<Longrightarrow> rotr x n = word_rotr n x"
proof (rule bit_word_eqI)
  fix i assume n: "0 < n" "n < 32" and i: "i < LENGTH(32)"
  have "(i + n) mod 32 = (if i + n < 32 then i + n else i + n - 32)" using n i by (simp add: mod_if)
  then show "bit (rotr x n) i = bit (word_rotr n x) i"
    using n i bit_imp_le_length [of x "i + n"]
    by (auto simp: rotr_def bit_simps add.commute)
qed

lemma fips_functions:
  "ch = fips_Ch" "maj = fips_Maj" "sigma0 = fips_Sum0" "sigma1 = fips_Sum1" "gamma0 = fips_sig0" "gamma1 = fips_sig1"
  by (simp_all add: fun_eq_iff ch_def fips_Ch_def maj_def fips_Maj_def sigma0_def fips_Sum0_def sigma1_def fips_Sum1_def
      gamma0_def fips_sig0_def gamma1_def fips_sig1_def rotr_word_rotr)

section \<open>One block\<close>

text \<open>The schedule \<open>W\<close> of a block of sixteen words \<open>M\<close>.\<close>

fun fips_W :: "(nat \<Rightarrow> u32) \<Rightarrow> nat \<Rightarrow> u32" where
  "fips_W M t =
     (if t < 16 then M t
      else fips_sig1 (fips_W M (t - 2)) + fips_W M (t - 7) + fips_sig0 (fips_W M (t - 15)) + fips_W M (t - 16))"

declare fips_W.simps [simp del]

type_synonym vars = "u32 \<times> u32 \<times> u32 \<times> u32 \<times> u32 \<times> u32 \<times> u32 \<times> u32"

fun fips_round :: "u32 \<Rightarrow> u32 \<Rightarrow> vars \<Rightarrow> vars" where
  "fips_round k w (a, b, c, d, e, f, g, h) =
     (let T1 = h + fips_Sum1 e + fips_Ch e f g + k + w;
          T2 = fips_Sum0 a + fips_Maj a b c
      in (T1 + T2, a, b, c, d + T1, e, f, g))"

primrec fips_rounds :: "(nat \<Rightarrow> u32) \<Rightarrow> nat \<Rightarrow> vars \<Rightarrow> vars" where
  "fips_rounds W 0 v = v"
| "fips_rounds W (Suc t) v = fips_round (fips_K ! t) (W t) (fips_rounds W t v)"

text \<open>The words of a block, most significant byte first.\<close>

definition fips_word :: "bytes \<Rightarrow> nat \<Rightarrow> u32" where
  "fips_word block t = foldl (\<lambda>w b. w * 2 ^ 8 + ucast b) 0 (take 4 (drop (4 * t) block))"

fun vars_of :: "u32 list \<Rightarrow> vars" where
  "vars_of [a, b, c, d, e, f, g, h] = (a, b, c, d, e, f, g, h)"
| "vars_of _ = (0, 0, 0, 0, 0, 0, 0, 0)"

fun list_of :: "vars \<Rightarrow> u32 list" where
  "list_of (a, b, c, d, e, f, g, h) = [a, b, c, d, e, f, g, h]"

definition fips_block :: "bytes \<Rightarrow> u32 list \<Rightarrow> u32 list" where
  "fips_block block H = map2 (+) H (list_of (fips_rounds (fips_W (fips_word block)) 64 (vars_of H)))"

lemma schedule_prefix:
  assumes "16 \<le> n"
  shows "fold schedule_step [16..<n] (map M [0..<16]) = map (fips_W M) [0..<n]"
  using assms
proof (induction n rule: dec_induct)
  case base
  show ?case by (simp add: fips_W.simps)
next
  case (step n)
  then have "fold schedule_step [16..<Suc n] (map M [0..<16]) = schedule_step n (map (fips_W M) [0..<n])" by simp
  also have "\<dots> = map (fips_W M) [0..<Suc n]"
    using step.hyps fips_W.simps [of M n] by (simp add: schedule_step_def fips_functions)
  finally show ?case .
qed

lemma rounds_vars:
  assumes "length W = 64" "length v = 8" "n \<le> 64"
  shows "fold (round_step W) [0..<n] v = list_of (fips_rounds ((!) W) n (vars_of v))"
  using assms(3)
proof (induction n)
  case 0
  obtain a b c d e f g h where "v = [a, b, c, d, e, f, g, h]"
    using assms(2) by (auto simp: length_Suc_conv eval_nat_numeral)
  then show ?case by simp
next
  case (Suc n)
  obtain a b c d e f g h where "fips_rounds ((!) W) n (vars_of v) = (a, b, c, d, e, f, g, h)" using prod_cases7 by (metis surj_pair)
  then show ?case using Suc by (simp add: round_step_def Let_def fips_functions fips_K_table)
qed

lemma fips_rounds_cong: "(\<And>t. t < n \<Longrightarrow> W t = W' t) \<Longrightarrow> fips_rounds W n v = fips_rounds W' n v"
  by (induction n) simp_all

lemma append_byte: "w * 2 ^ 8 + ucast (b :: u8) = (push_bit 8 w OR ucast b :: u32)"
proof -
  have "push_bit 8 w + ucast b = (push_bit 8 w OR ucast b :: u32)"
    by (rule disjunctive_add) (auto simp: bit_simps dest: bit_imp_le_length)
  then show ?thesis by (simp add: push_bit_eq_mult)
qed

lemma block_word_fips:
  assumes "length block = 64" "t < 16"
  shows "block_word block t = fips_word block t"
proof -
  have "take 4 (drop (4 * t) block) = map (\<lambda>j. block ! (4 * t + j)) [0..<4]"
    using assms by (intro nth_equalityI) simp_all
  then show ?thesis
    unfolding block_word_def fips_word_def append_byte
    by (simp add: upt_rec push_bit_push_bit push_bit_or mult.commute or.assoc numeral_3_eq_3)
qed

lemma compress_fips:
  assumes "length block = 64" "length H = 8"
  shows "compress block H = fips_block block H"
proof -
  have s: "schedule block = map (fips_W (block_word block)) [0..<64]"
    unfolding schedule_def by (rule schedule_prefix) simp
  have W: "fips_W (block_word block) t = fips_W (fips_word block) t" if "t < 64" for t
    using that
  proof (induction t rule: less_induct)
    case (less t)
    then show ?case
      using block_word_fips [OF assms(1)] fips_W.simps [of "block_word block" t] fips_W.simps [of "fips_word block" t] by simp
  qed
  have "fips_rounds ((!) (schedule block)) 64 v = fips_rounds (fips_W (fips_word block)) 64 v" for v
    by (rule fips_rounds_cong) (simp add: s W)
  then show ?thesis
    using rounds_vars [of "schedule block" H 64] assms(2) by (simp add: compress_def Let_def fips_block_def s)
qed

section \<open>Messages\<close>

text \<open>The big-endian bytes of a number.\<close>

definition fips_bytes :: "nat \<Rightarrow> nat \<Rightarrow> bytes" where
  "fips_bytes n x = map (\<lambda>i. of_nat (x div 256 ^ (n - 1 - i))) [0..<n]"

text \<open>A one bit, the fewest zeros that leave room for 64 bits in the last block, and the length in bits.\<close>

definition fips_pad :: "bytes \<Rightarrow> bytes" where
  "fips_pad m = m @ 0x80 # replicate (nat ((55 - int (length m)) mod 64)) 0 @ fips_bytes 8 (8 * length m)"

fun fips_blocks :: "bytes \<Rightarrow> bytes list" where
  "fips_blocks m = (if length m < 64 then [] else take 64 m # fips_blocks (drop 64 m))"

declare fips_blocks.simps [simp del]

definition fips_sha256 :: "bytes \<Rightarrow> bytes" where
  "fips_sha256 m = concat (map (\<lambda>w. fips_bytes 4 (unat w)) (fold fips_block (fips_blocks (fips_pad m)) fips_H0))"

lemma of_nat_drop: "(of_nat (unat (w :: 'a::len word) div 2 ^ k) :: u8) = ucast (drop_bit k w)"
proof -
  have "unat (drop_bit k w) = unat w div 2 ^ k" by (simp only: unat_drop_bit_eq drop_bit_eq_div [of k "unat w"])
  then show ?thesis by (metis of_nat_unat)
qed

lemma digest_fips: "digest_bytes st = concat (map (\<lambda>w. fips_bytes 4 (unat w)) st)"
proof -
  have "[ucast (drop_bit 24 w), ucast (drop_bit 16 w), ucast (drop_bit 8 w), ucast w] = fips_bytes 4 (unat w)" for w :: u32
    using of_nat_drop [of w 24] of_nat_drop [of w 16] of_nat_drop [of w 8] of_nat_drop [of w 0]
    by (simp add: fips_bytes_def upt_rec)
  then show ?thesis by (simp add: digest_bytes_def)
qed

lemma length_fips: "length_bytes (of_nat n * 8) = fips_bytes 8 (8 * n)"
proof -
  have b: "(ucast (drop_bit (8 * i) (of_nat x :: u64)) :: u8) = of_nat (x div 256 ^ i)" if "i < 8" for i x
  proof (rule bit_word_eqI)
    have power: "x div 256 ^ i = drop_bit (8 * i) x" by (simp add: drop_bit_eq_div power_mult)
    fix j assume "j < LENGTH(8)"
    then show "bit (ucast (drop_bit (8 * i) (of_nat x :: u64)) :: u8) j = bit (of_nat (x div 256 ^ i) :: u8) j"
      using that by (simp add: bit_simps power)
  qed
  show ?thesis using b [of 0 "8 * n"] b [of 1 "8 * n"] b [of 2 "8 * n"] b [of 3 "8 * n"] b [of 4 "8 * n"] b [of 5 "8 * n"]
      b [of 6 "8 * n"] b [of 7 "8 * n"]
    by (simp add: length_bytes_def fips_bytes_def upt_rec mult.commute)
qed

lemma sha_pad_fips: "sha_pad m = fips_pad m"
proof -
  let ?l = "length m"
  have "(55 - int ?l) mod 64 = (119 - int ?l) mod 64" using mod_add_self2 [of "55 - int ?l" 64] by simp
  also have "\<dots> = (119 - int (?l mod 64)) mod 64" by (simp add: zmod_int mod_diff_right_eq)
  also have "\<dots> = int ((119 - ?l mod 64) mod 64)"
    using mod_less_divisor [of 64 ?l] by (simp add: zmod_int of_nat_diff)
  finally have "nat ((55 - int ?l) mod 64) = (119 - ?l mod 64) mod 64" by simp
  then show ?thesis by (simp add: sha_pad_def fips_pad_def length_fips)
qed

lemma sha_blocks_fips: "sha_blocks m = fips_blocks m"
proof (induction m rule: fips_blocks.induct)
  case (1 m)
  show ?case
  proof (cases "length m < 64")
    case True
    then show ?thesis by (simp add: sha_blocks_def fips_blocks.simps)
  next
    case False
    then have "sha_blocks (take 64 m @ drop 64 m) = sha_blocks (take 64 m) @ sha_blocks (drop 64 m)"
      by (intro sha_blocks_append [of _ 1]) simp
    then show ?thesis using False 1 fips_blocks.simps [of m] by (simp add: sha_blocks_one)
  qed
qed

lemma fips_blocks_length: "b \<in> set (fips_blocks m) \<Longrightarrow> length b = 64"
  by (induction m rule: fips_blocks.induct) (subst (asm) (2) fips_blocks.simps, auto split: if_splits)

lemma blocks_fips:
  "\<forall>b \<in> set bs. length b = 64 \<Longrightarrow> length H = 8 \<Longrightarrow> fold compress bs H = fold fips_block bs H"
  by (induction bs arbitrary: H) (simp_all add: compress_fips [symmetric] length_compress)

text \<open>The reference of the streaming proof is the standard.\<close>

lemma sha_spec_fips: "sha_spec m = fips_sha256 m"
proof -
  have "length initial_hash = 8" by (simp add: initial_hash_def sha_init_def sha_reset_def)
  then show ?thesis
    using blocks_fips [of "fips_blocks (fips_pad m)" initial_hash] fips_blocks_length
    by (simp add: sha_spec_def fips_sha256_def sha_pad_fips sha_blocks_fips digest_fips fips_H0_table)
qed

end
