(* ===== verification/Hmac.thy ===== *)
theory Hmac
  imports Sha256
begin

text \<open>
  HMAC-SHA256 and its 128-bit truncation (\<open>security/hmac.hpp\<close>), and the constant-time digest
  comparison.  What HMAC needs of the hash is stated as the locale \<open>streaming_hash\<close> (feeding data
  in pieces is feeding it at once) and interpreted on the streaming SHA-256; the two-part HMAC of
  the message authenticator rests on it.
\<close>

section \<open>The code\<close>

text \<open>\<open>K'\<close>: a key longer than a block is hashed, then the key is padded with zeros to a block.\<close>

definition hmac_k_prime :: "bytes \<Rightarrow> bytes" where
  "hmac_k_prime key =
     (if length key > BLOCK_SIZE then sha_hash key @ replicate (BLOCK_SIZE - DIGEST_SIZE) 0
      else key @ replicate (BLOCK_SIZE - length key) 0)"

definition ipad_block :: "bytes \<Rightarrow> bytes" where
  "ipad_block k_prime = map (\<lambda>i. k_prime ! i XOR 0x36) [0..<BLOCK_SIZE]"

definition opad_block :: "bytes \<Rightarrow> bytes" where
  "opad_block k_prime = map (\<lambda>i. k_prime ! i XOR 0x5c) [0..<BLOCK_SIZE]"

definition hmac_sha256 :: "bytes \<Rightarrow> bytes \<Rightarrow> bytes" where
  "hmac_sha256 key data =
     (let k_prime = hmac_k_prime key;
          inner = sha_update data (sha_update (ipad_block k_prime) sha_init);
          inner_hash = sha_finalize inner;
          outer = sha_update inner_hash (sha_update (opad_block k_prime) sha_init)
      in sha_finalize outer)"

definition hmac_sha256_128 :: "bytes \<Rightarrow> bytes \<Rightarrow> bytes" where
  "hmac_sha256_128 key data = take 16 (hmac_sha256 key data)"

definition hmac_equal :: "bytes \<Rightarrow> bytes \<Rightarrow> bool" where
  "hmac_equal a b = (fold (\<lambda>i diff. diff OR (a ! i XOR b ! i)) [0..<16] 0 = (0 :: u8))"

section \<open>The interface of a streaming hash\<close>

locale streaming_hash =
  fixes init :: 'c
    and update :: "bytes \<Rightarrow> 'c \<Rightarrow> 'c"
    and ok :: "'c \<Rightarrow> bool"
    and digest :: "'c \<Rightarrow> bytes"
    and width :: nat
  assumes ok_init: "ok init"
    and ok_update: "ok c \<Longrightarrow> ok (update xs c)"
    and update_append: "ok c \<Longrightarrow> update (xs @ ys) c = update ys (update xs c)"
    and digest_width: "ok c \<Longrightarrow> length (digest c) = width"
begin

lemma two_pieces: "digest (update ys (update xs init)) = digest (update (xs @ ys) init)"
  by (simp add: update_append ok_init)

lemma three_pieces:
  "update zs (update ys (update xs init)) = update (ys @ zs) (update xs init)"
  by (simp add: update_append ok_init ok_update)

lemma pieces: "xss \<noteq> [] \<Longrightarrow> ok c \<Longrightarrow> fold update xss c = update (concat xss) c"
proof (induction xss arbitrary: c rule: list_nonempty_induct)
  case (cons xs xss)
  then show ?case by (simp add: update_append ok_update)
qed simp

end

lemma length_sha_finalize: "length (sha_state s) = 8 \<Longrightarrow> length (sha_finalize s) = 32"
  by (simp add: sha_finalize_def Let_def transform_def zero_fill_def push_bytes_def length_compress)

lemma sha_update_state: "sha_wf s \<Longrightarrow> length (sha_state s) = 8 \<Longrightarrow> length (sha_state (sha_update xs s)) = 8"
proof -
  have f: "length (sha_state s) = 8 \<Longrightarrow> length (sha_state (feed b s)) = 8" for b s
    by (simp add: feed_def Let_def transform_def length_compress)
  have "length (sha_state s) = 8 \<Longrightarrow> length (sha_state (fold feed xs s)) = 8" for xs s
    by (induction xs arbitrary: s) (simp_all add: f)
  then show "sha_wf s \<Longrightarrow> length (sha_state s) = 8 \<Longrightarrow> length (sha_state (sha_update xs s)) = 8"
    by (simp add: sha_update_feeds)
qed

definition sha_ok :: "sha256 \<Rightarrow> bool" where
  "sha_ok s \<longleftrightarrow> sha_wf s \<and> length (sha_state s) = 8"

interpretation sha: streaming_hash sha_init sha_update sha_ok sha_finalize 32
  by unfold_locales
    (auto simp: sha_ok_def sha_update_append length_sha_finalize sha_update_state,
      simp add: sha_init_def sha_reset_def)

section \<open>Facts about HMAC\<close>

text \<open>The textbook form: \<open>H((K' ^ opad) || H((K' ^ ipad) || message))\<close>.\<close>

lemma hmac_sha256_textbook:
  "hmac_sha256 key data =
     sha_hash (opad_block (hmac_k_prime key) @ sha_hash (ipad_block (hmac_k_prime key) @ data))"
  by (simp add: hmac_sha256_def Let_def sha_finalize_update)

lemma length_hmac_sha256_128 [len_simps, simp]: "length (hmac_sha256_128 key data) = 16"
  by (simp add: hmac_sha256_128_def hmac_sha256_textbook)

lemma length_hmac_k_prime [len_simps, simp]: "length (hmac_k_prime key) = 64"
  by (simp add: hmac_k_prime_def)

lemma or_eq_0: "(a :: 'a :: len word) OR b = 0 \<longleftrightarrow> a = 0 \<and> b = 0"
  by (auto simp: bit_eq_iff bit_or_iff)

lemma fold_or_eq_0: "fold (\<lambda>i d. d OR f i) is a = 0 \<longleftrightarrow> a = 0 \<and> (\<forall>i \<in> set is. f i = (0 :: u8))"
  by (induction "is" arbitrary: a) (auto simp: or_eq_0)

lemma hmac_equal_iff:
  assumes "length a = 16" "length b = 16"
  shows "hmac_equal a b \<longleftrightarrow> a = b"
proof -
  have "x XOR y = 0 \<longleftrightarrow> x = y" for x y :: u8
    by (auto simp: bit_eq_iff bit_xor_iff)
  then show ?thesis
    using assms unfolding hmac_equal_def fold_or_eq_0 by (auto simp: list_eq_iff_nth_eq)
qed

end
