(* ===== verification/Core_Types.thy ===== *)
theory Core_Types
  imports Prelude
begin

text \<open>
  The core vocabulary of the library (\<open>core/types.hpp\<close>, \<open>core/config.hpp\<close>): protocol constants,
  enumerations with their wire codes, the ID helpers of section 2 of the protocol definition, and
  the compile-time configuration as a record.  A class template over \<open>Config\<close> becomes functions
  that take a \<open>config\<close>.
\<close>

section \<open>Protocol constants\<close>

definition PROTOCOL_VERSION :: u8 where [const_simps]: "PROTOCOL_VERSION = 0x01"
definition SD_SERVICE_ID :: u16 where [const_simps]: "SD_SERVICE_ID = 0xFFFF"
definition DIAG_SERVICE_ID :: u16 where [const_simps]: "DIAG_SERVICE_ID = 0xFFFE"
definition CLIENT_ID_PROVIDER :: u16 where [const_simps]: "CLIENT_ID_PROVIDER = 0x0000"
definition REQUEST_ID_NONE :: u32 where [const_simps]: "REQUEST_ID_NONE = 0x00000000"
definition HEADER_SIZE :: nat where [const_simps, simp]: "HEADER_SIZE = 20"
definition CRC_SIZE :: nat where [const_simps, simp]: "CRC_SIZE = 2"
definition HMAC_SIZE :: nat where [const_simps, simp]: "HMAC_SIZE = 16"
definition MIN_MESSAGE_SIZE :: nat where
  [const_simps, simp]: "MIN_MESSAGE_SIZE = HEADER_SIZE + CRC_SIZE"
definition FLAG_AUTH :: u8 where [const_simps]: "FLAG_AUTH = 0x01"

section \<open>Message types\<close>

datatype MessageType = REQUEST | REQUEST_NO_RETURN | RESPONSE | NOTIFICATION | ERROR

fun message_type_code :: "MessageType \<Rightarrow> u8" where
  "message_type_code REQUEST = 0x00"
| "message_type_code REQUEST_NO_RETURN = 0x01"
| "message_type_code RESPONSE = 0x02"
| "message_type_code NOTIFICATION = 0x03"
| "message_type_code ERROR = 0x80"

text \<open>
  \<open>static_cast<MessageType>\<close> of a wire byte; \<open>None\<close> is a value outside the enumerators, which a
  \<open>switch\<close> sends to its \<open>default\<close>.
\<close>

definition message_type_of :: "u8 \<Rightarrow> MessageType option" where
  "message_type_of v =
     (if v = 0x00 then Some REQUEST else if v = 0x01 then Some REQUEST_NO_RETURN
      else if v = 0x02 then Some RESPONSE else if v = 0x03 then Some NOTIFICATION
      else if v = 0x80 then Some ERROR else None)"

definition is_valid_message_type :: "u8 \<Rightarrow> bool" where
  "is_valid_message_type v \<longleftrightarrow> v = 0x00 \<or> v = 0x01 \<or> v = 0x02 \<or> v = 0x03 \<or> v = 0x80"

section \<open>Return codes\<close>

text \<open>
  \<open>ReturnCode\<close> has \<open>uint8_t\<close> as its fixed underlying type and the code casts arbitrary wire bytes
  to it (the range from 0x60 up is user-defined), so it is the byte itself.
\<close>

type_synonym ReturnCode = u8

definition E_OK :: ReturnCode where [const_simps]: "E_OK = 0x00"
definition E_NOT_OK :: ReturnCode where [const_simps]: "E_NOT_OK = 0x01"
definition E_UNKNOWN_SERVICE :: ReturnCode where [const_simps]: "E_UNKNOWN_SERVICE = 0x02"
definition E_UNKNOWN_METHOD :: ReturnCode where [const_simps]: "E_UNKNOWN_METHOD = 0x03"
definition E_NOT_READY :: ReturnCode where [const_simps]: "E_NOT_READY = 0x04"
definition E_NOT_REACHABLE :: ReturnCode where [const_simps]: "E_NOT_REACHABLE = 0x05"
definition E_TIMEOUT :: ReturnCode where [const_simps]: "E_TIMEOUT = 0x06"
definition E_MALFORMED_MESSAGE :: ReturnCode where [const_simps]: "E_MALFORMED_MESSAGE = 0x07"
definition E_AUTH_FAILED :: ReturnCode where [const_simps]: "E_AUTH_FAILED = 0x08"
definition E_DUPLICATE :: ReturnCode where [const_simps]: "E_DUPLICATE = 0x09"

section \<open>Service-discovery and diagnostics operations\<close>

datatype SdMethod =
  SD_OFFER_SERVICE | SD_FIND_SERVICE | SD_SUBSCRIBE_EVENT | SD_SUBSCRIBE_ACK | SD_UNSUBSCRIBE

fun sd_method_code :: "SdMethod \<Rightarrow> u16" where
  "sd_method_code SD_OFFER_SERVICE = 0x0001"
| "sd_method_code SD_FIND_SERVICE = 0x0002"
| "sd_method_code SD_SUBSCRIBE_EVENT = 0x0003"
| "sd_method_code SD_SUBSCRIBE_ACK = 0x0004"
| "sd_method_code SD_UNSUBSCRIBE = 0x0005"

definition sd_method_of :: "u16 \<Rightarrow> SdMethod option" where
  "sd_method_of v =
     (if v = 0x0001 then Some SD_OFFER_SERVICE else if v = 0x0002 then Some SD_FIND_SERVICE
      else if v = 0x0003 then Some SD_SUBSCRIBE_EVENT else if v = 0x0004 then Some SD_SUBSCRIBE_ACK
      else if v = 0x0005 then Some SD_UNSUBSCRIBE else None)"

datatype DiagMethod =
  DIAG_GET_DTCS | DIAG_CLEAR_DTCS | DIAG_GET_COUNTERS | DIAG_GET_SERVICE_LIST | DIAG_GET_DEVICE_INFO

definition diag_method_of :: "u16 \<Rightarrow> DiagMethod option" where
  "diag_method_of v =
     (if v = 0x0001 then Some DIAG_GET_DTCS else if v = 0x0002 then Some DIAG_CLEAR_DTCS
      else if v = 0x0003 then Some DIAG_GET_COUNTERS else if v = 0x0004 then Some DIAG_GET_SERVICE_LIST
      else if v = 0x0005 then Some DIAG_GET_DEVICE_INFO else None)"

datatype DiagnosticCounter =
  CrcErrors | VersionMismatches | OversizedPayloads | TypeIdMismatches | DuplicateMessages
| StaleMessages | AuthFailures | UnknownMessageTypes | DroppedMessages

fun counter_index :: "DiagnosticCounter \<Rightarrow> nat" where
  "counter_index CrcErrors = 0"
| "counter_index VersionMismatches = 1"
| "counter_index OversizedPayloads = 2"
| "counter_index TypeIdMismatches = 3"
| "counter_index DuplicateMessages = 4"
| "counter_index StaleMessages = 5"
| "counter_index AuthFailures = 6"
| "counter_index UnknownMessageTypes = 7"
| "counter_index DroppedMessages = 8"

definition counter_count :: nat where [const_simps, simp]: "counter_count = 9"

text \<open>\<open>DtcSeverity\<close> is a byte too: the binding casts any number to it.\<close>

type_synonym DtcSeverity = u8

definition SevInfo :: DtcSeverity where [const_simps]: "SevInfo = 0"
definition SevWarning :: DtcSeverity where [const_simps]: "SevWarning = 1"
definition SevError :: DtcSeverity where [const_simps]: "SevError = 2"
definition SevFatal :: DtcSeverity where [const_simps]: "SevFatal = 3"

section \<open>ID helpers\<close>

definition is_event_id :: "u16 \<Rightarrow> bool" where
  "is_event_id i \<longleftrightarrow> i AND 0x8000 \<noteq> 0"

definition is_method_id :: "u16 \<Rightarrow> bool" where
  "is_method_id i \<longleftrightarrow> i AND 0x8000 = 0"

fun type_id_consistent :: "MessageType option \<Rightarrow> u16 \<Rightarrow> bool" where
  "type_id_consistent (Some REQUEST) mid = is_method_id mid"
| "type_id_consistent (Some REQUEST_NO_RETURN) mid = is_method_id mid"
| "type_id_consistent (Some RESPONSE) mid = is_method_id mid"
| "type_id_consistent (Some ERROR) mid = is_method_id mid"
| "type_id_consistent (Some NOTIFICATION) mid = is_event_id mid"
| "type_id_consistent None mid = False"

section \<open>Configuration\<close>

datatype LogLevel = LTrace | LDebug | LInfo | LWarn | LError | LOff

fun level_code :: "LogLevel \<Rightarrow> u8" where
  "level_code LTrace = 0"
| "level_code LDebug = 1"
| "level_code LInfo = 2"
| "level_code LWarn = 3"
| "level_code LError = 4"
| "level_code LOff = 5"

record config =
  MaxPayloadSize :: nat
  MaxServices :: nat
  MaxMethods :: nat
  MaxEvents :: nat
  MaxSubscribers :: nat
  MaxPendingRequests :: nat
  MaxKnownServices :: nat
  RequestTimeoutMs :: u32
  OfferTtlSeconds :: u16
  SubscriptionTtlSeconds :: u16
  SdFindRetryCount :: u8
  SdFindInitialDelayMs :: u32
  SdFindBackoffMultiplier :: u8
  SdFindJitterMs :: u32
  SeqCounterAcceptWindow :: u8
  TransportAddressSize :: nat
  MaxReceiveQueueSize :: nat
  MaxTrackedPeers :: nat
  HmacKeySize :: nat
  MaxDtcs :: nat
  MinLogLevel :: LogLevel

definition DefaultConfig :: config where
  "DefaultConfig =
     \<lparr> MaxPayloadSize = 1400, MaxServices = 16, MaxMethods = 32, MaxEvents = 16,
       MaxSubscribers = 8, MaxPendingRequests = 16, MaxKnownServices = 32,
       RequestTimeoutMs = 1000, OfferTtlSeconds = 5, SubscriptionTtlSeconds = 10,
       SdFindRetryCount = 3, SdFindInitialDelayMs = 100, SdFindBackoffMultiplier = 2,
       SdFindJitterMs = 50, SeqCounterAcceptWindow = 15, TransportAddressSize = 8,
       MaxReceiveQueueSize = 16, MaxTrackedPeers = 32, HmacKeySize = 32, MaxDtcs = 32,
       MinLogLevel = LOff \<rparr>"

definition EmbeddedConfig :: config where
  "EmbeddedConfig =
     \<lparr> MaxPayloadSize = 256, MaxServices = 4, MaxMethods = 8, MaxEvents = 4,
       MaxSubscribers = 4, MaxPendingRequests = 4, MaxKnownServices = 8,
       RequestTimeoutMs = 500, OfferTtlSeconds = 5, SubscriptionTtlSeconds = 10,
       SdFindRetryCount = 3, SdFindInitialDelayMs = 100, SdFindBackoffMultiplier = 2,
       SdFindJitterMs = 50, SeqCounterAcceptWindow = 15, TransportAddressSize = 8,
       MaxReceiveQueueSize = 8, MaxTrackedPeers = 8, HmacKeySize = 32, MaxDtcs = 8,
       MinLogLevel = LOff \<rparr>"

text \<open>The \<open>static_assert\<close>s of \<open>Runtime\<close>.\<close>

definition config_ok :: "config \<Rightarrow> bool" where
  "config_ok cfg \<longleftrightarrow>
     MaxServices cfg * MaxEvents cfg \<le> 1024 \<and>
     MaxKnownServices cfg * MaxEvents cfg \<le> 1024 \<and>
     MaxPayloadSize cfg \<le> 8192"

definition zero_addr :: "config \<Rightarrow> addr" where
  "zero_addr cfg = replicate (TransportAddressSize cfg) 0"

section \<open>Facts about the codes\<close>

lemma message_type_of_code [simp]: "message_type_of (message_type_code mt) = Some mt"
  by (cases mt) (simp_all add: message_type_of_def)

lemma message_type_of_Some: "message_type_of v = Some mt \<longleftrightarrow> v = message_type_code mt"
  by (cases mt) (auto simp: message_type_of_def split: if_splits)

lemma is_valid_message_type_iff: "is_valid_message_type v \<longleftrightarrow> message_type_of v \<noteq> None"
  by (simp add: is_valid_message_type_def message_type_of_def)

lemma is_valid_message_type_code [simp]: "is_valid_message_type (message_type_code mt)"
  by (simp add: is_valid_message_type_iff)

lemma sd_method_of_code [simp]: "sd_method_of (sd_method_code m) = Some m"
  by (cases m) (simp_all add: sd_method_of_def)

lemma is_method_id_sd [simp]: "is_method_id (sd_method_code m)"
  by (cases m) (simp_all add: is_method_id_def)

lemma event_or_method: "is_event_id i \<longleftrightarrow> \<not> is_method_id i"
  by (simp add: is_event_id_def is_method_id_def)

lemma counter_index_less [simp]: "counter_index c < 9"
  by (cases c) simp_all

lemma counter_index_inj: "counter_index c = counter_index d \<longleftrightarrow> c = d"
  by (cases c; cases d) simp_all

lemma length_zero_addr [len_simps, simp]: "length (zero_addr cfg) = TransportAddressSize cfg"
  by (simp add: zero_addr_def)

lemma config_ok_Default: "config_ok DefaultConfig" and config_ok_Embedded: "config_ok EmbeddedConfig"
  by (simp_all add: config_ok_def DefaultConfig_def EmbeddedConfig_def)

end
