(* ===== verification/Message_Header.thy ===== *)
theory Message_Header
  imports Core_Types
begin

text \<open>
  The 20-byte big-endian message header (\<open>core/message_header.hpp\<close>): the struct, its byte
  helpers, \<open>serialize\<close>, \<open>deserialize\<close> and the validation helpers, with the round trips in both
  directions.  \<open>serialize\<close> writes its bytes into a raw buffer in the code; here it is the list of
  the 20 bytes it writes, and callers copy it with \<open>blit\<close>.
\<close>

record MessageHeader =
  hdr_version :: u8
  hdr_message_type :: u8
  hdr_return_code :: u8
  hdr_flags :: u8
  hdr_service_id :: u16
  hdr_method_event_id :: u16
  hdr_client_id :: u16
  hdr_sequence_counter :: u8
  hdr_reserved :: u8
  hdr_request_id :: u32
  hdr_payload_length :: u32

definition default_header :: MessageHeader where
  "default_header =
     \<lparr> hdr_version = PROTOCOL_VERSION, hdr_message_type = 0, hdr_return_code = 0, hdr_flags = 0,
       hdr_service_id = 0, hdr_method_event_id = 0, hdr_client_id = 0, hdr_sequence_counter = 0,
       hdr_reserved = 0, hdr_request_id = 0, hdr_payload_length = 0 \<rparr>"

section \<open>Big-endian helpers\<close>

definition read_u16 :: "bytes \<Rightarrow> nat \<Rightarrow> u16" where
  "read_u16 p i = push_bit 8 (ucast (p ! i)) OR ucast (p ! (i + 1))"

definition read_u32 :: "bytes \<Rightarrow> nat \<Rightarrow> u32" where
  "read_u32 p i =
     push_bit 24 (ucast (p ! i)) OR push_bit 16 (ucast (p ! (i + 1))) OR
     push_bit 8 (ucast (p ! (i + 2))) OR ucast (p ! (i + 3))"

definition write_u16 :: "u16 \<Rightarrow> bytes" where
  "write_u16 v = [ucast (drop_bit 8 v), ucast v]"

definition write_u32 :: "u32 \<Rightarrow> bytes" where
  "write_u32 v = [ucast (drop_bit 24 v), ucast (drop_bit 16 v), ucast (drop_bit 8 v), ucast v]"

section \<open>Serialization\<close>

definition deserialize :: "bytes \<Rightarrow> MessageHeader" where
  "deserialize p =
     \<lparr> hdr_version = p ! 0, hdr_message_type = p ! 1, hdr_return_code = p ! 2, hdr_flags = p ! 3,
       hdr_service_id = read_u16 p 4, hdr_method_event_id = read_u16 p 6,
       hdr_client_id = read_u16 p 8, hdr_sequence_counter = p ! 10, hdr_reserved = p ! 11,
       hdr_request_id = read_u32 p 12, hdr_payload_length = read_u32 p 16 \<rparr>"

definition serialize :: "MessageHeader \<Rightarrow> bytes" where
  "serialize h =
     [hdr_version h, hdr_message_type h, hdr_return_code h, hdr_flags h]
     @ write_u16 (hdr_service_id h) @ write_u16 (hdr_method_event_id h)
     @ write_u16 (hdr_client_id h) @ [hdr_sequence_counter h, hdr_reserved h]
     @ write_u32 (hdr_request_id h) @ write_u32 (hdr_payload_length h)"

section \<open>Validation helpers\<close>

definition validate_type_id_consistency :: "MessageHeader \<Rightarrow> bool" where
  "validate_type_id_consistency h \<longleftrightarrow>
     type_id_consistent (message_type_of (hdr_message_type h)) (hdr_method_event_id h)"

definition validate_client_id :: "MessageHeader \<Rightarrow> bool" where
  "validate_client_id h \<longleftrightarrow>
     (let mt = message_type_of (hdr_message_type h)
      in \<not> ((mt = Some REQUEST \<or> mt = Some REQUEST_NO_RETURN) \<and> hdr_client_id h = 0x0000))"

definition has_auth :: "MessageHeader \<Rightarrow> bool" where
  "has_auth h \<longleftrightarrow> hdr_flags h AND FLAG_AUTH \<noteq> 0"

section \<open>Byte helpers are inverse to each other\<close>

lemma bit_u8_high: "8 \<le> k \<Longrightarrow> \<not> bit (b :: u8) (k + n)"
  by (auto dest: bit_imp_le_length)

lemma u16_bytes: "push_bit 8 (ucast (ucast (drop_bit 8 v) :: u8)) OR ucast (ucast v :: u8) = (v :: u16)"
  by (rule bit_word_eqI) (auto simp: bit_simps)

lemma u32_bytes:
  "push_bit 24 (ucast (ucast (drop_bit 24 v) :: u8)) OR push_bit 16 (ucast (ucast (drop_bit 16 v) :: u8)) OR
   push_bit 8 (ucast (ucast (drop_bit 8 v) :: u8)) OR ucast (ucast v :: u8) = (v :: u32)"
proof (rule bit_word_eqI)
  fix n assume "n < LENGTH(32)"
  then consider "n < 8" | "8 \<le> n" "n < 16" | "16 \<le> n" "n < 24" | "24 \<le> n" "n < 32" by fastforce
  then show "bit (push_bit 24 (ucast (ucast (drop_bit 24 v) :: u8)) OR
      push_bit 16 (ucast (ucast (drop_bit 16 v) :: u8)) OR
      push_bit 8 (ucast (ucast (drop_bit 8 v) :: u8)) OR ucast (ucast v :: u8) :: u32) n = bit v n"
    by cases (auto simp: bit_simps)
qed

lemma length_write_u16 [len_simps, simp]: "length (write_u16 v) = 2"
  by (simp add: write_u16_def)

lemma length_write_u32 [len_simps, simp]: "length (write_u32 v) = 4"
  by (simp add: write_u32_def)

lemma length_serialize [len_simps, simp]: "length (serialize h) = 20"
  by (simp add: serialize_def)

lemma read_u16_at: "read_u16 (xs @ write_u16 v @ ys) (length xs) = v"
  by (simp add: read_u16_def write_u16_def nth_append u16_bytes)

lemma read_u32_at: "read_u32 (xs @ write_u32 v @ ys) (length xs) = v"
  by (simp add: read_u32_def write_u32_def nth_append u32_bytes)

lemma read_u16_append: "Suc i < length xs \<Longrightarrow> read_u16 (xs @ ys) i = read_u16 xs i"
  by (simp add: read_u16_def nth_append)

lemma read_u32_append: "i + 3 < length xs \<Longrightarrow> read_u32 (xs @ ys) i = read_u32 xs i"
  by (simp add: read_u32_def nth_append)

lemma write_read_u16: "write_u16 (push_bit 8 (ucast a) OR ucast b) = [a :: u8, b]"
  by (auto simp: write_u16_def bit_simps bit_u8_high intro!: bit_word_eqI)

lemma write_read_u32:
  "write_u32 (push_bit 24 (ucast a) OR push_bit 16 (ucast b) OR push_bit 8 (ucast c) OR ucast d) =
     [a :: u8, b, c, d]"
  by (auto simp: write_u32_def bit_simps bit_u8_high intro!: bit_word_eqI)

section \<open>Round trips of the header\<close>

lemma deserialize_serialize_append: "deserialize (serialize h @ rest) = h"
  by (cases h)
    (simp add: deserialize_def serialize_def read_u16_def read_u32_def write_u16_def write_u32_def
      u16_bytes u32_bytes)

lemma deserialize_append: "20 \<le> length p \<Longrightarrow> deserialize (p @ rest) = deserialize p"
  by (cases "p = []") (simp_all add: deserialize_def nth_append read_u16_append read_u32_append)

lemma list20:
  assumes "length p = 20"
  shows "p = [p!0, p!1, p!2, p!3, p!4, p!5, p!6, p!7, p!8, p!9, p!10, p!11, p!12, p!13, p!14,
              p!15, p!16, p!17, p!18, p!19]"
  using assms by (auto simp: list_eq_iff_nth_eq less_Suc_eq eval_nat_numeral)

lemma serialize_deserialize: "length p = 20 \<Longrightarrow> serialize (deserialize p) = p"
  by (subst (2) list20)
    (simp_all add: serialize_def deserialize_def read_u16_def read_u32_def write_read_u16 write_read_u32
      del: One_nat_def)

end
