(* ===== verification/Effects.thy ===== *)
theory Effects
  imports Core_Types
begin

text \<open>
  What the library does to the outside, as values.  Frames handed to the transport, calls of the
  application's callbacks and services, and log records are elements of one \<open>effect\<close> type, in the
  order they happen.  A nullable function pointer with its \<open>void*\<close> context is a \<open>nat option\<close> (which
  function) and a \<open>nat\<close> (which context).  The logger of \<open>core/log.hpp\<close> is modelled in full: a log
  call yields a record when the compile-time level admits it and a callback is installed.
\<close>

datatype LogCategory =
  CatValidation | CatDispatch | CatServiceDiscovery | CatE2E | CatAuth | CatTransport | CatEvents
| CatRequests | CatMethods | CatDiagnostics | CatGeneral

record LogEntry =
  le_level :: LogLevel
  le_category :: LogCategory
  le_tag :: string
  le_service_id :: u16
  le_method_event_id :: u16
  le_client_id :: u16
  le_extra :: u32

datatype effect =
  Out_Log nat nat LogEntry
| Out_Diag nat nat DiagnosticCounter "bytes option"
| Out_Send addr bytes bool
| Out_Broadcast bytes bool
| Out_Request_Done nat nat ReturnCode "bytes option"
| Out_Service_Found nat nat u16 addr
| Out_Service_Lost nat nat u16
| Out_Subscription_Ack nat nat u16 u16 ReturnCode u16
| Out_Service_Call nat u16 bytes
| Out_Event nat u16 u16 bytes

section \<open>The logger\<close>

record logger =
  log_callback :: "nat option"
  log_callback_ctx :: nat

definition logger_init :: logger where
  "logger_init = \<lparr>log_callback = None, log_callback_ctx = 0\<rparr>"

definition logger_set_callback :: "nat option \<Rightarrow> nat \<Rightarrow> logger \<Rightarrow> logger" where
  "logger_set_callback cb ctx lg = lg\<lparr>log_callback := cb, log_callback_ctx := ctx\<rparr>"

definition log_at ::
    "config \<Rightarrow> logger \<Rightarrow> LogLevel \<Rightarrow> LogCategory \<Rightarrow> string \<Rightarrow> u16 \<Rightarrow> u16 \<Rightarrow> u16 \<Rightarrow> u32 \<Rightarrow> effect list" where
  "log_at cfg lg level category tag sid mid cid extra =
     (if level_code level \<ge> level_code (MinLogLevel cfg)
      then (case log_callback lg of
              None \<Rightarrow> []
            | Some cb \<Rightarrow> [Out_Log cb (log_callback_ctx lg)
                \<lparr> le_level = level, le_category = category, le_tag = tag, le_service_id = sid,
                  le_method_event_id = mid, le_client_id = cid, le_extra = extra \<rparr>])
      else [])"

definition log_trace where "log_trace cfg lg = log_at cfg lg LTrace"
definition log_debug where "log_debug cfg lg = log_at cfg lg LDebug"
definition log_info where "log_info cfg lg = log_at cfg lg LInfo"
definition log_warn where "log_warn cfg lg = log_at cfg lg LWarn"
definition log_error where "log_error cfg lg = log_at cfg lg LError"

text \<open>\<open>if (logger_) logger_->...\<close>: the components hold a nullable pointer to the logger.\<close>

definition if_logger :: "(logger \<Rightarrow> effect list) \<Rightarrow> logger option \<Rightarrow> effect list" where
  "if_logger f lg = (case lg of None \<Rightarrow> [] | Some l \<Rightarrow> f l)"

section \<open>Facts\<close>

fun is_log :: "effect \<Rightarrow> bool" where
  "is_log (Out_Log cb ctx e) = True"
| "is_log _ = False"

text \<open>The protocol-relevant outputs: everything but the log records.\<close>

definition visible :: "effect list \<Rightarrow> effect list" where
  "visible os = filter (\<lambda>x. \<not> is_log x) os"

lemma visible_append [simp]: "visible (xs @ ys) = visible xs @ visible ys"
  by (simp add: visible_def)

lemma visible_Nil [simp]: "visible [] = []"
  by (simp add: visible_def)

lemma visible_Cons [simp]: "visible (x # xs) = (if is_log x then visible xs else x # visible xs)"
  by (simp add: visible_def)

lemma log_at_only_logs: "x \<in> set (log_at cfg lg level category tag sid mid cid extra) \<Longrightarrow> is_log x"
proof -
  assume "x \<in> set (log_at cfg lg level category tag sid mid cid extra)"
  then show "is_log x"
    by (cases "log_callback lg"; cases "level_code (MinLogLevel cfg) \<le> level_code level")
      (auto simp: log_at_def)
qed

lemma visible_log_at [simp]: "visible (log_at cfg lg level category tag sid mid cid extra) = []"
  by (simp add: visible_def filter_empty_conv log_at_only_logs)

lemma visible_logs [simp]:
  "visible (log_trace cfg lg c t s m i x) = []" "visible (log_debug cfg lg c t s m i x) = []"
  "visible (log_info cfg lg c t s m i x) = []" "visible (log_warn cfg lg c t s m i x) = []"
  "visible (log_error cfg lg c t s m i x) = []"
  by (simp_all add: log_trace_def log_debug_def log_info_def log_warn_def log_error_def)

lemma visible_if_logger [simp]: "(\<And>l. visible (f l) = []) \<Longrightarrow> visible (if_logger f lg) = []"
  by (cases lg) (simp_all add: if_logger_def)

lemma log_off: "MinLogLevel cfg = LOff \<Longrightarrow> level \<noteq> LOff \<Longrightarrow> log_at cfg lg level c t s m i x = []"
  by (cases level) (simp_all add: log_at_def word_le_nat_alt)

lemmas log_defs = log_trace_def log_debug_def log_info_def log_warn_def log_error_def

lemma logs_off [simp]:
  assumes "MinLogLevel cfg = LOff"
  shows "log_trace cfg lg c t s m i x = []" "log_debug cfg lg c t s m i x = []"
    "log_info cfg lg c t s m i x = []" "log_warn cfg lg c t s m i x = []"
    "log_error cfg lg c t s m i x = []"
  using assms by (simp_all add: log_defs log_off)

end
