(* ===== verification/Fixed_Table.thy ===== *)
theory Fixed_Table
  imports Prelude "HOL-Library.Multiset"
begin

text \<open>
  The library keeps every table the same way: a \<open>std::array\<close> of fixed capacity, a counter of the
  slots in use, a linear search over the used prefix, insertion at the end, and removal by moving
  the last used slot into the hole.  This theory holds that array discipline once, with the facts
  the component theories share: what the used prefix (\<open>live\<close>) becomes under each operation.
\<close>

section \<open>The array and its counter\<close>

record 'a tbl =
  slots :: "'a list"
  used :: nat

definition t_empty :: "nat \<Rightarrow> 'a \<Rightarrow> 'a tbl" where
  "t_empty cap d = \<lparr>slots = replicate cap d, used = 0\<rparr>"

text \<open>\<open>for (i = 0; i < count; ++i) if (p(array[i])) return i;\<close>\<close>

function scan_from :: "('a \<Rightarrow> bool) \<Rightarrow> 'a list \<Rightarrow> nat \<Rightarrow> nat \<Rightarrow> nat option" where
  "scan_from p xs n i =
     (if i < n then if p (xs ! i) then Some i else scan_from p xs n (Suc i) else None)"
  by pat_completeness auto
termination by (relation "measure (\<lambda>(p, xs, n, i). n - i)") auto

declare scan_from.simps [simp del]

definition t_find :: "('a \<Rightarrow> bool) \<Rightarrow> 'a tbl \<Rightarrow> nat option" where
  "t_find p t = scan_from p (slots t) (used t) 0"

definition t_get :: "'a tbl \<Rightarrow> nat \<Rightarrow> 'a" where
  "t_get t i = slots t ! i"

definition t_upd :: "nat \<Rightarrow> ('a \<Rightarrow> 'a) \<Rightarrow> 'a tbl \<Rightarrow> 'a tbl" where
  "t_upd i f t = t\<lparr>slots := (slots t)[i := f (slots t ! i)]\<rparr>"

definition t_push :: "'a \<Rightarrow> 'a tbl \<Rightarrow> 'a tbl" where
  "t_push x t = \<lparr>slots = (slots t)[used t := x], used = Suc (used t)\<rparr>"

text \<open>
  \<open>if (i != count - 1) array[i] = array[count - 1]; array[count - 1] = T{}; --count;\<close>
\<close>

definition t_remove :: "'a \<Rightarrow> nat \<Rightarrow> 'a tbl \<Rightarrow> 'a tbl" where
  "t_remove d i t =
     (let l = used t - 1;
          xs = (if i \<noteq> l then (slots t)[i := slots t ! l] else slots t)
      in \<lparr>slots = xs[l := d], used = l\<rparr>)"

definition live :: "'a tbl \<Rightarrow> 'a list" where
  "live t = take (used t) (slots t)"

definition t_wf :: "nat \<Rightarrow> 'a tbl \<Rightarrow> bool" where
  "t_wf cap t \<longleftrightarrow> length (slots t) = cap \<and> used t \<le> cap"

section \<open>Facts about the search\<close>

lemma scan_from_Some:
  "scan_from p xs n i = Some j \<longleftrightarrow> i \<le> j \<and> j < n \<and> p (xs ! j) \<and> (\<forall>k. i \<le> k \<and> k < j \<longrightarrow> \<not> p (xs ! k))"
proof (induction p xs n i rule: scan_from.induct)
  case (1 p xs n i)
  show ?case
  proof (cases "i < n \<and> \<not> p (xs ! i)")
    case True
    then have "scan_from p xs n i = scan_from p xs n (Suc i)"
      by (simp add: scan_from.simps [of p xs n i])
    moreover have "i \<le> k \<longleftrightarrow> i = k \<or> Suc i \<le> k" for k by auto
    ultimately show ?thesis
      using "1.IH" True by auto
  next
    case False
    then show ?thesis by (auto simp: scan_from.simps [of p xs n i])
  qed
qed

lemma scan_from_None:
  "scan_from p xs n i = None \<longleftrightarrow> (\<forall>k. i \<le> k \<and> k < n \<longrightarrow> \<not> p (xs ! k))"
proof (induction p xs n i rule: scan_from.induct)
  case (1 p xs n i)
  show ?case
  proof (cases "i < n \<and> \<not> p (xs ! i)")
    case True
    then have "scan_from p xs n i = scan_from p xs n (Suc i)"
      by (simp add: scan_from.simps [of p xs n i])
    moreover have "i \<le> k \<longleftrightarrow> i = k \<or> Suc i \<le> k" for k by auto
    ultimately show ?thesis
      using "1.IH" True by auto
  next
    case False
    then show ?thesis by (auto simp: scan_from.simps [of p xs n i])
  qed
qed

lemma length_live: "t_wf cap t \<Longrightarrow> length (live t) = used t"
  by (simp add: live_def t_wf_def)

lemma live_nth: "i < used t \<Longrightarrow> live t ! i = t_get t i"
  by (simp add: live_def t_get_def)

lemma t_find_Some:
  "t_find p t = Some i \<longleftrightarrow> i < used t \<and> p (t_get t i) \<and> (\<forall>k<i. \<not> p (t_get t k))"
  by (auto simp: t_find_def scan_from_Some t_get_def)

lemma t_find_None:
  assumes "t_wf cap t"
  shows "t_find p t = None \<longleftrightarrow> (\<forall>x \<in> set (live t). \<not> p x)"
proof -
  have "t_find p t = None \<longleftrightarrow> (\<forall>k < used t. \<not> p (live t ! k))"
    by (auto simp: t_find_def scan_from_None live_nth t_get_def)
  then show ?thesis using assms by (auto simp: all_set_conv_all_nth length_live)
qed

lemma t_find_in_live:
  assumes "t_wf cap t" "t_find p t = Some i"
  shows "t_get t i \<in> set (live t)" and "p (t_get t i)" and "i < used t"
proof -
  show "p (t_get t i)" "i < used t" using assms(2) by (auto simp: t_find_Some)
  then show "t_get t i \<in> set (live t)"
    using assms(1) live_nth [of i t] length_live [of cap t] nth_mem [of i "live t"] by simp
qed

section \<open>The used prefix under each operation\<close>

lemma t_wf_empty [simp]: "t_wf cap (t_empty cap d)"
  by (simp add: t_wf_def t_empty_def)

lemma live_empty [simp]: "live (t_empty cap d) = []"
  by (simp add: live_def t_empty_def)

lemma used_upd [simp]: "used (t_upd i f t) = used t"
  by (simp add: t_upd_def)

lemma t_wf_upd [simp]: "t_wf cap (t_upd i f t) = t_wf cap t"
  by (simp add: t_wf_def t_upd_def)

lemma live_upd: "t_wf cap t \<Longrightarrow> i < used t \<Longrightarrow> live (t_upd i f t) = (live t)[i := f (live t ! i)]"
  by (simp add: live_def t_upd_def t_wf_def take_update_swap)

lemma t_wf_push: "t_wf cap t \<Longrightarrow> used t < cap \<Longrightarrow> t_wf cap (t_push x t)"
  by (simp add: t_wf_def t_push_def)

lemma live_push: "t_wf cap t \<Longrightarrow> used t < cap \<Longrightarrow> live (t_push x t) = live t @ [x]"
  by (simp add: live_def t_push_def t_wf_def take_Suc_conv_app_nth)

lemma used_remove [simp]: "used (t_remove d i t) = used t - 1"
  by (simp add: t_remove_def Let_def)

lemma t_wf_remove [simp]: "t_wf cap t \<Longrightarrow> t_wf cap (t_remove d i t)"
  by (auto simp: t_wf_def t_remove_def Let_def)

lemma live_remove:
  assumes "t_wf cap t" "i < used t"
  shows "live (t_remove d i t) =
    (if i = used t - 1 then butlast (live t) else (butlast (live t))[i := last (live t)])"
proof -
  from assms have u: "0 < used t" and l: "used t \<le> length (slots t)"
    by (auto simp: t_wf_def)
  have b: "butlast (live t) = take (used t - 1) (slots t)"
    using u l by (simp add: live_def butlast_take)
  have n: "live t \<noteq> []" using u l by (auto simp: live_def)
  then have last: "last (live t) = slots t ! (used t - 1)"
    using u l by (simp add: last_conv_nth live_def)
  show ?thesis
    unfolding b last using u l assms(2)
    by (auto simp: live_def t_remove_def Let_def take_update_swap list_update_beyond)
qed

lemma mset_live_remove:
  assumes "t_wf cap t" "i < used t"
  shows "mset (live (t_remove d i t)) = mset (live t) - {#live t ! i#}"
proof -
  have len: "length (live t) = used t" using assms by (simp add: length_live)
  with assms have ne: "live t \<noteq> []" by auto
  then have app: "live t = butlast (live t) @ [last (live t)]" by simp
  show ?thesis
  proof (cases "i = used t - 1")
    case True
    then have "live t ! i = last (live t)" using ne len by (simp add: last_conv_nth)
    moreover have "mset (live t) = mset (butlast (live t)) + {#last (live t)#}"
      by (subst app) simp
    ultimately show ?thesis using True assms by (simp add: live_remove)
  next
    case False
    then have i: "i < length (butlast (live t))" using assms len by simp
    then have nth: "live t ! i = butlast (live t) ! i" by (simp add: nth_butlast)
    have "mset (live t) = mset (butlast (live t)) + {#last (live t)#}"
      by (subst app) simp
    then show ?thesis using False i assms
      by (simp add: live_remove mset_update nth)
  qed
qed

lemma set_live_remove_subset:
  assumes "t_wf cap t" "i < used t"
  shows "set (live (t_remove d i t)) \<subseteq> set (live t)"
proof -
  have "set_mset (mset (live (t_remove d i t))) \<subseteq> set_mset (mset (live t))"
    unfolding mset_live_remove [OF assms] by (rule set_mset_mono) simp
  then show ?thesis by simp
qed

section \<open>Tables with a key\<close>

text \<open>
  \<open>keyed key act cap t\<close>: the slots in use are all active and no two of them share a key, which
  is what the duplicate checks before every insertion are for.  \<open>t_lookup\<close> is then the finite map
  the table stands for.
\<close>

definition keyed :: "('a \<Rightarrow> 'k) \<Rightarrow> ('a \<Rightarrow> bool) \<Rightarrow> nat \<Rightarrow> 'a tbl \<Rightarrow> bool" where
  "keyed key act cap t \<longleftrightarrow>
     t_wf cap t \<and> (\<forall>x \<in> set (live t). act x) \<and> distinct (map key (live t))"

definition t_lookup :: "('a \<Rightarrow> 'k) \<Rightarrow> 'a tbl \<Rightarrow> 'k \<Rightarrow> 'a option" where
  "t_lookup key t = map_of (map (\<lambda>x. (key x, x)) (live t))"

lemma keyed_wf: "keyed key act cap t \<Longrightarrow> t_wf cap t"
  by (simp add: keyed_def)

lemma t_lookup_Some:
  "keyed key act cap t \<Longrightarrow> t_lookup key t k = Some x \<longleftrightarrow> x \<in> set (live t) \<and> key x = k"
  unfolding t_lookup_def keyed_def
  by (subst map_of_eq_Some_iff) (auto simp: comp_def)

lemma t_lookup_None: "t_lookup key t k = None \<longleftrightarrow> k \<notin> key ` set (live t)"
  by (auto simp: t_lookup_def map_of_eq_None_iff image_image)

lemma dom_t_lookup: "dom (t_lookup key t) = key ` set (live t)"
  by (auto simp: t_lookup_def dom_map_of_conv_image_fst image_image)

lemma card_dom_t_lookup: "keyed key act cap t \<Longrightarrow> card (dom (t_lookup key t)) = used t"
  using distinct_card [of "map key (live t)"] by (simp add: dom_t_lookup keyed_def length_live [of cap t])

lemma dom_t_lookup_bound:
  "keyed key act cap t \<Longrightarrow> finite (dom (t_lookup key t)) \<and> card (dom (t_lookup key t)) \<le> cap"
  by (simp add: card_dom_t_lookup) (simp add: dom_t_lookup keyed_def t_wf_def)

lemma keyed_empty: "keyed key act cap (t_empty cap d)"
  by (simp add: keyed_def)

lemma t_lookup_empty: "t_lookup key (t_empty cap d) = Map.empty"
  by (simp add: t_lookup_def)

lemma keyed_find_Some:
  assumes "keyed key act cap t" "\<And>x. act x \<Longrightarrow> p x \<longleftrightarrow> key x = k" "t_find p t = Some i"
  shows "t_lookup key t k = Some (t_get t i)" "i < used t" "key (t_get t i) = k" "act (t_get t i)"
proof -
  have wf: "t_wf cap t" using assms(1) by (rule keyed_wf)
  have *: "t_get t i \<in> set (live t)" "p (t_get t i)" "i < used t"
    using t_find_in_live [OF wf assms(3)] by simp_all
  show a: "act (t_get t i)" using * assms(1) by (simp add: keyed_def)
  show k: "key (t_get t i) = k" using * a assms(2) by simp
  show "i < used t" by fact
  show "t_lookup key t k = Some (t_get t i)"
    using * k assms(1) by (simp add: t_lookup_Some)
qed

lemma keyed_find_None:
  assumes "keyed key act cap t" "\<And>x. act x \<Longrightarrow> p x \<longleftrightarrow> key x = k" "t_find p t = None"
  shows "t_lookup key t k = None"
proof -
  have "\<forall>x \<in> set (live t). \<not> p x"
    using t_find_None [OF keyed_wf [OF assms(1)]] assms(3) by simp
  then show ?thesis using assms(1,2) by (auto simp: t_lookup_None keyed_def)
qed

lemma keyed_find_option:
  assumes "keyed key act cap t" "\<And>x. act x \<Longrightarrow> p x \<longleftrightarrow> key x = k"
  shows "map_option (t_get t) (t_find p t) = t_lookup key t k"
  using keyed_find_Some [OF assms] keyed_find_None [OF assms]
  by (cases "t_find p t") auto

lemma keyed_push:
  assumes "keyed key act cap t" "t_lookup key t (key x) = None" "act x" "used t < cap"
  shows "keyed key act cap (t_push x t)"
    and "t_lookup key (t_push x t) = (t_lookup key t)(key x \<mapsto> x)"
proof -
  have wf: "t_wf cap t" using assms(1) by (rule keyed_wf)
  have l: "live (t_push x t) = live t @ [x]" using wf assms(4) by (rule live_push)
  have n: "key x \<notin> key ` set (live t)" using assms(2) by (simp add: t_lookup_None)
  show "keyed key act cap (t_push x t)"
    using assms(1,3,4) n by (auto simp: keyed_def l t_wf_push)
  moreover have "key y \<noteq> key x" if "y \<in> set (live t)" for y
    using n imageI [OF that, of key] by auto
  ultimately have "t_lookup key (t_push x t) k = Some y \<longleftrightarrow>
      ((t_lookup key t)(key x \<mapsto> x)) k = Some y" for k y
    by (auto simp: t_lookup_Some [OF assms(1)] t_lookup_Some [of key act cap "t_push x t"] l)
  then show "t_lookup key (t_push x t) = (t_lookup key t)(key x \<mapsto> x)"
    by (intro ext) (metis option.exhaust)
qed

lemma keyed_upd:
  assumes "keyed key act cap t" "i < used t"
    and "key (f (t_get t i)) = key (t_get t i)" "act (f (t_get t i))"
  shows "keyed key act cap (t_upd i f t)"
    and "t_lookup key (t_upd i f t) = (t_lookup key t)(key (t_get t i) \<mapsto> f (t_get t i))"
proof -
  let ?y = "f (t_get t i)"
  have wf: "t_wf cap t" using assms(1) by (rule keyed_wf)
  have len: "i < length (live t)" using assms(2) wf by (simp add: length_live)
  have l: "live (t_upd i f t) = (live t)[i := ?y]"
    using live_upd [OF wf assms(2)] assms(2) by (simp add: live_nth)
  have m: "map key (live (t_upd i f t)) = map key (live t)"
    using assms(3) len by (simp add: l map_update list_update_same_conv live_nth [OF assms(2)])
  have set: "set (live (t_upd i f t)) \<subseteq> insert ?y (set (live t))"
    unfolding l by (rule set_update_subset_insert)
  show K: "keyed key act cap (t_upd i f t)"
    using assms(1,4) set by (auto simp: keyed_def m)
  have "t_lookup key (t_upd i f t) k = ((t_lookup key t)(key (t_get t i) \<mapsto> ?y)) k" for k
  proof (cases "k = key (t_get t i)")
    case True
    have "?y \<in> set (live (t_upd i f t))" unfolding l using len by (rule set_update_memI)
    then show ?thesis using True assms(3) K by (simp add: t_lookup_Some)
  next
    case False
    have eq: "x \<in> set (live (t_upd i f t)) \<longleftrightarrow> x \<in> set (live t)" if "key x = k" for x
    proof
      assume "x \<in> set (live (t_upd i f t))"
      then show "x \<in> set (live t)" using set False that assms(3) by auto
    next
      assume "x \<in> set (live t)"
      then obtain j where j: "j < length (live t)" "live t ! j = x" by (auto simp: in_set_conv_nth)
      with False that have "j \<noteq> i" using live_nth [OF assms(2)] by auto
      with j have "live (t_upd i f t) ! j = x" "j < length (live (t_upd i f t))" by (simp_all add: l)
      then show "x \<in> set (live (t_upd i f t))" using nth_mem by metis
    qed
    have "t_lookup key (t_upd i f t) k = Some x \<longleftrightarrow> t_lookup key t k = Some x" for x
      using eq [of x] by (simp only: t_lookup_Some [OF K] t_lookup_Some [OF assms(1)]) blast
    then have "t_lookup key (t_upd i f t) k = t_lookup key t k"
      by (metis option.exhaust)
    then show ?thesis using False by simp
  qed
  then show "t_lookup key (t_upd i f t) = (t_lookup key t)(key (t_get t i) \<mapsto> ?y)" ..
qed

lemma keyed_remove:
  assumes "keyed key act cap t" "i < used t"
  shows "keyed key act cap (t_remove d i t)"
    and "t_lookup key (t_remove d i t) = (t_lookup key t)(key (t_get t i) := None)"
proof -
  have wf: "t_wf cap t" using assms(1) by (rule keyed_wf)
  have nth: "live t ! i = t_get t i" using assms(2) by (rule live_nth)
  have mem: "t_get t i \<in> set (live t)"
    using wf assms(2) nth nth_mem [of i "live t"] by (simp add: length_live)
  have ms: "mset (live t) = mset (live (t_remove d i t)) + {#t_get t i#}"
    using mset_live_remove [OF wf assms(2), of d] mem by (simp add: nth)
  then have "mset (map key (live t)) = mset (map key (live (t_remove d i t)) @ [key (t_get t i)])"
    by (simp add: mset_map)
  then have dist: "distinct (map key (live (t_remove d i t)) @ [key (t_get t i)])"
    using assms(1) mset_eq_imp_distinct_iff by (metis keyed_def)
  have set: "set (live t) = insert (t_get t i) (set (live (t_remove d i t)))"
    using arg_cong [OF ms, of set_mset] by simp
  show K: "keyed key act cap (t_remove d i t)"
    using assms(1) dist set by (auto simp: keyed_def)
  have ne: "key x \<noteq> key (t_get t i)" if "x \<in> set (live (t_remove d i t))" for x
    using dist imageI [OF that, of key] by auto
  have "t_lookup key (t_remove d i t) k = Some x \<longleftrightarrow>
      ((t_lookup key t)(key (t_get t i) := None)) k = Some x" for k x
    using ne by (auto simp: t_lookup_Some [OF K] t_lookup_Some [OF assms(1)] set)
  then show "t_lookup key (t_remove d i t) = (t_lookup key t)(key (t_get t i) := None)"
    by (intro ext) (metis option.exhaust)
qed

text \<open>Tables whose live entries are a selection of another table's.\<close>

lemma keyed_selection:
  assumes K: "keyed key act cap t" and wf: "t_wf cap t'"
    and ms: "mset (live t') = filter_mset P (mset (live t))"
  shows "keyed key act cap t'"
    and "t_lookup key t' k = (case t_lookup key t k of None \<Rightarrow> None | Some x \<Rightarrow> if P x then Some x else None)"
proof -
  have ms': "mset (live t') = mset (filter P (live t))" using ms by simp
  have set: "set (live t') = {x \<in> set (live t). P x}"
    using arg_cong [OF ms', of set_mset] by simp
  have "mset (map key (live t')) = mset (map key (filter P (live t)))"
    using ms' by (simp add: mset_map)
  then have "distinct (map key (live t'))"
    using mset_eq_imp_distinct_iff K by (metis keyed_def distinct_map_filter)
  then show K': "keyed key act cap t'"
    using K wf set by (auto simp: keyed_def)
  show "t_lookup key t' k = (case t_lookup key t k of None \<Rightarrow> None | Some x \<Rightarrow> if P x then Some x else None)"
  proof (cases "t_lookup key t k")
    case None
    then have "t_lookup key t' k = None" by (auto simp: t_lookup_None set)
    then show ?thesis using None by simp
  next
    case (Some x)
    then have x: "x \<in> set (live t)" "key x = k" by (simp_all add: t_lookup_Some [OF K])
    show ?thesis
    proof (cases "P x")
      case True
      then show ?thesis using Some x by (simp add: t_lookup_Some [OF K'] set)
    next
      case False
      have "y = x" if "y \<in> set (live t)" "key y = k" for y
        using that Some by (metis t_lookup_Some [OF K] option.inject)
      then have "t_lookup key t' k = None" using False by (auto simp: t_lookup_None set)
      then show ?thesis using Some False by simp
    qed
  qed
qed

lemma t_get_remove: "k < i \<Longrightarrow> i < used t \<Longrightarrow> t_get (t_remove d i t) k = t_get t k"
  by (simp add: t_get_def t_remove_def Let_def nth_list_update)

text \<open>A loop over the used prefix that rewrites some of the slots in place.\<close>

lemma fold_upd_each:
  "n \<le> length (slots t) \<Longrightarrow>
   fold (\<lambda>i t. if P (t_get t i) then t_upd i f t else t) [0..<n] t =
     t\<lparr>slots := map (\<lambda>x. if P x then f x else x) (take n (slots t)) @ drop n (slots t)\<rparr>"
proof (induction n)
  case (Suc n)
  then have n: "n < length (slots t)" by simp
  show ?case
    using Suc.IH n Cons_nth_drop_Suc [OF n, symmetric]
    by (simp add: t_get_def t_upd_def nth_append list_update_append take_Suc_conv_app_nth)
qed simp

lemma live_upd_each:
  "t_wf cap t \<Longrightarrow> live (fold (\<lambda>i t. if P (t_get t i) then t_upd i f t else t) [0..<used t] t) =
     map (\<lambda>x. if P x then f x else x) (live t)"
  by (subst fold_upd_each) (simp_all add: t_wf_def live_def)

lemma t_wf_upd_each:
  "t_wf cap t \<Longrightarrow> t_wf cap (fold (\<lambda>i t. if P (t_get t i) then t_upd i f t else t) [0..<used t] t)"
  by (subst fold_upd_each) (simp_all add: t_wf_def)

lemma keyed_map:
  assumes K: "keyed key act cap t" and wf: "t_wf cap t'" and l: "live t' = map g (live t)"
    and g: "\<And>x. x \<in> set (live t) \<Longrightarrow> key (g x) = key x \<and> act (g x)"
  shows "keyed key act cap t'" and "t_lookup key t' k = map_option g (t_lookup key t k)"
proof -
  have m: "map key (live t') = map key (live t)" using g by (simp add: l)
  have "distinct (map key (live t'))" unfolding m using K by (simp add: keyed_def)
  moreover have "\<forall>x \<in> set (live t'). act x" using g by (auto simp: l)
  ultimately show K': "keyed key act cap t'" using wf by (simp add: keyed_def)
  have "t_lookup key t' k = Some y \<longleftrightarrow> map_option g (t_lookup key t k) = Some y" for y
    using g by (auto simp: t_lookup_Some [OF K'] t_lookup_Some [OF K] l)
  then show "t_lookup key t' k = map_option g (t_lookup key t k)"
    by (metis option.exhaust)
qed

section \<open>The bounded-map interface\<close>

text \<open>
  What the clients of a table rely on.  \<open>merge k a old\<close> says what inserting the argument \<open>a\<close>
  under the key \<open>k\<close> makes of the entry already stored there (\<open>None\<close>: the insertion is refused),
  and a new key is refused when the map is full.
\<close>

definition bm_put ::
    "nat \<Rightarrow> ('k \<Rightarrow> 'a \<Rightarrow> 'v option \<Rightarrow> 'v option) \<Rightarrow> 'a \<Rightarrow> 'k \<Rightarrow> ('k \<rightharpoonup> 'v) \<Rightarrow> ('k \<rightharpoonup> 'v)" where
  "bm_put cap merge a k m =
     (case merge k a (m k) of
        None \<Rightarrow> m
      | Some v \<Rightarrow> if m k \<noteq> None \<or> card (dom m) < cap then m(k \<mapsto> v) else m)"

datatype ('a, 'k) table_op = Put 'a 'k | Del 'k

fun table_step :: "('a \<Rightarrow> 'k \<Rightarrow> 't \<Rightarrow> 't) \<Rightarrow> ('k \<Rightarrow> 't \<Rightarrow> 't) \<Rightarrow> ('a, 'k) table_op \<Rightarrow> 't \<Rightarrow> 't" where
  "table_step put del (Put a k) t = put a k t"
| "table_step put del (Del k) t = del k t"

definition bm_del :: "'k \<Rightarrow> ('k \<rightharpoonup> 'v) \<Rightarrow> ('k \<rightharpoonup> 'v)" where
  "bm_del k m = m(k := None)"

text \<open>
  The two shapes every keyed table of the library has, against the map operations: an insertion
  that searches, updates on a hit and appends on a miss, and a removal.
\<close>

lemma t_upd_const: "t_upd i f t = t_upd i (\<lambda>_. f (t_get t i)) t"
  by (simp add: t_upd_def t_get_def)

lemma keyed_put_refines:
  assumes K: "keyed key act cap t" and p: "\<And>x. act x \<Longrightarrow> p x \<longleftrightarrow> key x = k"
    and good: "\<And>old v. merge k a old = Some v \<Longrightarrow> key v = k \<and> act v"
    and hit: "\<And>i. t_find p t = Some i \<Longrightarrow>
      t' = (case merge k a (Some (t_get t i)) of None \<Rightarrow> t | Some v \<Rightarrow> t_upd i (\<lambda>_. v) t)"
    and miss: "t_find p t = None \<Longrightarrow>
      t' = (case merge k a None of None \<Rightarrow> t | Some v \<Rightarrow> if used t < cap then t_push v t else t)"
  shows "keyed key act cap t' \<and> t_lookup key t' = bm_put cap merge a k (t_lookup key t)"
proof (cases "t_find p t")
  case None
  note l = keyed_find_None [OF K p None]
  show ?thesis
  proof (cases "merge k a None")
    case m: None
    then show ?thesis using miss [OF None] K l by (simp add: bm_put_def)
  next
    case (Some v)
    then have v: "key v = k" "act v" using good by blast+
    show ?thesis
      using miss [OF None] Some K l v keyed_push [OF K _ v(2)] card_dom_t_lookup [OF K]
      by (simp add: bm_put_def)
  qed
next
  case (Some i)
  note f = keyed_find_Some [OF K p Some]
  show ?thesis
  proof (cases "merge k a (Some (t_get t i))")
    case None
    then show ?thesis using hit [OF Some] K f by (simp add: bm_put_def)
  next
    case v: (Some v)
    then have "key v = k" "act v" using good by blast+
    then show ?thesis
      using hit [OF Some] v f keyed_upd [OF K f(2), of "\<lambda>_. v"] by (simp add: bm_put_def)
  qed
qed

lemma keyed_del_refines:
  assumes K: "keyed key act cap t" and p: "\<And>x. act x \<Longrightarrow> p x \<longleftrightarrow> key x = k"
    and hit: "\<And>i. t_find p t = Some i \<Longrightarrow> t' = t_remove d i t"
    and miss: "t_find p t = None \<Longrightarrow> t' = t"
  shows "keyed key act cap t' \<and> t_lookup key t' = bm_del k (t_lookup key t)"
proof (cases "t_find p t")
  case None
  then show ?thesis using keyed_find_None [OF K p None] miss K by (auto simp: bm_del_def)
next
  case (Some i)
  then show ?thesis
    using keyed_find_Some [OF K p Some] keyed_remove [OF K, of i d] hit by (simp add: bm_del_def)
qed

locale bounded_map =
  fixes lookup :: "'t \<Rightarrow> 'k \<Rightarrow> 'v option"
    and inv :: "'t \<Rightarrow> bool"
    and cap :: nat
    and merge :: "'k \<Rightarrow> 'a \<Rightarrow> 'v option \<Rightarrow> 'v option"
    and put :: "'a \<Rightarrow> 'k \<Rightarrow> 't \<Rightarrow> 't"
  assumes put_inv: "inv t \<Longrightarrow> inv (put a k t)"
    and put_lookup: "inv t \<Longrightarrow> lookup (put a k t) = bm_put cap merge a k (lookup t)"
    and dom_bound: "inv t \<Longrightarrow> finite (dom (lookup t)) \<and> card (dom (lookup t)) \<le> cap"
begin

lemma put_other: "inv t \<Longrightarrow> k' \<noteq> k \<Longrightarrow> lookup (put a k t) k' = lookup t k'"
  by (simp add: put_lookup bm_put_def split: option.splits)

lemma put_same:
  "inv t \<Longrightarrow> merge k a (lookup t k) = Some v \<Longrightarrow> lookup t k \<noteq> None \<or> card (dom (lookup t)) < cap \<Longrightarrow>
   lookup (put a k t) k = Some v"
  by (auto simp: put_lookup bm_put_def)

lemma put_full:
  "inv t \<Longrightarrow> lookup t k = None \<Longrightarrow> card (dom (lookup t)) = cap \<Longrightarrow> lookup (put a k t) = lookup t"
  by (simp add: put_lookup bm_put_def split: option.splits)

lemma puts_refine:
  "inv t \<Longrightarrow> inv (fold (\<lambda>(a, k). put a k) aks t) \<and>
   lookup (fold (\<lambda>(a, k). put a k) aks t) = fold (\<lambda>(a, k). bm_put cap merge a k) aks (lookup t)"
  by (induction aks arbitrary: t) (auto simp: put_inv put_lookup)

end

locale deletable_map = bounded_map lookup inv cap merge put
  for lookup :: "'t \<Rightarrow> 'k \<Rightarrow> 'v option" and inv cap
    and merge :: "'k \<Rightarrow> 'a \<Rightarrow> 'v option \<Rightarrow> 'v option" and put +
  fixes del :: "'k \<Rightarrow> 't \<Rightarrow> 't"
  assumes del_inv: "inv t \<Longrightarrow> inv (del k t)"
    and del_lookup: "inv t \<Longrightarrow> lookup (del k t) = bm_del k (lookup t)"
begin

lemma run_inv: "inv t \<Longrightarrow> inv (fold (table_step put del) ops t)"
proof (induction ops arbitrary: t)
  case (Cons x ops)
  then show ?case by (cases x) (simp_all add: put_inv del_inv)
qed simp

lemma run_refines:
  "inv t \<Longrightarrow> lookup (fold (table_step put del) ops t) =
     fold (table_step (bm_put cap merge) bm_del) ops (lookup t)"
proof (induction ops arbitrary: t)
  case (Cons x ops)
  then show ?case by (cases x) (simp_all add: put_inv del_inv put_lookup del_lookup)
qed simp

lemma run_bounded: "inv t \<Longrightarrow> card (dom (lookup (fold (table_step put del) ops t))) \<le> cap"
  using run_inv dom_bound by blast

end

end
