(* ===== verification/Message_Authenticator.thy ===== *)
theory Message_Authenticator
  imports Hmac Message_Header Effects Fixed_Table
begin

text \<open>
  Per-peer HMAC keys and the 128-bit message authentication code over header and payload
  (\<open>security/message_authenticator.hpp\<close>).  The code hashes the two parts one after the other; the
  lemmas show that this is the HMAC of their concatenation, and that verification accepts exactly
  the right code of a known peer.
\<close>

record KeyEntry =
  ke_address :: addr
  ke_key :: bytes

type_synonym KeyTable = "KeyEntry tbl"

definition default_key :: "config \<Rightarrow> KeyEntry" where
  "default_key cfg = \<lparr> ke_address = zero_addr cfg, ke_key = replicate (HmacKeySize cfg) 0 \<rparr>"

definition auth_init :: "config \<Rightarrow> KeyTable" where
  "auth_init cfg = t_empty (MaxTrackedPeers cfg) (default_key cfg)"

definition key_is :: "addr \<Rightarrow> KeyEntry \<Rightarrow> bool" where
  "key_is peer k \<longleftrightarrow> ke_address k = peer"

definition set_key ::
    "config \<Rightarrow> logger option \<Rightarrow> addr \<Rightarrow> bytes \<Rightarrow> KeyTable \<Rightarrow> bool \<times> KeyTable \<times> effect list" where
  "set_key cfg lg peer key t =
     (case t_find (key_is peer) t of
        Some i \<Rightarrow>
          (True, t_upd i (\<lambda>e. e\<lparr>ke_key := take (HmacKeySize cfg) key\<rparr>) t,
           if_logger (\<lambda>l. log_info cfg l CatAuth ''key_updated'' 0 0 0 0) lg)
      | None \<Rightarrow>
          if used t < MaxTrackedPeers cfg then
            (True, t_push \<lparr>ke_address = peer, ke_key = take (HmacKeySize cfg) key\<rparr> t,
             if_logger (\<lambda>l. log_info cfg l CatAuth ''key_added'' 0 0 0 (of_nat (used t + 1))) lg)
          else
            (False, t,
             if_logger (\<lambda>l. log_warn cfg l CatAuth ''key_table_full'' 0 0 0 (of_nat (used t))) lg))"

definition find_key :: "addr \<Rightarrow> KeyTable \<Rightarrow> KeyEntry option" where
  "find_key peer t = map_option (t_get t) (t_find (key_is peer) t)"

definition compute_hmac_two_part :: "bytes \<Rightarrow> bytes \<Rightarrow> bytes \<Rightarrow> bytes" where
  "compute_hmac_two_part key part1 part2 =
     (let k_prime = hmac_k_prime key;
          inner = sha_update part2 (sha_update part1 (sha_update (ipad_block k_prime) sha_init));
          inner_hash = sha_finalize inner;
          outer = sha_update inner_hash (sha_update (opad_block k_prime) sha_init);
          full = sha_finalize outer
      in take 16 full)"

text \<open>\<open>None\<close>: no key for the peer, and the output buffer is left alone.\<close>

definition auth_compute :: "bytes \<Rightarrow> bytes \<Rightarrow> addr \<Rightarrow> KeyTable \<Rightarrow> bytes option" where
  "auth_compute header_20 payload peer t =
     (case find_key peer t of
        None \<Rightarrow> None
      | Some ke \<Rightarrow> Some (compute_hmac_two_part (ke_key ke) header_20 payload))"

definition auth_verify ::
    "config \<Rightarrow> logger option \<Rightarrow> bytes \<Rightarrow> bytes \<Rightarrow> addr \<Rightarrow> bytes \<Rightarrow> KeyTable \<Rightarrow> bool \<times> effect list" where
  "auth_verify cfg lg header_20 payload peer received_hmac t =
     (case auth_compute header_20 payload peer t of
        None \<Rightarrow> (False, if_logger (\<lambda>l. log_debug cfg l CatAuth ''verify_no_key'' 0 0 0 0) lg)
      | Some computed \<Rightarrow>
          let ok = hmac_equal computed received_hmac in
          (ok, if \<not> ok then if_logger (\<lambda>l. log_warn cfg l CatAuth ''verify_mismatch'' 0 0 0 0) lg
               else []))"

definition has_key :: "addr \<Rightarrow> KeyTable \<Rightarrow> bool" where
  "has_key peer t \<longleftrightarrow> find_key peer t \<noteq> None"

section \<open>The key table is a bounded map\<close>

definition auth_wf :: "config \<Rightarrow> KeyTable \<Rightarrow> bool" where
  "auth_wf cfg t \<longleftrightarrow> keyed ke_address (\<lambda>_. True) (MaxTrackedPeers cfg) t"

abbreviation key_lookup :: "KeyTable \<Rightarrow> addr \<Rightarrow> KeyEntry option" where
  "key_lookup \<equiv> t_lookup ke_address"

definition key_put :: "config \<Rightarrow> bytes \<Rightarrow> addr \<Rightarrow> KeyTable \<Rightarrow> KeyTable" where
  "key_put cfg key peer t = fst (snd (set_key cfg None peer key t))"

definition key_merge :: "config \<Rightarrow> addr \<Rightarrow> bytes \<Rightarrow> KeyEntry option \<Rightarrow> KeyEntry option" where
  "key_merge cfg peer key old = Some \<lparr>ke_address = peer, ke_key = take (HmacKeySize cfg) key\<rparr>"

lemma key_is_key: "True \<Longrightarrow> key_is peer k \<longleftrightarrow> ke_address k = peer"
  by (simp add: key_is_def)

lemma auth_wf_init [simp]: "auth_wf cfg (auth_init cfg)"
  by (simp add: auth_wf_def auth_init_def keyed_empty)

lemma set_key_state: "fst (snd (set_key cfg lg peer key t)) = key_put cfg key peer t"
  by (simp add: key_put_def set_key_def split: option.splits)

lemma find_key_lookup: "auth_wf cfg t \<Longrightarrow> find_key peer t = key_lookup t peer"
  unfolding find_key_def auth_wf_def by (rule keyed_find_option [OF _ key_is_key])

lemma key_put_table:
  assumes "auth_wf cfg t"
  shows "auth_wf cfg (key_put cfg key peer t)"
    and "key_lookup (key_put cfg key peer t) =
      bm_put (MaxTrackedPeers cfg) (key_merge cfg) key peer (key_lookup t)"
proof -
  let ?t' = "key_put cfg key peer t"
  have "keyed ke_address (\<lambda>_. True) (MaxTrackedPeers cfg) ?t' \<and>
      key_lookup ?t' = bm_put (MaxTrackedPeers cfg) (key_merge cfg) key peer (key_lookup t)"
  proof (rule keyed_put_refines [OF assms [unfolded auth_wf_def] key_is_key])
    fix old v assume "key_merge cfg peer key old = Some v"
    then show "ke_address v = peer \<and> True" by (auto simp: key_merge_def)
  next
    fix i assume f: "t_find (key_is peer) t = Some i"
    then have "(t_get t i)\<lparr>ke_key := take (HmacKeySize cfg) key\<rparr> =
        \<lparr>ke_address = peer, ke_key = take (HmacKeySize cfg) key\<rparr>"
      by (cases "t_get t i") (simp add: t_find_Some key_is_def)
    then show "?t' = (case key_merge cfg peer key (Some (t_get t i)) of
        None \<Rightarrow> t | Some v \<Rightarrow> t_upd i (\<lambda>_. v) t)"
      using f t_upd_const [of i "\<lambda>e. e\<lparr>ke_key := take (HmacKeySize cfg) key\<rparr>" t]
      by (simp add: key_put_def set_key_def key_merge_def)
  next
    assume "t_find (key_is peer) t = None"
    then show "?t' = (case key_merge cfg peer key None of
        None \<Rightarrow> t | Some v \<Rightarrow> if used t < MaxTrackedPeers cfg then t_push v t else t)"
      by (simp add: key_put_def set_key_def key_merge_def)
  qed simp_all
  then show "auth_wf cfg (key_put cfg key peer t)"
    and "key_lookup (key_put cfg key peer t) =
      bm_put (MaxTrackedPeers cfg) (key_merge cfg) key peer (key_lookup t)"
    by (simp_all add: auth_wf_def)
qed

interpretation keys: bounded_map key_lookup "auth_wf cfg" "MaxTrackedPeers cfg" "key_merge cfg"
  "key_put cfg" for cfg
proof
  fix t a k assume "auth_wf cfg t"
  then show "auth_wf cfg (key_put cfg a k t)"
    "key_lookup (key_put cfg a k t) = bm_put (MaxTrackedPeers cfg) (key_merge cfg) a k (key_lookup t)"
    by (simp_all add: key_put_table)
  show "finite (dom (key_lookup t)) \<and> card (dom (key_lookup t)) \<le> MaxTrackedPeers cfg"
    using \<open>auth_wf cfg t\<close> unfolding auth_wf_def by (rule dom_t_lookup_bound)
qed

section \<open>The authentication code\<close>

lemma hmac_two_part: "compute_hmac_two_part key p1 p2 = hmac_sha256_128 key (p1 @ p2)"
  by (simp add: compute_hmac_two_part_def hmac_sha256_128_def hmac_sha256_def Let_def
      sha.three_pieces)

lemma length_auth_compute: "auth_compute h p peer t = Some m \<Longrightarrow> length m = 16"
  by (auto simp: auth_compute_def hmac_two_part split: option.splits)

lemma has_key_compute: "has_key peer t \<longleftrightarrow> auth_compute h p peer t \<noteq> None"
  by (auto simp: has_key_def auth_compute_def split: option.splits)

lemma auth_verify_iff:
  assumes "length mac = 16"
  shows "fst (auth_verify cfg lg h p peer mac t) \<longleftrightarrow> auth_compute h p peer t = Some mac"
proof (cases "auth_compute h p peer t")
  case (Some m)
  then show ?thesis
    using assms length_auth_compute [OF Some] by (simp add: auth_verify_def Let_def hmac_equal_iff)
qed (simp add: auth_verify_def)

lemma auth_verify_silent [simp]: "visible (snd (auth_verify cfg lg h p peer mac t)) = []"
  by (cases "auth_compute h p peer t") (simp_all add: auth_verify_def Let_def)

lemma set_key_silent [simp]: "visible (snd (snd (set_key cfg lg peer key t))) = []"
  by (cases "t_find (key_is peer) t") (simp_all add: set_key_def)

end
