(* ===== verification/Sd_Payload.thy ===== *)
theory Sd_Payload
  imports Message_Header
begin

text \<open>
  The payloads of service-discovery messages (namespace \<open>sd_payload\<close> of
  \<open>service/service_discovery.hpp\<close>): encoders as the list of the bytes they write, decoders as
  \<open>None\<close> when they return false.  Decoding an encoded payload, with any bytes after it, gives the
  fields back.
\<close>

definition SD_OFFER_PAYLOAD_SIZE :: "config \<Rightarrow> nat" where
  "SD_OFFER_PAYLOAD_SIZE cfg = 8 + TransportAddressSize cfg"

definition SD_FIND_PAYLOAD_SIZE :: nat where [const_simps, simp]: "SD_FIND_PAYLOAD_SIZE = 4"

definition SD_SUBSCRIBE_PAYLOAD_SIZE :: nat where
  [const_simps, simp]: "SD_SUBSCRIBE_PAYLOAD_SIZE = 8"

definition serialize_offer ::
    "config \<Rightarrow> u16 \<Rightarrow> u8 \<Rightarrow> u8 \<Rightarrow> u16 \<Rightarrow> u16 \<Rightarrow> addr \<Rightarrow> bytes" where
  "serialize_offer cfg sid major minor ttl session provider =
     write_u16 sid @ [major, minor] @ write_u16 ttl @ write_u16 session
     @ take (TransportAddressSize cfg) provider"

record offer_fields =
  of_service_id :: u16
  of_major :: u8
  of_minor :: u8
  of_ttl :: u16
  of_session :: u16
  of_provider :: addr

definition deserialize_offer :: "config \<Rightarrow> bytes \<Rightarrow> offer_fields option" where
  "deserialize_offer cfg data =
     (if length data < SD_OFFER_PAYLOAD_SIZE cfg then None
      else Some \<lparr> of_service_id = read_u16 data 0, of_major = data ! 2, of_minor = data ! 3,
                  of_ttl = read_u16 data 4, of_session = read_u16 data 6,
                  of_provider = take (TransportAddressSize cfg) (drop 8 data) \<rparr>)"

definition serialize_find :: "u16 \<Rightarrow> bytes" where
  "serialize_find sid = write_u16 sid @ [0, 0]"

definition deserialize_find :: "bytes \<Rightarrow> u16 option" where
  "deserialize_find data =
     (if length data < SD_FIND_PAYLOAD_SIZE then None else Some (read_u16 data 0))"

definition serialize_subscribe :: "u16 \<Rightarrow> u16 \<Rightarrow> u16 \<Rightarrow> bytes" where
  "serialize_subscribe sid eid ttl = write_u16 sid @ write_u16 eid @ write_u16 ttl @ [0, 0]"

definition deserialize_subscribe :: "bytes \<Rightarrow> (u16 \<times> u16 \<times> u16) option" where
  "deserialize_subscribe data =
     (if length data < SD_SUBSCRIBE_PAYLOAD_SIZE then None
      else Some (read_u16 data 0, read_u16 data 2, read_u16 data 4))"

section \<open>Lengths and round trips\<close>

lemma length_serialize_offer [len_simps, simp]:
  "length provider = TransportAddressSize cfg \<Longrightarrow>
   length (serialize_offer cfg sid major minor ttl session provider) = SD_OFFER_PAYLOAD_SIZE cfg"
  by (simp add: serialize_offer_def SD_OFFER_PAYLOAD_SIZE_def)

lemma length_serialize_find [len_simps, simp]: "length (serialize_find sid) = 4"
  by (simp add: serialize_find_def)

lemma length_serialize_subscribe [len_simps, simp]: "length (serialize_subscribe sid eid ttl) = 8"
  by (simp add: serialize_subscribe_def)

lemma deserialize_serialize_offer:
  "length provider = TransportAddressSize cfg \<Longrightarrow>
   deserialize_offer cfg (serialize_offer cfg sid major minor ttl session provider @ rest) =
     Some \<lparr> of_service_id = sid, of_major = major, of_minor = minor, of_ttl = ttl,
            of_session = session, of_provider = provider \<rparr>"
  by (simp add: deserialize_offer_def serialize_offer_def SD_OFFER_PAYLOAD_SIZE_def read_u16_def
      write_u16_def u16_bytes)

lemma deserialize_serialize_find: "deserialize_find (serialize_find sid @ rest) = Some sid"
  by (simp add: deserialize_find_def serialize_find_def read_u16_def write_u16_def u16_bytes)

lemma deserialize_serialize_subscribe:
  "deserialize_subscribe (serialize_subscribe sid eid ttl @ rest) = Some (sid, eid, ttl)"
  by (simp add: deserialize_subscribe_def serialize_subscribe_def read_u16_def write_u16_def u16_bytes)

lemma deserialize_offer_length:
  "deserialize_offer cfg data = Some f \<Longrightarrow> length (of_provider f) = TransportAddressSize cfg"
  by (auto simp: deserialize_offer_def SD_OFFER_PAYLOAD_SIZE_def split: if_splits)

end
