(* ===== verification/Codec_Properties.thy ===== *)
theory Codec_Properties
  imports Crc16 Fips180 Hmac Message_Header Message_Authenticator Sd_Payload
begin

text \<open>
  The properties of the wire format and of the cryptographic primitives: CRC, SHA-256, HMAC, the
  message header and the service-discovery payloads.
\<close>

section \<open>CRC-16\<close>

text \<open>C31: The table-driven CRC loop computes the bit-serial CRC-16/CCITT-FALSE register (polynomial
  0x1021, start value 0xFFFF, most significant bit first) over the bits of the data.\<close>

theorem crc_is_bit_serial: "crc16_compute data = foldl crc_serial 0xFFFF (frame_bits data)"
  by (simp add: crc16_compute_def crc_fold_serial)

text \<open>A frame to which \<open>crc16_append\<close> has added its two bytes passes \<open>crc16_verify\<close>, and the
  data bytes are unchanged.\<close>

theorem crc_append_then_verify:
  assumes "n + 2 \<le> length buf"
  shows "crc16_verify (take (n + 2) (crc16_append buf n)) \<and> take n (crc16_append buf n) = take n buf"
proof -
  have "take (n + 2) (crc16_append buf n) = take n buf @ crc_trailer (crc16_compute (take n buf))"
    by (rule crc16_append_take [OF assms])
  moreover have "take n (crc16_append buf n) = take n buf"
    using assms by (simp add: crc16_append_blit take_blit_le)
  ultimately show ?thesis by (simp add: crc16_trailer_verify)
qed

theorem crc_append_then_verify_witness:
  "crc16_verify (take (1 + 2) (crc16_append [0x31, 0, 0] 1)) \<and>
   take 1 (crc16_append [0x31, 0, 0] 1) = take 1 [0x31, 0, 0 :: u8]"
  by (rule crc_append_then_verify) simp

text \<open>C32: Every error burst is detected: a frame that differs from a valid one only inside some
  window of 16 consecutive bits, which may lie across the data and the checksum, does not verify.\<close>

theorem crc_detects_bursts:
  assumes "crc16_verify f" "burst_differs k f g"
  shows "\<not> crc16_verify g"
  using assms burst_crc_differs [of k f g] by (auto simp: crc16_verify_codeword)

theorem crc_detects_bursts_witness:
  "\<not> crc16_verify ([1, 2] @ crc_trailer (crc16_compute [1, 3]))"
proof (rule crc_detects_bursts)
  show "crc16_verify ([1, 3] @ crc_trailer (crc16_compute [1, 3]))" by (rule crc16_trailer_verify)
  show "burst_differs 0 ([1, 3] @ crc_trailer (crc16_compute [1, 3]))
      ([1, 2] @ crc_trailer (crc16_compute [1, 3]))"
    by (simp add: burst_differs_def frame_bits_def)
qed

section \<open>SHA-256 and HMAC\<close>

text \<open>C33: The streaming SHA-256, fed with a message in any number of pieces, yields the FIPS 180-4
  digest of the whole message.  The reference \<open>fips_sha256\<close> is written from the standard: its constants are computed
  from roots of primes, and its functions, padding, schedule, rounds and byte order share no definition with
  the code.\<close>

theorem sha_pieces_conform: "sha_finalize (fold sha_update parts sha_init) = fips_sha256 (concat parts)"
proof (cases "parts = []")
  case True
  have "sha_update [] sha_init = sha_init" using sha.ok_init by (simp add: sha_update_feeds sha_ok_def)
  then show ?thesis using True sha_hash_spec [of "[]"] by (simp add: sha_hash_def sha_spec_fips)
next
  case False
  then show ?thesis
    using sha_hash_spec [of "concat parts"] sha.pieces [OF False sha.ok_init] by (simp add: sha_hash_def sha_spec_fips)
qed

text \<open>C36: The main loop of \<open>Sha256::update\<close> terminates from every well-formed state and any data:
  the iteration of its body reaches an empty rest.\<close>

theorem sha_update_terminates:
  assumes "sha_wf s"
  shows "\<exists>s'. while_option (\<lambda>(d, s). d \<noteq> []) update_body (data, s) = Some ([], s')"
proof -
  obtain d s' where w: "while_option (\<lambda>(d, s). d \<noteq> []) update_body (data, s) = Some (d, s')"
    using update_loop_terminates [OF assms, of data] by fastforce
  then have "d = []" using while_option_stop [OF w] by simp
  then show ?thesis using w by blast
qed

theorem sha_update_terminates_witness:
  "\<exists>s'. while_option (\<lambda>(d, s). d \<noteq> []) update_body ([1, 2, 3], sha_init) = Some ([], s')"
  by (rule sha_update_terminates) (use sha.ok_init in \<open>simp add: sha_ok_def\<close>)

text \<open>The HMAC that the authenticator computes over the header and the payload in two updates is
  HMAC-SHA256-128 of their concatenation, in the textbook form
  \<open>H((K' xor opad) || H((K' xor ipad) || message))\<close> cut to 16 bytes.\<close>

theorem two_part_hmac_is_hmac:
  "compute_hmac_two_part key header payload =
     take 16 (sha_hash (opad_block (hmac_k_prime key) @
       sha_hash (ipad_block (hmac_k_prime key) @ header @ payload)))"
  by (simp add: hmac_two_part hmac_sha256_128_def hmac_sha256_textbook)

text \<open>C34: Verification of a received HMAC succeeds exactly when the peer has a key and the 16 bytes
  are the HMAC of header and payload under that key.\<close>

theorem verify_is_exact:
  assumes "auth_wf cfg t" "length mac = 16"
  shows "fst (auth_verify cfg lg header payload peer mac t) \<longleftrightarrow>
    (\<exists>k. key_lookup t peer = Some k \<and> mac = hmac_sha256_128 (ke_key k) (header @ payload))"
  using assms(2)
  by (auto simp: auth_verify_iff auth_compute_def find_key_lookup [OF assms(1)] hmac_two_part
      split: option.splits)

theorem verify_is_exact_witness:
  "fst (auth_verify DefaultConfig None [3] [4] [9] (hmac_sha256_128 [1, 2] [3, 4])
     (key_put DefaultConfig [1, 2] [9] (auth_init DefaultConfig)))"
proof -
  have wf: "auth_wf DefaultConfig (key_put DefaultConfig [1, 2] [9] (auth_init DefaultConfig))"
    by (rule keys.put_inv) simp
  have "key_lookup (key_put DefaultConfig [1, 2] [9] (auth_init DefaultConfig)) [9] =
      Some \<lparr>ke_address = [9], ke_key = [1, 2]\<rparr>" by code_simp
  then show ?thesis using verify_is_exact [OF wf, of "hmac_sha256_128 [1, 2] [3, 4]" None "[3]" "[4]" "[9]"]
    by simp
qed

section \<open>Header and payloads\<close>

text \<open>C35: Deserializing a serialized header gives the header back, whatever bytes follow it, and
  serializing the header read from any 20 bytes gives these bytes back.\<close>

theorem header_roundtrip:
  "deserialize (serialize h @ rest) = h \<and> (length p = 20 \<longrightarrow> serialize (deserialize p) = p)"
  by (simp add: deserialize_serialize_append serialize_deserialize)

theorem header_roundtrip_witness:
  "serialize (deserialize (replicate 20 7)) = replicate 20 7"
  using header_roundtrip [of default_header "[]" "replicate 20 7"] by simp

text \<open>Decoding an encoded service-discovery payload (offer, find, and the subscribe,
  acknowledge and unsubscribe payload) gives its fields back, whatever bytes follow; an offer
  payload that is cut short is not decoded.\<close>

theorem sd_payload_roundtrip:
  assumes "length provider = TransportAddressSize cfg"
  shows "deserialize_offer cfg (serialize_offer cfg sid major minor ttl session provider @ rest) =
      Some \<lparr> of_service_id = sid, of_major = major, of_minor = minor, of_ttl = ttl,
             of_session = session, of_provider = provider \<rparr> \<and>
    (\<forall>k < SD_OFFER_PAYLOAD_SIZE cfg.
       deserialize_offer cfg (take k (serialize_offer cfg sid major minor ttl session provider)) = None) \<and>
    deserialize_subscribe (serialize_subscribe sid eid ttl @ rest) = Some (sid, eid, ttl) \<and>
    deserialize_find (serialize_find sid @ rest) = Some sid"
  using deserialize_serialize_offer [OF assms]
  by (auto simp: deserialize_offer_def assms deserialize_serialize_subscribe deserialize_serialize_find)

theorem sd_payload_roundtrip_witness:
  "deserialize_offer DefaultConfig (serialize_offer DefaultConfig 0x1234 1 2 5 9 (replicate 8 3)) =
     Some \<lparr> of_service_id = 0x1234, of_major = 1, of_minor = 2, of_ttl = 5, of_session = 9,
            of_provider = replicate 8 3 \<rparr>"
proof -
  have "length (replicate 8 3 :: bytes) = TransportAddressSize DefaultConfig" by (simp add: DefaultConfig_def)
  from sd_payload_roundtrip [OF this, where rest = "[]" and sid = "0x1234" and major = 1 and minor = 2
      and ttl = 5 and session = 9] show ?thesis by simp
qed

end
