(* ===== verification/Diagnostic_Counters.thy ===== *)
theory Diagnostic_Counters
  imports Effects
begin

text \<open>
  The nine diagnostic counters and the discard callback (\<open>core/diagnostic_counters.hpp\<close>).
\<close>

record DiagnosticCounters =
  dc_counters :: "u32 list"
  dc_callback :: "nat option"
  dc_callback_ctx :: nat

definition counters_init :: DiagnosticCounters where
  "counters_init = \<lparr> dc_counters = replicate counter_count 0, dc_callback = None, dc_callback_ctx = 0 \<rparr>"

definition counters_set_callback :: "nat option \<Rightarrow> nat \<Rightarrow> DiagnosticCounters \<Rightarrow> DiagnosticCounters" where
  "counters_set_callback cb ctx d = d\<lparr>dc_callback := cb, dc_callback_ctx := ctx\<rparr>"

definition increment ::
    "DiagnosticCounter \<Rightarrow> bytes option \<Rightarrow> DiagnosticCounters \<Rightarrow> DiagnosticCounters \<times> effect list" where
  "increment c header_or_null d =
     (let idx = counter_index c;
          v = dc_counters d ! idx;
          d' = (if v < 0xFFFFFFFF then d\<lparr>dc_counters := (dc_counters d)[idx := v + 1]\<rparr> else d)
      in (d', case dc_callback d' of
                None \<Rightarrow> []
              | Some cb \<Rightarrow> [Out_Diag cb (dc_callback_ctx d') c header_or_null]))"

definition counter_get :: "DiagnosticCounter \<Rightarrow> DiagnosticCounters \<Rightarrow> u32" where
  "counter_get c d = dc_counters d ! counter_index c"

definition counters_reset :: "DiagnosticCounters \<Rightarrow> DiagnosticCounters" where
  "counters_reset d = d\<lparr>dc_counters := replicate counter_count 0\<rparr>"

section \<open>Facts\<close>

definition counters_wf :: "DiagnosticCounters \<Rightarrow> bool" where
  "counters_wf d \<longleftrightarrow> length (dc_counters d) = counter_count"

lemma counters_wf_init [simp]: "counters_wf counters_init"
  by (simp add: counters_wf_def counters_init_def)

lemma counters_wf_increment [simp]: "counters_wf d \<Longrightarrow> counters_wf (fst (increment c h d))"
  by (simp add: counters_wf_def increment_def Let_def)

lemma counters_wf_reset [simp]: "counters_wf (counters_reset d)"
  by (simp add: counters_wf_def counters_reset_def)

text \<open>Saturating addition of one.\<close>

definition sat_inc :: "u32 \<Rightarrow> u32" where
  "sat_inc v = (if v < 0xFFFFFFFF then v + 1 else v)"

lemma counter_get_increment:
  "counters_wf d \<Longrightarrow>
   counter_get c' (fst (increment c h d)) =
     (if c' = c then sat_inc (counter_get c d) else counter_get c' d)"
  by (auto simp: counters_wf_def increment_def counter_get_def Let_def sat_inc_def nth_list_update
      counter_index_inj)

lemma max_u32: "(v :: u32) \<le> 0xFFFFFFFF"
proof -
  have "(0xFFFFFFFF :: u32) = - 1" by simp
  then show ?thesis by (simp only: word_n1_ge)
qed

lemma unat_sat_inc: "unat (sat_inc v) = min (unat v + 1) (2 ^ 32 - 1)"
proof (cases "v < 0xFFFFFFFF")
  case True
  then have l: "unat v < 2 ^ 32 - 1" by (simp add: word_less_nat_alt)
  have "unat (v + 1) = unat v + 1"
    using l by (subst unat_word_ariths) (simp add: take_bit_eq_mod)
  then show ?thesis using True l by (simp add: sat_inc_def)
next
  case False
  then have "v = 0xFFFFFFFF" using max_u32 [of v] by simp
  then show ?thesis by (simp add: sat_inc_def)
qed

lemma increment_callback [frame_simps]:
  "dc_callback (fst (increment c h d)) = dc_callback d"
  "dc_callback_ctx (fst (increment c h d)) = dc_callback_ctx d"
  by (simp_all add: increment_def Let_def)

end
