(* ===== verification/Dtc_Store.thy ===== *)
theory Dtc_Store
  imports Core_Types Fixed_Table
begin

text \<open>
  The fixed-size store of diagnostic trouble codes (\<open>core/dtc_store.hpp\<close>).  The lemmas show that
  the store is a bounded map from codes to entries, in which re-reporting counts occurrences with
  saturation and keeps the first time stamp.
\<close>

record Dtc =
  dtc_code :: u16
  dtc_severity :: u8
  dtc_active :: bool
  dtc_occurrence_count :: u32
  dtc_first_seen_ms :: u32
  dtc_last_seen_ms :: u32

definition default_dtc :: Dtc where
  "default_dtc = \<lparr> dtc_code = 0, dtc_severity = 0, dtc_active = False, dtc_occurrence_count = 0,
     dtc_first_seen_ms = 0, dtc_last_seen_ms = 0 \<rparr>"

type_synonym DtcStore = "Dtc tbl"

definition dtc_init :: "config \<Rightarrow> DtcStore" where
  "dtc_init cfg = t_empty (MaxDtcs cfg) default_dtc"

text \<open>The test of every search loop: an active entry with this code.\<close>

definition dtc_is :: "u16 \<Rightarrow> Dtc \<Rightarrow> bool" where
  "dtc_is code d \<longleftrightarrow> dtc_active d \<and> dtc_code d = code"

definition dtc_again :: "DtcSeverity \<Rightarrow> u32 \<Rightarrow> Dtc \<Rightarrow> Dtc" where
  "dtc_again severity now_ms d =
     d\<lparr> dtc_severity := severity,
        dtc_occurrence_count :=
          (if dtc_occurrence_count d < 0xFFFFFFFF then dtc_occurrence_count d + 1
           else dtc_occurrence_count d),
        dtc_last_seen_ms := now_ms \<rparr>"

definition dtc_new :: "u16 \<Rightarrow> DtcSeverity \<Rightarrow> u32 \<Rightarrow> Dtc" where
  "dtc_new code severity now_ms =
     \<lparr> dtc_code = code, dtc_severity = severity, dtc_active = True,
       dtc_occurrence_count = 1, dtc_first_seen_ms = now_ms, dtc_last_seen_ms = now_ms \<rparr>"

definition dtc_report ::
    "config \<Rightarrow> u16 \<Rightarrow> DtcSeverity \<Rightarrow> u32 \<Rightarrow> DtcStore \<Rightarrow> bool \<times> DtcStore" where
  "dtc_report cfg code severity now_ms t =
     (case t_find (dtc_is code) t of
        Some i \<Rightarrow> (True, t_upd i (dtc_again severity now_ms) t)
      | None \<Rightarrow>
          if used t \<ge> MaxDtcs cfg then (False, t)
          else (True, t_push (dtc_new code severity now_ms) t))"

definition dtc_clear :: "u16 \<Rightarrow> DtcStore \<Rightarrow> bool \<times> DtcStore" where
  "dtc_clear code t =
     (case t_find (dtc_is code) t of
        Some i \<Rightarrow> (True, t_remove default_dtc i t)
      | None \<Rightarrow> (False, t))"

definition dtc_clear_all :: "DtcStore \<Rightarrow> DtcStore" where
  "dtc_clear_all t =
     \<lparr> slots = fold (\<lambda>i xs. xs[i := default_dtc]) [0..<used t] (slots t), used = 0 \<rparr>"

definition dtc_find :: "u16 \<Rightarrow> DtcStore \<Rightarrow> Dtc option" where
  "dtc_find code t = map_option (t_get t) (t_find (dtc_is code) t)"

definition dtc_count :: "DtcStore \<Rightarrow> nat" where
  "dtc_count t = used t"

definition dtc_for_each :: "(Dtc \<Rightarrow> 's \<Rightarrow> 's) \<Rightarrow> DtcStore \<Rightarrow> 's \<Rightarrow> 's" where
  "dtc_for_each f t s =
     fold (\<lambda>i s. if dtc_active (t_get t i) then f (t_get t i) s else s) [0..<used t] s"

section \<open>The store is a bounded map\<close>

definition dtc_wf :: "config \<Rightarrow> DtcStore \<Rightarrow> bool" where
  "dtc_wf cfg t \<longleftrightarrow> keyed dtc_code dtc_active (MaxDtcs cfg) t"

text \<open>What reporting makes of the entry stored under the code.\<close>

fun dtc_merge :: "u16 \<Rightarrow> DtcSeverity \<times> u32 \<Rightarrow> Dtc option \<Rightarrow> Dtc option" where
  "dtc_merge code (severity, now_ms) None = Some (dtc_new code severity now_ms)"
| "dtc_merge code (severity, now_ms) (Some d) = Some (dtc_again severity now_ms d)"

abbreviation dtc_lookup :: "DtcStore \<Rightarrow> u16 \<Rightarrow> Dtc option" where
  "dtc_lookup \<equiv> t_lookup dtc_code"

definition dtc_put :: "config \<Rightarrow> DtcSeverity \<times> u32 \<Rightarrow> u16 \<Rightarrow> DtcStore \<Rightarrow> DtcStore" where
  "dtc_put cfg a code t = snd (dtc_report cfg code (fst a) (snd a) t)"

definition dtc_del :: "u16 \<Rightarrow> DtcStore \<Rightarrow> DtcStore" where
  "dtc_del code t = snd (dtc_clear code t)"

lemma dtc_is_key: "dtc_active d \<Longrightarrow> dtc_is code d \<longleftrightarrow> dtc_code d = code"
  by (simp add: dtc_is_def)

lemma dtc_wf_init [simp]: "dtc_wf cfg (dtc_init cfg)"
  by (simp add: dtc_wf_def dtc_init_def keyed_empty)

lemma dtc_find_lookup: "dtc_wf cfg t \<Longrightarrow> dtc_find code t = dtc_lookup t code"
  unfolding dtc_find_def dtc_wf_def by (rule keyed_find_option [OF _ dtc_is_key])

lemma dtc_report_wf:
  assumes "dtc_wf cfg t"
  shows "dtc_wf cfg (dtc_put cfg a code t)"
    and "dtc_lookup (dtc_put cfg a code t) = bm_put (MaxDtcs cfg) dtc_merge a code (dtc_lookup t)"
proof -
  obtain severity now_ms where a: "a = (severity, now_ms)" by fastforce
  note K = assms [unfolded dtc_wf_def]
  have "keyed dtc_code dtc_active (MaxDtcs cfg) (dtc_put cfg a code t) \<and>
      dtc_lookup (dtc_put cfg a code t) = bm_put (MaxDtcs cfg) dtc_merge a code (dtc_lookup t)"
  proof (cases "t_find (dtc_is code) t")
    case None
    note l = keyed_find_None [OF K dtc_is_key None]
    have "keyed dtc_code dtc_active (MaxDtcs cfg) (t_push (dtc_new code severity now_ms) t) \<and>
      dtc_lookup (t_push (dtc_new code severity now_ms) t) =
        (dtc_lookup t)(code \<mapsto> dtc_new code severity now_ms)"
      if "used t < MaxDtcs cfg"
      using keyed_push [OF K, of "dtc_new code severity now_ms"] that l by (simp add: dtc_new_def)
    then show ?thesis
      using None l card_dom_t_lookup [OF K] K by (auto simp: dtc_put_def dtc_report_def bm_put_def a)
  next
    case (Some i)
    note f = keyed_find_Some [OF K dtc_is_key Some]
    then show ?thesis
      using keyed_upd [OF K f(2), of "dtc_again severity now_ms"] Some
      by (simp add: dtc_put_def dtc_report_def bm_put_def a dtc_again_def [of _ _ "t_get t i"])
  qed
  then show "dtc_wf cfg (dtc_put cfg a code t)"
    and "dtc_lookup (dtc_put cfg a code t) = bm_put (MaxDtcs cfg) dtc_merge a code (dtc_lookup t)"
    by (simp_all add: dtc_wf_def)
qed

lemma dtc_report_result:
  "dtc_wf cfg t \<Longrightarrow> fst (dtc_report cfg code severity now_ms t) \<longleftrightarrow>
     dtc_lookup t code \<noteq> None \<or> used t < MaxDtcs cfg"
  using dtc_find_lookup [of cfg t code, unfolded dtc_find_def, THEN sym]
  by (cases "t_find (dtc_is code) t") (auto simp: dtc_report_def)

lemma dtc_clear_wf:
  assumes "dtc_wf cfg t"
  shows "dtc_wf cfg (dtc_del code t)" and "dtc_lookup (dtc_del code t) = bm_del code (dtc_lookup t)"
  using keyed_del_refines [OF assms [unfolded dtc_wf_def] dtc_is_key, of code "dtc_del code t" default_dtc]
  by (simp_all add: dtc_wf_def dtc_del_def dtc_clear_def split: option.splits)

lemma dtc_clear_result:
  "dtc_wf cfg t \<Longrightarrow> fst (dtc_clear code t) \<longleftrightarrow> dtc_lookup t code \<noteq> None"
  using dtc_find_lookup [of cfg t code, unfolded dtc_find_def, THEN sym]
  by (cases "t_find (dtc_is code) t") (auto simp: dtc_clear_def)

lemma length_fold_upd: "length (fold (\<lambda>i xs. xs[i := d]) is xs) = length xs"
  by (induction "is" arbitrary: xs) simp_all

lemma dtc_clear_all_wf:
  assumes "dtc_wf cfg t"
  shows "dtc_wf cfg (dtc_clear_all t)" "dtc_lookup (dtc_clear_all t) = Map.empty"
  using assms by (simp_all add: dtc_wf_def keyed_def dtc_clear_all_def t_wf_def live_def
      t_lookup_def length_fold_upd)

interpretation dtc: deletable_map dtc_lookup "dtc_wf cfg" "MaxDtcs cfg" dtc_merge "dtc_put cfg" dtc_del
  for cfg
proof
  fix t a k assume "dtc_wf cfg t"
  then show "dtc_wf cfg (dtc_put cfg a k t)"
    "dtc_lookup (dtc_put cfg a k t) = bm_put (MaxDtcs cfg) dtc_merge a k (dtc_lookup t)"
    "dtc_wf cfg (dtc_del k t)" "dtc_lookup (dtc_del k t) = bm_del k (dtc_lookup t)"
    by (simp_all add: dtc_report_wf dtc_clear_wf)
  show "finite (dom (dtc_lookup t)) \<and> card (dom (dtc_lookup t)) \<le> MaxDtcs cfg"
    using \<open>dtc_wf cfg t\<close> unfolding dtc_wf_def by (rule dom_t_lookup_bound)
qed

text \<open>The iteration visits exactly the live entries, in slot order.\<close>

lemma dtc_for_each_live:
  assumes "dtc_wf cfg t"
  shows "dtc_for_each f t s = fold f (live t) s"
proof -
  have wf: "t_wf (MaxDtcs cfg) t" and act: "\<forall>d \<in> set (live t). dtc_active d"
    using assms by (simp_all add: dtc_wf_def keyed_def)
  have "live t = map (t_get t) [0..<used t]"
    using wf by (intro nth_equalityI) (simp_all add: length_live live_nth)
  then have "fold f (live t) s = fold (\<lambda>i. f (t_get t i)) [0..<used t] s"
    by (simp add: fold_map comp_def)
  also have "\<dots> = dtc_for_each f t s"
    unfolding dtc_for_each_def
  proof (rule fold_cong [OF refl refl])
    fix i assume "i \<in> set [0..<used t]"
    then have "dtc_active (t_get t i)"
      using act wf nth_mem [of i "live t"] by (simp add: length_live live_nth)
    then show "f (t_get t i) = (\<lambda>s. if dtc_active (t_get t i) then f (t_get t i) s else s)" by simp
  qed
  finally show ?thesis by simp
qed

end
