(* ===== verification/E2E_Protection.thy ===== *)
theory E2E_Protection
  imports Effects Fixed_Table
begin

text \<open>
  Sequence-counter tracking per peer (\<open>security/e2e_protection.hpp\<close>).  The peer table is a
  bounded map from addresses to the last accepted counter; a counter is accepted when it is ahead
  of the last one by at least one and at most the acceptance window, modulo 256.
\<close>

datatype SeqResult = Accept | Duplicate | Stale | FirstSeen | TableFull

record PeerEntry =
  pe_address :: addr
  pe_last_seen :: u8

record E2EProtection =
  e2e_peers :: "PeerEntry tbl"
  e2e_tx_seq :: u8

definition default_peer :: "config \<Rightarrow> PeerEntry" where
  "default_peer cfg = \<lparr> pe_address = zero_addr cfg, pe_last_seen = 0 \<rparr>"

definition e2e_init :: "config \<Rightarrow> E2EProtection" where
  "e2e_init cfg = \<lparr> e2e_peers = t_empty (MaxTrackedPeers cfg) (default_peer cfg), e2e_tx_seq = 0 \<rparr>"

definition peer_is :: "addr \<Rightarrow> PeerEntry \<Rightarrow> bool" where
  "peer_is source p \<longleftrightarrow> pe_address p = source"

definition next_sequence :: "E2EProtection \<Rightarrow> u8 \<times> E2EProtection" where
  "next_sequence e = (e2e_tx_seq e, e\<lparr>e2e_tx_seq := e2e_tx_seq e + 1\<rparr>)"

definition reset_peer ::
    "config \<Rightarrow> logger option \<Rightarrow> addr \<Rightarrow> E2EProtection \<Rightarrow> E2EProtection \<times> effect list" where
  "reset_peer cfg lg source e =
     (case t_find (peer_is source) (e2e_peers e) of
        Some i \<Rightarrow>
          (e\<lparr>e2e_peers := t_remove (default_peer cfg) i (e2e_peers e)\<rparr>,
           if_logger (\<lambda>l. log_debug cfg l CatE2E ''peer_reset'' 0 0 0 0) lg)
      | None \<Rightarrow> (e, []))"

definition validate_sequence ::
    "config \<Rightarrow> logger option \<Rightarrow> addr \<Rightarrow> u8 \<Rightarrow> E2EProtection \<Rightarrow>
       SeqResult \<times> E2EProtection \<times> effect list" where
  "validate_sequence cfg lg source received_seq e =
     (case t_find (peer_is source) (e2e_peers e) of
        Some i \<Rightarrow>
          let delta = received_seq - pe_last_seen (t_get (e2e_peers e) i) in
          if delta = 0 then
            (Duplicate, e,
             if_logger (\<lambda>l. log_warn cfg l CatE2E ''seq_duplicate'' 0 0 0 (ucast received_seq)) lg)
          else if delta \<le> SeqCounterAcceptWindow cfg then
            (Accept, e\<lparr>e2e_peers := t_upd i (\<lambda>p. p\<lparr>pe_last_seen := received_seq\<rparr>) (e2e_peers e)\<rparr>,
             if_logger (\<lambda>l. log_trace cfg l CatE2E ''seq_accept'' 0 0 0 (ucast received_seq)) lg)
          else
            (Stale, e,
             if_logger (\<lambda>l. log_warn cfg l CatE2E ''seq_stale'' 0 0 0 (ucast received_seq)) lg)
      | None \<Rightarrow>
          if used (e2e_peers e) < MaxTrackedPeers cfg then
            (FirstSeen,
             e\<lparr>e2e_peers := t_push \<lparr>pe_address = source, pe_last_seen = received_seq\<rparr> (e2e_peers e)\<rparr>,
             if_logger (\<lambda>l. log_debug cfg l CatE2E ''seq_first_seen'' 0 0 0 (ucast received_seq)) lg)
          else
            (TableFull, e,
             if_logger (\<lambda>l. log_warn cfg l CatE2E ''seq_table_full'' 0 0 0 (ucast received_seq)) lg))"

section \<open>The acceptance rule\<close>

text \<open>The verdict on a counter, given the last one accepted from the peer.\<close>

fun seq_verdict :: "config \<Rightarrow> bool \<Rightarrow> u8 option \<Rightarrow> u8 \<Rightarrow> SeqResult" where
  "seq_verdict cfg room None s = (if room then FirstSeen else TableFull)"
| "seq_verdict cfg room (Some seen) s =
     (if s = seen then Duplicate
      else if s - seen \<le> SeqCounterAcceptWindow cfg then Accept else Stale)"

definition e2e_wf :: "config \<Rightarrow> E2EProtection \<Rightarrow> bool" where
  "e2e_wf cfg e \<longleftrightarrow> keyed pe_address (\<lambda>_. True) (MaxTrackedPeers cfg) (e2e_peers e)"

definition peer_entry :: "E2EProtection \<Rightarrow> addr \<Rightarrow> PeerEntry option" where
  "peer_entry e = t_lookup pe_address (e2e_peers e)"

definition last_seen :: "E2EProtection \<Rightarrow> addr \<Rightarrow> u8 option" where
  "last_seen e a = map_option pe_last_seen (peer_entry e a)"

definition e2e_put :: "config \<Rightarrow> u8 \<Rightarrow> addr \<Rightarrow> E2EProtection \<Rightarrow> E2EProtection" where
  "e2e_put cfg s source e = fst (snd (validate_sequence cfg None source s e))"

definition e2e_del :: "config \<Rightarrow> addr \<Rightarrow> E2EProtection \<Rightarrow> E2EProtection" where
  "e2e_del cfg source e = fst (reset_peer cfg None source e)"

text \<open>What a received counter makes of the entry of its peer.\<close>

fun seq_merge :: "config \<Rightarrow> addr \<Rightarrow> u8 \<Rightarrow> PeerEntry option \<Rightarrow> PeerEntry option" where
  "seq_merge cfg source s None = Some \<lparr>pe_address = source, pe_last_seen = s\<rparr>"
| "seq_merge cfg source s (Some p) =
     (if s \<noteq> pe_last_seen p \<and> s - pe_last_seen p \<le> SeqCounterAcceptWindow cfg
      then Some (\<lparr>pe_address = source, pe_last_seen = s\<rparr>) else None)"

lemma peer_is_key: "True \<Longrightarrow> peer_is source p \<longleftrightarrow> pe_address p = source"
  by (simp add: peer_is_def)

lemma e2e_wf_init [simp]: "e2e_wf cfg (e2e_init cfg)"
  by (simp add: e2e_wf_def e2e_init_def keyed_empty)

lemma e2e_tx_seq_frame [frame_simps]:
  "e2e_tx_seq (fst (snd (validate_sequence cfg lg source s e))) = e2e_tx_seq e"
  "e2e_tx_seq (fst (reset_peer cfg lg source e)) = e2e_tx_seq e"
  by (simp_all add: validate_sequence_def reset_peer_def Let_def split: option.splits)

lemma validate_sequence_state:
  "fst (snd (validate_sequence cfg lg source s e)) = e2e_put cfg s source e"
  "fst (reset_peer cfg lg source e) = e2e_del cfg source e"
  by (simp_all add: e2e_put_def e2e_del_def validate_sequence_def reset_peer_def Let_def
      split: option.splits)

lemma validate_sequence_silent [simp]:
  "visible (snd (snd (validate_sequence cfg lg source s e))) = []"
  "visible (snd (reset_peer cfg lg source e)) = []"
  by (cases "t_find (peer_is source) (e2e_peers e)";
      simp add: validate_sequence_def reset_peer_def Let_def)+

lemma peer_entry_find:
  "e2e_wf cfg e \<Longrightarrow> peer_entry e source = map_option (t_get (e2e_peers e)) (t_find (peer_is source) (e2e_peers e))"
  unfolding e2e_wf_def peer_entry_def by (rule keyed_find_option [OF _ peer_is_key, symmetric])

lemma peer_entry_address:
  "e2e_wf cfg e \<Longrightarrow> peer_entry e source = Some p \<Longrightarrow> pe_address p = source"
  unfolding e2e_wf_def peer_entry_def by (simp add: t_lookup_Some)

lemma validate_sequence_verdict:
  assumes "e2e_wf cfg e"
  shows "fst (validate_sequence cfg lg source s e) =
    seq_verdict cfg (used (e2e_peers e) < MaxTrackedPeers cfg) (last_seen e source) s"
  unfolding last_seen_def peer_entry_find [OF assms]
  by (cases "t_find (peer_is source) (e2e_peers e)") (simp_all add: validate_sequence_def Let_def)

lemma e2e_put_table:
  assumes "e2e_wf cfg e"
  shows "e2e_wf cfg (e2e_put cfg s source e)"
    and "peer_entry (e2e_put cfg s source e) =
      bm_put (MaxTrackedPeers cfg) (seq_merge cfg) s source (peer_entry e)"
proof -
  let ?t = "e2e_peers e" and ?t' = "e2e_peers (e2e_put cfg s source e)"
  have "keyed pe_address (\<lambda>_. True) (MaxTrackedPeers cfg) ?t' \<and>
      t_lookup pe_address ?t' = bm_put (MaxTrackedPeers cfg) (seq_merge cfg) s source (t_lookup pe_address ?t)"
  proof (rule keyed_put_refines [OF assms [unfolded e2e_wf_def] peer_is_key])
    fix old v assume "seq_merge cfg source s old = Some v"
    then show "pe_address v = source \<and> True" by (cases old) (auto split: if_splits)
  next
    fix i assume f: "t_find (peer_is source) ?t = Some i"
    then have "pe_address (t_get ?t i) = source" by (simp add: t_find_Some peer_is_def)
    then have "(t_get ?t i)\<lparr>pe_last_seen := s\<rparr> = \<lparr>pe_address = source, pe_last_seen = s\<rparr>"
      by (cases "t_get ?t i") simp
    then show "?t' = (case seq_merge cfg source s (Some (t_get ?t i)) of
        None \<Rightarrow> ?t | Some v \<Rightarrow> t_upd i (\<lambda>_. v) ?t)"
      using f t_upd_const [of i "\<lambda>p. p\<lparr>pe_last_seen := s\<rparr>" ?t]
      by (simp add: e2e_put_def validate_sequence_def Let_def)
  next
    assume "t_find (peer_is source) ?t = None"
    then show "?t' = (case seq_merge cfg source s None of
        None \<Rightarrow> ?t | Some v \<Rightarrow> if used ?t < MaxTrackedPeers cfg then t_push v ?t else ?t)"
      by (simp add: e2e_put_def validate_sequence_def Let_def)
  qed simp_all
  then show "e2e_wf cfg (e2e_put cfg s source e)"
    and "peer_entry (e2e_put cfg s source e) =
      bm_put (MaxTrackedPeers cfg) (seq_merge cfg) s source (peer_entry e)"
    by (simp_all add: e2e_wf_def peer_entry_def)
qed

lemma e2e_del_table:
  assumes "e2e_wf cfg e"
  shows "e2e_wf cfg (e2e_del cfg source e)"
    and "peer_entry (e2e_del cfg source e) = bm_del source (peer_entry e)"
  using keyed_del_refines [OF assms [unfolded e2e_wf_def] peer_is_key, of source
      "e2e_peers (e2e_del cfg source e)" "default_peer cfg"]
  by (simp_all add: e2e_wf_def peer_entry_def e2e_del_def reset_peer_def split: option.splits)

interpretation e2e: deletable_map peer_entry "e2e_wf cfg" "MaxTrackedPeers cfg" "seq_merge cfg"
  "e2e_put cfg" "e2e_del cfg" for cfg
proof
  fix e a k assume "e2e_wf cfg e"
  then show "e2e_wf cfg (e2e_put cfg a k e)"
    "peer_entry (e2e_put cfg a k e) = bm_put (MaxTrackedPeers cfg) (seq_merge cfg) a k (peer_entry e)"
    "e2e_wf cfg (e2e_del cfg k e)" "peer_entry (e2e_del cfg k e) = bm_del k (peer_entry e)"
    by (simp_all add: e2e_put_table e2e_del_table)
  show "finite (dom (peer_entry e)) \<and> card (dom (peer_entry e)) \<le> MaxTrackedPeers cfg"
    using \<open>e2e_wf cfg e\<close> unfolding e2e_wf_def peer_entry_def by (rule dom_t_lookup_bound)
qed

lemma e2e_wf_next [simp]: "e2e_wf cfg (snd (next_sequence e)) = e2e_wf cfg e"
  by (simp add: e2e_wf_def next_sequence_def)

lemmas e2e_keeps_wf [inv_intros] = e2e.put_inv e2e.del_inv

lemma last_seen_put_same:
  assumes "e2e_wf cfg e" "fst (validate_sequence cfg lg source s e) \<in> {Accept, FirstSeen}"
  shows "last_seen (e2e_put cfg s source e) source = Some s"
proof (cases "peer_entry e source")
  case None
  then have "used (e2e_peers e) < MaxTrackedPeers cfg"
    using assms by (auto simp: validate_sequence_verdict last_seen_def split: if_splits)
  then have "card (dom (peer_entry e)) < MaxTrackedPeers cfg"
    using card_dom_t_lookup [OF assms(1) [unfolded e2e_wf_def]] by (simp add: peer_entry_def)
  then show ?thesis
    using None e2e.put_same [OF assms(1), of source s] by (simp add: last_seen_def)
next
  case (Some p)
  then show ?thesis
    using assms e2e.put_same [OF assms(1), of source s]
    by (auto simp: validate_sequence_verdict last_seen_def split: if_splits)
qed

lemma last_seen_put_rejected:
  assumes "e2e_wf cfg e" "fst (validate_sequence cfg lg source s e) \<notin> {Accept, FirstSeen}"
  shows "e2e_put cfg s source e = e"
  using assms(2) by (auto simp: e2e_put_def validate_sequence_def Let_def split: option.splits if_splits)

lemma last_seen_put_other:
  "e2e_wf cfg e \<Longrightarrow> a \<noteq> source \<Longrightarrow> last_seen (e2e_put cfg s source e) a = last_seen e a"
  by (simp add: last_seen_def e2e.put_other)

end
