(* ===== verification/Method_Dispatcher.thy ===== *)
theory Method_Dispatcher
  imports Effects Fixed_Table
begin

text \<open>
  The type-erased service entry (\<open>service/service.hpp\<close>) and the dispatcher that routes a request
  to a registered service (\<open>service/method_dispatcher.hpp\<close>).  The \<open>void*\<close> context of an entry is
  the object behind it: an application service, named by a number, or the built-in diagnostics
  service.  The two function pointers of an entry are determined by that object and are the
  parameters \<open>ready\<close> and \<open>call\<close>; \<open>call\<close> works on a state \<open>'w\<close> that holds whatever the services
  may change.
\<close>

datatype service_ctx = AppCtx nat | DiagCtx

record ServiceEntry =
  se_service_id :: u16
  se_major_version :: u8
  se_minor_version :: u8
  se_auth_required :: bool
  se_active :: bool
  se_context :: "service_ctx option"

definition default_service :: ServiceEntry where
  "default_service = \<lparr> se_service_id = 0, se_major_version = 0, se_minor_version = 0,
     se_auth_required = False, se_active = False, se_context = None \<rparr>"

definition make_service_entry :: "u16 \<Rightarrow> service_ctx \<Rightarrow> u8 \<Rightarrow> u8 \<Rightarrow> bool \<Rightarrow> ServiceEntry" where
  "make_service_entry sid svc major minor auth_required =
     default_service\<lparr> se_service_id := sid, se_major_version := major, se_minor_version := minor,
       se_auth_required := auth_required, se_active := True, se_context := Some svc \<rparr>"

type_synonym MethodDispatcher = "ServiceEntry tbl"

definition dispatcher_init :: "config \<Rightarrow> MethodDispatcher" where
  "dispatcher_init cfg = t_empty (MaxServices cfg) default_service"

definition service_is :: "u16 \<Rightarrow> ServiceEntry \<Rightarrow> bool" where
  "service_is sid se \<longleftrightarrow> se_active se \<and> se_service_id se = sid"

definition register_service ::
    "config \<Rightarrow> logger option \<Rightarrow> ServiceEntry \<Rightarrow> MethodDispatcher \<Rightarrow>
       bool \<times> MethodDispatcher \<times> effect list" where
  "register_service cfg lg entry t =
     (case t_find (service_is (se_service_id entry)) t of
        Some i \<Rightarrow>
          (False, t, if_logger (\<lambda>l. log_warn cfg l CatMethods ''svc_duplicate''
                       (se_service_id entry) 0 0 0) lg)
      | None \<Rightarrow>
          if used t \<ge> MaxServices cfg then
            (False, t, if_logger (\<lambda>l. log_warn cfg l CatMethods ''svc_table_full''
                         (se_service_id entry) 0 0 (of_nat (used t))) lg)
          else
            (True, t_push entry t,
             if_logger (\<lambda>l. log_info cfg l CatMethods ''svc_registered''
                         (se_service_id entry) 0 0 (of_nat (used t + 1))) lg))"

definition unregister_service ::
    "config \<Rightarrow> logger option \<Rightarrow> u16 \<Rightarrow> MethodDispatcher \<Rightarrow> bool \<times> MethodDispatcher \<times> effect list" where
  "unregister_service cfg lg sid t =
     (case t_find (service_is sid) t of
        Some i \<Rightarrow>
          (True, t_remove default_service i t,
           if_logger (\<lambda>l. log_info cfg l CatMethods ''svc_unregistered'' sid 0 0 (of_nat (used t - 1))) lg)
      | None \<Rightarrow> (False, t, []))"

definition find_service_entry :: "u16 \<Rightarrow> MethodDispatcher \<Rightarrow> ServiceEntry option" where
  "find_service_entry sid t = map_option (t_get t) (t_find (service_is sid) t)"

text \<open>
  A service call: context, method, payload, response buffer (\<open>None\<close> is a null pointer) and the
  length in/out parameter.  An entry without a context has null function pointers; calling them is
  undefined and the model treats such an entry as not ready.
\<close>

type_synonym 'w service_call =
  "service_ctx \<Rightarrow> u16 \<Rightarrow> bytes \<Rightarrow> bytes option \<Rightarrow> nat \<Rightarrow> 'w \<Rightarrow> ReturnCode \<times> bytes option \<times> nat \<times> 'w"

definition entry_ready :: "(service_ctx \<Rightarrow> bool) \<Rightarrow> ServiceEntry \<Rightarrow> bool" where
  "entry_ready ready se = (case se_context se of None \<Rightarrow> False | Some c \<Rightarrow> ready c)"

definition entry_call :: "'w service_call \<Rightarrow> ServiceEntry \<Rightarrow>
    u16 \<Rightarrow> bytes \<Rightarrow> bytes option \<Rightarrow> nat \<Rightarrow> 'w \<Rightarrow> ReturnCode \<times> bytes option \<times> nat \<times> 'w" where
  "entry_call call se mid payload resp rlen w =
     (case se_context se of None \<Rightarrow> (E_NOT_READY, resp, rlen, w)
      | Some c \<Rightarrow> call c mid payload resp rlen w)"

definition dispatch ::
    "config \<Rightarrow> logger option \<Rightarrow> (service_ctx \<Rightarrow> bool) \<Rightarrow> 'w service_call \<Rightarrow> (effect list \<Rightarrow> 'w \<Rightarrow> 'w) \<Rightarrow>
     u16 \<Rightarrow> u16 \<Rightarrow> bytes \<Rightarrow> bytes option \<Rightarrow> nat \<Rightarrow> MethodDispatcher \<Rightarrow> 'w \<Rightarrow>
       ReturnCode \<times> bytes option \<times> nat \<times> 'w" where
  "dispatch cfg lg ready call emit sid mid payload resp rlen t w =
     (case find_service_entry sid t of
        None \<Rightarrow>
          (E_UNKNOWN_SERVICE, resp, rlen,
           emit (if_logger (\<lambda>l. log_debug cfg l CatMethods ''dispatch_unknown_svc'' sid mid 0 0) lg) w)
      | Some svc \<Rightarrow>
          if \<not> entry_ready ready svc then
            (E_NOT_READY, resp, rlen,
             emit (if_logger (\<lambda>l. log_debug cfg l CatMethods ''dispatch_not_ready'' sid mid 0 0) lg) w)
          else
            (case entry_call call svc mid payload resp rlen w of (rc, resp', rlen', w') \<Rightarrow>
               (rc, resp', rlen',
                emit (if_logger (\<lambda>l. log_debug cfg l CatMethods ''dispatch_result'' sid mid 0 (ucast rc)) lg) w')))"

definition dispatcher_for_each :: "(ServiceEntry \<Rightarrow> 's \<Rightarrow> 's) \<Rightarrow> MethodDispatcher \<Rightarrow> 's \<Rightarrow> 's" where
  "dispatcher_for_each f t s =
     fold (\<lambda>i s. if se_active (t_get t i) then f (t_get t i) s else s) [0..<used t] s"

section \<open>The service table is a bounded map\<close>

definition dispatcher_wf :: "config \<Rightarrow> MethodDispatcher \<Rightarrow> bool" where
  "dispatcher_wf cfg t \<longleftrightarrow> keyed se_service_id se_active (MaxServices cfg) t"

abbreviation service_lookup :: "MethodDispatcher \<Rightarrow> u16 \<Rightarrow> ServiceEntry option" where
  "service_lookup \<equiv> t_lookup se_service_id"

text \<open>Registration under an explicit key; a second registration is refused.\<close>

definition service_put :: "config \<Rightarrow> service_ctx \<times> u8 \<times> u8 \<times> bool \<Rightarrow> u16 \<Rightarrow> MethodDispatcher \<Rightarrow> MethodDispatcher" where
  "service_put cfg a sid t =
     (case a of (svc, major, minor, auth) \<Rightarrow>
        fst (snd (register_service cfg None (make_service_entry sid svc major minor auth) t)))"

definition service_del :: "config \<Rightarrow> u16 \<Rightarrow> MethodDispatcher \<Rightarrow> MethodDispatcher" where
  "service_del cfg sid t = fst (snd (unregister_service cfg None sid t))"

fun service_merge ::
    "u16 \<Rightarrow> service_ctx \<times> u8 \<times> u8 \<times> bool \<Rightarrow> ServiceEntry option \<Rightarrow> ServiceEntry option" where
  "service_merge sid (svc, major, minor, auth) None = Some (make_service_entry sid svc major minor auth)"
| "service_merge sid (svc, major, minor, auth) (Some old) = None"

lemma service_is_key: "se_active se \<Longrightarrow> service_is sid se \<longleftrightarrow> se_service_id se = sid"
  by (simp add: service_is_def)

lemma make_service_entry_sel [simp]:
  "se_service_id (make_service_entry sid svc major minor auth) = sid"
  "se_active (make_service_entry sid svc major minor auth)"
  "se_auth_required (make_service_entry sid svc major minor auth) = auth"
  "se_major_version (make_service_entry sid svc major minor auth) = major"
  "se_minor_version (make_service_entry sid svc major minor auth) = minor"
  "se_context (make_service_entry sid svc major minor auth) = Some svc"
  by (simp_all add: make_service_entry_def default_service_def)

lemma dispatcher_wf_init [simp]: "dispatcher_wf cfg (dispatcher_init cfg)"
  by (simp add: dispatcher_wf_def dispatcher_init_def keyed_empty)

lemma find_service_lookup: "dispatcher_wf cfg t \<Longrightarrow> find_service_entry sid t = service_lookup t sid"
  unfolding find_service_entry_def dispatcher_wf_def by (rule keyed_find_option [OF _ service_is_key])

lemma find_service_sid: "find_service_entry sid t = Some se \<Longrightarrow> se_service_id se = sid \<and> se_active se"
  by (auto simp: find_service_entry_def t_find_Some service_is_def)

lemma register_service_state:
  "fst (snd (register_service cfg lg (make_service_entry sid svc major minor auth) t)) =
     service_put cfg (svc, major, minor, auth) sid t"
  "fst (snd (unregister_service cfg lg sid t)) = service_del cfg sid t"
  by (simp_all add: service_put_def service_del_def register_service_def unregister_service_def
      split: option.splits)

lemma service_put_table:
  assumes "dispatcher_wf cfg t"
  shows "dispatcher_wf cfg (service_put cfg a sid t)"
    and "service_lookup (service_put cfg a sid t) =
      bm_put (MaxServices cfg) service_merge a sid (service_lookup t)"
proof -
  obtain svc major minor auth where a: "a = (svc, major, minor, auth)" by (cases a)
  have "keyed se_service_id se_active (MaxServices cfg) (service_put cfg a sid t) \<and>
      service_lookup (service_put cfg a sid t) =
        bm_put (MaxServices cfg) service_merge a sid (service_lookup t)"
  proof (rule keyed_put_refines [OF assms [unfolded dispatcher_wf_def] service_is_key])
    fix old v assume "service_merge sid a old = Some v"
    then show "se_service_id v = sid \<and> se_active v" by (cases old) (auto simp: a)
  qed (auto simp: service_put_def register_service_def a)
  then show "dispatcher_wf cfg (service_put cfg a sid t)"
    and "service_lookup (service_put cfg a sid t) =
      bm_put (MaxServices cfg) service_merge a sid (service_lookup t)"
    by (simp_all add: dispatcher_wf_def)
qed

lemma service_del_table:
  assumes "dispatcher_wf cfg t"
  shows "dispatcher_wf cfg (service_del cfg sid t)"
    and "service_lookup (service_del cfg sid t) = bm_del sid (service_lookup t)"
  using keyed_del_refines [OF assms [unfolded dispatcher_wf_def] service_is_key, of sid
      "service_del cfg sid t" default_service]
  by (simp_all add: dispatcher_wf_def service_del_def unregister_service_def split: option.splits)

interpretation services: deletable_map service_lookup "dispatcher_wf cfg" "MaxServices cfg"
  service_merge "service_put cfg" "service_del cfg" for cfg
proof
  fix t a k assume "dispatcher_wf cfg t"
  then show "dispatcher_wf cfg (service_put cfg a k t)"
    "service_lookup (service_put cfg a k t) = bm_put (MaxServices cfg) service_merge a k (service_lookup t)"
    "dispatcher_wf cfg (service_del cfg k t)"
    "service_lookup (service_del cfg k t) = bm_del k (service_lookup t)"
    by (simp_all add: service_put_table service_del_table)
  show "finite (dom (service_lookup t)) \<and> card (dom (service_lookup t)) \<le> MaxServices cfg"
    using \<open>dispatcher_wf cfg t\<close> unfolding dispatcher_wf_def by (rule dom_t_lookup_bound)
qed

lemma register_service_silent [simp]:
  "visible (snd (snd (register_service cfg lg entry t))) = []"
  "visible (snd (snd (unregister_service cfg lg sid t))) = []"
  by (cases "t_find (service_is (se_service_id entry)) t"; simp add: register_service_def)
    (cases "t_find (service_is sid) t"; simp add: unregister_service_def)

lemma register_service_result:
  "dispatcher_wf cfg t \<Longrightarrow> fst (register_service cfg lg entry t) \<longleftrightarrow>
     service_lookup t (se_service_id entry) = None \<and> used t < MaxServices cfg"
  using find_service_lookup [of cfg t "se_service_id entry", unfolded find_service_entry_def, THEN sym]
  by (cases "t_find (service_is (se_service_id entry)) t") (auto simp: register_service_def)

end
