(* ===== verification/Request_Tracker.thy ===== *)
theory Request_Tracker
  imports Effects Fixed_Table
begin

text \<open>
  The table of pending requests (\<open>service/request_tracker.hpp\<close>): slots with an active flag, a
  request-id counter that skips ids still in use, completion and time-out eviction.  The lemmas
  show that an allocated id differs from every pending one, and that the table is a map from ids
  to entries under every operation.
\<close>

record PendingEntry =
  pr_request_id :: u32
  pr_service_id :: u16
  pr_method_id :: u16
  pr_deadline_ms :: u32
  pr_callback :: "nat option"
  pr_user_ctx :: nat
  pr_active :: bool

record RequestTracker =
  rq_entries :: "PendingEntry list"
  rq_next_request_id :: u32

definition default_pending :: PendingEntry where
  "default_pending = \<lparr> pr_request_id = 0, pr_service_id = 0, pr_method_id = 0, pr_deadline_ms = 0,
     pr_callback = None, pr_user_ctx = 0, pr_active = False \<rparr>"

definition tracker_init :: "config \<Rightarrow> RequestTracker" where
  "tracker_init cfg =
     \<lparr> rq_entries = replicate (MaxPendingRequests cfg) default_pending, rq_next_request_id = 1 \<rparr>"

definition pending_is :: "u32 \<Rightarrow> PendingEntry \<Rightarrow> bool" where
  "pending_is rid e \<longleftrightarrow> pr_active e \<and> pr_request_id e = rid"

text \<open>The inner loop of \<open>allocate\<close>: is this id in use by an active entry?\<close>

definition id_collision :: "config \<Rightarrow> PendingEntry list \<Rightarrow> u32 \<Rightarrow> bool" where
  "id_collision cfg es rid \<longleftrightarrow> scan_from (pending_is rid) es (MaxPendingRequests cfg) 0 \<noteq> None"

text \<open>The middle loop: at most \<open>attempts\<close> ids are tried.\<close>

fun probe_id :: "config \<Rightarrow> PendingEntry list \<Rightarrow> nat \<Rightarrow> u32 \<Rightarrow> u32" where
  "probe_id cfg es 0 rid = rid"
| "probe_id cfg es (Suc attempts) rid =
     (if id_collision cfg es rid then probe_id cfg es attempts (rid + 1) else rid)"

definition allocate ::
    "config \<Rightarrow> logger option \<Rightarrow> u16 \<Rightarrow> u16 \<Rightarrow> u32 \<Rightarrow> u32 \<Rightarrow> nat option \<Rightarrow> nat \<Rightarrow> RequestTracker \<Rightarrow>
       u32 option \<times> RequestTracker \<times> effect list" where
  "allocate cfg lg sid mid timeout_ms now_ms cb ctx t =
     (case scan_from (\<lambda>e. \<not> pr_active e) (rq_entries t) (MaxPendingRequests cfg) 0 of
        None \<Rightarrow>
          (None, t, if_logger (\<lambda>l. log_warn cfg l CatRequests ''req_table_full'' sid mid 0 0) lg)
      | Some i \<Rightarrow>
          let rid = probe_id cfg (rq_entries t) (MaxPendingRequests cfg) (rq_next_request_id t);
              e = \<lparr> pr_request_id = rid, pr_service_id = sid, pr_method_id = mid,
                    pr_deadline_ms = now_ms + (if timeout_ms > 0 then timeout_ms else RequestTimeoutMs cfg),
                    pr_callback = cb, pr_user_ctx = ctx, pr_active = True \<rparr>
          in (Some rid,
              \<lparr> rq_entries = (rq_entries t)[i := e], rq_next_request_id = rid + 1 \<rparr>,
              if_logger (\<lambda>l. log_debug cfg l CatRequests ''req_alloc'' sid mid 0 rid) lg))"

definition call_done :: "PendingEntry \<Rightarrow> ReturnCode \<Rightarrow> bytes option \<Rightarrow> effect list" where
  "call_done e rc payload =
     (case pr_callback e of None \<Rightarrow> [] | Some cb \<Rightarrow> [Out_Request_Done cb (pr_user_ctx e) rc payload])"

definition complete ::
    "config \<Rightarrow> logger option \<Rightarrow> u32 \<Rightarrow> ReturnCode \<Rightarrow> bytes option \<Rightarrow> RequestTracker \<Rightarrow>
       bool \<times> RequestTracker \<times> effect list" where
  "complete cfg lg rid rc payload t =
     (case scan_from (pending_is rid) (rq_entries t) (MaxPendingRequests cfg) 0 of
        None \<Rightarrow>
          (False, t, if_logger (\<lambda>l. log_debug cfg l CatRequests ''req_not_found'' 0 0 0 rid) lg)
      | Some i \<Rightarrow>
          let e = rq_entries t ! i in
          (True, t\<lparr>rq_entries := (rq_entries t)[i := default_pending]\<rparr>,
           if_logger (\<lambda>l. log_debug cfg l CatRequests ''req_complete''
             (pr_service_id e) (pr_method_id e) 0 (ucast rc)) lg
           @ call_done e rc payload))"

definition request_expired :: "u32 \<Rightarrow> PendingEntry \<Rightarrow> bool" where
  "request_expired now_ms e \<longleftrightarrow> pr_active e \<and> time_after now_ms (pr_deadline_ms e)"

definition evict_slot ::
    "config \<Rightarrow> logger option \<Rightarrow> u32 \<Rightarrow> nat \<Rightarrow> PendingEntry list \<times> effect list \<Rightarrow>
       PendingEntry list \<times> effect list" where
  "evict_slot cfg lg now_ms i s =
     (case s of (es, out) \<Rightarrow>
        let e = es ! i in
        if request_expired now_ms e then
          (es[i := default_pending],
           out @ if_logger (\<lambda>l. log_warn cfg l CatRequests ''req_timeout''
                   (pr_service_id e) (pr_method_id e) 0 (pr_request_id e)) lg
           @ call_done e E_TIMEOUT None)
        else (es, out))"

definition evict_expired_requests ::
    "config \<Rightarrow> logger option \<Rightarrow> u32 \<Rightarrow> RequestTracker \<Rightarrow> RequestTracker \<times> effect list" where
  "evict_expired_requests cfg lg now_ms t =
     (case fold (evict_slot cfg lg now_ms) [0..<MaxPendingRequests cfg] (rq_entries t, []) of
        (es, out) \<Rightarrow> (t\<lparr>rq_entries := es\<rparr>, out))"

definition active_count :: "RequestTracker \<Rightarrow> nat" where
  "active_count t = length (filter pr_active (rq_entries t))"

section \<open>Pending requests as a map\<close>

definition actives :: "RequestTracker \<Rightarrow> PendingEntry list" where
  "actives t = filter pr_active (rq_entries t)"

definition tracker_wf :: "config \<Rightarrow> RequestTracker \<Rightarrow> bool" where
  "tracker_wf cfg t \<longleftrightarrow>
     length (rq_entries t) = MaxPendingRequests cfg \<and> distinct (map pr_request_id (actives t))"

definition pending :: "RequestTracker \<Rightarrow> u32 \<Rightarrow> PendingEntry option" where
  "pending t rid = find (pending_is rid) (rq_entries t)"

lemma tracker_wf_init [simp]: "tracker_wf cfg (tracker_init cfg)"
  by (simp add: tracker_wf_def tracker_init_def actives_def default_pending_def)

lemma pending_Some:
  assumes "tracker_wf cfg t"
  shows "pending t rid = Some e \<longleftrightarrow> e \<in> set (actives t) \<and> pr_request_id e = rid"
proof
  assume "pending t rid = Some e"
  then show "e \<in> set (actives t) \<and> pr_request_id e = rid"
    by (auto simp: pending_def find_Some_iff pending_is_def actives_def)
next
  assume e: "e \<in> set (actives t) \<and> pr_request_id e = rid"
  then have "pending t rid \<noteq> None"
    by (auto simp: pending_def find_None_iff pending_is_def actives_def)
  then obtain e' where e': "pending t rid = Some e'" by auto
  then have "e' \<in> set (actives t) \<and> pr_request_id e' = rid"
    by (auto simp: pending_def find_Some_iff pending_is_def actives_def)
  with e assms have "e' = e"
    by (auto simp: tracker_wf_def distinct_map inj_on_def)
  with e' show "pending t rid = Some e" by simp
qed

lemma pending_None: "pending t rid = None \<longleftrightarrow> rid \<notin> pr_request_id ` set (actives t)"
  by (auto simp: pending_def find_None_iff pending_is_def actives_def image_iff)

lemma pending_eqI:
  assumes "tracker_wf cfg t"
    and "\<And>rid e. m rid = Some e \<longleftrightarrow> e \<in> set (actives t) \<and> pr_request_id e = rid"
  shows "pending t = m"
  using assms(2) pending_Some [OF assms(1)] by (intro ext) (metis option.exhaust)

lemma mset_filter_update:
  assumes "i < length es"
  shows "mset (filter P (es[i := x])) + (if P (es ! i) then {#es ! i#} else {#}) =
    mset (filter P es) + (if P x then {#x#} else {#})"
proof -
  have "mset (filter P es) = mset (filter P (take i es @ es ! i # drop (Suc i) es))"
    using id_take_nth_drop [OF assms] by simp
  then show ?thesis using assms by (simp add: upd_conv_take_nth_drop)
qed

lemma actives_fill:
  assumes "i < length (rq_entries t)" "\<not> pr_active (rq_entries t ! i)" "pr_active e"
  shows "mset (actives (t\<lparr>rq_entries := (rq_entries t)[i := e]\<rparr>)) = add_mset e (mset (actives t))"
  using mset_filter_update [OF assms(1), of pr_active e] assms(2,3) by (simp add: actives_def)

lemma actives_free:
  assumes "i < length (rq_entries t)" "pr_active (rq_entries t ! i)"
  shows "mset (actives t) = add_mset (rq_entries t ! i)
    (mset (actives (t\<lparr>rq_entries := (rq_entries t)[i := default_pending]\<rparr>)))"
  using mset_filter_update [OF assms(1), of pr_active default_pending] assms(2)
  by (simp add: actives_def default_pending_def)

lemma distinct_ids_mset:
  "mset xs = add_mset e (mset ys) \<Longrightarrow>
   distinct (map pr_request_id xs) \<longleftrightarrow>
     pr_request_id e \<notin> pr_request_id ` set ys \<and> distinct (map pr_request_id ys)"
  using mset_eq_imp_distinct_iff [of "map pr_request_id xs" "map pr_request_id (e # ys)"]
  by (simp add: mset_map)

lemma set_of_mset: "mset xs = add_mset e (mset ys) \<Longrightarrow> set xs = insert e (set ys)"
  by (metis set_mset_mset set_mset_add_mset_insert)

section \<open>Allocation picks a fresh id\<close>

lemma id_collision_iff:
  "tracker_wf cfg t \<Longrightarrow> id_collision cfg (rq_entries t) rid \<longleftrightarrow> pending t rid \<noteq> None"
  by (auto simp: id_collision_def tracker_wf_def pending_def find_None_iff in_set_conv_nth
      scan_from_None [of "pending_is rid" "rq_entries t" "MaxPendingRequests cfg" 0, simplified])

lemma probe_id_fresh_or_all:
  "id_collision cfg es (probe_id cfg es n rid) \<Longrightarrow> \<forall>k<n. id_collision cfg es (rid + of_nat k)"
proof (induction n arbitrary: rid)
  case (Suc n)
  then have c: "id_collision cfg es rid" by (auto split: if_splits)
  with Suc have ih: "\<forall>k<n. id_collision cfg es (rid + 1 + of_nat k)" by auto
  show ?case
  proof (intro allI impI)
    fix k assume "k < Suc n"
    then show "id_collision cfg es (rid + of_nat k)"
      using c ih by (cases k) (auto simp: add.assoc)
  qed
qed simp

lemma inj_on_offsets: "n \<le> 2 ^ 32 \<Longrightarrow> inj_on (\<lambda>k. (rid :: u32) + of_nat k) {..<n}"
proof (rule inj_onI)
  fix a b assume n: "n \<le> 2 ^ 32" and ab: "a \<in> {..<n}" "b \<in> {..<n}"
    and eq: "rid + of_nat a = rid + of_nat b"
  then have "unat (of_nat a :: u32) = unat (of_nat b :: u32)" by simp
  moreover have "a < 2 ^ 32" "b < 2 ^ 32" using ab n by auto
  ultimately show "a = b" by (simp only: unat_of_nat_u32)
qed

lemma length_actives_free:
  assumes "tracker_wf cfg t" "i < MaxPendingRequests cfg" "\<not> pr_active (rq_entries t ! i)"
  shows "length (actives t) < MaxPendingRequests cfg"
  unfolding actives_def using assms length_filter_less [of "rq_entries t ! i" "rq_entries t" pr_active]
  by (simp add: tracker_wf_def)

lemma probe_id_fresh:
  assumes wf: "tracker_wf cfg t" and cap: "MaxPendingRequests cfg \<le> 2 ^ 32"
    and room: "i < MaxPendingRequests cfg" "\<not> pr_active (rq_entries t ! i)"
  shows "pending t (probe_id cfg (rq_entries t) (MaxPendingRequests cfg) rid) = None"
proof (rule ccontr)
  let ?n = "MaxPendingRequests cfg" and ?ids = "pr_request_id ` set (actives t)"
  assume "pending t (probe_id cfg (rq_entries t) ?n rid) \<noteq> None"
  then have "\<forall>k<?n. id_collision cfg (rq_entries t) (rid + of_nat k)"
    by (intro probe_id_fresh_or_all) (simp add: id_collision_iff [OF wf])
  then have "(\<lambda>k. rid + of_nat k) ` {..<?n} \<subseteq> ?ids"
    by (auto simp: id_collision_iff [OF wf] pending_None)
  then have "card ((\<lambda>k. rid + of_nat k) ` {..<?n}) \<le> card ?ids"
    by (intro card_mono) simp_all
  then have "?n \<le> card ?ids" using inj_on_offsets [OF cap, of rid] by (simp add: card_image)
  also have "card ?ids \<le> length (actives t)"
    using card_image_le [of "set (actives t)" pr_request_id] card_length [of "actives t"] by simp
  finally show False using length_actives_free [OF wf room] by simp
qed

text \<open>The entry an allocation stores.\<close>

definition new_pending :: "config \<Rightarrow> u16 \<Rightarrow> u16 \<Rightarrow> u32 \<Rightarrow> u32 \<Rightarrow> nat option \<Rightarrow> nat \<Rightarrow> u32 \<Rightarrow> PendingEntry" where
  "new_pending cfg sid mid timeout_ms now_ms cb ctx rid =
     \<lparr> pr_request_id = rid, pr_service_id = sid, pr_method_id = mid,
       pr_deadline_ms = now_ms + (if timeout_ms > 0 then timeout_ms else RequestTimeoutMs cfg),
       pr_callback = cb, pr_user_ctx = ctx, pr_active = True \<rparr>"

lemma allocate_Some:
  assumes wf: "tracker_wf cfg t" and cap: "MaxPendingRequests cfg \<le> 2 ^ 32"
    and a: "allocate cfg lg sid mid timeout_ms now_ms cb ctx t = (Some rid, t', out)"
  shows "pending t rid = None" and "tracker_wf cfg t'"
    and "pending t' = (pending t)(rid \<mapsto> new_pending cfg sid mid timeout_ms now_ms cb ctx rid)"
proof -
  let ?e = "new_pending cfg sid mid timeout_ms now_ms cb ctx rid"
  obtain i where i: "i < MaxPendingRequests cfg" "\<not> pr_active (rq_entries t ! i)"
    and rid: "rid = probe_id cfg (rq_entries t) (MaxPendingRequests cfg) (rq_next_request_id t)"
    and t': "t' = \<lparr> rq_entries = (rq_entries t)[i := ?e], rq_next_request_id = rid + 1 \<rparr>"
    using a by (auto simp: allocate_def Let_def scan_from_Some new_pending_def split: option.splits)
  show fresh: "pending t rid = None" unfolding rid by (rule probe_id_fresh [OF wf cap i])
  have len: "i < length (rq_entries t)" using wf i by (simp add: tracker_wf_def)
  have "actives t' = actives (t\<lparr>rq_entries := (rq_entries t)[i := ?e]\<rparr>)"
    by (simp add: t' actives_def)
  then have ms: "mset (actives t') = add_mset ?e (mset (actives t))"
    using actives_fill [OF len i(2), of ?e] by (simp add: new_pending_def)
  show wf': "tracker_wf cfg t'"
    using wf fresh distinct_ids_mset [OF ms]
    by (simp add: tracker_wf_def t' pending_None) (simp add: new_pending_def)
  show "pending t' = (pending t)(rid \<mapsto> ?e)"
    by (rule pending_eqI [OF wf'])
      (use fresh in \<open>auto simp: set_of_mset [OF ms] pending_Some [OF wf] pending_None new_pending_def\<close>)
qed

lemma allocate_None:
  assumes "tracker_wf cfg t"
  shows "fst (allocate cfg lg sid mid timeout_ms now_ms cb ctx t) = None \<longleftrightarrow>
      active_count t = MaxPendingRequests cfg"
    and "fst (allocate cfg lg sid mid timeout_ms now_ms cb ctx t) = None \<Longrightarrow>
      fst (snd (allocate cfg lg sid mid timeout_ms now_ms cb ctx t)) = t"
proof -
  have "active_count t = MaxPendingRequests cfg \<longleftrightarrow> (\<forall>e \<in> set (rq_entries t). pr_active e)"
    using assms length_filter_less [of _ "rq_entries t" pr_active]
    by (force simp: active_count_def tracker_wf_def)
  also have "\<dots> \<longleftrightarrow> scan_from (\<lambda>e. \<not> pr_active e) (rq_entries t) (MaxPendingRequests cfg) 0 = None"
    using assms by (auto simp: scan_from_None tracker_wf_def all_set_conv_all_nth)
  finally show "fst (allocate cfg lg sid mid timeout_ms now_ms cb ctx t) = None \<longleftrightarrow>
      active_count t = MaxPendingRequests cfg"
    by (auto simp: allocate_def Let_def split: option.splits)
  show "fst (allocate cfg lg sid mid timeout_ms now_ms cb ctx t) = None \<Longrightarrow>
      fst (snd (allocate cfg lg sid mid timeout_ms now_ms cb ctx t)) = t"
    by (auto simp: allocate_def Let_def split: option.splits)
qed

lemma allocate_silent [simp]:
  "visible (snd (snd (allocate cfg lg sid mid timeout_ms now_ms cb ctx t))) = []"
  by (cases "scan_from (\<lambda>e. \<not> pr_active e) (rq_entries t) (MaxPendingRequests cfg) 0")
    (simp_all add: allocate_def Let_def)

section \<open>Completion\<close>

lemma complete_pending_all:
  assumes wf: "tracker_wf cfg t" and c: "complete cfg lg rid rc payload t = (ok, t', out)"
  shows "tracker_wf cfg t' \<and> pending t' = (pending t)(rid := None) \<and> (ok \<longleftrightarrow> pending t rid \<noteq> None) \<and>
      visible out = (case pending t rid of None \<Rightarrow> [] | Some e \<Rightarrow> call_done e rc payload) \<and>
      rq_next_request_id t' = rq_next_request_id t"
proof (cases "scan_from (pending_is rid) (rq_entries t) (MaxPendingRequests cfg) 0")
  case None
  then have "pending t rid = None" using id_collision_iff [OF wf, of rid] by (simp add: id_collision_def)
  then show ?thesis
    using c None wf by (auto simp: complete_def)
next
  case (Some i)
  let ?e = "rq_entries t ! i"
  have i: "i < length (rq_entries t)" "pending_is rid ?e"
    using Some wf by (auto simp: scan_from_Some tracker_wf_def)
  have t': "t' = t\<lparr>rq_entries := (rq_entries t)[i := default_pending]\<rparr>" and ok
    and out: "visible out = visible (call_done ?e rc payload)"
    using c Some by (auto simp: complete_def Let_def)
  have e: "pr_active ?e" "pr_request_id ?e = rid" using i by (simp_all add: pending_is_def)
  have p: "pending t rid = Some ?e"
    using i e by (simp add: pending_Some [OF wf] actives_def)
  have ms: "mset (actives t) = add_mset ?e (mset (actives t'))"
    using actives_free [OF i(1) e(1)] by (simp add: t')
  have d: "rid \<notin> pr_request_id ` set (actives t') \<and> distinct (map pr_request_id (actives t'))"
    using wf e distinct_ids_mset [OF ms] by (simp add: tracker_wf_def)
  then have wf': "tracker_wf cfg t'" using wf by (simp add: tracker_wf_def t')
  have "pending t' = (pending t)(rid := None)"
    by (rule pending_eqI [OF wf'])
      (use d e in \<open>auto simp: set_of_mset [OF ms] pending_Some [OF wf] pending_None image_iff\<close>)
  then show ?thesis
    using wf' \<open>ok\<close> p out t' by (cases "pr_callback ?e") (simp_all add: call_done_def)
qed

lemma complete_pending:
  assumes wf: "tracker_wf cfg t" and c: "complete cfg lg rid rc payload t = (ok, t', out)"
  shows "tracker_wf cfg t'" and "pending t' = (pending t)(rid := None)"
    and "ok \<longleftrightarrow> pending t rid \<noteq> None"
    and "visible out = (case pending t rid of None \<Rightarrow> [] | Some e \<Rightarrow> call_done e rc payload)"
    and "rq_next_request_id t' = rq_next_request_id t"
  using complete_pending_all [OF assms] by simp_all

section \<open>Time-out eviction\<close>

lemma evict_slots:
  "n \<le> length es \<Longrightarrow>
   fst (fold (evict_slot cfg lg now_ms) [0..<n] (es, out)) =
     map (\<lambda>e. if request_expired now_ms e then default_pending else e) (take n es) @ drop n es \<and>
   visible (snd (fold (evict_slot cfg lg now_ms) [0..<n] (es, out))) =
     visible out @ concat (map (\<lambda>e. call_done e E_TIMEOUT None) (filter (request_expired now_ms) (take n es)))"
proof (induction n)
  case (Suc n)
  let ?f = "\<lambda>e. if request_expired now_ms e then default_pending else e"
  let ?s = "fold (evict_slot cfg lg now_ms) [0..<n] (es, out)"
  have n: "n < length es" using Suc.prems by simp
  have ih: "fst ?s = map ?f (take n es) @ drop n es"
    "visible (snd ?s) = visible out @
      concat (map (\<lambda>e. call_done e E_TIMEOUT None) (filter (request_expired now_ms) (take n es)))"
    using Suc by simp_all
  have nth: "fst ?s ! n = es ! n" using n by (simp add: ih nth_append)
  have upd: "(fst ?s)[n := x] = map ?f (take n es) @ x # drop (Suc n) es" for x
    using n by (simp only: ih Cons_nth_drop_Suc [OF n, symmetric]) (simp add: list_update_append)
  have vis: "visible (call_done e E_TIMEOUT None) = call_done e E_TIMEOUT None" for e
    by (cases "pr_callback e") (simp_all add: call_done_def)
  have same: "fst ?s = map ?f (take n es) @ es ! n # drop (Suc n) es"
    using n by (simp add: ih Cons_nth_drop_Suc)
  have step: "fold (evict_slot cfg lg now_ms) [0..<Suc n] (es, out) = evict_slot cfg lg now_ms n ?s"
    by simp
  show ?case
    unfolding step evict_slot_def [of cfg lg now_ms n ?s]
    using n nth upd ih(2) same
    by (cases "request_expired now_ms (es ! n)")
      (simp_all add: case_prod_beta Let_def take_Suc_conv_app_nth vis)
qed simp

lemma evict_expired_requests_exact:
  assumes "tracker_wf cfg t"
  shows "rq_entries (fst (evict_expired_requests cfg lg now_ms t)) =
      map (\<lambda>e. if request_expired now_ms e then default_pending else e) (rq_entries t)"
    and "visible (snd (evict_expired_requests cfg lg now_ms t)) =
      concat (map (\<lambda>e. call_done e E_TIMEOUT None) (filter (request_expired now_ms) (actives t)))"
    and "rq_next_request_id (fst (evict_expired_requests cfg lg now_ms t)) = rq_next_request_id t"
proof -
  have l: "MaxPendingRequests cfg = length (rq_entries t)" using assms by (simp add: tracker_wf_def)
  have "filter (request_expired now_ms) (actives t) = filter (request_expired now_ms) (rq_entries t)"
    by (simp add: actives_def request_expired_def cong: filter_cong)
  then show "rq_entries (fst (evict_expired_requests cfg lg now_ms t)) =
      map (\<lambda>e. if request_expired now_ms e then default_pending else e) (rq_entries t)"
    and "visible (snd (evict_expired_requests cfg lg now_ms t)) =
      concat (map (\<lambda>e. call_done e E_TIMEOUT None) (filter (request_expired now_ms) (actives t)))"
    and "rq_next_request_id (fst (evict_expired_requests cfg lg now_ms t)) = rq_next_request_id t"
    using evict_slots [of "MaxPendingRequests cfg" "rq_entries t" cfg lg now_ms "[]"]
    by (simp_all add: evict_expired_requests_def case_prod_beta l)
qed

lemma evict_actives:
  assumes "tracker_wf cfg t"
  shows "actives (fst (evict_expired_requests cfg lg now_ms t)) =
    filter (\<lambda>e. \<not> time_after now_ms (pr_deadline_ms e)) (actives t)"
proof -
  have "filter pr_active (map (\<lambda>e. if request_expired now_ms e then default_pending else e) es) =
    filter (\<lambda>e. \<not> time_after now_ms (pr_deadline_ms e)) (filter pr_active es)" for es
    by (induction es) (auto simp: request_expired_def default_pending_def)
  then show ?thesis by (simp add: actives_def evict_expired_requests_exact [OF assms])
qed

lemma evict_wf:
  assumes "tracker_wf cfg t"
  shows "tracker_wf cfg (fst (evict_expired_requests cfg lg now_ms t))"
    and "pending (fst (evict_expired_requests cfg lg now_ms t)) rid =
      (case pending t rid of None \<Rightarrow> None
       | Some e \<Rightarrow> if time_after now_ms (pr_deadline_ms e) then None else Some e)"
proof -
  let ?t' = "fst (evict_expired_requests cfg lg now_ms t)"
  show wf': "tracker_wf cfg ?t'"
    using assms evict_actives [OF assms, of lg now_ms]
    by (simp add: tracker_wf_def evict_expired_requests_exact [OF assms] distinct_map_filter)
  show "pending ?t' rid = (case pending t rid of None \<Rightarrow> None
       | Some e \<Rightarrow> if time_after now_ms (pr_deadline_ms e) then None else Some e)"
  proof (cases "pending t rid")
    case None
    then have "pending ?t' rid = None" by (auto simp: pending_None evict_actives [OF assms])
    then show ?thesis using None by simp
  next
    case (Some e)
    then have e: "e \<in> set (actives t)" "pr_request_id e = rid" by (simp_all add: pending_Some [OF assms])
    show ?thesis
    proof (cases "time_after now_ms (pr_deadline_ms e)")
      case False
      then show ?thesis using e Some by (simp add: pending_Some [OF wf'] evict_actives [OF assms])
    next
      case True
      have "e' = e" if "e' \<in> set (actives t)" "pr_request_id e' = rid" for e'
        using that Some by (metis pending_Some [OF assms] option.inject)
      then show ?thesis using True Some by (auto simp: pending_None evict_actives [OF assms])
    qed
  qed
qed

end
