(* ===== verification/Event_Manager.thy ===== *)
theory Event_Manager
  imports Effects Fixed_Table
begin

text \<open>
  Provider-side subscriber tables (\<open>service/event_manager.hpp\<close>): registered events, each with a
  table of subscribers that expire.  A subscription is keyed by client; the lemmas show what
  subscribing, unsubscribing and the in-place eviction loop do to the map from clients to
  subscribers.
\<close>

record Subscriber =
  sb_client_id :: u16
  sb_addr :: addr
  sb_expiry_ms :: u32

record EventSlot =
  ev_service_id :: u16
  ev_event_id :: u16
  ev_active :: bool
  ev_subs :: "Subscriber tbl"

type_synonym EventManager = "EventSlot tbl"

definition MAX_EVENTS :: "config \<Rightarrow> nat" where
  "MAX_EVENTS cfg = MaxServices cfg * MaxEvents cfg"

definition default_subscriber :: "config \<Rightarrow> Subscriber" where
  "default_subscriber cfg = \<lparr> sb_client_id = 0, sb_addr = zero_addr cfg, sb_expiry_ms = 0 \<rparr>"

definition default_event :: "config \<Rightarrow> EventSlot" where
  "default_event cfg = \<lparr> ev_service_id = 0, ev_event_id = 0, ev_active = False,
     ev_subs = t_empty (MaxSubscribers cfg) (default_subscriber cfg) \<rparr>"

definition events_init :: "config \<Rightarrow> EventManager" where
  "events_init cfg = t_empty (MAX_EVENTS cfg) (default_event cfg)"

definition event_is :: "u16 \<times> u16 \<Rightarrow> EventSlot \<Rightarrow> bool" where
  "event_is k ev \<longleftrightarrow> ev_active ev \<and> ev_service_id ev = fst k \<and> ev_event_id ev = snd k"

definition subscriber_is :: "u16 \<Rightarrow> Subscriber \<Rightarrow> bool" where
  "subscriber_is cid s \<longleftrightarrow> sb_client_id s = cid"

definition register_event ::
    "config \<Rightarrow> logger option \<Rightarrow> u16 \<Rightarrow> u16 \<Rightarrow> EventManager \<Rightarrow> bool \<times> EventManager \<times> effect list" where
  "register_event cfg lg sid eid t =
     (case t_find (event_is (sid, eid)) t of
        Some i \<Rightarrow> (True, t, [])
      | None \<Rightarrow>
          if used t \<ge> MAX_EVENTS cfg then
            (False, t, if_logger (\<lambda>l. log_warn cfg l CatEvents ''event_table_full'' sid eid 0 (of_nat (used t))) lg)
          else
            (let ev = t_get t (used t) in
             (True,
              t_push (ev\<lparr> ev_service_id := sid, ev_event_id := eid, ev_active := True,
                          ev_subs := (ev_subs ev)\<lparr>used := 0\<rparr> \<rparr>) t,
              if_logger (\<lambda>l. log_info cfg l CatEvents ''event_registered'' sid eid 0 0) lg)))"

definition subscription_expiry :: "config \<Rightarrow> u16 \<Rightarrow> u32 \<Rightarrow> u32" where
  "subscription_expiry cfg ttl_seconds now_ms =
     (if ttl_seconds > 0 then now_ms + ucast ttl_seconds * 1000
      else now_ms + ucast (SubscriptionTtlSeconds cfg) * 1000)"

text \<open>The part of \<open>subscribe\<close> that works on the subscriber array of the event.\<close>

definition subscribe_slot ::
    "config \<Rightarrow> logger option \<Rightarrow> u16 \<Rightarrow> u16 \<Rightarrow> u16 \<Rightarrow> addr \<Rightarrow> u32 \<Rightarrow> Subscriber tbl \<Rightarrow>
       ReturnCode \<times> Subscriber tbl \<times> effect list" where
  "subscribe_slot cfg lg sid eid cid a expiry subs =
     (case t_find (subscriber_is cid) subs of
        Some i \<Rightarrow> (E_OK, t_upd i (\<lambda>s. s\<lparr>sb_addr := a, sb_expiry_ms := expiry\<rparr>) subs, [])
      | None \<Rightarrow>
          if used subs \<ge> MaxSubscribers cfg then
            (E_NOT_OK, subs,
             if_logger (\<lambda>l. log_warn cfg l CatEvents ''sub_table_full'' sid eid cid (of_nat (used subs))) lg)
          else
            (E_OK, t_push \<lparr>sb_client_id = cid, sb_addr = a, sb_expiry_ms = expiry\<rparr> subs,
             if_logger (\<lambda>l. log_info cfg l CatEvents ''subscriber_added'' sid eid cid (of_nat (used subs + 1))) lg))"

definition subscribe ::
    "config \<Rightarrow> logger option \<Rightarrow> u16 \<Rightarrow> u16 \<Rightarrow> u16 \<Rightarrow> addr \<Rightarrow> u16 \<Rightarrow> u32 \<Rightarrow> EventManager \<Rightarrow>
       ReturnCode \<times> EventManager \<times> effect list" where
  "subscribe cfg lg sid eid cid a ttl_seconds now_ms t =
     (case t_find (event_is (sid, eid)) t of
        None \<Rightarrow> (E_NOT_OK, t, [])
      | Some e \<Rightarrow>
          (case subscribe_slot cfg lg sid eid cid a (subscription_expiry cfg ttl_seconds now_ms)
                  (ev_subs (t_get t e)) of
             (rc, subs, out) \<Rightarrow> (rc, t_upd e (\<lambda>ev. ev\<lparr>ev_subs := subs\<rparr>) t, out)))"

definition unsubscribe ::
    "config \<Rightarrow> logger option \<Rightarrow> u16 \<Rightarrow> u16 \<Rightarrow> u16 \<Rightarrow> EventManager \<Rightarrow> EventManager \<times> effect list" where
  "unsubscribe cfg lg sid eid cid t =
     (case t_find (event_is (sid, eid)) t of
        None \<Rightarrow> (t, [])
      | Some e \<Rightarrow>
          (let subs = ev_subs (t_get t e) in
           case t_find (subscriber_is cid) subs of
             None \<Rightarrow> (t, [])
           | Some i \<Rightarrow>
               (t_upd e (\<lambda>ev. ev\<lparr>ev_subs := t_remove (default_subscriber cfg) i subs\<rparr>) t,
                if_logger (\<lambda>l. log_info cfg l CatEvents ''subscriber_removed'' sid eid cid (of_nat (used subs - 1))) lg)))"

text \<open>\<open>while (i < sub_count)\<close>: remove the slot in place or go to the next one.\<close>

function evict_subs :: "config \<Rightarrow> u32 \<Rightarrow> nat \<Rightarrow> Subscriber tbl \<Rightarrow> Subscriber tbl" where
  "evict_subs cfg now_ms i subs =
     (if i < used subs then
        if time_after now_ms (sb_expiry_ms (t_get subs i))
        then evict_subs cfg now_ms i (t_remove (default_subscriber cfg) i subs)
        else evict_subs cfg now_ms (Suc i) subs
      else subs)"
  by pat_completeness auto
termination by (relation "measure (\<lambda>(cfg, now_ms, i, subs). used subs - i)") auto

declare evict_subs.simps [simp del]

definition evict_expired_subscriptions :: "config \<Rightarrow> u32 \<Rightarrow> EventManager \<Rightarrow> EventManager" where
  "evict_expired_subscriptions cfg now_ms t =
     fold (\<lambda>e t. if ev_active (t_get t e)
                 then t_upd e (\<lambda>ev. ev\<lparr>ev_subs := evict_subs cfg now_ms 0 (ev_subs ev)\<rparr>) t else t)
       [0..<used t] t"

definition find_event :: "u16 \<Rightarrow> u16 \<Rightarrow> EventManager \<Rightarrow> EventSlot option" where
  "find_event sid eid t = map_option (t_get t) (t_find (event_is (sid, eid)) t)"

definition notify :: "u16 \<Rightarrow> u16 \<Rightarrow> (addr \<Rightarrow> u16 \<Rightarrow> 'w \<Rightarrow> 'w) \<Rightarrow> EventManager \<Rightarrow> 'w \<Rightarrow> 'w" where
  "notify sid eid build_and_send t w =
     (case find_event sid eid t of
        None \<Rightarrow> w
      | Some ev \<Rightarrow>
          fold (\<lambda>i. build_and_send (sb_addr (t_get (ev_subs ev) i)) (sb_client_id (t_get (ev_subs ev) i)))
            [0..<used (ev_subs ev)] w)"

definition has_subscribers :: "u16 \<Rightarrow> u16 \<Rightarrow> EventManager \<Rightarrow> bool" where
  "has_subscribers sid eid t =
     (case find_event sid eid t of None \<Rightarrow> False | Some ev \<Rightarrow> used (ev_subs ev) > 0)"

definition get_granted_ttl :: "u16 \<Rightarrow> u16 \<Rightarrow> u16 \<Rightarrow> u32 \<Rightarrow> EventManager \<Rightarrow> u16" where
  "get_granted_ttl sid eid cid now_ms t =
     (case find_event sid eid t of
        None \<Rightarrow> 0
      | Some ev \<Rightarrow>
          (case t_find (subscriber_is cid) (ev_subs ev) of
             None \<Rightarrow> 0
           | Some i \<Rightarrow>
               let expiry = sb_expiry_ms (t_get (ev_subs ev) i);
                   remaining_ms = (if expiry > now_ms then expiry - now_ms else 0)
               in ucast (remaining_ms div 1000)))"

section \<open>Subscriptions as a map\<close>

definition ev_key :: "EventSlot \<Rightarrow> u16 \<times> u16" where
  "ev_key ev = (ev_service_id ev, ev_event_id ev)"

definition subs_wf :: "config \<Rightarrow> Subscriber tbl \<Rightarrow> bool" where
  "subs_wf cfg subs \<longleftrightarrow> keyed sb_client_id (\<lambda>_. True) (MaxSubscribers cfg) subs"

definition events_wf :: "config \<Rightarrow> EventManager \<Rightarrow> bool" where
  "events_wf cfg t \<longleftrightarrow>
     keyed ev_key ev_active (MAX_EVENTS cfg) t \<and> (\<forall>ev \<in> set (slots t). subs_wf cfg (ev_subs ev))"

definition event_lookup :: "EventManager \<Rightarrow> u16 \<times> u16 \<Rightarrow> EventSlot option" where
  "event_lookup t = t_lookup ev_key t"

abbreviation sub_lookup :: "Subscriber tbl \<Rightarrow> u16 \<Rightarrow> Subscriber option" where
  "sub_lookup \<equiv> t_lookup sb_client_id"

text \<open>Who is subscribed to an event: \<open>None\<close> when the event is not registered.\<close>

definition subscribers_of :: "EventManager \<Rightarrow> u16 \<times> u16 \<Rightarrow> (u16 \<Rightarrow> Subscriber option) option" where
  "subscribers_of t k = map_option (\<lambda>ev. sub_lookup (ev_subs ev)) (event_lookup t k)"

lemma event_is_key: "ev_active ev \<Longrightarrow> event_is k ev \<longleftrightarrow> ev_key ev = k"
  by (cases k) (auto simp: event_is_def ev_key_def)

lemma subscriber_is_key: "True \<Longrightarrow> subscriber_is cid s \<longleftrightarrow> sb_client_id s = cid"
  by (simp add: subscriber_is_def)

lemma events_wf_init [simp]: "events_wf cfg (events_init cfg)"
  by (simp add: events_wf_def events_init_def keyed_empty)
    (simp add: t_empty_def default_event_def subs_wf_def keyed_def t_wf_def live_def)

lemma find_event_lookup: "events_wf cfg t \<Longrightarrow> find_event sid eid t = event_lookup t (sid, eid)"
  unfolding find_event_def events_wf_def event_lookup_def
  by (elim conjE) (rule keyed_find_option [OF _ event_is_key])

lemma events_wf_subs:
  assumes "events_wf cfg t" "i < used t"
  shows "subs_wf cfg (ev_subs (t_get t i))"
proof -
  have "i < length (slots t)" using assms by (simp add: events_wf_def keyed_def t_wf_def)
  then have "t_get t i \<in> set (slots t)" by (simp add: t_get_def)
  then show ?thesis using assms by (simp add: events_wf_def)
qed

subsection \<open>One subscriber table\<close>

definition sub_put :: "config \<Rightarrow> addr \<times> u32 \<Rightarrow> u16 \<Rightarrow> Subscriber tbl \<Rightarrow> Subscriber tbl" where
  "sub_put cfg a cid subs = fst (snd (subscribe_slot cfg None 0 0 cid (fst a) (snd a) subs))"

definition sub_del :: "config \<Rightarrow> u16 \<Rightarrow> Subscriber tbl \<Rightarrow> Subscriber tbl" where
  "sub_del cfg cid subs =
     (case t_find (subscriber_is cid) subs of
        None \<Rightarrow> subs | Some i \<Rightarrow> t_remove (default_subscriber cfg) i subs)"

definition sub_merge :: "u16 \<Rightarrow> addr \<times> u32 \<Rightarrow> Subscriber option \<Rightarrow> Subscriber option" where
  "sub_merge cid a old = Some \<lparr>sb_client_id = cid, sb_addr = fst a, sb_expiry_ms = snd a\<rparr>"

lemma subscribe_slot_state:
  "fst (snd (subscribe_slot cfg lg sid eid cid a expiry subs)) = sub_put cfg (a, expiry) cid subs"
  by (simp add: sub_put_def subscribe_slot_def split: option.splits)

lemma sub_put_table:
  assumes "subs_wf cfg subs"
  shows "subs_wf cfg (sub_put cfg a cid subs)"
    and "sub_lookup (sub_put cfg a cid subs) = bm_put (MaxSubscribers cfg) sub_merge a cid (sub_lookup subs)"
proof -
  let ?t' = "sub_put cfg a cid subs"
  have "keyed sb_client_id (\<lambda>_. True) (MaxSubscribers cfg) ?t' \<and>
      sub_lookup ?t' = bm_put (MaxSubscribers cfg) sub_merge a cid (sub_lookup subs)"
  proof (rule keyed_put_refines [OF assms [unfolded subs_wf_def] subscriber_is_key])
    fix i assume f: "t_find (subscriber_is cid) subs = Some i"
    then have "(t_get subs i)\<lparr>sb_addr := fst a, sb_expiry_ms := snd a\<rparr> =
        \<lparr>sb_client_id = cid, sb_addr = fst a, sb_expiry_ms = snd a\<rparr>"
      by (cases "t_get subs i") (simp add: t_find_Some subscriber_is_def)
    then show "?t' = (case sub_merge cid a (Some (t_get subs i)) of
        None \<Rightarrow> subs | Some v \<Rightarrow> t_upd i (\<lambda>_. v) subs)"
      using f t_upd_const [of i "\<lambda>s. s\<lparr>sb_addr := fst a, sb_expiry_ms := snd a\<rparr>" subs]
      by (simp add: sub_put_def subscribe_slot_def sub_merge_def)
  qed (auto simp: sub_merge_def sub_put_def subscribe_slot_def)
  then show "subs_wf cfg ?t'"
    and "sub_lookup ?t' = bm_put (MaxSubscribers cfg) sub_merge a cid (sub_lookup subs)"
    by (simp_all add: subs_wf_def)
qed

lemma sub_del_table:
  assumes "subs_wf cfg subs"
  shows "subs_wf cfg (sub_del cfg cid subs)"
    and "sub_lookup (sub_del cfg cid subs) = bm_del cid (sub_lookup subs)"
  using keyed_del_refines [OF assms [unfolded subs_wf_def] subscriber_is_key, of cid
      "sub_del cfg cid subs" "default_subscriber cfg"]
  by (simp_all add: subs_wf_def sub_del_def split: option.splits)

interpretation subs: deletable_map sub_lookup "subs_wf cfg" "MaxSubscribers cfg" sub_merge
  "sub_put cfg" "sub_del cfg" for cfg
proof
  fix t a k assume "subs_wf cfg t"
  then show "subs_wf cfg (sub_put cfg a k t)"
    "sub_lookup (sub_put cfg a k t) = bm_put (MaxSubscribers cfg) sub_merge a k (sub_lookup t)"
    "subs_wf cfg (sub_del cfg k t)" "sub_lookup (sub_del cfg k t) = bm_del k (sub_lookup t)"
    by (simp_all add: sub_put_table sub_del_table)
  show "finite (dom (sub_lookup t)) \<and> card (dom (sub_lookup t)) \<le> MaxSubscribers cfg"
    using \<open>subs_wf cfg t\<close> unfolding subs_wf_def by (rule dom_t_lookup_bound)
qed

text \<open>The eviction loop removes exactly the expired entries.\<close>

lemma evict_subs_mset:
  "t_wf cap subs \<Longrightarrow> \<forall>k<i. k < used subs \<longrightarrow> \<not> time_after now_ms (sb_expiry_ms (t_get subs k)) \<Longrightarrow>
   t_wf cap (evict_subs cfg now_ms i subs) \<and>
   mset (live (evict_subs cfg now_ms i subs)) =
     filter_mset (\<lambda>s. \<not> time_after now_ms (sb_expiry_ms s)) (mset (live subs))"
proof (induction cfg now_ms i subs rule: evict_subs.induct)
  case (1 cfg now_ms i subs)
  note wf = "1.prems"(1) and kept = "1.prems"(2)
  let ?P = "\<lambda>s. \<not> time_after now_ms (sb_expiry_ms s)"
  consider (stop) "\<not> i < used subs" | (drop) "i < used subs" "\<not> ?P (t_get subs i)"
    | (keep) "i < used subs" "?P (t_get subs i)" by blast
  then show ?case
  proof cases
    case stop
    have "\<forall>s \<in> set (live subs). ?P s"
      using stop kept wf by (auto simp: in_set_conv_nth length_live live_nth)
    then have "filter_mset ?P (mset (live subs)) = mset (live subs)"
      by (simp add: filter_mset_eq_conv)
    then show ?thesis using stop wf by (simp add: evict_subs.simps [of cfg now_ms i])
  next
    case drop
    let ?r = "t_remove (default_subscriber cfg) i subs"
    have r: "evict_subs cfg now_ms i subs = evict_subs cfg now_ms i ?r"
      using drop by (simp add: evict_subs.simps [of cfg now_ms i subs])
    have ms: "mset (live subs) = add_mset (t_get subs i) (mset (live ?r))"
      using mset_live_remove [OF wf drop(1), of "default_subscriber cfg"] live_nth [OF drop(1)]
        nth_mem [of i "live subs"] length_live [OF wf] drop(1) by simp
    have "\<forall>k<i. k < used ?r \<longrightarrow> ?P (t_get ?r k)"
      using kept drop(1) by (auto simp: t_get_remove)
    then have "t_wf cap (evict_subs cfg now_ms i ?r) \<and>
        mset (live (evict_subs cfg now_ms i ?r)) = filter_mset ?P (mset (live ?r))"
      using "1.IH"(1) drop wf by simp
    then show ?thesis unfolding r using ms drop(2) by simp
  next
    case keep
    have r: "evict_subs cfg now_ms i subs = evict_subs cfg now_ms (Suc i) subs"
      using keep by (simp add: evict_subs.simps [of cfg now_ms i subs])
    show ?thesis unfolding r using "1.IH"(2) keep wf kept by (auto simp: less_Suc_eq)
  qed
qed

lemma evict_subs_table:
  assumes "subs_wf cfg subs"
  shows "subs_wf cfg (evict_subs cfg now_ms 0 subs)"
    and "sub_lookup (evict_subs cfg now_ms 0 subs) cid =
      (case sub_lookup subs cid of None \<Rightarrow> None
       | Some s \<Rightarrow> if time_after now_ms (sb_expiry_ms s) then None else Some s)"
proof -
  note K = assms [unfolded subs_wf_def]
  have e: "t_wf (MaxSubscribers cfg) (evict_subs cfg now_ms 0 subs)"
    "mset (live (evict_subs cfg now_ms 0 subs)) =
      filter_mset (\<lambda>s. \<not> time_after now_ms (sb_expiry_ms s)) (mset (live subs))"
    using evict_subs_mset [OF keyed_wf [OF K], of 0 now_ms cfg] by simp_all
  show "subs_wf cfg (evict_subs cfg now_ms 0 subs)"
    unfolding subs_wf_def by (rule keyed_selection (1) [OF K e])
  show "sub_lookup (evict_subs cfg now_ms 0 subs) cid =
      (case sub_lookup subs cid of None \<Rightarrow> None
       | Some s \<Rightarrow> if time_after now_ms (sb_expiry_ms s) then None else Some s)"
    using keyed_selection (2) [OF K e, of cid] by (cases "sub_lookup subs cid") simp_all
qed

subsection \<open>The table of events\<close>

lemma events_upd_subs:
  assumes wf: "events_wf cfg t" and i: "i < used t" and s: "subs_wf cfg subs"
  shows "events_wf cfg (t_upd i (\<lambda>ev. ev\<lparr>ev_subs := subs\<rparr>) t)"
    and "event_lookup (t_upd i (\<lambda>ev. ev\<lparr>ev_subs := subs\<rparr>) t) =
      (event_lookup t)(ev_key (t_get t i) \<mapsto> (t_get t i)\<lparr>ev_subs := subs\<rparr>)"
proof -
  have K: "keyed ev_key ev_active (MAX_EVENTS cfg) t" using wf by (simp add: events_wf_def)
  have a: "ev_active (t_get t i)"
    using K i nth_mem [of i "live t"] length_live [OF keyed_wf [OF K]] by (simp add: keyed_def live_nth)
  have "set (slots (t_upd i (\<lambda>ev. ev\<lparr>ev_subs := subs\<rparr>) t)) \<subseteq>
      insert ((slots t ! i)\<lparr>ev_subs := subs\<rparr>) (set (slots t))"
    by (simp add: t_upd_def set_update_subset_insert)
  then show "events_wf cfg (t_upd i (\<lambda>ev. ev\<lparr>ev_subs := subs\<rparr>) t)"
    using wf s keyed_upd(1) [OF K i, of "\<lambda>ev. ev\<lparr>ev_subs := subs\<rparr>"] a
    by (auto simp: events_wf_def ev_key_def)
  show "event_lookup (t_upd i (\<lambda>ev. ev\<lparr>ev_subs := subs\<rparr>) t) =
      (event_lookup t)(ev_key (t_get t i) \<mapsto> (t_get t i)\<lparr>ev_subs := subs\<rparr>)"
    using keyed_upd(2) [OF K i, of "\<lambda>ev. ev\<lparr>ev_subs := subs\<rparr>"] a
    by (simp add: ev_key_def event_lookup_def)
qed

lemma event_found:
  assumes "events_wf cfg t" "t_find (event_is k) t = Some i"
  shows "i < used t" "ev_key (t_get t i) = k" "event_lookup t k = Some (t_get t i)"
    "subs_wf cfg (ev_subs (t_get t i))"
  using keyed_find_Some [OF _ event_is_key assms(2)] assms events_wf_subs [OF assms(1)]
  by (auto simp: events_wf_def event_lookup_def)

lemma event_not_found:
  "events_wf cfg t \<Longrightarrow> t_find (event_is k) t = None \<Longrightarrow> event_lookup t k = None"
  unfolding events_wf_def event_lookup_def by (elim conjE) (rule keyed_find_None [OF _ event_is_key])

lemma subscribe_refines:
  assumes "events_wf cfg t"
  shows "events_wf cfg (fst (snd (subscribe cfg lg sid eid cid a ttl now_ms t)))"
    and "subscribers_of (fst (snd (subscribe cfg lg sid eid cid a ttl now_ms t))) =
      (case subscribers_of t (sid, eid) of
         None \<Rightarrow> subscribers_of t
       | Some m \<Rightarrow> (subscribers_of t)((sid, eid) \<mapsto>
           bm_put (MaxSubscribers cfg) sub_merge (a, subscription_expiry cfg ttl now_ms) cid m))"
proof -
  let ?t' = "fst (snd (subscribe cfg lg sid eid cid a ttl now_ms t))"
  have "events_wf cfg ?t' \<and> subscribers_of ?t' = (case subscribers_of t (sid, eid) of
         None \<Rightarrow> subscribers_of t
       | Some m \<Rightarrow> (subscribers_of t)((sid, eid) \<mapsto>
           bm_put (MaxSubscribers cfg) sub_merge (a, subscription_expiry cfg ttl now_ms) cid m))"
  proof (cases "t_find (event_is (sid, eid)) t")
    case None
    then show ?thesis using event_not_found [OF assms None] assms
      by (simp add: subscribe_def subscribers_of_def)
  next
    case (Some i)
    note f = event_found [OF assms Some]
    let ?subs = "sub_put cfg (a, subscription_expiry cfg ttl now_ms) cid (ev_subs (t_get t i))"
    have t': "?t' = t_upd i (\<lambda>ev. ev\<lparr>ev_subs := ?subs\<rparr>) t"
      using Some by (simp add: subscribe_def case_prod_beta subscribe_slot_state)
    show ?thesis
      unfolding t' using f events_upd_subs [OF assms f(1) sub_put_table(1) [OF f(4)]]
      by (simp add: subscribers_of_def sub_put_table(2) fun_eq_iff)
  qed
  then show "events_wf cfg ?t'" and "subscribers_of ?t' = (case subscribers_of t (sid, eid) of
         None \<Rightarrow> subscribers_of t
       | Some m \<Rightarrow> (subscribers_of t)((sid, eid) \<mapsto>
           bm_put (MaxSubscribers cfg) sub_merge (a, subscription_expiry cfg ttl now_ms) cid m))"
    by simp_all
qed

lemma unsubscribe_refines:
  assumes "events_wf cfg t"
  shows "events_wf cfg (fst (unsubscribe cfg lg sid eid cid t))"
    and "subscribers_of (fst (unsubscribe cfg lg sid eid cid t)) =
      (case subscribers_of t (sid, eid) of
         None \<Rightarrow> subscribers_of t
       | Some m \<Rightarrow> (subscribers_of t)((sid, eid) \<mapsto> bm_del cid m))"
proof -
  let ?t' = "fst (unsubscribe cfg lg sid eid cid t)"
  have "events_wf cfg ?t' \<and> subscribers_of ?t' = (case subscribers_of t (sid, eid) of
         None \<Rightarrow> subscribers_of t
       | Some m \<Rightarrow> (subscribers_of t)((sid, eid) \<mapsto> bm_del cid m))"
  proof (cases "t_find (event_is (sid, eid)) t")
    case None
    then show ?thesis using event_not_found [OF assms None] assms
      by (simp add: unsubscribe_def subscribers_of_def)
  next
    case (Some i)
    note f = event_found [OF assms Some]
    let ?subs = "sub_del cfg cid (ev_subs (t_get t i))"
    have same: "t_upd i (\<lambda>ev. ev\<lparr>ev_subs := ev_subs (t_get t i)\<rparr>) t = t"
      by (simp add: t_upd_def t_get_def)
    have t': "?t' = t_upd i (\<lambda>ev. ev\<lparr>ev_subs := ?subs\<rparr>) t"
      using Some same by (cases "t_find (subscriber_is cid) (ev_subs (t_get t i))")
        (simp_all add: unsubscribe_def Let_def sub_del_def)
    show ?thesis
      unfolding t' using f events_upd_subs [OF assms f(1) sub_del_table(1) [OF f(4)]]
      by (simp add: subscribers_of_def sub_del_table(2) fun_eq_iff)
  qed
  then show "events_wf cfg ?t'" and "subscribers_of ?t' = (case subscribers_of t (sid, eid) of
         None \<Rightarrow> subscribers_of t
       | Some m \<Rightarrow> (subscribers_of t)((sid, eid) \<mapsto> bm_del cid m))"
    by simp_all
qed

text \<open>Eviction drops exactly the expired subscribers of every event.\<close>

lemma evict_refines:
  assumes "events_wf cfg t"
  shows "events_wf cfg (evict_expired_subscriptions cfg now_ms t)"
    and "subscribers_of (evict_expired_subscriptions cfg now_ms t) k =
      map_option (\<lambda>m cid. case m cid of None \<Rightarrow> None
        | Some s \<Rightarrow> if time_after now_ms (sb_expiry_ms s) then None else Some s) (subscribers_of t k)"
proof -
  let ?f = "\<lambda>ev. ev\<lparr>ev_subs := evict_subs cfg now_ms 0 (ev_subs ev)\<rparr>"
  let ?g = "\<lambda>ev. if ev_active ev then ?f ev else ev"
  let ?t' = "evict_expired_subscriptions cfg now_ms t"
  have K: "keyed ev_key ev_active (MAX_EVENTS cfg) t" using assms by (simp add: events_wf_def)
  then have wf: "t_wf (MAX_EVENTS cfg) t" by (rule keyed_wf)
  have l: "live ?t' = map ?g (live t)"
    unfolding evict_expired_subscriptions_def using wf by (rule live_upd_each)
  have wf': "t_wf (MAX_EVENTS cfg) ?t'"
    unfolding evict_expired_subscriptions_def using wf by (rule t_wf_upd_each)
  have g: "ev_key (?g ev) = ev_key ev \<and> ev_active (?g ev)" if "ev \<in> set (live t)" for ev
    using that K by (simp add: keyed_def ev_key_def)
  note M = keyed_map [where key = ev_key and act = ev_active and g = ?g, OF K wf' l g]
  have "set (slots ?t') \<subseteq> ?g ` set (slots t) \<union> set (slots t)"
    unfolding evict_expired_subscriptions_def using wf
    by (subst fold_upd_each) (auto simp: t_wf_def dest: in_set_takeD in_set_dropD)
  then have "\<forall>ev \<in> set (slots ?t'). subs_wf cfg (ev_subs ev)"
    using assms evict_subs_table(1) by (fastforce simp: events_wf_def)
  then show "events_wf cfg ?t'" using M(1) by (simp add: events_wf_def)
  show "subscribers_of ?t' k =
      map_option (\<lambda>m cid. case m cid of None \<Rightarrow> None
        | Some s \<Rightarrow> if time_after now_ms (sb_expiry_ms s) then None else Some s) (subscribers_of t k)"
  proof (cases "event_lookup t k")
    case None
    then show ?thesis using M(2) [of k] by (simp add: subscribers_of_def event_lookup_def)
  next
    case (Some ev)
    then have ev: "ev \<in> set (live t)" by (simp add: event_lookup_def t_lookup_Some [OF K])
    then have s: "subs_wf cfg (ev_subs ev)" "ev_active ev"
      using assms by (auto simp: events_wf_def keyed_def live_def dest: in_set_takeD)
    have "event_lookup ?t' k = Some (?f ev)"
      using M(2) [of k] Some s(2) by (simp add: event_lookup_def)
    then show ?thesis
      using Some evict_subs_table(2) [OF s(1)] by (simp add: subscribers_of_def fun_eq_iff)
  qed
qed

lemma register_event_refines:
  assumes "events_wf cfg t"
  shows "events_wf cfg (fst (snd (register_event cfg lg sid eid t)))"
    and "fst (register_event cfg lg sid eid t) \<longleftrightarrow>
      event_lookup t (sid, eid) \<noteq> None \<or> used t < MAX_EVENTS cfg"
    and "subscribers_of (fst (snd (register_event cfg lg sid eid t))) =
      (if subscribers_of t (sid, eid) = None \<and> used t < MAX_EVENTS cfg
       then (subscribers_of t)((sid, eid) \<mapsto> Map.empty) else subscribers_of t)"
proof -
  let ?r = "register_event cfg lg sid eid t"
  have K: "keyed ev_key ev_active (MAX_EVENTS cfg) t" using assms by (simp add: events_wf_def)
  have "events_wf cfg (fst (snd ?r)) \<and>
    (fst ?r \<longleftrightarrow> event_lookup t (sid, eid) \<noteq> None \<or> used t < MAX_EVENTS cfg) \<and>
    subscribers_of (fst (snd ?r)) =
      (if subscribers_of t (sid, eid) = None \<and> used t < MAX_EVENTS cfg
       then (subscribers_of t)((sid, eid) \<mapsto> Map.empty) else subscribers_of t)"
  proof (cases "t_find (event_is (sid, eid)) t")
    case (Some i)
    then show ?thesis using event_found [OF assms Some] assms
      by (simp add: register_event_def subscribers_of_def)
  next
    case None
    note nf = event_not_found [OF assms None]
    show ?thesis
    proof (cases "used t < MAX_EVENTS cfg")
      case False
      then show ?thesis using None nf assms by (simp add: register_event_def subscribers_of_def)
    next
      case True
      let ?ev = "t_get t (used t)"
      let ?new = "?ev\<lparr> ev_service_id := sid, ev_event_id := eid, ev_active := True,
        ev_subs := (ev_subs ?ev)\<lparr>used := 0\<rparr> \<rparr>"
      have r: "?r = (True, t_push ?new t, if_logger (\<lambda>l. log_info cfg l CatEvents ''event_registered'' sid eid 0 0) lg)"
        using None True by (simp add: register_event_def Let_def)
      have "?ev \<in> set (slots t)"
        using K True by (simp add: t_get_def keyed_def t_wf_def)
      then have "subs_wf cfg (ev_subs ?ev)" using assms by (simp add: events_wf_def)
      then have s: "subs_wf cfg (ev_subs ?new)"
        by (simp add: subs_wf_def keyed_def t_wf_def live_def)
      have k: "ev_key ?new = (sid, eid)" "ev_active ?new" by (simp_all add: ev_key_def)
      have n: "t_lookup ev_key t (ev_key ?new) = None" unfolding k using nf by (simp add: event_lookup_def)
      note P = keyed_push [OF K n k(2) True]
      have "set (slots (t_push ?new t)) \<subseteq> insert ?new (set (slots t))"
        by (simp add: t_push_def set_update_subset_insert)
      then have "events_wf cfg (t_push ?new t)"
        using assms s P(1) by (auto simp: events_wf_def)
      moreover have "event_lookup (t_push ?new t) = (event_lookup t)((sid, eid) \<mapsto> ?new)"
        using P(2) by (simp add: event_lookup_def k(1))
      moreover have "sub_lookup ((ev_subs ?ev)\<lparr>used := 0\<rparr>) = Map.empty"
        by (simp add: t_lookup_def live_def)
      ultimately show ?thesis
        unfolding r using True nf by (auto simp: subscribers_of_def fun_eq_iff)
    qed
  qed
  then show "events_wf cfg (fst (snd ?r))"
    and "fst ?r \<longleftrightarrow> event_lookup t (sid, eid) \<noteq> None \<or> used t < MAX_EVENTS cfg"
    and "subscribers_of (fst (snd ?r)) =
      (if subscribers_of t (sid, eid) = None \<and> used t < MAX_EVENTS cfg
       then (subscribers_of t)((sid, eid) \<mapsto> Map.empty) else subscribers_of t)"
    by simp_all
qed

lemma subscribe_slot_silent: "visible (snd (snd (subscribe_slot cfg lg sid eid cid a expiry subs))) = []"
  by (cases "t_find (subscriber_is cid) subs") (simp_all add: subscribe_slot_def)

lemma events_silent [simp]:
  "visible (snd (snd (register_event cfg lg sid eid t))) = []"
  "visible (snd (snd (subscribe cfg lg sid eid cid a ttl now_ms t))) = []"
  "visible (snd (unsubscribe cfg lg sid eid cid t)) = []"
proof -
  show "visible (snd (snd (register_event cfg lg sid eid t))) = []"
    by (cases "t_find (event_is (sid, eid)) t") (simp_all add: register_event_def Let_def)
  show "visible (snd (snd (subscribe cfg lg sid eid cid a ttl now_ms t))) = []"
    by (cases "t_find (event_is (sid, eid)) t")
      (simp_all add: subscribe_def case_prod_beta subscribe_slot_silent)
  show "visible (snd (unsubscribe cfg lg sid eid cid t)) = []"
  proof (cases "t_find (event_is (sid, eid)) t")
    case (Some e)
    then show ?thesis
      by (cases "t_find (subscriber_is cid) (ev_subs (t_get t e))") (simp_all add: unsubscribe_def Let_def)
  qed (simp add: unsubscribe_def)
qed

end
