(* ===== verification/Event_Handlers.thy ===== *)
theory Event_Handlers
  imports Effects Fixed_Table
begin

text \<open>
  The type-erased event handler entry (\<open>service/event_handler.hpp\<close>) and the consumer-side handler
  table that \<open>Runtime\<close> keeps (\<open>runtime.hpp\<close>).  The context pointer of an entry is the number of
  the handler object; the function pointer of an entry is non-null exactly when it has one.
\<close>

record EventHandlerEntry =
  eh_service_id :: u16
  eh_event_id :: u16
  eh_active :: bool
  eh_context :: "nat option"

definition default_handler :: EventHandlerEntry where
  "default_handler = \<lparr> eh_service_id = 0, eh_event_id = 0, eh_active = False, eh_context = None \<rparr>"

definition make_event_handler_entry :: "u16 \<Rightarrow> u16 \<Rightarrow> nat \<Rightarrow> EventHandlerEntry" where
  "make_event_handler_entry sid eid handler =
     default_handler\<lparr> eh_service_id := sid, eh_event_id := eid, eh_active := True,
       eh_context := Some handler \<rparr>"

type_synonym EventHandlers = "EventHandlerEntry tbl"

definition MAX_EVENT_HANDLERS :: "config \<Rightarrow> nat" where
  "MAX_EVENT_HANDLERS cfg = MaxKnownServices cfg * MaxEvents cfg"

definition handlers_init :: "config \<Rightarrow> EventHandlers" where
  "handlers_init cfg = t_empty (MAX_EVENT_HANDLERS cfg) default_handler"

definition handler_is :: "u16 \<times> u16 \<Rightarrow> EventHandlerEntry \<Rightarrow> bool" where
  "handler_is k h \<longleftrightarrow> eh_active h \<and> eh_service_id h = fst k \<and> eh_event_id h = snd k"

definition register_event_handler ::
    "config \<Rightarrow> u16 \<Rightarrow> u16 \<Rightarrow> nat \<Rightarrow> EventHandlers \<Rightarrow> bool \<times> EventHandlers" where
  "register_event_handler cfg sid eid handler t =
     (case t_find (handler_is (sid, eid)) t of
        Some i \<Rightarrow> (True, t_upd i (\<lambda>_. make_event_handler_entry sid eid handler) t)
      | None \<Rightarrow>
          if used t \<ge> MAX_EVENT_HANDLERS cfg then (False, t)
          else (True, t_push (make_event_handler_entry sid eid handler) t))"

definition unregister_event_handler :: "u16 \<Rightarrow> u16 \<Rightarrow> EventHandlers \<Rightarrow> EventHandlers" where
  "unregister_event_handler sid eid t =
     (case t_find (handler_is (sid, eid)) t of
        Some i \<Rightarrow> t_remove default_handler i t
      | None \<Rightarrow> t)"

definition find_event_handler :: "u16 \<Rightarrow> u16 \<Rightarrow> EventHandlers \<Rightarrow> EventHandlerEntry option" where
  "find_event_handler sid eid t = map_option (t_get t) (t_find (handler_is (sid, eid)) t)"

section \<open>The handler table is a bounded map\<close>

definition eh_key :: "EventHandlerEntry \<Rightarrow> u16 \<times> u16" where
  "eh_key h = (eh_service_id h, eh_event_id h)"

definition handlers_wf :: "config \<Rightarrow> EventHandlers \<Rightarrow> bool" where
  "handlers_wf cfg t \<longleftrightarrow> keyed eh_key eh_active (MAX_EVENT_HANDLERS cfg) t"

abbreviation handler_lookup :: "EventHandlers \<Rightarrow> u16 \<times> u16 \<Rightarrow> EventHandlerEntry option" where
  "handler_lookup \<equiv> t_lookup eh_key"

definition handler_put :: "config \<Rightarrow> nat \<Rightarrow> u16 \<times> u16 \<Rightarrow> EventHandlers \<Rightarrow> EventHandlers" where
  "handler_put cfg h k t = snd (register_event_handler cfg (fst k) (snd k) h t)"

definition handler_del :: "u16 \<times> u16 \<Rightarrow> EventHandlers \<Rightarrow> EventHandlers" where
  "handler_del k t = unregister_event_handler (fst k) (snd k) t"

definition handler_merge :: "u16 \<times> u16 \<Rightarrow> nat \<Rightarrow> EventHandlerEntry option \<Rightarrow> EventHandlerEntry option" where
  "handler_merge k h old = Some (make_event_handler_entry (fst k) (snd k) h)"

lemma make_event_handler_entry_sel [simp]:
  "eh_key (make_event_handler_entry sid eid h) = (sid, eid)"
  "eh_active (make_event_handler_entry sid eid h)"
  "eh_context (make_event_handler_entry sid eid h) = Some h"
  by (simp_all add: make_event_handler_entry_def eh_key_def)

lemma handler_is_key: "eh_active h \<Longrightarrow> handler_is k h \<longleftrightarrow> eh_key h = k"
  by (cases k) (auto simp: handler_is_def eh_key_def)

lemma handlers_wf_init [simp]: "handlers_wf cfg (handlers_init cfg)"
  by (simp add: handlers_wf_def handlers_init_def keyed_empty)

lemma find_handler_lookup: "handlers_wf cfg t \<Longrightarrow> find_event_handler sid eid t = handler_lookup t (sid, eid)"
  unfolding find_event_handler_def handlers_wf_def by (rule keyed_find_option [OF _ handler_is_key])

lemma handler_put_table:
  assumes "handlers_wf cfg t"
  shows "handlers_wf cfg (handler_put cfg h k t)"
    and "handler_lookup (handler_put cfg h k t) =
      bm_put (MAX_EVENT_HANDLERS cfg) handler_merge h k (handler_lookup t)"
proof -
  have "keyed eh_key eh_active (MAX_EVENT_HANDLERS cfg) (handler_put cfg h k t) \<and>
      handler_lookup (handler_put cfg h k t) =
        bm_put (MAX_EVENT_HANDLERS cfg) handler_merge h k (handler_lookup t)"
    by (rule keyed_put_refines [OF assms [unfolded handlers_wf_def] handler_is_key])
      (auto simp: handler_merge_def handler_put_def register_event_handler_def)
  then show "handlers_wf cfg (handler_put cfg h k t)"
    and "handler_lookup (handler_put cfg h k t) =
      bm_put (MAX_EVENT_HANDLERS cfg) handler_merge h k (handler_lookup t)"
    by (simp_all add: handlers_wf_def)
qed

lemma handler_del_table:
  assumes "handlers_wf cfg t"
  shows "handlers_wf cfg (handler_del k t)" and "handler_lookup (handler_del k t) = bm_del k (handler_lookup t)"
  using keyed_del_refines [OF assms [unfolded handlers_wf_def] handler_is_key, of k
      "handler_del k t" default_handler]
  by (simp_all add: handlers_wf_def handler_del_def unregister_event_handler_def split: option.splits)

interpretation handlers: deletable_map handler_lookup "handlers_wf cfg" "MAX_EVENT_HANDLERS cfg"
  handler_merge "handler_put cfg" handler_del for cfg
proof
  fix t a k assume "handlers_wf cfg t"
  then show "handlers_wf cfg (handler_put cfg a k t)"
    "handler_lookup (handler_put cfg a k t) =
       bm_put (MAX_EVENT_HANDLERS cfg) handler_merge a k (handler_lookup t)"
    "handlers_wf cfg (handler_del k t)" "handler_lookup (handler_del k t) = bm_del k (handler_lookup t)"
    by (simp_all add: handler_put_table handler_del_table)
  show "finite (dom (handler_lookup t)) \<and> card (dom (handler_lookup t)) \<le> MAX_EVENT_HANDLERS cfg"
    using \<open>handlers_wf cfg t\<close> unfolding handlers_wf_def by (rule dom_t_lookup_bound)
qed

end
