(* ===== verification/Table_Properties.thy ===== *)
theory Table_Properties
  imports Diagnostic_Counters Dtc_Store E2E_Protection Method_Dispatcher Request_Tracker
    Event_Manager Event_Handlers
begin

text \<open>
  The properties of the stateful components that live on their own: counters, trouble codes,
  sequence tracking, the service and handler tables, pending requests and subscriptions.
\<close>

section \<open>Counters and trouble codes\<close>

text \<open>A counter that starts at zero and is incremented \<open>n\<close> times, whatever happens to be passed
  with each increment, reads \<open>n\<close>, and stays at the largest 32-bit value instead of wrapping.\<close>

theorem counter_counts_and_saturates:
  "unat (counter_get c (fold (\<lambda>h d. fst (increment c h d)) hs counters_init)) = min (length hs) (2 ^ 32 - 1)"
proof -
  have "counters_wf d \<Longrightarrow> unat (counter_get c d) = m \<Longrightarrow>
      unat (counter_get c (fold (\<lambda>h d. fst (increment c h d)) hs d)) = min (m + length hs) (2 ^ 32 - 1)" for d m
  proof (induction hs arbitrary: d m)
    case Nil
    then show ?case using unat_u32_less [of "counter_get c d"] by simp
  next
    case (Cons h hs)
    have "unat (counter_get c (fst (increment c h d))) = min (m + 1) (2 ^ 32 - 1)"
      using Cons.prems by (simp only: counter_get_increment if_True simp_thms unat_sat_inc)
    then show ?case using Cons.IH [of "fst (increment c h d)" "min (m + 1) (2 ^ 32 - 1)"] Cons.prems(1) by simp
  qed
  from this [of counters_init 0] show ?thesis
    by (simp add: counters_wf_init) (simp add: counter_get_def counters_init_def)
qed

text \<open>The DTC store is a bounded map from codes to entries: any sequence of reports and clears on
  an empty store has the effect of the same operations on a finite map, where a report on a full map
  with a new code is dropped, and it never holds more than \<open>MaxDtcs\<close> codes.\<close>

lemma dtc_store_refines_map:
  "dtc_lookup (fold (table_step (dtc_put cfg) dtc_del) ops (dtc_init cfg)) =
     fold (table_step (bm_put (MaxDtcs cfg) dtc_merge) bm_del) ops Map.empty \<and>
   card (dom (dtc_lookup (fold (table_step (dtc_put cfg) dtc_del) ops (dtc_init cfg)))) \<le> MaxDtcs cfg"
  using dtc.run_refines [OF dtc_wf_init, of cfg ops] dtc.run_bounded [OF dtc_wf_init, of cfg ops]
  by (simp add: dtc_init_def t_lookup_empty)

text \<open>A report that returns true can be found under its code with the new severity and time
  stamp; the occurrence count is one more than before (at most the largest 32-bit value) and the
  first-seen stamp is that of the first report.\<close>

theorem dtc_report_found:
  assumes "dtc_wf cfg t" "dtc_report cfg code severity now_ms t = (True, t')"
  shows "\<exists>d. dtc_find code t' = Some d \<and> dtc_severity d = severity \<and>
    dtc_last_seen_ms d = now_ms \<and>
    (case dtc_find code t of
       None \<Rightarrow> dtc_occurrence_count d = 1 \<and> dtc_first_seen_ms d = now_ms
     | Some old \<Rightarrow> unat (dtc_occurrence_count d) = min (unat (dtc_occurrence_count old) + 1) (2 ^ 32 - 1) \<and>
         dtc_first_seen_ms d = dtc_first_seen_ms old)"
proof -
  have t': "t' = dtc_put cfg (severity, now_ms) code t" using assms(2) by (simp add: dtc_put_def)
  have wf': "dtc_wf cfg t'" unfolding t' using assms(1) by (rule dtc.put_inv)
  have "dtc_lookup t code \<noteq> None \<or> used t < MaxDtcs cfg"
    using dtc_report_result [OF assms(1), of code severity now_ms] assms(2) by simp
  then have "dtc_lookup t code \<noteq> None \<or> card (dom (dtc_lookup t)) < MaxDtcs cfg"
    using card_dom_t_lookup [OF assms(1) [unfolded dtc_wf_def]] by simp
  moreover obtain d where d: "dtc_merge code (severity, now_ms) (dtc_lookup t code) = Some d"
    by (cases "dtc_lookup t code") simp_all
  ultimately have "dtc_lookup t' code = Some d"
    unfolding t' by (intro dtc.put_same [OF assms(1)]) simp_all
  moreover have "unat (if v < 0xFFFFFFFF then v + 1 else v) = min (unat v + 1) (2 ^ 32 - 1)" for v :: u32
    using unat_sat_inc [of v] by (simp only: sat_inc_def)
  ultimately show ?thesis
    using d dtc_find_lookup [OF wf'] dtc_find_lookup [OF assms(1)]
    by (cases "dtc_lookup t code") (auto simp: dtc_new_def dtc_again_def)
qed

theorem dtc_report_found_witness:
  "\<exists>d. dtc_find 7 (snd (dtc_report DefaultConfig 7 SevError 50 (dtc_init DefaultConfig))) = Some d \<and>
     dtc_severity d = 2"
  using dtc_report_found [OF dtc_wf_init, of DefaultConfig 7 SevError 50
      "snd (dtc_report DefaultConfig 7 SevError 50 (dtc_init DefaultConfig))"]
    dtc_report_result [OF dtc_wf_init, of DefaultConfig 7 SevError 50]
  by (auto simp: SevError_def dtc_init_def t_empty_def DefaultConfig_def prod_eq_iff)

section \<open>Sequence counters\<close>

text \<open>For a known peer, a received counter is accepted exactly when it is ahead of the last
  accepted one by 1 to \<open>SeqCounterAcceptWindow\<close> modulo 256, it is a duplicate exactly when it is the
  same, and stale otherwise.\<close>

theorem sequence_window:
  assumes "e2e_wf cfg e" "last_seen e source = Some seen" "ahead = (uint s - uint seen) mod 256"
  shows "fst (validate_sequence cfg lg source s e) =
    (if ahead = 0 then Duplicate
     else if ahead \<le> uint (SeqCounterAcceptWindow cfg) then Accept else Stale)"
proof -
  have a: "ahead = uint (s - seen)"
    using assms(3) by (simp add: uint_word_ariths take_bit_eq_mod)
  have "s = seen \<longleftrightarrow> uint (s - seen) = 0" by (simp add: uint_0_iff)
  then show ?thesis
    using validate_sequence_verdict [OF assms(1), of lg source s] assms(2) a
    by (simp add: word_le_def)
qed

theorem sequence_window_witness:
  "fst (validate_sequence DefaultConfig None [1] 3 (e2e_put DefaultConfig 250 [1] (e2e_init DefaultConfig))) = Accept"
proof -
  have wf: "e2e_wf DefaultConfig (e2e_put DefaultConfig 250 [1] (e2e_init DefaultConfig))"
    by (rule e2e.put_inv) simp
  have "last_seen (e2e_put DefaultConfig 250 [1] (e2e_init DefaultConfig)) [1] = Some 250"
    by (rule last_seen_put_same [where lg = None]) (simp, code_simp)
  from sequence_window [OF wf this refl, of None 3] show ?thesis by (simp add: DefaultConfig_def)
qed

text \<open>Peer tracking is a bounded map from addresses to last-seen counters under any sequence of
  received counters and peer resets; a new peer is not recorded when the table is full, and no peer
  is ever evicted by another one.\<close>

lemma peer_table_refines_map:
  "peer_entry (fold (table_step (e2e_put cfg) (e2e_del cfg)) ops (e2e_init cfg)) =
     fold (table_step (bm_put (MaxTrackedPeers cfg) (seq_merge cfg)) bm_del) ops Map.empty \<and>
   card (dom (peer_entry (fold (table_step (e2e_put cfg) (e2e_del cfg)) ops (e2e_init cfg)))) \<le> MaxTrackedPeers cfg"
  using e2e.run_refines [OF e2e_wf_init, of cfg ops] e2e.run_bounded [OF e2e_wf_init, of cfg ops]
  by (simp add: e2e_init_def peer_entry_def t_lookup_empty)

section \<open>Service and handler tables\<close>

text \<open>The dispatcher's table is a bounded map from service ids to entries, in which a
  registration of a registered id or on a full table changes nothing; the event handler table is one
  from pairs of service and event to handlers, in which a second registration replaces the
  handler.  This holds under any sequence of registrations and unregistrations.\<close>

lemma registrations_refine_maps:
  "service_lookup (fold (table_step (service_put cfg) (service_del cfg)) ops (dispatcher_init cfg)) =
     fold (table_step (bm_put (MaxServices cfg) service_merge) bm_del) ops Map.empty \<and>
   handler_lookup (fold (table_step (handler_put cfg) handler_del) hops (handlers_init cfg)) =
     fold (table_step (bm_put (MAX_EVENT_HANDLERS cfg) handler_merge) bm_del) hops Map.empty"
  using services.run_refines [OF dispatcher_wf_init, of cfg ops] handlers.run_refines [OF handlers_wf_init, of cfg hops]
  by (simp add: dispatcher_init_def handlers_init_def t_lookup_empty)

text \<open>C26: The four lookup tables of a runtime implement bounded finite maps under any sequence of
  operations: trouble codes to entries, peers to last-seen counters, service ids to entries, and
  pairs of service and event to handlers.  An operation has the effect of the same operation on the
  map, where one that needs a new key on a full map is dropped, and no table outgrows its capacity.\<close>

theorem tables_refine_maps:
  "dtc_lookup (fold (table_step (dtc_put cfg) dtc_del) dops (dtc_init cfg)) =
     fold (table_step (bm_put (MaxDtcs cfg) dtc_merge) bm_del) dops Map.empty \<and>
   card (dom (dtc_lookup (fold (table_step (dtc_put cfg) dtc_del) dops (dtc_init cfg)))) \<le> MaxDtcs cfg \<and>
   peer_entry (fold (table_step (e2e_put cfg) (e2e_del cfg)) pops (e2e_init cfg)) =
     fold (table_step (bm_put (MaxTrackedPeers cfg) (seq_merge cfg)) bm_del) pops Map.empty \<and>
   card (dom (peer_entry (fold (table_step (e2e_put cfg) (e2e_del cfg)) pops (e2e_init cfg)))) \<le> MaxTrackedPeers cfg \<and>
   service_lookup (fold (table_step (service_put cfg) (service_del cfg)) ops (dispatcher_init cfg)) =
     fold (table_step (bm_put (MaxServices cfg) service_merge) bm_del) ops Map.empty \<and>
   card (dom (service_lookup (fold (table_step (service_put cfg) (service_del cfg)) ops (dispatcher_init cfg)))) \<le>
     MaxServices cfg \<and>
   handler_lookup (fold (table_step (handler_put cfg) handler_del) hops (handlers_init cfg)) =
     fold (table_step (bm_put (MAX_EVENT_HANDLERS cfg) handler_merge) bm_del) hops Map.empty \<and>
   card (dom (handler_lookup (fold (table_step (handler_put cfg) handler_del) hops (handlers_init cfg)))) \<le>
     MAX_EVENT_HANDLERS cfg"
  using services.run_bounded [OF dispatcher_wf_init, of cfg ops] handlers.run_bounded [OF handlers_wf_init, of cfg hops]
    dtc_store_refines_map peer_table_refines_map registrations_refine_maps by blast

section \<open>Pending requests\<close>

text \<open>An allocated request id differs from the id of every pending request, however the id
  counter has wrapped, and the table then holds exactly the earlier requests and the new one.\<close>

theorem allocated_id_is_fresh:
  assumes "tracker_wf cfg t" "MaxPendingRequests cfg \<le> 2 ^ 32"
    and "allocate cfg lg sid mid timeout_ms now_ms cb ctx t = (Some rid, t', out)"
  shows "pending t rid = None \<and> tracker_wf cfg t' \<and>
    pending t' = (pending t)(rid \<mapsto> new_pending cfg sid mid timeout_ms now_ms cb ctx rid)"
  using allocate_Some [OF assms] by blast

theorem allocated_id_is_fresh_witness:
  "pending (fst (snd (allocate EmbeddedConfig None 2 3 0 100 None 0 (tracker_init EmbeddedConfig)))) 1 =
     Some (new_pending EmbeddedConfig 2 3 0 100 None 0 1)"
proof -
  have a: "allocate EmbeddedConfig None 2 3 0 100 None 0 (tracker_init EmbeddedConfig) =
      (Some 1, fst (snd (allocate EmbeddedConfig None 2 3 0 100 None 0 (tracker_init EmbeddedConfig))),
       snd (snd (allocate EmbeddedConfig None 2 3 0 100 None 0 (tracker_init EmbeddedConfig))))"
    by code_simp
  have "MaxPendingRequests EmbeddedConfig \<le> 2 ^ 32" by (simp add: EmbeddedConfig_def)
  from allocated_id_is_fresh [OF tracker_wf_init this a] show ?thesis by simp
qed

text \<open>Completing a pending request frees it and calls its callback exactly once with the given
  code and payload; completing the same id again finds nothing, calls nothing and changes nothing.\<close>

theorem completed_once:
  assumes "tracker_wf cfg t" "pending t rid = Some e" "complete cfg lg rid rc payload t = (ok, t', out)"
  shows "ok \<and> pending t' = (pending t)(rid := None) \<and> visible out = call_done e rc payload \<and>
    (\<exists>out'. complete cfg lg rid rc' payload' t' = (False, t', out') \<and> visible out' = [])"
proof -
  note c = complete_pending [OF assms(1,3)]
  obtain ok2 t2 out2 where c2: "complete cfg lg rid rc' payload' t' = (ok2, t2, out2)"
    using prod_cases3 by blast
  note d = complete_pending [OF c(1) c2]
  have "\<not> ok2" "visible out2 = []" using c(2) d(3,4) by simp_all
  moreover from this have "t2 = t'" using c2 by (auto simp: complete_def Let_def split: option.splits)
  ultimately show ?thesis using c assms(2) c2 by simp
qed

theorem completed_once_witness:
  "\<exists>t e. pending t 1 = Some e \<and> fst (complete EmbeddedConfig None 1 E_OK None t)"
proof -
  let ?a = "allocate EmbeddedConfig None 2 3 0 100 None 0 (tracker_init EmbeddedConfig)"
  have a: "?a = (Some 1, fst (snd ?a), snd (snd ?a))" by code_simp
  have m: "MaxPendingRequests EmbeddedConfig \<le> 2 ^ 32" by (simp add: EmbeddedConfig_def)
  note s = allocate_Some [OF tracker_wf_init m a]
  have p: "pending (fst (snd ?a)) 1 = Some (new_pending EmbeddedConfig 2 3 0 100 None 0 1)"
    using s(3) by simp
  show ?thesis
    using completed_once [OF s(2) p, of None E_OK None] p by (metis prod.collapse)
qed

text \<open>C25: A request made at time \<open>t0\<close> with a time-out of \<open>d\<close> milliseconds survives an eviction
  \<open>e\<close> milliseconds later exactly when \<open>e \<le> d\<close>, also across the wrap of the 32-bit clock.\<close>

theorem request_times_out_exactly:
  assumes "tracker_wf cfg t" "MaxPendingRequests cfg \<le> 2 ^ 32" "0 < d" "d < 2 ^ 31" "e < 2 ^ 31"
    and "allocate cfg lg sid mid (of_nat d) t0 cb ctx t = (Some rid, t', out)"
  shows "pending (fst (evict_expired_requests cfg lg (t0 + of_nat e) t')) rid =
    (if e \<le> d then Some (new_pending cfg sid mid (of_nat d) t0 cb ctx rid) else None)"
proof -
  let ?p = "new_pending cfg sid mid (of_nat d) t0 cb ctx rid"
  have p: "pending t' rid = Some ?p" using allocate_Some(3) [OF assms(1,2,6)] by simp
  have "d < 2 ^ 32" using assms(4) by simp
  then have "unat (of_nat d :: u32) = d" by (rule unat_of_nat_u32)
  then have "(of_nat d :: u32) > 0" using assms(3) by (simp add: word_less_nat_alt)
  then have "pr_deadline_ms ?p = t0 + of_nat d" by (simp add: new_pending_def)
  then have "time_after (t0 + of_nat e) (pr_deadline_ms ?p) \<longleftrightarrow> d < e"
    by (simp only: time_after_elapsed [OF assms(4,5)])
  then show ?thesis
    using evict_wf(2) [OF allocate_Some(2) [OF assms(1,2,6)], of lg "t0 + of_nat e" rid] p by simp
qed

theorem request_times_out_exactly_witness:
  "\<exists>t'. pending (fst (evict_expired_requests EmbeddedConfig None (0xFFFFFFF0 + of_nat 101) t')) 1 = None \<and>
     pending t' 1 \<noteq> None"
proof -
  let ?a = "allocate EmbeddedConfig None 2 3 (of_nat 100) 0xFFFFFFF0 None 0 (tracker_init EmbeddedConfig)"
  have a: "?a = (Some 1, fst (snd ?a), snd (snd ?a))" by code_simp
  have m: "MaxPendingRequests EmbeddedConfig \<le> 2 ^ 32" by (simp add: EmbeddedConfig_def)
  have "pending (fst (evict_expired_requests EmbeddedConfig None (0xFFFFFFF0 + of_nat 101) (fst (snd ?a)))) 1 =
      (if (101 :: nat) \<le> 100 then Some (new_pending EmbeddedConfig 2 3 (of_nat 100) 0xFFFFFFF0 None 0 1) else None)"
    by (rule request_times_out_exactly [OF tracker_wf_init m _ _ _ a]) simp_all
  then show ?thesis using allocate_Some(3) [OF tracker_wf_init m a] by auto
qed

text \<open>An eviction reports every expired request and no other one, each exactly once and with
  \<open>E_TIMEOUT\<close>, in slot order; the others stay.\<close>

theorem eviction_reports_expired:
  assumes "tracker_wf cfg t"
  shows "visible (snd (evict_expired_requests cfg lg now_ms t)) =
      concat (map (\<lambda>e. call_done e E_TIMEOUT None)
        (filter (\<lambda>e. time_after now_ms (pr_deadline_ms e)) (actives t))) \<and>
    actives (fst (evict_expired_requests cfg lg now_ms t)) =
      filter (\<lambda>e. \<not> time_after now_ms (pr_deadline_ms e)) (actives t)"
proof -
  have "filter (request_expired now_ms) (actives t) = filter (\<lambda>e. time_after now_ms (pr_deadline_ms e)) (actives t)"
    by (rule filter_cong) (auto simp: request_expired_def actives_def)
  then show ?thesis using evict_expired_requests_exact(2) [OF assms] evict_actives [OF assms] by simp
qed

theorem eviction_reports_expired_witness:
  "visible (snd (evict_expired_requests EmbeddedConfig None 201
     (fst (snd (allocate EmbeddedConfig None 2 3 100 100 (Some 4) 5 (tracker_init EmbeddedConfig)))))) =
   [Out_Request_Done 4 5 E_TIMEOUT None]"
proof -
  let ?a = "allocate EmbeddedConfig None 2 3 100 100 (Some 4) 5 (tracker_init EmbeddedConfig)"
  have a: "?a = (Some 1, fst (snd ?a), snd (snd ?a))" by code_simp
  have m: "MaxPendingRequests EmbeddedConfig \<le> 2 ^ 32" by (simp add: EmbeddedConfig_def)
  have f: "map (\<lambda>e. (pr_callback e, pr_user_ctx e))
      (filter (\<lambda>e. time_after 201 (pr_deadline_ms e)) (actives (fst (snd ?a)))) = [(Some 4, 5)]" by code_simp
  show ?thesis
    using eviction_reports_expired [OF allocate_Some(2) [OF tracker_wf_init m a], of None 201] f
    by (auto simp: call_done_def)
qed

section \<open>Subscriptions\<close>

lemma events_init_empty [simp]: "subscribers_of (events_init cfg) k = None" "used (events_init cfg) = 0"
  by (simp_all add: subscribers_of_def event_lookup_def events_init_def t_lookup_empty)
    (simp add: t_empty_def)

text \<open>Subscribing to a registered event renews or adds the client with the expiry of the granted
  time, refuses a new client only when the event's table is full, and touches no other event and no
  other client.\<close>

theorem subscribe_updates_one_client:
  assumes "events_wf cfg t"
  shows "subscribers_of (fst (snd (subscribe cfg lg sid eid cid a ttl now_ms t))) =
      (case subscribers_of t (sid, eid) of
         None \<Rightarrow> subscribers_of t
       | Some m \<Rightarrow> (subscribers_of t)((sid, eid) \<mapsto>
           (if m cid \<noteq> None \<or> card (dom m) < MaxSubscribers cfg
            then m(cid \<mapsto> \<lparr>sb_client_id = cid, sb_addr = a, sb_expiry_ms = subscription_expiry cfg ttl now_ms\<rparr>)
            else m)))"
  using subscribe_refines(2) [OF assms, of lg sid eid cid a ttl now_ms]
  by (cases "subscribers_of t (sid, eid)") (simp_all add: bm_put_def sub_merge_def)

theorem subscribe_updates_one_client_witness:
  "map_option (\<lambda>m. map_option sb_expiry_ms (m 7)) (subscribers_of (fst (snd (subscribe EmbeddedConfig None 1 0x8001 7 [1] 5 100
     (fst (snd (register_event EmbeddedConfig None 1 0x8001 (events_init EmbeddedConfig))))))) (1, 0x8001))
   = Some (Some 5100)"
proof -
  let ?t = "fst (snd (register_event EmbeddedConfig None 1 0x8001 (events_init EmbeddedConfig)))"
  have wf: "events_wf EmbeddedConfig ?t" by (rule register_event_refines(1)) simp
  have "subscribers_of ?t (1, 0x8001) = Some Map.empty"
    by (simp add: register_event_refines(3) MAX_EVENTS_def EmbeddedConfig_def [THEN arg_cong [where f = MaxEvents]]
        EmbeddedConfig_def [THEN arg_cong [where f = MaxServices]])
  moreover have "MaxSubscribers EmbeddedConfig = 4" by (simp add: EmbeddedConfig_def)
  moreover have "subscription_expiry EmbeddedConfig 5 100 = 5100" by code_simp
  ultimately show ?thesis
    using subscribe_updates_one_client [OF wf, of None 1 "0x8001" 7 "[1]" 5 100] by simp
qed

text \<open>A subscription granted at time \<open>t0\<close> for \<open>ttl\<close> seconds survives an eviction \<open>e\<close>
  milliseconds later exactly when \<open>e\<close> is at most \<open>ttl\<close> seconds, also across the wrap of the clock.\<close>

theorem subscription_lifetime:
  assumes "events_wf cfg t" "subscribers_of t (sid, eid) = Some m" "m cid \<noteq> None \<or> card (dom m) < MaxSubscribers cfg"
    and "ttl > 0" "e < 2 ^ 31" "subscribe cfg lg sid eid cid a ttl t0 t = (ok, t', out)"
  shows "map_option (\<lambda>m. m cid \<noteq> None)
      (subscribers_of (evict_expired_subscriptions cfg (t0 + of_nat e) t') (sid, eid)) =
    Some (e \<le> unat ttl * 1000)"
proof -
  let ?s = "\<lparr>sb_client_id = cid, sb_addr = a, sb_expiry_ms = subscription_expiry cfg ttl t0\<rparr>"
  have wf': "events_wf cfg t'" using subscribe_refines(1) [OF assms(1), of lg sid eid cid a ttl t0] assms(6) by simp
  have s: "subscribers_of t' (sid, eid) = Some (m(cid \<mapsto> ?s))"
    using subscribe_refines(2) [OF assms(1), of lg sid eid cid a ttl t0] assms(2,3,6)
    by (simp add: bm_put_def sub_merge_def)
  have "unat ttl < 2 ^ 16" using unsigned_less [of ttl, where ?'a = nat] by simp
  then have d: "unat ttl * 1000 < 2 ^ 31" by simp
  have "(ucast ttl :: u32) = of_nat (unat ttl)" by simp
  then have "subscription_expiry cfg ttl t0 = t0 + of_nat (unat ttl * 1000)"
    using assms(4) by (simp add: subscription_expiry_def)
  then have "time_after (t0 + of_nat e) (sb_expiry_ms ?s) \<longleftrightarrow> unat ttl * 1000 < e"
    using time_after_elapsed [OF d assms(5), of t0] by simp
  then show ?thesis using evict_refines(2) [OF wf', of "t0 + of_nat e" "(sid, eid)"] s by auto
qed

theorem subscription_lifetime_witness:
  "map_option (\<lambda>m. m 7 \<noteq> None)
     (subscribers_of (evict_expired_subscriptions EmbeddedConfig (0xFFFFFF00 + of_nat 5001)
       (fst (snd (subscribe EmbeddedConfig None 1 0x8001 7 [1] 5 0xFFFFFF00
         (fst (snd (register_event EmbeddedConfig None 1 0x8001 (events_init EmbeddedConfig)))))))) (1, 0x8001)) =
   Some False"
proof -
  let ?t = "fst (snd (register_event EmbeddedConfig None 1 0x8001 (events_init EmbeddedConfig)))"
  have wf: "events_wf EmbeddedConfig ?t" by (rule register_event_refines(1)) simp
  have "subscribers_of ?t (1, 0x8001) = Some Map.empty"
    by (simp add: register_event_refines(3) MAX_EVENTS_def EmbeddedConfig_def [THEN arg_cong [where f = MaxEvents]]
        EmbeddedConfig_def [THEN arg_cong [where f = MaxServices]])
  moreover have "card (dom (Map.empty :: u16 \<Rightarrow> Subscriber option)) < MaxSubscribers EmbeddedConfig"
    by (simp add: EmbeddedConfig_def)
  moreover obtain ok t' out where
    "subscribe EmbeddedConfig None 1 0x8001 7 [1] 5 0xFFFFFF00 ?t = (ok, t', out)"
    using prod_cases3 by blast
  ultimately show ?thesis
    using subscription_lifetime [OF wf, of 1 "0x8001" Map.empty 7 5 5001 None "[1]" "0xFFFFFF00"] by simp
qed

end
