(* ===== verification/Service_Discovery.thy ===== *)
theory Service_Discovery
  imports Sd_Payload Effects Fixed_Table
begin

text \<open>
  Service discovery (\<open>service/service_discovery.hpp\<close>): the provider, consumer and subscription
  tables, the operations of the application, the handlers of incoming messages and the four loops
  of the process cycle.  A callback argument of a loop (\<open>broadcast_fn\<close>, \<open>send_fn\<close>, ...) is a
  function on a state \<open>'w\<close>, and \<open>emit\<close> records log records and application callbacks in it.
\<close>

section \<open>State\<close>

datatype ConsumerState = C_NOT_FOUND | C_SEARCHING | C_FOUND
datatype ProviderState = P_NOT_OFFERED | P_OFFERED

record ProviderEntry =
  pv_service_id :: u16
  pv_major_version :: u8
  pv_minor_version :: u8
  pv_ttl_seconds :: u16
  pv_session_id :: u16
  pv_state :: ProviderState
  pv_last_offer_ms :: u32
  pv_active :: bool
  pv_needs_broadcast :: bool

record ConsumerEntry =
  cn_service_id :: u16
  cn_expected_major :: u8
  cn_state :: ConsumerState
  cn_provider_addr :: addr
  cn_ttl_expiry_ms :: u32
  cn_retry_count :: u8
  cn_next_retry_ms :: u32
  cn_active :: bool
  cn_session_id :: u16
  cn_session_valid :: bool

record SubTracker =
  st_service_id :: u16
  st_event_id :: u16
  st_requested_ttl :: u16
  st_granted_ttl :: u16
  st_active :: bool
  st_app_registered :: bool
  st_needs_send :: bool
  st_needs_unsubscribe :: bool
  st_last_sent_ms :: u32
  st_ack_retry_count :: u8

record SdCallbacks =
  on_service_found :: "nat option"
  service_found_ctx :: nat
  on_service_lost :: "nat option"
  service_lost_ctx :: nat
  on_subscription_ack :: "nat option"
  subscription_ack_ctx :: nat

record ServiceDiscovery =
  sd_providers :: "ProviderEntry tbl"
  sd_consumers :: "ConsumerEntry tbl"
  sd_trackers :: "SubTracker tbl"
  sd_local_addr :: addr
  sd_client_id :: u16
  sd_callbacks :: SdCallbacks

definition MAX_SUB_TRACKERS :: "config \<Rightarrow> nat" where
  "MAX_SUB_TRACKERS cfg = MaxKnownServices cfg * MaxEvents cfg"

definition default_provider :: ProviderEntry where
  "default_provider = \<lparr> pv_service_id = 0, pv_major_version = 0, pv_minor_version = 0,
     pv_ttl_seconds = 0, pv_session_id = 0, pv_state = P_NOT_OFFERED, pv_last_offer_ms = 0,
     pv_active = False, pv_needs_broadcast = False \<rparr>"

definition default_consumer :: "config \<Rightarrow> ConsumerEntry" where
  "default_consumer cfg = \<lparr> cn_service_id = 0, cn_expected_major = 0, cn_state = C_NOT_FOUND,
     cn_provider_addr = zero_addr cfg, cn_ttl_expiry_ms = 0, cn_retry_count = 0,
     cn_next_retry_ms = 0, cn_active = False, cn_session_id = 0, cn_session_valid = False \<rparr>"

definition default_tracker :: SubTracker where
  "default_tracker = \<lparr> st_service_id = 0, st_event_id = 0, st_requested_ttl = 0, st_granted_ttl = 0,
     st_active = False, st_app_registered = False, st_needs_send = False,
     st_needs_unsubscribe = False, st_last_sent_ms = 0, st_ack_retry_count = 0 \<rparr>"

definition default_callbacks :: SdCallbacks where
  "default_callbacks = \<lparr> on_service_found = None, service_found_ctx = 0, on_service_lost = None,
     service_lost_ctx = 0, on_subscription_ack = None, subscription_ack_ctx = 0 \<rparr>"

definition sd_init :: "config \<Rightarrow> ServiceDiscovery" where
  "sd_init cfg =
     \<lparr> sd_providers = t_empty (MaxServices cfg) default_provider,
       sd_consumers = t_empty (MaxKnownServices cfg) (default_consumer cfg),
       sd_trackers = t_empty (MAX_SUB_TRACKERS cfg) default_tracker,
       sd_local_addr = zero_addr cfg, sd_client_id = 0, sd_callbacks = default_callbacks \<rparr>"

definition provider_is :: "u16 \<Rightarrow> ProviderEntry \<Rightarrow> bool" where
  "provider_is sid p \<longleftrightarrow> pv_service_id p = sid"

definition consumer_is :: "u16 \<Rightarrow> ConsumerEntry \<Rightarrow> bool" where
  "consumer_is sid c \<longleftrightarrow> cn_service_id c = sid"

definition tracker_is :: "u16 \<times> u16 \<Rightarrow> SubTracker \<Rightarrow> bool" where
  "tracker_is k st \<longleftrightarrow> st_service_id st = fst k \<and> st_event_id st = snd k"

definition find_consumer :: "u16 \<Rightarrow> ServiceDiscovery \<Rightarrow> ConsumerEntry option" where
  "find_consumer sid sd =
     map_option (t_get (sd_consumers sd)) (t_find (consumer_is sid) (sd_consumers sd))"

abbreviation upd_provider where
  "upd_provider i f sd \<equiv> sd\<lparr>sd_providers := t_upd i f (sd_providers sd)\<rparr>"

abbreviation upd_consumer where
  "upd_consumer i f sd \<equiv> sd\<lparr>sd_consumers := t_upd i f (sd_consumers sd)\<rparr>"

abbreviation upd_tracker where
  "upd_tracker i f sd \<equiv> sd\<lparr>sd_trackers := t_upd i f (sd_trackers sd)\<rparr>"

section \<open>Session ids and jitter\<close>

definition generate_session_id :: "u16 \<Rightarrow> u16 \<Rightarrow> u32 \<Rightarrow> u16" where
  "generate_session_id client_id sid now_ms =
     (let seed = (push_bit 16 (ucast client_id) OR ucast sid) XOR now_ms;
          seed = seed * 2654435761;
          i = ucast (seed AND 0xFFFF)
      in if i = 0 then 1 else i)"

text \<open>The result is a signed 32-bit number; the two casts read their operands as signed.\<close>

definition compute_jitter :: "config \<Rightarrow> u16 \<Rightarrow> u16 \<Rightarrow> u8 \<Rightarrow> int" where
  "compute_jitter cfg client_id sid retry =
     (let seed = push_bit 16 (ucast client_id) OR (ucast sid XOR (ucast retry * 0x9E3779B9)) :: u32;
          seed = seed * 1103515245 + 12345;
          j = sint (seed mod (2 * SdFindJitterMs cfg + 1))
      in j - sint (SdFindJitterMs cfg))"

section \<open>Callbacks and message building\<close>

definition call_lost :: "SdCallbacks \<Rightarrow> u16 \<Rightarrow> effect list" where
  "call_lost cb sid =
     (case on_service_lost cb of None \<Rightarrow> [] | Some f \<Rightarrow> [Out_Service_Lost f (service_lost_ctx cb) sid])"

definition call_found :: "SdCallbacks \<Rightarrow> u16 \<Rightarrow> addr \<Rightarrow> effect list" where
  "call_found cb sid a =
     (case on_service_found cb of None \<Rightarrow> []
      | Some f \<Rightarrow> [Out_Service_Found f (service_found_ctx cb) sid a])"

definition call_ack :: "SdCallbacks \<Rightarrow> u16 \<Rightarrow> u16 \<Rightarrow> ReturnCode \<Rightarrow> u16 \<Rightarrow> effect list" where
  "call_ack cb sid eid rc ttl =
     (case on_subscription_ack cb of None \<Rightarrow> []
      | Some f \<Rightarrow> [Out_Subscription_Ack f (subscription_ack_ctx cb) sid eid rc ttl])"

definition sd_header :: "u16 \<Rightarrow> u16 \<Rightarrow> nat \<Rightarrow> MessageHeader" where
  "sd_header client_id sd_method_id payload_size =
     \<lparr> hdr_version = PROTOCOL_VERSION, hdr_message_type = message_type_code REQUEST_NO_RETURN,
       hdr_return_code = 0, hdr_flags = 0, hdr_service_id = SD_SERVICE_ID,
       hdr_method_event_id = sd_method_id, hdr_client_id = client_id,
       hdr_sequence_counter = 0, hdr_reserved = 0, hdr_request_id = 0,
       hdr_payload_length = of_nat payload_size \<rparr>"

definition build_sd_header :: "u16 \<Rightarrow> SdMethod \<Rightarrow> nat \<Rightarrow> bytes" where
  "build_sd_header client_id m payload_size =
     serialize (sd_header client_id (sd_method_code m) payload_size)"

definition offer_message :: "config \<Rightarrow> ServiceDiscovery \<Rightarrow> ProviderEntry \<Rightarrow> bytes" where
  "offer_message cfg sd pe =
     build_sd_header (sd_client_id sd) SD_OFFER_SERVICE (SD_OFFER_PAYLOAD_SIZE cfg)
     @ serialize_offer cfg (pv_service_id pe) (pv_major_version pe) (pv_minor_version pe)
         (pv_ttl_seconds pe) (pv_session_id pe) (sd_local_addr sd)"

definition find_message :: "ServiceDiscovery \<Rightarrow> ConsumerEntry \<Rightarrow> bytes" where
  "find_message sd ce =
     build_sd_header (sd_client_id sd) SD_FIND_SERVICE SD_FIND_PAYLOAD_SIZE
     @ serialize_find (cn_service_id ce)"

definition subscribe_message :: "ServiceDiscovery \<Rightarrow> SdMethod \<Rightarrow> SubTracker \<Rightarrow> u16 \<Rightarrow> bytes" where
  "subscribe_message sd m st ttl =
     build_sd_header (sd_client_id sd) m SD_SUBSCRIBE_PAYLOAD_SIZE
     @ serialize_subscribe (st_service_id st) (st_event_id st) ttl"

definition send_subscribe ::
    "ServiceDiscovery \<Rightarrow> SubTracker \<Rightarrow> addr \<Rightarrow> (addr \<Rightarrow> bytes \<Rightarrow> 'w \<Rightarrow> 'w) \<Rightarrow> 'w \<Rightarrow> 'w" where
  "send_subscribe sd st provider_addr send_fn w =
     send_fn provider_addr (subscribe_message sd SD_SUBSCRIBE_EVENT st (st_requested_ttl st)) w"

section \<open>Provider operations\<close>

definition sd_offer ::
    "config \<Rightarrow> logger option \<Rightarrow> u16 \<Rightarrow> u8 \<Rightarrow> u8 \<Rightarrow> u16 \<Rightarrow> u32 \<Rightarrow> ServiceDiscovery \<Rightarrow>
       bool \<times> ServiceDiscovery \<times> effect list" where
  "sd_offer cfg lg sid major minor ttl_seconds now_ms sd =
     (let fill = (\<lambda>pe. pe\<lparr> pv_service_id := sid, pv_major_version := major, pv_minor_version := minor,
                    pv_ttl_seconds := (if ttl_seconds > 0 then ttl_seconds else OfferTtlSeconds cfg),
                    pv_session_id := generate_session_id (sd_client_id sd) sid now_ms,
                    pv_state := P_OFFERED, pv_last_offer_ms := now_ms, pv_active := True,
                    pv_needs_broadcast := True \<rparr>);
          out = if_logger (\<lambda>l. log_info cfg l CatServiceDiscovery ''offer_start'' sid 0
                  (sd_client_id sd) (ucast ttl_seconds)) lg
      in case t_find (provider_is sid) (sd_providers sd) of
           Some i \<Rightarrow> (True, upd_provider i fill sd, out)
         | None \<Rightarrow>
             if used (sd_providers sd) \<ge> MaxServices cfg then (False, sd, [])
             else (True,
                   sd\<lparr>sd_providers := t_push (fill (t_get (sd_providers sd) (used (sd_providers sd))))
                        (sd_providers sd)\<rparr>, out))"

definition sd_stop_offer ::
    "config \<Rightarrow> logger option \<Rightarrow> u16 \<Rightarrow> ServiceDiscovery \<Rightarrow> ServiceDiscovery \<times> effect list" where
  "sd_stop_offer cfg lg sid sd =
     (case t_find (provider_is sid) (sd_providers sd) of
        None \<Rightarrow> (sd, [])
      | Some i \<Rightarrow>
          (upd_provider i (\<lambda>pe. pe\<lparr>pv_state := P_NOT_OFFERED, pv_active := False\<rparr>) sd,
           if_logger (\<lambda>l. log_info cfg l CatServiceDiscovery ''offer_stop'' sid 0 (sd_client_id sd) 0) lg))"

definition offer_due :: "u32 \<Rightarrow> ProviderEntry \<Rightarrow> bool" where
  "offer_due now_ms pe \<longleftrightarrow>
     pv_needs_broadcast pe \<or>
     time_after_or_eq now_ms (pv_last_offer_ms pe + ucast (pv_ttl_seconds pe) * 500)"

definition offer_step ::
    "config \<Rightarrow> u32 \<Rightarrow> (bytes \<Rightarrow> 'w \<Rightarrow> 'w) \<Rightarrow> nat \<Rightarrow> ServiceDiscovery \<times> 'w \<Rightarrow> ServiceDiscovery \<times> 'w" where
  "offer_step cfg now_ms broadcast_fn i sw =
     (case sw of (sd, w) \<Rightarrow>
        let pe = t_get (sd_providers sd) i in
        if pv_state pe \<noteq> P_OFFERED then (sd, w)
        else if offer_due now_ms pe then
          (let w' = broadcast_fn (offer_message cfg sd pe) w in
           (upd_provider i (\<lambda>pe. pe\<lparr>pv_last_offer_ms := now_ms, pv_needs_broadcast := False\<rparr>) sd, w'))
        else (sd, w))"

definition process_offers ::
    "config \<Rightarrow> u32 \<Rightarrow> (bytes \<Rightarrow> 'w \<Rightarrow> 'w) \<Rightarrow> ServiceDiscovery \<Rightarrow> 'w \<Rightarrow> ServiceDiscovery \<times> 'w" where
  "process_offers cfg now_ms broadcast_fn sd w =
     fold (offer_step cfg now_ms broadcast_fn) [0..<used (sd_providers sd)] (sd, w)"

definition handle_find ::
    "config \<Rightarrow> u16 \<Rightarrow> addr \<Rightarrow> (addr \<Rightarrow> bytes \<Rightarrow> 'w \<Rightarrow> 'w) \<Rightarrow> ServiceDiscovery \<Rightarrow> 'w \<Rightarrow> 'w" where
  "handle_find cfg requested source unicast_fn sd w =
     fold (\<lambda>i w.
        let pe = t_get (sd_providers sd) i in
        if pv_state pe \<noteq> P_OFFERED then w
        else if requested = 0xFFFF \<or> pv_service_id pe = requested
        then unicast_fn source (offer_message cfg sd pe) w else w)
       [0..<used (sd_providers sd)] w"

section \<open>Consumer operations\<close>

definition sd_find ::
    "config \<Rightarrow> logger option \<Rightarrow> u16 \<Rightarrow> u8 \<Rightarrow> u32 \<Rightarrow> ServiceDiscovery \<Rightarrow>
       bool \<times> ServiceDiscovery \<times> effect list" where
  "sd_find cfg lg sid expected_major now_ms sd =
     (let fill = (\<lambda>ce. ce\<lparr> cn_service_id := sid, cn_expected_major := expected_major,
                    cn_state := C_SEARCHING, cn_retry_count := 0, cn_next_retry_ms := now_ms,
                    cn_active := True, cn_ttl_expiry_ms := 0 \<rparr>);
          out = if_logger (\<lambda>l. log_info cfg l CatServiceDiscovery ''find_start'' sid 0
                  (sd_client_id sd) (ucast expected_major)) lg
      in case t_find (consumer_is sid) (sd_consumers sd) of
           Some i \<Rightarrow> (True, upd_consumer i fill sd, out)
         | None \<Rightarrow>
             if used (sd_consumers sd) \<ge> MaxKnownServices cfg then (False, sd, [])
             else (True,
                   sd\<lparr>sd_consumers := t_push (fill (t_get (sd_consumers sd) (used (sd_consumers sd))))
                        (sd_consumers sd)\<rparr>, out))"

definition sd_subscribe_event ::
    "config \<Rightarrow> u16 \<Rightarrow> u16 \<Rightarrow> u16 \<Rightarrow> u32 \<Rightarrow> ServiceDiscovery \<Rightarrow> bool \<times> ServiceDiscovery" where
  "sd_subscribe_event cfg sid eid ttl_seconds now_ms sd =
     (let fill = (\<lambda>st. st\<lparr> st_service_id := sid, st_event_id := eid, st_requested_ttl := ttl_seconds,
                    st_granted_ttl := 0, st_active := True, st_app_registered := True,
                    st_needs_send := True, st_last_sent_ms := now_ms \<rparr>)
      in case t_find (tracker_is (sid, eid)) (sd_trackers sd) of
           Some i \<Rightarrow> (True, upd_tracker i fill sd)
         | None \<Rightarrow>
             if used (sd_trackers sd) \<ge> MAX_SUB_TRACKERS cfg then (False, sd)
             else (True,
                   sd\<lparr>sd_trackers := t_push (fill (t_get (sd_trackers sd) (used (sd_trackers sd))))
                        (sd_trackers sd)\<rparr>))"

definition sd_unsubscribe_event :: "u16 \<Rightarrow> u16 \<Rightarrow> ServiceDiscovery \<Rightarrow> bool \<times> ServiceDiscovery" where
  "sd_unsubscribe_event sid eid sd =
     (case t_find (tracker_is (sid, eid)) (sd_trackers sd) of
        None \<Rightarrow> (False, sd)
      | Some i \<Rightarrow>
          (True, upd_tracker i (\<lambda>st. st\<lparr>st_app_registered := False, st_needs_unsubscribe := True\<rparr>) sd))"

definition find_backoff :: "config \<Rightarrow> u8 \<Rightarrow> u32" where
  "find_backoff cfg retry =
     fold (\<lambda>_ delay. delay * ucast (SdFindBackoffMultiplier cfg)) [0..<unat retry] (SdFindInitialDelayMs cfg)"

text \<open>The next retry time, computed in 64-bit signed arithmetic.\<close>

definition next_retry :: "config \<Rightarrow> u16 \<Rightarrow> u16 \<Rightarrow> u8 \<Rightarrow> u32 \<Rightarrow> u32" where
  "next_retry cfg client_id sid retry now_ms =
     (let next = uint now_ms + uint (find_backoff cfg retry) + compute_jitter cfg client_id sid retry
      in if next > 0 then of_int next else now_ms)"

definition find_step ::
    "config \<Rightarrow> logger option \<Rightarrow> u32 \<Rightarrow> (effect list \<Rightarrow> 'w \<Rightarrow> 'w) \<Rightarrow> (bytes \<Rightarrow> 'w \<Rightarrow> 'w) \<Rightarrow> nat \<Rightarrow>
       ServiceDiscovery \<times> 'w \<Rightarrow> ServiceDiscovery \<times> 'w" where
  "find_step cfg lg now_ms emit broadcast_fn i sw =
     (case sw of (sd, w) \<Rightarrow>
        let ce = t_get (sd_consumers sd) i in
        if cn_state ce \<noteq> C_SEARCHING then (sd, w)
        else if time_after_or_eq now_ms (cn_next_retry_ms ce) then
          (let w' = broadcast_fn (find_message sd ce) w;
               n = cn_retry_count ce + 1 in
           if n > SdFindRetryCount cfg then
             (upd_consumer i (\<lambda>ce. ce\<lparr>cn_retry_count := n, cn_state := C_NOT_FOUND\<rparr>) sd,
              emit (if_logger (\<lambda>l. log_warn cfg l CatServiceDiscovery ''find_exhausted''
                      (cn_service_id ce) 0 (sd_client_id sd) (ucast n)) lg
                    @ call_lost (sd_callbacks sd) (cn_service_id ce)) w')
           else
             (upd_consumer i (\<lambda>ce. ce\<lparr>cn_retry_count := n,
                cn_next_retry_ms := next_retry cfg (sd_client_id sd) (cn_service_id ce) n now_ms\<rparr>) sd,
              w'))
        else (sd, w))"

definition process_finds ::
    "config \<Rightarrow> logger option \<Rightarrow> u32 \<Rightarrow> (effect list \<Rightarrow> 'w \<Rightarrow> 'w) \<Rightarrow> (bytes \<Rightarrow> 'w \<Rightarrow> 'w) \<Rightarrow>
       ServiceDiscovery \<Rightarrow> 'w \<Rightarrow> ServiceDiscovery \<times> 'w" where
  "process_finds cfg lg now_ms emit broadcast_fn sd w =
     fold (find_step cfg lg now_ms emit broadcast_fn) [0..<used (sd_consumers sd)] (sd, w)"

definition ttl_step ::
    "config \<Rightarrow> logger option \<Rightarrow> u32 \<Rightarrow> (effect list \<Rightarrow> 'w \<Rightarrow> 'w) \<Rightarrow> (addr \<Rightarrow> 'w \<Rightarrow> 'w) \<Rightarrow> nat \<Rightarrow>
       ServiceDiscovery \<times> 'w \<Rightarrow> ServiceDiscovery \<times> 'w" where
  "ttl_step cfg lg now_ms emit on_peer_expired i sw =
     (case sw of (sd, w) \<Rightarrow>
        let ce = t_get (sd_consumers sd) i in
        if cn_state ce \<noteq> C_FOUND then (sd, w)
        else if time_after now_ms (cn_ttl_expiry_ms ce) then
          (upd_consumer i (\<lambda>ce. ce\<lparr>cn_state := C_NOT_FOUND, cn_session_valid := False\<rparr>) sd,
           emit (call_lost (sd_callbacks sd) (cn_service_id ce))
             (on_peer_expired (cn_provider_addr ce)
               (emit (if_logger (\<lambda>l. log_warn cfg l CatServiceDiscovery ''ttl_expired''
                        (cn_service_id ce) 0 (sd_client_id sd) 0) lg) w)))
        else (sd, w))"

definition process_consumer_ttls ::
    "config \<Rightarrow> logger option \<Rightarrow> u32 \<Rightarrow> (effect list \<Rightarrow> 'w \<Rightarrow> 'w) \<Rightarrow> (addr \<Rightarrow> 'w \<Rightarrow> 'w) \<Rightarrow>
       ServiceDiscovery \<Rightarrow> 'w \<Rightarrow> ServiceDiscovery \<times> 'w" where
  "process_consumer_ttls cfg lg now_ms emit on_peer_expired sd w =
     fold (ttl_step cfg lg now_ms emit on_peer_expired) [0..<used (sd_consumers sd)] (sd, w)"

definition renewal_step ::
    "config \<Rightarrow> u32 \<Rightarrow> (addr \<Rightarrow> bytes \<Rightarrow> 'w \<Rightarrow> 'w) \<Rightarrow> nat \<Rightarrow>
       ServiceDiscovery \<times> 'w \<Rightarrow> ServiceDiscovery \<times> 'w" where
  "renewal_step cfg now_ms send_fn i sw =
     (case sw of (sd, w) \<Rightarrow>
        let st = t_get (sd_trackers sd) i in
        if \<not> st_active st then (sd, w)
        else case find_consumer (st_service_id st) sd of
          None \<Rightarrow> (sd, w)
        | Some ce \<Rightarrow>
            if cn_state ce \<noteq> C_FOUND then (sd, w)
            else if st_needs_unsubscribe st then
              (upd_tracker i (\<lambda>st. st\<lparr>st_active := False, st_needs_unsubscribe := False\<rparr>) sd,
               send_fn (cn_provider_addr ce) (subscribe_message sd SD_UNSUBSCRIBE st 0) w)
            else if st_needs_send st then
              (upd_tracker i (\<lambda>st. st\<lparr>st_needs_send := False, st_last_sent_ms := now_ms\<rparr>) sd,
               send_subscribe sd st (cn_provider_addr ce) send_fn w)
            else if st_granted_ttl st > 0 then
              (if time_after_or_eq now_ms (st_last_sent_ms st + ucast (st_granted_ttl st) * 500) then
                 (upd_tracker i (\<lambda>st. st\<lparr>st_last_sent_ms := now_ms\<rparr>) sd,
                  send_subscribe sd st (cn_provider_addr ce) send_fn w)
               else (sd, w))
            else if time_after_or_eq now_ms (st_last_sent_ms st + ucast (SubscriptionTtlSeconds cfg) * 1000) then
              (if st_ack_retry_count st < 2 then
                 (upd_tracker i (\<lambda>st. st\<lparr>st_last_sent_ms := now_ms,
                    st_ack_retry_count := st_ack_retry_count st + 1\<rparr>) sd,
                  send_subscribe sd st (cn_provider_addr ce) send_fn w)
               else (upd_tracker i (\<lambda>st. st\<lparr>st_active := False\<rparr>) sd, w))
            else (sd, w))"

definition process_subscription_renewals ::
    "config \<Rightarrow> u32 \<Rightarrow> (addr \<Rightarrow> bytes \<Rightarrow> 'w \<Rightarrow> 'w) \<Rightarrow> ServiceDiscovery \<Rightarrow> 'w \<Rightarrow>
       ServiceDiscovery \<times> 'w" where
  "process_subscription_renewals cfg now_ms send_fn sd w =
     fold (renewal_step cfg now_ms send_fn) [0..<used (sd_trackers sd)] (sd, w)"

section \<open>Incoming messages\<close>

definition resubscribe :: "u32 \<Rightarrow> SubTracker \<Rightarrow> SubTracker" where
  "resubscribe now_ms st = st\<lparr> st_active := True, st_ack_retry_count := 0, st_needs_send := True,
     st_granted_ttl := 0, st_last_sent_ms := now_ms \<rparr>"

definition flag_resubscribe :: "u16 \<Rightarrow> u32 \<Rightarrow> ServiceDiscovery \<Rightarrow> ServiceDiscovery" where
  "flag_resubscribe sid now_ms sd =
     sd\<lparr>sd_trackers :=
       fold (\<lambda>i t. if st_app_registered (t_get t i) \<and> st_service_id (t_get t i) = sid
                   then t_upd i (resubscribe now_ms) t else t)
         [0..<used (sd_trackers sd)] (sd_trackers sd)\<rparr>"

definition reboot_seen :: "ConsumerEntry \<Rightarrow> u16 \<Rightarrow> bool" where
  "reboot_seen ce session_id \<longleftrightarrow>
     cn_session_valid ce \<and> cn_state ce = C_FOUND \<and> cn_session_id ce \<noteq> session_id"

definition handle_offer ::
    "config \<Rightarrow> logger option \<Rightarrow> u16 \<Rightarrow> u8 \<Rightarrow> u16 \<Rightarrow> u16 \<Rightarrow> addr \<Rightarrow> u32 \<Rightarrow> ServiceDiscovery \<Rightarrow>
       ServiceDiscovery \<times> effect list" where
  "handle_offer cfg lg sid major ttl_seconds session_id provider now_ms sd =
     (if ttl_seconds = 0 then (sd, [])
      else case t_find (consumer_is sid) (sd_consumers sd) of
        None \<Rightarrow> (sd, [])
      | Some i \<Rightarrow>
          let ce = t_get (sd_consumers sd) i in
          if major \<noteq> cn_expected_major ce then (sd, [])
          else
            let reboot = reboot_seen ce session_id;
                new_provider = (cn_state ce \<noteq> C_FOUND \<or> cn_provider_addr ce \<noteq> provider);
                was = cn_state ce;
                sd1 = upd_consumer i (\<lambda>ce. ce\<lparr> cn_provider_addr := provider,
                        cn_ttl_expiry_ms := now_ms + ucast ttl_seconds * 1000,
                        cn_session_id := session_id, cn_session_valid := True \<rparr>) sd;
                sd2 = upd_consumer i (\<lambda>ce. ce\<lparr>cn_state := C_FOUND\<rparr>) sd1;
                cb = sd_callbacks sd
            in if reboot then
                 (flag_resubscribe sid now_ms sd2,
                  if_logger (\<lambda>l. log_warn cfg l CatServiceDiscovery ''reboot_detected'' sid 0
                    (sd_client_id sd) (ucast session_id)) lg
                  @ call_lost cb sid @ call_found cb sid provider)
               else if was \<noteq> C_FOUND then
                 (flag_resubscribe sid now_ms sd2,
                  if_logger (\<lambda>l. log_info cfg l CatServiceDiscovery ''service_found'' sid 0
                    (sd_client_id sd) (ucast ttl_seconds)) lg
                  @ call_found cb sid provider)
               else if new_provider then
                 (flag_resubscribe sid now_ms sd1, call_found cb sid provider)
               else (sd1, []))"

definition handle_subscribe_ack ::
    "config \<Rightarrow> logger option \<Rightarrow> u16 \<Rightarrow> u16 \<Rightarrow> ReturnCode \<Rightarrow> u16 \<Rightarrow> ServiceDiscovery \<Rightarrow>
       ServiceDiscovery \<times> effect list" where
  "handle_subscribe_ack cfg lg sid eid result granted_ttl sd =
     (let (sd', out) =
        (case t_find (tracker_is (sid, eid)) (sd_trackers sd) of
           None \<Rightarrow> (sd, [])
         | Some i \<Rightarrow>
             if \<not> st_active (t_get (sd_trackers sd) i) then (sd, [])
             else if result = E_OK then
               (upd_tracker i (\<lambda>st. st\<lparr>st_granted_ttl := granted_ttl\<rparr>) sd,
                if_logger (\<lambda>l. log_info cfg l CatEvents ''sub_ack_ok'' sid eid (sd_client_id sd)
                  (ucast granted_ttl)) lg)
             else
               (upd_tracker i (\<lambda>st. st\<lparr>st_active := False\<rparr>) sd,
                if_logger (\<lambda>l. log_warn cfg l CatEvents ''sub_ack_fail'' sid eid (sd_client_id sd)
                  (ucast result)) lg))
      in (sd', out @ call_ack (sd_callbacks sd) sid eid result granted_ttl))"

section \<open>Queries\<close>

definition get_provider_address :: "u16 \<Rightarrow> ServiceDiscovery \<Rightarrow> addr option" where
  "get_provider_address sid sd =
     (case find_consumer sid sd of
        None \<Rightarrow> None
      | Some ce \<Rightarrow> if cn_state ce = C_FOUND then Some (cn_provider_addr ce) else None)"

definition get_consumer_state :: "u16 \<Rightarrow> ServiceDiscovery \<Rightarrow> ConsumerState" where
  "get_consumer_state sid sd =
     (case find_consumer sid sd of None \<Rightarrow> C_NOT_FOUND | Some ce \<Rightarrow> cn_state ce)"

definition detect_reboot :: "u16 \<Rightarrow> u16 \<Rightarrow> ServiceDiscovery \<Rightarrow> bool" where
  "detect_reboot sid session_id sd =
     (case find_consumer sid sd of None \<Rightarrow> False | Some ce \<Rightarrow> reboot_seen ce session_id)"

end
