(* ===== verification/Slot_Loops.thy ===== *)
theory Slot_Loops
  imports Fixed_Table
begin

text \<open>
  The process cycle of the library runs loops of one shape: walk the used prefix of a table, decide
  on each entry alone, rewrite it in place and possibly send or log something.  The locale states
  that shape once; its consequence says that such a loop maps the entries and folds the outputs.
\<close>

lemma t_upd_cond: "t_upd i (\<lambda>x. if P x then f x else x) t = (if P (t_get t i) then t_upd i f t else t)"
  by (simp add: t_upd_def t_get_def)

lemma t_upd_id: "t_upd i (\<lambda>x. x) t = t"
  by (simp add: t_upd_def)

lemma t_upd_cong: "f (t_get t i) = g (t_get t i) \<Longrightarrow> t_upd i f t = t_upd i g t"
  by (simp add: t_upd_def t_get_def)

text \<open>The table with every entry in use rewritten.\<close>

definition map_slots :: "('e \<Rightarrow> 'e) \<Rightarrow> 'e tbl \<Rightarrow> 'e tbl" where
  "map_slots f t = t\<lparr>slots := map f (live t) @ drop (used t) (slots t)\<rparr>"

lemma live_map_slots: "t_wf cap t \<Longrightarrow> live (map_slots f t) = map f (live t)"
  by (simp add: map_slots_def live_def t_wf_def)

lemma t_wf_map_slots [simp]: "t_wf cap t \<Longrightarrow> t_wf cap (map_slots f t)"
  by (simp add: map_slots_def live_def t_wf_def)

lemma used_map_slots [simp]: "used (map_slots f t) = used t"
  by (simp add: map_slots_def)

lemma keyed_map_slots:
  assumes "keyed key act cap t" and "\<And>x. x \<in> set (live t) \<Longrightarrow> key (f x) = key x \<and> act (f x)"
  shows "keyed key act cap (map_slots f t)"
    and "t_lookup key (map_slots f t) k = map_option f (t_lookup key t k)"
proof -
  have wf: "t_wf cap t" using assms(1) by (rule keyed_wf)
  note M = keyed_map [where key = key and act = act and g = f,
    OF assms(1) t_wf_map_slots [OF wf] live_map_slots [OF wf]]
  show "keyed key act cap (map_slots f t)"
    and "t_lookup key (map_slots f t) k = map_option f (t_lookup key t k)"
    using M assms(2) by blast+
qed

lemma set_slots_map_slots: "set (slots (map_slots f t)) \<subseteq> f ` set (slots t) \<union> set (slots t)"
  by (auto simp: map_slots_def live_def dest: in_set_takeD in_set_dropD)

locale slot_loop =
  fixes get :: "'s \<Rightarrow> 'e tbl"
    and put :: "'e tbl \<Rightarrow> 's \<Rightarrow> 's"
    and body :: "nat \<Rightarrow> 's \<times> 'w \<Rightarrow> 's \<times> 'w"
    and entry :: "'s \<Rightarrow> 'e \<Rightarrow> 'e"
    and emitted :: "'s \<Rightarrow> 'e \<Rightarrow> 'w \<Rightarrow> 'w"
  assumes get_put: "get (put t s) = t"
    and put_put: "put t (put t' s) = put t s"
    and put_get: "put (get s) s = s"
    and entry_put: "entry (put t s) = entry s"
    and output_put: "emitted (put t s) = emitted s"
    and body_eq: "body i (s, w) = (put (t_upd i (entry s) (get s)) s, emitted s (t_get (get s) i) w)"
begin

lemma prefix:
  "n \<le> length (slots (get s)) \<Longrightarrow>
   fold body [0..<n] (s, w) =
     (put ((get s)\<lparr>slots := map (entry s) (take n (slots (get s))) @ drop n (slots (get s))\<rparr>) s,
      fold (emitted s) (take n (slots (get s))) w)"
proof (induction n)
  case 0
  then show ?case by (simp add: put_get)
next
  case (Suc n)
  then have n: "n < length (slots (get s))" by simp
  show ?case
    using Suc.IH n Cons_nth_drop_Suc [OF n, symmetric]
    by (simp add: body_eq get_put put_put entry_put output_put t_get_def t_upd_def nth_append
        list_update_append take_Suc_conv_app_nth)
qed

lemma run:
  "t_wf cap (get s) \<Longrightarrow>
   fold body [0..<used (get s)] (s, w) = (put (map_slots (entry s) (get s)) s, fold (emitted s) (live (get s)) w)"
  by (simp add: prefix t_wf_def map_slots_def live_def)

end

end
