(* ===== verification/Sd_State_Machine.thy ===== *)
theory Sd_State_Machine
  imports Service_Discovery Slot_Loops
begin

text \<open>
  Service discovery as a state machine: well-formedness of the three tables, the four loops of the
  process cycle as instances of \<open>slot_loop\<close>, and the consumer states of section 4.6 of the protocol
  definition as an inductive relation that every operation follows.
\<close>

section \<open>Well-formed tables\<close>

definition st_key :: "SubTracker \<Rightarrow> u16 \<times> u16" where
  "st_key st = (st_service_id st, st_event_id st)"

definition sd_wf :: "config \<Rightarrow> ServiceDiscovery \<Rightarrow> bool" where
  "sd_wf cfg sd \<longleftrightarrow>
     keyed pv_service_id (\<lambda>_. True) (MaxServices cfg) (sd_providers sd) \<and>
     keyed cn_service_id (\<lambda>_. True) (MaxKnownServices cfg) (sd_consumers sd) \<and>
     keyed st_key (\<lambda>_. True) (MAX_SUB_TRACKERS cfg) (sd_trackers sd) \<and>
     length (sd_local_addr sd) = TransportAddressSize cfg"

lemma sd_wf_init [simp]: "sd_wf cfg (sd_init cfg)"
  by (simp add: sd_wf_def sd_init_def keyed_empty)

lemma provider_is_key: "True \<Longrightarrow> provider_is sid p \<longleftrightarrow> pv_service_id p = sid"
  by (simp add: provider_is_def)

lemma consumer_is_key: "True \<Longrightarrow> consumer_is sid c \<longleftrightarrow> cn_service_id c = sid"
  by (simp add: consumer_is_def)

lemma tracker_is_key: "True \<Longrightarrow> tracker_is k st \<longleftrightarrow> st_key st = k"
  by (cases k) (auto simp: tracker_is_def st_key_def)

definition consumer_of :: "ServiceDiscovery \<Rightarrow> u16 \<Rightarrow> ConsumerEntry option" where
  "consumer_of sd = t_lookup cn_service_id (sd_consumers sd)"

definition tracker_of :: "ServiceDiscovery \<Rightarrow> u16 \<times> u16 \<Rightarrow> SubTracker option" where
  "tracker_of sd = t_lookup st_key (sd_trackers sd)"

definition provider_of :: "ServiceDiscovery \<Rightarrow> u16 \<Rightarrow> ProviderEntry option" where
  "provider_of sd = t_lookup pv_service_id (sd_providers sd)"

lemma find_consumer_lookup: "sd_wf cfg sd \<Longrightarrow> find_consumer sid sd = consumer_of sd sid"
  unfolding find_consumer_def sd_wf_def consumer_of_def
  by (elim conjE) (rule keyed_find_option [OF _ consumer_is_key])

lemma sd_wf_frames [simp]:
  "sd_wf cfg (sd\<lparr>sd_callbacks := cb\<rparr>) = sd_wf cfg sd"
  "sd_wf cfg (sd\<lparr>sd_client_id := cid\<rparr>) = sd_wf cfg sd"
  by (simp_all add: sd_wf_def)

text \<open>
  Filling a slot: the operations that start an offer, a search or a subscription update the entry
  of the key or append one.
\<close>

lemma keyed_fill:
  assumes K: "keyed key (\<lambda>_. True) cap t" and p: "\<And>x. True \<Longrightarrow> p x \<longleftrightarrow> key x = k"
    and f: "\<And>x. key (f x) = k"
    and t': "t' = (case t_find p t of Some i \<Rightarrow> t_upd i f t
      | None \<Rightarrow> if used t \<ge> cap then t else t_push (f (t_get t (used t))) t)"
  shows "keyed key (\<lambda>_. True) cap t'"
    and "k' \<noteq> k \<Longrightarrow> t_lookup key t' k' = t_lookup key t k'"
    and "t_lookup key t k \<noteq> None \<or> used t < cap \<Longrightarrow> \<exists>x. t_lookup key t' k = Some (f x) \<and>
      (t_lookup key t k = None \<or> t_lookup key t k = Some x)"
    and "\<not> (t_lookup key t k \<noteq> None \<or> used t < cap) \<Longrightarrow> t' = t"
proof -
  have all: "keyed key (\<lambda>_. True) cap t' \<and> (k' \<noteq> k \<longrightarrow> t_lookup key t' k' = t_lookup key t k') \<and>
    (t_lookup key t k \<noteq> None \<or> used t < cap \<longrightarrow> (\<exists>x. t_lookup key t' k = Some (f x) \<and>
      (t_lookup key t k = None \<or> t_lookup key t k = Some x))) \<and>
    (\<not> (t_lookup key t k \<noteq> None \<or> used t < cap) \<longrightarrow> t' = t)"
  proof (cases "t_find p t")
    case None
    note l = keyed_find_None [OF K p None]
    show ?thesis
    proof (cases "used t < cap")
      case True
      then show ?thesis
        using keyed_push [OF K _ _ True, of "f (t_get t (used t))"] None l f t' by auto
    next
      case False
      then show ?thesis using None K l t' by simp
    qed
  next
    case (Some i)
    note s = keyed_find_Some [OF K p Some]
    show ?thesis
      using keyed_upd [OF K s(2), of f] s Some f t' by auto
  qed
  show "keyed key (\<lambda>_. True) cap t'" using all by blast
  show "k' \<noteq> k \<Longrightarrow> t_lookup key t' k' = t_lookup key t k'" using all by blast
  show "t_lookup key t k \<noteq> None \<or> used t < cap \<Longrightarrow> \<exists>x. t_lookup key t' k = Some (f x) \<and>
      (t_lookup key t k = None \<or> t_lookup key t k = Some x)" using all by blast
  show "\<not> (t_lookup key t k \<noteq> None \<or> used t < cap) \<Longrightarrow> t' = t" using all by blast
qed

text \<open>Rewriting the entry of a key, when there is one.\<close>

lemma keyed_modify:
  assumes K: "keyed key (\<lambda>_. True) cap t" and p: "\<And>x. True \<Longrightarrow> p x \<longleftrightarrow> key x = k"
    and f: "\<And>x. key (f x) = key x"
    and t': "t' = (case t_find p t of Some i \<Rightarrow> t_upd i f t | None \<Rightarrow> t)"
  shows "keyed key (\<lambda>_. True) cap t'"
    and "t_lookup key t' = (t_lookup key t)(k := map_option f (t_lookup key t k))"
proof -
  have "keyed key (\<lambda>_. True) cap t' \<and>
    t_lookup key t' = (t_lookup key t)(k := map_option f (t_lookup key t k))"
  proof (cases "t_find p t")
    case None
    then have "t' = t" "t_lookup key t k = None" using keyed_find_None [OF K p None] t' by simp_all
    then show ?thesis using K by (auto simp: fun_eq_iff)
  next
    case (Some i)
    note s = keyed_find_Some [OF K p Some]
    show ?thesis using keyed_upd [OF K s(2), of f] s Some f t' by auto
  qed
  then show "keyed key (\<lambda>_. True) cap t'"
    and "t_lookup key t' = (t_lookup key t)(k := map_option f (t_lookup key t k))" by simp_all
qed

section \<open>The loops of the process cycle\<close>

definition offer_entry :: "u32 \<Rightarrow> ProviderEntry \<Rightarrow> ProviderEntry" where
  "offer_entry now_ms pe =
     (if pv_state pe = P_OFFERED \<and> offer_due now_ms pe
      then pe\<lparr>pv_last_offer_ms := now_ms, pv_needs_broadcast := False\<rparr> else pe)"

definition offer_emit :: "config \<Rightarrow> u32 \<Rightarrow> (bytes \<Rightarrow> 'w \<Rightarrow> 'w) \<Rightarrow> ServiceDiscovery \<Rightarrow> ProviderEntry \<Rightarrow> 'w \<Rightarrow> 'w" where
  "offer_emit cfg now_ms b sd pe w =
     (if pv_state pe = P_OFFERED \<and> offer_due now_ms pe then b (offer_message cfg sd pe) w else w)"

interpretation offers: slot_loop sd_providers "\<lambda>t sd. sd\<lparr>sd_providers := t\<rparr>" "offer_step cfg now_ms b"
  "\<lambda>sd. offer_entry now_ms" "offer_emit cfg now_ms b" for cfg now_ms b
proof
  fix i and sd :: ServiceDiscovery and w
  have "t_upd i (offer_entry now_ms) (sd_providers sd) =
    (if pv_state (t_get (sd_providers sd) i) = P_OFFERED \<and> offer_due now_ms (t_get (sd_providers sd) i)
     then t_upd i (\<lambda>pe. pe\<lparr>pv_last_offer_ms := now_ms, pv_needs_broadcast := False\<rparr>) (sd_providers sd)
     else sd_providers sd)"
    unfolding offer_entry_def by (rule t_upd_cond)
  then show "offer_step cfg now_ms b i (sd, w) =
      (sd\<lparr>sd_providers := t_upd i (offer_entry now_ms) (sd_providers sd)\<rparr>,
       offer_emit cfg now_ms b sd (t_get (sd_providers sd) i) w)"
    by (simp add: offer_step_def offer_emit_def Let_def)
next
  fix t :: "ProviderEntry tbl" and sd :: ServiceDiscovery
  show "offer_emit cfg now_ms b (sd\<lparr>sd_providers := t\<rparr>) = offer_emit cfg now_ms b sd"
    by (intro ext) (simp add: offer_emit_def offer_message_def)
qed simp_all

definition find_due :: "u32 \<Rightarrow> ConsumerEntry \<Rightarrow> bool" where
  "find_due now_ms ce \<longleftrightarrow> cn_state ce = C_SEARCHING \<and> time_after_or_eq now_ms (cn_next_retry_ms ce)"

definition find_entry :: "config \<Rightarrow> u32 \<Rightarrow> ServiceDiscovery \<Rightarrow> ConsumerEntry \<Rightarrow> ConsumerEntry" where
  "find_entry cfg now_ms sd ce =
     (if find_due now_ms ce then
        (if cn_retry_count ce + 1 > SdFindRetryCount cfg
         then ce\<lparr>cn_retry_count := cn_retry_count ce + 1, cn_state := C_NOT_FOUND\<rparr>
         else ce\<lparr>cn_retry_count := cn_retry_count ce + 1,
                cn_next_retry_ms := next_retry cfg (sd_client_id sd) (cn_service_id ce)
                  (cn_retry_count ce + 1) now_ms\<rparr>)
      else ce)"

definition find_emit ::
    "config \<Rightarrow> logger option \<Rightarrow> u32 \<Rightarrow> (effect list \<Rightarrow> 'w \<Rightarrow> 'w) \<Rightarrow> (bytes \<Rightarrow> 'w \<Rightarrow> 'w) \<Rightarrow>
       ServiceDiscovery \<Rightarrow> ConsumerEntry \<Rightarrow> 'w \<Rightarrow> 'w" where
  "find_emit cfg lg now_ms emit b sd ce w =
     (if find_due now_ms ce then
        (if cn_retry_count ce + 1 > SdFindRetryCount cfg
         then emit (if_logger (\<lambda>l. log_warn cfg l CatServiceDiscovery ''find_exhausted''
                      (cn_service_id ce) 0 (sd_client_id sd) (ucast (cn_retry_count ce + 1))) lg
                    @ call_lost (sd_callbacks sd) (cn_service_id ce)) (b (find_message sd ce) w)
         else b (find_message sd ce) w)
      else w)"

interpretation finds: slot_loop sd_consumers "\<lambda>t sd. sd\<lparr>sd_consumers := t\<rparr>"
  "find_step cfg lg now_ms emit b" "find_entry cfg now_ms" "find_emit cfg lg now_ms emit b"
  for cfg lg now_ms emit b
proof
  fix i and sd :: ServiceDiscovery and w
  let ?ce = "t_get (sd_consumers sd) i"
  show "find_step cfg lg now_ms emit b i (sd, w) =
      (sd\<lparr>sd_consumers := t_upd i (find_entry cfg now_ms sd) (sd_consumers sd)\<rparr>,
       find_emit cfg lg now_ms emit b sd ?ce w)"
  proof (cases "find_due now_ms ?ce")
    case False
    then have "t_upd i (find_entry cfg now_ms sd) (sd_consumers sd) = sd_consumers sd"
      using t_upd_cong [of "find_entry cfg now_ms sd" "sd_consumers sd" i "\<lambda>x. x"]
      by (simp add: find_entry_def t_upd_id)
    then show ?thesis using False by (simp add: find_step_def find_emit_def find_due_def Let_def)
  next
    case True
    have "t_upd i (find_entry cfg now_ms sd) (sd_consumers sd) =
        t_upd i (if cn_retry_count ?ce + 1 > SdFindRetryCount cfg
          then (\<lambda>ce. ce\<lparr>cn_retry_count := cn_retry_count ?ce + 1, cn_state := C_NOT_FOUND\<rparr>)
          else (\<lambda>ce. ce\<lparr>cn_retry_count := cn_retry_count ?ce + 1,
                cn_next_retry_ms := next_retry cfg (sd_client_id sd) (cn_service_id ce)
                  (cn_retry_count ?ce + 1) now_ms\<rparr>)) (sd_consumers sd)"
      by (rule t_upd_cong) (use True in \<open>simp add: find_entry_def\<close>)
    then show ?thesis using True by (simp add: find_step_def find_emit_def find_due_def Let_def)
  qed
next
  fix t :: "ConsumerEntry tbl" and sd :: ServiceDiscovery
  show "find_emit cfg lg now_ms emit b (sd\<lparr>sd_consumers := t\<rparr>) = find_emit cfg lg now_ms emit b sd"
    by (intro ext) (simp add: find_emit_def find_message_def)
  show "find_entry cfg now_ms (sd\<lparr>sd_consumers := t\<rparr>) = find_entry cfg now_ms sd"
    by (intro ext) (simp add: find_entry_def)
qed simp_all

definition ttl_over :: "u32 \<Rightarrow> ConsumerEntry \<Rightarrow> bool" where
  "ttl_over now_ms ce \<longleftrightarrow> cn_state ce = C_FOUND \<and> time_after now_ms (cn_ttl_expiry_ms ce)"

definition ttl_entry :: "u32 \<Rightarrow> ConsumerEntry \<Rightarrow> ConsumerEntry" where
  "ttl_entry now_ms ce =
     (if ttl_over now_ms ce then ce\<lparr>cn_state := C_NOT_FOUND, cn_session_valid := False\<rparr> else ce)"

definition ttl_emit ::
    "config \<Rightarrow> logger option \<Rightarrow> u32 \<Rightarrow> (effect list \<Rightarrow> 'w \<Rightarrow> 'w) \<Rightarrow> (addr \<Rightarrow> 'w \<Rightarrow> 'w) \<Rightarrow>
       ServiceDiscovery \<Rightarrow> ConsumerEntry \<Rightarrow> 'w \<Rightarrow> 'w" where
  "ttl_emit cfg lg now_ms emit expired sd ce w =
     (if ttl_over now_ms ce then
        emit (call_lost (sd_callbacks sd) (cn_service_id ce))
          (expired (cn_provider_addr ce)
            (emit (if_logger (\<lambda>l. log_warn cfg l CatServiceDiscovery ''ttl_expired''
                     (cn_service_id ce) 0 (sd_client_id sd) 0) lg) w))
      else w)"

interpretation ttls: slot_loop sd_consumers "\<lambda>t sd. sd\<lparr>sd_consumers := t\<rparr>"
  "ttl_step cfg lg now_ms emit expired" "\<lambda>sd. ttl_entry now_ms" "ttl_emit cfg lg now_ms emit expired"
  for cfg lg now_ms emit expired
proof
  fix i and sd :: ServiceDiscovery and w
  have "t_upd i (ttl_entry now_ms) (sd_consumers sd) =
    (if ttl_over now_ms (t_get (sd_consumers sd) i)
     then t_upd i (\<lambda>ce. ce\<lparr>cn_state := C_NOT_FOUND, cn_session_valid := False\<rparr>) (sd_consumers sd)
     else sd_consumers sd)"
    unfolding ttl_entry_def by (rule t_upd_cond)
  then show "ttl_step cfg lg now_ms emit expired i (sd, w) =
      (sd\<lparr>sd_consumers := t_upd i (ttl_entry now_ms) (sd_consumers sd)\<rparr>,
       ttl_emit cfg lg now_ms emit expired sd (t_get (sd_consumers sd) i) w)"
    by (simp add: ttl_step_def ttl_emit_def ttl_over_def Let_def)
next
  fix t :: "ConsumerEntry tbl" and sd :: ServiceDiscovery
  show "ttl_emit cfg lg now_ms emit expired (sd\<lparr>sd_consumers := t\<rparr>) = ttl_emit cfg lg now_ms emit expired sd"
    by (intro ext) (simp add: ttl_emit_def)
qed simp_all

text \<open>What a renewal round decides for one subscription.\<close>

datatype renewal = Rn_Keep | Rn_Unsubscribe | Rn_Initial | Rn_Renew | Rn_Retry | Rn_Give_Up

definition renewal_of :: "config \<Rightarrow> u32 \<Rightarrow> ServiceDiscovery \<Rightarrow> SubTracker \<Rightarrow> renewal" where
  "renewal_of cfg now_ms sd st =
     (if st_active st \<and> get_provider_address (st_service_id st) sd \<noteq> None then
        if st_needs_unsubscribe st then Rn_Unsubscribe
        else if st_needs_send st then Rn_Initial
        else if st_granted_ttl st > 0 then
          (if time_after_or_eq now_ms (st_last_sent_ms st + ucast (st_granted_ttl st) * 500)
           then Rn_Renew else Rn_Keep)
        else if time_after_or_eq now_ms (st_last_sent_ms st + ucast (SubscriptionTtlSeconds cfg) * 1000)
        then (if st_ack_retry_count st < 2 then Rn_Retry else Rn_Give_Up)
        else Rn_Keep
      else Rn_Keep)"

fun renewed :: "u32 \<Rightarrow> renewal \<Rightarrow> SubTracker \<Rightarrow> SubTracker" where
  "renewed now_ms Rn_Keep st = st"
| "renewed now_ms Rn_Unsubscribe st = st\<lparr>st_active := False, st_needs_unsubscribe := False\<rparr>"
| "renewed now_ms Rn_Initial st = st\<lparr>st_needs_send := False, st_last_sent_ms := now_ms\<rparr>"
| "renewed now_ms Rn_Renew st = st\<lparr>st_last_sent_ms := now_ms\<rparr>"
| "renewed now_ms Rn_Retry st =
     st\<lparr>st_last_sent_ms := now_ms, st_ack_retry_count := st_ack_retry_count st + 1\<rparr>"
| "renewed now_ms Rn_Give_Up st = st\<lparr>st_active := False\<rparr>"

definition renewal_entry :: "config \<Rightarrow> u32 \<Rightarrow> ServiceDiscovery \<Rightarrow> SubTracker \<Rightarrow> SubTracker" where
  "renewal_entry cfg now_ms sd st = renewed now_ms (renewal_of cfg now_ms sd st) st"

text \<open>The frame of a decision and its destination.\<close>

definition renewal_message :: "ServiceDiscovery \<Rightarrow> renewal \<Rightarrow> SubTracker \<Rightarrow> bytes option" where
  "renewal_message sd r st =
     (if r = Rn_Unsubscribe then Some (subscribe_message sd SD_UNSUBSCRIBE st 0)
      else if r \<in> {Rn_Initial, Rn_Renew, Rn_Retry}
      then Some (subscribe_message sd SD_SUBSCRIBE_EVENT st (st_requested_ttl st)) else None)"

definition renewal_emit ::
    "config \<Rightarrow> u32 \<Rightarrow> (addr \<Rightarrow> bytes \<Rightarrow> 'w \<Rightarrow> 'w) \<Rightarrow> ServiceDiscovery \<Rightarrow> SubTracker \<Rightarrow> 'w \<Rightarrow> 'w" where
  "renewal_emit cfg now_ms send sd st w =
     (case renewal_message sd (renewal_of cfg now_ms sd st) st of
        None \<Rightarrow> w
      | Some m \<Rightarrow> send (the (get_provider_address (st_service_id st) sd)) m w)"

interpretation renewals: slot_loop sd_trackers "\<lambda>t sd. sd\<lparr>sd_trackers := t\<rparr>"
  "renewal_step cfg now_ms send" "renewal_entry cfg now_ms" "renewal_emit cfg now_ms send"
  for cfg now_ms send
proof
  fix i and sd :: ServiceDiscovery and w
  let ?st = "t_get (sd_trackers sd) i" and ?r = "renewal_of cfg now_ms sd (t_get (sd_trackers sd) i)"
  have u: "t_upd i (renewal_entry cfg now_ms sd) (sd_trackers sd) = t_upd i f (sd_trackers sd)"
    if "renewed now_ms ?r ?st = f ?st" for f
    by (rule t_upd_cong) (simp add: renewal_entry_def that)
  show "renewal_step cfg now_ms send i (sd, w) =
      (sd\<lparr>sd_trackers := t_upd i (renewal_entry cfg now_ms sd) (sd_trackers sd)\<rparr>,
       renewal_emit cfg now_ms send sd ?st w)"
  proof (cases "st_active ?st \<and> get_provider_address (st_service_id ?st) sd \<noteq> None")
    case False
    then have r: "?r = Rn_Keep" by (auto simp: renewal_of_def)
    have "t_upd i (renewal_entry cfg now_ms sd) (sd_trackers sd) = sd_trackers sd"
      using u [of "\<lambda>x. x"] r by (simp add: t_upd_id)
    then show ?thesis using False r
      by (auto simp: renewal_step_def renewal_emit_def renewal_message_def Let_def
          get_provider_address_def split: option.splits if_splits)
  next
    case True
    then obtain ce where ce: "st_active ?st" "find_consumer (st_service_id ?st) sd = Some ce"
      "cn_state ce = C_FOUND"
      by (auto simp: get_provider_address_def split: option.splits if_splits)
    then have a: "get_provider_address (st_service_id ?st) sd = Some (cn_provider_addr ce)"
      by (simp add: get_provider_address_def)
    show ?thesis
    proof (cases ?r)
      case Rn_Keep
      then show ?thesis using ce a u [of "\<lambda>x. x"]
        by (auto simp: renewal_of_def renewal_step_def renewal_emit_def renewal_message_def Let_def
            t_upd_id split: if_splits)
    next
      case Rn_Unsubscribe
      then show ?thesis using ce a u [of "\<lambda>st. st\<lparr>st_active := False, st_needs_unsubscribe := False\<rparr>"]
        by (auto simp: renewal_of_def renewal_step_def renewal_emit_def renewal_message_def Let_def
            split: if_splits)
    next
      case Rn_Initial
      then show ?thesis using ce a u [of "\<lambda>st. st\<lparr>st_needs_send := False, st_last_sent_ms := now_ms\<rparr>"]
        by (auto simp: renewal_of_def renewal_step_def renewal_emit_def renewal_message_def Let_def
            send_subscribe_def split: if_splits)
    next
      case Rn_Renew
      then show ?thesis using ce a u [of "\<lambda>st. st\<lparr>st_last_sent_ms := now_ms\<rparr>"]
        by (auto simp: renewal_of_def renewal_step_def renewal_emit_def renewal_message_def Let_def
            send_subscribe_def split: if_splits)
    next
      case Rn_Retry
      then show ?thesis
        using ce a u [of "\<lambda>st. st\<lparr>st_last_sent_ms := now_ms, st_ack_retry_count := st_ack_retry_count st + 1\<rparr>"]
        by (auto simp: renewal_of_def renewal_step_def renewal_emit_def renewal_message_def Let_def
            send_subscribe_def split: if_splits)
    next
      case Rn_Give_Up
      then show ?thesis using ce a u [of "\<lambda>st. st\<lparr>st_active := False\<rparr>"]
        by (auto simp: renewal_of_def renewal_step_def renewal_emit_def renewal_message_def Let_def
            split: if_splits)
    qed
  qed
next
  fix t :: "SubTracker tbl" and sd :: ServiceDiscovery
  have "renewal_of cfg now_ms (sd\<lparr>sd_trackers := t\<rparr>) = renewal_of cfg now_ms sd"
    by (intro ext) (simp add: renewal_of_def get_provider_address_def find_consumer_def)
  then show "renewal_emit cfg now_ms send (sd\<lparr>sd_trackers := t\<rparr>) = renewal_emit cfg now_ms send sd"
    and "renewal_entry cfg now_ms (sd\<lparr>sd_trackers := t\<rparr>) = renewal_entry cfg now_ms sd"
    by (intro ext, simp add: renewal_emit_def renewal_entry_def renewal_message_def
        subscribe_message_def get_provider_address_def find_consumer_def)+
qed simp_all

end
