(* ===== verification/Sd_Operations.thy ===== *)
theory Sd_Operations
  imports Sd_State_Machine
begin

text \<open>
  What every operation of service discovery does to the three tables, and the two state machines of
  sections 4.5 and 4.6 of the protocol definition as inductive relations that the operations follow.
\<close>

section \<open>The loops\<close>

lemma sd_wf_tables:
  assumes "sd_wf cfg sd"
  shows "t_wf (MaxServices cfg) (sd_providers sd)" "t_wf (MaxKnownServices cfg) (sd_consumers sd)"
    "t_wf (MAX_SUB_TRACKERS cfg) (sd_trackers sd)"
  using assms keyed_wf by (auto simp: sd_wf_def)

lemma process_offers_run:
  "sd_wf cfg sd \<Longrightarrow> process_offers cfg now_ms b sd w =
     (sd\<lparr>sd_providers := map_slots (offer_entry now_ms) (sd_providers sd)\<rparr>,
      fold (offer_emit cfg now_ms b sd) (live (sd_providers sd)) w)"
  unfolding process_offers_def by (rule offers.run [OF sd_wf_tables(1)])

lemma process_finds_run:
  "sd_wf cfg sd \<Longrightarrow> process_finds cfg lg now_ms emit b sd w =
     (sd\<lparr>sd_consumers := map_slots (find_entry cfg now_ms sd) (sd_consumers sd)\<rparr>,
      fold (find_emit cfg lg now_ms emit b sd) (live (sd_consumers sd)) w)"
  unfolding process_finds_def by (rule finds.run [OF sd_wf_tables(2)])

lemma process_consumer_ttls_run:
  "sd_wf cfg sd \<Longrightarrow> process_consumer_ttls cfg lg now_ms emit expired sd w =
     (sd\<lparr>sd_consumers := map_slots (ttl_entry now_ms) (sd_consumers sd)\<rparr>,
      fold (ttl_emit cfg lg now_ms emit expired sd) (live (sd_consumers sd)) w)"
  unfolding process_consumer_ttls_def by (rule ttls.run [OF sd_wf_tables(2)])

lemma process_subscription_renewals_run:
  "sd_wf cfg sd \<Longrightarrow> process_subscription_renewals cfg now_ms send sd w =
     (sd\<lparr>sd_trackers := map_slots (renewal_entry cfg now_ms sd) (sd_trackers sd)\<rparr>,
      fold (renewal_emit cfg now_ms send sd) (live (sd_trackers sd)) w)"
  unfolding process_subscription_renewals_def by (rule renewals.run [OF sd_wf_tables(3)])

lemma st_key_renewed: "st_key (renewed now_ms r st) = st_key st"
  by (cases r) (simp_all add: st_key_def)

lemma process_keys:
  "pv_service_id (offer_entry now_ms pe) = pv_service_id pe"
  "cn_service_id (find_entry cfg now_ms sd ce) = cn_service_id ce"
  "cn_service_id (ttl_entry now_ms ce) = cn_service_id ce"
  "st_key (renewal_entry cfg now_ms sd st) = st_key st"
  by (simp_all add: offer_entry_def find_entry_def ttl_entry_def renewal_entry_def st_key_renewed)

lemma process_offers_wf:
  assumes "sd_wf cfg sd"
  shows "sd_wf cfg (fst (process_offers cfg now_ms b sd w))"
    and "provider_of (fst (process_offers cfg now_ms b sd w)) sid =
      map_option (offer_entry now_ms) (provider_of sd sid)"
    and "consumer_of (fst (process_offers cfg now_ms b sd w)) = consumer_of sd"
  using assms keyed_map_slots [where key = pv_service_id and act = "\<lambda>_. True"
      and f = "offer_entry now_ms" and t = "sd_providers sd" and cap = "MaxServices cfg"]
  by (simp_all add: process_offers_run sd_wf_def process_keys provider_of_def consumer_of_def)

lemma process_finds_wf:
  assumes "sd_wf cfg sd"
  shows "sd_wf cfg (fst (process_finds cfg lg now_ms emit b sd w))"
    and "consumer_of (fst (process_finds cfg lg now_ms emit b sd w)) sid =
      map_option (find_entry cfg now_ms sd) (consumer_of sd sid)"
  using assms keyed_map_slots [where key = cn_service_id and act = "\<lambda>_. True"
      and f = "find_entry cfg now_ms sd" and t = "sd_consumers sd" and cap = "MaxKnownServices cfg"]
  by (simp_all add: process_finds_run sd_wf_def process_keys consumer_of_def)

lemma process_consumer_ttls_wf:
  assumes "sd_wf cfg sd"
  shows "sd_wf cfg (fst (process_consumer_ttls cfg lg now_ms emit expired sd w))"
    and "consumer_of (fst (process_consumer_ttls cfg lg now_ms emit expired sd w)) sid =
      map_option (ttl_entry now_ms) (consumer_of sd sid)"
  using assms keyed_map_slots [where key = cn_service_id and act = "\<lambda>_. True"
      and f = "ttl_entry now_ms" and t = "sd_consumers sd" and cap = "MaxKnownServices cfg"]
  by (simp_all add: process_consumer_ttls_run sd_wf_def process_keys consumer_of_def)

lemma process_subscription_renewals_wf:
  assumes "sd_wf cfg sd"
  shows "sd_wf cfg (fst (process_subscription_renewals cfg now_ms send sd w))"
    and "tracker_of (fst (process_subscription_renewals cfg now_ms send sd w)) k =
      map_option (renewal_entry cfg now_ms sd) (tracker_of sd k)"
    and "consumer_of (fst (process_subscription_renewals cfg now_ms send sd w)) = consumer_of sd"
  using assms keyed_map_slots [where key = st_key and act = "\<lambda>_. True"
      and f = "renewal_entry cfg now_ms sd" and t = "sd_trackers sd" and cap = "MAX_SUB_TRACKERS cfg"]
  by (simp_all add: process_subscription_renewals_run sd_wf_def process_keys tracker_of_def consumer_of_def)

section \<open>The operations of the application\<close>

lemma option_distrib: "f (case x of None \<Rightarrow> a | Some y \<Rightarrow> b y) = (case x of None \<Rightarrow> f a | Some y \<Rightarrow> f (b y))"
  by (cases x) simp_all

text \<open>What \<open>find\<close> writes into the entry of the service.\<close>

definition searching :: "u16 \<Rightarrow> u8 \<Rightarrow> u32 \<Rightarrow> ConsumerEntry \<Rightarrow> ConsumerEntry" where
  "searching sid major now_ms ce =
     ce\<lparr> cn_service_id := sid, cn_expected_major := major, cn_state := C_SEARCHING,
         cn_retry_count := 0, cn_next_retry_ms := now_ms, cn_active := True, cn_ttl_expiry_ms := 0 \<rparr>"

lemma sd_find_tables:
  assumes "sd_wf cfg sd"
    and sd'_def: "sd' = fst (snd (sd_find cfg lg sid major now_ms sd))"
  shows "sd_wf cfg sd'"
    and "sid' \<noteq> sid \<Longrightarrow> consumer_of sd' sid' = consumer_of sd sid'"
    and "consumer_of sd sid \<noteq> None \<or> used (sd_consumers sd) < MaxKnownServices cfg \<Longrightarrow>
      \<exists>ce. consumer_of sd' sid = Some (searching sid major now_ms ce)"
    and "\<not> (consumer_of sd sid \<noteq> None \<or> used (sd_consumers sd) < MaxKnownServices cfg) \<Longrightarrow>
      consumer_of sd' = consumer_of sd"
proof -
  let ?t = "sd_consumers sd"
  define t' where "t' = (case t_find (consumer_is sid) ?t of Some i \<Rightarrow> t_upd i (searching sid major now_ms) ?t
    | None \<Rightarrow> if used ?t \<ge> MaxKnownServices cfg then ?t
      else t_push (searching sid major now_ms (t_get ?t (used ?t))) ?t)"
  have sd': "sd' = sd\<lparr>sd_consumers := t'\<rparr>"
    by (auto simp: sd'_def t'_def sd_find_def Let_def searching_def [abs_def] split: option.split)
  have K: "keyed cn_service_id (\<lambda>_. True) (MaxKnownServices cfg) ?t" using assms(1) by (simp add: sd_wf_def)
  have s: "cn_service_id (searching sid major now_ms ce) = sid" for ce by (simp add: searching_def)
  note F = keyed_fill [where f = "searching sid major now_ms" and p = "consumer_is sid", OF K consumer_is_key s t'_def]
  show "sd_wf cfg sd'" using assms(1) F(1) by (simp add: sd_wf_def sd')
  show "sid' \<noteq> sid \<Longrightarrow> consumer_of sd' sid' = consumer_of sd sid'"
    using F(2) [of sid'] by (simp add: consumer_of_def sd')
  show "consumer_of sd sid \<noteq> None \<or> used ?t < MaxKnownServices cfg \<Longrightarrow>
      \<exists>ce. consumer_of sd' sid = Some (searching sid major now_ms ce)"
    using F(3) unfolding consumer_of_def sd' by auto
  show "\<not> (consumer_of sd sid \<noteq> None \<or> used ?t < MaxKnownServices cfg) \<Longrightarrow>
      consumer_of sd' = consumer_of sd"
    using F(4) unfolding consumer_of_def sd' by auto
qed

definition offered :: "config \<Rightarrow> u16 \<Rightarrow> u16 \<Rightarrow> u8 \<Rightarrow> u8 \<Rightarrow> u16 \<Rightarrow> u32 \<Rightarrow> ProviderEntry \<Rightarrow> ProviderEntry" where
  "offered cfg client_id sid major minor ttl_seconds now_ms pe =
     pe\<lparr> pv_service_id := sid, pv_major_version := major, pv_minor_version := minor,
         pv_ttl_seconds := (if ttl_seconds > 0 then ttl_seconds else OfferTtlSeconds cfg),
         pv_session_id := generate_session_id client_id sid now_ms, pv_state := P_OFFERED,
         pv_last_offer_ms := now_ms, pv_active := True, pv_needs_broadcast := True \<rparr>"

lemma sd_offer_tables:
  assumes "sd_wf cfg sd"
    and sd'_def: "sd' = fst (snd (sd_offer cfg lg sid major minor ttl now_ms sd))"
  shows "sd_wf cfg sd'" and "consumer_of sd' = consumer_of sd"
    and "sid' \<noteq> sid \<Longrightarrow> provider_of sd' sid' = provider_of sd sid'"
    and "provider_of sd sid \<noteq> None \<or> used (sd_providers sd) < MaxServices cfg \<Longrightarrow>
      \<exists>pe. provider_of sd' sid = Some (offered cfg (sd_client_id sd) sid major minor ttl now_ms pe)"
    and "fst (sd_offer cfg lg sid major minor ttl now_ms sd) \<longleftrightarrow>
      provider_of sd sid \<noteq> None \<or> used (sd_providers sd) < MaxServices cfg"
proof -
  let ?t = "sd_providers sd" and ?f = "offered cfg (sd_client_id sd) sid major minor ttl now_ms"
  define t' where "t' = (case t_find (provider_is sid) ?t of Some i \<Rightarrow> t_upd i ?f ?t
    | None \<Rightarrow> if used ?t \<ge> MaxServices cfg then ?t else t_push (?f (t_get ?t (used ?t))) ?t)"
  have sd': "sd' = sd\<lparr>sd_providers := t'\<rparr>"
    by (auto simp: sd'_def t'_def sd_offer_def Let_def offered_def [abs_def] split: option.split)
  have K: "keyed pv_service_id (\<lambda>_. True) (MaxServices cfg) ?t" using assms(1) by (simp add: sd_wf_def)
  have s: "pv_service_id (?f pe) = sid" for pe by (simp add: offered_def)
  note F = keyed_fill [where f = ?f and p = "provider_is sid", OF K provider_is_key s t'_def]
  show "sd_wf cfg sd'" using assms(1) F(1) by (simp add: sd_wf_def sd')
  show "consumer_of sd' = consumer_of sd" by (simp add: consumer_of_def sd')
  show "sid' \<noteq> sid \<Longrightarrow> provider_of sd' sid' = provider_of sd sid'"
    using F(2) [of sid'] by (simp add: provider_of_def sd')
  show "provider_of sd sid \<noteq> None \<or> used ?t < MaxServices cfg \<Longrightarrow> \<exists>pe. provider_of sd' sid = Some (?f pe)"
    using F(3) unfolding provider_of_def sd' by auto
  have "provider_of sd sid = map_option (t_get ?t) (t_find (provider_is sid) ?t)"
    unfolding provider_of_def by (rule keyed_find_option [OF K provider_is_key, symmetric])
  then show "fst (sd_offer cfg lg sid major minor ttl now_ms sd) \<longleftrightarrow>
      provider_of sd sid \<noteq> None \<or> used ?t < MaxServices cfg"
    by (cases "t_find (provider_is sid) ?t") (auto simp: sd_offer_def Let_def)
qed

lemma sd_stop_offer_tables:
  assumes "sd_wf cfg sd"
    and sd'_def: "sd' = fst (sd_stop_offer cfg lg sid sd)"
  shows "sd_wf cfg sd'" and "consumer_of sd' = consumer_of sd"
    and "provider_of sd' = (provider_of sd)(sid :=
      map_option (\<lambda>pe. pe\<lparr>pv_state := P_NOT_OFFERED, pv_active := False\<rparr>) (provider_of sd sid))"
proof -
  let ?t = "sd_providers sd" and ?f = "\<lambda>pe. pe\<lparr>pv_state := P_NOT_OFFERED, pv_active := False\<rparr>"
  define t' where "t' = (case t_find (provider_is sid) ?t of Some i \<Rightarrow> t_upd i ?f ?t | None \<Rightarrow> ?t)"
  have sd': "sd' = sd\<lparr>sd_providers := t'\<rparr>"
    by (auto simp: sd'_def t'_def sd_stop_offer_def split: option.split)
  have K: "keyed pv_service_id (\<lambda>_. True) (MaxServices cfg) ?t" using assms(1) by (simp add: sd_wf_def)
  have s: "pv_service_id (?f pe) = pv_service_id pe" for pe by simp
  note F = keyed_modify [where f = ?f and p = "provider_is sid", OF K provider_is_key s t'_def]
  show "sd_wf cfg sd'" using assms(1) F(1) by (simp add: sd_wf_def sd')
  show "consumer_of sd' = consumer_of sd" by (simp add: consumer_of_def sd')
  show "provider_of sd' = (provider_of sd)(sid := map_option ?f (provider_of sd sid))"
    using F(2) by (simp add: provider_of_def sd')
qed

definition subscribed :: "u16 \<Rightarrow> u16 \<Rightarrow> u16 \<Rightarrow> u32 \<Rightarrow> SubTracker \<Rightarrow> SubTracker" where
  "subscribed sid eid ttl_seconds now_ms st =
     st\<lparr> st_service_id := sid, st_event_id := eid, st_requested_ttl := ttl_seconds,
         st_granted_ttl := 0, st_active := True, st_app_registered := True,
         st_needs_send := True, st_last_sent_ms := now_ms \<rparr>"

lemma sd_subscribe_tables:
  assumes "sd_wf cfg sd"
    and sd'_def: "sd' = snd (sd_subscribe_event cfg sid eid ttl now_ms sd)"
  shows "sd_wf cfg sd'" and "consumer_of sd' = consumer_of sd"
    and "k \<noteq> (sid, eid) \<Longrightarrow> tracker_of sd' k = tracker_of sd k"
    and "tracker_of sd (sid, eid) = Some st \<Longrightarrow>
      tracker_of sd' (sid, eid) = Some (subscribed sid eid ttl now_ms st)"
    and "tracker_of sd (sid, eid) \<noteq> None \<or> used (sd_trackers sd) < MAX_SUB_TRACKERS cfg \<Longrightarrow>
      \<exists>st. tracker_of sd' (sid, eid) = Some (subscribed sid eid ttl now_ms st)"
proof -
  let ?t = "sd_trackers sd" and ?f = "subscribed sid eid ttl now_ms"
  define t' where "t' = (case t_find (tracker_is (sid, eid)) ?t of Some i \<Rightarrow> t_upd i ?f ?t
    | None \<Rightarrow> if used ?t \<ge> MAX_SUB_TRACKERS cfg then ?t else t_push (?f (t_get ?t (used ?t))) ?t)"
  have sd': "sd' = sd\<lparr>sd_trackers := t'\<rparr>"
    by (auto simp: sd'_def t'_def sd_subscribe_event_def Let_def subscribed_def [abs_def] split: option.split)
  have K: "keyed st_key (\<lambda>_. True) (MAX_SUB_TRACKERS cfg) ?t" using assms(1) by (simp add: sd_wf_def)
  have s: "st_key (?f st) = (sid, eid)" for st by (simp add: subscribed_def st_key_def)
  note F = keyed_fill [where f = ?f and p = "tracker_is (sid, eid)", OF K tracker_is_key s t'_def]
  show "sd_wf cfg sd'" using assms(1) F(1) by (simp add: sd_wf_def sd')
  show "consumer_of sd' = consumer_of sd" by (simp add: consumer_of_def sd')
  show "k \<noteq> (sid, eid) \<Longrightarrow> tracker_of sd' k = tracker_of sd k"
    using F(2) [of k] by (simp add: tracker_of_def sd')
  show "tracker_of sd (sid, eid) = Some st \<Longrightarrow> tracker_of sd' (sid, eid) = Some (?f st)"
    using F(3) unfolding tracker_of_def sd' by auto
  show "tracker_of sd (sid, eid) \<noteq> None \<or> used ?t < MAX_SUB_TRACKERS cfg \<Longrightarrow>
      \<exists>st. tracker_of sd' (sid, eid) = Some (?f st)"
    using F(3) unfolding tracker_of_def sd' by auto
qed

lemma sd_unsubscribe_tables:
  assumes "sd_wf cfg sd"
    and sd'_def: "sd' = snd (sd_unsubscribe_event sid eid sd)"
  shows "sd_wf cfg sd'" and "consumer_of sd' = consumer_of sd"
    and "tracker_of sd' = (tracker_of sd)((sid, eid) :=
      map_option (\<lambda>st. st\<lparr>st_app_registered := False, st_needs_unsubscribe := True\<rparr>) (tracker_of sd (sid, eid)))"
proof -
  let ?t = "sd_trackers sd" and ?f = "\<lambda>st. st\<lparr>st_app_registered := False, st_needs_unsubscribe := True\<rparr>"
  define t' where "t' = (case t_find (tracker_is (sid, eid)) ?t of Some i \<Rightarrow> t_upd i ?f ?t | None \<Rightarrow> ?t)"
  have sd': "sd' = sd\<lparr>sd_trackers := t'\<rparr>"
    by (auto simp: sd'_def t'_def sd_unsubscribe_event_def split: option.split)
  have K: "keyed st_key (\<lambda>_. True) (MAX_SUB_TRACKERS cfg) ?t" using assms(1) by (simp add: sd_wf_def)
  have s: "st_key (?f st) = st_key st" for st by (simp add: st_key_def)
  note F = keyed_modify [where f = ?f and p = "tracker_is (sid, eid)", OF K tracker_is_key s t'_def]
  show "sd_wf cfg sd'" using assms(1) F(1) by (simp add: sd_wf_def sd')
  show "consumer_of sd' = consumer_of sd" by (simp add: consumer_of_def sd')
  show "tracker_of sd' = (tracker_of sd)((sid, eid) := map_option ?f (tracker_of sd (sid, eid)))"
    using F(2) by (simp add: tracker_of_def sd')
qed

section \<open>Incoming offers and acknowledgements\<close>

definition offer_seen :: "u8 \<Rightarrow> u16 \<Rightarrow> u16 \<Rightarrow> addr \<Rightarrow> u32 \<Rightarrow> ConsumerEntry \<Rightarrow> ConsumerEntry" where
  "offer_seen major ttl_seconds session_id provider now_ms ce =
     (if ttl_seconds \<noteq> 0 \<and> major = cn_expected_major ce
      then ce\<lparr> cn_provider_addr := provider, cn_ttl_expiry_ms := now_ms + ucast ttl_seconds * 1000,
               cn_session_id := session_id, cn_session_valid := True, cn_state := C_FOUND \<rparr>
      else ce)"

lemma flag_resubscribe_tables:
  assumes "sd_wf cfg sd"
  shows "sd_wf cfg (flag_resubscribe sid now_ms sd)"
    and "consumer_of (flag_resubscribe sid now_ms sd) = consumer_of sd"
    and "tracker_of (flag_resubscribe sid now_ms sd) k = map_option (\<lambda>st.
      if st_app_registered st \<and> st_service_id st = sid then resubscribe now_ms st else st) (tracker_of sd k)"
proof -
  let ?g = "\<lambda>st. if st_app_registered st \<and> st_service_id st = sid then resubscribe now_ms st else st"
  let ?t = "sd_trackers sd" and ?t' = "sd_trackers (flag_resubscribe sid now_ms sd)"
  have K: "keyed st_key (\<lambda>_. True) (MAX_SUB_TRACKERS cfg) ?t" using assms by (simp add: sd_wf_def)
  then have wf: "t_wf (MAX_SUB_TRACKERS cfg) ?t" by (rule keyed_wf)
  have l: "live ?t' = map ?g (live ?t)"
    using live_upd_each [OF wf, of "\<lambda>st. st_app_registered st \<and> st_service_id st = sid" "resubscribe now_ms"]
    by (simp add: flag_resubscribe_def)
  have wf': "t_wf (MAX_SUB_TRACKERS cfg) ?t'"
    using t_wf_upd_each [OF wf, of "\<lambda>st. st_app_registered st \<and> st_service_id st = sid" "resubscribe now_ms"]
    by (simp add: flag_resubscribe_def)
  have g: "st_key (?g st) = st_key st \<and> True" for st by (simp add: st_key_def resubscribe_def)
  note M = keyed_map [where key = st_key and act = "\<lambda>_. True" and g = ?g, OF K wf' l g]
  have f: "flag_resubscribe sid now_ms sd = sd\<lparr>sd_trackers := ?t'\<rparr>"
    by (simp add: flag_resubscribe_def)
  show "sd_wf cfg (flag_resubscribe sid now_ms sd)"
    using assms M(1) by (subst f) (simp add: sd_wf_def)
  show "consumer_of (flag_resubscribe sid now_ms sd) = consumer_of sd"
    by (subst f) (simp add: consumer_of_def)
  show "tracker_of (flag_resubscribe sid now_ms sd) k = map_option ?g (tracker_of sd k)"
    using M(2) by (simp add: tracker_of_def)
qed

lemma t_upd_upd: "i < length (slots t) \<Longrightarrow> t_upd i g (t_upd i f t) = t_upd i (\<lambda>x. g (f x)) t"
  by (simp add: t_upd_def)

lemma handle_offer_tables:
  assumes "sd_wf cfg sd"
    and sd'_def: "sd' = fst (handle_offer cfg lg sid major ttl session provider now_ms sd)"
  shows "sd_wf cfg sd'"
    and "consumer_of sd' = (consumer_of sd)(sid :=
      map_option (offer_seen major ttl session provider now_ms) (consumer_of sd sid))"
proof -
  let ?t = "sd_consumers sd" and ?f = "offer_seen major ttl session provider now_ms"
  define t' where "t' = (case t_find (consumer_is sid) ?t of Some i \<Rightarrow> t_upd i ?f ?t | None \<Rightarrow> ?t)"
  have K: "keyed cn_service_id (\<lambda>_. True) (MaxKnownServices cfg) ?t" using assms(1) by (simp add: sd_wf_def)
  have s: "cn_service_id (?f ce) = cn_service_id ce" for ce by (simp add: offer_seen_def)
  note F = keyed_modify [where f = ?f and p = "consumer_is sid", OF K consumer_is_key s t'_def]
  let ?sd = "sd\<lparr>sd_consumers := t'\<rparr>"
  have wf: "sd_wf cfg ?sd" using assms(1) F(1) by (simp add: sd_wf_def)
  have c: "consumer_of ?sd = (consumer_of sd)(sid := map_option ?f (consumer_of sd sid))"
    using F(2) by (simp add: consumer_of_def)
  have "sd' = ?sd \<or> sd' = flag_resubscribe sid now_ms ?sd"
  proof (cases "t_find (consumer_is sid) ?t")
    case None
    then show ?thesis by (simp add: sd'_def t'_def handle_offer_def)
  next
    case (Some i)
    let ?ce = "t_get ?t i"
    have i: "i < length (slots ?t)"
      using Some keyed_wf [OF K] by (simp add: t_find_Some t_wf_def)
    have skip: "t_upd i ?f ?t = ?t" if "ttl = 0 \<or> major \<noteq> cn_expected_major ?ce"
      using t_upd_cong [of ?f ?t i "\<lambda>x. x"] that by (auto simp: offer_seen_def t_upd_id)
    let ?f1 = "\<lambda>ce. ce\<lparr> cn_provider_addr := provider, cn_ttl_expiry_ms := now_ms + ucast ttl * 1000,
                        cn_session_id := session, cn_session_valid := True \<rparr>"
    have two: "t_upd i (\<lambda>ce. ce\<lparr>cn_state := C_FOUND\<rparr>) (t_upd i ?f1 ?t) = t_upd i ?f ?t"
      if "ttl \<noteq> 0" "major = cn_expected_major ?ce"
      unfolding t_upd_upd [OF i] by (rule t_upd_cong) (use that in \<open>simp add: offer_seen_def\<close>)
    have one: "t_upd i ?f1 ?t = t_upd i ?f ?t"
      if "ttl \<noteq> 0" "major = cn_expected_major ?ce" "cn_state ?ce = C_FOUND"
      by (rule t_upd_cong) (use that in \<open>cases ?ce; simp add: offer_seen_def\<close>)
    consider "ttl = 0 \<or> major \<noteq> cn_expected_major ?ce"
      | "ttl \<noteq> 0" "major = cn_expected_major ?ce" "cn_state ?ce \<noteq> C_FOUND"
      | "ttl \<noteq> 0" "major = cn_expected_major ?ce" "cn_state ?ce = C_FOUND" by blast
    then show ?thesis
    proof cases
      case 1
      then show ?thesis using Some skip by (auto simp: sd'_def t'_def handle_offer_def Let_def)
    next
      case 2
      then show ?thesis using Some two by (simp add: sd'_def t'_def handle_offer_def Let_def reboot_seen_def)
    next
      case 3
      then show ?thesis using Some one two by (simp add: sd'_def t'_def handle_offer_def Let_def)
    qed
  qed
  then show "sd_wf cfg sd'" and "consumer_of sd' = (consumer_of sd)(sid := map_option ?f (consumer_of sd sid))"
    using wf c flag_resubscribe_tables(1,2) [OF wf] by auto
qed

lemma handle_subscribe_ack_tables:
  assumes "sd_wf cfg sd"
    and sd'_def: "sd' = fst (handle_subscribe_ack cfg lg sid eid result granted sd)"
  shows "sd_wf cfg sd'" and "consumer_of sd' = consumer_of sd"
    and "tracker_of sd' = (tracker_of sd)((sid, eid) := map_option (\<lambda>st.
      if \<not> st_active st then st else if result = E_OK then st\<lparr>st_granted_ttl := granted\<rparr>
      else st\<lparr>st_active := False\<rparr>) (tracker_of sd (sid, eid)))"
proof -
  let ?t = "sd_trackers sd"
  define f :: "SubTracker \<Rightarrow> SubTracker" where "f = (\<lambda>st. if \<not> st_active st then st
      else if result = E_OK then st\<lparr>st_granted_ttl := granted\<rparr> else st\<lparr>st_active := False\<rparr>)"
  define t' where "t' = (case t_find (tracker_is (sid, eid)) ?t of Some i \<Rightarrow> t_upd i f ?t | None \<Rightarrow> ?t)"
  have K: "keyed st_key (\<lambda>_. True) (MAX_SUB_TRACKERS cfg) ?t" using assms(1) by (simp add: sd_wf_def)
  have s: "st_key (f st) = st_key st" for st by (simp add: f_def st_key_def)
  note F = keyed_modify [where f = f and p = "tracker_is (sid, eid)", OF K tracker_is_key s t'_def]
  have sd': "sd' = sd\<lparr>sd_trackers := t'\<rparr>"
  proof (cases "t_find (tracker_is (sid, eid)) ?t")
    case None
    then show ?thesis by (simp add: sd'_def t'_def handle_subscribe_ack_def)
  next
    case (Some i)
    have u: "t_upd i f ?t = t_upd i g ?t" if "f (t_get ?t i) = g (t_get ?t i)" for g
      by (rule t_upd_cong) (rule that)
    show ?thesis
      using Some u [of "\<lambda>x. x"] u [of "\<lambda>st. st\<lparr>st_granted_ttl := granted\<rparr>"] u [of "\<lambda>st. st\<lparr>st_active := False\<rparr>"]
      by (simp add: sd'_def t'_def f_def handle_subscribe_ack_def t_upd_id split: if_splits)
  qed
  show "sd_wf cfg sd'" using assms(1) F(1) by (simp add: sd_wf_def sd')
  show "consumer_of sd' = consumer_of sd" by (simp add: consumer_of_def sd')
  show "tracker_of sd' = (tracker_of sd)((sid, eid) := map_option (\<lambda>st.
      if \<not> st_active st then st else if result = E_OK then st\<lparr>st_granted_ttl := granted\<rparr>
      else st\<lparr>st_active := False\<rparr>) (tracker_of sd (sid, eid)))"
    using F(2) unfolding f_def by (simp add: tracker_of_def sd')
qed

end
