(* ===== verification/Sd_Reachability.thy ===== *)
theory Sd_Reachability
  imports Sd_Operations
begin

text \<open>
  The operations of service discovery as one step function, its reachable states, and what follows for single
  entries of its tables.
\<close>

section \<open>Operations and reachable states\<close>

datatype sd_op =
  Op_Offer u16 u8 u8 u16 u32
| Op_Stop_Offer u16
| Op_Find u16 u8 u32
| Op_Subscribe u16 u16 u16 u32
| Op_Unsubscribe u16 u16
| Op_Process_Offers u32
| Op_Process_Finds u32
| Op_Process_Ttls u32
| Op_Process_Renewals u32
| Op_Rx_Offer u16 u8 u16 u16 addr u32
| Op_Rx_Ack u16 u16 ReturnCode u16

fun sd_apply :: "config \<Rightarrow> sd_op \<Rightarrow> ServiceDiscovery \<Rightarrow> ServiceDiscovery" where
  "sd_apply cfg (Op_Offer sid major minor ttl now_ms) sd =
     fst (snd (sd_offer cfg None sid major minor ttl now_ms sd))"
| "sd_apply cfg (Op_Stop_Offer sid) sd = fst (sd_stop_offer cfg None sid sd)"
| "sd_apply cfg (Op_Find sid major now_ms) sd = fst (snd (sd_find cfg None sid major now_ms sd))"
| "sd_apply cfg (Op_Subscribe sid eid ttl now_ms) sd = snd (sd_subscribe_event cfg sid eid ttl now_ms sd)"
| "sd_apply cfg (Op_Unsubscribe sid eid) sd = snd (sd_unsubscribe_event sid eid sd)"
| "sd_apply cfg (Op_Process_Offers now_ms) sd = fst (process_offers cfg now_ms (\<lambda>_ w. w) sd ())"
| "sd_apply cfg (Op_Process_Finds now_ms) sd =
     fst (process_finds cfg None now_ms (\<lambda>_ w. w) (\<lambda>_ w. w) sd ())"
| "sd_apply cfg (Op_Process_Ttls now_ms) sd =
     fst (process_consumer_ttls cfg None now_ms (\<lambda>_ w. w) (\<lambda>_ w. w) sd ())"
| "sd_apply cfg (Op_Process_Renewals now_ms) sd =
     fst (process_subscription_renewals cfg now_ms (\<lambda>_ _ w. w) sd ())"
| "sd_apply cfg (Op_Rx_Offer sid major ttl session provider now_ms) sd =
     fst (handle_offer cfg None sid major ttl session provider now_ms sd)"
| "sd_apply cfg (Op_Rx_Ack sid eid result granted) sd =
     fst (handle_subscribe_ack cfg None sid eid result granted sd)"

inductive sd_reach :: "config \<Rightarrow> ServiceDiscovery \<Rightarrow> bool" for cfg where
  sd_start: "sd_reach cfg (sd_init cfg)"
| sd_client: "sd_reach cfg sd \<Longrightarrow> sd_reach cfg (sd\<lparr>sd_client_id := cid\<rparr>)"
| sd_address: "sd_reach cfg sd \<Longrightarrow> length a = TransportAddressSize cfg \<Longrightarrow>
    sd_reach cfg (sd\<lparr>sd_local_addr := a\<rparr>)"
| sd_callback: "sd_reach cfg sd \<Longrightarrow> sd_reach cfg (sd\<lparr>sd_callbacks := cb\<rparr>)"
| sd_step: "sd_reach cfg sd \<Longrightarrow> sd_reach cfg (sd_apply cfg op sd)"

lemma sd_apply_wf: "sd_wf cfg sd \<Longrightarrow> sd_wf cfg (sd_apply cfg op sd)"
  by (cases op)
    (simp_all add: sd_offer_tables(1) [OF _ refl] sd_stop_offer_tables(1) [OF _ refl]
      sd_find_tables(1) [OF _ refl] sd_subscribe_tables(1) [OF _ refl]
      sd_unsubscribe_tables(1) [OF _ refl] process_offers_wf(1) process_finds_wf(1)
      process_consumer_ttls_wf(1) process_subscription_renewals_wf(1)
      handle_offer_tables(1) [OF _ refl] handle_subscribe_ack_tables(1) [OF _ refl])

lemma sd_reach_wf: "sd_reach cfg sd \<Longrightarrow> sd_wf cfg sd"
proof (induction rule: sd_reach.induct)
  case (sd_address sd a)
  then show ?case by (simp add: sd_wf_def)
qed (simp_all add: sd_apply_wf)

section \<open>The consumer table\<close>

text \<open>The operations that touch it.\<close>

fun consumer_op :: "sd_op \<Rightarrow> bool" where
  "consumer_op (Op_Find _ _ _) = True"
| "consumer_op (Op_Rx_Offer _ _ _ _ _ _) = True"
| "consumer_op (Op_Process_Ttls _) = True"
| "consumer_op (Op_Process_Finds _) = True"
| "consumer_op _ = False"

lemma consumer_state_of:
  "sd_wf cfg sd \<Longrightarrow> get_consumer_state sid sd =
     (case consumer_of sd sid of None \<Rightarrow> C_NOT_FOUND | Some ce \<Rightarrow> cn_state ce)"
  by (simp add: get_consumer_state_def find_consumer_lookup)

lemma consumer_of_find:
  assumes "sd_wf cfg sd"
  shows "consumer_of (fst (snd (sd_find cfg lg sid major now_ms sd))) sid' = consumer_of sd sid' \<or>
    (\<exists>ce. consumer_of (fst (snd (sd_find cfg lg sid major now_ms sd))) sid' =
      Some (searching sid major now_ms ce))"
proof (cases "sid' = sid")
  case False
  then show ?thesis using sd_find_tables(2) [OF assms refl] by blast
next
  case True
  then show ?thesis
    using sd_find_tables(3,4) [OF assms refl, where sid = sid and lg = lg and major = major and now_ms = now_ms]
    by metis
qed

lemma sd_apply_same_consumers:
  assumes "sd_wf cfg sd" "\<not> consumer_op op"
  shows "consumer_of (sd_apply cfg op sd) = consumer_of sd"
  using assms by (cases op)
    (simp_all add: sd_offer_tables(2) [OF _ refl] sd_stop_offer_tables(2) [OF _ refl]
      sd_subscribe_tables(2) [OF _ refl] sd_unsubscribe_tables(2) [OF _ refl] process_offers_wf(3)
      process_subscription_renewals_wf(3) handle_subscribe_ack_tables(2) [OF _ refl])

section \<open>Retries, renewals and message lists\<close>

text \<open>How many searches one entry broadcasts when the loop runs at the given times.\<close>

fun find_sends :: "config \<Rightarrow> ServiceDiscovery \<Rightarrow> u32 list \<Rightarrow> ConsumerEntry \<Rightarrow> nat" where
  "find_sends cfg sd [] ce = 0"
| "find_sends cfg sd (now_ms # ts) ce =
     (if find_due now_ms ce then 1 else 0) + find_sends cfg sd ts (find_entry cfg now_ms sd ce)"

lemma find_sends_idle: "cn_state ce \<noteq> C_SEARCHING \<Longrightarrow> find_sends cfg sd ts ce = 0"
  by (induction ts) (simp_all add: find_due_def find_entry_def)

lemma find_sends_bound:
  "SdFindRetryCount cfg < 255 \<Longrightarrow> cn_retry_count ce \<le> SdFindRetryCount cfg \<Longrightarrow>
   find_sends cfg sd ts ce \<le> unat (SdFindRetryCount cfg) + 1 - unat (cn_retry_count ce)"
proof (induction ts arbitrary: ce)
  case (Cons now_ms ts)
  let ?n = "cn_retry_count ce"
  have le: "unat ?n \<le> unat (SdFindRetryCount cfg)" "unat (SdFindRetryCount cfg) < 255"
    using Cons.prems by (simp_all add: word_le_nat_alt word_less_nat_alt)
  then have suc: "unat (?n + 1) = unat ?n + 1"
    by (subst unat_word_ariths) (simp add: take_bit_eq_mod)
  consider (idle) "\<not> find_due now_ms ce" | (last) "find_due now_ms ce" "?n + 1 > SdFindRetryCount cfg"
    | (more) "find_due now_ms ce" "?n + 1 \<le> SdFindRetryCount cfg" by fastforce
  then show ?case
  proof cases
    case idle
    then show ?thesis using Cons by (simp add: find_entry_def)
  next
    case last
    then have "find_sends cfg sd ts (find_entry cfg now_ms sd ce) = 0"
      by (intro find_sends_idle) (simp add: find_entry_def)
    then show ?thesis using last le by simp
  next
    case more
    let ?ce = "find_entry cfg now_ms sd ce"
    have r: "cn_retry_count ?ce = ?n + 1" using more by (simp add: find_entry_def)
    have "find_sends cfg sd ts ?ce \<le> unat (SdFindRetryCount cfg) + 1 - unat (?n + 1)"
      using Cons.IH [of ?ce] Cons.prems(1) more(2) r by simp
    then show ?thesis using more(1) suc le by (simp add: word_le_nat_alt)
  qed
qed simp

text \<open>The frames of one round of the loops, in order.\<close>

lemma fold_if_filter: "fold (\<lambda>x w. if P x then f x w else w) xs w = fold f (filter P xs) w"
  by (induction xs arbitrary: w) simp_all

lemma fold_collect: "fold (\<lambda>x w. w @ [f x]) xs w = w @ map f xs"
  by (induction xs arbitrary: w) simp_all

lemma handle_find_run:
  assumes "sd_wf cfg sd"
  shows "handle_find cfg requested source send sd w =
    fold (\<lambda>pe. send source (offer_message cfg sd pe))
      (filter (\<lambda>pe. pv_state pe = P_OFFERED \<and> (requested = 0xFFFF \<or> pv_service_id pe = requested))
        (live (sd_providers sd))) w"
proof -
  let ?t = "sd_providers sd"
  have wf: "t_wf (MaxServices cfg) ?t" by (rule sd_wf_tables(1) [OF assms])
  have l: "live ?t = map (t_get ?t) [0..<used ?t]"
    using wf by (intro nth_equalityI) (simp_all add: length_live live_nth)
  show ?thesis
    unfolding handle_find_def Let_def fold_if_filter [symmetric] l fold_map comp_def
    by (rule fold_cong) (auto simp: fun_eq_iff)
qed

section \<open>Session ids and jitter\<close>

lemma session_id_nonzero: "generate_session_id cid sid now_ms \<noteq> 0"
  by (simp add: generate_session_id_def Let_def)

lemma jitter_bounds:
  assumes "SdFindJitterMs cfg < 2 ^ 30"
  shows "- uint (SdFindJitterMs cfg) \<le> compute_jitter cfg cid sid retry"
    and "compute_jitter cfg cid sid retry \<le> uint (SdFindJitterMs cfg)"
proof -
  let ?J = "SdFindJitterMs cfg"
  define n where "n = unat ?J"
  have n: "n < 2 ^ 30" using assms by (simp add: n_def word_less_nat_alt)
  have m: "unat (2 * ?J + 1) = 2 * n + 1"
  proof -
    have "2 * ?J + 1 = of_nat (2 * n + 1)" by (simp add: n_def)
    moreover have "2 * n + 1 < 2 ^ 32" using n by simp
    ultimately show ?thesis by (simp only: unat_of_nat_u32)
  qed
  have s: "sint (x mod (2 * ?J + 1)) = int (unat (x mod (2 * ?J + 1))) \<and>
      unat (x mod (2 * ?J + 1)) \<le> 2 * n" for x :: u32
  proof -
    have "unat (x mod (2 * ?J + 1)) = unat x mod (2 * n + 1)" by (simp add: unat_mod_distrib m)
    moreover have "unat x mod (2 * n + 1) < 2 * n + 1" by (rule mod_less_divisor) simp
    ultimately have "unat (x mod (2 * ?J + 1)) \<le> 2 * n" by linarith
    moreover have "2 * n < 2 ^ 31" using n by simp
    ultimately have "unat (x mod (2 * ?J + 1)) \<le> 2 * n" "unat (x mod (2 * ?J + 1)) < 2 ^ 31"
      by linarith+
    then show ?thesis by (simp only: sint_u32 if_True simp_thms)
  qed
  have j: "sint ?J = int n" using n by (simp only: sint_u32 n_def) simp
  have u: "uint ?J = int n" by (simp add: n_def)
  show "- uint ?J \<le> compute_jitter cfg cid sid retry" "compute_jitter cfg cid sid retry \<le> uint ?J"
    unfolding compute_jitter_def Let_def j u
    using s [of "(push_bit 16 (ucast cid) OR (ucast sid XOR ucast retry * 0x9E3779B9)) * 1103515245 + 12345"]
    by linarith+
qed

end
