(* ===== verification/Consumer_Machine.thy ===== *)
theory Consumer_Machine
  imports Sd_Reachability
begin

text \<open>
  What a consumer knows of one service, as an abstract machine after section 4.6 of the protocol definition.
  Its transitions name the conditions of the protocol: an offer counts if it is for the service, has
  the sought major version and does not announce the end of the service; a found service lapses when
  its time to live is over; a search ends with its last retry.  The table of the code, with its slots, flags and loops,
  refines it.
\<close>

section \<open>The machine\<close>

text \<open>A service is not known, or was sought and is not there, or is searched (how many searches have gone out, and the
  time of the next), or is found (provider, session id of the provider, end of its time to live).  The first
  argument is the major version that is sought.\<close>

datatype service_view =
  Unsought
| Absent u8
| Searched u8 u8 u32
| Present u8 addr u16 u32

fun view_major :: "service_view \<Rightarrow> u8 option" where
  "view_major Unsought = None"
| "view_major (Absent major) = Some major"
| "view_major (Searched major n next) = Some major"
| "view_major (Present major provider session expiry) = Some major"

fun view_state :: "service_view \<Rightarrow> ConsumerState" where
  "view_state Unsought = C_NOT_FOUND"
| "view_state (Absent major) = C_NOT_FOUND"
| "view_state (Searched major n next) = C_SEARCHING"
| "view_state (Present major provider session expiry) = C_FOUND"

fun view_provider :: "service_view \<Rightarrow> addr option" where
  "view_provider (Present major provider session expiry) = Some provider"
| "view_provider _ = None"

text \<open>An offer that a consumer of the service takes.\<close>

fun offer_taken :: "u16 \<Rightarrow> service_view \<Rightarrow> sd_op \<Rightarrow> bool" where
  "offer_taken sid v (Op_Rx_Offer s major ttl session provider now_ms) \<longleftrightarrow> s = sid \<and> ttl \<noteq> 0 \<and> view_major v = Some major"
| "offer_taken sid v _ \<longleftrightarrow> False"

text \<open>One operation, seen by the consumer of service \<open>sid\<close>; \<open>room\<close> says whether another service can be sought, and
  \<open>cid\<close> goes into the jitter of the search interval.\<close>

fun view_step :: "config \<Rightarrow> u16 \<Rightarrow> bool \<Rightarrow> u16 \<Rightarrow> sd_op \<Rightarrow> service_view \<Rightarrow> service_view" where
  "view_step cfg cid room sid (Op_Find s major now_ms) v =
     (if s = sid \<and> (v \<noteq> Unsought \<or> room) then Searched major 0 now_ms else v)"
| "view_step cfg cid room sid (Op_Rx_Offer s major ttl session provider now_ms) v =
     (if offer_taken sid v (Op_Rx_Offer s major ttl session provider now_ms)
      then Present major provider session (now_ms + ucast ttl * 1000) else v)"
| "view_step cfg cid room sid (Op_Process_Ttls now_ms) (Present major provider session expiry) =
     (if time_after now_ms expiry then Absent major else Present major provider session expiry)"
| "view_step cfg cid room sid (Op_Process_Finds now_ms) (Searched major n next) =
     (if \<not> time_after_or_eq now_ms next then Searched major n next
      else if n + 1 > SdFindRetryCount cfg then Absent major
      else Searched major (n + 1) (next_retry cfg cid sid (n + 1) now_ms))"
| "view_step cfg cid room sid op v = v"

text \<open>The transitions of the diagram of section 4.6.\<close>

inductive diagram_edge :: "ConsumerState \<Rightarrow> ConsumerState \<Rightarrow> bool" where
  edge_find: "diagram_edge C_NOT_FOUND C_SEARCHING"
| edge_retries: "diagram_edge C_SEARCHING C_NOT_FOUND"
| edge_offer: "diagram_edge C_SEARCHING C_FOUND"
| edge_ttl: "diagram_edge C_FOUND C_NOT_FOUND"

inductive_simps diagram_edge_simps [simp]: "diagram_edge s s'"

lemma view_step_edge:
  assumes "v' = view_step cfg cid room sid op v"
  shows "view_state v' = view_state v \<or> diagram_edge (view_state v) (view_state v') \<or>
     (\<exists>major now_ms. op = Op_Find sid major now_ms) \<and> view_state v = C_FOUND \<or>
     offer_taken sid v op \<and> view_state v = C_NOT_FOUND"
  unfolding assms by (cases op; cases v) auto

section \<open>The table refines the machine\<close>

definition view_of :: "ConsumerEntry option \<Rightarrow> service_view" where
  "view_of e = (case e of None \<Rightarrow> Unsought
     | Some ce \<Rightarrow> (case cn_state ce of
         C_NOT_FOUND \<Rightarrow> Absent (cn_expected_major ce)
       | C_SEARCHING \<Rightarrow> Searched (cn_expected_major ce) (cn_retry_count ce) (cn_next_retry_ms ce)
       | C_FOUND \<Rightarrow> Present (cn_expected_major ce) (cn_provider_addr ce) (cn_session_id ce) (cn_ttl_expiry_ms ce)))"

abbreviation service_view_of :: "u16 \<Rightarrow> ServiceDiscovery \<Rightarrow> service_view" where
  "service_view_of sid sd \<equiv> view_of (consumer_of sd sid)"

lemma view_of_Unsought [simp]: "view_of e = Unsought \<longleftrightarrow> e = None"
  by (simp add: view_of_def split: option.split ConsumerState.split)

lemma view_of_major: "view_major (view_of e) = map_option cn_expected_major e"
  by (simp add: view_of_def split: option.split ConsumerState.split)

lemma view_of_searching: "view_of (Some (searching sid major now_ms ce)) = Searched major 0 now_ms"
  by (simp add: view_of_def searching_def)

lemma view_of_offer:
  "view_of (map_option (offer_seen major ttl session provider now_ms) e) =
     (if ttl \<noteq> 0 \<and> view_major (view_of e) = Some major
      then Present major provider session (now_ms + ucast ttl * 1000) else view_of e)"
  by (cases e) (auto simp: view_of_major offer_seen_def, auto simp: view_of_def)

lemma view_of_ttl:
  "view_of (map_option (ttl_entry now_ms) e) = view_step cfg cid room sid (Op_Process_Ttls now_ms) (view_of e)"
  by (auto simp: view_of_def ttl_entry_def ttl_over_def split: option.split ConsumerState.split)

lemma view_of_finds:
  "(\<And>ce. e = Some ce \<Longrightarrow> cn_service_id ce = sid) \<Longrightarrow>
   view_of (map_option (find_entry cfg now_ms sd) e) =
     view_step cfg (sd_client_id sd) room sid (Op_Process_Finds now_ms) (view_of e)"
  by (auto simp: view_of_def find_entry_def find_due_def split: option.split ConsumerState.split)

lemma view_refines:
  assumes wf: "sd_wf cfg sd"
  shows "service_view_of sid (sd_apply cfg op sd) =
    view_step cfg (sd_client_id sd) (used (sd_consumers sd) < MaxKnownServices cfg) sid op (service_view_of sid sd)"
proof (cases "consumer_op op")
  case False
  then have "view_step cfg cid room sid op v = v" for cid room v by (cases op) simp_all
  then show ?thesis using sd_apply_same_consumers [OF wf False] by (simp del: sd_apply.simps)
next
  case True
  then show ?thesis
  proof (cases op)
    case (Op_Find s major now_ms)
    note F = sd_find_tables [OF wf refl, where sid = s and lg = None and major = major and now_ms = now_ms]
    show ?thesis
    proof (cases "sid = s")
      case False
      then show ?thesis using F(2) [of sid] Op_Find by simp
    next
      case True
      then show ?thesis
        using F(3,4) Op_Find by (cases "consumer_of sd s \<noteq> None \<or> used (sd_consumers sd) < MaxKnownServices cfg")
          (auto simp: view_of_searching)
    qed
  next
    case (Op_Rx_Offer s major ttl session provider now_ms)
    then show ?thesis
      using handle_offer_tables(2) [OF wf refl, of None s major ttl session provider now_ms]
      by (simp add: view_of_offer)
  next
    case (Op_Process_Ttls now_ms)
    then show ?thesis
      using process_consumer_ttls_wf(2) [OF wf, of None now_ms "\<lambda>_ w. w" "\<lambda>_ w. w" "()" sid]
      by (simp add: view_of_ttl)
  next
    case (Op_Process_Finds now_ms)
    have "cn_service_id ce = sid" if "consumer_of sd sid = Some ce" for ce
      using that by (auto simp: consumer_of_def t_lookup_def dest!: map_of_SomeD)
    then show ?thesis
      using process_finds_wf(2) [OF wf, of None now_ms "\<lambda>_ w. w" "\<lambda>_ w. w" "()" sid] Op_Process_Finds
      by (simp add: view_of_finds)
  qed simp_all
qed

lemma view_queries:
  assumes "sd_wf cfg sd"
  shows "get_consumer_state sid sd = view_state (service_view_of sid sd)"
    and "get_provider_address sid sd = view_provider (service_view_of sid sd)"
  using find_consumer_lookup [OF assms, of sid]
  by (auto simp: get_consumer_state_def get_provider_address_def view_of_def split: option.split ConsumerState.split)

section \<open>The history of a service\<close>

text \<open>The session ids of the offers taken in a run, in their order.\<close>

fun taken_sessions :: "config \<Rightarrow> u16 \<Rightarrow> sd_op list \<Rightarrow> ServiceDiscovery \<Rightarrow> u16 list" where
  "taken_sessions cfg sid [] sd = []"
| "taken_sessions cfg sid (op # ops) sd =
     (case op of
        Op_Rx_Offer s major ttl session provider now_ms \<Rightarrow>
          if offer_taken sid (service_view_of sid sd) op then [session] else []
      | _ \<Rightarrow> []) @ taken_sessions cfg sid ops (sd_apply cfg op sd)"

lemma taken_sessions_append:
  "taken_sessions cfg sid (ops @ ops') sd =
   taken_sessions cfg sid ops sd @ taken_sessions cfg sid ops' (fold (sd_apply cfg) ops sd)"
  by (induction ops arbitrary: sd) simp_all

text \<open>A present service has the session id of the offer taken last.\<close>

lemma present_session:
  assumes "sd_wf cfg sd" "service_view_of sid sd = Unsought"
    and "service_view_of sid (fold (sd_apply cfg) ops sd) = Present major provider session expiry"
  shows "\<exists>ss. taken_sessions cfg sid ops sd = ss @ [session]"
  using assms(3)
proof (induction ops arbitrary: major provider session expiry rule: rev_induct)
  case Nil
  then show ?case using assms(2) by simp
next
  case (snoc op ops)
  let ?sd = "fold (sd_apply cfg) ops sd"
  have wf: "sd_wf cfg ?sd" using assms(1) by (induction ops rule: rev_induct) (simp_all add: sd_apply_wf)
  note step = view_refines [OF wf, where sid = sid and op = op]
  have s: "view_step cfg (sd_client_id ?sd) (used (sd_consumers ?sd) < MaxKnownServices cfg) sid op (service_view_of sid ?sd) =
      Present major provider session expiry"
    using snoc.prems step by simp
  show ?case
  proof (cases "offer_taken sid (service_view_of sid ?sd) op")
    case True
    then show ?thesis using s by (cases op) (auto simp: taken_sessions_append)
  next
    case False
    then have "\<exists>expiry. service_view_of sid ?sd = Present major provider session expiry"
      using s by (cases op; cases "service_view_of sid ?sd") (auto split: if_splits)
    moreover have "taken_sessions cfg sid (ops @ [op]) sd = taken_sessions cfg sid ops sd"
      using False by (cases op) (simp_all add: taken_sessions_append)
    ultimately show ?thesis using snoc.IH by auto
  qed
qed

end
