(* ===== verification/Sd_Properties.thy ===== *)
theory Sd_Properties
  imports Consumer_Machine
begin

text \<open>
  The properties of service discovery: the consumer state machine, reboot detection and
  resubscription, time to live, the number of searches, the announcement period, and two places
  where the code is weaker than its description.
\<close>

section \<open>Facts about reachable states\<close>

lemma found_has_session:
  "sd_reach cfg sd \<Longrightarrow> consumer_of sd sid = Some ce \<Longrightarrow> cn_state ce = C_FOUND \<Longrightarrow> cn_session_valid ce"
proof (induction arbitrary: ce rule: sd_reach.induct)
  case (sd_step sd op)
  note wf = sd_reach_wf [OF sd_step.hyps]
  show ?case
  proof (cases "consumer_op op")
    case False
    then show ?thesis using sd_step sd_apply_same_consumers [OF wf] by simp
  next
    case True
    then show ?thesis
    proof (cases op)
      case (Op_Find s major now_ms)
      then show ?thesis
        using consumer_of_find [OF wf, of None s major now_ms sid] sd_step by (auto simp: searching_def)
    next
      case (Op_Rx_Offer s major ttl session provider now_ms)
      then show ?thesis
        using handle_offer_tables(2) [OF wf refl] sd_step by (auto simp: offer_seen_def split: if_splits)
    next
      case (Op_Process_Ttls now_ms)
      then show ?thesis
        using process_consumer_ttls_wf(2) [OF wf, of None now_ms "\<lambda>_ w. w" "\<lambda>_ w. w" "()" sid] sd_step
        by (auto simp: ttl_entry_def split: if_splits)
    next
      case (Op_Process_Finds now_ms)
      then show ?thesis
        using process_finds_wf(2) [OF wf, of None now_ms "\<lambda>_ w. w" "\<lambda>_ w. w" "()" sid] sd_step
        by (auto simp: find_entry_def find_due_def split: if_splits)
    qed auto
  qed
qed (auto simp: consumer_of_def sd_init_def t_lookup_empty)

lemma get_provider_address_of:
  "sd_wf cfg sd \<Longrightarrow> get_provider_address sid sd =
     (case consumer_of sd sid of None \<Rightarrow> None
      | Some ce \<Rightarrow> if cn_state ce = C_FOUND then Some (cn_provider_addr ce) else None)"
  by (simp add: get_provider_address_def find_consumer_lookup)

lemma consumer_slot:
  assumes "sd_wf cfg sd" "consumer_of sd sid = Some ce"
  obtains i where "t_find (consumer_is sid) (sd_consumers sd) = Some i" "t_get (sd_consumers sd) i = ce"
  using assms(2) find_consumer_lookup [OF assms(1), of sid]
  by (auto simp: find_consumer_def)

lemma flag_resubscribe_trackers:
  "sd_trackers sd' = sd_trackers sd \<Longrightarrow>
   tracker_of (flag_resubscribe sid now_ms sd') = tracker_of (flag_resubscribe sid now_ms sd)"
  by (simp add: tracker_of_def flag_resubscribe_def)

lemma tracker_of_key: "tracker_of sd k = Some st \<Longrightarrow> st_service_id st = fst k"
  by (cases k) (auto simp: tracker_of_def st_key_def simp: t_lookup_def dest!: map_of_SomeD)

lemma visible_calls: "visible (call_lost cb sid) = call_lost cb sid"
  "visible (call_found cb sid a) = call_found cb sid a"
  by (simp_all add: call_lost_def call_found_def split: option.split)

lemma ttl_ms: "ucast (ttl :: u16) * 1000 = (of_nat (unat ttl * 1000) :: u32)" "unat ttl * 1000 < 2 ^ 31"
  "ucast ttl * 500 = (of_nat (unat ttl * 500) :: u32)" "unat ttl * 500 < 2 ^ 31"
proof -
  have "unat ttl < 2 ^ 16" using unsigned_less [of ttl, where ?'a = nat] by simp
  then show "unat ttl * 1000 < 2 ^ 31" "unat ttl * 500 < 2 ^ 31" by simp_all
qed simp_all

text \<open>A small discovery state for the witnesses: one search, answered by one offer.\<close>

definition demo_ops :: "sd_op list" where
  "demo_ops = [Op_Find 0x1000 1 50, Op_Rx_Offer 0x1000 1 5 77 [9] 100]"

definition demo_sd :: ServiceDiscovery where
  "demo_sd = fold (sd_apply EmbeddedConfig) demo_ops (sd_init EmbeddedConfig)"

lemma demo_reach: "sd_reach EmbeddedConfig demo_sd"
  by (simp add: demo_sd_def demo_ops_def sd_start sd_step del: sd_apply.simps)

lemma demo_consumer:
  "consumer_of demo_sd 0x1000 = Some ((default_consumer EmbeddedConfig)
     \<lparr> cn_service_id := 0x1000, cn_expected_major := 1, cn_state := C_FOUND, cn_provider_addr := [9],
       cn_ttl_expiry_ms := 5100, cn_next_retry_ms := 50, cn_active := True, cn_session_id := 77,
       cn_session_valid := True \<rparr>)"
  by code_simp

section \<open>The consumer\<close>

text \<open>C20: Each operation changes what a consumer knows of a service as the abstract machine of the protocol does: a
  call of \<open>find\<close> for the service starts a search, if the table has room; an offer is taken if it is for the
  service, has the sought major version and a time to live, and sets provider, session id and expiry; a search
  that is due sends and counts, and is given up after the last retry; a found service lapses when its time to live is
  over; nothing else changes anything.  The answers given to the application are those of the machine.  Each
  change of state is an edge of the diagram of section 4.6, or one of two that the diagram lacks: a call of
  \<open>find\<close> for a service that is found, and an offer taken for a service that was sought and is not there.\<close>

theorem consumer_follows_state_machine:
  assumes "sd_reach cfg sd" "v = service_view_of sid sd" "v' = service_view_of sid (sd_apply cfg op sd)"
  shows "v' = view_step cfg (sd_client_id sd) (used (sd_consumers sd) < MaxKnownServices cfg) sid op v \<and>
    get_consumer_state sid sd = view_state v \<and> get_provider_address sid sd = view_provider v \<and>
    (view_state v' = view_state v \<or> diagram_edge (view_state v) (view_state v') \<or>
     (\<exists>major now_ms. op = Op_Find sid major now_ms) \<and> view_state v = C_FOUND \<or>
     offer_taken sid v op \<and> view_state v = C_NOT_FOUND)"
proof -
  note wf = sd_reach_wf [OF assms(1)]
  have step: "v' = view_step cfg (sd_client_id sd) (used (sd_consumers sd) < MaxKnownServices cfg) sid op v"
    unfolding assms(2,3) by (rule view_refines [OF wf])
  then show ?thesis
    using view_queries [OF wf, of sid] view_step_edge [OF step] unfolding assms(2) by blast
qed

theorem consumer_follows_state_machine_witness:
  "service_view_of 0x1000 (sd_apply EmbeddedConfig (Op_Process_Ttls 5101) demo_sd) = Absent 1"
proof -
  have "service_view_of 0x1000 demo_sd = Present 1 [9] 77 5100" by (simp add: view_of_def demo_consumer)
  then show ?thesis
    using consumer_follows_state_machine [OF demo_reach refl refl, where sid = "0x1000" and op = "Op_Process_Ttls 5101"]
    by (simp add: time_after_def del: sd_apply.simps)
qed

text \<open>C21: Reboot detection is exact: after any run of operations, an offer is seen as the sign of a reboot if and only if
  the service is found and the last offer for it that was taken in the run, of all those heard, had another
  session id; and a service is only ever found if an offer was taken.\<close>

theorem reboot_detection_exact:
  assumes "length a = TransportAddressSize cfg"
    and "sd0 = (sd_init cfg)\<lparr>sd_client_id := cid, sd_local_addr := a, sd_callbacks := cb\<rparr>"
    and "sd = fold (sd_apply cfg) ops sd0" "taken = taken_sessions cfg sid ops sd0"
  shows "(detect_reboot sid session sd \<longleftrightarrow> get_consumer_state sid sd = C_FOUND \<and> last taken \<noteq> session) \<and>
    (get_consumer_state sid sd = C_FOUND \<longrightarrow> taken \<noteq> [])"
proof -
  have r0: "sd_reach cfg sd0"
    unfolding assms(2) using sd_callback [OF sd_address [OF sd_client [OF sd_start] assms(1)]] by simp
  then have r: "sd_reach cfg sd"
    unfolding assms(3) by (induction ops rule: rev_induct) (simp_all add: sd_step del: sd_apply.simps)
  have none: "service_view_of sid sd0 = Unsought" by (simp add: assms(2) consumer_of_def sd_init_def t_lookup_empty)
  show ?thesis
  proof (cases "get_consumer_state sid sd = C_FOUND")
    case False
    then show ?thesis
      using find_consumer_lookup [OF sd_reach_wf [OF r], of sid]
      by (auto simp: detect_reboot_def reboot_seen_def get_consumer_state_def split: option.splits)
  next
    case True
    then obtain ce where ce: "consumer_of sd sid = Some ce" "cn_state ce = C_FOUND"
      using consumer_state_of [OF sd_reach_wf [OF r], of sid] by (auto split: option.splits)
    have "\<exists>ss. taken = ss @ [cn_session_id ce]"
      unfolding assms(4) by (rule present_session [OF sd_reach_wf [OF r0] none])
        (simp add: assms(3) [symmetric] ce view_of_def)
    then show ?thesis
      using True found_has_session [OF r ce] ce find_consumer_lookup [OF sd_reach_wf [OF r], of sid]
      by (auto simp: detect_reboot_def reboot_seen_def)
  qed
qed

theorem reboot_detection_exact_witness: "detect_reboot 0x1000 78 demo_sd"
proof -
  have "demo_sd = fold (sd_apply EmbeddedConfig) demo_ops
      ((sd_init EmbeddedConfig)\<lparr>sd_client_id := 0, sd_local_addr := zero_addr EmbeddedConfig, sd_callbacks := default_callbacks\<rparr>)"
    by (simp add: demo_sd_def sd_init_def)
  moreover have "taken_sessions EmbeddedConfig 0x1000 demo_ops
      ((sd_init EmbeddedConfig)\<lparr>sd_client_id := 0, sd_local_addr := zero_addr EmbeddedConfig, sd_callbacks := default_callbacks\<rparr>) = [77]"
    by code_simp
  moreover have "length (zero_addr EmbeddedConfig) = TransportAddressSize EmbeddedConfig" by code_simp
  moreover have "get_consumer_state 0x1000 demo_sd = C_FOUND" by code_simp
  ultimately show ?thesis
    using reboot_detection_exact [where a = "zero_addr EmbeddedConfig" and cfg = EmbeddedConfig and cid = 0
        and cb = default_callbacks and sd = demo_sd and ops = demo_ops and taken = "[77]" and sid = "0x1000" and session = 78,
        OF _ refl] by simp
qed

text \<open>A renewal round that collects its messages.\<close>

definition renewal_messages :: "config \<Rightarrow> u32 \<Rightarrow> ServiceDiscovery \<Rightarrow> (addr \<times> bytes) list" where
  "renewal_messages cfg now_ms sd = snd (process_subscription_renewals cfg now_ms (\<lambda>a m ms. ms @ [(a, m)]) sd [])"

lemma renewal_asks:
  assumes "sd_wf cfg sd" "tracker_of sd k = Some st" "renewal_of cfg now_ms sd st = Rn_Initial"
    and "get_provider_address (fst k) sd = Some a"
  shows "(a, subscribe_message sd SD_SUBSCRIBE_EVENT st (st_requested_ttl st)) \<in> set (renewal_messages cfg now_ms sd)"
proof -
  let ?f = "renewal_emit cfg now_ms (\<lambda>a m ms. ms @ [(a, m)]) sd"
  have one: "\<exists>ms'. ?f x ms = ms @ ms'" for x ms by (simp add: renewal_emit_def split: option.split)
  have grows: "\<exists>ms'. fold ?f sts ms = ms @ ms'" for sts ms
  proof (induction sts arbitrary: ms)
    case (Cons x sts)
    obtain ms' where "?f x ms = ms @ ms'" using one by blast
    then show ?case using Cons.IH [of "ms @ ms'"] by auto
  qed simp
  have "st \<in> set (live (sd_trackers sd))"
    using assms(2) by (cases k) (auto simp: tracker_of_def t_lookup_def dest!: map_of_SomeD)
  then obtain xs ys where l: "live (sd_trackers sd) = xs @ st # ys" by (meson split_list)
  have "?f st ms = ms @ [(a, subscribe_message sd SD_SUBSCRIBE_EVENT st (st_requested_ttl st))]" for ms
    using assms(3,4) tracker_of_key [OF assms(2)] by (simp add: renewal_emit_def renewal_message_def)
  then have "(a, subscribe_message sd SD_SUBSCRIBE_EVENT st (st_requested_ttl st)) \<in> set (fold ?f (st # ys) ms)" for ms
    using grows [of ys "?f st ms"] by auto
  then show ?thesis by (simp add: renewal_messages_def process_subscription_renewals_run [OF assms(1)] l)
qed

text \<open>C22: An offer of a found service with a new session id or from a new address makes the offering
  peer the provider and reports the service as found again (after reporting it lost when it was a
  reboot).  Every subscription of the application to that service is put back to its start (active, to be sent, no
  granted time, no retries used), the others stay as they are, and the next round of renewals, whenever it runs,
  sends a subscribe message with the requested time to live to the new provider for each
  of them that the application has not asked to cancel.\<close>

theorem reboot_offer_resubscribes:
  assumes "sd_reach cfg sd" "consumer_of sd sid = Some ce" "cn_state ce = C_FOUND"
    and "ttl \<noteq> 0" "major = cn_expected_major ce" "cn_session_id ce \<noteq> session \<or> cn_provider_addr ce \<noteq> provider"
    and "handle_offer cfg lg sid major ttl session provider now_ms sd = (sd', out)"
  shows "get_provider_address sid sd' = Some provider \<and>
    visible out = (if cn_session_id ce \<noteq> session then call_lost (sd_callbacks sd) sid else []) @
      call_found (sd_callbacks sd) sid provider \<and>
    tracker_of sd' = (\<lambda>k. map_option (\<lambda>st. if st_app_registered st \<and> fst k = sid
      then st\<lparr>st_active := True, st_needs_send := True, st_granted_ttl := 0, st_ack_retry_count := 0, st_last_sent_ms := now_ms\<rparr>
      else st) (tracker_of sd k)) \<and>
    (\<forall>eid st later. tracker_of sd (sid, eid) = Some st \<longrightarrow> st_app_registered st \<longrightarrow> \<not> st_needs_unsubscribe st \<longrightarrow>
      (provider, subscribe_message sd SD_SUBSCRIBE_EVENT st (st_requested_ttl st)) \<in> set (renewal_messages cfg later sd'))"
proof -
  note wf = sd_reach_wf [OF assms(1)]
  obtain i where i: "t_find (consumer_is sid) (sd_consumers sd) = Some i" "t_get (sd_consumers sd) i = ce"
    using consumer_slot [OF wf assms(2)] .
  have r: "reboot_seen ce session \<longleftrightarrow> cn_session_id ce \<noteq> session"
    using found_has_session [OF assms(1-3)] assms(3) by (simp add: reboot_seen_def)
  have sd': "sd' = fst (handle_offer cfg lg sid major ttl session provider now_ms sd)" by (simp add: assms(7))
  note T = handle_offer_tables [OF wf sd']
  have P: "get_provider_address sid sd' = Some provider"
    using assms(2,4,5) by (simp add: get_provider_address_of [OF T(1)] T(2) offer_seen_def)
  have "tracker_of sd' = tracker_of (flag_resubscribe sid now_ms sd)"
    using assms(3-6) i r by (auto simp: sd' handle_offer_def Let_def intro!: flag_resubscribe_trackers)
  then have R: "tracker_of sd' = (\<lambda>k. map_option (\<lambda>st. if st_app_registered st \<and> fst k = sid
      then st\<lparr>st_active := True, st_needs_send := True, st_granted_ttl := 0, st_ack_retry_count := 0, st_last_sent_ms := now_ms\<rparr>
      else st) (tracker_of sd k))"
    using tracker_of_key [of sd]
    by (auto simp: fun_eq_iff flag_resubscribe_tables(3) [OF wf] resubscribe_def intro!: option.map_cong)
  have cid: "sd_client_id sd' = sd_client_id sd"
    by (simp add: sd' handle_offer_def Let_def flag_resubscribe_def split: option.split)
  have "(provider, subscribe_message sd SD_SUBSCRIBE_EVENT st (st_requested_ttl st)) \<in> set (renewal_messages cfg later sd')"
    if st: "tracker_of sd (sid, eid) = Some st" "st_app_registered st" "\<not> st_needs_unsubscribe st" for eid st later
  proof -
    let ?st = "st\<lparr>st_active := True, st_needs_send := True, st_granted_ttl := 0, st_ack_retry_count := 0, st_last_sent_ms := now_ms\<rparr>"
    have t: "tracker_of sd' (sid, eid) = Some ?st" using st by (simp add: R)
    have "renewal_of cfg later sd' ?st = Rn_Initial"
      using st(3) tracker_of_key [OF st(1)] P by (simp add: renewal_of_def)
    then show ?thesis using renewal_asks [OF T(1) t] P by (simp add: subscribe_message_def cid)
  qed
  moreover have "visible out = (if cn_session_id ce \<noteq> session then call_lost (sd_callbacks sd) sid else []) @
      call_found (sd_callbacks sd) sid provider"
    using assms(3-7) i r by (auto simp: handle_offer_def Let_def visible_calls)
  ultimately show ?thesis using P R by blast
qed

theorem reboot_offer_resubscribes_witness:
  "get_provider_address 0x1000 (sd_apply EmbeddedConfig (Op_Rx_Offer 0x1000 1 5 78 [8] 200) demo_sd) = Some [8]"
proof -
  obtain sd' out where h: "handle_offer EmbeddedConfig None 0x1000 1 5 78 [8] 200 demo_sd = (sd', out)"
    using prod.exhaust by blast
  have "get_provider_address 0x1000 sd' = Some [8]"
    using reboot_offer_resubscribes [OF demo_reach demo_consumer _ _ _ _ h] by simp
  then show ?thesis by (simp add: h)
qed

text \<open>A service found by an offer at time \<open>t0\<close> with a time to live of \<open>ttl\<close> seconds keeps its
  provider address through the expiry check \<open>e\<close> milliseconds later exactly when \<open>e\<close> is at most
  \<open>ttl\<close> seconds, also across the wrap of the 32-bit clock.\<close>

theorem offer_time_to_live:
  assumes "sd_reach cfg sd" "consumer_of sd sid = Some ce"
    and "ttl \<noteq> 0" "major = cn_expected_major ce" "e < 2 ^ 31"
    and "sd' = sd_apply cfg (Op_Rx_Offer sid major ttl session provider t0) sd"
  shows "get_provider_address sid (sd_apply cfg (Op_Process_Ttls (t0 + of_nat e)) sd') =
    (if e \<le> unat ttl * 1000 then Some provider else None)"
proof -
  have wf': "sd_wf cfg sd'" using sd_apply_wf [OF sd_reach_wf [OF assms(1)]] by (simp only: assms(6))
  let ?ce = "offer_seen major ttl session provider t0 ce"
  have c: "consumer_of sd' sid = Some ?ce"
    using handle_offer_tables(2) [OF sd_reach_wf [OF assms(1)] refl] assms(2,6) by simp
  have "time_after (t0 + of_nat e) (cn_ttl_expiry_ms ?ce) \<longleftrightarrow> unat ttl * 1000 < e"
    using time_after_elapsed [OF ttl_ms(2) assms(5), of t0 ttl] assms(3,4)
    by (simp only: offer_seen_def ttl_ms(1)) simp
  then have "ttl_over (t0 + of_nat e) ?ce \<longleftrightarrow> unat ttl * 1000 < e"
    using assms(3,4) by (simp add: ttl_over_def offer_seen_def)
  then show ?thesis
    using sd_apply_wf [OF wf', of "Op_Process_Ttls (t0 + of_nat e)"] c assms(3,4)
    by (simp add: get_provider_address_of process_consumer_ttls_wf(2) [OF wf'] ttl_entry_def offer_seen_def)
qed

theorem offer_time_to_live_witness:
  "get_provider_address 0x1000 (sd_apply EmbeddedConfig (Op_Process_Ttls (0xFFFFFF00 + of_nat 2001))
     (sd_apply EmbeddedConfig (Op_Rx_Offer 0x1000 1 2 77 [9] 0xFFFFFF00) demo_sd)) = None"
  using offer_time_to_live [OF demo_reach demo_consumer _ _ _ refl, where ttl = 2 and major = 1 and e = 2001
      and session = 77 and provider = "[9]" and ?t0.0 = "0xFFFFFF00"]
  by (simp del: sd_apply.simps)

section \<open>Searches\<close>

lemma searching_retries:
  "sd_reach cfg sd \<Longrightarrow> consumer_of sd sid = Some ce \<Longrightarrow> cn_state ce = C_SEARCHING \<Longrightarrow>
   cn_retry_count ce \<le> SdFindRetryCount cfg"
proof (induction arbitrary: ce rule: sd_reach.induct)
  case (sd_step sd op)
  note wf = sd_reach_wf [OF sd_step.hyps]
  show ?case
  proof (cases "consumer_op op")
    case False
    then show ?thesis using sd_step sd_apply_same_consumers [OF wf] by simp
  next
    case True
    then show ?thesis
    proof (cases op)
      case (Op_Find s major now_ms)
      then show ?thesis
        using consumer_of_find [OF wf, of None s major now_ms sid] sd_step by (auto simp: searching_def)
    next
      case (Op_Rx_Offer s major ttl session provider now_ms)
      then show ?thesis
        using handle_offer_tables(2) [OF wf refl] sd_step
        by (auto simp: offer_seen_def split: if_splits)
    next
      case (Op_Process_Ttls now_ms)
      then show ?thesis
        using process_consumer_ttls_wf(2) [OF wf, of None now_ms "\<lambda>_ w. w" "\<lambda>_ w. w" "()" sid] sd_step
        by (auto simp: ttl_entry_def split: if_splits)
    next
      case (Op_Process_Finds now_ms)
      then show ?thesis
        using process_finds_wf(2) [OF wf, of None now_ms "\<lambda>_ w. w" "\<lambda>_ w. w" "()" sid] sd_step
        by (auto simp: find_entry_def find_due_def not_less split: if_splits)
    qed auto
  qed
qed (auto simp: consumer_of_def sd_init_def t_lookup_empty)

text \<open>The search loop run at each of the given times, with the frames it broadcasts.\<close>

definition find_rounds :: "config \<Rightarrow> u32 list \<Rightarrow> ServiceDiscovery \<Rightarrow> ServiceDiscovery \<times> bytes list" where
  "find_rounds cfg ts sd =
     fold (\<lambda>now_ms (sd, w). process_finds cfg None now_ms (\<lambda>_ w. w) (\<lambda>m w. w @ [m]) sd w) ts (sd, [])"

lemma find_emit_length:
  "length (fold (find_emit cfg None now_ms (\<lambda>_ w. w) (\<lambda>m w. w @ [m]) sd) ces w) =
     length w + (\<Sum>ce\<leftarrow>ces. if find_due now_ms ce then 1 else 0)"
  by (induction ces arbitrary: w) (simp_all add: find_emit_def)

lemma find_sends_client: "sd_client_id sd' = sd_client_id sd \<Longrightarrow> find_sends cfg sd' ts = find_sends cfg sd ts"
proof (induction ts)
  case (Cons now_ms ts)
  then have "find_entry cfg now_ms sd' = find_entry cfg now_ms sd" by (simp add: find_entry_def fun_eq_iff)
  then show ?case using Cons by (simp add: fun_eq_iff)
qed (simp add: fun_eq_iff)

lemma find_rounds_length:
  "sd_wf cfg sd \<Longrightarrow>
   length (snd (fold (\<lambda>now_ms (sd, w). process_finds cfg None now_ms (\<lambda>_ w. w) (\<lambda>m w. w @ [m]) sd w)
     ts (sd, w))) = length w + (\<Sum>ce\<leftarrow>live (sd_consumers sd). find_sends cfg sd ts ce)"
proof (induction ts arbitrary: sd w)
  case (Cons now_ms ts)
  let ?ces = "live (sd_consumers sd)"
  obtain sd' w' where r: "process_finds cfg None now_ms (\<lambda>_ w. w) (\<lambda>m w. w @ [m]) sd w = (sd', w')"
    using prod.exhaust by blast
  have wf': "sd_wf cfg sd'" using process_finds_wf(1) [OF Cons.prems] r by (metis fst_conv)
  have sd': "sd' = sd\<lparr>sd_consumers := map_slots (find_entry cfg now_ms sd) (sd_consumers sd)\<rparr>"
    and w': "length w' = length w + (\<Sum>ce\<leftarrow>?ces. if find_due now_ms ce then 1 else 0)"
    using r find_emit_length by (auto simp: process_finds_run [OF Cons.prems])
  have "live (sd_consumers sd') = map (find_entry cfg now_ms sd) ?ces"
    by (simp add: sd' live_map_slots [OF sd_wf_tables(2) [OF Cons.prems]])
  moreover have "find_sends cfg sd' ts = find_sends cfg sd ts" by (rule find_sends_client) (simp add: sd')
  ultimately show ?case
    using Cons.IH [OF wf', of w'] by (simp add: r w' comp_def sum_list_addf)
qed simp

text \<open>C23: However often and whenever the search loop runs, the searches that are open in a reachable
  state broadcast at most \<open>SdFindRetryCount + 1\<close> find messages per known service; for a retry count
  of 255 the 8-bit counter would wrap, so the bound is stated below it.\<close>

theorem find_broadcasts_bounded:
  assumes "sd_reach cfg sd" "SdFindRetryCount cfg < 255"
  shows "length (snd (find_rounds cfg ts sd)) \<le> used (sd_consumers sd) * (unat (SdFindRetryCount cfg) + 1)"
proof -
  note wf = sd_reach_wf [OF assms(1)]
  have "find_sends cfg sd ts ce \<le> unat (SdFindRetryCount cfg) + 1" if "ce \<in> set (live (sd_consumers sd))" for ce
  proof (cases "cn_state ce = C_SEARCHING")
    case True
    have "keyed cn_service_id (\<lambda>_. True) (MaxKnownServices cfg) (sd_consumers sd)"
      using wf by (simp add: sd_wf_def)
    from t_lookup_Some [OF this] have "consumer_of sd (cn_service_id ce) = Some ce"
      using that by (simp add: consumer_of_def)
    from find_sends_bound [OF assms(2) searching_retries [OF assms(1) this True], of sd ts] show ?thesis by simp
  qed (simp add: find_sends_idle)
  then have "(\<Sum>ce\<leftarrow>live (sd_consumers sd). find_sends cfg sd ts ce)
      \<le> (\<Sum>ce\<leftarrow>live (sd_consumers sd). unat (SdFindRetryCount cfg) + 1)" by (rule sum_list_mono)
  then show ?thesis
    using length_live [OF sd_wf_tables(2) [OF wf]]
    by (simp add: find_rounds_def find_rounds_length [OF wf] sum_list_triv)
qed

theorem find_broadcasts_bounded_witness:
  "length (snd (find_rounds EmbeddedConfig [1, 2, 3000, 90000] demo_sd)) \<le> 1 * (3 + 1)"
proof -
  have "used (sd_consumers demo_sd) = 1" by code_simp
  then show ?thesis
    using find_broadcasts_bounded [OF demo_reach, of "[1, 2, 3000, 90000]"] by (simp add: EmbeddedConfig_def)
qed

section \<open>Offers\<close>

text \<open>The offer loop broadcasts, in table order, exactly the offers of the services that are
  offered and due; and an offer announced at \<open>t0\<close> is due again \<open>e\<close> milliseconds later exactly
  when half of its time to live has passed.\<close>

theorem offers_announced_when_due:
  assumes "sd_wf cfg sd" "process_offers cfg t0 (\<lambda>m w. w @ [m]) sd [] = (sd', w)"
    and "provider_of sd sid = Some pe" "pv_state pe = P_OFFERED" "offer_due t0 pe" "e < 2 ^ 31"
  shows "w = map (offer_message cfg sd)
      (filter (\<lambda>pe. pv_state pe = P_OFFERED \<and> offer_due t0 pe) (live (sd_providers sd))) \<and>
    map_option (offer_due (t0 + of_nat e)) (provider_of sd' sid) = Some (unat (pv_ttl_seconds pe) * 500 \<le> e)"
proof
  let ?P = "\<lambda>pe. pv_state pe = P_OFFERED \<and> offer_due t0 pe"
  have "fold (offer_emit cfg t0 (\<lambda>m w. w @ [m]) sd) pes v = v @ map (offer_message cfg sd) (filter ?P pes)" for pes v
    by (induction pes arbitrary: v) (simp_all add: offer_emit_def)
  then show "w = map (offer_message cfg sd) (filter ?P (live (sd_providers sd)))"
    using assms(2) by (simp add: process_offers_run [OF assms(1)])
next
  have "provider_of sd' sid = map_option (offer_entry t0) (provider_of sd sid)"
    using process_offers_wf(2) [OF assms(1), of t0 "\<lambda>m w. w @ [m]" "[]" sid] assms(2) by simp
  moreover have "offer_due (t0 + of_nat e) (offer_entry t0 pe) \<longleftrightarrow> unat (pv_ttl_seconds pe) * 500 \<le> e"
    using time_after_or_eq_elapsed [OF ttl_ms(4) assms(6), of t0 "pv_ttl_seconds pe"] assms(4,5)
    unfolding offer_entry_def offer_due_def ttl_ms(3) by simp
  ultimately show "map_option (offer_due (t0 + of_nat e)) (provider_of sd' sid) =
      Some (unat (pv_ttl_seconds pe) * 500 \<le> e)" using assms(3) by simp
qed

theorem offers_announced_when_due_witness:
  "map_option (offer_due (100 + of_nat 2500))
     (provider_of (fst (process_offers EmbeddedConfig 100 (\<lambda>m w. w @ [m])
       (sd_apply EmbeddedConfig (Op_Offer 0x1000 1 0 5 100) (sd_init EmbeddedConfig)) [])) 0x1000) = Some True"
proof -
  let ?sd = "sd_apply EmbeddedConfig (Op_Offer 0x1000 1 0 5 100) (sd_init EmbeddedConfig)"
  have wf: "sd_wf EmbeddedConfig ?sd" by (rule sd_apply_wf) simp
  obtain pe where p: "provider_of ?sd 0x1000 = Some pe"
    by (cases "provider_of ?sd 0x1000") (simp, code_simp)
  have "map_option (\<lambda>pe. (pv_state pe, offer_due 100 pe, pv_ttl_seconds pe)) (provider_of ?sd 0x1000) =
      Some (P_OFFERED, True, 5)" by code_simp
  then have q: "pv_state pe = P_OFFERED" "offer_due 100 pe" "pv_ttl_seconds pe = 5" using p by simp_all
  obtain sd' w where r: "process_offers EmbeddedConfig 100 (\<lambda>m w. w @ [m]) ?sd [] = (sd', w)"
    using prod.exhaust by blast
  from offers_announced_when_due [OF wf r p q(1,2), of 2500] show ?thesis
    unfolding r by (simp add: q(3))
qed

section \<open>Where the code is weaker than its description\<close>

text \<open>C40: A subscription that is cancelled and made again before the next renewal round is lost:
  the second \<open>subscribe_event\<close> reports success, but does not take back the pending cancellation, so
  the round sends an unsubscribe message and the subscription is then inactive.\<close>

theorem resubscribed_event_is_lost:
  assumes "sd_reach cfg sd" "tracker_of sd (sid, eid) = Some st"
    and "get_provider_address sid sd = Some provider"
    and "sd1 = sd_apply cfg (Op_Unsubscribe sid eid) sd"
    and "sd_subscribe_event cfg sid eid ttl now_ms sd1 = (ok, sd2)"
  shows "ok \<and> map_option st_active (tracker_of sd2 (sid, eid)) = Some True \<and>
    map_option st_active (tracker_of (sd_apply cfg (Op_Process_Renewals t) sd2) (sid, eid)) = Some False \<and>
    (\<exists>st2. tracker_of sd2 (sid, eid) = Some st2 \<and> renewal_of cfg t sd2 st2 = Rn_Unsubscribe)"
proof -
  note wf = sd_reach_wf [OF assms(1)]
  have wf1: "sd_wf cfg sd1" using sd_apply_wf [OF wf, of "Op_Unsubscribe sid eid"] by (simp only: assms(4))
  have sd1: "tracker_of sd1 (sid, eid) = Some (st\<lparr>st_app_registered := False, st_needs_unsubscribe := True\<rparr>)"
    "consumer_of sd1 = consumer_of sd"
    using sd_unsubscribe_tables(2,3) [OF wf, of sd1 sid eid] assms(2,4) by simp_all
  have "sd2 = snd (sd_subscribe_event cfg sid eid ttl now_ms sd1)" by (simp add: assms(5))
  note T = sd_subscribe_tables [OF wf1 this]
  let ?st = "subscribed sid eid ttl now_ms (st\<lparr>st_app_registered := False, st_needs_unsubscribe := True\<rparr>)"
  have st2: "tracker_of sd2 (sid, eid) = Some ?st" using T(4) sd1(1) by blast
  have ok
  proof (cases "t_find (tracker_is (sid, eid)) (sd_trackers sd1)")
    case None
    have "keyed st_key (\<lambda>_. True) (MAX_SUB_TRACKERS cfg) (sd_trackers sd1)" using wf1 by (simp add: sd_wf_def)
    from keyed_find_option [OF this tracker_is_key, of "(sid, eid)"] None sd1(1) show ?thesis
      by (simp add: tracker_of_def)
  next
    case (Some i)
    then show ?thesis using assms(5) by (simp add: sd_subscribe_event_def Let_def)
  qed
  moreover have r: "renewal_of cfg t sd2 ?st = Rn_Unsubscribe"
    using assms(3) get_provider_address_of [OF T(1), of sid] get_provider_address_of [OF wf, of sid]
    by (simp add: renewal_of_def subscribed_def T(2) sd1(2))
  ultimately show ?thesis
    by (simp add: st2 process_subscription_renewals_wf(2) [OF T(1)] renewal_entry_def)
      (simp add: subscribed_def)
qed

theorem resubscribed_event_is_lost_witness:
  "map_option st_active (tracker_of (fold (sd_apply EmbeddedConfig)
     [Op_Subscribe 0x1000 0x8001 5 100, Op_Unsubscribe 0x1000 0x8001, Op_Subscribe 0x1000 0x8001 5 120,
      Op_Process_Renewals 130] demo_sd) (0x1000, 0x8001)) = Some False"
proof -
  let ?sd = "sd_apply EmbeddedConfig (Op_Subscribe 0x1000 0x8001 5 100) demo_sd"
  have r: "sd_reach EmbeddedConfig ?sd" by (intro sd_step demo_reach)
  obtain st where t: "tracker_of ?sd (0x1000, 0x8001) = Some st"
    by (cases "tracker_of ?sd (0x1000, 0x8001)") (simp, code_simp)
  have p: "get_provider_address 0x1000 ?sd = Some [9]" by code_simp
  obtain ok sd2 where s: "sd_subscribe_event EmbeddedConfig 0x1000 0x8001 5 120
      (sd_apply EmbeddedConfig (Op_Unsubscribe 0x1000 0x8001) ?sd) = (ok, sd2)"
    using prod.exhaust by blast
  then have "sd_apply EmbeddedConfig (Op_Subscribe 0x1000 0x8001 5 120)
      (sd_apply EmbeddedConfig (Op_Unsubscribe 0x1000 0x8001) ?sd) = sd2" by simp
  then show ?thesis
    using resubscribed_event_is_lost [OF r t p refl s, of 130] by (simp del: sd_apply.simps)
qed

text \<open>The session id that a restarted provider announces depends only on the service and on the
  low 16 bits of the clock at the offer: the client id has no influence, and two starts whose clocks
  agree modulo 65536 milliseconds get the same session id, so that the restart is not seen.\<close>

theorem session_id_low_bits:
  assumes "ucast now_ms = (ucast now_ms' :: u16)"
  shows "generate_session_id cid sid now_ms = generate_session_id cid' sid now_ms' \<and>
    generate_session_id cid sid now_ms \<noteq> 0"
proof -
  have low: "ucast ((push_bit 16 (ucast c) OR ucast sid) XOR t :: u32) = (sid XOR ucast t :: u16)" for c :: u16 and t
    by (rule bit_word_eqI) (simp add: bit_simps)
  have "ucast (x AND mask 16 :: u32) = (ucast x :: u16)" for x
    by (rule bit_word_eqI) (simp add: bit_simps del: mask_numeral)
  moreover have "(0xFFFF :: u32) = mask 16" by (simp add: mask_eq_exp_minus_1)
  ultimately have mask: "ucast (x AND 0xFFFF :: u32) = (ucast x :: u16)" for x by (simp only:)
  have mult: "(ucast (x * y :: u32) :: u16) = ucast x * ucast y" for x y
    by (subst word_eq_iff_unsigned [where ?'a = nat])
      (simp add: unat_word_ariths unsigned_ucast_eq take_bit_eq_mod mod_simps mod_mod_cancel)
  have "ucast (((push_bit 16 (ucast c) OR ucast sid) XOR t) * k :: u32) = ((sid XOR ucast t) * ucast k :: u16)"
    for c :: u16 and t k by (simp only: mult low)
  then show ?thesis using assms session_id_nonzero by (simp add: generate_session_id_def Let_def mask)
qed

theorem session_id_low_bits_witness: "generate_session_id 1 0x1000 5 = generate_session_id 2 0x1000 0x70005"
proof -
  have "ucast (5 :: u32) = (ucast (0x70005 :: u32) :: u16)" by simp
  from session_id_low_bits [OF this] show ?thesis by blast
qed

end
