(* ===== verification/Diagnostics_Service.thy ===== *)
theory Diagnostics_Service
  imports Message_Header Diagnostic_Counters Dtc_Store Method_Dispatcher
begin

text \<open>
  The built-in diagnostics service (\<open>service/diagnostics_service.hpp\<close>).  Its pointers to the DTC
  store, the counters, the dispatcher and the uptime are set together by \<open>init\<close>; the model keeps
  whether they are set and passes the objects they point to as arguments.  A handler writes into
  the response buffer (\<open>None\<close> for a null pointer) and returns the response length.
\<close>

record DiagnosticsService =
  ds_wired :: bool
  ds_client_id :: u16

definition diag_service_default :: DiagnosticsService where
  "diag_service_default = \<lparr> ds_wired = False, ds_client_id = 0 \<rparr>"

definition diag_service_init :: "u16 \<Rightarrow> DiagnosticsService \<Rightarrow> DiagnosticsService" where
  "diag_service_init client_id ds = ds\<lparr> ds_wired := True, ds_client_id := client_id \<rparr>"

definition diag_is_ready :: "DiagnosticsService \<Rightarrow> bool" where
  "diag_is_ready ds = ds_wired ds"

definition put_bytes :: "nat \<Rightarrow> bytes \<Rightarrow> bytes option \<Rightarrow> bytes option" where
  "put_bytes off xs resp = map_option (blit off xs) resp"

text \<open>
  The body of the two iterations: append one record when it fits, and count it.  The state is the
  offset, the count and the buffer.
\<close>

definition pack_record ::
    "nat \<Rightarrow> nat \<Rightarrow> bytes \<Rightarrow> nat \<times> u16 \<times> bytes option \<Rightarrow> nat \<times> u16 \<times> bytes option" where
  "pack_record capacity sz rec s =
     (case s of (offset, n, resp) \<Rightarrow>
        if offset + sz > capacity then (offset, n, resp)
        else (offset + sz, n + 1, put_bytes offset rec resp))"

definition dtc_record :: "Dtc \<Rightarrow> bytes" where
  "dtc_record d =
     write_u16 (dtc_code d) @ [dtc_severity d, if dtc_active d then 1 else 0]
     @ write_u32 (dtc_occurrence_count d) @ write_u32 (dtc_first_seen_ms d)
     @ write_u32 (dtc_last_seen_ms d)"

definition handle_get_dtcs ::
    "DtcStore \<Rightarrow> bytes option \<Rightarrow> nat \<Rightarrow> ReturnCode \<times> bytes option \<times> nat" where
  "handle_get_dtcs dtcs response response_length =
     (if response_length < 2 then (E_NOT_OK, response, 0)
      else
        (case dtc_for_each (\<lambda>d. pack_record response_length 16 (dtc_record d)) dtcs (2, 0, response) of
           (offset, n, resp) \<Rightarrow> (E_OK, put_bytes 0 (write_u16 n) resp, offset)))"

definition handle_clear_dtcs ::
    "bytes \<Rightarrow> bytes option \<Rightarrow> DtcStore \<Rightarrow> ReturnCode \<times> bytes option \<times> nat \<times> DtcStore" where
  "handle_clear_dtcs payload response dtcs =
     (if length payload < 2 then (E_MALFORMED_MESSAGE, response, 0, dtcs)
      else
        let code = read_u16 payload 0 in
        if code = 0xFFFF then (E_OK, response, 0, dtc_clear_all dtcs)
        else case dtc_clear code dtcs of (found, dtcs') \<Rightarrow>
          if \<not> found then (E_NOT_OK, response, 0, dtcs') else (E_OK, response, 0, dtcs'))"

definition handle_get_counters ::
    "DiagnosticCounters \<Rightarrow> bytes option \<Rightarrow> nat \<Rightarrow> ReturnCode \<times> bytes option \<times> nat" where
  "handle_get_counters counters response response_length =
     (let required_size = counter_count * 4 in
      if response_length < required_size then (E_NOT_OK, response, 0)
      else
        (E_OK,
         fold (\<lambda>i resp. put_bytes (i * 4) (write_u32 (dc_counters counters ! i)) resp)
           [0..<counter_count] response,
         required_size))"

definition service_record :: "(service_ctx \<Rightarrow> bool) \<Rightarrow> ServiceEntry \<Rightarrow> bytes" where
  "service_record ready se =
     write_u16 (se_service_id se)
     @ [se_major_version se, se_minor_version se, if se_auth_required se then 1 else 0,
        if entry_ready ready se then 1 else 0]"

definition handle_get_service_list ::
    "(service_ctx \<Rightarrow> bool) \<Rightarrow> MethodDispatcher \<Rightarrow> bytes option \<Rightarrow> nat \<Rightarrow>
       ReturnCode \<times> bytes option \<times> nat" where
  "handle_get_service_list ready disp response response_length =
     (if response_length < 2 then (E_NOT_OK, response, 0)
      else
        (case dispatcher_for_each (\<lambda>se. pack_record response_length 6 (service_record ready se)) disp
                (2, 0, response) of
           (offset, n, resp) \<Rightarrow> (E_OK, put_bytes 0 (write_u16 n) resp, offset)))"

definition handle_get_device_info ::
    "DiagnosticsService \<Rightarrow> u32 \<Rightarrow> bytes option \<Rightarrow> nat \<Rightarrow> ReturnCode \<times> bytes option \<times> nat" where
  "handle_get_device_info ds uptime_ms response response_length =
     (if response_length < 8 then (E_NOT_OK, response, 0)
      else
        (E_OK,
         put_bytes 7 [0] (put_bytes 6 [PROTOCOL_VERSION]
           (put_bytes 2 (write_u32 (if ds_wired ds then uptime_ms else 0))
             (put_bytes 0 (write_u16 (ds_client_id ds)) response))),
         8))"

definition diag_on_request ::
    "config \<Rightarrow> logger option \<Rightarrow> DiagnosticsService \<Rightarrow> DiagnosticCounters \<Rightarrow> MethodDispatcher \<Rightarrow> u32 \<Rightarrow>
     (service_ctx \<Rightarrow> bool) \<Rightarrow> u16 \<Rightarrow> bytes \<Rightarrow> bytes option \<Rightarrow> nat \<Rightarrow> DtcStore \<Rightarrow>
       ReturnCode \<times> bytes option \<times> nat \<times> DtcStore \<times> effect list" where
  "diag_on_request cfg lg ds counters disp uptime_ms ready mid payload response response_length dtcs =
     (let out = if_logger (\<lambda>l. log_debug cfg l CatDiagnostics ''diag_request'' DIAG_SERVICE_ID mid 0 0) lg
      in case diag_method_of mid of
           Some DIAG_GET_DTCS \<Rightarrow>
             (case handle_get_dtcs dtcs response response_length of (rc, resp, rlen) \<Rightarrow>
                (rc, resp, rlen, dtcs, out))
         | Some DIAG_CLEAR_DTCS \<Rightarrow>
             (case handle_clear_dtcs payload response dtcs of (rc, resp, rlen, dtcs') \<Rightarrow>
                (rc, resp, rlen, dtcs', out))
         | Some DIAG_GET_COUNTERS \<Rightarrow>
             (case handle_get_counters counters response response_length of (rc, resp, rlen) \<Rightarrow>
                (rc, resp, rlen, dtcs, out))
         | Some DIAG_GET_SERVICE_LIST \<Rightarrow>
             (case handle_get_service_list ready disp response response_length of (rc, resp, rlen) \<Rightarrow>
                (rc, resp, rlen, dtcs, out))
         | Some DIAG_GET_DEVICE_INFO \<Rightarrow>
             (case handle_get_device_info ds uptime_ms response response_length of (rc, resp, rlen) \<Rightarrow>
                (rc, resp, rlen, dtcs, out))
         | None \<Rightarrow> (E_UNKNOWN_METHOD, response, 0, dtcs, out))"

section \<open>Packed records\<close>

lemma length_dtc_record [len_simps, simp]: "length (dtc_record d) = 16"
  by (simp add: dtc_record_def)

lemma length_service_record [len_simps, simp]: "length (service_record ready se) = 6"
  by (simp add: service_record_def)

lemma put_bytes_Some [simp]: "put_bytes off xs (Some buf) = Some (blit off xs buf)"
  by (simp add: put_bytes_def)

lemma put_bytes_None [simp]: "put_bytes off xs None = None"
  by (simp add: put_bytes_def)

text \<open>How many records of a size fit behind an offset.\<close>

definition fits :: "nat \<Rightarrow> nat \<Rightarrow> nat \<Rightarrow> 'a list \<Rightarrow> nat" where
  "fits capacity sz offset xs = min (length xs) ((capacity - offset) div sz)"

lemma fits_le: "0 < sz \<Longrightarrow> offset \<le> capacity \<Longrightarrow> offset + sz * fits capacity sz offset xs \<le> capacity"
proof -
  assume "0 < sz" "offset \<le> capacity"
  have "sz * fits capacity sz offset xs \<le> sz * ((capacity - offset) div sz)"
    by (simp add: fits_def)
  also have "\<dots> \<le> capacity - offset" by simp
  finally show ?thesis using \<open>offset \<le> capacity\<close> by simp
qed

lemma length_concat_const: "\<forall>x \<in> set xs. length (enc x) = sz \<Longrightarrow> length (concat (map enc xs)) = sz * length xs"
  by (induction xs) auto

lemma pack_records:
  assumes "0 < sz" "\<forall>x \<in> set xs. length (enc x) = sz"
  shows "offset \<le> capacity \<Longrightarrow> capacity \<le> length buf \<Longrightarrow>
   fold (\<lambda>x. pack_record capacity sz (enc x)) xs (offset, n, Some buf) =
     (offset + sz * fits capacity sz offset xs,
      n + of_nat (fits capacity sz offset xs),
      Some (blit offset (concat (map enc (take (fits capacity sz offset xs) xs))) buf))"
  using assms(2)
proof (induction xs arbitrary: offset n buf)
  case Nil
  then show ?case by (simp add: fits_def)
next
  case (Cons x xs)
  show ?case
  proof (cases "offset + sz > capacity")
    case True
    then have "capacity - offset < sz" using Cons.prems(1) by linarith
    then have z: "(capacity - offset) div sz = 0" by (rule div_less)
    then have f: "fits capacity sz offset ys = 0" for ys :: "'a list" by (simp add: fits_def)
    then show ?thesis using Cons.IH [OF Cons.prems(1,2), of n] Cons.prems True by (simp add: pack_record_def)
  next
    case False
    have "(capacity - offset) div sz = Suc ((capacity - (offset + sz)) div sz)"
      using False assms(1) by (metis le_div_geq diff_diff_left le_diff_conv2 not_less add.commute Cons.prems(1))
    then have f: "fits capacity sz offset (x # xs) = Suc (fits capacity sz (offset + sz) xs)"
      by (simp add: fits_def)
    let ?k = "fits capacity sz (offset + sz) xs"
    have "length (concat (map enc (take ?k xs))) = sz * ?k"
      using Cons.prems(3) length_concat_const [of "take ?k xs" enc sz]
      by (auto simp: fits_def dest: in_set_takeD)
    moreover have "offset + sz + sz * ?k \<le> capacity"
      using fits_le [OF assms(1), of "offset + sz" capacity xs] False by simp
    ultimately have "blit (offset + sz) (concat (map enc (take ?k xs))) (blit offset (enc x) buf) =
        blit offset (enc x @ concat (map enc (take ?k xs))) buf"
      using blit_append [of offset "enc x" "concat (map enc (take ?k xs))" buf] Cons.prems by simp
    then show ?thesis
      using Cons.IH [of "offset + sz" "blit offset (enc x) buf" "n + 1"] Cons.prems False
      by (simp add: pack_record_def f algebra_simps)
  qed
qed

text \<open>A counted list of records: the count in front, then as many records as fit.\<close>

lemma packed_response:
  assumes "0 < sz" "\<forall>x \<in> set xs. length (enc x) = sz" "2 \<le> capacity" "capacity \<le> length buf"
  defines "k \<equiv> fits capacity sz 2 xs"
  shows "take (2 + sz * k) (blit 0 (write_u16 m) (blit 2 (concat (map enc (take k xs))) buf)) =
    write_u16 m @ concat (map enc (take k xs))"
proof -
  have l: "length (concat (map enc (take k xs))) = sz * k"
    using assms(2) length_concat_const [of "take k xs" enc sz]
    by (auto simp: k_def fits_def dest: in_set_takeD)
  have "2 + sz * k \<le> length buf"
    using fits_le [OF assms(1,3), of xs] assms(4) by (simp add: k_def)
  then show ?thesis using l by (simp add: blit_def)
qed

lemma length_put [simp]: "length (the (put_bytes off xs (Some buf))) = length (blit off xs buf)"
  by simp

lemma dispatcher_for_each_live:
  assumes "dispatcher_wf cfg t"
  shows "dispatcher_for_each f t s = fold f (live t) s"
proof -
  have wf: "t_wf (MaxServices cfg) t" and act: "\<forall>se \<in> set (live t). se_active se"
    using assms by (simp_all add: dispatcher_wf_def keyed_def)
  have "live t = map (t_get t) [0..<used t]"
    using wf by (intro nth_equalityI) (simp_all add: length_live live_nth)
  then have "fold f (live t) s = fold (\<lambda>i. f (t_get t i)) [0..<used t] s"
    by (simp add: fold_map comp_def)
  also have "\<dots> = dispatcher_for_each f t s"
    unfolding dispatcher_for_each_def
  proof (rule fold_cong [OF refl refl])
    fix i assume "i \<in> set [0..<used t]"
    then have "se_active (t_get t i)"
      using act wf nth_mem [of i "live t"] by (simp add: length_live live_nth)
    then show "f (t_get t i) = (\<lambda>s. if se_active (t_get t i) then f (t_get t i) s else s)" by simp
  qed
  finally show ?thesis by simp
qed

text \<open>The list response of the two list queries.\<close>

definition list_response :: "nat \<Rightarrow> nat \<Rightarrow> ('a \<Rightarrow> bytes) \<Rightarrow> 'a list \<Rightarrow> bytes" where
  "list_response capacity sz enc xs =
     write_u16 (of_nat (fits capacity sz 2 xs)) @ concat (map enc (take (fits capacity sz 2 xs) xs))"

lemma packed_fold:
  assumes "0 < sz" "\<forall>x \<in> set xs. length (enc x) = sz" "2 \<le> capacity" "capacity \<le> length buf"
    and r: "fold (\<lambda>x. pack_record capacity sz (enc x)) xs (2, 0, Some buf) = (offset, n, resp)"
  shows "\<exists>buf'. put_bytes 0 (write_u16 n) resp = Some buf' \<and> length buf' = length buf \<and>
    offset \<le> capacity \<and> take offset buf' = list_response capacity sz enc xs"
proof -
  let ?k = "fits capacity sz 2 xs"
  have eq: "offset = 2 + sz * ?k" "n = of_nat ?k"
    "resp = Some (blit 2 (concat (map enc (take ?k xs))) buf)"
    using pack_records [OF assms(1,2,3,4), of 0] r by simp_all
  have le: "2 + sz * ?k \<le> capacity" by (rule fits_le [OF assms(1,3)])
  have "length (concat (map enc (take ?k xs))) = sz * ?k"
    using assms(2) length_concat_const [of "take ?k xs" enc sz]
    by (auto simp: fits_def dest: in_set_takeD)
  then show ?thesis
    using packed_response [OF assms(1,2,3,4), of n] le assms(3,4) by (simp add: eq list_response_def)
qed

lemma get_dtcs_response:
  assumes "dtc_wf cfg dtcs" "2 \<le> rlen" "rlen \<le> length buf"
  shows "\<exists>buf' rlen'. handle_get_dtcs dtcs (Some buf) rlen = (E_OK, Some buf', rlen') \<and>
    length buf' = length buf \<and> rlen' \<le> rlen \<and>
    take rlen' buf' = list_response rlen 16 dtc_record (live dtcs)"
proof -
  obtain offset n resp where
    r: "fold (\<lambda>d. pack_record rlen 16 (dtc_record d)) (live dtcs) (2, 0, Some buf) = (offset, n, resp)"
    using prod_cases3 by blast
  show ?thesis
    using packed_fold [OF _ _ assms(2,3) r] assms(2) r
    by (auto simp: handle_get_dtcs_def dtc_for_each_live [OF assms(1)])
qed

lemma get_service_list_response:
  assumes "dispatcher_wf cfg disp" "2 \<le> rlen" "rlen \<le> length buf"
  shows "\<exists>buf' rlen'. handle_get_service_list ready disp (Some buf) rlen = (E_OK, Some buf', rlen') \<and>
    length buf' = length buf \<and> rlen' \<le> rlen \<and>
    take rlen' buf' = list_response rlen 6 (service_record ready) (live disp)"
proof -
  obtain offset n resp where
    r: "fold (\<lambda>se. pack_record rlen 6 (service_record ready se)) (live disp) (2, 0, Some buf) = (offset, n, resp)"
    using prod_cases3 by blast
  show ?thesis
    using packed_fold [OF _ _ assms(2,3) r] assms(2) r
    by (auto simp: handle_get_service_list_def dispatcher_for_each_live [OF assms(1)])
qed

lemma counters_fold:
  "k * 4 \<le> length buf \<Longrightarrow>
   fold (\<lambda>i resp. put_bytes (i * 4) (write_u32 (f i)) resp) [0..<k] (Some buf) =
     Some (blit 0 (concat (map (\<lambda>i. write_u32 (f i)) [0..<k])) buf)"
proof (induction k)
  case (Suc k)
  have "length (concat (map (\<lambda>i. write_u32 (f i)) [0..<k])) = 4 * k"
    using length_concat_const [of "[0..<k]" "\<lambda>i. write_u32 (f i)" 4] by simp
  then show ?case
    using Suc blit_append [of 0 "concat (map (\<lambda>i. write_u32 (f i)) [0..<k])" "write_u32 (f k)" buf]
    by (simp add: mult.commute)
qed simp

lemma get_counters_response:
  assumes "36 \<le> rlen" "rlen \<le> length buf" "counters_wf c"
  shows "\<exists>buf'. handle_get_counters c (Some buf) rlen = (E_OK, Some buf', 36) \<and>
    length buf' = length buf \<and> take 36 buf' = concat (map write_u32 (dc_counters c))"
proof -
  let ?xs = "concat (map (\<lambda>i. write_u32 (dc_counters c ! i)) [0..<9])"
  have xs: "?xs = concat (map write_u32 (dc_counters c))"
    by (rule arg_cong [of _ _ concat], rule nth_equalityI)
      (use assms(3) in \<open>simp_all add: counters_wf_def\<close>)
  have l: "length ?xs = 36"
    using length_concat_const [of "[0..<9]" "\<lambda>i. write_u32 (dc_counters c ! i)" 4] by simp
  have "fold (\<lambda>i resp. put_bytes (i * 4) (write_u32 (dc_counters c ! i)) resp) [0..<9] (Some buf) =
      Some (blit 0 ?xs buf)"
    using counters_fold [of 9 buf] assms by simp
  then show ?thesis
    using assms l take_blit [of 0 ?xs buf] unfolding handle_get_counters_def by (simp add: xs)
qed

lemma get_device_info_response:
  assumes "8 \<le> rlen" "rlen \<le> length buf"
  shows "\<exists>buf'. handle_get_device_info ds uptime (Some buf) rlen = (E_OK, Some buf', 8) \<and>
    length buf' = length buf \<and>
    take 8 buf' = write_u16 (ds_client_id ds) @ write_u32 (if ds_wired ds then uptime else 0)
      @ [PROTOCOL_VERSION, 0]"
proof -
  define a where "a = write_u16 (ds_client_id ds)"
  define b where "b = write_u32 (if ds_wired ds then uptime else 0)"
  have l: "length a = 2" "length b = 4" by (simp_all add: a_def b_def)
  have "blit 7 [0] (blit 6 [PROTOCOL_VERSION] (blit 2 b (blit 0 a buf))) =
      blit 0 (a @ b @ [PROTOCOL_VERSION, 0]) buf"
    using assms l blit_append [of 0 a b buf] blit_append [of 0 "a @ b" "[PROTOCOL_VERSION]" buf]
      blit_append [of 0 "a @ b @ [PROTOCOL_VERSION]" "[0]" buf] by (simp add: numeral_2_eq_2)
  then show ?thesis
    using assms l take_blit [of 0 "a @ b @ [PROTOCOL_VERSION, 0]" buf]
    unfolding handle_get_device_info_def by (simp flip: a_def b_def)
qed

end
