(* ===== verification/Runtime.thy ===== *)
theory Runtime
  imports Crc16 E2E_Protection Message_Authenticator Diagnostics_Service Service_Discovery
    Event_Manager Request_Tracker Event_Handlers
begin

text \<open>
  The runtime (\<open>runtime.hpp\<close>) with the transport it drives (\<open>core/transport.hpp\<close>).  The transport
  implementation and the application's services are not part of the library: they are the functions
  of the record \<open>env\<close>, on a transport state \<open>'t\<close> and an application state \<open>'a\<close>.  Everything the
  runtime hands to the outside is also recorded in \<open>rt_out\<close>, in order; the application callbacks
  recorded there are taken not to call back into the runtime.
\<close>

section \<open>State\<close>

record ('t, 'a) env =
  en_cfg :: config
  impl_send :: "addr \<Rightarrow> bytes \<Rightarrow> 't \<Rightarrow> bool \<times> 't"
  impl_broadcast :: "bytes \<Rightarrow> 't \<Rightarrow> bool \<times> 't"
  impl_poll :: "'t \<Rightarrow> (addr \<times> bytes) option \<times> 't"
  app_is_ready :: "nat \<Rightarrow> 'a \<Rightarrow> bool"
  app_on_request :: "nat \<Rightarrow> u16 \<Rightarrow> bytes \<Rightarrow> bytes option \<Rightarrow> nat \<Rightarrow> 'a \<Rightarrow> ReturnCode \<times> bytes option \<times> nat \<times> 'a"

record ('t, 'a) runtime =
  rt_transport :: 't
  rt_app :: 'a
  rt_client_id :: u16
  rt_local_addr :: addr
  rt_logger :: logger
  rt_e2e :: E2EProtection
  rt_sd_seq :: u8
  rt_auth :: KeyTable
  rt_diag :: DiagnosticCounters
  rt_dtcs :: DtcStore
  rt_diag_service :: DiagnosticsService
  rt_diag_enabled :: bool
  rt_uptime_ms :: u32
  rt_uptime_epoch_ms :: u32
  rt_uptime_started :: bool
  rt_sd :: ServiceDiscovery
  rt_dispatcher :: MethodDispatcher
  rt_events :: EventManager
  rt_requests :: RequestTracker
  rt_tx_buffer :: bytes
  rt_response_buffer :: bytes
  rt_handlers :: EventHandlers
  rt_out :: "effect list"

definition MAX_MSG_SIZE :: "config \<Rightarrow> nat" where
  "MAX_MSG_SIZE cfg = HEADER_SIZE + MaxPayloadSize cfg + HMAC_SIZE + CRC_SIZE"

text \<open>The constructor.\<close>

definition runtime_init :: "('t, 'a) env \<Rightarrow> 't \<Rightarrow> 'a \<Rightarrow> u16 \<Rightarrow> ('t, 'a) runtime" where
  "runtime_init env transport app client_id =
     (let cfg = en_cfg env in
      \<lparr> rt_transport = transport, rt_app = app, rt_client_id = client_id,
        rt_local_addr = zero_addr cfg, rt_logger = logger_init, rt_e2e = e2e_init cfg,
        rt_sd_seq = 0, rt_auth = auth_init cfg, rt_diag = counters_init, rt_dtcs = dtc_init cfg,
        rt_diag_service = diag_service_default, rt_diag_enabled = False, rt_uptime_ms = 0,
        rt_uptime_epoch_ms = 0, rt_uptime_started = False,
        rt_sd = (sd_init cfg)\<lparr>sd_client_id := client_id\<rparr>,
        rt_dispatcher = dispatcher_init cfg, rt_events = events_init cfg,
        rt_requests = tracker_init cfg, rt_tx_buffer = replicate (MAX_MSG_SIZE cfg) 0,
        rt_response_buffer = replicate (MaxPayloadSize cfg) 0, rt_handlers = handlers_init cfg,
        rt_out = [] \<rparr>)"

section \<open>Transport, log and counter access\<close>

definition transport_send :: "('t, 'a) env \<Rightarrow> addr \<Rightarrow> bytes \<Rightarrow> 't \<Rightarrow> bool \<times> 't" where
  "transport_send env destination data t = impl_send env destination data t"

definition transport_broadcast :: "('t, 'a) env \<Rightarrow> bytes \<Rightarrow> 't \<Rightarrow> bool \<times> 't" where
  "transport_broadcast env data t = impl_broadcast env data t"

definition transport_poll :: "('t, 'a) env \<Rightarrow> 't \<Rightarrow> (addr \<times> bytes) option \<times> 't" where
  "transport_poll env t = impl_poll env t"

definition emit :: "effect list \<Rightarrow> ('t, 'a) runtime \<Rightarrow> ('t, 'a) runtime" where
  "emit os r = r\<lparr>rt_out := rt_out r @ os\<rparr>"

text \<open>\<open>transport_.send(dest, tx_buffer_, len)\<close> and \<open>transport_.broadcast(tx_buffer_, len)\<close>.\<close>

definition rt_send :: "('t, 'a) env \<Rightarrow> addr \<Rightarrow> nat \<Rightarrow> ('t, 'a) runtime \<Rightarrow> bool \<times> ('t, 'a) runtime" where
  "rt_send env dest len r =
     (let data = take len (rt_tx_buffer r) in
      case transport_send env dest data (rt_transport r) of (ok, t') \<Rightarrow>
        (ok, emit [Out_Send dest data ok] (r\<lparr>rt_transport := t'\<rparr>)))"

definition rt_broadcast :: "('t, 'a) env \<Rightarrow> nat \<Rightarrow> ('t, 'a) runtime \<Rightarrow> bool \<times> ('t, 'a) runtime" where
  "rt_broadcast env len r =
     (let data = take len (rt_tx_buffer r) in
      case transport_broadcast env data (rt_transport r) of (ok, t') \<Rightarrow>
        (ok, emit [Out_Broadcast data ok] (r\<lparr>rt_transport := t'\<rparr>)))"

definition rt_trace where
  "rt_trace env c tag s m i x r = emit (log_trace (en_cfg env) (rt_logger r) c tag s m i x) r"
definition rt_debug where
  "rt_debug env c tag s m i x r = emit (log_debug (en_cfg env) (rt_logger r) c tag s m i x) r"
definition rt_info where
  "rt_info env c tag s m i x r = emit (log_info (en_cfg env) (rt_logger r) c tag s m i x) r"
definition rt_warn where
  "rt_warn env c tag s m i x r = emit (log_warn (en_cfg env) (rt_logger r) c tag s m i x) r"
definition rt_error where
  "rt_error env c tag s m i x r = emit (log_error (en_cfg env) (rt_logger r) c tag s m i x) r"

definition diag_increment :: "DiagnosticCounter \<Rightarrow> bytes option \<Rightarrow> ('t, 'a) runtime \<Rightarrow> ('t, 'a) runtime" where
  "diag_increment c header_or_null r =
     (case increment c header_or_null (rt_diag r) of (d, out) \<Rightarrow> emit out (r\<lparr>rt_diag := d\<rparr>))"

definition rt_next_sequence :: "('t, 'a) runtime \<Rightarrow> u8 \<times> ('t, 'a) runtime" where
  "rt_next_sequence r = (case next_sequence (rt_e2e r) of (s, e) \<Rightarrow> (s, r\<lparr>rt_e2e := e\<rparr>))"

definition rt_reset_peer :: "('t, 'a) env \<Rightarrow> addr \<Rightarrow> ('t, 'a) runtime \<Rightarrow> ('t, 'a) runtime" where
  "rt_reset_peer env source r =
     (case reset_peer (en_cfg env) (Some (rt_logger r)) source (rt_e2e r) of
        (e, out) \<Rightarrow> emit out (r\<lparr>rt_e2e := e\<rparr>))"

definition should_auth_outgoing :: "addr \<Rightarrow> ('t, 'a) runtime \<Rightarrow> bool" where
  "should_auth_outgoing peer r = has_key peer (rt_auth r)"

section \<open>Building messages\<close>

text \<open>A payload argument is a pointer (\<open>None\<close> when null) and a length.\<close>

definition build_message ::
    "config \<Rightarrow> MessageHeader \<Rightarrow> bytes option \<Rightarrow> nat \<Rightarrow> bool \<Rightarrow> addr \<Rightarrow> ('t, 'a) runtime \<Rightarrow>
       nat \<times> ('t, 'a) runtime" where
  "build_message cfg hdr payload payload_length auth peer r =
     (if payload_length > MaxPayloadSize cfg then (0, r)
      else
        let tx = blit 0 (serialize hdr) (rt_tx_buffer r);
            tx = (case payload of
                    None \<Rightarrow> tx
                  | Some p \<Rightarrow> if payload_length > 0 then blit HEADER_SIZE (take payload_length p) tx else tx);
            offset = HEADER_SIZE + payload_length;
            (tx, offset) =
              (if auth then
                 let hmac_out = (case auth_compute (take HEADER_SIZE tx)
                                   (take payload_length (drop HEADER_SIZE tx)) peer (rt_auth r) of
                                   None \<Rightarrow> replicate HMAC_SIZE 0 | Some m \<Rightarrow> m)
                 in (blit offset hmac_out tx, offset + HMAC_SIZE)
               else (tx, offset));
            tx = crc16_append tx offset
        in (offset + CRC_SIZE, r\<lparr>rt_tx_buffer := tx\<rparr>))"

definition make_request_header :: "u16 \<Rightarrow> u16 \<Rightarrow> nat \<Rightarrow> u32 \<Rightarrow> bool \<Rightarrow> ('t, 'a) runtime \<Rightarrow> MessageHeader" where
  "make_request_header sid mid payload_length request_id auth r =
     default_header\<lparr> hdr_version := PROTOCOL_VERSION, hdr_message_type := message_type_code REQUEST,
       hdr_return_code := 0, hdr_flags := (if auth then FLAG_AUTH else 0), hdr_service_id := sid,
       hdr_method_event_id := mid, hdr_client_id := rt_client_id r, hdr_sequence_counter := 0,
       hdr_request_id := request_id, hdr_payload_length := of_nat payload_length \<rparr>"

definition request_impl ::
    "('t, 'a) env \<Rightarrow> addr \<Rightarrow> u16 \<Rightarrow> u16 \<Rightarrow> bytes option \<Rightarrow> nat \<Rightarrow> nat option \<Rightarrow> nat \<Rightarrow> u32 \<Rightarrow> u32 \<Rightarrow>
       ('t, 'a) runtime \<Rightarrow> u32 option \<times> ('t, 'a) runtime" where
  "request_impl env target sid mid payload payload_length cb ctx timeout_ms now_ms r =
     (let cfg = en_cfg env in
      case allocate cfg (Some (rt_logger r)) sid mid timeout_ms now_ms cb ctx (rt_requests r) of
        (rid, reqs, out) \<Rightarrow>
          let r = emit out (r\<lparr>rt_requests := reqs\<rparr>) in
          case rid of
            None \<Rightarrow> (None, r)
          | Some i \<Rightarrow>
              let auth = should_auth_outgoing target r;
                  hdr = make_request_header sid mid payload_length i auth r;
                  (sq, r) = rt_next_sequence r;
                  hdr = hdr\<lparr>hdr_sequence_counter := sq\<rparr>;
                  (total, r) = build_message cfg hdr payload payload_length auth target r;
                  (ok, r) = rt_send env target total r
              in if \<not> ok then
                   (case complete cfg (Some (rt_logger r)) i E_NOT_OK None (rt_requests r) of
                      (_, reqs, out) \<Rightarrow>
                        (None, rt_warn env CatTransport ''request_send_fail'' sid mid (rt_client_id r) i
                           (diag_increment DroppedMessages None (emit out (r\<lparr>rt_requests := reqs\<rparr>)))))
                 else (Some i, rt_debug env CatRequests ''request_tx'' sid mid (rt_client_id r) i r))"

section \<open>Service-discovery transport helpers\<close>

definition send_sd_broadcast :: "('t, 'a) env \<Rightarrow> bytes \<Rightarrow> ('t, 'a) runtime \<Rightarrow> ('t, 'a) runtime" where
  "send_sd_broadcast env sd_msg r =
     (let sd_len = length sd_msg in
      if sd_len + CRC_SIZE > MAX_MSG_SIZE (en_cfg env) then r
      else
        let tx = (blit 0 sd_msg (rt_tx_buffer r))[10 := rt_sd_seq r];
            tx = crc16_append tx sd_len;
            r = r\<lparr>rt_tx_buffer := tx, rt_sd_seq := rt_sd_seq r + 1\<rparr>;
            (ok, r) = rt_broadcast env (sd_len + CRC_SIZE) r
        in if \<not> ok then
             rt_warn env CatTransport ''sd_broadcast_fail'' 0 0 (rt_client_id r) 0
               (diag_increment DroppedMessages None r)
           else
             rt_trace env CatServiceDiscovery ''sd_broadcast_tx'' 0 0 (rt_client_id r)
               (of_nat (sd_len + CRC_SIZE)) r)"

definition send_sd_unicast :: "('t, 'a) env \<Rightarrow> addr \<Rightarrow> bytes \<Rightarrow> ('t, 'a) runtime \<Rightarrow> ('t, 'a) runtime" where
  "send_sd_unicast env dest sd_msg r =
     (let sd_len = length sd_msg in
      if sd_len + CRC_SIZE > MAX_MSG_SIZE (en_cfg env) then r
      else
        let tx = (blit 0 sd_msg (rt_tx_buffer r))[10 := rt_sd_seq r];
            tx = crc16_append tx sd_len;
            r = r\<lparr>rt_tx_buffer := tx, rt_sd_seq := rt_sd_seq r + 1\<rparr>;
            (ok, r) = rt_send env dest (sd_len + CRC_SIZE) r
        in if \<not> ok then
             rt_warn env CatTransport ''sd_unicast_fail'' 0 0 (rt_client_id r) 0
               (diag_increment DroppedMessages None r)
           else
             rt_trace env CatServiceDiscovery ''sd_unicast_tx'' 0 0 (rt_client_id r)
               (of_nat (sd_len + CRC_SIZE)) r)"

end
