(* ===== verification/Runtime_Receive.thy ===== *)
theory Runtime_Receive
  imports Runtime
begin

text \<open>
  The receive side of the runtime (\<open>runtime.hpp\<close>): the validation pipeline of section 7.4 of the
  protocol definition, the dispatch by message type, and the handlers.
\<close>

section \<open>Calling services\<close>

text \<open>\<open>is_ready_fn\<close> and \<open>on_request_fn\<close> of the objects an entry can point to.\<close>

definition service_ready :: "('t, 'a) env \<Rightarrow> ('t, 'a) runtime \<Rightarrow> service_ctx \<Rightarrow> bool" where
  "service_ready env r c =
     (case c of AppCtx n \<Rightarrow> app_is_ready env n (rt_app r)
      | DiagCtx \<Rightarrow> diag_is_ready (rt_diag_service r))"

definition service_call :: "('t, 'a) env \<Rightarrow> ('t, 'a) runtime service_call" where
  "service_call env c mid payload resp rlen r =
     (case c of
        AppCtx n \<Rightarrow>
          (case app_on_request env n mid payload resp rlen (rt_app r) of (rc, resp', rlen', a) \<Rightarrow>
             (rc, resp', rlen', emit [Out_Service_Call n mid payload] (r\<lparr>rt_app := a\<rparr>)))
      | DiagCtx \<Rightarrow>
          (case diag_on_request (en_cfg env) (Some (rt_logger r)) (rt_diag_service r) (rt_diag r)
                  (rt_dispatcher r) (rt_uptime_ms r) (service_ready env r) mid payload resp rlen (rt_dtcs r) of
             (rc, resp', rlen', dtcs, out) \<Rightarrow> (rc, resp', rlen', emit out (r\<lparr>rt_dtcs := dtcs\<rparr>))))"

section \<open>Handlers by message type\<close>

definition handle_request :: "('t, 'a) env \<Rightarrow> addr \<Rightarrow> MessageHeader \<Rightarrow> bytes \<Rightarrow> ('t, 'a) runtime \<Rightarrow> ('t, 'a) runtime" where
  "handle_request env source hdr payload r =
     (let cfg = en_cfg env;
          r = rt_info env CatDispatch ''request_rx'' (hdr_service_id hdr) (hdr_method_event_id hdr)
                (hdr_client_id hdr) (hdr_request_id hdr) r;
          (rc, resp, response_length, r) =
            dispatch cfg (Some (rt_logger r)) (service_ready env r) (service_call env) emit
              (hdr_service_id hdr) (hdr_method_event_id hdr) payload
              (Some (rt_response_buffer r)) (MaxPayloadSize cfg) (rt_dispatcher r) r;
          r = (case resp of None \<Rightarrow> r | Some b \<Rightarrow> r\<lparr>rt_response_buffer := b\<rparr>);
          is_error = (rc \<noteq> E_OK);
          auth = should_auth_outgoing source r;
          (sq, r) = rt_next_sequence r;
          resp_hdr = default_header\<lparr> hdr_version := PROTOCOL_VERSION,
            hdr_message_type := message_type_code (if is_error then ERROR else RESPONSE),
            hdr_return_code := rc, hdr_flags := (if auth then FLAG_AUTH else 0),
            hdr_service_id := hdr_service_id hdr, hdr_method_event_id := hdr_method_event_id hdr,
            hdr_client_id := hdr_client_id hdr, hdr_sequence_counter := sq,
            hdr_request_id := hdr_request_id hdr,
            hdr_payload_length := (if is_error then 0 else of_nat response_length) \<rparr>;
          (total, r) = build_message cfg resp_hdr
            (if is_error then None else Some (rt_response_buffer r))
            (if is_error then 0 else response_length) auth source r;
          (ok, r) = rt_send env source total r
      in if \<not> ok then
           rt_warn env CatTransport ''response_send_fail'' (hdr_service_id hdr) (hdr_method_event_id hdr)
             (hdr_client_id hdr) (hdr_request_id hdr) (diag_increment DroppedMessages None r)
         else
           rt_info env CatDispatch ''response_tx'' (hdr_service_id hdr) (hdr_method_event_id hdr)
             (hdr_client_id hdr) (ucast rc) r)"

definition handle_fire_and_forget :: "('t, 'a) env \<Rightarrow> MessageHeader \<Rightarrow> bytes \<Rightarrow> ('t, 'a) runtime \<Rightarrow> ('t, 'a) runtime" where
  "handle_fire_and_forget env hdr payload r =
     (case find_service_entry (hdr_service_id hdr) (rt_dispatcher r) of
        None \<Rightarrow>
          rt_debug env CatDispatch ''fnf_unknown_svc'' (hdr_service_id hdr) (hdr_method_event_id hdr)
            (hdr_client_id hdr) 0 (diag_increment DroppedMessages None r)
      | Some se \<Rightarrow>
          if \<not> entry_ready (service_ready env r) se then
            rt_debug env CatDispatch ''fnf_not_ready'' (hdr_service_id hdr) (hdr_method_event_id hdr)
              (hdr_client_id hdr) 0 r
          else
            (let r = rt_debug env CatDispatch ''fnf_rx'' (hdr_service_id hdr) (hdr_method_event_id hdr)
                       (hdr_client_id hdr) (of_nat (length payload)) r
             in case entry_call (service_call env) se (hdr_method_event_id hdr) payload None 0 r of
                  (_, _, _, r) \<Rightarrow> r))"

definition rt_complete :: "('t, 'a) env \<Rightarrow> u32 \<Rightarrow> ReturnCode \<Rightarrow> bytes option \<Rightarrow> ('t, 'a) runtime \<Rightarrow> ('t, 'a) runtime" where
  "rt_complete env rid rc payload r =
     (case complete (en_cfg env) (Some (rt_logger r)) rid rc payload (rt_requests r) of
        (_, reqs, out) \<Rightarrow> emit out (r\<lparr>rt_requests := reqs\<rparr>))"

definition handle_response :: "('t, 'a) env \<Rightarrow> MessageHeader \<Rightarrow> bytes \<Rightarrow> ('t, 'a) runtime \<Rightarrow> ('t, 'a) runtime" where
  "handle_response env hdr payload r =
     rt_complete env (hdr_request_id hdr) (hdr_return_code hdr) (Some payload)
       (rt_debug env CatRequests ''response_rx'' (hdr_service_id hdr) (hdr_method_event_id hdr)
         (hdr_client_id hdr) (hdr_request_id hdr) r)"

definition handle_error :: "('t, 'a) env \<Rightarrow> MessageHeader \<Rightarrow> bytes \<Rightarrow> ('t, 'a) runtime \<Rightarrow> ('t, 'a) runtime" where
  "handle_error env hdr payload r =
     rt_complete env (hdr_request_id hdr) (hdr_return_code hdr) (Some payload)
       (rt_warn env CatRequests ''error_rx'' (hdr_service_id hdr) (hdr_method_event_id hdr)
         (hdr_client_id hdr) (ucast (hdr_return_code hdr)) r)"

definition handle_notification :: "('t, 'a) env \<Rightarrow> MessageHeader \<Rightarrow> bytes \<Rightarrow> ('t, 'a) runtime \<Rightarrow> ('t, 'a) runtime" where
  "handle_notification env hdr payload r =
     (case find_event_handler (hdr_service_id hdr) (hdr_method_event_id hdr) (rt_handlers r) of
        None \<Rightarrow> r
      | Some eh \<Rightarrow>
          (case eh_context eh of
             None \<Rightarrow> r
           | Some h \<Rightarrow>
               emit [Out_Event h (hdr_service_id hdr) (hdr_method_event_id hdr) payload]
                 (rt_debug env CatEvents ''notification_rx'' (hdr_service_id hdr) (hdr_method_event_id hdr)
                   (hdr_client_id hdr) (of_nat (length payload)) r)))"

section \<open>Service-discovery messages\<close>

definition handle_subscribe_request ::
    "('t, 'a) env \<Rightarrow> addr \<Rightarrow> MessageHeader \<Rightarrow> u16 \<Rightarrow> u16 \<Rightarrow> u16 \<Rightarrow> u32 \<Rightarrow> ('t, 'a) runtime \<Rightarrow> ('t, 'a) runtime" where
  "handle_subscribe_request env source hdr sid eid ttl_seconds now_ms r =
     (let cfg = en_cfg env;
          (result, events, out) = subscribe cfg (Some (rt_logger r)) sid eid (hdr_client_id hdr) source
            ttl_seconds now_ms (rt_events r);
          r = emit out (r\<lparr>rt_events := events\<rparr>);
          granted_ttl = (if result = E_OK
            then (if ttl_seconds > 0 then ttl_seconds else SubscriptionTtlSeconds cfg) else 0);
          payload = serialize_subscribe sid eid granted_ttl;
          ack_hdr = default_header\<lparr> hdr_version := PROTOCOL_VERSION,
            hdr_message_type := message_type_code REQUEST_NO_RETURN, hdr_return_code := result,
            hdr_flags := 0, hdr_service_id := SD_SERVICE_ID,
            hdr_method_event_id := sd_method_code SD_SUBSCRIBE_ACK, hdr_client_id := rt_client_id r,
            hdr_sequence_counter := rt_sd_seq r, hdr_request_id := 0,
            hdr_payload_length := of_nat SD_SUBSCRIBE_PAYLOAD_SIZE \<rparr>;
          tx = blit HEADER_SIZE payload (blit 0 (serialize ack_hdr) (rt_tx_buffer r));
          total = HEADER_SIZE + SD_SUBSCRIBE_PAYLOAD_SIZE;
          r = r\<lparr>rt_tx_buffer := crc16_append tx total, rt_sd_seq := rt_sd_seq r + 1\<rparr>;
          (ok, r) = rt_send env source (total + CRC_SIZE) r
      in if \<not> ok then
           rt_warn env CatTransport ''sub_ack_send_fail'' sid eid (hdr_client_id hdr) 0
             (diag_increment DroppedMessages None r)
         else
           rt_debug env CatEvents ''subscribe_ack_tx'' sid eid (hdr_client_id hdr) (ucast result) r)"

definition handle_sd_offer :: "('t, 'a) env \<Rightarrow> MessageHeader \<Rightarrow> offer_fields \<Rightarrow> u32 \<Rightarrow> ('t, 'a) runtime \<Rightarrow> ('t, 'a) runtime" where
  "handle_sd_offer env hdr f now_ms r =
     (let r = rt_debug env CatServiceDiscovery ''offer_rx'' (of_service_id f) 0 (hdr_client_id hdr)
                (ucast (of_ttl f)) r;
          r = (if detect_reboot (of_service_id f) (of_session f) (rt_sd r)
               then rt_reset_peer env (of_provider f) r else r)
      in case handle_offer (en_cfg env) (Some (rt_logger r)) (of_service_id f) (of_major f) (of_ttl f)
                (of_session f) (of_provider f) now_ms (rt_sd r) of
           (sd, out) \<Rightarrow> emit out (r\<lparr>rt_sd := sd\<rparr>))"

definition handle_sd_find :: "('t, 'a) env \<Rightarrow> addr \<Rightarrow> MessageHeader \<Rightarrow> u16 \<Rightarrow> ('t, 'a) runtime \<Rightarrow> ('t, 'a) runtime" where
  "handle_sd_find env source hdr sid r =
     (let r = rt_reset_peer env source
                (rt_debug env CatServiceDiscovery ''find_rx'' sid 0 (hdr_client_id hdr) 0 r)
      in handle_find (en_cfg env) sid source (\<lambda>dest msg r. send_sd_unicast env dest msg r) (rt_sd r) r)"

definition handle_sd_message ::
    "('t, 'a) env \<Rightarrow> addr \<Rightarrow> MessageHeader \<Rightarrow> bytes \<Rightarrow> u32 \<Rightarrow> ('t, 'a) runtime \<Rightarrow> ('t, 'a) runtime" where
  "handle_sd_message env source hdr payload now_ms r =
     (case sd_method_of (hdr_method_event_id hdr) of
        None \<Rightarrow> r
      | Some SD_OFFER_SERVICE \<Rightarrow>
          (case deserialize_offer (en_cfg env) payload of
             None \<Rightarrow> r | Some f \<Rightarrow> handle_sd_offer env hdr f now_ms r)
      | Some SD_FIND_SERVICE \<Rightarrow>
          (case deserialize_find payload of None \<Rightarrow> r | Some sid \<Rightarrow> handle_sd_find env source hdr sid r)
      | Some SD_SUBSCRIBE_EVENT \<Rightarrow>
          (case deserialize_subscribe payload of
             None \<Rightarrow> r
           | Some (sid, eid, ttl) \<Rightarrow>
               handle_subscribe_request env source hdr sid eid ttl now_ms
                 (rt_debug env CatEvents ''subscribe_rx'' sid eid (hdr_client_id hdr) (ucast ttl) r))
      | Some SD_SUBSCRIBE_ACK \<Rightarrow>
          (case deserialize_subscribe payload of
             None \<Rightarrow> r
           | Some (sid, eid, granted_ttl) \<Rightarrow>
               (let r = rt_debug env CatEvents ''subscribe_ack_rx'' sid eid (hdr_client_id hdr)
                          (ucast (hdr_return_code hdr)) r
                in case handle_subscribe_ack (en_cfg env) (Some (rt_logger r)) sid eid
                          (hdr_return_code hdr) granted_ttl (rt_sd r) of
                     (sd, out) \<Rightarrow> emit out (r\<lparr>rt_sd := sd\<rparr>)))
      | Some SD_UNSUBSCRIBE \<Rightarrow>
          (case deserialize_subscribe payload of
             None \<Rightarrow> r
           | Some (sid, eid, ttl) \<Rightarrow>
               (let r = rt_debug env CatEvents ''unsubscribe_rx'' sid eid (hdr_client_id hdr) 0 r
                in case unsubscribe (en_cfg env) (Some (rt_logger r)) sid eid (hdr_client_id hdr) (rt_events r) of
                     (events, out) \<Rightarrow> emit out (r\<lparr>rt_events := events\<rparr>))))"

definition dispatch_message ::
    "('t, 'a) env \<Rightarrow> addr \<Rightarrow> MessageHeader \<Rightarrow> bytes \<Rightarrow> u32 \<Rightarrow> ('t, 'a) runtime \<Rightarrow> ('t, 'a) runtime" where
  "dispatch_message env source hdr payload now_ms r =
     (if hdr_service_id hdr = SD_SERVICE_ID then handle_sd_message env source hdr payload now_ms r
      else case message_type_of (hdr_message_type hdr) of
             Some REQUEST \<Rightarrow> handle_request env source hdr payload r
           | Some REQUEST_NO_RETURN \<Rightarrow> handle_fire_and_forget env hdr payload r
           | Some RESPONSE \<Rightarrow> handle_response env hdr payload r
           | Some ERROR \<Rightarrow> handle_error env hdr payload r
           | Some NOTIFICATION \<Rightarrow> handle_notification env hdr payload r
           | None \<Rightarrow> r)"

section \<open>The validation pipeline\<close>

text \<open>Count the discard, then log it.\<close>

definition rt_validate_seq :: "('t, 'a) env \<Rightarrow> addr \<Rightarrow> u8 \<Rightarrow> ('t, 'a) runtime \<Rightarrow> SeqResult \<times> ('t, 'a) runtime" where
  "rt_validate_seq env source received_seq r =
     (case validate_sequence (en_cfg env) (Some (rt_logger r)) source received_seq (rt_e2e r) of
        (res, e, out) \<Rightarrow> (res, emit out (r\<lparr>rt_e2e := e\<rparr>)))"

text \<open>Step 8: the flag says whether the message goes on.\<close>

definition check_sequence ::
    "('t, 'a) env \<Rightarrow> addr \<Rightarrow> bytes \<Rightarrow> MessageHeader \<Rightarrow> ('t, 'a) runtime \<Rightarrow> bool \<times> ('t, 'a) runtime" where
  "check_sequence env source data hdr r =
     (if hdr_service_id hdr \<noteq> SD_SERVICE_ID then
        (case rt_validate_seq env source (hdr_sequence_counter hdr) r of
           (Duplicate, r) \<Rightarrow>
             (False, rt_warn env CatValidation ''seq_duplicate'' (hdr_service_id hdr)
                (hdr_method_event_id hdr) (hdr_client_id hdr) (ucast (hdr_sequence_counter hdr))
                (diag_increment DuplicateMessages (Some data) r))
         | (Stale, r) \<Rightarrow>
             (False, rt_warn env CatValidation ''seq_stale'' (hdr_service_id hdr)
                (hdr_method_event_id hdr) (hdr_client_id hdr) (ucast (hdr_sequence_counter hdr))
                (diag_increment StaleMessages (Some data) r))
         | (Accept, r) \<Rightarrow> (True, r)
         | (FirstSeen, r) \<Rightarrow> (True, r)
         | (TableFull, r) \<Rightarrow> (True, diag_increment DroppedMessages (Some data) r))
      else (True, r))"

text \<open>Step 9: the HMAC of an authenticated message, or the policy of the addressed service.\<close>

definition check_auth ::
    "('t, 'a) env \<Rightarrow> addr \<Rightarrow> bytes \<Rightarrow> MessageHeader \<Rightarrow> ('t, 'a) runtime \<Rightarrow> bool \<times> ('t, 'a) runtime" where
  "check_auth env source data hdr r =
     (let plen = unat (hdr_payload_length hdr);
          payload = take plen (drop HEADER_SIZE data) in
      if has_auth hdr then
        (let hmac_ptr = take HMAC_SIZE (drop (HEADER_SIZE + plen) data) in
         case auth_verify (en_cfg env) (Some (rt_logger r)) (take HEADER_SIZE data) payload source
                hmac_ptr (rt_auth r) of
           (ok, out) \<Rightarrow>
             let r = emit out r in
             if \<not> ok then
               (False, rt_error env CatValidation ''auth_fail'' (hdr_service_id hdr)
                  (hdr_method_event_id hdr) (hdr_client_id hdr) 0
                  (diag_increment AuthFailures (Some data) r))
             else (True, r))
      else if hdr_service_id hdr \<noteq> SD_SERVICE_ID then
        (case find_service_entry (hdr_service_id hdr) (rt_dispatcher r) of
           None \<Rightarrow> (True, r)
         | Some se \<Rightarrow>
             if se_auth_required se then
               (False, rt_error env CatValidation ''auth_required'' (hdr_service_id hdr)
                  (hdr_method_event_id hdr) (hdr_client_id hdr) 0
                  (diag_increment AuthFailures (Some data) r))
             else (True, r))
      else (True, r))"

definition expected_size :: "MessageHeader \<Rightarrow> nat" where
  "expected_size hdr =
     HEADER_SIZE + unat (hdr_payload_length hdr) + (if has_auth hdr then HMAC_SIZE else 0) + CRC_SIZE"

definition validate_and_dispatch ::
    "('t, 'a) env \<Rightarrow> addr \<Rightarrow> bytes \<Rightarrow> u32 \<Rightarrow> ('t, 'a) runtime \<Rightarrow> ('t, 'a) runtime" where
  "validate_and_dispatch env source data now_ms r =
     (let cfg = en_cfg env in
      if length data < MIN_MESSAGE_SIZE then
        rt_warn env CatValidation ''min_size_fail'' 0 0 0 (of_nat (length data))
          (diag_increment DroppedMessages None r)
      else if \<not> crc16_verify data then
        rt_error env CatValidation ''crc_fail'' 0 0 0 (of_nat (length data))
          (diag_increment CrcErrors (if length data \<ge> HEADER_SIZE then Some data else None) r)
      else
        let hdr = deserialize data;
            sid = hdr_service_id hdr; mid = hdr_method_event_id hdr; cid = hdr_client_id hdr in
        if hdr_version hdr \<noteq> PROTOCOL_VERSION then
          rt_warn env CatValidation ''version_mismatch'' sid mid cid (ucast (hdr_version hdr))
            (diag_increment VersionMismatches (Some data) r)
        else if unat (hdr_payload_length hdr) > MaxPayloadSize cfg then
          rt_warn env CatValidation ''oversized_payload'' sid mid cid (hdr_payload_length hdr)
            (diag_increment OversizedPayloads (Some data) r)
        else if length data < expected_size hdr then
          rt_warn env CatValidation ''size_mismatch'' sid mid cid (of_nat (expected_size hdr))
            (diag_increment DroppedMessages (Some data) r)
        else if \<not> is_valid_message_type (hdr_message_type hdr) then
          rt_warn env CatValidation ''unknown_msg_type'' sid mid cid (ucast (hdr_message_type hdr))
            (diag_increment UnknownMessageTypes (Some data) r)
        else if \<not> validate_type_id_consistency hdr then
          rt_warn env CatValidation ''type_id_mismatch'' sid mid cid (ucast (hdr_message_type hdr))
            (diag_increment TypeIdMismatches (Some data) r)
        else if \<not> validate_client_id hdr then
          rt_warn env CatValidation ''client_id_invalid'' sid mid cid 0
            (diag_increment DroppedMessages (Some data) r)
        else
          case check_sequence env source data hdr r of (go, r) \<Rightarrow>
            if \<not> go then r
            else case check_auth env source data hdr r of (go, r) \<Rightarrow>
              if \<not> go then r
              else
                dispatch_message env source hdr (take (unat (hdr_payload_length hdr)) (drop HEADER_SIZE data))
                  now_ms
                  (rt_debug env CatDispatch ''dispatch'' sid mid cid (hdr_payload_length hdr) r))"

end
