(* ===== verification/Runtime_Api.thy ===== *)
theory Runtime_Api
  imports Runtime_Receive
begin

text \<open>
  The public operations of the runtime (\<open>runtime.hpp\<close>): the process cycle of section 10.3 of the
  protocol definition and the calls of the application, then all of them as one step function with
  the reachable states of a runtime.
\<close>

section \<open>The process cycle\<close>

text \<open>At most \<open>n\<close> messages are taken from the transport.\<close>

fun drain :: "('t, 'a) env \<Rightarrow> u32 \<Rightarrow> nat \<Rightarrow> ('t, 'a) runtime \<Rightarrow> ('t, 'a) runtime" where
  "drain env now_ms 0 r = r"
| "drain env now_ms (Suc n) r =
     (case transport_poll env (rt_transport r) of
        (None, t) \<Rightarrow> r\<lparr>rt_transport := t\<rparr>
      | (Some (source, data), t) \<Rightarrow>
          drain env now_ms n (validate_and_dispatch env source data now_ms (r\<lparr>rt_transport := t\<rparr>)))"

definition track_uptime :: "u32 \<Rightarrow> ('t, 'a) runtime \<Rightarrow> ('t, 'a) runtime" where
  "track_uptime now_ms r =
     (let r = (if \<not> rt_uptime_started r
               then r\<lparr>rt_uptime_started := True, rt_uptime_epoch_ms := now_ms\<rparr> else r)
      in r\<lparr>rt_uptime_ms := now_ms - rt_uptime_epoch_ms r\<rparr>)"

definition rt_evict_requests :: "('t, 'a) env \<Rightarrow> u32 \<Rightarrow> ('t, 'a) runtime \<Rightarrow> ('t, 'a) runtime" where
  "rt_evict_requests env now_ms r =
     (case evict_expired_requests (en_cfg env) (Some (rt_logger r)) now_ms (rt_requests r) of
        (reqs, out) \<Rightarrow> emit out (r\<lparr>rt_requests := reqs\<rparr>))"

definition rt_evict_subscriptions :: "('t, 'a) env \<Rightarrow> u32 \<Rightarrow> ('t, 'a) runtime \<Rightarrow> ('t, 'a) runtime" where
  "rt_evict_subscriptions env now_ms r =
     r\<lparr>rt_events := evict_expired_subscriptions (en_cfg env) now_ms (rt_events r)\<rparr>"

text \<open>The loops of \<open>sd_\<close> run on its table while their callbacks work on the rest of the runtime.\<close>

definition rt_process_offers :: "('t, 'a) env \<Rightarrow> u32 \<Rightarrow> ('t, 'a) runtime \<Rightarrow> ('t, 'a) runtime" where
  "rt_process_offers env now_ms r =
     (case process_offers (en_cfg env) now_ms (send_sd_broadcast env) (rt_sd r) r of
        (sd, r) \<Rightarrow> r\<lparr>rt_sd := sd\<rparr>)"

definition rt_process_renewals :: "('t, 'a) env \<Rightarrow> u32 \<Rightarrow> ('t, 'a) runtime \<Rightarrow> ('t, 'a) runtime" where
  "rt_process_renewals env now_ms r =
     (case process_subscription_renewals (en_cfg env) now_ms (send_sd_unicast env) (rt_sd r) r of
        (sd, r) \<Rightarrow> r\<lparr>rt_sd := sd\<rparr>)"

definition rt_process_ttls :: "('t, 'a) env \<Rightarrow> u32 \<Rightarrow> ('t, 'a) runtime \<Rightarrow> ('t, 'a) runtime" where
  "rt_process_ttls env now_ms r =
     (case process_consumer_ttls (en_cfg env) (Some (rt_logger r)) now_ms emit (rt_reset_peer env) (rt_sd r) r of
        (sd, r) \<Rightarrow> r\<lparr>rt_sd := sd\<rparr>)"

definition rt_process_finds :: "('t, 'a) env \<Rightarrow> u32 \<Rightarrow> ('t, 'a) runtime \<Rightarrow> ('t, 'a) runtime" where
  "rt_process_finds env now_ms r =
     (case process_finds (en_cfg env) (Some (rt_logger r)) now_ms emit (send_sd_broadcast env) (rt_sd r) r of
        (sd, r) \<Rightarrow> r\<lparr>rt_sd := sd\<rparr>)"

definition process :: "('t, 'a) env \<Rightarrow> u32 \<Rightarrow> ('t, 'a) runtime \<Rightarrow> ('t, 'a) runtime" where
  "process env now_ms r =
     (let r = track_uptime now_ms r;
          r = drain env now_ms (MaxReceiveQueueSize (en_cfg env)) r;
          r = rt_evict_requests env now_ms r;
          r = rt_evict_subscriptions env now_ms r;
          r = rt_process_offers env now_ms r;
          r = rt_process_renewals env now_ms r;
          r = rt_process_ttls env now_ms r
      in rt_process_finds env now_ms r)"

section \<open>Services, events and discovery\<close>

definition set_local_address :: "addr \<Rightarrow> ('t, 'a) runtime \<Rightarrow> ('t, 'a) runtime" where
  "set_local_address a r = r\<lparr>rt_local_addr := a, rt_sd := (rt_sd r)\<lparr>sd_local_addr := a\<rparr>\<rparr>"

definition rt_register_service ::
    "('t, 'a) env \<Rightarrow> u16 \<Rightarrow> service_ctx \<Rightarrow> u8 \<Rightarrow> u8 \<Rightarrow> bool \<Rightarrow> ('t, 'a) runtime \<Rightarrow> bool \<times> ('t, 'a) runtime" where
  "rt_register_service env sid svc major minor auth_required r =
     (case register_service (en_cfg env) (Some (rt_logger r))
             (make_service_entry sid svc major minor auth_required) (rt_dispatcher r) of
        (ok, disp, out) \<Rightarrow> (ok, emit out (r\<lparr>rt_dispatcher := disp\<rparr>)))"

definition rt_unregister_service :: "('t, 'a) env \<Rightarrow> u16 \<Rightarrow> ('t, 'a) runtime \<Rightarrow> bool \<times> ('t, 'a) runtime" where
  "rt_unregister_service env sid r =
     (case unregister_service (en_cfg env) (Some (rt_logger r)) sid (rt_dispatcher r) of
        (ok, disp, out) \<Rightarrow> (ok, emit out (r\<lparr>rt_dispatcher := disp\<rparr>)))"

definition rt_register_event :: "('t, 'a) env \<Rightarrow> u16 \<Rightarrow> u16 \<Rightarrow> ('t, 'a) runtime \<Rightarrow> bool \<times> ('t, 'a) runtime" where
  "rt_register_event env sid eid r =
     (case register_event (en_cfg env) (Some (rt_logger r)) sid eid (rt_events r) of
        (ok, events, out) \<Rightarrow> (ok, emit out (r\<lparr>rt_events := events\<rparr>)))"

definition offer_service :: "('t, 'a) env \<Rightarrow> u16 \<Rightarrow> u16 \<Rightarrow> u32 \<Rightarrow> ('t, 'a) runtime \<Rightarrow> bool \<times> ('t, 'a) runtime" where
  "offer_service env sid ttl_seconds now_ms r =
     (case find_service_entry sid (rt_dispatcher r) of
        None \<Rightarrow> (False, r)
      | Some se \<Rightarrow>
          (case sd_offer (en_cfg env) (Some (rt_logger r)) sid (se_major_version se) (se_minor_version se)
                  ttl_seconds now_ms (rt_sd r) of
             (ok, sd, out) \<Rightarrow> (ok, emit out (r\<lparr>rt_sd := sd\<rparr>))))"

definition stop_offer :: "('t, 'a) env \<Rightarrow> u16 \<Rightarrow> ('t, 'a) runtime \<Rightarrow> ('t, 'a) runtime" where
  "stop_offer env sid r =
     (case sd_stop_offer (en_cfg env) (Some (rt_logger r)) sid (rt_sd r) of
        (sd, out) \<Rightarrow> emit out (r\<lparr>rt_sd := sd\<rparr>))"

definition find_service :: "('t, 'a) env \<Rightarrow> u16 \<Rightarrow> u8 \<Rightarrow> u32 \<Rightarrow> ('t, 'a) runtime \<Rightarrow> bool \<times> ('t, 'a) runtime" where
  "find_service env sid major now_ms r =
     (case sd_find (en_cfg env) (Some (rt_logger r)) sid major now_ms (rt_sd r) of
        (ok, sd, out) \<Rightarrow> (ok, emit out (r\<lparr>rt_sd := sd\<rparr>)))"

definition set_sd_callbacks :: "SdCallbacks \<Rightarrow> ('t, 'a) runtime \<Rightarrow> ('t, 'a) runtime" where
  "set_sd_callbacks cb r = r\<lparr>rt_sd := (rt_sd r)\<lparr>sd_callbacks := cb\<rparr>\<rparr>"

section \<open>Requests\<close>

definition request ::
    "('t, 'a) env \<Rightarrow> u16 \<Rightarrow> u16 \<Rightarrow> bytes option \<Rightarrow> nat \<Rightarrow> nat option \<Rightarrow> nat \<Rightarrow> u32 \<Rightarrow> u32 \<Rightarrow>
       ('t, 'a) runtime \<Rightarrow> u32 option \<times> ('t, 'a) runtime" where
  "request env sid mid payload payload_length cb ctx timeout_ms now_ms r =
     (case get_provider_address sid (rt_sd r) of
        None \<Rightarrow> (None, r)
      | Some provider \<Rightarrow>
          request_impl env provider sid mid payload payload_length cb ctx timeout_ms now_ms r)"

definition request_to ::
    "('t, 'a) env \<Rightarrow> addr \<Rightarrow> u16 \<Rightarrow> u16 \<Rightarrow> bytes option \<Rightarrow> nat \<Rightarrow> nat option \<Rightarrow> nat \<Rightarrow> u32 \<Rightarrow> u32 \<Rightarrow>
       ('t, 'a) runtime \<Rightarrow> u32 option \<times> ('t, 'a) runtime" where
  "request_to env target sid mid payload payload_length cb ctx timeout_ms now_ms r =
     request_impl env target sid mid payload payload_length cb ctx timeout_ms now_ms r"

definition fire_and_forget ::
    "('t, 'a) env \<Rightarrow> u16 \<Rightarrow> u16 \<Rightarrow> bytes option \<Rightarrow> nat \<Rightarrow> ('t, 'a) runtime \<Rightarrow> bool \<times> ('t, 'a) runtime" where
  "fire_and_forget env sid mid payload payload_length r =
     (case get_provider_address sid (rt_sd r) of
        None \<Rightarrow> (False, r)
      | Some provider \<Rightarrow>
          let auth = should_auth_outgoing provider r;
              (sq, r) = rt_next_sequence r;
              hdr = default_header\<lparr> hdr_version := PROTOCOL_VERSION,
                hdr_message_type := message_type_code REQUEST_NO_RETURN, hdr_return_code := 0,
                hdr_flags := (if auth then FLAG_AUTH else 0), hdr_service_id := sid,
                hdr_method_event_id := mid, hdr_client_id := rt_client_id r,
                hdr_sequence_counter := sq, hdr_request_id := REQUEST_ID_NONE,
                hdr_payload_length := of_nat payload_length \<rparr>;
              (total, r) = build_message (en_cfg env) hdr payload payload_length auth provider r;
              (ok, r) = rt_send env provider total r
          in if \<not> ok then
               (False, rt_warn env CatTransport ''fnf_send_fail'' sid mid (rt_client_id r) 0
                  (diag_increment DroppedMessages None r))
             else
               (True, rt_debug env CatDispatch ''fnf_tx'' sid mid (rt_client_id r) (of_nat payload_length) r))"

section \<open>Events\<close>

definition subscribe_event ::
    "('t, 'a) env \<Rightarrow> u16 \<Rightarrow> u16 \<Rightarrow> nat \<Rightarrow> u16 \<Rightarrow> u32 \<Rightarrow> ('t, 'a) runtime \<Rightarrow> bool \<times> ('t, 'a) runtime" where
  "subscribe_event env sid eid handler ttl_seconds now_ms r =
     (case register_event_handler (en_cfg env) sid eid handler (rt_handlers r) of
        (ok, handlers) \<Rightarrow>
          if \<not> ok then (False, r\<lparr>rt_handlers := handlers\<rparr>)
          else case sd_subscribe_event (en_cfg env) sid eid ttl_seconds now_ms (rt_sd r) of
                 (ok, sd) \<Rightarrow> (ok, r\<lparr>rt_handlers := handlers, rt_sd := sd\<rparr>))"

definition unsubscribe_event :: "u16 \<Rightarrow> u16 \<Rightarrow> ('t, 'a) runtime \<Rightarrow> bool \<times> ('t, 'a) runtime" where
  "unsubscribe_event sid eid r =
     (case sd_unsubscribe_event sid eid (rt_sd r) of
        (ok, sd) \<Rightarrow> (ok, r\<lparr>rt_handlers := unregister_event_handler sid eid (rt_handlers r), rt_sd := sd\<rparr>))"

text \<open>The callback that \<open>notify_event\<close> passes to the event manager.\<close>

definition send_notification ::
    "('t, 'a) env \<Rightarrow> u16 \<Rightarrow> u16 \<Rightarrow> bytes option \<Rightarrow> nat \<Rightarrow> addr \<Rightarrow> u16 \<Rightarrow> ('t, 'a) runtime \<Rightarrow> ('t, 'a) runtime" where
  "send_notification env sid eid payload payload_length dest client_id r =
     (let auth = should_auth_outgoing dest r;
          (sq, r) = rt_next_sequence r;
          hdr = default_header\<lparr> hdr_version := PROTOCOL_VERSION,
            hdr_message_type := message_type_code NOTIFICATION, hdr_return_code := 0,
            hdr_flags := (if auth then FLAG_AUTH else 0), hdr_service_id := sid,
            hdr_method_event_id := eid, hdr_client_id := CLIENT_ID_PROVIDER,
            hdr_sequence_counter := sq, hdr_request_id := REQUEST_ID_NONE,
            hdr_payload_length := of_nat payload_length \<rparr>;
          (total, r) = build_message (en_cfg env) hdr payload payload_length auth dest r;
          (ok, r) = rt_send env dest total r
      in if \<not> ok then
           rt_warn env CatTransport ''notify_send_fail'' sid eid 0 0 (diag_increment DroppedMessages None r)
         else r)"

definition notify_event ::
    "('t, 'a) env \<Rightarrow> u16 \<Rightarrow> u16 \<Rightarrow> bytes option \<Rightarrow> nat \<Rightarrow> ('t, 'a) runtime \<Rightarrow> bool \<times> ('t, 'a) runtime" where
  "notify_event env sid eid payload payload_length r =
     (if \<not> has_subscribers sid eid (rt_events r) then (False, r)
      else (True, notify sid eid (send_notification env sid eid payload payload_length) (rt_events r) r))"

section \<open>Keys, diagnostics and logging\<close>

definition set_hmac_key :: "('t, 'a) env \<Rightarrow> addr \<Rightarrow> bytes \<Rightarrow> ('t, 'a) runtime \<Rightarrow> bool \<times> ('t, 'a) runtime" where
  "set_hmac_key env peer key r =
     (case set_key (en_cfg env) (Some (rt_logger r)) peer key (rt_auth r) of
        (ok, keys, out) \<Rightarrow> (ok, emit out (r\<lparr>rt_auth := keys\<rparr>)))"

definition set_diagnostic_callback :: "nat option \<Rightarrow> nat \<Rightarrow> ('t, 'a) runtime \<Rightarrow> ('t, 'a) runtime" where
  "set_diagnostic_callback cb ctx r = r\<lparr>rt_diag := counters_set_callback cb ctx (rt_diag r)\<rparr>"

definition set_log_callback :: "nat option \<Rightarrow> nat \<Rightarrow> ('t, 'a) runtime \<Rightarrow> ('t, 'a) runtime" where
  "set_log_callback cb ctx r = r\<lparr>rt_logger := logger_set_callback cb ctx (rt_logger r)\<rparr>"

definition enable_diagnostics :: "('t, 'a) env \<Rightarrow> u32 \<Rightarrow> bool \<Rightarrow> ('t, 'a) runtime \<Rightarrow> bool \<times> ('t, 'a) runtime" where
  "enable_diagnostics env now_ms auth_required r =
     (if rt_diag_enabled r then (True, r)
      else
        let r = r\<lparr>rt_diag_service := diag_service_init (rt_client_id r) (rt_diag_service r)\<rparr>;
            (ok, r) = rt_register_service env DIAG_SERVICE_ID DiagCtx 1 0 auth_required r
        in if \<not> ok then (False, r)
           else let (ok, r) = offer_service env DIAG_SERVICE_ID (OfferTtlSeconds (en_cfg env)) now_ms r
                in if \<not> ok then (False, snd (rt_unregister_service env DIAG_SERVICE_ID r))
                   else (True, r\<lparr>rt_diag_enabled := True\<rparr>))"

definition report_dtc ::
    "('t, 'a) env \<Rightarrow> u16 \<Rightarrow> DtcSeverity \<Rightarrow> u32 \<Rightarrow> ('t, 'a) runtime \<Rightarrow> bool \<times> ('t, 'a) runtime" where
  "report_dtc env code severity now_ms r =
     (if MaxDtcs (en_cfg env) = 0 then (False, r)
      else case dtc_report (en_cfg env) code severity now_ms (rt_dtcs r) of
             (ok, dtcs) \<Rightarrow>
               let r = r\<lparr>rt_dtcs := dtcs\<rparr> in
               (ok, if \<not> ok then diag_increment DroppedMessages None r else r))"

definition clear_dtc :: "u16 \<Rightarrow> ('t, 'a) runtime \<Rightarrow> bool \<times> ('t, 'a) runtime" where
  "clear_dtc code r = (case dtc_clear code (rt_dtcs r) of (ok, dtcs) \<Rightarrow> (ok, r\<lparr>rt_dtcs := dtcs\<rparr>))"

definition clear_all_dtcs :: "('t, 'a) runtime \<Rightarrow> ('t, 'a) runtime" where
  "clear_all_dtcs r = r\<lparr>rt_dtcs := dtc_clear_all (rt_dtcs r)\<rparr>"

section \<open>One step of a runtime\<close>

datatype rt_op =
  Do_Process u32
| Do_Set_Local_Address addr
| Do_Register_Service u16 nat u8 u8 bool
| Do_Unregister_Service u16
| Do_Register_Event u16 u16
| Do_Offer u16 u16 u32
| Do_Stop_Offer u16
| Do_Find u16 u8 u32
| Do_Set_Sd_Callbacks SdCallbacks
| Do_Request u16 u16 "bytes option" nat "nat option" nat u32 u32
| Do_Request_To addr u16 u16 "bytes option" nat "nat option" nat u32 u32
| Do_Fire_And_Forget u16 u16 "bytes option" nat
| Do_Subscribe u16 u16 nat u16 u32
| Do_Unsubscribe u16 u16
| Do_Notify u16 u16 "bytes option" nat
| Do_Set_Hmac_Key addr bytes
| Do_Set_Diagnostic_Callback "nat option" nat
| Do_Set_Log_Callback "nat option" nat
| Do_Enable_Diagnostics u32 bool
| Do_Report_Dtc u16 DtcSeverity u32
| Do_Clear_Dtc u16
| Do_Clear_All_Dtcs

fun rt_apply :: "('t, 'a) env \<Rightarrow> rt_op \<Rightarrow> ('t, 'a) runtime \<Rightarrow> ('t, 'a) runtime" where
  "rt_apply env (Do_Process now_ms) r = process env now_ms r"
| "rt_apply env (Do_Set_Local_Address a) r = set_local_address a r"
| "rt_apply env (Do_Register_Service sid svc major minor auth) r =
     snd (rt_register_service env sid (AppCtx svc) major minor auth r)"
| "rt_apply env (Do_Unregister_Service sid) r = snd (rt_unregister_service env sid r)"
| "rt_apply env (Do_Register_Event sid eid) r = snd (rt_register_event env sid eid r)"
| "rt_apply env (Do_Offer sid ttl now_ms) r = snd (offer_service env sid ttl now_ms r)"
| "rt_apply env (Do_Stop_Offer sid) r = stop_offer env sid r"
| "rt_apply env (Do_Find sid major now_ms) r = snd (find_service env sid major now_ms r)"
| "rt_apply env (Do_Set_Sd_Callbacks cb) r = set_sd_callbacks cb r"
| "rt_apply env (Do_Request sid mid p n cb ctx timeout now_ms) r =
     snd (request env sid mid p n cb ctx timeout now_ms r)"
| "rt_apply env (Do_Request_To target sid mid p n cb ctx timeout now_ms) r =
     snd (request_to env target sid mid p n cb ctx timeout now_ms r)"
| "rt_apply env (Do_Fire_And_Forget sid mid p n) r = snd (fire_and_forget env sid mid p n r)"
| "rt_apply env (Do_Subscribe sid eid h ttl now_ms) r = snd (subscribe_event env sid eid h ttl now_ms r)"
| "rt_apply env (Do_Unsubscribe sid eid) r = snd (unsubscribe_event sid eid r)"
| "rt_apply env (Do_Notify sid eid p n) r = snd (notify_event env sid eid p n r)"
| "rt_apply env (Do_Set_Hmac_Key peer key) r = snd (set_hmac_key env peer key r)"
| "rt_apply env (Do_Set_Diagnostic_Callback cb ctx) r = set_diagnostic_callback cb ctx r"
| "rt_apply env (Do_Set_Log_Callback cb ctx) r = set_log_callback cb ctx r"
| "rt_apply env (Do_Enable_Diagnostics now_ms auth) r = snd (enable_diagnostics env now_ms auth r)"
| "rt_apply env (Do_Report_Dtc code severity now_ms) r = snd (report_dtc env code severity now_ms r)"
| "rt_apply env (Do_Clear_Dtc code) r = snd (clear_dtc code r)"
| "rt_apply env Do_Clear_All_Dtcs r = clear_all_dtcs r"

text \<open>
  The arguments a caller may pass: addresses have the width of the configuration, and a payload
  pointer points to at least as many bytes as the length says.
\<close>

definition payload_ok :: "bytes option \<Rightarrow> nat \<Rightarrow> bool" where
  "payload_ok p n \<longleftrightarrow> (case p of None \<Rightarrow> True | Some b \<Rightarrow> n \<le> length b)"

fun op_ok :: "config \<Rightarrow> rt_op \<Rightarrow> bool" where
  "op_ok cfg (Do_Set_Local_Address a) = (length a = TransportAddressSize cfg)"
| "op_ok cfg (Do_Request sid mid p n cb ctx timeout now_ms) = payload_ok p n"
| "op_ok cfg (Do_Request_To target sid mid p n cb ctx timeout now_ms) = payload_ok p n"
| "op_ok cfg (Do_Fire_And_Forget sid mid p n) = payload_ok p n"
| "op_ok cfg (Do_Notify sid eid p n) = payload_ok p n"
| "op_ok cfg _ = True"

inductive rt_reach :: "('t, 'a) env \<Rightarrow> ('t, 'a) runtime \<Rightarrow> bool" for env where
  rt_start: "rt_reach env (runtime_init env transport app client_id)"
| rt_step: "rt_reach env r \<Longrightarrow> op_ok (en_cfg env) op \<Longrightarrow> rt_reach env (rt_apply env op r)"

end
