(* ===== verification/Runtime_Invariant.thy ===== *)
theory Runtime_Invariant
  imports Runtime_Api Sd_Operations
begin

text \<open>
  The invariant of a runtime: every table is well-formed and the two buffers have their size.  It
  holds after construction and is kept by every operation, whatever the transport delivers and
  whatever the services answer inside the buffer they are given.
\<close>

section \<open>The invariant\<close>

text \<open>A service writes inside the response buffer: it does not change its length.\<close>

definition service_contract :: "('t, 'a) env \<Rightarrow> bool" where
  "service_contract env \<longleftrightarrow>
     (\<forall>n mid p resp rlen a rc resp' rlen' a'.
        app_on_request env n mid p resp rlen a = (rc, resp', rlen', a') \<longrightarrow>
        map_option length resp' = map_option length resp)"

definition env_ok :: "('t, 'a) env \<Rightarrow> bool" where
  "env_ok env \<longleftrightarrow> service_contract env \<and> MaxPendingRequests (en_cfg env) \<le> 2 ^ 32"

definition rt_wf :: "config \<Rightarrow> ('t, 'a) runtime \<Rightarrow> bool" where
  "rt_wf cfg r \<longleftrightarrow>
     e2e_wf cfg (rt_e2e r) \<and> auth_wf cfg (rt_auth r) \<and> counters_wf (rt_diag r) \<and>
     dtc_wf cfg (rt_dtcs r) \<and> sd_wf cfg (rt_sd r) \<and> dispatcher_wf cfg (rt_dispatcher r) \<and>
     events_wf cfg (rt_events r) \<and> tracker_wf cfg (rt_requests r) \<and> handlers_wf cfg (rt_handlers r) \<and>
     length (rt_tx_buffer r) = MAX_MSG_SIZE cfg \<and> length (rt_response_buffer r) = MaxPayloadSize cfg"

lemma rt_wf_parts:
  assumes "rt_wf cfg r"
  shows "e2e_wf cfg (rt_e2e r)" "auth_wf cfg (rt_auth r)" "counters_wf (rt_diag r)"
    "dtc_wf cfg (rt_dtcs r)" "sd_wf cfg (rt_sd r)" "dispatcher_wf cfg (rt_dispatcher r)"
    "events_wf cfg (rt_events r)" "tracker_wf cfg (rt_requests r)" "handlers_wf cfg (rt_handlers r)"
    "length (rt_tx_buffer r) = MAX_MSG_SIZE cfg" "length (rt_response_buffer r) = MaxPayloadSize cfg"
  using assms by (simp_all add: rt_wf_def)

lemma rt_wf_free [simp]:
  "rt_wf cfg (r\<lparr>rt_out := os\<rparr>) = rt_wf cfg r" "rt_wf cfg (r\<lparr>rt_transport := t\<rparr>) = rt_wf cfg r"
  "rt_wf cfg (r\<lparr>rt_app := a\<rparr>) = rt_wf cfg r" "rt_wf cfg (r\<lparr>rt_logger := l\<rparr>) = rt_wf cfg r"
  "rt_wf cfg (r\<lparr>rt_sd_seq := s\<rparr>) = rt_wf cfg r" "rt_wf cfg (r\<lparr>rt_diag_enabled := b\<rparr>) = rt_wf cfg r"
  "rt_wf cfg (r\<lparr>rt_uptime_ms := u\<rparr>) = rt_wf cfg r" "rt_wf cfg (r\<lparr>rt_uptime_epoch_ms := u\<rparr>) = rt_wf cfg r"
  "rt_wf cfg (r\<lparr>rt_uptime_started := b\<rparr>) = rt_wf cfg r" "rt_wf cfg (r\<lparr>rt_local_addr := ad\<rparr>) = rt_wf cfg r"
  "rt_wf cfg (r\<lparr>rt_diag_service := ds\<rparr>) = rt_wf cfg r"
  by (simp_all add: rt_wf_def)

lemma rt_wf_set [inv_intros]:
  "rt_wf cfg r \<Longrightarrow> e2e_wf cfg e \<Longrightarrow> rt_wf cfg (r\<lparr>rt_e2e := e\<rparr>)"
  "rt_wf cfg r \<Longrightarrow> auth_wf cfg k \<Longrightarrow> rt_wf cfg (r\<lparr>rt_auth := k\<rparr>)"
  "rt_wf cfg r \<Longrightarrow> counters_wf d \<Longrightarrow> rt_wf cfg (r\<lparr>rt_diag := d\<rparr>)"
  "rt_wf cfg r \<Longrightarrow> dtc_wf cfg dt \<Longrightarrow> rt_wf cfg (r\<lparr>rt_dtcs := dt\<rparr>)"
  "rt_wf cfg r \<Longrightarrow> sd_wf cfg sd \<Longrightarrow> rt_wf cfg (r\<lparr>rt_sd := sd\<rparr>)"
  "rt_wf cfg r \<Longrightarrow> dispatcher_wf cfg dp \<Longrightarrow> rt_wf cfg (r\<lparr>rt_dispatcher := dp\<rparr>)"
  "rt_wf cfg r \<Longrightarrow> events_wf cfg ev \<Longrightarrow> rt_wf cfg (r\<lparr>rt_events := ev\<rparr>)"
  "rt_wf cfg r \<Longrightarrow> tracker_wf cfg rq \<Longrightarrow> rt_wf cfg (r\<lparr>rt_requests := rq\<rparr>)"
  "rt_wf cfg r \<Longrightarrow> handlers_wf cfg h \<Longrightarrow> rt_wf cfg (r\<lparr>rt_handlers := h\<rparr>)"
  "rt_wf cfg r \<Longrightarrow> length tx = MAX_MSG_SIZE cfg \<Longrightarrow> rt_wf cfg (r\<lparr>rt_tx_buffer := tx\<rparr>)"
  "rt_wf cfg r \<Longrightarrow> length rb = MaxPayloadSize cfg \<Longrightarrow> rt_wf cfg (r\<lparr>rt_response_buffer := rb\<rparr>)"
  by (simp_all add: rt_wf_def)

lemma rt_wf_init: "rt_wf (en_cfg env) (runtime_init env transport app client_id)"
  by (simp add: rt_wf_def runtime_init_def Let_def)

section \<open>Primitive operations\<close>

lemma rt_wf_emit [simp]: "rt_wf cfg (emit os r) = rt_wf cfg r"
  by (simp add: emit_def)

lemma rt_wf_logs [simp]:
  "rt_wf cfg (rt_trace env c tag s m i x r) = rt_wf cfg r" "rt_wf cfg (rt_debug env c tag s m i x r) = rt_wf cfg r"
  "rt_wf cfg (rt_info env c tag s m i x r) = rt_wf cfg r" "rt_wf cfg (rt_warn env c tag s m i x r) = rt_wf cfg r"
  "rt_wf cfg (rt_error env c tag s m i x r) = rt_wf cfg r"
  by (simp_all add: rt_trace_def rt_debug_def rt_info_def rt_warn_def rt_error_def)

lemma rt_wf_send [simp]: "rt_wf cfg (snd (rt_send env dest n r)) = rt_wf cfg r"
  by (simp add: rt_send_def Let_def case_prod_beta)

lemma rt_wf_broadcast [simp]: "rt_wf cfg (snd (rt_broadcast env n r)) = rt_wf cfg r"
  by (simp add: rt_broadcast_def Let_def case_prod_beta)

lemma rt_wf_diag_increment [inv_intros]: "rt_wf cfg r \<Longrightarrow> rt_wf cfg (diag_increment c h r)"
  by (simp add: diag_increment_def case_prod_beta rt_wf_set rt_wf_parts)

lemma rt_wf_next_sequence [inv_intros]: "rt_wf cfg r \<Longrightarrow> rt_wf cfg (snd (rt_next_sequence r))"
  by (simp add: rt_next_sequence_def case_prod_beta rt_wf_set rt_wf_parts)

lemma rt_wf_reset_peer [inv_intros]: "rt_wf (en_cfg env) r \<Longrightarrow> rt_wf (en_cfg env) (rt_reset_peer env a r)"
  by (simp add: rt_reset_peer_def case_prod_beta rt_wf_set rt_wf_parts validate_sequence_state e2e_keeps_wf)

lemma rt_wf_validate_seq [inv_intros]:
  "rt_wf (en_cfg env) r \<Longrightarrow> rt_wf (en_cfg env) (snd (rt_validate_seq env a s r))"
  by (simp add: rt_validate_seq_def case_prod_beta rt_wf_set rt_wf_parts validate_sequence_state e2e_keeps_wf)

lemma length_crc16_append [len_simps, simp]: "length (crc16_append buf n) = length buf"
  by (simp add: crc16_append_def Let_def)

lemma build_message_tx:
  assumes "length (rt_tx_buffer r) = MAX_MSG_SIZE cfg"
  shows "length (rt_tx_buffer (snd (build_message cfg hdr p n auth peer r))) = MAX_MSG_SIZE cfg"
proof (cases "n > MaxPayloadSize cfg")
  case False
  define tx where "tx = (case p of None \<Rightarrow> blit 0 (serialize hdr) (rt_tx_buffer r)
    | Some p \<Rightarrow> if n > 0 then blit HEADER_SIZE (take n p) (blit 0 (serialize hdr) (rt_tx_buffer r))
        else blit 0 (serialize hdr) (rt_tx_buffer r))"
  have tx: "length tx = MAX_MSG_SIZE cfg"
    using assms False by (simp add: tx_def MAX_MSG_SIZE_def min_def split: option.split)
  have "length (blit (20 + n) (case auth_compute (take 20 tx) (take n (drop 20 tx)) peer (rt_auth r) of
      None \<Rightarrow> replicate HMAC_SIZE 0 | Some m \<Rightarrow> m) tx) = MAX_MSG_SIZE cfg"
    using tx False length_auth_compute by (subst length_blit) (auto simp: MAX_MSG_SIZE_def split: option.split)
  then show ?thesis
    using False tx by (simp add: build_message_def Let_def tx_def [symmetric])
qed (simp add: build_message_def assms)

lemma build_message_frame [frame_simps]:
  "snd (build_message cfg hdr p n auth peer r) =
     r\<lparr>rt_tx_buffer := rt_tx_buffer (snd (build_message cfg hdr p n auth peer r))\<rparr>"
  by (simp add: build_message_def Let_def case_prod_beta)

lemma rt_wf_build [inv_intros]: "rt_wf cfg r \<Longrightarrow> rt_wf cfg (snd (build_message cfg hdr p n auth peer r))"
  by (subst build_message_frame) (rule rt_wf_set, auto intro: build_message_tx rt_wf_parts)

text \<open>Sending the transmit buffer, counting and logging a failure.\<close>

lemma rt_wf_sent [inv_intros]:
  "rt_wf cfg r \<Longrightarrow>
   rt_wf cfg (case rt_send env dest n r of (ok, r) \<Rightarrow>
     if \<not> ok then rt_warn env c tag s m i x (diag_increment d h r) else rt_info env c' tag' s' m' i' x' r)"
  "rt_wf cfg r \<Longrightarrow>
   rt_wf cfg (case rt_send env dest n r of (ok, r) \<Rightarrow>
     if \<not> ok then rt_warn env c tag s m i x (diag_increment d h r) else r)"
  using rt_wf_send [of cfg env dest n r] by (auto simp: case_prod_beta intro: inv_intros)

section \<open>Sending\<close>

lemma rt_wf_request_impl:
  assumes "env_ok env" "rt_wf (en_cfg env) r"
  shows "rt_wf (en_cfg env) (snd (request_impl env target sid mid p n cb ctx timeout now_ms r))"
proof -
  let ?cfg = "en_cfg env"
  obtain rid reqs out where a: "allocate ?cfg (Some (rt_logger r)) sid mid timeout now_ms cb ctx (rt_requests r)
      = (rid, reqs, out)" by (cases "allocate ?cfg (Some (rt_logger r)) sid mid timeout now_ms cb ctx (rt_requests r)")
  define r1 where "r1 = emit out (r\<lparr>rt_requests := reqs\<rparr>)"
  have "tracker_wf ?cfg reqs"
  proof (cases rid)
    case None
    then have "reqs = rt_requests r"
      using allocate_None(2) [OF rt_wf_parts(8) [OF assms(2)],
        of "Some (rt_logger r)" sid mid timeout now_ms cb ctx] a by simp
    then show ?thesis using assms(2) by (simp add: rt_wf_parts)
  next
    case (Some i)
    then show ?thesis
      using allocate_Some(2) [OF rt_wf_parts(8) [OF assms(2)]] a assms(1) unfolding env_ok_def by blast
  qed
  then have r1: "rt_wf ?cfg r1" using assms(2) by (simp add: r1_def rt_wf_set)
  show ?thesis
  proof (cases rid)
    case None
    then show ?thesis using a r1 by (simp add: request_impl_def Let_def r1_def)
  next
    case (Some i)
    define auth where "auth = should_auth_outgoing target r1"
    define r2 where "r2 = snd (rt_next_sequence r1)"
    define hdr where "hdr = (make_request_header sid mid n i auth r1)
      \<lparr>hdr_sequence_counter := fst (rt_next_sequence r1)\<rparr>"
    define r3 where "r3 = snd (build_message ?cfg hdr p n auth target r2)"
    define k where "k = fst (build_message ?cfg hdr p n auth target r2)"
    define r4 where "r4 = snd (rt_send env target k r3)"
    have r4: "rt_wf ?cfg r4"
      unfolding r4_def rt_wf_send unfolding r3_def r2_def by (intro inv_intros r1)
    let ?c = "complete ?cfg (Some (rt_logger r4)) i E_NOT_OK None (rt_requests r4)"
    have c: "tracker_wf ?cfg (fst (snd ?c))"
      using complete_pending(1) [OF rt_wf_parts(8) [OF r4]] by (metis prod.collapse)
    have eq: "request_impl env target sid mid p n cb ctx timeout now_ms r =
      (if \<not> fst (rt_send env target k r3) then
         (None, rt_warn env CatTransport ''request_send_fail'' sid mid
            (rt_client_id (emit (snd (snd ?c)) (r4\<lparr>rt_requests := fst (snd ?c)\<rparr>))) i
            (diag_increment DroppedMessages None (emit (snd (snd ?c)) (r4\<lparr>rt_requests := fst (snd ?c)\<rparr>))))
       else (Some i, rt_debug env CatRequests ''request_tx'' sid mid (rt_client_id r4) i r4))"
      unfolding request_impl_def Let_def a prod.case Some option.case r1_def [symmetric]
        auth_def [symmetric] case_prod_beta fst_conv snd_conv r2_def [symmetric] hdr_def [symmetric]
        r3_def [symmetric] k_def [symmetric] r4_def [symmetric]
      by (simp add: emit_def)
    show ?thesis
      unfolding eq using r4 c by (auto intro!: inv_intros)
  qed
qed

lemma length_sd_tx:
  "length msg + 2 \<le> length tx \<Longrightarrow> length (crc16_append ((blit 0 msg tx)[10 := s]) n) = length tx"
  by simp

lemma rt_wf_sd_broadcast [inv_intros]:
  assumes "rt_wf (en_cfg env) r"
  shows "rt_wf (en_cfg env) (send_sd_broadcast env msg r)"
proof (cases "length msg + CRC_SIZE > MAX_MSG_SIZE (en_cfg env)")
  case False
  define r1 where "r1 = r\<lparr>rt_tx_buffer := crc16_append ((blit 0 msg (rt_tx_buffer r))[10 := rt_sd_seq r]) (length msg),
      rt_sd_seq := rt_sd_seq r + 1\<rparr>"
  have r1: "rt_wf (en_cfg env) r1"
    using False assms length_sd_tx rt_wf_parts(10) [OF assms] by (simp add: r1_def rt_wf_set)
  then have "rt_wf (en_cfg env) (snd (rt_broadcast env (length msg + CRC_SIZE) r1))" by simp
  then show ?thesis
    using False by (auto simp: send_sd_broadcast_def Let_def r1_def [symmetric] case_prod_beta intro!: inv_intros)
qed (simp add: send_sd_broadcast_def assms)

lemma rt_wf_sd_unicast [inv_intros]:
  assumes "rt_wf (en_cfg env) r"
  shows "rt_wf (en_cfg env) (send_sd_unicast env dest msg r)"
proof (cases "length msg + CRC_SIZE > MAX_MSG_SIZE (en_cfg env)")
  case False
  define r1 where "r1 = r\<lparr>rt_tx_buffer := crc16_append ((blit 0 msg (rt_tx_buffer r))[10 := rt_sd_seq r]) (length msg),
      rt_sd_seq := rt_sd_seq r + 1\<rparr>"
  have r1: "rt_wf (en_cfg env) r1"
    using False assms length_sd_tx rt_wf_parts(10) [OF assms] by (simp add: r1_def rt_wf_set)
  then have "rt_wf (en_cfg env) (snd (rt_send env dest (length msg + CRC_SIZE) r1))" by simp
  then show ?thesis
    using False by (auto simp: send_sd_unicast_def Let_def r1_def [symmetric] case_prod_beta intro!: inv_intros)
qed (simp add: send_sd_unicast_def assms)

end
