(* ===== verification/Runtime_Wf.thy ===== *)
theory Runtime_Wf
  imports Runtime_Invariant
begin

text \<open>
  Every operation of the runtime keeps the invariant: the handlers of the receive side, the process
  cycle and the calls of the application; hence every reachable runtime satisfies it.
\<close>

section \<open>Calling services\<close>

definition buffer_ok :: "bytes option \<Rightarrow> nat \<Rightarrow> bool" where
  "buffer_ok resp rlen \<longleftrightarrow> (case resp of None \<Rightarrow> True | Some b \<Rightarrow> rlen \<le> length b)"

lemma pack_None: "snd (snd (fold (\<lambda>x. pack_record c sz (enc x)) xs (offset, n, None))) = None"
  by (induction xs arbitrary: offset n) (simp_all add: pack_record_def)

lemma put_bytes_eq_None [simp]: "put_bytes off xs resp = None \<longleftrightarrow> resp = None"
  by (simp add: put_bytes_def)

lemma get_dtcs_length:
  assumes "dtc_wf cfg dtcs" "buffer_ok resp rlen"
  shows "map_option length (fst (snd (handle_get_dtcs dtcs resp rlen))) = map_option length resp"
proof (cases "rlen < 2")
  case False
  show ?thesis
  proof (cases resp)
    case None
    then show ?thesis using False pack_None [of rlen 16 dtc_record "live dtcs" 2 0]
      by (simp add: handle_get_dtcs_def dtc_for_each_live [OF assms(1)] case_prod_beta)
  next
    case (Some b)
    then show ?thesis using get_dtcs_response [OF assms(1), of rlen b] False assms(2)
      by (auto simp: buffer_ok_def)
  qed
qed (simp add: handle_get_dtcs_def)

lemma get_service_list_length:
  assumes "dispatcher_wf cfg disp" "buffer_ok resp rlen"
  shows "map_option length (fst (snd (handle_get_service_list ready disp resp rlen))) = map_option length resp"
proof (cases "rlen < 2")
  case False
  show ?thesis
  proof (cases resp)
    case None
    then show ?thesis using False pack_None [of rlen 6 "service_record ready" "live disp" 2 0]
      by (simp add: handle_get_service_list_def dispatcher_for_each_live [OF assms(1)] case_prod_beta)
  next
    case (Some b)
    then show ?thesis using get_service_list_response [OF assms(1), of rlen b ready] False assms(2)
      by (auto simp: buffer_ok_def)
  qed
qed (simp add: handle_get_service_list_def)

lemma fold_put_None: "fold (\<lambda>i. put_bytes (f i) (g i)) xs None = None"
  by (induction xs) simp_all

lemma get_counters_length:
  assumes "counters_wf c" "buffer_ok resp rlen"
  shows "map_option length (fst (snd (handle_get_counters c resp rlen))) = map_option length resp"
proof (cases resp)
  case None
  then show ?thesis by (simp add: handle_get_counters_def fold_put_None)
next
  case (Some b)
  then show ?thesis using get_counters_response [of rlen b c] assms
    by (cases "rlen < 36") (auto simp: buffer_ok_def handle_get_counters_def)
qed

lemma get_device_info_length:
  assumes "buffer_ok resp rlen"
  shows "map_option length (fst (snd (handle_get_device_info ds u resp rlen))) = map_option length resp"
proof (cases resp)
  case None
  then show ?thesis by (simp add: handle_get_device_info_def)
next
  case (Some b)
  then show ?thesis using get_device_info_response [of rlen b ds u] assms
    by (cases "rlen < 8") (auto simp: buffer_ok_def handle_get_device_info_def)
qed

lemma clear_dtcs_shape:
  assumes "dtc_wf cfg dtcs"
  shows "fst (snd (handle_clear_dtcs p resp dtcs)) = resp"
    and "dtc_wf cfg (snd (snd (snd (handle_clear_dtcs p resp dtcs))))"
proof -
  have "dtc_wf cfg (snd (dtc_clear code dtcs))" for code
    using dtc.del_inv [OF assms, of code] by (simp add: dtc_del_def)
  then show "fst (snd (handle_clear_dtcs p resp dtcs)) = resp"
    and "dtc_wf cfg (snd (snd (snd (handle_clear_dtcs p resp dtcs))))"
    using assms by (auto simp: handle_clear_dtcs_def Let_def case_prod_beta dtc_clear_all_wf)
qed

lemma diag_on_request_shape:
  assumes "dtc_wf cfg dtcs" "dispatcher_wf cfg disp" "counters_wf c" "buffer_ok resp rlen"
    and "diag_on_request cfg lg ds c disp u ready mid p resp rlen dtcs = (rc, resp', rlen', dtcs', out)"
  shows "map_option length resp' = map_option length resp \<and> dtc_wf cfg dtcs'"
proof -
  note L = get_dtcs_length [OF assms(1,4)] get_service_list_length [OF assms(2,4)]
    get_counters_length [OF assms(3,4)] get_device_info_length [OF assms(4)] clear_dtcs_shape [OF assms(1)]
  show ?thesis
  proof (cases "diag_method_of mid")
    case None
    then show ?thesis using assms(1,5) by (simp add: diag_on_request_def)
  next
    case (Some m)
    then show ?thesis using L assms(1,5)
      by (cases m) (auto simp: diag_on_request_def case_prod_beta)
  qed
qed

lemma service_call_shape:
  assumes "env_ok env" "rt_wf (en_cfg env) r" "buffer_ok resp rlen"
    and "service_call env c mid p resp rlen r = (rc, resp', rlen', r')"
  shows "map_option length resp' = map_option length resp \<and> rt_wf (en_cfg env) r'"
proof (cases c)
  case (AppCtx n)
  obtain rc1 resp1 rlen1 a1 where a: "app_on_request env n mid p resp rlen (rt_app r) = (rc1, resp1, rlen1, a1)"
    by (cases "app_on_request env n mid p resp rlen (rt_app r)")
  then have "map_option length resp1 = map_option length resp"
    using assms(1) unfolding env_ok_def service_contract_def by blast
  then show ?thesis using a assms(2,4) AppCtx by (auto simp: service_call_def)
next
  case DiagCtx
  obtain rc1 resp1 rlen1 dtcs1 out1 where
    a: "diag_on_request (en_cfg env) (Some (rt_logger r)) (rt_diag_service r) (rt_diag r)
      (rt_dispatcher r) (rt_uptime_ms r) (service_ready env r) mid p resp rlen (rt_dtcs r) =
      (rc1, resp1, rlen1, dtcs1, out1)" using prod_cases5 by blast
  note d = diag_on_request_shape [OF rt_wf_parts(4) [OF assms(2)] rt_wf_parts(6) [OF assms(2)]
      rt_wf_parts(3) [OF assms(2)] assms(3) a]
  show ?thesis using a assms(2,4) d DiagCtx by (auto simp: service_call_def intro: rt_wf_set)
qed

lemma dispatch_shape:
  assumes "env_ok env" "rt_wf (en_cfg env) r" "buffer_ok resp rlen"
    and "dispatch (en_cfg env) lg ready (service_call env) emit sid mid p resp rlen t r = (rc, resp', rlen', r')"
  shows "map_option length resp' = map_option length resp \<and> rt_wf (en_cfg env) r'"
proof (cases "find_service_entry sid t")
  case None
  then show ?thesis using assms(2,4) by (auto simp: dispatch_def)
next
  case (Some svc)
  show ?thesis
  proof (cases "entry_ready ready svc")
    case False
    then show ?thesis using Some assms(2,4) by (auto simp: dispatch_def)
  next
    case True
    then obtain c where c: "se_context svc = Some c" by (auto simp: entry_ready_def split: option.splits)
    obtain rc1 resp1 rlen1 r1 where s: "service_call env c mid p resp rlen r = (rc1, resp1, rlen1, r1)"
      using prod_cases4 by blast
    show ?thesis
      using service_call_shape [OF assms(1,2,3) s] assms(4) Some True c s
      by (auto simp: dispatch_def entry_call_def)
  qed
qed

section \<open>Handlers\<close>

text \<open>The common end of the sending handlers.\<close>

lemma rt_wf_send_tail:
  assumes "rt_wf cfg r"
  shows "rt_wf cfg (snd (rt_send env dest n r))"
    and "rt_wf cfg (diag_increment c h (snd (rt_send env dest n r)))"
  using assms by (auto intro: inv_intros)

lemma rt_wf_handle_request [inv_intros]:
  assumes "env_ok env" "rt_wf (en_cfg env) r"
  shows "rt_wf (en_cfg env) (handle_request env source hdr payload r)"
proof -
  let ?cfg = "en_cfg env"
  define r0 where "r0 = rt_info env CatDispatch ''request_rx'' (hdr_service_id hdr) (hdr_method_event_id hdr)
                (hdr_client_id hdr) (hdr_request_id hdr) r"
  have r0: "rt_wf ?cfg r0" using assms(2) by (simp add: r0_def)
  obtain rc resp rlen r1 where d: "dispatch ?cfg (Some (rt_logger r0)) (service_ready env r0)
      (service_call env) emit (hdr_service_id hdr) (hdr_method_event_id hdr) payload
      (Some (rt_response_buffer r0)) (MaxPayloadSize ?cfg) (rt_dispatcher r0) r0 = (rc, resp, rlen, r1)"
    using prod_cases4 by blast
  have b: "buffer_ok (Some (rt_response_buffer r0)) (MaxPayloadSize ?cfg)"
    using rt_wf_parts(11) [OF r0] by (simp add: buffer_ok_def)
  note s = dispatch_shape [OF assms(1) r0 b d]
  then obtain buf where buf: "resp = Some buf" "length buf = MaxPayloadSize ?cfg"
    using rt_wf_parts(11) [OF r0] by (cases resp) auto
  define r2 where "r2 = r1\<lparr>rt_response_buffer := buf\<rparr>"
  have "rt_wf ?cfg r2" using s buf by (simp add: r2_def rt_wf_set)
  then have r3: "rt_wf ?cfg (snd (build_message ?cfg h p k auth peer (snd (rt_next_sequence r2))))" for h p k auth peer
    by (intro inv_intros)
  show ?thesis
    unfolding handle_request_def Let_def r0_def [symmetric] d prod.case buf option.case
      r2_def [symmetric] case_prod_beta
    using r3 [unfolded r2_def] by (auto intro!: rt_wf_send_tail)
qed

lemma rt_wf_handle_fnf [inv_intros]:
  assumes "env_ok env" "rt_wf (en_cfg env) r"
  shows "rt_wf (en_cfg env) (handle_fire_and_forget env hdr payload r)"
proof (cases "find_service_entry (hdr_service_id hdr) (rt_dispatcher r)")
  case None
  then show ?thesis using assms(2) by (auto simp: handle_fire_and_forget_def intro: inv_intros)
next
  case (Some se)
  show ?thesis
  proof (cases "entry_ready (service_ready env r) se")
    case False
    then show ?thesis using Some assms(2) by (simp add: handle_fire_and_forget_def)
  next
    case True
    then obtain c where c: "se_context se = Some c" by (auto simp: entry_ready_def split: option.splits)
    let ?r = "rt_debug env CatDispatch ''fnf_rx'' (hdr_service_id hdr) (hdr_method_event_id hdr)
                       (hdr_client_id hdr) (of_nat (length payload)) r"
    have b: "buffer_ok None 0" by (simp add: buffer_ok_def)
    obtain rc1 resp1 rlen1 r1 where s: "service_call env c (hdr_method_event_id hdr) payload None 0 ?r =
        (rc1, resp1, rlen1, r1)" using prod_cases4 by blast
    have "rt_wf (en_cfg env) r1" using service_call_shape [OF assms(1) _ b s] assms(2) by simp
    then show ?thesis using Some True c s by (simp add: handle_fire_and_forget_def entry_call_def Let_def)
  qed
qed

lemma rt_wf_complete [inv_intros]:
  assumes "rt_wf (en_cfg env) r"
  shows "rt_wf (en_cfg env) (rt_complete env rid rc p r)"
proof -
  obtain ok reqs out where c: "complete (en_cfg env) (Some (rt_logger r)) rid rc p (rt_requests r) = (ok, reqs, out)"
    using prod_cases3 by blast
  show ?thesis
    using complete_pending(1) [OF rt_wf_parts(8) [OF assms] c] c assms by (simp add: rt_complete_def rt_wf_set)
qed

lemma rt_wf_handle_response [inv_intros]:
  "rt_wf (en_cfg env) r \<Longrightarrow> rt_wf (en_cfg env) (handle_response env hdr payload r)"
  "rt_wf (en_cfg env) r \<Longrightarrow> rt_wf (en_cfg env) (handle_error env hdr payload r)"
  "rt_wf (en_cfg env) r \<Longrightarrow> rt_wf (en_cfg env) (handle_notification env hdr payload r)"
  by (auto simp: handle_response_def handle_error_def handle_notification_def
      intro!: rt_wf_complete split: option.split)

lemma rt_wf_subscribe_request [inv_intros]:
  assumes "rt_wf (en_cfg env) r"
  shows "rt_wf (en_cfg env) (handle_subscribe_request env source hdr sid eid ttl now_ms r)"
proof -
  let ?cfg = "en_cfg env"
  obtain rc ev out where s: "subscribe ?cfg (Some (rt_logger r)) sid eid (hdr_client_id hdr) source ttl now_ms
      (rt_events r) = (rc, ev, out)" using prod_cases3 by blast
  have ev: "events_wf ?cfg ev"
    using subscribe_refines(1) [OF rt_wf_parts(7) [OF assms],
      of "Some (rt_logger r)" sid eid "hdr_client_id hdr" source ttl now_ms] s by simp
  define r1 where "r1 = emit out (r\<lparr>rt_events := ev\<rparr>)"
  have r1: "rt_wf ?cfg r1" using assms ev by (simp add: r1_def rt_wf_set)
  have tx: "length (crc16_append (blit HEADER_SIZE (serialize_subscribe sid eid g) (blit 0 (serialize h) (rt_tx_buffer r1))) k)
      = MAX_MSG_SIZE ?cfg" for g h k
    using rt_wf_parts(10) [OF r1] by (simp add: MAX_MSG_SIZE_def)
  have r2: "rt_wf ?cfg (snd (rt_send env source n (r1\<lparr>rt_tx_buffer := crc16_append (blit HEADER_SIZE
      (serialize_subscribe sid eid g) (blit 0 (serialize h) (rt_tx_buffer r1))) k, rt_sd_seq := q\<rparr>)))" for n g h k q
    using r1 tx by (simp add: rt_wf_set)
  show ?thesis
    unfolding handle_subscribe_request_def Let_def s prod.case r1_def [symmetric] case_prod_beta
    using r2 [unfolded r1_def] by (auto intro!: rt_wf_diag_increment)
qed

lemma rt_wf_sd_offer [inv_intros]:
  assumes "rt_wf (en_cfg env) r"
  shows "rt_wf (en_cfg env) (handle_sd_offer env hdr f now_ms r)"
  using assms unfolding handle_sd_offer_def Let_def case_prod_beta
  by (auto intro!: rt_wf_set rt_wf_reset_peer handle_offer_tables(1) [OF _ refl] rt_wf_parts)

lemma fold_keeps: "(\<And>x w. I w \<Longrightarrow> I (f x w)) \<Longrightarrow> I w \<Longrightarrow> I (fold f xs w)"
  by (induction xs arbitrary: w) simp_all

lemma rt_wf_sd_find [inv_intros]:
  assumes "rt_wf (en_cfg env) r"
  shows "rt_wf (en_cfg env) (handle_sd_find env source hdr sid r)"
  unfolding handle_sd_find_def Let_def handle_find_def
  by (rule fold_keeps) (use assms in \<open>auto intro!: rt_wf_reset_peer rt_wf_sd_unicast\<close>)

lemma rt_wf_sd_message [inv_intros]:
  assumes "rt_wf (en_cfg env) r"
  shows "rt_wf (en_cfg env) (handle_sd_message env source hdr payload now_ms r)"
proof (cases "sd_method_of (hdr_method_event_id hdr)")
  case None
  then show ?thesis using assms by (simp add: handle_sd_message_def)
next
  case (Some m)
  then show ?thesis
    using assms
    by (cases m)
      (auto simp: handle_sd_message_def Let_def case_prod_beta split: option.split
        intro!: rt_wf_sd_offer rt_wf_sd_find rt_wf_subscribe_request rt_wf_set
          handle_subscribe_ack_tables(1) [OF _ refl] unsubscribe_refines(1) rt_wf_parts)
qed

lemma rt_wf_dispatch_message [inv_intros]:
  assumes "env_ok env" "rt_wf (en_cfg env) r"
  shows "rt_wf (en_cfg env) (dispatch_message env source hdr payload now_ms r)"
  using assms
  by (auto simp: dispatch_message_def split: option.split MessageType.split
      intro!: rt_wf_sd_message rt_wf_handle_request rt_wf_handle_fnf rt_wf_handle_response)

lemma rt_wf_check_sequence [inv_intros]:
  "rt_wf (en_cfg env) r \<Longrightarrow> rt_wf (en_cfg env) (snd (check_sequence env source data hdr r))"
  using rt_wf_validate_seq [of env r source "hdr_sequence_counter hdr"]
  by (cases "rt_validate_seq env source (hdr_sequence_counter hdr) r")
    (auto simp: check_sequence_def split: SeqResult.split intro!: rt_wf_diag_increment)

lemma rt_wf_check_auth [inv_intros]:
  "rt_wf (en_cfg env) r \<Longrightarrow> rt_wf (en_cfg env) (snd (check_auth env source data hdr r))"
  by (auto simp: check_auth_def Let_def case_prod_beta split: option.split intro!: rt_wf_diag_increment)

lemma rt_wf_validate_and_dispatch [inv_intros]:
  assumes "env_ok env" "rt_wf (en_cfg env) r"
  shows "rt_wf (en_cfg env) (validate_and_dispatch env source data now_ms r)"
proof -
  let ?hdr = "deserialize data"
  have s: "rt_wf (en_cfg env) (snd (check_sequence env source data ?hdr r))"
    using assms by (intro inv_intros)
  then have a: "rt_wf (en_cfg env) (snd (check_auth env source data ?hdr (snd (check_sequence env source data ?hdr r))))"
    by (rule rt_wf_check_auth)
  show ?thesis
    unfolding validate_and_dispatch_def Let_def case_prod_beta
    using assms s a by (auto intro!: rt_wf_diag_increment rt_wf_dispatch_message)
qed

section \<open>The process cycle\<close>

lemma rt_wf_drain: "env_ok env \<Longrightarrow> rt_wf (en_cfg env) r \<Longrightarrow> rt_wf (en_cfg env) (drain env now_ms n r)"
proof (induction n arbitrary: r)
  case (Suc n)
  show ?case
  proof (cases "transport_poll env (rt_transport r)")
    case (Pair m t)
    then show ?thesis
      using Suc rt_wf_validate_and_dispatch [OF Suc.prems(1), of "r\<lparr>rt_transport := t\<rparr>"]
      by (cases m) auto
  qed
qed simp

lemma rt_wf_track_uptime [simp]: "rt_wf cfg (track_uptime now_ms r) = rt_wf cfg r"
  by (simp add: track_uptime_def Let_def)

lemma rt_wf_evict [inv_intros]:
  "rt_wf (en_cfg env) r \<Longrightarrow> rt_wf (en_cfg env) (rt_evict_requests env now_ms r)"
  "rt_wf (en_cfg env) r \<Longrightarrow> rt_wf (en_cfg env) (rt_evict_subscriptions env now_ms r)"
  by (auto simp: rt_evict_requests_def rt_evict_subscriptions_def case_prod_beta
      intro!: rt_wf_set evict_wf(1) evict_refines(1) rt_wf_parts)

lemma rt_wf_loop:
  assumes "rt_wf cfg r" "\<And>x r. rt_wf cfg r \<Longrightarrow> rt_wf cfg (f x r)" "sd_wf cfg sd"
  shows "rt_wf cfg ((fold f xs r)\<lparr>rt_sd := sd\<rparr>)"
  by (intro rt_wf_set(5) assms(3) fold_keeps [where I = "rt_wf cfg"] assms(2) assms(1))

lemma rt_wf_process_loops [inv_intros]:
  assumes "rt_wf (en_cfg env) r"
  shows "rt_wf (en_cfg env) (rt_process_offers env now_ms r)"
    and "rt_wf (en_cfg env) (rt_process_renewals env now_ms r)"
    and "rt_wf (en_cfg env) (rt_process_ttls env now_ms r)"
    and "rt_wf (en_cfg env) (rt_process_finds env now_ms r)"
proof -
  let ?cfg = "en_cfg env" and ?sd = "rt_sd r"
  have sd: "sd_wf ?cfg ?sd" using assms by (rule rt_wf_parts)
  show "rt_wf ?cfg (rt_process_offers env now_ms r)"
    using process_offers_wf(1) [OF sd, of now_ms "send_sd_broadcast env" r] assms
    by (auto simp: rt_process_offers_def process_offers_run [OF sd] offer_emit_def
        intro!: rt_wf_loop rt_wf_sd_broadcast)
  show "rt_wf ?cfg (rt_process_renewals env now_ms r)"
    using process_subscription_renewals_wf(1) [OF sd, of now_ms "send_sd_unicast env" r] assms
    by (auto simp: rt_process_renewals_def process_subscription_renewals_run [OF sd] renewal_emit_def
        intro!: rt_wf_loop rt_wf_sd_unicast split: option.split)
  show "rt_wf ?cfg (rt_process_ttls env now_ms r)"
    using process_consumer_ttls_wf(1) [OF sd, of "Some (rt_logger r)" now_ms emit "rt_reset_peer env" r] assms
    by (auto simp: rt_process_ttls_def process_consumer_ttls_run [OF sd] ttl_emit_def
        intro!: rt_wf_loop rt_wf_reset_peer)
  show "rt_wf ?cfg (rt_process_finds env now_ms r)"
    using process_finds_wf(1) [OF sd, of "Some (rt_logger r)" now_ms emit "send_sd_broadcast env" r] assms
    by (auto simp: rt_process_finds_def process_finds_run [OF sd] find_emit_def
        intro!: rt_wf_loop rt_wf_sd_broadcast)
qed

lemma rt_wf_process:
  "env_ok env \<Longrightarrow> rt_wf (en_cfg env) r \<Longrightarrow> rt_wf (en_cfg env) (process env now_ms r)"
  unfolding process_def Let_def by (intro inv_intros rt_wf_drain) simp_all

section \<open>Calls of the application\<close>

lemma rt_wf_register_service [inv_intros]:
  assumes "rt_wf (en_cfg env) r"
  shows "rt_wf (en_cfg env) (snd (rt_register_service env sid svc major minor auth r))"
    and "rt_wf (en_cfg env) (snd (rt_unregister_service env sid r))"
  using assms services.put_inv [OF rt_wf_parts(6) [OF assms]] services.del_inv [OF rt_wf_parts(6) [OF assms]]
  by (auto simp: rt_register_service_def rt_unregister_service_def case_prod_beta register_service_state
      intro!: rt_wf_set)

lemma rt_wf_offer_service [inv_intros]:
  assumes "rt_wf (en_cfg env) r"
  shows "rt_wf (en_cfg env) (snd (offer_service env sid ttl now_ms r))"
    and "rt_wf (en_cfg env) (stop_offer env sid r)"
    and "rt_wf (en_cfg env) (snd (find_service env sid major now_ms r))"
  using assms sd_offer_tables(1) [OF rt_wf_parts(5) [OF assms] refl]
    sd_stop_offer_tables(1) [OF rt_wf_parts(5) [OF assms] refl]
    sd_find_tables(1) [OF rt_wf_parts(5) [OF assms] refl]
  by (auto simp: offer_service_def stop_offer_def find_service_def case_prod_beta
      intro!: rt_wf_set split: option.split)

lemma rt_wf_enable_diagnostics [inv_intros]:
  assumes "rt_wf (en_cfg env) r"
  shows "rt_wf (en_cfg env) (snd (enable_diagnostics env now_ms auth r))"
proof -
  define r1 where "r1 = r\<lparr>rt_diag_service := diag_service_init (rt_client_id r) (rt_diag_service r)\<rparr>"
  have r1: "rt_wf (en_cfg env) r1" using assms by (simp add: r1_def)
  define r2 where "r2 = snd (rt_register_service env DIAG_SERVICE_ID DiagCtx 1 0 auth r1)"
  have r2: "rt_wf (en_cfg env) r2" unfolding r2_def using r1 by (rule rt_wf_register_service)
  define r3 where "r3 = snd (offer_service env DIAG_SERVICE_ID (OfferTtlSeconds (en_cfg env)) now_ms r2)"
  have r3: "rt_wf (en_cfg env) r3" unfolding r3_def using r2 by (rule rt_wf_offer_service)
  have "rt_wf (en_cfg env) (snd (rt_unregister_service env DIAG_SERVICE_ID r3))"
    using r3 by (rule rt_wf_register_service)
  then show ?thesis
    using assms r2 r3
    by (simp add: enable_diagnostics_def Let_def r1_def [symmetric] case_prod_beta r2_def [symmetric]
        r3_def [symmetric])
qed

lemma rt_wf_report_dtc [inv_intros]:
  assumes "rt_wf (en_cfg env) r"
  shows "rt_wf (en_cfg env) (snd (report_dtc env code severity now_ms r))"
    and "rt_wf (en_cfg env) (snd (clear_dtc code r))"
    and "rt_wf (en_cfg env) (clear_all_dtcs r)"
  using assms dtc.put_inv [OF rt_wf_parts(4) [OF assms], of "(severity, now_ms)" code]
    dtc.del_inv [OF rt_wf_parts(4) [OF assms], of code]
  by (auto simp: report_dtc_def Let_def clear_dtc_def clear_all_dtcs_def case_prod_beta dtc_put_def dtc_del_def
      dtc_clear_all_wf rt_wf_parts intro!: rt_wf_set rt_wf_diag_increment)

lemma rt_wf_fire_and_forget [inv_intros]:
  assumes "rt_wf (en_cfg env) r"
  shows "rt_wf (en_cfg env) (snd (fire_and_forget env sid mid p n r))"
proof -
  have "rt_wf (en_cfg env) (snd (build_message (en_cfg env) h p n auth a (snd (rt_next_sequence r))))" for h auth a
    using assms by (intro inv_intros)
  then show ?thesis
    using assms unfolding fire_and_forget_def Let_def case_prod_beta
    by (auto intro!: rt_wf_diag_increment split: option.split)
qed

lemma rt_wf_send_notification [inv_intros]:
  assumes "rt_wf (en_cfg env) r"
  shows "rt_wf (en_cfg env) (send_notification env sid eid p n dest cid r)"
proof -
  have "rt_wf (en_cfg env) (snd (build_message (en_cfg env) h p n auth a (snd (rt_next_sequence r))))" for h auth a
    using assms by (intro inv_intros)
  then show ?thesis
    unfolding send_notification_def Let_def case_prod_beta by (auto intro!: rt_wf_diag_increment)
qed

lemma rt_wf_notify_event [inv_intros]:
  "rt_wf (en_cfg env) r \<Longrightarrow> rt_wf (en_cfg env) (snd (notify_event env sid eid p n r))"
  by (auto simp: notify_event_def notify_def split: option.split
      intro!: fold_keeps [where I = "rt_wf (en_cfg env)"] rt_wf_send_notification)

lemma rt_wf_subscribe_event [inv_intros]:
  assumes "rt_wf (en_cfg env) r"
  shows "rt_wf (en_cfg env) (snd (subscribe_event env sid eid h ttl now_ms r))"
    and "rt_wf (en_cfg env) (snd (unsubscribe_event sid eid r))"
  using assms handlers.put_inv [OF rt_wf_parts(9) [OF assms], of h "(sid, eid)"]
    handlers.del_inv [OF rt_wf_parts(9) [OF assms], of "(sid, eid)"]
    sd_subscribe_tables(1) [OF rt_wf_parts(5) [OF assms] refl]
    sd_unsubscribe_tables(1) [OF rt_wf_parts(5) [OF assms] refl]
  by (auto simp: subscribe_event_def unsubscribe_event_def case_prod_beta handler_put_def handler_del_def
      rt_wf_def)

lemma rt_wf_settings [inv_intros]:
  assumes "rt_wf (en_cfg env) r"
  shows "length a = TransportAddressSize (en_cfg env) \<Longrightarrow> rt_wf (en_cfg env) (set_local_address a r)"
    and "rt_wf (en_cfg env) (snd (rt_register_event env sid eid r))"
    and "rt_wf (en_cfg env) (set_sd_callbacks cb r)"
    and "rt_wf (en_cfg env) (snd (set_hmac_key env peer key r))"
    and "rt_wf (en_cfg env) (set_diagnostic_callback f ctx r)"
    and "rt_wf (en_cfg env) (set_log_callback f ctx r)"
  using assms register_event_refines(1) [OF rt_wf_parts(7) [OF assms]]
    keys.put_inv [OF rt_wf_parts(2) [OF assms], of key peer]
  by (auto simp: set_local_address_def rt_register_event_def set_sd_callbacks_def set_hmac_key_def
      set_diagnostic_callback_def set_log_callback_def case_prod_beta set_key_state rt_wf_def sd_wf_def
      emit_def counters_set_callback_def counters_wf_def)

lemma rt_wf_apply:
  assumes "env_ok env" "rt_wf (en_cfg env) r" "op_ok (en_cfg env) op"
  shows "rt_wf (en_cfg env) (rt_apply env op r)"
proof (cases op)
  case (Do_Request sid mid p n cb ctx timeout now_ms)
  then show ?thesis using assms by (auto simp: request_def intro!: rt_wf_request_impl split: option.split)
next
  case (Do_Request_To target sid mid p n cb ctx timeout now_ms)
  then show ?thesis using assms by (auto simp: request_to_def intro!: rt_wf_request_impl)
next
  case (Do_Process now_ms)
  then show ?thesis using assms rt_wf_process by simp
qed (use assms in \<open>auto intro!: inv_intros\<close>)

lemma rt_reach_wf: "env_ok env \<Longrightarrow> rt_reach env r \<Longrightarrow> rt_wf (en_cfg env) r"
  by (rotate_tac, induction rule: rt_reach.induct) (simp_all add: rt_wf_init rt_wf_apply)

end
