(* ===== verification/Runtime_Frames.thy ===== *)
theory Runtime_Frames
  imports Runtime_Wf
begin

text \<open>
  The frames on the wire: what \<open>build_message\<close> leaves in the transmit buffer, and what the
  validation pipeline makes of a frame.  The acceptance conditions of section 7.4 of the protocol
  definition are stated as a predicate, and the pipeline is shown to dispatch exactly the accepted
  frames and to change nothing but counters, peer tracking and the log for the others.
\<close>

section \<open>Built frames\<close>

text \<open>Header, payload, optional HMAC and CRC, as section 3 of the protocol definition lays them out.\<close>

definition frame_body :: "KeyTable \<Rightarrow> MessageHeader \<Rightarrow> bytes \<Rightarrow> bool \<Rightarrow> addr \<Rightarrow> bytes" where
  "frame_body keys hdr payload auth peer =
     serialize hdr @ payload
     @ (if auth then (case auth_compute (serialize hdr) payload peer keys of
                        None \<Rightarrow> replicate HMAC_SIZE 0 | Some m \<Rightarrow> m)
        else [])"

definition frame_of :: "KeyTable \<Rightarrow> MessageHeader \<Rightarrow> bytes \<Rightarrow> bool \<Rightarrow> addr \<Rightarrow> bytes" where
  "frame_of keys hdr payload auth peer =
     frame_body keys hdr payload auth peer @ crc_trailer (crc16_compute (frame_body keys hdr payload auth peer))"

lemma length_frame_body:
  "length (frame_body keys hdr payload auth peer) = 20 + length payload + (if auth then 16 else 0)"
  by (auto simp: frame_body_def length_auth_compute split: option.split)

lemma length_frame_of:
  "length (frame_of keys hdr payload auth peer) = 22 + length payload + (if auth then 16 else 0)"
  by (simp add: frame_of_def length_frame_body)

lemma blit_front: "length xs \<le> length buf \<Longrightarrow> take (length xs) (blit 0 xs buf) = xs"
  by (simp add: blit_def)

lemma build_message_bytes:
  assumes len: "length (rt_tx_buffer r) = MAX_MSG_SIZE cfg" and n: "n \<le> MaxPayloadSize cfg"
    and p: "(case p of None \<Rightarrow> n = 0 | Some b \<Rightarrow> n \<le> length b)"
    and b: "build_message cfg hdr p n auth peer r = (k, r')"
  defines "f \<equiv> frame_of (rt_auth r) hdr (take n (case p of None \<Rightarrow> [] | Some b \<Rightarrow> b)) auth peer"
  shows "k = length f" and "take k (rt_tx_buffer r') = f"
proof -
  let ?pl = "take n (case p of None \<Rightarrow> [] | Some b \<Rightarrow> b)" and ?buf = "rt_tx_buffer r"
  let ?mac = "case auth_compute (serialize hdr) ?pl peer (rt_auth r) of None \<Rightarrow> replicate HMAC_SIZE 0 | Some m \<Rightarrow> m"
  have pl: "length ?pl = n" using p by (auto split: option.splits)
  have mac: "length ?mac = 16" using length_auth_compute by (auto split: option.split)
  define tx where "tx = (case p of None \<Rightarrow> blit 0 (serialize hdr) ?buf
    | Some b \<Rightarrow> if n > 0 then blit HEADER_SIZE (take n b) (blit 0 (serialize hdr) ?buf)
        else blit 0 (serialize hdr) ?buf)"
  have tx: "tx = blit 0 (serialize hdr @ ?pl) ?buf"
    using p n len blit_append [of 0 "serialize hdr" ?pl ?buf] pl
    by (auto simp: tx_def MAX_MSG_SIZE_def split: option.splits)
  have fits: "length (serialize hdr @ ?pl) = 20 + n" using pl by simp
  have front: "take 20 tx = serialize hdr" "take n (drop 20 tx) = ?pl"
    using tx len n pl by (simp_all add: blit_def MAX_MSG_SIZE_def)
  define body where "body = frame_body (rt_auth r) hdr ?pl auth peer"
  have lb: "length body = 20 + n + (if auth then 16 else 0)"
    using pl by (simp add: body_def length_frame_body)
  have room: "length body + 2 \<le> length ?buf" using lb len n by (simp add: MAX_MSG_SIZE_def)
  have blt: "(if auth then blit (20 + n) ?mac tx else tx) = blit 0 body ?buf"
    using blit_append [of 0 "serialize hdr @ ?pl" ?mac ?buf] fits mac len n
    by (simp add: tx body_def frame_body_def MAX_MSG_SIZE_def)
  have m: "(case auth_compute (take HEADER_SIZE tx) (take n (drop HEADER_SIZE tx)) peer (rt_auth r) of
      None \<Rightarrow> replicate HMAC_SIZE 0 | Some m \<Rightarrow> m) = ?mac" using front by simp
  have kr: "k = length body + 2" "rt_tx_buffer r' = crc16_append (blit 0 body ?buf) (length body)"
    using b n blt unfolding build_message_def Let_def tx_def [symmetric] m lb
    by (auto split: if_splits)
  have "take (length body + 2) (crc16_append (blit 0 body ?buf) (length body)) =
      body @ crc_trailer (crc16_compute body)"
    using crc16_append_take [of "length body" "blit 0 body ?buf"] room blit_front [of body ?buf] by simp
  then show "take k (rt_tx_buffer r') = f" by (simp add: kr f_def frame_of_def body_def)
  show "k = length f" by (simp add: kr f_def frame_of_def body_def)
qed

lemma frame_of_crc: "crc16_verify (frame_of keys hdr payload auth peer)"
  unfolding frame_of_def by (rule crc16_trailer_verify)

lemma frame_of_header: "deserialize (frame_of keys hdr payload auth peer) = hdr"
  by (simp add: frame_of_def frame_body_def deserialize_serialize_append)

lemma frame_of_parts:
  "take 20 (frame_of keys hdr payload auth peer) = serialize hdr"
  "take (length payload) (drop 20 (frame_of keys hdr payload auth peer)) = payload"
  "auth \<Longrightarrow> auth_compute (serialize hdr) payload peer keys = Some m \<Longrightarrow>
     take 16 (drop (20 + length payload) (frame_of keys hdr payload auth peer)) = m"
  using length_auth_compute by (auto simp: frame_of_def frame_body_def)

section \<open>Acceptance of a frame\<close>

definition frame_payload :: "bytes \<Rightarrow> bytes" where
  "frame_payload data = take (unat (hdr_payload_length (deserialize data))) (drop HEADER_SIZE data)"

definition frame_mac :: "bytes \<Rightarrow> bytes" where
  "frame_mac data = take HMAC_SIZE (drop (HEADER_SIZE + unat (hdr_payload_length (deserialize data))) data)"

text \<open>The checks that do not depend on the state of the receiver (steps 1 to 7).\<close>

definition wire_ok :: "config \<Rightarrow> bytes \<Rightarrow> bool" where
  "wire_ok cfg data \<longleftrightarrow>
     (let hdr = deserialize data in
      MIN_MESSAGE_SIZE \<le> length data \<and> crc16_verify data \<and> hdr_version hdr = PROTOCOL_VERSION \<and>
      unat (hdr_payload_length hdr) \<le> MaxPayloadSize cfg \<and> expected_size hdr \<le> length data \<and>
      is_valid_message_type (hdr_message_type hdr) \<and> validate_type_id_consistency hdr \<and>
      validate_client_id hdr)"

text \<open>Step 8, for everything but service discovery.\<close>

definition seq_ok :: "config \<Rightarrow> addr \<Rightarrow> bytes \<Rightarrow> ('t, 'a) runtime \<Rightarrow> bool" where
  "seq_ok cfg source data r \<longleftrightarrow>
     hdr_service_id (deserialize data) = SD_SERVICE_ID \<or>
     seq_verdict cfg (used (e2e_peers (rt_e2e r)) < MaxTrackedPeers cfg) (last_seen (rt_e2e r) source)
       (hdr_sequence_counter (deserialize data)) \<in> {Accept, FirstSeen, TableFull}"

text \<open>Step 9.\<close>

definition auth_ok :: "addr \<Rightarrow> bytes \<Rightarrow> ('t, 'a) runtime \<Rightarrow> bool" where
  "auth_ok source data r \<longleftrightarrow>
     (let hdr = deserialize data in
      if has_auth hdr then
        (\<exists>k. key_lookup (rt_auth r) source = Some k \<and>
             frame_mac data = hmac_sha256_128 (ke_key k) (take HEADER_SIZE data @ frame_payload data))
      else hdr_service_id hdr = SD_SERVICE_ID \<or>
        (case service_lookup (rt_dispatcher r) (hdr_service_id hdr) of
           None \<Rightarrow> True | Some se \<Rightarrow> \<not> se_auth_required se))"

definition accepted :: "config \<Rightarrow> addr \<Rightarrow> bytes \<Rightarrow> ('t, 'a) runtime \<Rightarrow> bool" where
  "accepted cfg source data r \<longleftrightarrow> wire_ok cfg data \<and> seq_ok cfg source data r \<and> auth_ok source data r"

text \<open>
  What the pipeline may change before it dispatches: the peer table, the counters, and the record
  of outputs, in which only log records and discard callbacks appear.
\<close>

fun is_notice :: "effect \<Rightarrow> bool" where
  "is_notice (Out_Log cb ctx e) = True"
| "is_notice (Out_Diag cb ctx c h) = True"
| "is_notice _ = False"

definition only_noted :: "('t, 'a) runtime \<Rightarrow> ('t, 'a) runtime \<Rightarrow> bool" where
  "only_noted r r' \<longleftrightarrow>
     (\<exists>e d os. r' = r\<lparr>rt_e2e := e, rt_diag := d, rt_out := rt_out r @ os\<rparr> \<and> list_all is_notice os \<and>
        e2e_tx_seq e = e2e_tx_seq (rt_e2e r))"

lemma only_noted_refl: "only_noted r r"
  unfolding only_noted_def by (intro exI [of _ "rt_e2e r"] exI [of _ "rt_diag r"] exI [of _ "[]"]) simp

lemma only_notedI:
  "list_all is_notice os \<Longrightarrow> e2e_tx_seq e = e2e_tx_seq (rt_e2e r) \<Longrightarrow>
   only_noted r (r\<lparr>rt_e2e := e, rt_diag := d, rt_out := rt_out r @ os\<rparr>)"
  unfolding only_noted_def by blast

lemma only_noted_trans:
  assumes "only_noted r r'" "only_noted r' r''"
  shows "only_noted r r''"
proof -
  obtain e d os where 1: "r' = r\<lparr>rt_e2e := e, rt_diag := d, rt_out := rt_out r @ os\<rparr>"
    "list_all is_notice os" "e2e_tx_seq e = e2e_tx_seq (rt_e2e r)"
    using assms(1) unfolding only_noted_def by blast
  obtain e' d' os' where 2: "r'' = r'\<lparr>rt_e2e := e', rt_diag := d', rt_out := rt_out r' @ os'\<rparr>"
    "list_all is_notice os'" "e2e_tx_seq e' = e2e_tx_seq (rt_e2e r')"
    using assms(2) unfolding only_noted_def by blast
  have "r'' = r\<lparr>rt_e2e := e', rt_diag := d', rt_out := rt_out r @ (os @ os')\<rparr>"
    using 1 2 by simp
  then show ?thesis using 1 2 by (simp only:) (rule only_notedI, simp_all)
qed

lemma logs_noted:
  "list_all is_notice (log_at cfg lg level category tag sid mid cid extra)"
  by (simp add: log_at_def split: option.split)

lemma only_noted_emit: "list_all is_notice os \<Longrightarrow> only_noted r (emit os r)"
  unfolding only_noted_def
  by (intro exI [of _ "rt_e2e r"] exI [of _ "rt_diag r"] exI [of _ os]) (simp add: emit_def)

lemma only_noted_logs:
  "only_noted r (rt_debug env c tag s m i x r)" "only_noted r (rt_warn env c tag s m i x r)"
  "only_noted r (rt_error env c tag s m i x r)"
  by (simp_all add: rt_debug_def rt_warn_def rt_error_def log_defs only_noted_emit logs_noted)

lemma only_noted_diag: "only_noted r (diag_increment c h r)"
  unfolding only_noted_def
  by (intro exI [of _ "rt_e2e r"] exI [of _ "fst (increment c h (rt_diag r))"]
      exI [of _ "snd (increment c h (rt_diag r))"])
    (auto simp: diag_increment_def emit_def case_prod_beta increment_def Let_def split: option.split)

lemma only_noted_discard:
  "only_noted r (rt_warn env c tag s m i x (diag_increment d h r))"
  "only_noted r (rt_error env c tag s m i x (diag_increment d h r))"
  by (rule only_noted_trans [OF only_noted_diag only_noted_logs(2)]
      only_noted_trans [OF only_noted_diag only_noted_logs(3)])+

lemma if_logger_noted: "(\<And>l. list_all is_notice (f l)) \<Longrightarrow> list_all is_notice (if_logger f lg)"
  by (simp add: if_logger_def split: option.split)

lemma validate_sequence_noted: "list_all is_notice (snd (snd (validate_sequence cfg lg source s e)))"
  by (cases "t_find (peer_is source) (e2e_peers e)")
    (simp_all add: validate_sequence_def Let_def if_logger_noted log_defs logs_noted)

lemma only_noted_validate_seq: "only_noted r (snd (rt_validate_seq env source s r))"
  unfolding only_noted_def
  by (intro exI [of _ "fst (snd (validate_sequence (en_cfg env) (Some (rt_logger r)) source s (rt_e2e r)))"]
      exI [of _ "rt_diag r"]
      exI [of _ "snd (snd (validate_sequence (en_cfg env) (Some (rt_logger r)) source s (rt_e2e r)))"])
    (simp add: rt_validate_seq_def emit_def case_prod_beta validate_sequence_noted e2e_tx_seq_frame)

section \<open>The pipeline\<close>

lemma check_sequence_flag:
  assumes "rt_wf (en_cfg env) r"
  shows "fst (check_sequence env source data (deserialize data) r) \<longleftrightarrow> seq_ok (en_cfg env) source data r"
    and "only_noted r (snd (check_sequence env source data (deserialize data) r))"
proof -
  let ?hdr = "deserialize data"
  let ?v = "rt_validate_seq env source (hdr_sequence_counter ?hdr) r"
  have v: "fst ?v = seq_verdict (en_cfg env) (used (e2e_peers (rt_e2e r)) < MaxTrackedPeers (en_cfg env))
      (last_seen (rt_e2e r) source) (hdr_sequence_counter ?hdr)"
    using validate_sequence_verdict [OF rt_wf_parts(1) [OF assms]]
    by (simp add: rt_validate_seq_def case_prod_beta)
  have n: "only_noted r (snd ?v)" by (rule only_noted_validate_seq)
  obtain res r1 where p: "?v = (res, r1)" by fastforce
  show "fst (check_sequence env source data ?hdr r) \<longleftrightarrow> seq_ok (en_cfg env) source data r"
    using p v by (cases res) (auto simp: check_sequence_def seq_ok_def)
  show "only_noted r (snd (check_sequence env source data ?hdr r))"
    using p n only_noted_refl
    by (cases res) (auto simp: check_sequence_def intro: only_noted_trans only_noted_discard only_noted_diag)
qed

lemma auth_verify_noted: "list_all is_notice (snd (auth_verify cfg lg h p peer mac t))"
  by (cases "auth_compute h p peer t")
    (simp_all add: auth_verify_def Let_def if_logger_noted log_defs logs_noted)

lemma frame_mac_length:
  "has_auth (deserialize data) \<Longrightarrow> expected_size (deserialize data) \<le> length data \<Longrightarrow> length (frame_mac data) = 16"
  by (simp add: frame_mac_def expected_size_def)

lemma auth_compute_key:
  "auth_wf cfg t \<Longrightarrow> auth_compute h p peer t =
     map_option (\<lambda>k. hmac_sha256_128 (ke_key k) (h @ p)) (key_lookup t peer)"
  by (simp add: auth_compute_def find_key_lookup hmac_two_part split: option.split)

lemma check_auth_flag:
  assumes "rt_wf (en_cfg env) r" "expected_size (deserialize data) \<le> length data"
  shows "fst (check_auth env source data (deserialize data) r) \<longleftrightarrow> auth_ok source data r"
    and "only_noted r (snd (check_auth env source data (deserialize data) r))"
proof -
  let ?hdr = "deserialize data" and ?cfg = "en_cfg env"
  have v: "fst (auth_verify ?cfg lg (take 20 data) (frame_payload data) source (frame_mac data) (rt_auth r)) \<longleftrightarrow>
      (\<exists>k. key_lookup (rt_auth r) source = Some k \<and>
             frame_mac data = hmac_sha256_128 (ke_key k) (take 20 data @ frame_payload data))"
    if "has_auth ?hdr" for lg
    using frame_mac_length [OF that assms(2)] auth_compute_key [OF rt_wf_parts(2) [OF assms(1)]]
    by (auto simp: auth_verify_iff)
  show "fst (check_auth env source data ?hdr r) \<longleftrightarrow> auth_ok source data r"
    using v find_service_lookup [OF rt_wf_parts(6) [OF assms(1)]]
    unfolding check_auth_def auth_ok_def Let_def frame_payload_def frame_mac_def
    by (auto simp: case_prod_beta split: option.split)
  have m: "only_noted r (emit (snd (auth_verify ?cfg lg h p source mac (rt_auth r))) r)" for lg h p mac
    by (rule only_noted_emit) (rule auth_verify_noted)
  show "only_noted r (snd (check_auth env source data ?hdr r))"
    unfolding check_auth_def Let_def case_prod_beta
    using only_noted_refl m
    by (auto split: option.split intro: only_noted_trans [OF m only_noted_discard(2)] only_noted_discard)
qed

text \<open>Past the stateless checks, the pipeline is steps 8 and 9 and then the dispatcher.\<close>

lemma wire_ok_steps:
  assumes "wire_ok (en_cfg env) data" "hdr = deserialize data" "s = check_sequence env source data hdr r"
    and "a = check_auth env source data hdr (snd s)"
  shows "validate_and_dispatch env source data now_ms r =
    (if \<not> fst s then snd s else if \<not> fst a then snd a
     else dispatch_message env source hdr (frame_payload data) now_ms
       (rt_debug env CatDispatch ''dispatch'' (hdr_service_id hdr) (hdr_method_event_id hdr)
         (hdr_client_id hdr) (hdr_payload_length hdr) (snd a)))"
  using assms(1) unfolding wire_ok_def validate_and_dispatch_def Let_def frame_payload_def assms(2-4)
  by (auto simp: not_less case_prod_beta)

text \<open>The pipeline dispatches the accepted frames and only notes the others.\<close>

lemma pipeline:
  assumes wf: "rt_wf (en_cfg env) r"
  shows "if accepted (en_cfg env) source data r
    then \<exists>r'. only_noted r r' \<and> rt_wf (en_cfg env) r' \<and>
      validate_and_dispatch env source data now_ms r =
        dispatch_message env source (deserialize data) (frame_payload data) now_ms r'
    else only_noted r (validate_and_dispatch env source data now_ms r)"
proof (cases "wire_ok (en_cfg env) data")
  case False
  then show ?thesis
    unfolding accepted_def wire_ok_def validate_and_dispatch_def Let_def
    by (auto simp: not_less intro: only_noted_discard)
next
  case True
  let ?hdr = "deserialize data"
  let ?s = "check_sequence env source data ?hdr r"
  let ?a = "check_auth env source data ?hdr (snd ?s)"
  have e: "expected_size ?hdr \<le> length data" using True by (simp add: wire_ok_def Let_def)
  note d = wire_ok_steps [where source = source and r = r and now_ms = now_ms, OF True refl refl refl]
  note s = check_sequence_flag [OF wf, of source data]
  have ws: "rt_wf (en_cfg env) (snd ?s)" using wf by (rule rt_wf_check_sequence)
  note a = check_auth_flag [OF ws e, of source]
  have wa: "rt_wf (en_cfg env) (snd ?a)" using ws by (rule rt_wf_check_auth)
  have "auth_ok source data (snd ?s) = auth_ok source data r"
    using s(2) by (auto simp: only_noted_def auth_ok_def)
  then have acc: "accepted (en_cfg env) source data r \<longleftrightarrow> fst ?s \<and> fst ?a"
    using True s(1) a(1) by (simp add: accepted_def)
  show ?thesis
  proof (cases "fst ?s \<and> fst ?a")
    case True
    let ?r' = "rt_debug env CatDispatch ''dispatch'' (hdr_service_id ?hdr) (hdr_method_event_id ?hdr)
           (hdr_client_id ?hdr) (hdr_payload_length ?hdr) (snd ?a)"
    have "only_noted r ?r'"
      by (rule only_noted_trans [OF only_noted_trans [OF s(2) a(2)] only_noted_logs(1)])
    moreover have "rt_wf (en_cfg env) ?r'" using wa by simp
    ultimately show ?thesis using True acc d by (simp del: rt_wf_logs) blast
  next
    case False
    then show ?thesis using acc d s(2) only_noted_trans [OF s(2) a(2)] by auto
  qed
qed

end
