(* ===== verification/Sent_Frames.thy ===== *)
theory Sent_Frames
  imports Runtime_Frames
begin

text \<open>
  The frames a runtime hands to its transport as unicasts, in order, and what the sending operations
  add to them: \<open>request_impl\<close>, the reply of \<open>handle_request\<close> and the notifications of
  \<open>notify_event\<close>, each in terms of \<open>frame_of\<close>.
\<close>

section \<open>The list of sent frames\<close>

fun sent_frames :: "effect list \<Rightarrow> (addr \<times> bytes) list" where
  "sent_frames [] = []"
| "sent_frames (Out_Send dest data ok # os) = (dest, data) # sent_frames os"
| "sent_frames (_ # os) = sent_frames os"

definition sent :: "('t, 'a) runtime \<Rightarrow> (addr \<times> bytes) list" where
  "sent r = sent_frames (rt_out r)"

lemma sent_frames_append [simp]: "sent_frames (xs @ ys) = sent_frames xs @ sent_frames ys"
  by (induction xs rule: sent_frames.induct) simp_all

lemma sent_frames_notices [simp]: "list_all is_notice os \<Longrightarrow> sent_frames os = []"
  by (induction os rule: sent_frames.induct) simp_all

lemma sent_emit [simp]: "sent (emit os r) = sent r @ sent_frames os"
  by (simp add: sent_def emit_def)

lemma only_noted_sent: "only_noted r r' \<Longrightarrow> sent r' = sent r"
  by (auto simp: only_noted_def sent_def)

lemma sent_log_at [simp]: "sent_frames (log_at cfg lg level category tag sid mid cid extra) = []"
  by (rule sent_frames_notices) (rule logs_noted)

lemma sent_if_logger [simp]: "(\<And>l. sent_frames (f l) = []) \<Longrightarrow> sent_frames (if_logger f lg) = []"
  by (simp add: if_logger_def split: option.split)

lemma sent_log_defs [simp]:
  "sent_frames (log_trace cfg lg c t s m i x) = []" "sent_frames (log_debug cfg lg c t s m i x) = []"
  "sent_frames (log_info cfg lg c t s m i x) = []" "sent_frames (log_warn cfg lg c t s m i x) = []"
  "sent_frames (log_error cfg lg c t s m i x) = []"
  by (simp_all add: log_defs)

lemma sent_rt_logs [simp]:
  "sent (rt_trace env c tag s m i x r) = sent r" "sent (rt_debug env c tag s m i x r) = sent r"
  "sent (rt_info env c tag s m i x r) = sent r" "sent (rt_warn env c tag s m i x r) = sent r"
  "sent (rt_error env c tag s m i x r) = sent r"
  by (simp_all add: rt_trace_def rt_debug_def rt_info_def rt_warn_def rt_error_def)

lemma sent_free [simp]:
  "sent (r\<lparr>rt_e2e := e\<rparr>) = sent r" "sent (r\<lparr>rt_diag := d\<rparr>) = sent r" "sent (r\<lparr>rt_requests := q\<rparr>) = sent r"
  "sent (r\<lparr>rt_tx_buffer := b\<rparr>) = sent r" "sent (r\<lparr>rt_response_buffer := b\<rparr>) = sent r"
  "sent (r\<lparr>rt_app := a\<rparr>) = sent r" "sent (r\<lparr>rt_dtcs := dt\<rparr>) = sent r" "sent (r\<lparr>rt_transport := t\<rparr>) = sent r"
  by (simp_all add: sent_def)

lemma sent_diag [simp]: "sent (diag_increment c h r) = sent r"
  by (rule only_noted_sent) (rule only_noted_diag)

lemma sent_next_sequence [simp]: "sent (snd (rt_next_sequence r)) = sent r"
  by (simp add: rt_next_sequence_def case_prod_beta)

lemma sent_build [simp]: "sent (snd (build_message cfg hdr p n auth peer r)) = sent r"
  by (subst build_message_frame) simp

lemma sent_rt_send: "sent (snd (rt_send env dest n r)) = sent r @ [(dest, take n (rt_tx_buffer r))]"
  by (simp add: rt_send_def Let_def case_prod_beta sent_def emit_def)

section \<open>Build and send\<close>

definition payload_bytes :: "bytes option \<Rightarrow> nat \<Rightarrow> bytes" where
  "payload_bytes p n = take n (case p of None \<Rightarrow> [] | Some b \<Rightarrow> b)"

text \<open>The caller's side of a payload: a null pointer only with length zero, and within the limit.\<close>

definition sendable :: "config \<Rightarrow> bytes option \<Rightarrow> nat \<Rightarrow> bool" where
  "sendable cfg p n \<longleftrightarrow> n \<le> MaxPayloadSize cfg \<and> (case p of None \<Rightarrow> n = 0 | Some b \<Rightarrow> n \<le> length b)"

lemma length_payload_bytes: "sendable cfg p n \<Longrightarrow> length (payload_bytes p n) = n"
  by (auto simp: sendable_def payload_bytes_def split: option.splits)

lemma build_and_send:
  assumes "rt_wf cfg r" "sendable cfg p n"
  shows "take (fst (build_message cfg hdr p n auth peer r)) (rt_tx_buffer (snd (build_message cfg hdr p n auth peer r)))
    = frame_of (rt_auth r) hdr (payload_bytes p n) auth peer"
proof -
  obtain k r' where b: "build_message cfg hdr p n auth peer r = (k, r')" by fastforce
  show ?thesis
    using build_message_bytes(2) [OF rt_wf_parts(10) [OF assms(1)] _ _ b] assms(2)
    by (simp add: b sendable_def payload_bytes_def)
qed

lemma rt_next_sequence_parts [simp]:
  "fst (rt_next_sequence r) = e2e_tx_seq (rt_e2e r)"
  "rt_auth (snd (rt_next_sequence r)) = rt_auth r" "rt_transport (snd (rt_next_sequence r)) = rt_transport r"
  "rt_requests (snd (rt_next_sequence r)) = rt_requests r" "rt_client_id (snd (rt_next_sequence r)) = rt_client_id r"
  "e2e_tx_seq (rt_e2e (snd (rt_next_sequence r))) = e2e_tx_seq (rt_e2e r) + 1"
  "e2e_peers (rt_e2e (snd (rt_next_sequence r))) = e2e_peers (rt_e2e r)"
  by (simp_all add: rt_next_sequence_def next_sequence_def)

lemma build_message_keeps [simp]:
  "rt_auth (snd (build_message cfg hdr p n auth peer r)) = rt_auth r"
  "rt_transport (snd (build_message cfg hdr p n auth peer r)) = rt_transport r"
  "rt_requests (snd (build_message cfg hdr p n auth peer r)) = rt_requests r"
  "rt_e2e (snd (build_message cfg hdr p n auth peer r)) = rt_e2e r"
  "rt_dispatcher (snd (build_message cfg hdr p n auth peer r)) = rt_dispatcher r"
  by (subst build_message_frame, simp)+

lemma rt_send_keeps [simp]:
  "rt_requests (snd (rt_send env dest n r)) = rt_requests r" "rt_auth (snd (rt_send env dest n r)) = rt_auth r"
  "rt_e2e (snd (rt_send env dest n r)) = rt_e2e r"
  by (simp_all add: rt_send_def Let_def case_prod_beta emit_def)

lemma emit_keeps [simp]:
  "rt_e2e (emit os r) = rt_e2e r" "rt_auth (emit os r) = rt_auth r" "rt_requests (emit os r) = rt_requests r"
  "rt_client_id (emit os r) = rt_client_id r" "rt_transport (emit os r) = rt_transport r"
  "rt_dispatcher (emit os r) = rt_dispatcher r" "rt_response_buffer (emit os r) = rt_response_buffer r"
  by (simp_all add: emit_def)

lemma rt_logs_keep [simp]:
  "rt_e2e (rt_debug env c tag s m i x r) = rt_e2e r" "rt_requests (rt_debug env c tag s m i x r) = rt_requests r"
  "rt_e2e (rt_info env c tag s m i x r) = rt_e2e r" "rt_e2e (rt_warn env c tag s m i x r) = rt_e2e r"
  "rt_e2e (rt_error env c tag s m i x r) = rt_e2e r" "rt_auth (rt_warn env c tag s m i x r) = rt_auth r" "rt_auth (rt_info env c tag s m i x r) = rt_auth r"
  "rt_auth (rt_debug env c tag s m i x r) = rt_auth r" "rt_dispatcher (rt_info env c tag s m i x r) = rt_dispatcher r"
  by (simp_all add: rt_debug_def rt_info_def rt_warn_def rt_error_def)

lemma diag_increment_keeps [simp]:
  "rt_e2e (diag_increment c h r) = rt_e2e r" "rt_auth (diag_increment c h r) = rt_auth r"
  by (simp_all add: diag_increment_def case_prod_beta)

section \<open>Requests\<close>

definition request_header :: "addr \<Rightarrow> u16 \<Rightarrow> u16 \<Rightarrow> nat \<Rightarrow> u32 \<Rightarrow> ('t, 'a) runtime \<Rightarrow> MessageHeader" where
  "request_header target sid mid n rid r =
     (make_request_header sid mid n rid (has_key target (rt_auth r)) r)
       \<lparr>hdr_sequence_counter := e2e_tx_seq (rt_e2e r)\<rparr>"

definition request_frame ::
    "addr \<Rightarrow> u16 \<Rightarrow> u16 \<Rightarrow> bytes \<Rightarrow> u32 \<Rightarrow> ('t, 'a) runtime \<Rightarrow> bytes" where
  "request_frame target sid mid payload rid r =
     frame_of (rt_auth r) (request_header target sid mid (length payload) rid r) payload
       (has_key target (rt_auth r)) target"

lemma allocate_noted: "list_all is_notice (snd (snd (allocate cfg lg sid mid timeout now_ms cb ctx t)))"
  by (auto simp: allocate_def Let_def if_logger_noted log_defs logs_noted split: option.splits)

text \<open>With an allocated id, the transport decides about the result.\<close>

lemma request_impl_sent:
  assumes wf: "rt_wf (en_cfg env) r" and p: "sendable (en_cfg env) p n"
    and a: "allocate (en_cfg env) (Some (rt_logger r)) sid mid timeout now_ms cb ctx (rt_requests r) =
      (Some i, reqs, out)" and reqs: "tracker_wf (en_cfg env) reqs"
    and ok_def: "ok \<longleftrightarrow> fst (impl_send env target (request_frame target sid mid (payload_bytes p n) i r) (rt_transport r))"
  shows "fst (request_impl env target sid mid p n cb ctx timeout now_ms r) = (if ok then Some i else None)"
    and "ok \<Longrightarrow> sent (snd (request_impl env target sid mid p n cb ctx timeout now_ms r)) =
      sent r @ [(target, request_frame target sid mid (payload_bytes p n) i r)]"
    and "ok \<Longrightarrow> rt_requests (snd (request_impl env target sid mid p n cb ctx timeout now_ms r)) = reqs"
    and "ok \<Longrightarrow> e2e_tx_seq (rt_e2e (snd (request_impl env target sid mid p n cb ctx timeout now_ms r))) =
      e2e_tx_seq (rt_e2e r) + 1"
proof -
  define r1 where "r1 = emit out (r\<lparr>rt_requests := reqs\<rparr>)"
  define r2 where "r2 = snd (rt_next_sequence r1)"
  define hdr where "hdr = request_header target sid mid n i r"
  let ?auth = "has_key target (rt_auth r)"
  define r3 where "r3 = snd (build_message (en_cfg env) hdr p n ?auth target r2)"
  define k where "k = fst (build_message (en_cfg env) hdr p n ?auth target r2)"
  have r1: "rt_auth r1 = rt_auth r" "rt_transport r1 = rt_transport r" "rt_client_id r1 = rt_client_id r"
    "rt_e2e r1 = rt_e2e r" "rt_requests r1 = reqs" by (simp_all add: r1_def)
  have wf2: "rt_wf (en_cfg env) r2" using wf reqs by (simp add: r2_def r1_def rt_wf_next_sequence rt_wf_set)
  have h: "(make_request_header sid mid n i ?auth r1)
      \<lparr>hdr_sequence_counter := fst (rt_next_sequence r1)\<rparr> = hdr"
    by (simp add: hdr_def request_header_def make_request_header_def r1)
  have f: "take k (rt_tx_buffer r3) = request_frame target sid mid (payload_bytes p n) i r"
    unfolding k_def r3_def build_and_send [OF wf2 p]
    by (simp add: r2_def r1 hdr_def request_frame_def length_payload_bytes [OF p])
  have "rt_transport r3 = rt_transport r" by (simp add: r3_def r2_def r1)
  then have s: "fst (rt_send env target k r3) \<longleftrightarrow> ok"
    by (simp add: rt_send_def Let_def case_prod_beta f transport_send_def ok_def)
  have eq: "request_impl env target sid mid p n cb ctx timeout now_ms r =
    (if ok then
      (Some i, rt_debug env CatRequests ''request_tx'' sid mid (rt_client_id (snd (rt_send env target k r3))) i
        (snd (rt_send env target k r3)))
     else (None, snd (request_impl env target sid mid p n cb ctx timeout now_ms r)))"
    unfolding request_impl_def Let_def a prod.case option.case r1_def [symmetric] case_prod_beta
      fst_conv snd_conv should_auth_outgoing_def r1(1) h r2_def [symmetric] r3_def [symmetric] k_def [symmetric]
    using s by simp
  have "sent r3 = sent r"
    using allocate_noted [of "en_cfg env" "Some (rt_logger r)" sid mid timeout now_ms cb ctx "rt_requests r"] a
    by (simp add: r3_def r2_def r1_def)
  then show "ok \<Longrightarrow> sent (snd (request_impl env target sid mid p n cb ctx timeout now_ms r)) =
      sent r @ [(target, request_frame target sid mid (payload_bytes p n) i r)]"
    by (subst eq) (simp add: sent_rt_send f)
  show "fst (request_impl env target sid mid p n cb ctx timeout now_ms r) = (if ok then Some i else None)"
    by (subst eq) simp
  show "ok \<Longrightarrow> rt_requests (snd (request_impl env target sid mid p n cb ctx timeout now_ms r)) = reqs"
    "ok \<Longrightarrow> e2e_tx_seq (rt_e2e (snd (request_impl env target sid mid p n cb ctx timeout now_ms r))) =
      e2e_tx_seq (rt_e2e r) + 1"
    by (subst eq, simp add: r3_def r2_def r1)+
qed

text \<open>A request that reports an id was allocated that id, sent, and is pending.\<close>

lemma request_succeeded:
  assumes env: "env_ok env" and wf: "rt_wf (en_cfg env) r" and p: "sendable (en_cfg env) p n"
    and r': "request_impl env target sid mid p n cb ctx timeout now_ms r = (Some i, r')"
  shows "sent r' = sent r @ [(target, request_frame target sid mid (payload_bytes p n) i r)]"
    and "pending (rt_requests r) i = None"
    and "pending (rt_requests r') = (pending (rt_requests r))
      (i \<mapsto> new_pending (en_cfg env) sid mid timeout now_ms cb ctx i)"
    and "e2e_tx_seq (rt_e2e r') = e2e_tx_seq (rt_e2e r) + 1"
proof -
  obtain rid reqs out where a: "allocate (en_cfg env) (Some (rt_logger r)) sid mid timeout now_ms cb ctx
      (rt_requests r) = (rid, reqs, out)" using prod_cases3 by blast
  have "rid \<noteq> None" using a r' by (cases rid) (simp_all add: request_impl_def Let_def)
  then obtain j where j: "rid = Some j" by blast
  note A = allocate_Some [OF rt_wf_parts(8) [OF wf] _ a [unfolded j]]
  have cap: "MaxPendingRequests (en_cfg env) \<le> 2 ^ 32" using env by (simp add: env_ok_def)
  note S = request_impl_sent [OF wf p a [unfolded j] A(2) [OF cap] refl, of target, unfolded r' fst_conv snd_conv]
  have ok: "fst (impl_send env target (request_frame target sid mid (payload_bytes p n) j r) (rt_transport r))"
    and ij: "j = i" using S(1) by (simp_all split: if_splits)
  show "sent r' = sent r @ [(target, request_frame target sid mid (payload_bytes p n) i r)]"
    "e2e_tx_seq (rt_e2e r') = e2e_tx_seq (rt_e2e r) + 1" using S(2,4) ok ij by simp_all
  show "pending (rt_requests r) i = None"
    "pending (rt_requests r') = (pending (rt_requests r))
      (i \<mapsto> new_pending (en_cfg env) sid mid timeout now_ms cb ctx i)"
    using A(1,3) [OF cap] S(3) ok ij by simp_all
qed

text \<open>It does when a slot is free and the transport takes the frame.\<close>

lemma request_impl_made:
  assumes "env_ok env" "rt_wf (en_cfg env) r" "sendable (en_cfg env) p n"
    and "active_count (rt_requests r) < MaxPendingRequests (en_cfg env)" "\<And>d t. fst (impl_send env target d t)"
  shows "\<exists>i r'. request_impl env target sid mid p n cb ctx timeout t r = (Some i, r')"
proof -
  obtain rid reqs out where a: "allocate (en_cfg env) (Some (rt_logger r)) sid mid timeout t cb ctx (rt_requests r) = (rid, reqs, out)"
    using prod_cases3 by blast
  have "rid \<noteq> None" using allocate_None(1) [OF rt_wf_parts(8) [OF assms(2)]] a assms(4) by (metis fst_conv less_irrefl)
  then obtain i where i: "rid = Some i" by blast
  have cap: "MaxPendingRequests (en_cfg env) \<le> 2 ^ 32" using assms(1) by (simp add: env_ok_def)
  note S = request_impl_sent(1) [OF assms(2,3) a [unfolded i] allocate_Some(2) [OF rt_wf_parts(8) [OF assms(2)] cap a [unfolded i]] refl,
      of target]
  show ?thesis using S assms(5)
    by (intro exI [of _ i] exI [of _ "snd (request_impl env target sid mid p n cb ctx timeout t r)"]) (simp add: prod_eq_iff)
qed

section \<open>Acceptance of a built frame\<close>

text \<open>The two peers configured the same key for each other, or none.\<close>

definition keys_agree :: "KeyTable \<Rightarrow> addr \<Rightarrow> KeyTable \<Rightarrow> addr \<Rightarrow> bool" where
  "keys_agree keys dest keys' source \<longleftrightarrow>
     map_option ke_key (key_lookup keys dest) = map_option ke_key (key_lookup keys' source)"

text \<open>The header fields that steps 3 to 7 look at.\<close>

definition header_ok :: "MessageHeader \<Rightarrow> bool" where
  "header_ok hdr \<longleftrightarrow> hdr_version hdr = PROTOCOL_VERSION \<and> is_valid_message_type (hdr_message_type hdr) \<and>
     validate_type_id_consistency hdr \<and> validate_client_id hdr"

lemma frame_of_wire_ok:
  assumes "header_ok hdr" "has_auth hdr \<longleftrightarrow> auth" "hdr_payload_length hdr = of_nat (length payload)"
    and "length payload \<le> MaxPayloadSize cfg" "MaxPayloadSize cfg < 2 ^ 32"
  shows "wire_ok cfg (frame_of keys hdr payload auth dest)"
proof -
  have "length payload < 2 ^ 32" using assms(4,5) by (rule le_less_trans)
  then have n: "unat (hdr_payload_length hdr) = length payload" unfolding assms(3) by (rule unat_of_nat_u32)
  show ?thesis
    using assms(1,2,4) unfolding wire_ok_def Let_def frame_of_header header_ok_def expected_size_def
    by (simp add: n) (simp add: frame_of_crc length_frame_of)
qed

lemma built_frame_accepted:
  assumes keys: "auth_wf cfg' keys" "auth_wf cfg (rt_auth r)" "keys_agree keys dest (rt_auth r) source"
    and hdr: "header_ok hdr" "has_auth hdr \<longleftrightarrow> has_key dest keys" "hdr_payload_length hdr = of_nat (length payload)"
    and len: "length payload \<le> MaxPayloadSize cfg" "MaxPayloadSize cfg < 2 ^ 32"
    and f: "f = frame_of keys hdr payload (has_key dest keys) dest"
    and sq: "seq_ok cfg source f r"
    and svc: "has_key dest keys \<or> hdr_service_id hdr = SD_SERVICE_ID \<or>
      (\<forall>se. service_lookup (rt_dispatcher r) (hdr_service_id hdr) = Some se \<longrightarrow> \<not> se_auth_required se)"
  shows "accepted cfg source f r" and "deserialize f = hdr" and "frame_payload f = payload"
proof -
  show h: "deserialize f = hdr" by (simp add: f frame_of_header)
  have "length payload < 2 ^ 32" using len by (rule le_less_trans)
  then have n: "unat (hdr_payload_length hdr) = length payload" unfolding hdr(3) by (rule unat_of_nat_u32)
  show pl: "frame_payload f = payload"
    unfolding frame_payload_def h n by (simp add: f frame_of_parts(2))
  have "wire_ok cfg f" unfolding f by (rule frame_of_wire_ok [OF hdr len])
  moreover have "auth_ok source f r"
  proof (cases "has_key dest keys")
    case True
    then obtain k where k: "key_lookup keys dest = Some k"
      using find_key_lookup [OF keys(1)] by (auto simp: has_key_def)
    then obtain k' where k': "key_lookup (rt_auth r) source = Some k'" "ke_key k' = ke_key k"
      using keys(3) by (cases "key_lookup (rt_auth r) source") (auto simp: keys_agree_def)
    let ?m = "hmac_sha256_128 (ke_key k) (serialize hdr @ payload)"
    have m: "auth_compute (serialize hdr) payload dest keys = Some ?m"
      using k by (simp add: auth_compute_key [OF keys(1)])
    have "frame_mac f = ?m"
      using frame_of_parts(3) [OF True m] True unfolding frame_mac_def h n by (simp add: f)
    moreover have "take 20 f = serialize hdr" unfolding f by (rule frame_of_parts(1))
    ultimately show ?thesis using True k' by (simp add: auth_ok_def h hdr(2) pl)
  next
    case False
    then show ?thesis using svc by (auto simp: auth_ok_def h hdr(2) split: option.split)
  qed
  ultimately show "accepted cfg source f r" using sq by (simp add: accepted_def)
qed

section \<open>Notifications\<close>

definition notification_header :: "addr \<Rightarrow> u16 \<Rightarrow> u16 \<Rightarrow> nat \<Rightarrow> u8 \<Rightarrow> KeyTable \<Rightarrow> MessageHeader" where
  "notification_header dest sid eid n sq keys =
     \<lparr> hdr_version = PROTOCOL_VERSION, hdr_message_type = message_type_code NOTIFICATION,
       hdr_return_code = 0, hdr_flags = (if has_key dest keys then FLAG_AUTH else 0),
       hdr_service_id = sid, hdr_method_event_id = eid, hdr_client_id = CLIENT_ID_PROVIDER,
       hdr_sequence_counter = sq, hdr_reserved = 0, hdr_request_id = REQUEST_ID_NONE,
       hdr_payload_length = of_nat n \<rparr>"

definition notification_frame :: "addr \<Rightarrow> u16 \<Rightarrow> u16 \<Rightarrow> bytes \<Rightarrow> u8 \<Rightarrow> KeyTable \<Rightarrow> bytes" where
  "notification_frame dest sid eid payload sq keys =
     frame_of keys (notification_header dest sid eid (length payload) sq keys) payload (has_key dest keys) dest"

lemma send_notification_sent:
  assumes "rt_wf (en_cfg env) r" "sendable (en_cfg env) p n"
  shows "sent (send_notification env sid eid p n dest cid r) =
      sent r @ [(dest, notification_frame dest sid eid (payload_bytes p n) (e2e_tx_seq (rt_e2e r)) (rt_auth r))]"
    and "rt_auth (send_notification env sid eid p n dest cid r) = rt_auth r"
    and "e2e_tx_seq (rt_e2e (send_notification env sid eid p n dest cid r)) = e2e_tx_seq (rt_e2e r) + 1"
proof -
  define r1 where "r1 = snd (rt_next_sequence r)"
  let ?auth = "has_key dest (rt_auth r)"
  define hdr where "hdr = notification_header dest sid eid n (e2e_tx_seq (rt_e2e r)) (rt_auth r)"
  define r2 where "r2 = snd (build_message (en_cfg env) hdr p n ?auth dest r1)"
  define k where "k = fst (build_message (en_cfg env) hdr p n ?auth dest r1)"
  have wf1: "rt_wf (en_cfg env) r1" using assms(1) by (simp add: r1_def rt_wf_next_sequence)
  have f: "take k (rt_tx_buffer r2) = notification_frame dest sid eid (payload_bytes p n) (e2e_tx_seq (rt_e2e r)) (rt_auth r)"
    unfolding k_def r2_def build_and_send [OF wf1 assms(2)]
    by (simp add: r1_def hdr_def notification_frame_def length_payload_bytes [OF assms(2)])
  have h: "default_header\<lparr> hdr_version := PROTOCOL_VERSION,
            hdr_message_type := message_type_code NOTIFICATION, hdr_return_code := 0,
            hdr_flags := (if ?auth then FLAG_AUTH else 0), hdr_service_id := sid,
            hdr_method_event_id := eid, hdr_client_id := CLIENT_ID_PROVIDER,
            hdr_sequence_counter := e2e_tx_seq (rt_e2e r), hdr_request_id := REQUEST_ID_NONE,
            hdr_payload_length := of_nat n \<rparr> = hdr"
    by (simp add: hdr_def notification_header_def default_header_def)
  have eq: "send_notification env sid eid p n dest cid r =
      (if fst (rt_send env dest k r2) then snd (rt_send env dest k r2)
       else rt_warn env CatTransport ''notify_send_fail'' sid eid 0 0
         (diag_increment DroppedMessages None (snd (rt_send env dest k r2))))"
    unfolding send_notification_def Let_def case_prod_beta should_auth_outgoing_def rt_next_sequence_parts(1)
      h r1_def [symmetric] r2_def [symmetric] k_def [symmetric] by simp
  have "sent r2 = sent r" by (simp add: r2_def r1_def)
  then show "sent (send_notification env sid eid p n dest cid r) =
      sent r @ [(dest, notification_frame dest sid eid (payload_bytes p n) (e2e_tx_seq (rt_e2e r)) (rt_auth r))]"
    by (simp add: eq sent_rt_send f)
  show "rt_auth (send_notification env sid eid p n dest cid r) = rt_auth r"
    "e2e_tx_seq (rt_e2e (send_notification env sid eid p n dest cid r)) = e2e_tx_seq (rt_e2e r) + 1"
    by (simp_all add: eq r2_def r1_def)
qed

text \<open>The frames of one notification, for consecutive sequence counters.\<close>

fun notification_frames :: "u16 \<Rightarrow> u16 \<Rightarrow> bytes \<Rightarrow> KeyTable \<Rightarrow> u8 \<Rightarrow> addr list \<Rightarrow> (addr \<times> bytes) list" where
  "notification_frames sid eid payload keys sq [] = []"
| "notification_frames sid eid payload keys sq (dest # ds) =
     (dest, notification_frame dest sid eid payload sq keys) #
     notification_frames sid eid payload keys (sq + 1) ds"

lemma fold_send_notification:
  assumes "sendable (en_cfg env) p n"
  shows "rt_wf (en_cfg env) r \<Longrightarrow>
   sent (fold (\<lambda>s. send_notification env sid eid p n (sb_addr s) (sb_client_id s)) ss r) =
     sent r @ notification_frames sid eid (payload_bytes p n) (rt_auth r) (e2e_tx_seq (rt_e2e r)) (map sb_addr ss)"
proof (induction ss arbitrary: r)
  case (Cons s ss)
  note S = send_notification_sent [OF Cons.prems assms, of sid eid "sb_addr s" "sb_client_id s"]
  show ?case using Cons.IH [OF rt_wf_send_notification [OF Cons.prems]] by (simp add: S)
qed simp

lemma event_lookup_subs: "events_wf cfg t \<Longrightarrow> event_lookup t k = Some ev \<Longrightarrow> subs_wf cfg (ev_subs ev)"
  by (auto simp: events_wf_def event_lookup_def t_lookup_Some live_def
      dest!: in_set_takeD)

lemma notify_event_sent:
  assumes "rt_wf (en_cfg env) r" "sendable (en_cfg env) p n"
    and "event_lookup (rt_events r) (sid, eid) = Some ev" "used (ev_subs ev) > 0"
  shows "fst (notify_event env sid eid p n r)"
    and "sent (snd (notify_event env sid eid p n r)) = sent r @
      notification_frames sid eid (payload_bytes p n) (rt_auth r) (e2e_tx_seq (rt_e2e r))
        (map sb_addr (live (ev_subs ev)))"
proof -
  have f: "find_event sid eid (rt_events r) = Some ev"
    using assms(3) find_event_lookup [OF rt_wf_parts(7) [OF assms(1)]] by simp
  have wf: "t_wf (MaxSubscribers (en_cfg env)) (ev_subs ev)"
    using event_lookup_subs [OF rt_wf_parts(7) [OF assms(1)] assms(3)] by (auto simp: subs_wf_def keyed_wf)
  let ?g = "\<lambda>s. send_notification env sid eid p n (sb_addr s) (sb_client_id s)"
  have l: "live (ev_subs ev) = map (t_get (ev_subs ev)) [0..<used (ev_subs ev)]"
    using wf by (intro nth_equalityI) (simp_all add: length_live live_nth)
  have "notify sid eid (send_notification env sid eid p n) (rt_events r) r = fold ?g (live (ev_subs ev)) r"
    unfolding l fold_map by (simp add: notify_def f comp_def)
  then show "sent (snd (notify_event env sid eid p n r)) = sent r @
      notification_frames sid eid (payload_bytes p n) (rt_auth r) (e2e_tx_seq (rt_e2e r))
        (map sb_addr (live (ev_subs ev)))"
    using assms(4) fold_send_notification [OF assms(2,1)]
    by (simp add: notify_event_def has_subscribers_def f)
  show "fst (notify_event env sid eid p n r)" using assms(4) by (simp add: notify_event_def has_subscribers_def f)
qed

section \<open>Service calls and replies\<close>

lemma diag_on_request_sent:
  "sent_frames (snd (snd (snd (snd (diag_on_request cfg lg ds c disp u ready mid p resp rlen dtcs))))) = []"
proof (cases "diag_method_of mid")
  case (Some m)
  then show ?thesis by (cases m) (simp_all add: diag_on_request_def case_prod_beta Let_def)
qed (simp add: diag_on_request_def)

lemma service_call_keeps:
  assumes "service_call env c mid p resp rlen r = (rc, resp', rlen', r')"
  shows "sent r' = sent r" "rt_e2e r' = rt_e2e r" "rt_auth r' = rt_auth r" "rt_transport r' = rt_transport r"
proof -
  have "sent r' = sent r \<and> rt_e2e r' = rt_e2e r \<and> rt_auth r' = rt_auth r \<and> rt_transport r' = rt_transport r"
  proof (cases c)
    case (AppCtx k)
    then show ?thesis
      using assms by (cases "app_on_request env k mid p resp rlen (rt_app r)") (auto simp: service_call_def)
  next
    case DiagCtx
    let ?d = "diag_on_request (en_cfg env) (Some (rt_logger r)) (rt_diag_service r) (rt_diag r)
      (rt_dispatcher r) (rt_uptime_ms r) (service_ready env r) mid p resp rlen (rt_dtcs r)"
    have "sent_frames (snd (snd (snd (snd ?d)))) = []" by (rule diag_on_request_sent)
    then show ?thesis using assms DiagCtx by (auto simp: service_call_def case_prod_beta)
  qed
  then show "sent r' = sent r" "rt_e2e r' = rt_e2e r" "rt_auth r' = rt_auth r" "rt_transport r' = rt_transport r"
    by simp_all
qed

lemma dispatch_keeps:
  assumes "dispatch cfg lg ready (service_call env) emit sid mid p resp rlen t r = (rc, resp', rlen', r')"
  shows "sent r' = sent r \<and> rt_e2e r' = rt_e2e r \<and> rt_auth r' = rt_auth r \<and> rt_transport r' = rt_transport r"
proof (cases "find_service_entry sid t")
  case (Some svc)
  show ?thesis
  proof (cases "se_context svc")
    case (Some c)
    obtain rc1 resp1 rlen1 r1 where s: "service_call env c mid p resp rlen r = (rc1, resp1, rlen1, r1)"
      using prod_cases4 by blast
    show ?thesis
      using \<open>find_service_entry sid t = Some svc\<close> assms Some s service_call_keeps [OF s]
      by (auto simp: dispatch_def entry_call_def split: if_splits)
  qed (use Some assms in \<open>auto simp: dispatch_def entry_call_def split: if_splits\<close>)
qed (use assms in \<open>auto simp: dispatch_def\<close>)

text \<open>The header of the reply to a request.\<close>

definition reply_header :: "addr \<Rightarrow> MessageHeader \<Rightarrow> ReturnCode \<Rightarrow> nat \<Rightarrow> ('t, 'a) runtime \<Rightarrow> MessageHeader" where
  "reply_header source hdr rc n r =
     \<lparr> hdr_version = PROTOCOL_VERSION,
       hdr_message_type = message_type_code (if rc \<noteq> E_OK then ERROR else RESPONSE), hdr_return_code = rc,
       hdr_flags = (if has_key source (rt_auth r) then FLAG_AUTH else 0),
       hdr_service_id = hdr_service_id hdr, hdr_method_event_id = hdr_method_event_id hdr,
       hdr_client_id = hdr_client_id hdr, hdr_sequence_counter = e2e_tx_seq (rt_e2e r), hdr_reserved = 0,
       hdr_request_id = hdr_request_id hdr, hdr_payload_length = of_nat n \<rparr>"

text \<open>What the dispatcher answers to a request.\<close>

definition dispatch_result ::
    "('t, 'a) env \<Rightarrow> MessageHeader \<Rightarrow> bytes \<Rightarrow> ('t, 'a) runtime \<Rightarrow>
       ReturnCode \<times> bytes option \<times> nat \<times> ('t, 'a) runtime" where
  "dispatch_result env hdr payload r =
     (let r0 = rt_info env CatDispatch ''request_rx'' (hdr_service_id hdr) (hdr_method_event_id hdr)
                (hdr_client_id hdr) (hdr_request_id hdr) r
      in dispatch (en_cfg env) (Some (rt_logger r0)) (service_ready env r0) (service_call env) emit
           (hdr_service_id hdr) (hdr_method_event_id hdr) payload
           (Some (rt_response_buffer r0)) (MaxPayloadSize (en_cfg env)) (rt_dispatcher r0) r0)"

lemma dispatch_result_shape:
  assumes env: "env_ok env" and wf: "rt_wf (en_cfg env) r"
    and d: "dispatch_result env hdr payload r = (rc, Some buf, n, r1)"
  shows "length buf = MaxPayloadSize (en_cfg env)" and "rt_wf (en_cfg env) r1"
    and "sent r1 = sent r" and "rt_e2e r1 = rt_e2e r" and "rt_auth r1 = rt_auth r"
proof -
  define r0 where "r0 = rt_info env CatDispatch ''request_rx'' (hdr_service_id hdr) (hdr_method_event_id hdr)
                (hdr_client_id hdr) (hdr_request_id hdr) r"
  have r0: "rt_wf (en_cfg env) r0" using wf by (simp add: r0_def)
  note d' = d [unfolded dispatch_result_def Let_def, folded r0_def]
  have b: "buffer_ok (Some (rt_response_buffer r0)) (MaxPayloadSize (en_cfg env))"
    using rt_wf_parts(11) [OF r0] by (simp add: buffer_ok_def)
  show "length buf = MaxPayloadSize (en_cfg env)" and "rt_wf (en_cfg env) r1"
    using dispatch_shape [OF env r0 b d'] rt_wf_parts(11) [OF r0] by simp_all
  show "sent r1 = sent r" and "rt_e2e r1 = rt_e2e r" and "rt_auth r1 = rt_auth r"
    using dispatch_keeps [OF d'] by (simp_all add: r0_def)
qed

lemma handle_request_sent:
  assumes env: "env_ok env" and wf: "rt_wf (en_cfg env) r"
    and d: "dispatch_result env hdr payload r = (rc, Some buf, n, r1)"
    and n: "rc = E_OK \<Longrightarrow> n \<le> MaxPayloadSize (en_cfg env)"
  shows "sent (handle_request env source hdr payload r) = sent r @ [(source,
      frame_of (rt_auth r) (reply_header source hdr rc (if rc = E_OK then n else 0) r)
        (if rc = E_OK then take n buf else []) (has_key source (rt_auth r)) source)]"
proof -
  let ?cfg = "en_cfg env"
  define r0 where "r0 = rt_info env CatDispatch ''request_rx'' (hdr_service_id hdr) (hdr_method_event_id hdr)
                (hdr_client_id hdr) (hdr_request_id hdr) r"
  note d' = d [unfolded dispatch_result_def Let_def, folded r0_def]
  note s = dispatch_result_shape(1,2) [OF env wf d] and k = dispatch_result_shape(3-5) [OF env wf d]
  define r2 where "r2 = r1\<lparr>rt_response_buffer := buf\<rparr>"
  have r2: "rt_wf ?cfg r2" "rt_auth r2 = rt_auth r" "rt_e2e r2 = rt_e2e r" "sent r2 = sent r"
    using s k by (simp_all add: r2_def rt_wf_set)
  define m where "m = (if rc \<noteq> E_OK then 0 else n)"
  define p where "p = (if rc \<noteq> E_OK then None else Some (rt_response_buffer r2))"
  have p: "sendable ?cfg p m" "payload_bytes p m = (if rc = E_OK then take n buf else [])"
    using n s by (auto simp: sendable_def payload_bytes_def p_def m_def r2_def)
  define r3 where "r3 = snd (rt_next_sequence r2)"
  have r3: "rt_wf ?cfg r3" "rt_auth r3 = rt_auth r" "sent r3 = sent r"
    using r2 by (simp_all add: r3_def rt_wf_next_sequence)
  have pb: "(if rc \<noteq> E_OK then None else Some (rt_response_buffer r3)) = p"
    by (simp add: p_def r3_def rt_next_sequence_def case_prod_beta)
  let ?auth = "has_key source (rt_auth r)"
  define h where "h = reply_header source hdr rc m r"
  have h: "default_header\<lparr> hdr_version := PROTOCOL_VERSION,
            hdr_message_type := message_type_code (if rc \<noteq> E_OK then ERROR else RESPONSE),
            hdr_return_code := rc, hdr_flags := (if ?auth then FLAG_AUTH else 0),
            hdr_service_id := hdr_service_id hdr, hdr_method_event_id := hdr_method_event_id hdr,
            hdr_client_id := hdr_client_id hdr, hdr_sequence_counter := e2e_tx_seq (rt_e2e r2),
            hdr_request_id := hdr_request_id hdr,
            hdr_payload_length := (if rc \<noteq> E_OK then 0 else of_nat n) \<rparr> = h"
    by (simp add: h_def reply_header_def default_header_def m_def r2(3))
  define r4 where "r4 = snd (build_message ?cfg h p m ?auth source r3)"
  define l where "l = fst (build_message ?cfg h p m ?auth source r3)"
  have f: "take l (rt_tx_buffer r4) = frame_of (rt_auth r) h (payload_bytes p m) ?auth source"
    unfolding l_def r4_def build_and_send [OF r3(1) p(1)] by (simp add: r3)
  have "sent (handle_request env source hdr payload r) = sent (snd (rt_send env source l r4))"
    unfolding handle_request_def Let_def r0_def [symmetric] d' prod.case option.case r2_def [symmetric]
      case_prod_beta fst_conv snd_conv should_auth_outgoing_def r2(2) rt_next_sequence_parts(1) h m_def [symmetric]
      r3_def [symmetric] pb r4_def [symmetric] l_def [symmetric]
    by simp
  moreover have "sent r4 = sent r" by (simp add: r4_def r3)
  ultimately show ?thesis by (simp add: sent_rt_send f p(2)) (simp add: h_def m_def)
qed

section \<open>Dispatch and the peer table\<close>

lemma rt_complete_e2e [simp]: "rt_e2e (rt_complete env rid rc p r) = rt_e2e r"
  by (simp add: rt_complete_def case_prod_beta)

lemma handle_fire_and_forget_e2e [simp]: "rt_e2e (handle_fire_and_forget env hdr payload r) = rt_e2e r"
proof -
  have "rt_e2e r1 = rt_e2e r0" if "entry_call (service_call env) se mid p resp n r0 = (rc, resp', n', r1)"
    for se mid p resp n r0 rc resp' n' r1
    using that service_call_keeps(2) by (auto simp: entry_call_def split: option.splits)
  then show ?thesis
    unfolding handle_fire_and_forget_def Let_def
    by (auto simp: case_prod_beta split: option.split) (metis prod.collapse rt_logs_keep(1))
qed

lemma handle_request_peers:
  "e2e_peers (rt_e2e (handle_request env source hdr payload r)) = e2e_peers (rt_e2e r)"
proof -
  obtain rc resp n r1 where d: "dispatch_result env hdr payload r = (rc, resp, n, r1)"
    using prod_cases4 by blast
  define r0 where "r0 = rt_info env CatDispatch ''request_rx'' (hdr_service_id hdr) (hdr_method_event_id hdr)
                (hdr_client_id hdr) (hdr_request_id hdr) r"
  have d': "dispatch (en_cfg env) (Some (rt_logger r0)) (service_ready env r0)
      (service_call env) emit (hdr_service_id hdr) (hdr_method_event_id hdr) payload
      (Some (rt_response_buffer r0)) (MaxPayloadSize (en_cfg env)) (rt_dispatcher r0) r0 = (rc, resp, n, r1)"
    using d by (simp only: dispatch_result_def Let_def r0_def)
  have "rt_e2e r1 = rt_e2e r" using dispatch_keeps [OF d'] by (simp add: r0_def)
  then show ?thesis
    unfolding handle_request_def Let_def r0_def [symmetric] d' prod.case case_prod_beta fst_conv snd_conv
    by (cases resp) simp_all
qed

lemma dispatch_keeps_peers:
  assumes "hdr_service_id hdr \<noteq> SD_SERVICE_ID"
  shows "e2e_peers (rt_e2e (dispatch_message env source hdr payload now_ms r)) = e2e_peers (rt_e2e r)"
proof (cases "message_type_of (hdr_message_type hdr)")
  case (Some m)
  then show ?thesis
    using assms handle_request_peers [of env source hdr payload r]
    by (cases m) (simp_all add: dispatch_message_def handle_response_def handle_error_def
        handle_notification_def split: option.split)
qed (use assms in \<open>simp add: dispatch_message_def\<close>)

end
