(* ===== verification/Request_Ledger.thy ===== *)
theory Request_Ledger
  imports Sent_Frames
begin

text \<open>
  What becomes of the requests of a runtime.  Only a response, an error message, an eviction and a
  request that cannot be sent touch the table of pending requests or call a completion callback;
  every other operation leaves both alone.  The locales \<open>settling\<close> and \<open>settling_cycle\<close> turn this into a
  proof rule: a predicate on the table and the completions made so far that survives a completion
  (and an eviction) survives the validation pipeline, the process cycle and the calls of the
  application.  It is used twice, for the balance of requests and completions, and for the fate of
  one pending request during a process cycle.
\<close>

section \<open>Completions made so far\<close>

fun is_reply :: "effect \<Rightarrow> bool" where
  "is_reply (Out_Request_Done f ctx rc p) = True"
| "is_reply _ = False"

definition replies :: "('t, 'a) runtime \<Rightarrow> effect list" where
  "replies r = filter is_reply (rt_out r)"

abbreviation silent :: "effect list \<Rightarrow> bool" where
  "silent os \<equiv> filter is_reply os = []"

lemma replies_emit [simp]: "replies (emit os r) = replies r @ filter is_reply os"
  by (simp add: replies_def emit_def)

lemma replies_free [simp]:
  "replies (r\<lparr>rt_transport := t\<rparr>) = replies r" "replies (r\<lparr>rt_app := a\<rparr>) = replies r"
  "replies (r\<lparr>rt_client_id := c\<rparr>) = replies r" "replies (r\<lparr>rt_local_addr := ad\<rparr>) = replies r"
  "replies (r\<lparr>rt_logger := l\<rparr>) = replies r" "replies (r\<lparr>rt_e2e := e\<rparr>) = replies r"
  "replies (r\<lparr>rt_sd_seq := s\<rparr>) = replies r" "replies (r\<lparr>rt_auth := k\<rparr>) = replies r"
  "replies (r\<lparr>rt_diag := d\<rparr>) = replies r" "replies (r\<lparr>rt_dtcs := dt\<rparr>) = replies r"
  "replies (r\<lparr>rt_diag_service := ds\<rparr>) = replies r" "replies (r\<lparr>rt_diag_enabled := b\<rparr>) = replies r"
  "replies (r\<lparr>rt_uptime_ms := u\<rparr>) = replies r" "replies (r\<lparr>rt_uptime_epoch_ms := u\<rparr>) = replies r"
  "replies (r\<lparr>rt_uptime_started := b\<rparr>) = replies r" "replies (r\<lparr>rt_sd := sd\<rparr>) = replies r"
  "replies (r\<lparr>rt_dispatcher := dp\<rparr>) = replies r" "replies (r\<lparr>rt_events := ev\<rparr>) = replies r"
  "replies (r\<lparr>rt_requests := rq\<rparr>) = replies r" "replies (r\<lparr>rt_tx_buffer := tx\<rparr>) = replies r"
  "replies (r\<lparr>rt_response_buffer := rb\<rparr>) = replies r" "replies (r\<lparr>rt_handlers := h\<rparr>) = replies r"
  by (simp_all add: replies_def)

lemma requests_emit [simp]: "rt_requests (emit os r) = rt_requests r"
  by (simp add: emit_def)

section \<open>Components that complete nothing\<close>

lemma notices_silent: "list_all is_notice os \<Longrightarrow> silent os"
proof (induction os)
  case (Cons x os)
  then show ?case by (cases x) simp_all
qed simp

lemma silent_log_at [simp]: "silent (log_at cfg lg level category tag sid mid cid extra)"
  by (rule notices_silent) (rule logs_noted)

lemma silent_logs [simp]:
  "silent (log_trace cfg lg c t s m i x)" "silent (log_debug cfg lg c t s m i x)"
  "silent (log_info cfg lg c t s m i x)" "silent (log_warn cfg lg c t s m i x)"
  "silent (log_error cfg lg c t s m i x)"
  by (simp_all add: log_defs)

lemma silent_if_logger [simp]: "(\<And>l. silent (f l)) \<Longrightarrow> silent (if_logger f lg)"
  by (simp add: if_logger_def split: option.split)

lemma silent_calls [simp]:
  "silent (call_lost cb sid)" "silent (call_found cb sid a)" "silent (call_ack cb sid eid rc ttl)"
  by (simp_all add: call_lost_def call_found_def call_ack_def split: option.split)

lemma silent_tables [simp]:
  "silent (snd (snd (validate_sequence cfg lg source s e)))"
  "silent (snd (reset_peer cfg lg source e))"
  "silent (snd (auth_verify cfg lg h p peer mac k))"
  "silent (snd (snd (set_key cfg lg peer key k)))"
  "silent (snd (increment c hdr d))"
  "silent (snd (snd (register_service cfg lg se dp)))"
  "silent (snd (snd (unregister_service cfg lg sid dp)))"
  "silent (snd (snd (register_event cfg lg sid eid ev)))"
  "silent (snd (snd (subscribe cfg lg sid eid cid a ttl now_ms ev)))"
  "silent (snd (unsubscribe cfg lg sid eid cid ev))"
  by (simp_all add: validate_sequence_def reset_peer_def auth_verify_def set_key_def increment_def
      register_service_def unregister_service_def register_event_def subscribe_def subscribe_slot_def
      unsubscribe_def Let_def case_prod_beta split: option.split)

lemma silent_discovery [simp]:
  "silent (snd (snd (sd_offer cfg lg sid major minor ttl now_ms sd)))"
  "silent (snd (sd_stop_offer cfg lg sid sd))"
  "silent (snd (snd (sd_find cfg lg sid major now_ms sd)))"
  "silent (snd (handle_offer cfg lg sid major ttl session a now_ms sd))"
  "silent (snd (handle_subscribe_ack cfg lg sid eid rc ttl sd))"
  by (simp_all add: sd_offer_def sd_stop_offer_def sd_find_def handle_offer_def handle_subscribe_ack_def
      Let_def case_prod_beta split: option.split)

lemma silent_diagnostics [simp]:
  "silent (snd (snd (snd (snd (diag_on_request cfg lg ds c disp u ready mid p resp rlen dtcs)))))"
  by (cases "diag_method_of mid")
    (simp_all add: diag_on_request_def case_prod_beta Let_def split: DiagMethod.split)

section \<open>Operations that leave requests alone\<close>

lemma untouched_steps [simp]:
  "replies (rt_trace env c tag s m i x r) = replies r" "rt_requests (rt_trace env c tag s m i x r) = rt_requests r"
  "replies (rt_debug env c tag s m i x r) = replies r" "rt_requests (rt_debug env c tag s m i x r) = rt_requests r"
  "replies (rt_info env c tag s m i x r) = replies r" "rt_requests (rt_info env c tag s m i x r) = rt_requests r"
  "replies (rt_warn env c tag s m i x r) = replies r" "rt_requests (rt_warn env c tag s m i x r) = rt_requests r"
  "replies (rt_error env c tag s m i x r) = replies r" "rt_requests (rt_error env c tag s m i x r) = rt_requests r"
  by (simp_all add: rt_trace_def rt_debug_def rt_info_def rt_warn_def rt_error_def)

lemma untouched_primitives [simp]:
  "replies (diag_increment d h r) = replies r" "rt_requests (diag_increment d h r) = rt_requests r"
  "replies (snd (rt_next_sequence r)) = replies r"
  "replies (rt_reset_peer env a r) = replies r" "rt_requests (rt_reset_peer env a r) = rt_requests r"
  "replies (snd (rt_validate_seq env a sq r)) = replies r"
  "rt_requests (snd (rt_validate_seq env a sq r)) = rt_requests r"
  "replies (snd (rt_send env dest n r)) = replies r"
  "replies (snd (rt_broadcast env n r)) = replies r" "rt_requests (snd (rt_broadcast env n r)) = rt_requests r"
  by (simp_all add: diag_increment_def rt_next_sequence_def rt_reset_peer_def rt_validate_seq_def rt_send_def
      rt_broadcast_def Let_def case_prod_beta)

lemma untouched_build [simp]: "replies (snd (build_message cfg hdr p n auth peer r)) = replies r"
  by (subst build_message_frame) simp

lemma untouched_sd_sending [simp]:
  "replies (send_sd_broadcast env msg r) = replies r" "rt_requests (send_sd_broadcast env msg r) = rt_requests r"
  "replies (send_sd_unicast env dest msg r) = replies r" "rt_requests (send_sd_unicast env dest msg r) = rt_requests r"
  by (simp_all add: send_sd_broadcast_def send_sd_unicast_def Let_def case_prod_beta)

lemma untouched_subscribe [simp]:
  "replies (handle_subscribe_request env source hdr sid eid ttl now_ms r) = replies r"
  "rt_requests (handle_subscribe_request env source hdr sid eid ttl now_ms r) = rt_requests r"
  by (simp_all add: handle_subscribe_request_def Let_def case_prod_beta)

lemma untouched_offer [simp]:
  "replies (handle_sd_offer env hdr f now_ms r) = replies r"
  "rt_requests (handle_sd_offer env hdr f now_ms r) = rt_requests r"
  by (simp_all add: handle_sd_offer_def Let_def case_prod_beta)

lemma fold_constant: "(\<And>x w. g (f x w) = g w) \<Longrightarrow> g (fold f xs w) = g w"
  by (induction xs arbitrary: w) simp_all

lemma untouched_find [simp]:
  "replies (handle_sd_find env source hdr sid r) = replies r"
  "rt_requests (handle_sd_find env source hdr sid r) = rt_requests r"
  by (simp_all add: handle_sd_find_def handle_find_def Let_def fold_constant [where g = replies]
      fold_constant [where g = rt_requests])

lemma untouched_sd_message [simp]:
  "replies (handle_sd_message env source hdr payload now_ms r) = replies r"
  "rt_requests (handle_sd_message env source hdr payload now_ms r) = rt_requests r"
  by (simp_all add: handle_sd_message_def Let_def case_prod_beta split: option.split SdMethod.split prod.split)

lemma untouched_service_call:
  assumes "entry_call (service_call env) se mid p resp rlen r = (rc, resp', rlen', r')"
  shows "replies r' = replies r \<and> rt_requests r' = rt_requests r"
  using assms
  by (auto simp: entry_call_def service_call_def case_prod_beta split: option.splits service_ctx.splits)

lemma untouched_dispatch:
  assumes "dispatch cfg lg ready (service_call env) emit sid mid p resp rlen t r = (rc, resp', rlen', r')"
  shows "replies r' = replies r \<and> rt_requests r' = rt_requests r"
  using assms untouched_service_call [of env]
  by (fastforce simp: dispatch_def split: option.splits if_splits prod.splits)

lemma untouched_handle_request [simp]:
  "replies (handle_request env source hdr payload r) = replies r"
  "rt_requests (handle_request env source hdr payload r) = rt_requests r"
proof -
  obtain rc resp n r1 where d: "dispatch_result env hdr payload r = (rc, resp, n, r1)"
    using prod_cases4 by blast
  have q: "replies r1 = replies r \<and> rt_requests r1 = rt_requests r"
    using untouched_dispatch d by (fastforce simp: dispatch_result_def Let_def)
  show "replies (handle_request env source hdr payload r) = replies r"
    and "rt_requests (handle_request env source hdr payload r) = rt_requests r"
    using q unfolding handle_request_def Let_def d [unfolded dispatch_result_def Let_def] prod.case
    by (simp_all add: case_prod_beta split: option.split)
qed

lemma untouched_handlers [simp]:
  "replies (handle_fire_and_forget env hdr payload r) = replies r"
  "rt_requests (handle_fire_and_forget env hdr payload r) = rt_requests r"
  "replies (handle_notification env hdr payload r) = replies r"
  "rt_requests (handle_notification env hdr payload r) = rt_requests r"
  using untouched_service_call [of env]
  by (auto simp: handle_fire_and_forget_def handle_notification_def Let_def split: option.split prod.split)

lemma untouched_checks [simp]:
  "replies (snd (check_sequence env source data hdr r)) = replies r"
  "rt_requests (snd (check_sequence env source data hdr r)) = rt_requests r"
  "replies (snd (check_auth env source data hdr r)) = replies r"
  "rt_requests (snd (check_auth env source data hdr r)) = rt_requests r"
proof -
  obtain v r' where v: "rt_validate_seq env source (hdr_sequence_counter hdr) r = (v, r')" by fastforce
  have "replies r' = replies r" "rt_requests r' = rt_requests r"
    using untouched_primitives(6,7) [of env source "hdr_sequence_counter hdr" r] v by simp_all
  then show "replies (snd (check_sequence env source data hdr r)) = replies r"
    and "rt_requests (snd (check_sequence env source data hdr r)) = rt_requests r"
    by (simp_all add: check_sequence_def v split: SeqResult.split)
  show "replies (snd (check_auth env source data hdr r)) = replies r"
    and "rt_requests (snd (check_auth env source data hdr r)) = rt_requests r"
    by (simp_all add: check_auth_def Let_def case_prod_beta split: option.split)
qed

text \<open>The calls of the application, requests excepted.\<close>

lemma untouched_send_tail [simp]:
  "replies (send_notification env sid eid p n dest cid r) = replies r"
  "rt_requests (send_notification env sid eid p n dest cid r) = rt_requests r"
  "replies (snd (fire_and_forget env sid mid p n r)) = replies r"
  "rt_requests (snd (fire_and_forget env sid mid p n r)) = rt_requests r"
  by (simp_all add: send_notification_def fire_and_forget_def Let_def case_prod_beta split: option.split)

lemma untouched_notify [simp]:
  "replies (snd (notify_event env sid eid p n r)) = replies r"
  "rt_requests (snd (notify_event env sid eid p n r)) = rt_requests r"
  by (simp_all add: notify_event_def notify_def fold_constant [where g = replies]
      fold_constant [where g = rt_requests] split: option.split)

lemma untouched_services [simp]:
  "replies (snd (rt_register_service env sid svc major minor auth r)) = replies r"
  "rt_requests (snd (rt_register_service env sid svc major minor auth r)) = rt_requests r"
  "replies (snd (rt_unregister_service env sid r)) = replies r"
  "rt_requests (snd (rt_unregister_service env sid r)) = rt_requests r"
  "replies (snd (rt_register_event env sid eid r)) = replies r"
  "rt_requests (snd (rt_register_event env sid eid r)) = rt_requests r"
  "replies (snd (offer_service env sid ttl now_ms r)) = replies r"
  "rt_requests (snd (offer_service env sid ttl now_ms r)) = rt_requests r"
  "replies (stop_offer env sid r) = replies r" "rt_requests (stop_offer env sid r) = rt_requests r"
  "replies (snd (find_service env sid mj now_ms r)) = replies r"
  "rt_requests (snd (find_service env sid mj now_ms r)) = rt_requests r"
  "replies (snd (set_hmac_key env peer key r)) = replies r"
  "rt_requests (snd (set_hmac_key env peer key r)) = rt_requests r"
  by (simp_all add: rt_register_service_def rt_unregister_service_def rt_register_event_def offer_service_def
      stop_offer_def find_service_def set_hmac_key_def case_prod_beta split: option.split)

lemma untouched_settings [simp]:
  "replies (set_local_address a r) = replies r" "rt_requests (set_local_address a r) = rt_requests r"
  "replies (set_sd_callbacks cb r) = replies r" "rt_requests (set_sd_callbacks cb r) = rt_requests r"
  "replies (set_diagnostic_callback f ctx r) = replies r"
  "rt_requests (set_diagnostic_callback f ctx r) = rt_requests r"
  "replies (set_log_callback f ctx r) = replies r" "rt_requests (set_log_callback f ctx r) = rt_requests r"
  "replies (snd (subscribe_event env sid eid h ttl now_ms r)) = replies r"
  "rt_requests (snd (subscribe_event env sid eid h ttl now_ms r)) = rt_requests r"
  "replies (snd (unsubscribe_event sid eid r)) = replies r"
  "rt_requests (snd (unsubscribe_event sid eid r)) = rt_requests r"
  by (simp_all add: set_local_address_def set_sd_callbacks_def set_diagnostic_callback_def set_log_callback_def
      subscribe_event_def unsubscribe_event_def case_prod_beta)

lemma untouched_diagnostics [simp]:
  "replies (snd (enable_diagnostics env now_ms auth r)) = replies r"
  "rt_requests (snd (enable_diagnostics env now_ms auth r)) = rt_requests r"
  "replies (snd (report_dtc env code severity now_ms r)) = replies r"
  "rt_requests (snd (report_dtc env code severity now_ms r)) = rt_requests r"
  "replies (snd (clear_dtc code r)) = replies r" "rt_requests (snd (clear_dtc code r)) = rt_requests r"
  "replies (clear_all_dtcs r) = replies r" "rt_requests (clear_all_dtcs r) = rt_requests r"
  by (simp_all add: enable_diagnostics_def report_dtc_def clear_dtc_def clear_all_dtcs_def Let_def case_prod_beta)

text \<open>The periodic loops, evictions of requests excepted.\<close>

lemma untouched_loops [simp]:
  "replies (track_uptime now_ms r) = replies r" "rt_requests (track_uptime now_ms r) = rt_requests r"
  "replies (rt_evict_subscriptions env now_ms r) = replies r"
  "rt_requests (rt_evict_subscriptions env now_ms r) = rt_requests r"
  by (simp_all add: track_uptime_def rt_evict_subscriptions_def Let_def)

lemma untouched_offers [simp]:
  "replies (rt_process_offers env now_ms r) = replies r"
  "rt_requests (rt_process_offers env now_ms r) = rt_requests r"
proof -
  let ?f = "offer_step (en_cfg env) now_ms (send_sd_broadcast env)"
  have "replies (snd (fold ?f xs sw)) = replies (snd sw)" "rt_requests (snd (fold ?f xs sw)) = rt_requests (snd sw)"
    for xs and sw :: "ServiceDiscovery \<times> ('a, 'b) runtime"
    by (simp_all add: fold_constant [where g = "\<lambda>sw. replies (snd sw)"]
        fold_constant [where g = "\<lambda>sw. rt_requests (snd sw)"] offer_step_def Let_def case_prod_beta)
  then show "replies (rt_process_offers env now_ms r) = replies r"
    and "rt_requests (rt_process_offers env now_ms r) = rt_requests r"
    by (simp_all add: rt_process_offers_def process_offers_def case_prod_beta)
qed

lemma untouched_renewals [simp]:
  "replies (rt_process_renewals env now_ms r) = replies r"
  "rt_requests (rt_process_renewals env now_ms r) = rt_requests r"
proof -
  let ?f = "renewal_step (en_cfg env) now_ms (send_sd_unicast env)"
  have "replies (snd (?f i sw)) = replies (snd sw) \<and> rt_requests (snd (?f i sw)) = rt_requests (snd sw)"
    for i and sw :: "ServiceDiscovery \<times> ('a, 'b) runtime"
    by (simp add: renewal_step_def send_subscribe_def Let_def case_prod_beta split: option.split)
  then have "replies (snd (fold ?f xs sw)) = replies (snd sw)" "rt_requests (snd (fold ?f xs sw)) = rt_requests (snd sw)"
    for xs and sw :: "ServiceDiscovery \<times> ('a, 'b) runtime"
    by (simp_all add: fold_constant [where g = "\<lambda>sw. replies (snd sw)"]
        fold_constant [where g = "\<lambda>sw. rt_requests (snd sw)"])
  then show "replies (rt_process_renewals env now_ms r) = replies r"
    and "rt_requests (rt_process_renewals env now_ms r) = rt_requests r"
    by (simp_all add: rt_process_renewals_def process_subscription_renewals_def case_prod_beta)
qed

lemma untouched_ttls [simp]:
  "replies (rt_process_ttls env now_ms r) = replies r"
  "rt_requests (rt_process_ttls env now_ms r) = rt_requests r"
proof -
  let ?f = "\<lambda>lg. ttl_step (en_cfg env) lg now_ms emit (rt_reset_peer env)"
  have "replies (snd (?f lg i sw)) = replies (snd sw) \<and> rt_requests (snd (?f lg i sw)) = rt_requests (snd sw)"
    for lg i and sw :: "ServiceDiscovery \<times> ('a, 'b) runtime"
    by (simp add: ttl_step_def Let_def case_prod_beta)
  then have "replies (snd (fold (?f lg) xs sw)) = replies (snd sw)"
    "rt_requests (snd (fold (?f lg) xs sw)) = rt_requests (snd sw)"
    for lg xs and sw :: "ServiceDiscovery \<times> ('a, 'b) runtime"
    by (simp_all add: fold_constant [where g = "\<lambda>sw. replies (snd sw)"]
        fold_constant [where g = "\<lambda>sw. rt_requests (snd sw)"])
  then show "replies (rt_process_ttls env now_ms r) = replies r"
    and "rt_requests (rt_process_ttls env now_ms r) = rt_requests r"
    by (simp_all add: rt_process_ttls_def process_consumer_ttls_def case_prod_beta)
qed

lemma untouched_finds [simp]:
  "replies (rt_process_finds env now_ms r) = replies r"
  "rt_requests (rt_process_finds env now_ms r) = rt_requests r"
proof -
  let ?f = "\<lambda>lg. find_step (en_cfg env) lg now_ms emit (send_sd_broadcast env)"
  have "replies (snd (?f lg i sw)) = replies (snd sw) \<and> rt_requests (snd (?f lg i sw)) = rt_requests (snd sw)"
    for lg i and sw :: "ServiceDiscovery \<times> ('a, 'b) runtime"
    by (simp add: find_step_def Let_def case_prod_beta)
  then have "replies (snd (fold (?f lg) xs sw)) = replies (snd sw)"
    "rt_requests (snd (fold (?f lg) xs sw)) = rt_requests (snd sw)"
    for lg xs and sw :: "ServiceDiscovery \<times> ('a, 'b) runtime"
    by (simp_all add: fold_constant [where g = "\<lambda>sw. replies (snd sw)"]
        fold_constant [where g = "\<lambda>sw. rt_requests (snd sw)"])
  then show "replies (rt_process_finds env now_ms r) = replies r"
    and "rt_requests (rt_process_finds env now_ms r) = rt_requests r"
    by (simp_all add: rt_process_finds_def process_finds_def case_prod_beta)
qed

section \<open>The proof rule\<close>

locale settling =
  fixes env :: "('t, 'a) env" and I :: "('t, 'a) runtime \<Rightarrow> bool"
  assumes untouched: "I r \<Longrightarrow> rt_requests r' = rt_requests r \<Longrightarrow> replies r' = replies r \<Longrightarrow> I r'"
    and complete: "I r \<Longrightarrow> I (rt_complete env rid rc p r)"
begin

lemma same: "rt_requests r' = rt_requests r \<Longrightarrow> replies r' = replies r \<Longrightarrow> I r' \<longleftrightarrow> I r"
  using untouched [of r r'] untouched [of r' r] by auto

lemma same_steps [simp]:
  "I (rt_debug env' c tag s m i x r) = I r" "I (rt_warn env' c tag s m i x r) = I r"
  "I (rt_error env' c tag s m i x r) = I r" "I (diag_increment d h r) = I r"
  "I (r\<lparr>rt_transport := t\<rparr>) = I r" "I (track_uptime now_ms r) = I r"
  "I (handle_request env' source hdr payload r) = I r"
  "I (handle_fire_and_forget env' hdr payload r) = I r"
  "I (handle_notification env' hdr payload r) = I r"
  "I (handle_sd_message env' source hdr payload now_ms r) = I r"
  by (rule same; simp)+

lemma dispatch_message: "I r \<Longrightarrow> I (dispatch_message env source hdr payload now_ms r)"
  by (auto simp: dispatch_message_def handle_response_def handle_error_def complete
      split: option.split MessageType.split)

lemma validate_and_dispatch:
  assumes "I r" shows "I (validate_and_dispatch env source data now_ms r)"
proof -
  let ?hdr = "deserialize data"
  let ?s = "snd (check_sequence env source data ?hdr r)"
  let ?a = "snd (check_auth env source data ?hdr ?s)"
  have s: "I ?s" and a: "I ?a" using assms by (rule untouched, simp_all)+
  show ?thesis
    unfolding validate_and_dispatch_def Let_def case_prod_beta
    using assms s a by (auto intro!: dispatch_message)
qed

lemma drain: "I r \<Longrightarrow> I (drain env now_ms n r)"
proof (induction n arbitrary: r)
  case (Suc n)
  have t: "I (r\<lparr>rt_transport := t\<rparr>)" for t using Suc.prems by simp
  show ?case
    using Suc.IH [OF validate_and_dispatch [OF t]] Suc.prems by (auto split: prod.split option.split)
qed simp

end

locale settling_cycle = settling +
  assumes evict: "I r \<Longrightarrow> I (rt_evict_requests env now_ms r)"
begin

lemma process:
  assumes "I r" shows "I (process env now_ms r)"
proof -
  define r1 where "r1 = rt_evict_requests env now_ms
    (Runtime_Api.drain env now_ms (MaxReceiveQueueSize (en_cfg env)) (track_uptime now_ms r))"
  have "I r1" unfolding r1_def using assms by (intro evict drain) simp
  then show ?thesis unfolding process_def Let_def r1_def [symmetric] by (rule untouched) simp_all
qed

end

end
