(* ===== verification/Request_Balance.thy ===== *)
theory Request_Balance
  imports Request_Ledger
begin

text \<open>
  The two uses of the proof rule of \<open>Request_Ledger\<close>.  First the balance: the completion callbacks made
  so far together with those the open requests still owe are, as a multiset, the callbacks of the
  requests that were issued; completing, evicting and failing to send a request move an element from
  one side to the other.  Then the watch: through the validation pipeline a pending request either
  stays as it is or has been completed.
\<close>

section \<open>Owed and made callbacks\<close>

type_synonym callback = "nat \<times> nat"

definition owed :: "PendingEntry \<Rightarrow> callback multiset" where
  "owed e = (case pr_callback e of None \<Rightarrow> {#} | Some f \<Rightarrow> {#(f, pr_user_ctx e)#})"

definition open_calls :: "RequestTracker \<Rightarrow> callback multiset" where
  "open_calls t = (\<Sum>e \<in># mset (actives t). owed e)"

fun reply_call :: "effect \<Rightarrow> callback multiset" where
  "reply_call (Out_Request_Done f ctx rc p) = {#(f, ctx)#}"
| "reply_call _ = {#}"

definition made_calls :: "effect list \<Rightarrow> callback multiset" where
  "made_calls os = (\<Sum>x \<in># mset os. reply_call x)"

definition balance :: "('t, 'a) runtime \<Rightarrow> callback multiset" where
  "balance r = made_calls (replies r) + open_calls (rt_requests r)"

lemma made_calls_simps [simp]:
  "made_calls [] = {#}" "made_calls (x # os) = reply_call x + made_calls os"
  "made_calls (os @ os') = made_calls os + made_calls os'"
  by (simp_all add: made_calls_def)

lemma made_calls_replies: "made_calls (filter is_reply os) = made_calls os"
proof (induction os)
  case (Cons x os)
  then show ?case by (cases x) simp_all
qed simp

lemma made_calls_visible: "made_calls (visible os) = made_calls os"
proof (induction os)
  case (Cons x os)
  then show ?case by (cases x) simp_all
qed simp

lemma made_call_done [simp]: "made_calls (call_done e rc p) = owed e"
  by (simp add: call_done_def owed_def split: option.split)

lemma made_calls_done: "made_calls (concat (map (\<lambda>e. call_done e rc p) es)) = (\<Sum>e \<in># mset es. owed e)"
  by (induction es) simp_all

lemma distinct_actives: "tracker_wf cfg t \<Longrightarrow> distinct (actives t)"
  by (auto simp: tracker_wf_def distinct_map)

lemma set_actives: "tracker_wf cfg t \<Longrightarrow> e \<in> set (actives t) \<longleftrightarrow> pending t (pr_request_id e) = Some e"
  by (auto simp: pending_Some)

text \<open>A map update of the pending requests, seen in the table.\<close>

lemma actives_removed:
  assumes "tracker_wf cfg t" "tracker_wf cfg t'" "pending t rid = Some e"
    and "pending t' = (pending t)(rid := None)"
  shows "mset (actives t) = add_mset e (mset (actives t'))"
proof -
  have "pr_request_id e = rid" using assms(1,3) by (simp add: pending_Some)
  then have "set (actives t') = set (actives t) - {e}" "e \<in> set (actives t)"
    using assms by (auto simp: set_actives [OF assms(1)] set_actives [OF assms(2)] split: if_splits)
  moreover have "mset (actives t) = mset_set (set (actives t))" "mset (actives t') = mset_set (set (actives t'))"
    using distinct_actives assms(1,2) by (metis mset_set_set)+
  ultimately show ?thesis by (simp add: mset_set.remove)
qed

lemma open_calls_completed:
  assumes "tracker_wf cfg t" "complete cfg lg rid rc p t = (ok, t', out)"
  shows "made_calls out + open_calls t' = open_calls t"
proof (cases "pending t rid")
  case None
  then have "made_calls out = {#}"
    using complete_pending(4) [OF assms] made_calls_visible [of out] by simp
  moreover have "t' = t"
    using None complete_pending(3) [OF assms] assms(2) by (auto simp: complete_def Let_def split: option.splits)
  ultimately show ?thesis by simp
next
  case (Some e)
  then have "made_calls out = owed e"
    using complete_pending(4) [OF assms] made_calls_visible [of out] by simp
  moreover have "mset (actives t) = add_mset e (mset (actives t'))"
    using assms(1) complete_pending(1) [OF assms] Some complete_pending(2) [OF assms] by (rule actives_removed)
  ultimately show ?thesis by (simp add: open_calls_def)
qed

lemma open_calls_evicted:
  assumes "tracker_wf cfg t"
  shows "made_calls (snd (evict_expired_requests cfg lg now_ms t)) +
    open_calls (fst (evict_expired_requests cfg lg now_ms t)) = open_calls t"
proof -
  let ?P = "\<lambda>e. time_after now_ms (pr_deadline_ms e)"
  have "filter (request_expired now_ms) (actives t) = filter ?P (actives t)"
    by (rule filter_cong) (auto simp: request_expired_def actives_def)
  then have "made_calls (snd (evict_expired_requests cfg lg now_ms t)) = (\<Sum>e \<in># mset (filter ?P (actives t)). owed e)"
    using evict_expired_requests_exact(2) [OF assms, of lg now_ms]
      made_calls_visible [of "snd (evict_expired_requests cfg lg now_ms t)"]
    by (metis made_calls_done)
  moreover have "(\<Sum>e \<in># mset es. owed e) =
      (\<Sum>e \<in># mset (filter ?P es). owed e) + (\<Sum>e \<in># mset (filter (\<lambda>e. \<not> ?P e) es). owed e)" for es
    by (induction es) simp_all
  ultimately show ?thesis by (simp add: open_calls_def evict_actives [OF assms])
qed

section \<open>The balance\<close>

lemma balance_untouched:
  "rt_requests r' = rt_requests r \<Longrightarrow> replies r' = replies r \<Longrightarrow> balance r' = balance r"
  by (simp add: balance_def)

lemma balance_complete:
  assumes "tracker_wf (en_cfg env) (rt_requests r)"
  shows "tracker_wf (en_cfg env) (rt_requests (rt_complete env rid rc p r)) \<and>
    balance (rt_complete env rid rc p r) = balance r"
proof -
  obtain ok t' out where c: "complete (en_cfg env) (Some (rt_logger r)) rid rc p (rt_requests r) = (ok, t', out)"
    using prod_cases3 by blast
  show ?thesis
    using complete_pending(1) [OF assms c] open_calls_completed [OF assms c]
    by (simp add: rt_complete_def c balance_def made_calls_replies ac_simps)
qed

lemma balance_evict:
  assumes "tracker_wf (en_cfg env) (rt_requests r)"
  shows "tracker_wf (en_cfg env) (rt_requests (rt_evict_requests env now_ms r)) \<and>
    balance (rt_evict_requests env now_ms r) = balance r"
  using evict_wf(1) [OF assms] open_calls_evicted [OF assms, of "Some (rt_logger r)" now_ms]
  by (simp add: rt_evict_requests_def case_prod_beta balance_def made_calls_replies ac_simps)

interpretation balanced: settling_cycle env
    "\<lambda>r. tracker_wf (en_cfg env) (rt_requests r) \<and> balance r = B" for env :: "('t, 'a) env" and B
  by unfold_locales (auto simp: balance_complete balance_evict dest: balance_untouched)

section \<open>Issuing requests\<close>

text \<open>The callback a request adds: none without a free slot or with a null callback.\<close>

definition issue :: "config \<Rightarrow> nat option \<Rightarrow> nat \<Rightarrow> RequestTracker \<Rightarrow> callback multiset" where
  "issue cfg cb ctx t =
     (if active_count t < MaxPendingRequests cfg
      then (case cb of None \<Rightarrow> {#} | Some f \<Rightarrow> {#(f, ctx)#}) else {#})"

lemma open_calls_allocated:
  assumes wf: "tracker_wf cfg t" and cap: "MaxPendingRequests cfg \<le> 2 ^ 32"
    and a: "allocate cfg lg sid mid timeout now_ms cb ctx t = (rid, t', out)"
  shows "tracker_wf cfg t' \<and> open_calls t' = open_calls t + issue cfg cb ctx t \<and> made_calls out = {#}"
proof -
  have out: "made_calls out = {#}"
    using allocate_silent [of cfg lg sid mid timeout now_ms cb ctx t] made_calls_visible [of out] a by simp
  have le: "active_count t \<le> MaxPendingRequests cfg"
    using wf by (auto simp: active_count_def tracker_wf_def intro: order_trans [OF length_filter_le])
  show ?thesis
  proof (cases rid)
    case None
    then show ?thesis
      using allocate_None [OF wf, of lg sid mid timeout now_ms cb ctx] a out wf by (simp add: issue_def)
  next
    case (Some i)
    let ?e = "new_pending cfg sid mid timeout now_ms cb ctx i"
    note n = allocate_Some [OF wf cap a [unfolded Some]]
    have "mset (actives t') = add_mset ?e (mset (actives t))"
      by (rule actives_removed [OF n(2) wf, of i]) (use n in auto)
    moreover have "owed ?e = (case cb of None \<Rightarrow> {#} | Some f \<Rightarrow> {#(f, ctx)#})"
      by (cases cb) (simp_all add: owed_def new_pending_def)
    moreover have "active_count t < MaxPendingRequests cfg"
      using allocate_None(1) [OF wf, of lg sid mid timeout now_ms cb ctx] a Some le by auto
    ultimately show ?thesis using n(2) out by (simp add: open_calls_def issue_def)
  qed
qed

text \<open>A request with a slot ends in one of two ways, depending on the transport.\<close>

lemma request_impl_shape:
  assumes a: "allocate (en_cfg env) (Some (rt_logger r)) sid mid timeout now_ms cb ctx (rt_requests r) =
      (Some i, reqs, out)"
  obtains r4 where "rt_requests r4 = reqs" "replies r4 = replies r"
    and "request_impl env target sid mid p n cb ctx timeout now_ms r =
        (Some i, rt_debug env CatRequests ''request_tx'' sid mid (rt_client_id r4) i r4) \<or>
      request_impl env target sid mid p n cb ctx timeout now_ms r =
        (None, rt_warn env CatTransport ''request_send_fail'' sid mid
          (rt_client_id (rt_complete env i E_NOT_OK None r4)) i
          (diag_increment DroppedMessages None (rt_complete env i E_NOT_OK None r4)))"
proof -
  let ?cfg = "en_cfg env"
  define r1 where "r1 = emit out (r\<lparr>rt_requests := reqs\<rparr>)"
  define auth where "auth = should_auth_outgoing target r1"
  define r2 where "r2 = snd (rt_next_sequence r1)"
  define hdr where "hdr = (make_request_header sid mid n i auth r1)
    \<lparr>hdr_sequence_counter := fst (rt_next_sequence r1)\<rparr>"
  define r3 where "r3 = snd (build_message ?cfg hdr p n auth target r2)"
  define k where "k = fst (build_message ?cfg hdr p n auth target r2)"
  define r4 where "r4 = snd (rt_send env target k r3)"
  have "silent out" using allocate_noted [of ?cfg "Some (rt_logger r)" sid mid timeout now_ms cb ctx "rt_requests r"]
    by (simp add: a notices_silent)
  then have "rt_requests r4 = reqs" "replies r4 = replies r"
    by (simp_all add: r4_def r3_def r2_def r1_def)
  moreover have "request_impl env target sid mid p n cb ctx timeout now_ms r =
    (if \<not> fst (rt_send env target k r3) then
       (None, rt_warn env CatTransport ''request_send_fail'' sid mid
          (rt_client_id (rt_complete env i E_NOT_OK None r4)) i
          (diag_increment DroppedMessages None (rt_complete env i E_NOT_OK None r4)))
     else (Some i, rt_debug env CatRequests ''request_tx'' sid mid (rt_client_id r4) i r4))"
    unfolding request_impl_def Let_def a prod.case option.case r1_def [symmetric]
      auth_def [symmetric] case_prod_beta fst_conv snd_conv r2_def [symmetric] hdr_def [symmetric]
      r3_def [symmetric] k_def [symmetric] r4_def [symmetric] rt_complete_def
    by (simp add: emit_def)
  ultimately show ?thesis using that [of r4] by (auto split: if_splits)
qed

lemma request_impl_no_slot:
  assumes "allocate (en_cfg env) (Some (rt_logger r)) sid mid timeout now_ms cb ctx (rt_requests r) =
      (None, reqs, out)"
  shows "request_impl env target sid mid p n cb ctx timeout now_ms r = (None, emit out (r\<lparr>rt_requests := reqs\<rparr>))"
  by (simp add: request_impl_def Let_def assms)

lemma balance_request:
  assumes wf: "tracker_wf (en_cfg env) (rt_requests r)" and cap: "MaxPendingRequests (en_cfg env) \<le> 2 ^ 32"
  shows "tracker_wf (en_cfg env) (rt_requests (snd (request_impl env target sid mid p n cb ctx timeout now_ms r))) \<and>
    balance (snd (request_impl env target sid mid p n cb ctx timeout now_ms r)) =
      balance r + issue (en_cfg env) cb ctx (rt_requests r)"
proof -
  let ?cfg = "en_cfg env"
  obtain rid reqs out where a: "allocate ?cfg (Some (rt_logger r)) sid mid timeout now_ms cb ctx (rt_requests r)
      = (rid, reqs, out)" using prod_cases3 by blast
  note b = open_calls_allocated [OF wf cap a]
  show ?thesis
  proof (cases rid)
    case None
    then show ?thesis
      using b a by (simp add: request_impl_no_slot balance_def made_calls_replies)
  next
    case (Some i)
    then have a: "allocate ?cfg (Some (rt_logger r)) sid mid timeout now_ms cb ctx (rt_requests r) = (Some i, reqs, out)"
      using a by simp
    obtain r4 where r4: "rt_requests r4 = reqs" "replies r4 = replies r"
        and e: "request_impl env target sid mid p n cb ctx timeout now_ms r =
            (Some i, rt_debug env CatRequests ''request_tx'' sid mid (rt_client_id r4) i r4) \<or>
          request_impl env target sid mid p n cb ctx timeout now_ms r =
            (None, rt_warn env CatTransport ''request_send_fail'' sid mid
              (rt_client_id (rt_complete env i E_NOT_OK None r4)) i
              (diag_increment DroppedMessages None (rt_complete env i E_NOT_OK None r4)))"
      by (rule request_impl_shape [OF a])
    have "tracker_wf ?cfg (rt_requests r4)" "balance r4 = balance r + issue ?cfg cb ctx (rt_requests r)"
      using b r4 by (simp_all add: balance_def ac_simps)
    then show ?thesis
      using e balance_complete [of env r4 i E_NOT_OK None] by (auto simp: balance_def)
  qed
qed

section \<open>Runs\<close>

fun issued :: "('t, 'a) env \<Rightarrow> rt_op \<Rightarrow> ('t, 'a) runtime \<Rightarrow> callback multiset" where
  "issued env (Do_Request sid mid p n cb ctx timeout now_ms) r =
     (case get_provider_address sid (rt_sd r) of
        None \<Rightarrow> {#} | Some a \<Rightarrow> issue (en_cfg env) cb ctx (rt_requests r))"
| "issued env (Do_Request_To target sid mid p n cb ctx timeout now_ms) r =
     issue (en_cfg env) cb ctx (rt_requests r)"
| "issued env _ r = {#}"

fun issued_in :: "('t, 'a) env \<Rightarrow> rt_op list \<Rightarrow> ('t, 'a) runtime \<Rightarrow> callback multiset" where
  "issued_in env [] r = {#}"
| "issued_in env (op # ops) r = issued env op r + issued_in env ops (rt_apply env op r)"

lemma balance_step:
  assumes wf: "tracker_wf (en_cfg env) (rt_requests r)" and cap: "MaxPendingRequests (en_cfg env) \<le> 2 ^ 32"
  shows "tracker_wf (en_cfg env) (rt_requests (rt_apply env op r)) \<and>
    balance (rt_apply env op r) = balance r + issued env op r"
proof (cases op)
  case (Do_Process now_ms)
  then show ?thesis using balanced.process [where r = r and env = env and B = "balance r"] wf by simp
next
  case (Do_Request sid mid p n cb ctx timeout now_ms)
  then show ?thesis
    using balance_request [OF wf cap] wf by (simp add: request_def split: option.split)
next
  case (Do_Request_To target sid mid p n cb ctx timeout now_ms)
  then show ?thesis using balance_request [OF wf cap] by (simp add: request_to_def)
qed (simp_all add: balance_def wf)

lemma balance_run:
  assumes "MaxPendingRequests (en_cfg env) \<le> 2 ^ 32"
  shows "tracker_wf (en_cfg env) (rt_requests r) \<Longrightarrow>
    balance (fold (rt_apply env) ops r) = balance r + issued_in env ops r"
proof (induction ops arbitrary: r)
  case (Cons op ops)
  then show ?case using balance_step [OF Cons.prems assms, of op] by simp
qed simp

section \<open>The watch over one request\<close>

text \<open>The callback of an entry is among the effects; nothing is to be called for a null callback.\<close>

definition called :: "PendingEntry \<Rightarrow> effect list \<Rightarrow> bool" where
  "called e os \<longleftrightarrow> (\<exists>rc p. set (call_done e rc p) \<subseteq> set os)"

lemma calledI: "set (call_done e rc p) \<subseteq> set os \<Longrightarrow> called e os"
  by (auto simp: called_def)

lemma called_append [simp]: "called e os \<Longrightarrow> called e (os @ os')"
  by (auto simp: called_def)

lemma called_done [simp]: "called e (os @ call_done e rc p)"
  by (rule calledI [of _ rc p]) simp

definition watched :: "config \<Rightarrow> u32 \<Rightarrow> PendingEntry \<Rightarrow> effect list \<Rightarrow> ('t, 'a) runtime \<Rightarrow> bool" where
  "watched cfg i e before r \<longleftrightarrow> tracker_wf cfg (rt_requests r) \<and>
     (\<exists>os. replies r = before @ os \<and>
        (pending (rt_requests r) i = Some e \<or>
         pending (rt_requests r) i = None \<and> called e os))"

lemma watched_untouched:
  "watched cfg i e b r \<Longrightarrow> rt_requests r' = rt_requests r \<Longrightarrow> replies r' = replies r \<Longrightarrow> watched cfg i e b r'"
  by (simp add: watched_def)

lemma replies_of_visible: "filter is_reply os = filter is_reply (visible os)"
proof (induction os)
  case (Cons x os)
  then show ?case by (cases x) simp_all
qed simp

lemma replies_call_done [simp]: "filter is_reply (call_done e rc p) = call_done e rc p"
  by (simp add: call_done_def split: option.split)

lemma complete_replies:
  assumes wf: "tracker_wf (en_cfg env) (rt_requests r)"
  shows "tracker_wf (en_cfg env) (rt_requests (rt_complete env rid rc p r))"
    and "pending (rt_requests (rt_complete env rid rc p r)) = (pending (rt_requests r))(rid := None)"
    and "replies (rt_complete env rid rc p r) = replies r @
      (case pending (rt_requests r) rid of None \<Rightarrow> [] | Some e \<Rightarrow> call_done e rc p)"
proof -
  obtain ok t' out where c: "complete (en_cfg env) (Some (rt_logger r)) rid rc p (rt_requests r) = (ok, t', out)"
    using prod_cases3 by blast
  note d = complete_pending [OF wf c]
  show "tracker_wf (en_cfg env) (rt_requests (rt_complete env rid rc p r))"
    and "pending (rt_requests (rt_complete env rid rc p r)) = (pending (rt_requests r))(rid := None)"
    using d by (simp_all add: rt_complete_def c)
  show "replies (rt_complete env rid rc p r) = replies r @
      (case pending (rt_requests r) rid of None \<Rightarrow> [] | Some e \<Rightarrow> call_done e rc p)"
    using d(4) replies_of_visible [of out] by (simp add: rt_complete_def c split: option.split)
qed

lemma watched_complete:
  assumes "watched (en_cfg env) i e b r"
  shows "watched (en_cfg env) i e b (rt_complete env rid rc p r)"
proof -
  have wf: "tracker_wf (en_cfg env) (rt_requests r)" using assms by (simp add: watched_def)
  note c = complete_replies [OF wf, of rid rc p]
  obtain os where os: "replies r = b @ os" and fate: "pending (rt_requests r) i = Some e \<or>
      pending (rt_requests r) i = None \<and> called e os"
    using assms by (auto simp: watched_def)
  show ?thesis
    unfolding watched_def
    using c os fate
    by (intro conjI exI [of _ "os @ (case pending (rt_requests r) rid of None \<Rightarrow> [] | Some e \<Rightarrow> call_done e rc p)"])
      auto
qed

interpretation watching: settling env "watched (en_cfg env) i e b" for env :: "('t, 'a) env" and i e b
  by unfold_locales (auto intro: watched_untouched watched_complete)

lemma process_settles_expired:
  assumes wf: "tracker_wf (en_cfg env) (rt_requests r)" and e: "pending (rt_requests r) i = Some e"
    and late: "time_after now_ms (pr_deadline_ms e)"
  shows "pending (rt_requests (process env now_ms r)) i = None \<and>
    (\<exists>os. replies (process env now_ms r) = replies r @ os \<and> called e os)"
proof -
  let ?cfg = "en_cfg env"
  define r1 where "r1 = drain env now_ms (MaxReceiveQueueSize ?cfg) (track_uptime now_ms r)"
  have "watched ?cfg i e (replies r) r1"
    unfolding r1_def by (rule watching.drain) (simp add: watched_def wf e)
  then obtain os where wf1: "tracker_wf ?cfg (rt_requests r1)" and os: "replies r1 = replies r @ os"
    and fate: "pending (rt_requests r1) i = Some e \<or>
      pending (rt_requests r1) i = None \<and> called e os"
    by (auto simp: watched_def)
  define ev where "ev = evict_expired_requests ?cfg (Some (rt_logger r1)) now_ms (rt_requests r1)"
  define r2 where "r2 = rt_evict_requests env now_ms r1"
  have r2: "rt_requests r2 = fst ev" "replies r2 = replies r @ os @ filter is_reply (snd ev)"
    by (simp_all add: r2_def rt_evict_requests_def ev_def case_prod_beta os)
  have none: "pending (rt_requests r2) i = None"
    using evict_wf(2) [OF wf1, of "Some (rt_logger r1)" now_ms i] fate late by (auto simp: r2 ev_def)
  have "called e (os @ filter is_reply (snd ev))"
  proof (cases "pending (rt_requests r1) i")
    case None
    then show ?thesis using fate by auto
  next
    case (Some e')
    then have "pending (rt_requests r1) i = Some e" using fate by simp
    then have "e \<in> set (actives (rt_requests r1))" by (simp add: pending_Some [OF wf1])
    then have "e \<in> set (filter (request_expired now_ms) (actives (rt_requests r1)))"
      using late by (simp add: request_expired_def actives_def)
    then have "set (call_done e E_TIMEOUT None) \<subseteq> set (filter is_reply (visible (snd ev)))"
      unfolding ev_def evict_expired_requests_exact(2) [OF wf1] by (fastforce simp: filter_concat comp_def)
    then show ?thesis using replies_of_visible [of "snd ev"] by (intro calledI [of _ E_TIMEOUT None]) auto
  qed
  moreover have "rt_requests (process env now_ms r) = rt_requests r2" "replies (process env now_ms r) = replies r2"
    by (simp_all add: process_def Let_def r1_def r2_def)
  ultimately show ?thesis using none r2 by auto
qed

end
