(* ===== verification/Request_Settlement.thy ===== *)
theory Request_Settlement
  imports Request_Balance
begin

text \<open>
  With what result a request is settled in a process cycle: the frames the receive loop takes from the
  transport, which of them answers the request, and the time-out otherwise.
\<close>

section \<open>One frame\<close>

lemma only_noted_untouched:
  "only_noted r r' \<Longrightarrow> rt_requests r' = rt_requests r \<and> replies r' = replies r"
  by (auto simp: only_noted_def replies_def notices_silent)

text \<open>A frame, received by a runtime in state \<open>r\<close>, that answers request \<open>i\<close>.\<close>

fun answers_call :: "config \<Rightarrow> u32 \<Rightarrow> addr \<times> bytes \<times> ('t, 'a) runtime \<Rightarrow> bool" where
  "answers_call cfg i (source, data, r) \<longleftrightarrow>
     accepted cfg source data r \<and> hdr_service_id (deserialize data) \<noteq> SD_SERVICE_ID \<and>
     message_type_of (hdr_message_type (deserialize data)) \<in> {Some RESPONSE, Some ERROR} \<and>
     hdr_request_id (deserialize data) = i"

lemma dispatch_message_completes:
  assumes "tracker_wf (en_cfg env) (rt_requests r)"
  shows "pending (rt_requests (dispatch_message env source hdr payload now_ms r)) =
      (if hdr_service_id hdr \<noteq> SD_SERVICE_ID \<and> message_type_of (hdr_message_type hdr) \<in> {Some RESPONSE, Some ERROR}
       then (pending (rt_requests r))(hdr_request_id hdr := None) else pending (rt_requests r))"
    and "replies (dispatch_message env source hdr payload now_ms r) = replies r @
      (if hdr_service_id hdr \<noteq> SD_SERVICE_ID \<and> message_type_of (hdr_message_type hdr) \<in> {Some RESPONSE, Some ERROR}
       then case pending (rt_requests r) (hdr_request_id hdr) of None \<Rightarrow> []
         | Some e \<Rightarrow> call_done e (hdr_return_code hdr) (Some payload) else [])"
proof -
  have c: "pending (rt_requests (rt_complete env rid rc p r')) = (pending (rt_requests r))(rid := None)"
    "replies (rt_complete env rid rc p r') = replies r @
      (case pending (rt_requests r) rid of None \<Rightarrow> [] | Some e \<Rightarrow> call_done e rc p)"
    if "rt_requests r' = rt_requests r" "replies r' = replies r" for rid rc p and r' :: "('a, 'b) runtime"
    using complete_replies(2,3) [of env r' rid rc p] assms that by simp_all
  show "pending (rt_requests (dispatch_message env source hdr payload now_ms r)) =
      (if hdr_service_id hdr \<noteq> SD_SERVICE_ID \<and> message_type_of (hdr_message_type hdr) \<in> {Some RESPONSE, Some ERROR}
       then (pending (rt_requests r))(hdr_request_id hdr := None) else pending (rt_requests r))"
    and "replies (dispatch_message env source hdr payload now_ms r) = replies r @
      (if hdr_service_id hdr \<noteq> SD_SERVICE_ID \<and> message_type_of (hdr_message_type hdr) \<in> {Some RESPONSE, Some ERROR}
       then case pending (rt_requests r) (hdr_request_id hdr) of None \<Rightarrow> []
         | Some e \<Rightarrow> call_done e (hdr_return_code hdr) (Some payload) else [])"
    by (auto simp: dispatch_message_def handle_response_def handle_error_def c split: option.split MessageType.split)
qed

lemma frame_settles:
  assumes "rt_wf (en_cfg env) r" "pending (rt_requests r) i = Some e"
    and r': "r' = validate_and_dispatch env source data now_ms r"
  shows "answers_call (en_cfg env) i (source, data, r) \<Longrightarrow> pending (rt_requests r') i = None \<and>
      replies r' = replies r @ call_done e (hdr_return_code (deserialize data)) (Some (frame_payload data))"
    and "\<not> answers_call (en_cfg env) i (source, data, r) \<Longrightarrow> pending (rt_requests r') i = Some e \<and>
      (\<exists>os. replies r' = replies r @ os)"
proof -
  note P = pipeline [OF assms(1), of source data now_ms, folded r']
  have ok: "pending (rt_requests r') = (if hdr_service_id (deserialize data) \<noteq> SD_SERVICE_ID \<and>
        message_type_of (hdr_message_type (deserialize data)) \<in> {Some RESPONSE, Some ERROR}
      then (pending (rt_requests r))(hdr_request_id (deserialize data) := None) else pending (rt_requests r)) \<and>
    replies r' = replies r @ (if hdr_service_id (deserialize data) \<noteq> SD_SERVICE_ID \<and>
        message_type_of (hdr_message_type (deserialize data)) \<in> {Some RESPONSE, Some ERROR}
      then case pending (rt_requests r) (hdr_request_id (deserialize data)) of None \<Rightarrow> []
        | Some e \<Rightarrow> call_done e (hdr_return_code (deserialize data)) (Some (frame_payload data)) else [])"
    if acc: "accepted (en_cfg env) source data r"
  proof -
    obtain s where s: "only_noted r s" "rt_wf (en_cfg env) s"
      "r' = dispatch_message env source (deserialize data) (frame_payload data) now_ms s"
      using P acc by auto
    show ?thesis
      using dispatch_message_completes [OF rt_wf_parts(8) [OF s(2)]] only_noted_untouched [OF s(1)]
      by (simp only: s(3))
  qed
  have no: "rt_requests r' = rt_requests r \<and> replies r' = replies r" if "\<not> accepted (en_cfg env) source data r"
    using P that only_noted_untouched by simp
  show "answers_call (en_cfg env) i (source, data, r) \<Longrightarrow> pending (rt_requests r') i = None \<and>
      replies r' = replies r @ call_done e (hdr_return_code (deserialize data)) (Some (frame_payload data))"
    using ok assms(2) by auto
  show "\<not> answers_call (en_cfg env) i (source, data, r) \<Longrightarrow> pending (rt_requests r') i = Some e \<and>
      (\<exists>os. replies r' = replies r @ os)"
    using ok no assms(2) by (cases "accepted (en_cfg env) source data r") auto
qed

section \<open>One cycle\<close>

text \<open>The frames the receive loop takes, each with its source and the state in which it is received.\<close>

fun arrivals :: "('t, 'a) env \<Rightarrow> u32 \<Rightarrow> nat \<Rightarrow> ('t, 'a) runtime \<Rightarrow> (addr \<times> bytes \<times> ('t, 'a) runtime) list" where
  "arrivals env now_ms 0 r = []"
| "arrivals env now_ms (Suc n) r =
     (case transport_poll env (rt_transport r) of
        (None, t) \<Rightarrow> []
      | (Some (source, data), t) \<Rightarrow>
          (source, data, r\<lparr>rt_transport := t\<rparr>) #
          arrivals env now_ms n (validate_and_dispatch env source data now_ms (r\<lparr>rt_transport := t\<rparr>)))"

text \<open>The result of request \<open>i\<close>: that of the first frame that answers it, a time-out if none does.\<close>

definition settlement :: "config \<Rightarrow> u32 \<Rightarrow> (addr \<times> bytes \<times> ('t, 'a) runtime) list \<Rightarrow> ReturnCode \<times> bytes option" where
  "settlement cfg i arr =
     (case find (answers_call cfg i) arr of
        None \<Rightarrow> (E_TIMEOUT, None)
      | Some (source, data, r) \<Rightarrow> (hdr_return_code (deserialize data), Some (frame_payload data)))"

text \<open>Nothing brings a settled request back, and completions are only added.\<close>

interpretation settled: settling env
    "\<lambda>r. tracker_wf (en_cfg env) (rt_requests r) \<and> pending (rt_requests r) i = None \<and> (\<exists>os. replies r = before @ os)"
  for env :: "('t, 'a) env" and i before
  by unfold_locales (auto simp: complete_replies)

lemma drain_settles:
  assumes "env_ok env"
  shows "rt_wf (en_cfg env) r \<Longrightarrow> pending (rt_requests r) i = Some e \<Longrightarrow>
    (case find (answers_call (en_cfg env) i) (arrivals env now_ms n r) of
       None \<Rightarrow> pending (rt_requests (drain env now_ms n r)) i = Some e \<and> (\<exists>os. replies (drain env now_ms n r) = replies r @ os)
     | Some (source, data, s) \<Rightarrow> pending (rt_requests (drain env now_ms n r)) i = None \<and>
         (\<exists>os os'. replies (drain env now_ms n r) = replies r @ os @
           call_done e (hdr_return_code (deserialize data)) (Some (frame_payload data)) @ os'))"
proof (induction n arbitrary: r)
  case (Suc n)
  obtain f t where poll: "transport_poll env (rt_transport r) = (f, t)" by fastforce
  show ?case
  proof (cases f)
    case None
    then show ?thesis using Suc.prems poll by simp
  next
    case (Some sd)
    obtain source data where sd: "sd = (source, data)" by fastforce
    let ?r = "r\<lparr>rt_transport := t\<rparr>"
    let ?r' = "validate_and_dispatch env source data now_ms ?r"
    have r: "rt_wf (en_cfg env) ?r" "pending (rt_requests ?r) i = Some e" using Suc.prems by simp_all
    have r': "rt_wf (en_cfg env) ?r'" by (rule rt_wf_validate_and_dispatch [OF assms r(1)])
    note F = frame_settles [OF r refl, of source data now_ms]
    show ?thesis
    proof (cases "answers_call (en_cfg env) i (source, data, ?r)")
      case True
      then have s: "pending (rt_requests ?r') i = None"
        "replies ?r' = replies r @ call_done e (hdr_return_code (deserialize data)) (Some (frame_payload data))"
        using F(1) by simp_all
      then obtain os where d: "pending (rt_requests (drain env now_ms n ?r')) i = None"
          "replies (drain env now_ms n ?r') = replies ?r' @ os"
        using settled.drain [of env ?r' i "replies ?r'" now_ms n] rt_wf_parts(8) [OF r'] by auto
      show ?thesis
        using True d s(2) append_Nil [symmetric]
        by (simp add: poll Some sd del: answers_call.simps) blast
    next
      case False
      then obtain os where os: "pending (rt_requests ?r') i = Some e" "replies ?r' = replies r @ os" using F(2) by auto
      note IH = Suc.IH [OF r' os(1)]
      have step: "arrivals env now_ms (Suc n) r = (source, data, ?r) # arrivals env now_ms n ?r'"
        "drain env now_ms (Suc n) r = drain env now_ms n ?r'" by (simp_all add: poll Some sd)
      show ?thesis
      proof (cases "find (answers_call (en_cfg env) i) (arrivals env now_ms n ?r')")
        case None
        then show ?thesis unfolding step using IH False os(2) by (auto simp del: answers_call.simps)
      next
        case (Some g)
        obtain a d s where g: "g = (a, d, s)" by (metis surj_pair)
        then obtain o1 o2 where "replies (drain env now_ms n ?r') =
            replies r @ (os @ o1) @ call_done e (hdr_return_code (deserialize d)) (Some (frame_payload d)) @ o2"
          using IH Some os(2) by auto
        then show ?thesis unfolding step using IH False Some g by (auto simp del: answers_call.simps append_assoc)
      qed
    qed
  qed
qed simp

lemma evict_settles:
  assumes "tracker_wf (en_cfg env) (rt_requests r)" "pending (rt_requests r) i = Some e"
    and "time_after now_ms (pr_deadline_ms e)"
  shows "\<exists>os os'. replies (rt_evict_requests env now_ms r) = replies r @ os @ call_done e E_TIMEOUT None @ os'"
proof -
  define ev where "ev = evict_expired_requests (en_cfg env) (Some (rt_logger r)) now_ms (rt_requests r)"
  have "e \<in> set (filter (request_expired now_ms) (actives (rt_requests r)))"
    using assms by (auto simp: pending_Some [OF assms(1)] request_expired_def actives_def)
  then obtain xs ys where x: "filter (request_expired now_ms) (actives (rt_requests r)) = xs @ e # ys"
    by (meson split_list)
  let ?done = "\<lambda>es. concat (map (\<lambda>e. call_done e E_TIMEOUT None) es)"
  have keep: "filter is_reply (?done es) = ?done es" for es by (induction es) simp_all
  have "filter is_reply (snd ev) = ?done (xs @ e # ys)"
    using evict_expired_requests_exact(2) [OF assms(1), of "Some (rt_logger r)" now_ms] replies_of_visible [of "snd ev"] keep
    by (simp only: ev_def [symmetric] x)
  then have "replies (rt_evict_requests env now_ms r) = replies r @ ?done xs @ call_done e E_TIMEOUT None @ ?done ys"
    by (simp add: rt_evict_requests_def ev_def case_prod_beta)
  then show ?thesis by blast
qed

lemma evict_appends: "\<exists>os. replies (rt_evict_requests env now_ms r) = replies r @ os"
  by (simp add: rt_evict_requests_def case_prod_beta)

lemma process_settles:
  assumes env: "env_ok env" and wf: "rt_wf (en_cfg env) r" and e: "pending (rt_requests r) i = Some e"
    and late: "time_after now_ms (pr_deadline_ms e)"
    and res: "settlement (en_cfg env) i (arrivals env now_ms (MaxReceiveQueueSize (en_cfg env)) (track_uptime now_ms r)) = (rc, p)"
  shows "pending (rt_requests (process env now_ms r)) i = None"
    and "\<exists>os os'. replies (process env now_ms r) = replies r @ os @ call_done e rc p @ os'"
proof -
  show "pending (rt_requests (process env now_ms r)) i = None"
    using process_settles_expired [OF rt_wf_parts(8) [OF wf] e late] by simp
  let ?n = "MaxReceiveQueueSize (en_cfg env)" and ?r = "track_uptime now_ms r"
  define r1 where "r1 = drain env now_ms ?n ?r"
  have "replies (process env now_ms r) = replies (rt_evict_requests env now_ms r1)"
    by (simp add: process_def Let_def r1_def)
  moreover have "\<exists>os os'. replies (rt_evict_requests env now_ms r1) = replies r @ os @ call_done e rc p @ os'"
  proof (cases "find (answers_call (en_cfg env) i) (arrivals env now_ms ?n ?r)")
    case None
    then have "rc = E_TIMEOUT" "p = None" using res by (simp_all add: settlement_def)
    moreover obtain os where os: "pending (rt_requests r1) i = Some e" "replies r1 = replies r @ os"
      using drain_settles [OF env, of ?r i e now_ms ?n] wf e None by (auto simp: r1_def)
    moreover have "tracker_wf (en_cfg env) (rt_requests r1)"
      unfolding r1_def using wf by (intro rt_wf_parts(8) rt_wf_drain env) simp
    ultimately show ?thesis using evict_settles [of env r1 i e now_ms] late by (metis append.assoc)
  next
    case (Some f)
    obtain source data s where f: "f = (source, data, s)" by (metis surj_pair)
    then have "rc = hdr_return_code (deserialize data)" "p = Some (frame_payload data)"
      using res Some by (simp_all add: settlement_def)
    then obtain os os' where "replies r1 = replies r @ os @ call_done e rc p @ os'"
      using drain_settles [OF env, of ?r i e now_ms ?n] wf e Some f by (auto simp: r1_def)
    then show ?thesis using evict_appends [of env now_ms r1] by (metis append.assoc)
  qed
  ultimately show "\<exists>os os'. replies (process env now_ms r) = replies r @ os @ call_done e rc p @ os'" by simp
qed

end
