(* ===== verification/Runtime_Properties.thy ===== *)
theory Runtime_Properties
  imports Sent_Frames
begin

text \<open>
  The properties of the runtime: its invariant, the exactness of the validation pipeline, the way of
  a request from one runtime to the other, replies, replay and authentication, and
  two cases in which \<open>build_message\<close> is used outside its assumptions.
\<close>

section \<open>A small environment for the witnesses\<close>

definition demo_env :: "(nat, nat) env" where
  "demo_env = \<lparr> en_cfg = EmbeddedConfig, impl_send = (\<lambda>a d t. (True, t + 1)),
     impl_broadcast = (\<lambda>d t. (True, t + 1)), impl_poll = (\<lambda>t. (None, t)),
     app_is_ready = (\<lambda>n a. True), app_on_request = (\<lambda>n mid p resp rlen a. (E_OK, resp, 4, a + 1)) \<rparr>"

lemma demo_env_ok: "env_ok demo_env"
  by (simp add: env_ok_def service_contract_def demo_env_def) (simp add: EmbeddedConfig_def)

lemma demo_cfg [simp]: "en_cfg demo_env = EmbeddedConfig"
  by (simp add: demo_env_def)

definition demo_rt :: "(nat, nat) runtime" where
  "demo_rt = runtime_init demo_env 0 0 7"

lemma demo_wf [simp]: "rt_wf EmbeddedConfig demo_rt"
  using rt_wf_init [of demo_env 0 0 7] by (simp add: demo_rt_def)

section \<open>The invariant\<close>

text \<open>C1: In every reachable state of a runtime all tables are well-formed (no duplicate keys, no
  more entries than the configuration allows, unique request ids) and the buffers keep their size,
  whatever the transport delivers and the services answer, as long as a service writes inside the
  response buffer.\<close>

theorem runtime_invariant:
  assumes "env_ok env" "rt_reach env r"
  shows "rt_wf (en_cfg env) r"
  using assms by (rule rt_reach_wf)

theorem runtime_invariant_witness:
  "rt_wf EmbeddedConfig (rt_apply demo_env (Do_Find 0x1000 1 50) (runtime_init demo_env 0 0 7))"
  using runtime_invariant [OF demo_env_ok rt_step [OF rt_start [of demo_env 0 0 7], of "Do_Find 0x1000 1 50"]]
  by (simp del: rt_apply.simps)

section \<open>The validation pipeline\<close>

text \<open>C2: The pipeline dispatches exactly the accepted frames: for an accepted frame it calls the
  dispatcher with the decoded header and payload, in a state that differs only in the peer table, the
  counters and the notices; any other frame has no effect beyond those.\<close>

theorem pipeline_dispatches_accepted:
  assumes "rt_wf (en_cfg env) r"
  shows "if accepted (en_cfg env) source data r
    then \<exists>r'. only_noted r r' \<and> rt_wf (en_cfg env) r' \<and>
      validate_and_dispatch env source data now_ms r =
        dispatch_message env source (deserialize data) (frame_payload data) now_ms r'
    else only_noted r (validate_and_dispatch env source data now_ms r)"
  using assms by (rule pipeline)

theorem pipeline_dispatches_accepted_witness:
  "only_noted demo_rt (validate_and_dispatch demo_env [1] [1, 2, 3] 5 demo_rt)"
  using pipeline_dispatches_accepted [of demo_env demo_rt "[1]" "[1, 2, 3]" 5]
  by (simp add: accepted_def wire_ok_def)

text \<open>The checks of steps 1 to 7 in their order, each with the counter of its failure.\<close>

definition wire_checks :: "config \<Rightarrow> bytes \<Rightarrow> (bool \<times> DiagnosticCounter) list" where
  "wire_checks cfg data =
     (let hdr = deserialize data in
      [(MIN_MESSAGE_SIZE \<le> length data, DroppedMessages),
       (crc16_verify data, CrcErrors),
       (hdr_version hdr = PROTOCOL_VERSION, VersionMismatches),
       (unat (hdr_payload_length hdr) \<le> MaxPayloadSize cfg, OversizedPayloads),
       (expected_size hdr \<le> length data, DroppedMessages),
       (is_valid_message_type (hdr_message_type hdr), UnknownMessageTypes),
       (validate_type_id_consistency hdr, TypeIdMismatches),
       (validate_client_id hdr, DroppedMessages)])"

definition wire_fault :: "config \<Rightarrow> bytes \<Rightarrow> DiagnosticCounter option" where
  "wire_fault cfg data = map_option snd (find (\<lambda>check. \<not> fst check) (wire_checks cfg data))"

lemma counted:
  assumes "counters_wf (rt_diag r)"
  shows "counter_get c' (rt_diag (rt_warn env cat tag s m i x (diag_increment c h r))) =
      (if c' = c then sat_inc (counter_get c (rt_diag r)) else counter_get c' (rt_diag r))"
    and "counter_get c' (rt_diag (rt_error env cat tag s m i x (diag_increment c h r))) =
      (if c' = c then sat_inc (counter_get c (rt_diag r)) else counter_get c' (rt_diag r))"
  using assms by (simp_all add: rt_warn_def rt_error_def emit_def diag_increment_def case_prod_beta
      counter_get_increment)

text \<open>A chain of eight early returns, and the first check that fails.\<close>

lemma first_fault:
  assumes "map_option snd (find (\<lambda>check. \<not> fst check)
      [(p1, c1), (p2, c2), (p3, c3), (p4, c4), (p5, c5), (p6, c6), (p7, c7), (p8, c8)]) = Some c"
    and "Q c1 x1" "Q c2 x2" "Q c3 x3" "Q c4 x4" "Q c5 x5" "Q c6 x6" "Q c7 x7" "Q c8 x8"
  shows "Q c (if \<not> p1 then x1 else if \<not> p2 then x2 else if \<not> p3 then x3 else if \<not> p4 then x4
    else if \<not> p5 then x5 else if \<not> p6 then x6 else if \<not> p7 then x7 else if \<not> p8 then x8 else y)"
  using assms by (simp split: if_splits)

text \<open>C15: A frame that fails one of the checks of steps 1 to 7 is discarded and counted: the counter
  of the first failing check goes up by one (saturating), the other counters and the peer
  table stay as they are, and nothing else happens.\<close>

theorem wire_fault_counted:
  assumes "rt_wf (en_cfg env) r" "wire_fault (en_cfg env) data = Some c"
    and "r' = validate_and_dispatch env source data now_ms r"
  shows "only_noted r r' \<and> rt_e2e r' = rt_e2e r \<and>
    (\<forall>c'. counter_get c' (rt_diag r') =
      (if c' = c then sat_inc (counter_get c (rt_diag r)) else counter_get c' (rt_diag r)))"
proof -
  note C = counted [OF rt_wf_parts(3) [OF assms(1)]]
  let ?Q = "\<lambda>c r'. only_noted r r' \<and> rt_e2e r' = rt_e2e r \<and> (\<forall>c'. counter_get c' (rt_diag r') =
      (if c' = c then sat_inc (counter_get c (rt_diag r)) else counter_get c' (rt_diag r)))"
  have Q: "?Q c (rt_warn env cat tag s m i x (diag_increment c h r))"
    "?Q c (rt_error env cat tag s m i x (diag_increment c h r))" for c cat tag s m i x h
    using only_noted_discard by (simp_all add: C)
  show ?thesis
    unfolding assms(3) validate_and_dispatch_def Let_def not_le [symmetric]
    by (rule first_fault [where Q = ?Q, OF assms(2) [unfolded wire_fault_def wire_checks_def Let_def]])
      (rule Q)+
qed

theorem wire_fault_counted_witness:
  "counter_get DroppedMessages (rt_diag (validate_and_dispatch demo_env [1] [1, 2, 3] 5 demo_rt)) = 1"
proof -
  have "wire_fault (en_cfg demo_env) [1, 2, 3] = Some DroppedMessages"
    by (simp add: wire_fault_def wire_checks_def Let_def)
  moreover have "counter_get DroppedMessages (rt_diag demo_rt) = 0"
    by (simp add: demo_rt_def runtime_init_def Let_def counter_get_def counters_init_def)
  ultimately show ?thesis
    using wire_fault_counted [of demo_env demo_rt "[1, 2, 3]" DroppedMessages _ "[1]" 5, OF _ _ refl]
    by (simp add: sat_inc_def)
qed

section \<open>Authentication and replay\<close>

text \<open>C12: A frame for a service that requires authentication, unless it carries the HMAC of its header and payload
  under the key configured for the sending peer, is not dispatched.  All that it can change is the
  peer table of the sequence check, which runs before the authentication check, and the diagnostic counters, and
  all that it can put out are log entries and counter events: the service is not called, nothing is sent, no callback of
  the application is made, the next sequence number is the same and every other part of the runtime is untouched.\<close>

theorem authentication_enforced:
  assumes "rt_wf (en_cfg env) r" "hdr = deserialize data"
    and "service_lookup (rt_dispatcher r) (hdr_service_id hdr) = Some se" "se_auth_required se"
    and "hdr_service_id hdr \<noteq> SD_SERVICE_ID"
    and "\<And>k. has_auth hdr \<Longrightarrow> key_lookup (rt_auth r) source = Some k \<Longrightarrow>
      frame_mac data \<noteq> hmac_sha256_128 (ke_key k) (take HEADER_SIZE data @ frame_payload data)"
  shows "\<exists>e d os. validate_and_dispatch env source data now_ms r =
      r\<lparr>rt_e2e := e, rt_diag := d, rt_out := rt_out r @ os\<rparr> \<and>
    list_all is_notice os \<and> e2e_tx_seq e = e2e_tx_seq (rt_e2e r)"
proof -
  have "\<not> accepted (en_cfg env) source data r"
    using assms(2-6) by (auto simp: accepted_def auth_ok_def Let_def)
  then show ?thesis using pipeline [OF assms(1), of source data now_ms] by (simp add: only_noted_def)
qed

definition demo_guarded :: "(nat, nat) runtime" where
  "demo_guarded = rt_apply demo_env (Do_Register_Service 0x1000 0 1 0 True) demo_rt"

lemma demo_guarded_wf: "rt_wf EmbeddedConfig demo_guarded"
  using rt_wf_apply [OF demo_env_ok, of demo_rt "Do_Register_Service 0x1000 0 1 0 True"]
  by (simp add: demo_guarded_def del: rt_apply.simps)

lemma demo_guarded_service:
  "service_lookup (rt_dispatcher demo_guarded) 0x1000 =
     Some (make_service_entry 0x1000 (AppCtx 0) 1 0 True)"
  by code_simp

theorem authentication_enforced_witness:
  "rt_app (validate_and_dispatch demo_env [1]
     (serialize (default_header\<lparr>hdr_service_id := 0x1000, hdr_client_id := 5\<rparr>) @ [0, 0]) 5 demo_guarded) = rt_app demo_guarded"
proof -
  let ?h = "default_header\<lparr>hdr_service_id := 0x1000, hdr_client_id := 5\<rparr>"
  have h: "deserialize (serialize ?h @ [0, 0]) = ?h" by (rule deserialize_serialize_append)
  have i: "hdr_service_id ?h = 0x1000" "\<not> has_auth ?h" "se_auth_required (make_service_entry 0x1000 (AppCtx 0) 1 0 True)"
    by (simp_all add: default_header_def has_auth_def make_service_entry_def)
  show ?thesis
    using authentication_enforced [of demo_env demo_guarded ?h "serialize ?h @ [0, 0]" _ "[1]" 5]
      demo_guarded_wf demo_guarded_service h i by (auto simp: SD_SERVICE_ID_def)
qed

lemma check_auth_e2e: "rt_e2e (snd (check_auth env source data hdr r)) = rt_e2e r"
  by (simp add: check_auth_def Let_def case_prod_beta split: option.split)

lemma check_sequence_e2e:
  "hdr_service_id hdr \<noteq> SD_SERVICE_ID \<Longrightarrow>
   rt_e2e (snd (check_sequence env source data hdr r)) =
     e2e_put (en_cfg env) (hdr_sequence_counter hdr) source (rt_e2e r)"
  using validate_sequence_state(1) [of "en_cfg env" "Some (rt_logger r)" source "hdr_sequence_counter hdr" "rt_e2e r"]
  by (cases "fst (validate_sequence (en_cfg env) (Some (rt_logger r)) source (hdr_sequence_counter hdr) (rt_e2e r))")
    (simp_all add: check_sequence_def rt_validate_seq_def case_prod_beta)

lemma validated_peers:
  assumes "wire_ok (en_cfg env) data" "hdr_service_id (deserialize data) \<noteq> SD_SERVICE_ID"
  shows "e2e_peers (rt_e2e (validate_and_dispatch env source data now_ms r)) =
    e2e_peers (e2e_put (en_cfg env) (hdr_sequence_counter (deserialize data)) source (rt_e2e r))"
  unfolding wire_ok_steps [where source = source and r = r and now_ms = now_ms, OF assms(1) refl refl refl]
  using assms(2) by (simp add: dispatch_keeps_peers check_auth_e2e check_sequence_e2e)

text \<open>Once the sequence check has let a frame of a tracked or trackable peer pass, the same frame
  from the same peer is discarded when it comes next, whatever became of it the first time: it
  is not accepted and has no effect beyond notices.\<close>

theorem replayed_frame_discarded:
  assumes "env_ok env" "rt_wf (en_cfg env) r" "hdr_service_id (deserialize data) \<noteq> SD_SERVICE_ID"
    and "wire_ok (en_cfg env) data"
    and "fst (validate_sequence (en_cfg env) None source (hdr_sequence_counter (deserialize data)) (rt_e2e r))
      \<in> {Accept, FirstSeen}"
    and "r1 = validate_and_dispatch env source data t1 r"
  shows "\<not> accepted (en_cfg env) source data r1 \<and>
    only_noted r1 (validate_and_dispatch env source data t2 r1)"
proof -
  have wf1: "rt_wf (en_cfg env) r1"
    unfolding assms(6) using assms(1,2) by (rule rt_wf_validate_and_dispatch)
  have "last_seen (rt_e2e r1) source = Some (hdr_sequence_counter (deserialize data))"
    using last_seen_put_same [OF rt_wf_parts(1) [OF assms(2)] assms(5)] validated_peers [OF assms(4,3), of source t1 r]
    by (simp add: assms(6) last_seen_def peer_entry_def)
  then have "\<not> accepted (en_cfg env) source data r1"
    using assms(3) by (simp add: accepted_def seq_ok_def)
  then show ?thesis using pipeline [OF wf1, of source data t2] by simp
qed

text \<open>A well-formed frame for the witnesses: a request without payload.\<close>

definition demo_header :: MessageHeader where
  "demo_header = default_header\<lparr>hdr_service_id := 0x1000, hdr_method_event_id := 3, hdr_client_id := 5\<rparr>"

definition demo_frame :: bytes where
  "demo_frame = frame_of (auth_init EmbeddedConfig) demo_header [] False [1]"

lemma demo_frame_wire: "wire_ok EmbeddedConfig demo_frame" "deserialize demo_frame = demo_header"
proof -
  show h: "deserialize demo_frame = demo_header" by (simp add: demo_frame_def frame_of_header)
  show "wire_ok EmbeddedConfig demo_frame"
    unfolding wire_ok_def Let_def h
    by (simp add: demo_frame_def frame_of_crc length_frame_of)
      (simp add: demo_header_def default_header_def expected_size_def has_auth_def is_valid_message_type_def
        validate_type_id_consistency_def validate_client_id_def message_type_of_def is_method_id_def)
qed

theorem replayed_frame_discarded_witness:
  "\<not> accepted EmbeddedConfig [1] demo_frame (validate_and_dispatch demo_env [1] demo_frame 5 demo_rt)"
proof -
  have "fst (validate_sequence EmbeddedConfig None [1] 0 (rt_e2e demo_rt)) = FirstSeen" by code_simp
  then show ?thesis
    using replayed_frame_discarded [OF demo_env_ok, of demo_rt demo_frame "[1]" _ 5, OF _ _ _ _ refl] demo_frame_wire
    by (simp add: demo_header_def default_header_def SD_SERVICE_ID_def)
qed

section \<open>From the caller to the service and back\<close>

lemma request_reaches:
  assumes "env_ok env" "rt_wf (en_cfg env) s" "sendable (en_cfg env) p n"
    and req: "request_impl env target sid mid p n cb ctx timeout now_ms s = (Some i, s')"
    and id: "sid \<noteq> SD_SERVICE_ID" "is_method_id mid" "rt_client_id s \<noteq> 0"
    and r: "rt_wf (en_cfg renv) r" "n \<le> MaxPayloadSize (en_cfg renv)" "MaxPayloadSize (en_cfg renv) < 2 ^ 32"
    and keys: "keys_agree (rt_auth s) target (rt_auth r) source"
      "has_key target (rt_auth s) \<or>
       (\<forall>se. service_lookup (rt_dispatcher r) sid = Some se \<longrightarrow> \<not> se_auth_required se)"
    and sq: "seq_verdict (en_cfg renv) (used (e2e_peers (rt_e2e r)) < MaxTrackedPeers (en_cfg renv))
      (last_seen (rt_e2e r) source) (e2e_tx_seq (rt_e2e s)) \<in> {Accept, FirstSeen, TableFull}"
  shows "\<exists>f. sent s' = sent s @ [(target, f)] \<and>
    pending (rt_requests s) i = None \<and>
    pending (rt_requests s') = (pending (rt_requests s))
      (i \<mapsto> new_pending (en_cfg env) sid mid timeout now_ms cb ctx i) \<and>
    e2e_tx_seq (rt_e2e s') = e2e_tx_seq (rt_e2e s) + 1 \<and>
    (\<exists>r'. only_noted r r' \<and> rt_wf (en_cfg renv) r' \<and>
      validate_and_dispatch renv source f rx_ms r =
        handle_request renv source (request_header target sid mid n i s) (payload_bytes p n) r')"
proof -
  let ?pl = "payload_bytes p n" and ?hdr = "request_header target sid mid n i s"
  let ?f = "request_frame target sid mid ?pl i s"
  have len: "length ?pl = n" by (rule length_payload_bytes [OF assms(3)])
  have f: "?f = frame_of (rt_auth s) ?hdr ?pl (has_key target (rt_auth s)) target"
    by (simp add: request_frame_def len)
  have hs: "hdr_service_id ?hdr = sid" "hdr_message_type ?hdr = message_type_code REQUEST"
    "hdr_payload_length ?hdr = of_nat n" "hdr_sequence_counter ?hdr = e2e_tx_seq (rt_e2e s)"
    by (simp_all add: request_header_def make_request_header_def)
  have "message_type_of 0 = Some REQUEST" by (simp add: message_type_of_def)
  then have h: "header_ok ?hdr" "has_auth ?hdr \<longleftrightarrow> has_key target (rt_auth s)"
    using id by (simp_all add: header_ok_def request_header_def make_request_header_def has_auth_def FLAG_AUTH_def
        validate_type_id_consistency_def validate_client_id_def is_valid_message_type_def)
  have "deserialize ?f = ?hdr" by (simp add: f frame_of_header)
  then have sk: "seq_ok (en_cfg renv) source ?f r" using sq by (simp add: seq_ok_def hs)
  have svc: "has_key target (rt_auth s) \<or> hdr_service_id ?hdr = SD_SERVICE_ID \<or>
      (\<forall>se. service_lookup (rt_dispatcher r) (hdr_service_id ?hdr) = Some se \<longrightarrow> \<not> se_auth_required se)"
    using keys(2) by (auto simp: hs)
  note B = built_frame_accepted [OF rt_wf_parts(2) [OF assms(2)] rt_wf_parts(2) [OF r(1)]
      keys(1) h _ _ r(3) f sk svc]
  have acc: "accepted (en_cfg renv) source ?f r" "deserialize ?f = ?hdr" "frame_payload ?f = ?pl"
    using B r(2) by (simp_all add: len hs)
  then obtain r' where "only_noted r r'" "rt_wf (en_cfg renv) r'"
    "validate_and_dispatch renv source ?f rx_ms r = dispatch_message renv source ?hdr ?pl rx_ms r'"
    using pipeline [OF r(1), of source ?f rx_ms] by auto
  moreover have "dispatch_message renv source ?hdr ?pl rx_ms r' = handle_request renv source ?hdr ?pl r'" for r'
    using id(1) by (simp add: dispatch_message_def hs message_type_of_def)
  ultimately show ?thesis using request_succeeded [OF assms(1-4)] by auto
qed

text \<open>C6: A request for which the caller gets an id reaches the service side: one frame is handed to
  the transport, the id is fresh and now pending, the sequence counter has advanced by one, and
  any runtime that receives the frame (with room for the payload, the same key for the peer or no
  key and no demand for one, and a sequence counter it accepts) handles exactly this request,
  with its header and payload.\<close>

theorem request_reaches_service:
  assumes "env_ok env" "rt_wf (en_cfg env) s" "sendable (en_cfg env) p n"
    and req: "request_impl env target sid mid p n cb ctx timeout now_ms s = (Some i, s')"
    and id: "sid \<noteq> SD_SERVICE_ID" "is_method_id mid" "rt_client_id s \<noteq> 0"
    and r: "rt_wf (en_cfg renv) r" "n \<le> MaxPayloadSize (en_cfg renv)" "MaxPayloadSize (en_cfg renv) < 2 ^ 32"
    and keys: "keys_agree (rt_auth s) target (rt_auth r) source"
      "has_key target (rt_auth s) \<or>
       (\<forall>se. service_lookup (rt_dispatcher r) sid = Some se \<longrightarrow> \<not> se_auth_required se)"
    and sq: "seq_verdict (en_cfg renv) (used (e2e_peers (rt_e2e r)) < MaxTrackedPeers (en_cfg renv))
      (last_seen (rt_e2e r) source) (e2e_tx_seq (rt_e2e s)) \<in> {Accept, FirstSeen, TableFull}"
  shows "\<exists>f. sent s' = sent s @ [(target, f)] \<and>
    pending (rt_requests s) i = None \<and>
    pending (rt_requests s') = (pending (rt_requests s))
      (i \<mapsto> new_pending (en_cfg env) sid mid timeout now_ms cb ctx i) \<and>
    e2e_tx_seq (rt_e2e s') = e2e_tx_seq (rt_e2e s) + 1 \<and>
    (\<exists>r'. only_noted r r' \<and> rt_wf (en_cfg renv) r' \<and>
      validate_and_dispatch renv source f rx_ms r =
        handle_request renv source (request_header target sid mid n i s) (payload_bytes p n) r')"
  by (rule request_reaches [OF assms])

theorem request_reaches_service_witness:
  "\<exists>f r'. sent (snd (request_impl demo_env [1] 0x1000 3 None 0 None 0 100 5 demo_rt)) = [([1], f)] \<and>
     only_noted demo_rt r' \<and> validate_and_dispatch demo_env [2] f 6 demo_rt =
       handle_request demo_env [2] (request_header [1] 0x1000 3 0 1 demo_rt) [] r'"
proof -
  let ?a = "allocate EmbeddedConfig (Some (rt_logger demo_rt)) 0x1000 3 100 5 None 0 (rt_requests demo_rt)"
  obtain rid reqs out where a: "?a = (rid, reqs, out)" using prod_cases3 by blast
  have "fst ?a = Some 1" by code_simp
  then have a: "?a = (Some 1, reqs, out)" using a by simp
  have m: "MaxPendingRequests EmbeddedConfig \<le> 2 ^ 32" "MaxPayloadSize EmbeddedConfig < 2 ^ 32"
    by (simp_all add: EmbeddedConfig_def)
  have p: "sendable EmbeddedConfig None 0" by (simp add: sendable_def)
  have "fst (request_impl demo_env [1] 0x1000 3 None 0 None 0 100 5 demo_rt) = Some 1"
    using request_impl_sent(1) [where env = demo_env and r = demo_rt and p = None and n = 0 and sid = "0x1000"
        and mid = 3 and timeout = 100 and now_ms = 5 and cb = None and ctx = 0 and i = 1 and reqs = reqs
        and out = out and target = "[1]", OF _ _ _ _ refl] a p allocate_Some(2) [OF rt_wf_parts(8) [OF demo_wf] m(1) a] by (simp add: demo_env_def)
  then obtain s' where s': "request_impl demo_env [1] 0x1000 3 None 0 None 0 100 5 demo_rt = (Some 1, s')"
    by (metis prod.collapse)
  have k: "keys_agree (rt_auth demo_rt) [1] (rt_auth demo_rt) [2]" "service_lookup (rt_dispatcher demo_rt) 0x1000 = None"
    by code_simp+
  have v: "seq_verdict EmbeddedConfig (used (e2e_peers (rt_e2e demo_rt)) < MaxTrackedPeers EmbeddedConfig)
      (last_seen (rt_e2e demo_rt) [2]) (e2e_tx_seq (rt_e2e demo_rt)) = FirstSeen" by code_simp
  have c: "rt_client_id demo_rt = 7" by (simp add: demo_rt_def runtime_init_def Let_def)
  have "sent demo_rt = []" by (simp add: demo_rt_def runtime_init_def Let_def sent_def)
  then show ?thesis
    using request_reaches_service [OF demo_env_ok, where s = demo_rt and p = None and n = 0 and target = "[1]"
        and sid = "0x1000" and mid = 3 and timeout = 100 and now_ms = 5 and cb = None and ctx = 0 and i = 1
        and s' = s' and renv = demo_env and r = demo_rt and source = "[2]" and rx_ms = 6] s' p m(2) k v c
    by (auto simp: SD_SERVICE_ID_def is_method_id_def payload_bytes_def)
qed

text \<open>C7: A request is answered once: handling it hands exactly one frame to the transport, addressed
  to the peer it came from, with a valid checksum and the request's id, service, method and client,
  which is a response with the bytes the service wrote when the result is \<open>E_OK\<close>, and an empty
  error message with the result code otherwise.\<close>

theorem request_answered_once:
  assumes "env_ok env" "rt_wf (en_cfg env) r" "MaxPayloadSize (en_cfg env) < 2 ^ 32"
    and "dispatch_result env hdr payload r = (rc, Some buf, n, r1)"
    and "rc = E_OK \<longrightarrow> n \<le> MaxPayloadSize (en_cfg env)"
  shows "\<exists>f. sent (handle_request env source hdr payload r) = sent r @ [(source, f)] \<and>
    crc16_verify f \<and> hdr_request_id (deserialize f) = hdr_request_id hdr \<and>
    hdr_service_id (deserialize f) = hdr_service_id hdr \<and>
    hdr_method_event_id (deserialize f) = hdr_method_event_id hdr \<and>
    hdr_client_id (deserialize f) = hdr_client_id hdr \<and> hdr_return_code (deserialize f) = rc \<and>
    message_type_of (hdr_message_type (deserialize f)) = Some (if rc = E_OK then RESPONSE else ERROR) \<and>
    frame_payload f = (if rc = E_OK then take n buf else [])"
proof -
  let ?m = "if rc = E_OK then n else 0" and ?pl = "if rc = E_OK then take n buf else []"
  let ?hdr = "reply_header source hdr rc ?m r"
  let ?f = "frame_of (rt_auth r) ?hdr ?pl (has_key source (rt_auth r)) source"
  have n: "rc = E_OK \<Longrightarrow> n \<le> MaxPayloadSize (en_cfg env)" using assms(5) by simp
  have len: "length ?pl = ?m" using n dispatch_result_shape(1) [OF assms(1,2,4)] by simp
  have "?m < 2 ^ 32" using n assms(3) by (auto intro: le_less_trans)
  then have u: "unat (of_nat ?m :: u32) = ?m" by (rule unat_of_nat_u32)
  have h: "deserialize ?f = ?hdr" by (rule frame_of_header)
  have "hdr_payload_length ?hdr = of_nat ?m" by (simp add: reply_header_def)
  then have "unat (hdr_payload_length (deserialize ?f)) = length ?pl" unfolding h len using u by simp
  then have "frame_payload ?f = ?pl"
    unfolding frame_payload_def by (simp only: HEADER_SIZE_def frame_of_parts(2))
  moreover have "crc16_verify ?f" by (rule frame_of_crc)
  moreover have "hdr_request_id ?hdr = hdr_request_id hdr" "hdr_service_id ?hdr = hdr_service_id hdr"
    "hdr_method_event_id ?hdr = hdr_method_event_id hdr" "hdr_client_id ?hdr = hdr_client_id hdr"
    "hdr_return_code ?hdr = rc"
    "message_type_of (hdr_message_type ?hdr) = Some (if rc = E_OK then RESPONSE else ERROR)"
    by (simp_all add: reply_header_def message_type_of_def)
  ultimately show ?thesis
    using handle_request_sent [OF assms(1,2,4) n, of source]
    by (intro exI [of _ ?f] conjI) (simp_all only: h)
qed

theorem request_answered_once_witness:
  "\<exists>f. sent (handle_request demo_env [1] demo_header [] demo_rt) = sent demo_rt @ [([1], f)] \<and>
     hdr_return_code (deserialize f) = E_UNKNOWN_SERVICE \<and> frame_payload f = []"
proof -
  have "find_service_entry 0x1000 (rt_dispatcher demo_rt) = None" by code_simp
  then obtain r1 where d: "dispatch_result demo_env demo_header [] demo_rt =
      (E_UNKNOWN_SERVICE, Some (rt_response_buffer demo_rt), 256, r1)"
    by (auto simp: dispatch_result_def Let_def dispatch_def demo_header_def rt_info_def)
      (simp add: EmbeddedConfig_def)
  have "MaxPayloadSize EmbeddedConfig < 2 ^ 32" by (simp add: EmbeddedConfig_def)
  then show ?thesis
    using request_answered_once [OF demo_env_ok _ _ d, of "[1]"]
    by (auto simp: E_UNKNOWN_SERVICE_def E_OK_def)
qed

section \<open>Where \<open>build_message\<close> is used outside its assumptions\<close>

text \<open>A request whose payload is larger than \<open>MaxPayloadSize\<close> is not refused: nothing is built,
  an empty datagram is handed to the transport, and when that accepts it the caller gets the id of
  a pending request that nobody will answer.\<close>

theorem oversized_request_sends_nothing:
  assumes "n > MaxPayloadSize (en_cfg env)"
    and "allocate (en_cfg env) (Some (rt_logger r)) sid mid timeout now_ms cb ctx (rt_requests r) =
      (Some i, reqs, out)"
    and "fst (impl_send env target [] (rt_transport r))"
  shows "fst (request_impl env target sid mid p n cb ctx timeout now_ms r) = Some i \<and>
    sent (snd (request_impl env target sid mid p n cb ctx timeout now_ms r)) = sent r @ [(target, [])]"
proof -
  have b: "build_message (en_cfg env) h p n auth a r2 = (0, r2)" for h auth a and r2 :: "('a, 'b) runtime"
    using assms(1) by (simp add: build_message_def)
  have "sent_frames out = []"
    using allocate_noted [of "en_cfg env" "Some (rt_logger r)" sid mid timeout now_ms cb ctx "rt_requests r"]
      assms(2) by simp
  then show ?thesis
    using assms(3) unfolding request_impl_def Let_def assms(2) prod.case option.case b
    by (simp add: case_prod_beta sent_rt_send) (simp add: rt_send_def Let_def case_prod_beta transport_send_def)
qed

theorem oversized_request_sends_nothing_witness:
  "fst (request_impl demo_env [1] 0x1000 3 None 300 None 0 100 5 demo_rt) = Some 1"
proof -
  let ?a = "allocate EmbeddedConfig (Some (rt_logger demo_rt)) 0x1000 3 100 5 None 0 (rt_requests demo_rt)"
  obtain rid reqs out where a: "?a = (rid, reqs, out)" using prod_cases3 by blast
  have "fst ?a = Some 1" by code_simp
  then have "?a = (Some 1, reqs, out)" using a by simp
  then show ?thesis
    using oversized_request_sends_nothing [where env = demo_env and n = 300 and r = demo_rt and sid = "0x1000"
        and mid = 3 and timeout = 100 and now_ms = 5 and cb = None and ctx = 0 and i = 1 and reqs = reqs
        and out = out and target = "[1]" and p = None]
    by (simp add: demo_env_def) (simp add: EmbeddedConfig_def)
qed

text \<open>A null payload pointer with a length is not refused either: the frame then carries the bytes
  an earlier message left in the transmit buffer, under a valid checksum.\<close>

theorem null_payload_sends_stale_bytes:
  assumes "length (rt_tx_buffer r) = MAX_MSG_SIZE cfg" "n \<le> MaxPayloadSize cfg"
    and "build_message cfg hdr None n False peer r = (k, r')"
  shows "crc16_verify (take k (rt_tx_buffer r')) \<and>
    take n (drop HEADER_SIZE (take k (rt_tx_buffer r'))) = take n (drop HEADER_SIZE (rt_tx_buffer r))"
proof -
  let ?tx = "blit 0 (serialize hdr) (rt_tx_buffer r)"
  have k: "k = 20 + n + 2" and b: "rt_tx_buffer r' = crc16_append ?tx (20 + n)"
    using assms(2,3) by (auto simp: build_message_def)
  have l: "20 + n + 2 \<le> length ?tx" using assms(1,2) by (simp add: MAX_MSG_SIZE_def)
  have t: "take k (rt_tx_buffer r') = take (20 + n) ?tx @ crc_trailer (crc16_compute (take (20 + n) ?tx))"
    unfolding k b by (rule crc16_append_take [OF l])
  have "take n (drop 20 (take (20 + n) ?tx)) = take n (drop 20 (rt_tx_buffer r))"
    using l by (simp add: drop_take) (simp add: blit_def)
  moreover have "n \<le> length (rt_tx_buffer r) - 20" using assms(1,2) by (simp add: MAX_MSG_SIZE_def)
  ultimately show ?thesis unfolding t by (simp add: crc16_trailer_verify)
qed

theorem null_payload_sends_stale_bytes_witness:
  "take 4 (drop 20 (take 26 (rt_tx_buffer (snd (build_message EmbeddedConfig demo_header None 4 False [1]
     (demo_rt\<lparr>rt_tx_buffer := replicate 294 7\<rparr>)))))) = [7, 7, 7, 7]"
proof -
  let ?r = "demo_rt\<lparr>rt_tx_buffer := replicate 294 7\<rparr>"
  obtain k r' where b: "build_message EmbeddedConfig demo_header None 4 False [1] ?r = (k, r')"
    using prod.exhaust by blast
  then have "k = 26" by (auto simp: build_message_def EmbeddedConfig_def)
  then show ?thesis
    using null_payload_sends_stale_bytes [OF _ _ b] b
    by (simp add: MAX_MSG_SIZE_def EmbeddedConfig_def eval_nat_numeral)
qed

end
