(* ===== verification/Request_Properties.thy ===== *)
theory Request_Properties
  imports Request_Settlement Runtime_Properties
begin

text \<open>
  The properties of a request over its whole life: no callback is lost or made twice, a request is
  settled by the first process cycle after its deadline, and the reply a service sends reaches the
  callback of the request it answers.
\<close>

section \<open>No callback is lost or made twice\<close>

text \<open>C8: Whatever the application calls and the transport delivers, the completion callbacks made so
  far together with those of the requests still pending are, counted with multiplicity, exactly the
  callbacks of the requests that were issued (that found a provider and a free slot): every request is
  called back once or still open, and nothing else is ever called back.\<close>

theorem requests_balance:
  assumes "MaxPendingRequests (en_cfg env) \<le> 2 ^ 32"
    and "r0 = runtime_init env transport app client_id" "r = fold (rt_apply env) ops r0"
  shows "made_calls (rt_out r) + open_calls (rt_requests r) = issued_in env ops r0"
proof -
  have "tracker_wf (en_cfg env) (rt_requests r0)"
    by (simp add: assms(2) runtime_init_def Let_def)
  moreover have "balance r0 = {#}"
    by (simp add: assms(2) runtime_init_def Let_def balance_def replies_def open_calls_def actives_def
        tracker_init_def default_pending_def)
  ultimately have "balance r = issued_in env ops r0" using balance_run [OF assms(1)] assms(3) by simp
  then show ?thesis by (simp add: balance_def replies_def made_calls_replies)
qed

theorem requests_balance_witness:
  "made_calls (rt_out (rt_apply demo_env (Do_Request_To [1] 0x1000 3 None 0 (Some 9) 4 100 5) demo_rt)) +
     open_calls (rt_requests (rt_apply demo_env (Do_Request_To [1] 0x1000 3 None 0 (Some 9) 4 100 5) demo_rt)) =
   {#(9, 4)#}"
proof -
  have "MaxPendingRequests EmbeddedConfig \<le> 2 ^ 32" "active_count (rt_requests demo_rt) = 0"
    "0 < MaxPendingRequests EmbeddedConfig"
    by (simp_all add: EmbeddedConfig_def demo_rt_def runtime_init_def Let_def active_count_def tracker_init_def
        default_pending_def)
  then show ?thesis
    using requests_balance [of demo_env demo_rt 0 0 7 _ "[Do_Request_To [1] 0x1000 3 None 0 (Some 9) 4 100 5]"]
    by (simp add: demo_rt_def issue_def del: rt_apply.simps)
qed

section \<open>Settled by the deadline\<close>

text \<open>C9: A request does not hang: the first process cycle after its deadline leaves it settled, whatever
  arrives in that cycle.  Its slot is free and its callback has been called, with the return code and the payload of
  the first frame of the cycle that the pipeline accepts as a reply to it, or, if there is none, with
  \<open>E_TIMEOUT\<close> and no payload; and that call takes the request off the books, so that no other call in the cycle
  is made for it.\<close>

theorem request_settled_by_deadline:
  assumes "env_ok env" "rt_wf (en_cfg env) r" "pending (rt_requests r) i = Some e" "pr_callback e = Some f"
    and "time_after now_ms (pr_deadline_ms e)" "r' = process env now_ms r"
    and "settlement (en_cfg env) i (arrivals env now_ms (MaxReceiveQueueSize (en_cfg env)) (track_uptime now_ms r)) = (rc, p)"
  shows "pending (rt_requests r') i = None \<and>
    (\<exists>os os'. replies r' = replies r @ os @ [Out_Request_Done f (pr_user_ctx e) rc p] @ os' \<and>
      open_calls (rt_requests r) = add_mset (f, pr_user_ctx e) (made_calls (os @ os') + open_calls (rt_requests r')))"
proof -
  have c: "call_done e rc p = [Out_Request_Done f (pr_user_ctx e) rc p]" using assms(4) by (simp add: call_done_def)
  obtain os os' where os: "replies r' = replies r @ os @ [Out_Request_Done f (pr_user_ctx e) rc p] @ os'"
    using process_settles(2) [OF assms(1-3,5,7)] unfolding assms(6) c by blast
  have "balance r' = balance r"
    using balanced.process [of env r "balance r" now_ms] rt_wf_parts(8) [OF assms(2)] by (simp add: assms(6))
  then have "open_calls (rt_requests r) = add_mset (f, pr_user_ctx e) (made_calls (os @ os') + open_calls (rt_requests r'))"
    by (simp add: balance_def os ac_simps)
  then show ?thesis using os process_settles(1) [OF assms(1-3,5,7)] assms(6) by blast
qed

definition demo_waiting :: "(nat, nat) runtime" where
  "demo_waiting = demo_rt\<lparr>rt_requests :=
     fst (snd (allocate EmbeddedConfig None 0x1000 3 100 5 (Some 9) 4 (rt_requests demo_rt)))\<rparr>"

lemma demo_waiting_facts:
  "rt_wf EmbeddedConfig demo_waiting"
  "pending (rt_requests demo_waiting) 1 = Some (new_pending EmbeddedConfig 0x1000 3 100 5 (Some 9) 4 1)"
proof -
  obtain rid t out where a: "allocate EmbeddedConfig None 0x1000 3 100 5 (Some 9) 4 (rt_requests demo_rt) = (rid, t, out)"
    using prod_cases3 by blast
  have "rid = Some 1"
  proof -
    have "fst (allocate EmbeddedConfig None 0x1000 3 100 5 (Some 9) 4 (rt_requests demo_rt)) = Some 1" by code_simp
    then show ?thesis by (simp add: a)
  qed
  then have a: "allocate EmbeddedConfig None 0x1000 3 100 5 (Some 9) 4 (rt_requests demo_rt) = (Some 1, t, out)"
    using a by simp
  have m: "MaxPendingRequests EmbeddedConfig \<le> 2 ^ 32" by (simp add: EmbeddedConfig_def)
  note n = allocate_Some [OF rt_wf_parts(8) [OF demo_wf] m a]
  show "rt_wf EmbeddedConfig demo_waiting"
    using n(2) demo_wf by (simp add: demo_waiting_def a rt_wf_set)
  show "pending (rt_requests demo_waiting) 1 = Some (new_pending EmbeddedConfig 0x1000 3 100 5 (Some 9) 4 1)"
    using n(3) by (simp add: demo_waiting_def a)
qed

theorem request_settled_by_deadline_witness:
  "pending (rt_requests (process demo_env 106 demo_waiting)) 1 = None \<and>
     Out_Request_Done 9 4 E_TIMEOUT None \<in> set (replies (process demo_env 106 demo_waiting))"
proof -
  have late: "time_after 106 (pr_deadline_ms (new_pending EmbeddedConfig 0x1000 3 100 5 (Some 9) 4 1))"
    by (simp add: new_pending_def time_after_def)
  have "arrivals demo_env 106 n r = []" for n and r :: "(nat, nat) runtime"
    by (cases n) (simp_all add: demo_env_def transport_poll_def)
  then have "settlement EmbeddedConfig 1 (arrivals demo_env 106 (MaxReceiveQueueSize EmbeddedConfig)
      (track_uptime 106 demo_waiting)) = (E_TIMEOUT, None)" by (simp add: settlement_def)
  then show ?thesis
    using request_settled_by_deadline [OF demo_env_ok, of demo_waiting 1 _ 9 106, OF _ demo_waiting_facts(2) _ late refl]
      demo_waiting_facts(1)
    by (auto simp: new_pending_def)
qed

section \<open>The way back\<close>

text \<open>What the runtime tells the application apart from log entries and counter events.\<close>

definition told :: "('t, 'a) runtime \<Rightarrow> effect list" where
  "told r = filter (\<lambda>x. \<not> is_notice x) (rt_out r)"

lemma told_noted: "only_noted r r' \<Longrightarrow> told r' = told r"
  by (auto simp: only_noted_def told_def list_all_iff)

lemma told_emit [simp]: "told (emit os r) = told r @ filter (\<lambda>x. \<not> is_notice x) os"
  by (simp add: told_def emit_def)

lemma told_steps [simp]:
  "told (rt_debug env c tag s m i x r) = told r" "told (r\<lparr>rt_requests := q\<rparr>) = told r"
  "told (r\<lparr>rt_e2e := e\<rparr>) = told r" "told (r\<lparr>rt_tx_buffer := b\<rparr>) = told r" "told (r\<lparr>rt_transport := t\<rparr>) = told r"
  using told_noted [OF only_noted_logs(1)] by (simp_all add: told_def)

lemma told_complete:
  assumes "tracker_wf (en_cfg env) (rt_requests r)"
  shows "told (rt_complete env rid rc p r) = told r @
      (case pending (rt_requests r) rid of None \<Rightarrow> [] | Some e \<Rightarrow> call_done e rc p)"
proof -
  obtain ok t' out where c: "complete (en_cfg env) (Some (rt_logger r)) rid rc p (rt_requests r) = (ok, t', out)"
    using prod_cases3 by blast
  have *: "filter (\<lambda>x. \<not> is_notice x) os = filter (\<lambda>x. \<not> is_notice x) (visible os)" for os
  proof (induction os)
    case (Cons x os)
    then show ?case by (cases x) simp_all
  qed simp
  show ?thesis
    using complete_pending(4) [OF assms c] * [of out]
    by (simp add: told_def rt_complete_def c emit_def call_done_def split: option.splits)
qed

lemma reply_reaches:
  assumes service: "env_ok env" "rt_wf (en_cfg env) r" "MaxPayloadSize (en_cfg env) < 2 ^ 32"
    and "dispatch_result env hdr payload r = (rc, Some buf, n, r1)"
    and "rc = E_OK \<longrightarrow> n \<le> MaxPayloadSize (en_cfg env)"
    and "answer = (if rc = E_OK then take n buf else [])"
    and hdr: "hdr_service_id hdr \<noteq> SD_SERVICE_ID" "is_method_id (hdr_method_event_id hdr)"
    and caller: "rt_wf (en_cfg cenv) c" "pending (rt_requests c) (hdr_request_id hdr) = Some e"
      "length answer \<le> MaxPayloadSize (en_cfg cenv)" "MaxPayloadSize (en_cfg cenv) < 2 ^ 32"
    and keys: "keys_agree (rt_auth r) source (rt_auth c) peer"
      "has_key source (rt_auth r) \<or>
       (\<forall>se. service_lookup (rt_dispatcher c) (hdr_service_id hdr) = Some se \<longrightarrow> \<not> se_auth_required se)"
    and sq: "seq_verdict (en_cfg cenv) (used (e2e_peers (rt_e2e c)) < MaxTrackedPeers (en_cfg cenv))
      (last_seen (rt_e2e c) peer) (e2e_tx_seq (rt_e2e r)) \<in> {Accept, FirstSeen, TableFull}"
  shows "\<exists>f. sent (handle_request env source hdr payload r) = sent r @ [(source, f)] \<and>
    pending (rt_requests (validate_and_dispatch cenv peer f rx_ms c)) =
      (pending (rt_requests c))(hdr_request_id hdr := None) \<and>
    replies (validate_and_dispatch cenv peer f rx_ms c) = replies c @ call_done e rc (Some answer) \<and>
    told (validate_and_dispatch cenv peer f rx_ms c) = told c @ call_done e rc (Some answer)"
proof -
  let ?m = "if rc = E_OK then n else 0"
  define H where "H = reply_header source hdr rc ?m r"
  let ?f = "frame_of (rt_auth r) H answer (has_key source (rt_auth r)) source"
  have n: "rc = E_OK \<Longrightarrow> n \<le> MaxPayloadSize (en_cfg env)" using assms(5) by simp
  have len: "length answer = ?m" using n dispatch_result_shape(1) [OF service(1,2) assms(4)] by (simp add: assms(6))
  have s: "sent (handle_request env source hdr payload r) = sent r @ [(source, ?f)]"
    using handle_request_sent [OF service(1,2) assms(4) n, of source] by (simp only: assms(6) H_def)
  have h: "header_ok H" "has_auth H \<longleftrightarrow> has_key source (rt_auth r)"
      "hdr_payload_length H = of_nat (length answer)" "hdr_service_id H = hdr_service_id hdr"
      "hdr_sequence_counter H = e2e_tx_seq (rt_e2e r)" "hdr_request_id H = hdr_request_id hdr"
      "hdr_return_code H = rc"
      "message_type_of (hdr_message_type H) = Some (if rc = E_OK then RESPONSE else ERROR)"
    using hdr(2) by (simp_all add: H_def len reply_header_def header_ok_def is_valid_message_type_def has_auth_def FLAG_AUTH_def
        validate_type_id_consistency_def validate_client_id_def message_type_of_def Let_def)
  have "deserialize ?f = H" by (rule frame_of_header)
  then have "seq_ok (en_cfg cenv) peer ?f c" using sq by (simp add: seq_ok_def h(5))
  note A = built_frame_accepted [OF rt_wf_parts(2) [OF service(2)] rt_wf_parts(2) [OF caller(1)] keys(1)
      h(1-3) caller(3,4) refl this]
  have acc: "accepted (en_cfg cenv) peer ?f c" "deserialize ?f = H" "frame_payload ?f = answer"
    using A keys(2) by (auto simp: h(4))
  then obtain c' where c': "only_noted c c'" "rt_wf (en_cfg cenv) c'"
      "validate_and_dispatch cenv peer ?f rx_ms c = dispatch_message cenv peer H answer rx_ms c'"
    using pipeline [OF caller(1), of peer ?f rx_ms] by auto
  define c2 where "c2 = (if rc = E_OK
    then rt_debug cenv CatRequests ''response_rx'' (hdr_service_id H) (hdr_method_event_id H) (hdr_client_id H)
      (hdr_request_id H) c'
    else rt_warn cenv CatRequests ''error_rx'' (hdr_service_id H) (hdr_method_event_id H) (hdr_client_id H)
      (ucast (hdr_return_code H)) c')"
  have c2: "rt_requests c2 = rt_requests c'" "replies c2 = replies c'"
      "dispatch_message cenv peer H answer rx_ms c' = rt_complete cenv (hdr_request_id hdr) rc (Some answer) c2"
    using hdr(1) by (simp_all add: dispatch_message_def h handle_response_def handle_error_def c2_def)
  have "only_noted c c2"
    using c'(1) by (auto simp: c2_def intro: only_noted_trans only_noted_logs)
  then have q: "rt_requests c2 = rt_requests c" "replies c2 = replies c" "told c2 = told c"
    using only_noted_untouched told_noted by blast+
  have wf: "tracker_wf (en_cfg cenv) (rt_requests c2)" using rt_wf_parts(8) [OF caller(1)] by (simp add: q)
  show ?thesis
    using s complete_replies(2,3) [OF wf, of "hdr_request_id hdr" rc "Some answer"]
      told_complete [OF wf, of "hdr_request_id hdr" rc "Some answer"] caller(2)
    by (intro exI [of _ ?f] conjI) (simp_all add: c'(3) c2(3) q)
qed

text \<open>C10: The reply of a service reaches the caller: the one frame that handling a request sends, when a
  runtime with that request pending receives it from the answering peer (with room for the payload,
  agreeing keys and a counter it accepts), calls the callback of that request, and no other, with the
  result code and the bytes the service wrote, and frees its slot.\<close>

theorem reply_reaches_caller:
  assumes service: "env_ok env" "rt_wf (en_cfg env) r" "MaxPayloadSize (en_cfg env) < 2 ^ 32"
    and "dispatch_result env hdr payload r = (rc, Some buf, n, r1)"
    and "rc = E_OK \<longrightarrow> n \<le> MaxPayloadSize (en_cfg env)"
    and "answer = (if rc = E_OK then take n buf else [])"
    and hdr: "hdr_service_id hdr \<noteq> SD_SERVICE_ID" "is_method_id (hdr_method_event_id hdr)"
    and caller: "rt_wf (en_cfg cenv) c" "pending (rt_requests c) (hdr_request_id hdr) = Some e"
      "length answer \<le> MaxPayloadSize (en_cfg cenv)" "MaxPayloadSize (en_cfg cenv) < 2 ^ 32"
    and keys: "keys_agree (rt_auth r) source (rt_auth c) peer"
      "has_key source (rt_auth r) \<or>
       (\<forall>se. service_lookup (rt_dispatcher c) (hdr_service_id hdr) = Some se \<longrightarrow> \<not> se_auth_required se)"
    and sq: "seq_verdict (en_cfg cenv) (used (e2e_peers (rt_e2e c)) < MaxTrackedPeers (en_cfg cenv))
      (last_seen (rt_e2e c) peer) (e2e_tx_seq (rt_e2e r)) \<in> {Accept, FirstSeen, TableFull}"
  shows "\<exists>f. sent (handle_request env source hdr payload r) = sent r @ [(source, f)] \<and>
    pending (rt_requests (validate_and_dispatch cenv peer f rx_ms c)) =
      (pending (rt_requests c))(hdr_request_id hdr := None) \<and>
    replies (validate_and_dispatch cenv peer f rx_ms c) = replies c @ call_done e rc (Some answer)"
  using reply_reaches [OF assms] by blast

theorem reply_reaches_caller_witness:
  "\<exists>f. sent (handle_request demo_env [1] (demo_header\<lparr>hdr_request_id := 1\<rparr>) [] demo_rt) = sent demo_rt @ [([1], f)] \<and>
     replies (validate_and_dispatch demo_env [2] f 6 demo_waiting) =
       replies demo_waiting @ [Out_Request_Done 9 4 E_UNKNOWN_SERVICE (Some [])]"
proof -
  let ?hdr = "demo_header\<lparr>hdr_request_id := 1\<rparr>"
  have "find_service_entry 0x1000 (rt_dispatcher demo_rt) = None" by code_simp
  then obtain r1 where d: "dispatch_result demo_env ?hdr [] demo_rt =
      (E_UNKNOWN_SERVICE, Some (rt_response_buffer demo_rt), 256, r1)"
    by (auto simp: dispatch_result_def Let_def dispatch_def demo_header_def rt_info_def)
      (simp add: EmbeddedConfig_def)
  have m: "MaxPayloadSize EmbeddedConfig < 2 ^ 32" by (simp add: EmbeddedConfig_def)
  have h: "hdr_service_id ?hdr = 0x1000" "hdr_method_event_id ?hdr = 3" "hdr_request_id ?hdr = 1"
    by (simp_all add: demo_header_def)
  have k: "keys_agree (rt_auth demo_rt) [1] (rt_auth demo_waiting) [2]"
    "service_lookup (rt_dispatcher demo_waiting) 0x1000 = None" by code_simp+
  have v: "seq_verdict EmbeddedConfig (used (e2e_peers (rt_e2e demo_waiting)) < MaxTrackedPeers EmbeddedConfig)
      (last_seen (rt_e2e demo_waiting) [2]) (e2e_tx_seq (rt_e2e demo_rt)) = FirstSeen" by code_simp
  have e: "E_UNKNOWN_SERVICE \<noteq> E_OK" by (simp add: E_UNKNOWN_SERVICE_def E_OK_def)
  show ?thesis
    using reply_reaches_caller [OF demo_env_ok, where r = demo_rt and hdr = ?hdr and payload = "[]" and source = "[1]"
        and rc = E_UNKNOWN_SERVICE and buf = "rt_response_buffer demo_rt" and n = 256 and ?r1.0 = r1
        and answer = "[]" and cenv = demo_env and c = demo_waiting and peer = "[2]" and rx_ms = 6
        and e = "new_pending EmbeddedConfig 0x1000 3 100 5 (Some 9) 4 1"] d m h k v e demo_waiting_facts
    by (auto simp: SD_SERVICE_ID_def is_method_id_def call_done_def new_pending_def)
qed

end
