(* ===== verification/Sd_Frames.thy ===== *)
theory Sd_Frames
  imports Request_Properties Sd_Properties
begin

text \<open>
  Service discovery on the wire: the frames that the discovery helpers of the runtime hand to the
  transport, and what the pipeline of a receiving runtime makes of such a frame.
\<close>

section \<open>Frames of service discovery\<close>

text \<open>Header, payload and CRC: a discovery frame is never authenticated.\<close>

definition sd_frame :: "MessageHeader \<Rightarrow> bytes \<Rightarrow> bytes" where
  "sd_frame hdr payload = (serialize hdr @ payload) @ crc_trailer (crc16_compute (serialize hdr @ payload))"

definition sd_wire :: "u16 \<Rightarrow> SdMethod \<Rightarrow> ReturnCode \<Rightarrow> u8 \<Rightarrow> nat \<Rightarrow> MessageHeader" where
  "sd_wire cid m rc sq n = (sd_header cid (sd_method_code m) n)\<lparr>hdr_return_code := rc, hdr_sequence_counter := sq\<rparr>"

lemma sd_frame_of: "sd_frame hdr payload = frame_of keys hdr payload False peer"
  by (simp add: sd_frame_def frame_of_def frame_body_def)

lemma sd_frame_shape [simp]:
  "deserialize (sd_frame hdr payload) = hdr" "crc16_verify (sd_frame hdr payload)"
  "length (sd_frame hdr payload) = 22 + length payload"
  "take (length payload) (drop 20 (sd_frame hdr payload)) = payload"
  using frame_of_header [of undefined hdr payload False undefined] frame_of_crc [of undefined hdr payload False undefined]
    length_frame_of [of undefined hdr payload False undefined] frame_of_parts(2) [of payload undefined hdr False undefined]
  unfolding sd_frame_of [of hdr payload undefined undefined] by simp_all

lemma sd_wire_fields [simp]:
  "hdr_service_id (sd_wire cid m rc sq n) = SD_SERVICE_ID" "hdr_client_id (sd_wire cid m rc sq n) = cid"
  "hdr_method_event_id (sd_wire cid m rc sq n) = sd_method_code m" "hdr_return_code (sd_wire cid m rc sq n) = rc"
  "hdr_payload_length (sd_wire cid m rc sq n) = of_nat n" "\<not> has_auth (sd_wire cid m rc sq n)"
  by (simp_all add: sd_wire_def sd_header_def has_auth_def)

lemma sd_wire_ok: "cid \<noteq> 0 \<Longrightarrow> header_ok (sd_wire cid m rc sq n)"
proof -
  have "is_method_id (sd_method_code m)" by (cases m) (simp_all add: is_method_id_def)
  moreover have "message_type_of (message_type_code REQUEST_NO_RETURN) = Some REQUEST_NO_RETURN"
    by (simp add: message_type_of_def)
  ultimately show "cid \<noteq> 0 \<Longrightarrow> header_ok (sd_wire cid m rc sq n)"
    by (simp add: header_ok_def sd_wire_def sd_header_def is_valid_message_type_def
        validate_type_id_consistency_def validate_client_id_def)
qed

text \<open>Writing the counter into byte 10 of the built message is setting the header field.\<close>

lemma serialize_sequence: "(serialize h @ rest)[10 := sq] = serialize (h\<lparr>hdr_sequence_counter := sq\<rparr>) @ rest"
  by (simp add: serialize_def write_u16_def eval_nat_numeral)

section \<open>Sending\<close>

fun broadcast_frames :: "effect list \<Rightarrow> bytes list" where
  "broadcast_frames [] = []"
| "broadcast_frames (Out_Broadcast data ok # os) = data # broadcast_frames os"
| "broadcast_frames (_ # os) = broadcast_frames os"

definition broadcasts :: "('t, 'a) runtime \<Rightarrow> bytes list" where
  "broadcasts r = broadcast_frames (rt_out r)"

lemma frames_filter:
  "sent_frames (filter (\<lambda>x. \<not> is_notice x) os) = sent_frames os"
  "broadcast_frames (filter (\<lambda>x. \<not> is_notice x) os) = broadcast_frames os"
proof (induction os)
  case (Cons x os)
  { case 1 then show ?case using Cons(1) by (cases x) simp_all }
  { case 2 then show ?case using Cons(2) by (cases x) simp_all }
qed simp_all

lemma frames_told: "sent r = sent_frames (told r)" "broadcasts r = broadcast_frames (told r)"
  by (simp_all add: sent_def broadcasts_def told_def frames_filter)

lemma broadcast_frames_append [simp]: "broadcast_frames (xs @ ys) = broadcast_frames xs @ broadcast_frames ys"
  by (induction xs rule: broadcast_frames.induct) simp_all

lemma told_log_at [simp]: "filter (\<lambda>x. \<not> is_notice x) (log_at cfg lg level c tag s m i x) = []"
  using logs_noted [of cfg lg level c tag s m i x] by (simp add: list_all_iff)

lemma told_logs [simp]:
  "told (rt_trace env c tag s m i x r) = told r" "told (rt_warn env c tag s m i x r) = told r"
  "told (rt_info env c tag s m i x r) = told r" "told (diag_increment d h r) = told r"
  using told_noted [OF only_noted_diag] by (simp_all add: rt_trace_def rt_info_def rt_warn_def log_defs)

lemma sd_logs [simp]:
  "rt_sd (rt_debug env c tag s m i x r) = rt_sd r" "rt_sd (rt_warn env c tag s m i x r) = rt_sd r"
  "rt_sd (diag_increment d h r) = rt_sd r" "rt_sd (emit os r) = rt_sd r"
  "rt_client_id (rt_debug env c tag s m i x r) = rt_client_id r"
  "rt_events (rt_debug env c tag s m i x r) = rt_events r" "rt_events (rt_warn env c tag s m i x r) = rt_events r"
  "rt_events (diag_increment d h r) = rt_events r" "rt_events (emit os r) = rt_events r"
  by (simp_all add: rt_debug_def rt_warn_def diag_increment_def emit_def case_prod_beta)

text \<open>The transmit buffer after a discovery message was built in it.\<close>

lemma sd_tx_frame:
  assumes "length (rt_tx_buffer r) = MAX_MSG_SIZE cfg" "length payload \<le> MaxPayloadSize cfg"
  shows "take (20 + length payload + 2) (crc16_append ((blit 0 (serialize h @ payload) (rt_tx_buffer r))[10 := sq])
      (20 + length payload)) = sd_frame (h\<lparr>hdr_sequence_counter := sq\<rparr>) payload"
proof -
  let ?h = "h\<lparr>hdr_sequence_counter := sq\<rparr>" and ?buf = "rt_tx_buffer r"
  have room: "length (serialize ?h @ payload) + 2 \<le> length ?buf" using assms by (simp add: MAX_MSG_SIZE_def)
  have "(blit 0 (serialize h @ payload) ?buf)[10 := sq] = blit 0 (serialize ?h @ payload) ?buf"
    using room by (simp add: blit_def serialize_sequence [of h "payload @ drop (20 + length payload) ?buf" sq, simplified])
  then show ?thesis
    using crc16_append_take [of "length (serialize ?h @ payload)" "blit 0 (serialize ?h @ payload) ?buf"] room
      blit_front [of "serialize ?h @ payload" ?buf] by (simp add: sd_frame_def)
qed

lemma ack_tx_frame:
  assumes "length buf = MAX_MSG_SIZE cfg" "length payload \<le> MaxPayloadSize cfg"
  shows "take (20 + length payload + 2) (crc16_append (blit HEADER_SIZE payload (blit 0 (serialize h) buf)) (20 + length payload)) =
    sd_frame h payload"
proof -
  have room: "length (serialize h @ payload) + 2 \<le> length buf" using assms by (simp add: MAX_MSG_SIZE_def)
  have "blit HEADER_SIZE payload (blit 0 (serialize h) buf) = blit 0 (serialize h @ payload) buf"
    using blit_append [of 0 "serialize h" payload buf] room by simp
  then show ?thesis
    using crc16_append_take [of "20 + length payload" "blit 0 (serialize h @ payload) buf"] room
      blit_front [of "serialize h @ payload" buf] by (simp add: sd_frame_def)
qed

lemma sd_fits:
  "length payload \<le> MaxPayloadSize cfg \<Longrightarrow> \<not> length (build_sd_header cid m n @ payload) + 2 > MAX_MSG_SIZE cfg"
  by (simp add: MAX_MSG_SIZE_def build_sd_header_def)

lemma send_sd_unicast_told:
  assumes "rt_wf (en_cfg env) r" "length payload \<le> MaxPayloadSize (en_cfg env)"
  shows "\<exists>ok. told (send_sd_unicast env dest (build_sd_header cid m n @ payload) r) =
    told r @ [Out_Send dest (sd_frame (sd_wire cid m 0 (rt_sd_seq r) n) payload) ok]"
proof -
  let ?msg = "build_sd_header cid m n @ payload"
  define tx where "tx = crc16_append ((blit 0 ?msg (rt_tx_buffer r))[10 := rt_sd_seq r]) (20 + length payload)"
  define r1 where "r1 = r\<lparr>rt_tx_buffer := tx, rt_sd_seq := rt_sd_seq r + 1\<rparr>"
  have t: "take (20 + length payload + 2) tx = sd_frame (sd_wire cid m 0 (rt_sd_seq r) n) payload"
    using sd_tx_frame [OF rt_wf_parts(10) [OF assms(1)] assms(2), of "sd_header cid (sd_method_code m) n" "rt_sd_seq r"]
    by (simp add: tx_def build_sd_header_def sd_wire_def sd_header_def)
  have "told (snd (rt_send env dest (20 + length payload + 2) r1)) = told r1 @
      [Out_Send dest (take (20 + length payload + 2) tx) (fst (rt_send env dest (20 + length payload + 2) r1))]"
    by (simp add: rt_send_def Let_def case_prod_beta r1_def)
  moreover have "told r1 = told r" by (simp add: r1_def told_def)
  moreover have "told (send_sd_unicast env dest ?msg r) = told (snd (rt_send env dest (20 + length payload + 2) r1))"
    using sd_fits [OF assms(2), of cid m n]
    by (simp add: send_sd_unicast_def Let_def case_prod_beta r1_def tx_def build_sd_header_def)
  ultimately show ?thesis using t by auto
qed

lemma send_sd_broadcast_told:
  assumes "rt_wf (en_cfg env) r" "length payload \<le> MaxPayloadSize (en_cfg env)"
  shows "\<exists>ok. told (send_sd_broadcast env (build_sd_header cid m n @ payload) r) =
    told r @ [Out_Broadcast (sd_frame (sd_wire cid m 0 (rt_sd_seq r) n) payload) ok]"
proof -
  let ?msg = "build_sd_header cid m n @ payload"
  define tx where "tx = crc16_append ((blit 0 ?msg (rt_tx_buffer r))[10 := rt_sd_seq r]) (20 + length payload)"
  define r1 where "r1 = r\<lparr>rt_tx_buffer := tx, rt_sd_seq := rt_sd_seq r + 1\<rparr>"
  have t: "take (20 + length payload + 2) tx = sd_frame (sd_wire cid m 0 (rt_sd_seq r) n) payload"
    using sd_tx_frame [OF rt_wf_parts(10) [OF assms(1)] assms(2), of "sd_header cid (sd_method_code m) n" "rt_sd_seq r"]
    by (simp add: tx_def build_sd_header_def sd_wire_def sd_header_def)
  have "told (snd (rt_broadcast env (20 + length payload + 2) r1)) = told r1 @
      [Out_Broadcast (take (20 + length payload + 2) tx) (fst (rt_broadcast env (20 + length payload + 2) r1))]"
    by (simp add: rt_broadcast_def Let_def case_prod_beta r1_def)
  moreover have "told r1 = told r" by (simp add: r1_def told_def)
  moreover have "told (send_sd_broadcast env ?msg r) = told (snd (rt_broadcast env (20 + length payload + 2) r1))"
    using sd_fits [OF assms(2), of cid m n]
    by (simp add: send_sd_broadcast_def Let_def case_prod_beta r1_def tx_def build_sd_header_def)
  ultimately show ?thesis using t by auto
qed

section \<open>Receiving\<close>

lemma sd_frame_received:
  assumes "rt_wf (en_cfg env) r" "cid \<noteq> 0"
    and "length payload \<le> MaxPayloadSize (en_cfg env)" "MaxPayloadSize (en_cfg env) < 2 ^ 32" "n = length payload"
  shows "\<exists>r'. only_noted r r' \<and> rt_wf (en_cfg env) r' \<and>
    validate_and_dispatch env source (sd_frame (sd_wire cid m rc sq n) payload) now_ms r =
      handle_sd_message env source (sd_wire cid m rc sq n) payload now_ms r'"
proof -
  define hdr where "hdr = sd_wire cid m rc sq n"
  let ?f = "sd_frame hdr payload"
  have n: "unat (hdr_payload_length hdr) = length payload"
    using assms(3,4) unfolding hdr_def sd_wire_fields assms(5) by (intro unat_of_nat_u32) simp
  have ok: "header_ok hdr" "\<not> has_auth hdr" "hdr_service_id hdr = SD_SERVICE_ID"
    using sd_wire_ok [OF assms(2)] by (simp_all add: hdr_def)
  have "wire_ok (en_cfg env) ?f"
    using ok assms(3) by (simp add: wire_ok_def Let_def header_ok_def expected_size_def n)
  then have "accepted (en_cfg env) source ?f r" using ok by (simp add: accepted_def seq_ok_def auth_ok_def)
  moreover have "frame_payload ?f = payload" by (simp add: frame_payload_def n)
  ultimately show ?thesis
    using pipeline [OF assms(1), of source ?f now_ms] ok(3) by (auto simp: dispatch_message_def hdr_def)
qed

lemma rt_reset_peer_keeps [simp]:
  "told (rt_reset_peer env a r) = told r" "rt_sd (rt_reset_peer env a r) = rt_sd r"
  "rt_events (rt_reset_peer env a r) = rt_events r" "rt_logger (rt_reset_peer env a r) = rt_logger r"
  "rt_auth (rt_reset_peer env a r) = rt_auth r"
  by (simp_all add: rt_reset_peer_def reset_peer_def emit_def split: option.split)
    (simp_all add: told_def if_logger_def log_defs split: option.split)

text \<open>An offer goes to \<open>handle_offer\<close>; the log it writes depends on the logger, nothing else does.\<close>

lemma offer_handled:
  assumes "rt_wf (en_cfg env) r" "length payload \<le> MaxPayloadSize (en_cfg env)" "MaxPayloadSize (en_cfg env) < 2 ^ 32"
    and "n = length payload" "cid \<noteq> 0" "length provider = TransportAddressSize (en_cfg env)"
    and "payload = serialize_offer (en_cfg env) sid major minor ttl session provider"
    and r'_def: "r' = validate_and_dispatch env source (sd_frame (sd_wire cid SD_OFFER_SERVICE 0 sq n) payload) now_ms r"
  shows "\<exists>lg. told r' = told r @ filter (\<lambda>x. \<not> is_notice x)
      (snd (handle_offer (en_cfg env) lg sid major ttl session provider now_ms (rt_sd r))) \<and>
    rt_sd r' = fst (handle_offer (en_cfg env) lg sid major ttl session provider now_ms (rt_sd r)) \<and>
    rt_auth r' = rt_auth r"
proof -
  let ?hdr = "sd_wire cid SD_OFFER_SERVICE 0 sq n"
  obtain s where s: "only_noted r s" "rt_wf (en_cfg env) s" "r' = handle_sd_message env source ?hdr payload now_ms s"
    using sd_frame_received [OF assms(1,5,2,3,4)] unfolding r'_def by blast
  have sd: "rt_sd s = rt_sd r" "told s = told r" "rt_auth s = rt_auth r"
    using s(1) told_noted [OF s(1)] by (auto simp: only_noted_def)
  define s0 where "s0 = rt_debug env CatServiceDiscovery ''offer_rx'' sid 0 cid (ucast ttl) s"
  define s1 where "s1 = (if detect_reboot sid session (rt_sd r) then rt_reset_peer env provider s0 else s0)"
  have s0: "rt_sd s0 = rt_sd r" "told s0 = told r" "rt_auth s0 = rt_auth r"
    using sd by (simp_all add: s0_def)
  then have s1: "rt_sd s1 = rt_sd r" "told s1 = told r" "rt_auth s1 = rt_auth r" by (simp_all add: s1_def)
  have r': "r' = (case handle_offer (en_cfg env) (Some (rt_logger s1)) sid major ttl session provider now_ms (rt_sd r) of
      (sd, out) \<Rightarrow> emit out (s1\<lparr>rt_sd := sd\<rparr>))"
    using deserialize_serialize_offer [OF assms(6), of sid major minor ttl session "[]"]
    by (simp add: s(3) assms(7) handle_sd_message_def sd_method_of_def handle_sd_offer_def s0_def [symmetric] s0(1) Let_def)
      (simp add: s1_def)
  have t: "told (r\<lparr>rt_sd := d\<rparr>) = told r" for r :: "('a, 'b) runtime" and d by (simp add: told_def)
  have "told r' = told r @ filter (\<lambda>x. \<not> is_notice x)
      (snd (handle_offer (en_cfg env) (Some (rt_logger s1)) sid major ttl session provider now_ms (rt_sd r)))"
    by (simp add: r' case_prod_beta t s1(2))
  moreover have "rt_sd r' = fst (handle_offer (en_cfg env) (Some (rt_logger s1)) sid major ttl session provider now_ms (rt_sd r))"
    "rt_auth r' = rt_auth r"
    by (simp_all add: r' case_prod_beta s1(3))
  ultimately show ?thesis by blast
qed

end
