(* ===== verification/Handshake_Properties.thy ===== *)
theory Handshake_Properties
  imports Sd_Frames
begin

text \<open>
  The handshakes of service discovery over two runtimes, frame by frame: a search finds the provider
  that offers the service, and a subscription is granted and recorded on both sides.
\<close>

section \<open>Output of a loop\<close>

text \<open>A loop over a table only adds outputs; what one entry makes the runtime say is among them.\<close>

lemma fold_tells:
  assumes step: "\<And>x r. rt_wf cfg r \<Longrightarrow> rt_wf cfg (f x r) \<and> (\<exists>os. told (f x r) = told r @ os)"
    and one: "\<And>r. rt_wf cfg r \<Longrightarrow> \<exists>m\<in>set (told (f x r)). Q m"
    and "rt_wf cfg r" "x \<in> set xs"
  shows "\<exists>m\<in>set (told (fold f xs r)). Q m"
proof -
  have wf: "rt_wf cfg r \<Longrightarrow> rt_wf cfg (fold f xs r)" for xs r
    using step by (induction xs arbitrary: r) auto
  have grows: "rt_wf cfg r \<Longrightarrow> set (told r) \<subseteq> set (told (fold f xs r))" for xs r
  proof (induction xs arbitrary: r)
    case (Cons y ys)
    have "set (told (f y r)) \<subseteq> set (told (fold f ys (f y r)))"
      using step [OF Cons.prems, of y] by (intro Cons.IH) simp
    then show ?case using step [OF Cons.prems, of y] by auto
  qed simp
  obtain ys zs where xs: "xs = ys @ x # zs" using split_list [OF assms(4)] by blast
  let ?r = "fold f ys r"
  have "rt_wf cfg ?r" by (rule wf) (rule assms(3))
  then show ?thesis using one [of ?r] step [of ?r x] grows [of "f x ?r" zs] by (auto simp: xs)
qed

lemma told_calls:
  "filter (\<lambda>x. \<not> is_notice x) (call_found cb sid a) = call_found cb sid a"
  "filter (\<lambda>x. \<not> is_notice x) (call_lost cb sid) = call_lost cb sid"
  "filter (\<lambda>x. \<not> is_notice x) (call_ack cb sid eid rc ttl) = call_ack cb sid eid rc ttl"
  by (simp_all add: call_found_def call_lost_def call_ack_def split: option.split)

lemma told_set [simp]: "told (r\<lparr>rt_sd := sd\<rparr>) = told r" "told (r\<lparr>rt_events := ev\<rparr>) = told r"
  by (simp_all add: told_def)

lemma told_if_logger [simp]:
  "filter (\<lambda>x. \<not> is_notice x) (if_logger (\<lambda>l. log_info cfg l c t s m i x) lg) = []"
  "filter (\<lambda>x. \<not> is_notice x) (if_logger (\<lambda>l. log_warn cfg l c t s m i x) lg) = []"
  by (simp_all add: if_logger_def log_defs split: option.split)

section \<open>A search\<close>

lemma search_broadcast:
  assumes "rt_wf (en_cfg env) r" "4 \<le> MaxPayloadSize (en_cfg env)"
    and "consumer_of (rt_sd r) sid = Some ce" "find_due now_ms ce"
  shows "\<exists>sq. sd_frame (sd_wire (sd_client_id (rt_sd r)) SD_FIND_SERVICE 0 sq 4) (serialize_find sid)
    \<in> set (broadcasts (rt_process_finds env now_ms r))"
proof -
  let ?sd = "rt_sd r" and ?cfg = "en_cfg env"
  let ?Q = "\<lambda>m. \<exists>sq ok. m = Out_Broadcast (sd_frame (sd_wire (sd_client_id ?sd) SD_FIND_SERVICE 0 sq 4) (serialize_find sid)) ok"
  let ?f = "find_emit ?cfg (Some (rt_logger r)) now_ms emit (send_sd_broadcast env) ?sd"
  have sd: "sd_wf ?cfg ?sd" by (rule rt_wf_parts(5) [OF assms(1)])
  have K: "keyed cn_service_id (\<lambda>_. True) (MaxKnownServices ?cfg) (sd_consumers ?sd)" using sd by (simp add: sd_wf_def)
  have ce: "ce \<in> set (live (sd_consumers ?sd))" "cn_service_id ce = sid"
    using assms(3) by (auto simp: consumer_of_def t_lookup_def dest: map_of_SomeD)
  have b: "\<exists>ok. told (send_sd_broadcast env (find_message ?sd ce') w) = told w @
      [Out_Broadcast (sd_frame (sd_wire (sd_client_id ?sd) SD_FIND_SERVICE 0 (rt_sd_seq w) 4) (serialize_find (cn_service_id ce'))) ok]"
    if "rt_wf ?cfg w" for w :: "('a, 'b) runtime" and ce'
    using send_sd_broadcast_told [OF that, of "serialize_find (cn_service_id ce')" "sd_client_id ?sd" SD_FIND_SERVICE 4]
      assms(2) by (simp add: find_message_def)
  have step: "rt_wf ?cfg (?f ce' w) \<and> (\<exists>os. told (?f ce' w) = told w @ os)" if "rt_wf ?cfg w" for ce' w
    using b [OF that, of ce'] rt_wf_sd_broadcast [OF that] that by (auto simp: find_emit_def)
  have one: "\<exists>m\<in>set (told (?f ce w)). ?Q m" if "rt_wf ?cfg w" for w
    using b [OF that, of ce] assms(4) ce(2) by (auto simp: find_emit_def)
  have "told (rt_process_finds env now_ms r) = told (fold ?f (live (sd_consumers ?sd)) r)"
    by (simp add: rt_process_finds_def process_finds_run [OF sd])
  moreover have "\<exists>m\<in>set (told (fold ?f (live (sd_consumers ?sd)) r)). ?Q m"
    by (rule fold_tells [where cfg = ?cfg and f = ?f and Q = ?Q and x = ce, OF step one assms(1) ce(1)])
  moreover have "data \<in> set (broadcast_frames os)" if "Out_Broadcast data ok \<in> set os" for data ok os
    using that by (induction os rule: broadcast_frames.induct) auto
  ultimately show ?thesis unfolding frames_told by auto
qed

lemma filter_by_key:
  "distinct (map key xs) \<Longrightarrow> x \<in> set xs \<Longrightarrow> P x \<Longrightarrow> filter (\<lambda>y. P y \<and> key y = key x) xs = [x]"
proof (induction xs)
  case (Cons y ys)
  show ?case
  proof (cases "x = y")
    case True
    have "filter (\<lambda>z. P z \<and> key z = key y) ys = []"
      using Cons.prems(1) by (auto simp: filter_empty_conv) (metis image_eqI)
    then show ?thesis using True Cons.prems(3) by simp
  next
    case False
    then have "x \<in> set ys" using Cons.prems(2) by simp
    then have "key x \<noteq> key y" using Cons.prems(1) by (metis distinct.simps(2) image_eqI list.simps(9) set_map)
    then show ?thesis using Cons False by simp
  qed
qed simp

definition offer_payload :: "config \<Rightarrow> ServiceDiscovery \<Rightarrow> ProviderEntry \<Rightarrow> bytes" where
  "offer_payload cfg sd pe = serialize_offer cfg (pv_service_id pe) (pv_major_version pe) (pv_minor_version pe)
     (pv_ttl_seconds pe) (pv_session_id pe) (sd_local_addr sd)"

definition offer_frame :: "config \<Rightarrow> ServiceDiscovery \<Rightarrow> ProviderEntry \<Rightarrow> u8 \<Rightarrow> bytes" where
  "offer_frame cfg sd pe sq = sd_frame (sd_wire (sd_client_id sd) SD_OFFER_SERVICE 0 sq (SD_OFFER_PAYLOAD_SIZE cfg))
     (offer_payload cfg sd pe)"

lemma offered_entry:
  assumes "sd_wf cfg sd" "provider_of sd sid = Some pe" "pv_state pe = P_OFFERED" "sid \<noteq> 0xFFFF"
  shows "filter (\<lambda>pe. pv_state pe = P_OFFERED \<and> (sid = 0xFFFF \<or> pv_service_id pe = sid)) (live (sd_providers sd)) = [pe]"
    and "pv_service_id pe = sid"
proof -
  have K: "keyed pv_service_id (\<lambda>_. True) (MaxServices cfg) (sd_providers sd)" using assms(1) by (simp add: sd_wf_def)
  have pe: "pe \<in> set (live (sd_providers sd))" and id: "pv_service_id pe = sid"
    using assms(2) by (auto simp: provider_of_def t_lookup_def dest: map_of_SomeD)
  show "pv_service_id pe = sid" by (rule id)
  show "filter (\<lambda>pe. pv_state pe = P_OFFERED \<and> (sid = 0xFFFF \<or> pv_service_id pe = sid)) (live (sd_providers sd)) = [pe]"
    using filter_by_key [of pv_service_id "live (sd_providers sd)" pe "\<lambda>pe. pv_state pe = P_OFFERED"] K pe assms(3,4)
    by (simp add: keyed_def id)
qed

lemma search_answered:
  assumes "rt_wf (en_cfg env) r" "4 \<le> MaxPayloadSize (en_cfg env)" "MaxPayloadSize (en_cfg env) < 2 ^ 32"
    and "SD_OFFER_PAYLOAD_SIZE (en_cfg env) \<le> MaxPayloadSize (en_cfg env)"
    and "length (sd_local_addr (rt_sd r)) = TransportAddressSize (en_cfg env)"
    and "provider_of (rt_sd r) sid = Some pe" "pv_state pe = P_OFFERED" "sid \<noteq> 0xFFFF" "cid \<noteq> 0"
  shows "\<exists>sq ok. told (validate_and_dispatch env source (sd_frame (sd_wire cid SD_FIND_SERVICE 0 s 4) (serialize_find sid))
      now_ms r) = told r @ [Out_Send source (offer_frame (en_cfg env) (rt_sd r) pe sq) ok]"
proof -
  let ?cfg = "en_cfg env" and ?hdr = "sd_wire cid SD_FIND_SERVICE 0 s 4"
  have len: "length (serialize_find sid) \<le> MaxPayloadSize ?cfg" "4 = length (serialize_find sid)"
    using assms(2) by simp_all
  obtain r' where r': "only_noted r r'" "rt_wf ?cfg r'"
    "validate_and_dispatch env source (sd_frame ?hdr (serialize_find sid)) now_ms r =
       handle_sd_message env source ?hdr (serialize_find sid) now_ms r'"
    using sd_frame_received [OF assms(1,9) len(1) assms(3) len(2)] by blast
  define r1 where "r1 = rt_reset_peer env source (rt_debug env CatServiceDiscovery ''find_rx'' sid 0 cid 0 r')"
  have same: "rt_sd r' = rt_sd r" using r'(1) by (auto simp: only_noted_def)
  have sd: "rt_sd r1 = rt_sd r" "told r1 = told r"
    using same told_noted [OF r'(1)] by (simp_all add: r1_def)
  have wf1: "rt_wf ?cfg r1" unfolding r1_def by (rule rt_wf_reset_peer) (simp add: r'(2))
  note wf = rt_wf_parts(5) [OF assms(1)]
  have "handle_sd_message env source ?hdr (serialize_find sid) now_ms r' =
      send_sd_unicast env source (offer_message ?cfg (rt_sd r) pe) r1"
    using deserialize_serialize_find [of sid "[]"]
    by (simp add: handle_sd_message_def sd_method_of_def handle_sd_find_def Let_def r1_def [symmetric] sd(1) handle_find_run [OF wf]
        offered_entry(1) [OF wf assms(6,7,8)])
  moreover have "offer_message ?cfg (rt_sd r) pe =
      build_sd_header (sd_client_id (rt_sd r)) SD_OFFER_SERVICE (SD_OFFER_PAYLOAD_SIZE ?cfg) @ offer_payload ?cfg (rt_sd r) pe"
    by (simp add: offer_message_def offer_payload_def)
  moreover have fit: "length (offer_payload ?cfg (rt_sd r) pe) \<le> MaxPayloadSize ?cfg"
    using assms(4,5) by (simp add: offer_payload_def)
  ultimately show ?thesis
    using send_sd_unicast_told [OF wf1 fit, of source "sd_client_id (rt_sd r)" SD_OFFER_SERVICE "SD_OFFER_PAYLOAD_SIZE ?cfg"]
    unfolding r'(3) offer_frame_def by (metis sd(2))
qed

lemma offer_of_search:
  assumes "sd_wf cfg sd" "consumer_of sd sid = Some ce" "cn_state ce \<noteq> C_FOUND" "ttl \<noteq> 0" "major = cn_expected_major ce"
  shows "filter (\<lambda>x. \<not> is_notice x) (snd (handle_offer cfg lg sid major ttl session provider now_ms sd)) =
      call_found (sd_callbacks sd) sid provider"
    and "get_provider_address sid (fst (handle_offer cfg lg sid major ttl session provider now_ms sd)) = Some provider"
    and "\<not> detect_reboot sid session sd"
proof -
  obtain i where "t_find (consumer_is sid) (sd_consumers sd) = Some i" "t_get (sd_consumers sd) i = ce"
    using consumer_slot [OF assms(1,2)] by blast
  then show "filter (\<lambda>x. \<not> is_notice x) (snd (handle_offer cfg lg sid major ttl session provider now_ms sd)) =
      call_found (sd_callbacks sd) sid provider"
    using assms(3-5) by (simp add: handle_offer_def Let_def reboot_seen_def told_calls)
  note T = handle_offer_tables [OF assms(1) refl, of lg sid major ttl session provider now_ms]
  show "get_provider_address sid (fst (handle_offer cfg lg sid major ttl session provider now_ms sd)) = Some provider"
    by (simp add: get_provider_address_of [OF T(1)] T(2)) (simp add: assms offer_seen_def)
  show "\<not> detect_reboot sid session sd"
    using assms(2,3) by (simp add: detect_reboot_def find_consumer_lookup [OF assms(1)] reboot_seen_def)
qed

lemma offer_received:
  assumes "rt_wf (en_cfg env) r" "length payload \<le> MaxPayloadSize (en_cfg env)" "MaxPayloadSize (en_cfg env) < 2 ^ 32"
    and "n = length payload" "cid \<noteq> 0" "length provider = TransportAddressSize (en_cfg env)"
    and "payload = serialize_offer (en_cfg env) sid major minor ttl session provider"
    and ce: "consumer_of (rt_sd r) sid = Some ce" "cn_state ce \<noteq> C_FOUND" "ttl \<noteq> 0" "major = cn_expected_major ce"
    and r': "r' = validate_and_dispatch env source (sd_frame (sd_wire cid SD_OFFER_SERVICE 0 sq n) payload) now_ms r"
  shows "told r' = told r @ call_found (sd_callbacks (rt_sd r)) sid provider"
    and "get_provider_address sid (rt_sd r') = Some provider"
  using offer_handled [OF assms(1-7) r'] offer_of_search [OF rt_wf_parts(5) [OF assms(1)] ce] by auto

text \<open>C17: A search finds its provider: when a search is due, the search loop broadcasts a find frame; a
  runtime that offers the service answers that frame with exactly one offer frame, to the searching
  peer; and when the searching runtime receives the offer, the provider's address is known from then on
  and the application is told so, once.\<close>

theorem search_finds_provider:
  assumes consumer: "env_ok cenv" "rt_wf (en_cfg cenv) c" "sd_client_id (rt_sd c) \<noteq> 0"
      "consumer_of (rt_sd c) sid = Some ce" "find_due t0 ce" "sid \<noteq> 0xFFFF"
    and provider: "rt_wf (en_cfg penv) p" "sd_client_id (rt_sd p) \<noteq> 0" "provider_of (rt_sd p) sid = Some pe"
      "pv_state pe = P_OFFERED" "pv_ttl_seconds pe \<noteq> 0" "pv_major_version pe = cn_expected_major ce"
    and address: "length (sd_local_addr (rt_sd p)) = TransportAddressSize (en_cfg penv)"
      "TransportAddressSize (en_cfg penv) = TransportAddressSize (en_cfg cenv)"
    and fits: "SD_OFFER_PAYLOAD_SIZE (en_cfg penv) \<le> MaxPayloadSize (en_cfg penv)" "MaxPayloadSize (en_cfg penv) < 2 ^ 32"
      "SD_OFFER_PAYLOAD_SIZE (en_cfg penv) \<le> MaxPayloadSize (en_cfg cenv)" "MaxPayloadSize (en_cfg cenv) < 2 ^ 32"
    and c1_def: "c1 = rt_process_finds cenv t0 c"
  shows "\<exists>f g. f \<in> set (broadcasts c1) \<and> sent (validate_and_dispatch penv caddr f t1 p) = sent p @ [(caddr, g)] \<and>
    get_provider_address sid (rt_sd (validate_and_dispatch cenv paddr g t2 c1)) = Some (sd_local_addr (rt_sd p)) \<and>
    told (validate_and_dispatch cenv paddr g t2 c1) =
      told c1 @ call_found (sd_callbacks (rt_sd c)) sid (sd_local_addr (rt_sd p))"
proof -
  have four: "4 \<le> MaxPayloadSize (en_cfg cenv)" "4 \<le> MaxPayloadSize (en_cfg penv)"
    using fits by (simp_all add: SD_OFFER_PAYLOAD_SIZE_def)
  obtain s where f: "sd_frame (sd_wire (sd_client_id (rt_sd c)) SD_FIND_SERVICE 0 s 4) (serialize_find sid) \<in> set (broadcasts c1)"
    using search_broadcast [OF consumer(2) four(1) consumer(4,5)] unfolding c1_def by blast
  let ?f = "sd_frame (sd_wire (sd_client_id (rt_sd c)) SD_FIND_SERVICE 0 s 4) (serialize_find sid)"
  obtain sq ok where g: "told (validate_and_dispatch penv caddr ?f t1 p) =
      told p @ [Out_Send caddr (offer_frame (en_cfg penv) (rt_sd p) pe sq) ok]"
    using search_answered [OF provider(1) four(2) fits(2,1) address(1) provider(3,4) consumer(6,3)] by blast
  let ?g = "offer_frame (en_cfg penv) (rt_sd p) pe sq"
  have "sent (validate_and_dispatch penv caddr ?f t1 p) = sent p @ [(caddr, ?g)]" unfolding frames_told g by simp
  moreover have wf1: "rt_wf (en_cfg cenv) c1"
    unfolding c1_def by (rule rt_wf_process_loops(4)) (use consumer in simp_all)
  have c1: "rt_sd c1 = fst (process_finds (en_cfg cenv) (Some (rt_logger c)) t0 emit (send_sd_broadcast cenv) (rt_sd c) c)"
    by (simp add: c1_def rt_process_finds_def case_prod_beta)
  have ce: "consumer_of (rt_sd c1) sid = Some (find_entry (en_cfg cenv) t0 (rt_sd c) ce)"
    by (simp add: c1 process_finds_wf(2) [OF rt_wf_parts(5) [OF consumer(2)]] consumer(4))
  have cb: "sd_callbacks (rt_sd c1) = sd_callbacks (rt_sd c)"
    unfolding c1 process_finds_run [OF rt_wf_parts(5) [OF consumer(2)]] by simp
  have st: "cn_state (find_entry (en_cfg cenv) t0 (rt_sd c) ce) \<noteq> C_FOUND"
    "pv_major_version pe = cn_expected_major (find_entry (en_cfg cenv) t0 (rt_sd c) ce)"
    using consumer(5) provider(6) by (simp_all add: find_entry_def find_due_def)
  have id: "pv_service_id pe = sid" by (rule offered_entry(2) [OF rt_wf_parts(5) [OF provider(1)] provider(3,4) consumer(6)])
  have size: "length (offer_payload (en_cfg penv) (rt_sd p) pe) = SD_OFFER_PAYLOAD_SIZE (en_cfg penv)"
    using address(1) by (simp add: offer_payload_def)
  have same: "offer_payload (en_cfg penv) (rt_sd p) pe = serialize_offer (en_cfg cenv) sid (pv_major_version pe)
      (pv_minor_version pe) (pv_ttl_seconds pe) (pv_session_id pe) (sd_local_addr (rt_sd p))"
    by (simp add: offer_payload_def id serialize_offer_def address(2))
  have R: "told (validate_and_dispatch cenv paddr ?g t2 c1) = told c1 @ call_found (sd_callbacks (rt_sd c1)) sid (sd_local_addr (rt_sd p))"
    "get_provider_address sid (rt_sd (validate_and_dispatch cenv paddr ?g t2 c1)) = Some (sd_local_addr (rt_sd p))"
    unfolding offer_frame_def
    by (rule offer_received [OF wf1 _ fits(4) _ provider(2) _ same ce st(1) provider(5) st(2) refl],
        use size fits(3) address in simp_all)+
  ultimately show ?thesis using f by (intro exI [of _ ?f] exI [of _ ?g] conjI) (simp_all add: cb)
qed

definition demo_seeker :: "(nat, nat) runtime" where
  "demo_seeker = rt_apply demo_env (Do_Find 0x1000 1 50) demo_rt"

definition demo_offering :: "(nat, nat) runtime" where
  "demo_offering = rt_apply demo_env (Do_Offer 0x1000 5 100) demo_guarded"

lemma demo_search_wf: "rt_wf EmbeddedConfig demo_seeker" "rt_wf EmbeddedConfig demo_offering"
  using rt_wf_apply [OF demo_env_ok, of demo_rt "Do_Find 0x1000 1 50"]
    rt_wf_apply [OF demo_env_ok, of demo_guarded "Do_Offer 0x1000 5 100"] demo_guarded_wf
  by (simp_all add: demo_seeker_def demo_offering_def del: rt_apply.simps)

theorem search_finds_provider_witness:
  "\<exists>f g. f \<in> set (broadcasts (rt_process_finds demo_env 50 demo_seeker)) \<and>
     sent (validate_and_dispatch demo_env [1] f 60 demo_offering) = sent demo_offering @ [([1], g)] \<and>
     get_provider_address 0x1000 (rt_sd (validate_and_dispatch demo_env [2] g 70
       (rt_process_finds demo_env 50 demo_seeker))) = Some (zero_addr EmbeddedConfig)"
proof -
  have "map_option (\<lambda>ce. (find_due 50 ce, cn_expected_major ce)) (consumer_of (rt_sd demo_seeker) 0x1000) = Some (True, 1)"
    by code_simp
  then obtain ce where ce: "consumer_of (rt_sd demo_seeker) 0x1000 = Some ce" "find_due 50 ce" "cn_expected_major ce = 1"
    by auto
  have "map_option (\<lambda>pe. (pv_state pe, pv_ttl_seconds pe, pv_major_version pe)) (provider_of (rt_sd demo_offering) 0x1000) =
      Some (P_OFFERED, 5, 1)" by code_simp
  then obtain pe where pe: "provider_of (rt_sd demo_offering) 0x1000 = Some pe" "pv_state pe = P_OFFERED"
    "pv_ttl_seconds pe = 5" "pv_major_version pe = 1" by auto
  have "sd_local_addr (rt_sd demo_offering) = zero_addr EmbeddedConfig" "sd_client_id (rt_sd demo_seeker) = 7"
    "sd_client_id (rt_sd demo_offering) = 7"
    by code_simp+
  moreover have "SD_OFFER_PAYLOAD_SIZE EmbeddedConfig \<le> MaxPayloadSize EmbeddedConfig" "MaxPayloadSize EmbeddedConfig < 2 ^ 32"
    by (simp_all add: SD_OFFER_PAYLOAD_SIZE_def EmbeddedConfig_def)
  ultimately show ?thesis
    using search_finds_provider [OF demo_env_ok, where penv = demo_env and c = demo_seeker and p = demo_offering
        and sid = "0x1000" and ?t0.0 = 50 and ?t1.0 = 60 and ?t2.0 = 70 and caddr = "[1]" and paddr = "[2]"
        and ?c1.0 = "rt_process_finds demo_env 50 demo_seeker" and ce = ce and pe = pe] demo_search_wf ce pe
    by auto
qed

section \<open>A subscription\<close>

lemma subscribe_granted:
  assumes "events_wf cfg t" "subscribers_of t (sid, eid) = Some m" "m cid \<noteq> None \<or> card (dom m) < MaxSubscribers cfg"
  shows "fst (subscribe cfg lg sid eid cid a ttl now_ms t) = E_OK"
    and "subscribers_of (fst (snd (subscribe cfg lg sid eid cid a ttl now_ms t))) (sid, eid) =
      Some (m(cid \<mapsto> \<lparr>sb_client_id = cid, sb_addr = a, sb_expiry_ms = subscription_expiry cfg ttl now_ms\<rparr>))"
proof -
  obtain i where i: "t_find (event_is (sid, eid)) t = Some i"
    using assms(2) event_not_found [OF assms(1), of "(sid, eid)"]
    by (cases "t_find (event_is (sid, eid)) t") (auto simp: subscribers_of_def)
  let ?subs = "ev_subs (t_get t i)"
  have m: "m = sub_lookup ?subs" using event_found(3) [OF assms(1) i] assms(2) by (simp add: subscribers_of_def)
  have K: "keyed sb_client_id (\<lambda>_. True) (MaxSubscribers cfg) ?subs"
    using event_found(4) [OF assms(1) i] by (simp add: subs_wf_def)
  have "\<not> MaxSubscribers cfg \<le> used ?subs" if "t_find (subscriber_is cid) ?subs = None"
    using keyed_find_None [OF K subscriber_is_key that] card_dom_t_lookup [OF K] assms(3) by (simp add: m)
  then show "fst (subscribe cfg lg sid eid cid a ttl now_ms t) = E_OK"
    by (auto simp: subscribe_def i case_prod_beta subscribe_slot_def split: option.split)
  show "subscribers_of (fst (snd (subscribe cfg lg sid eid cid a ttl now_ms t))) (sid, eid) =
      Some (m(cid \<mapsto> \<lparr>sb_client_id = cid, sb_addr = a, sb_expiry_ms = subscription_expiry cfg ttl now_ms\<rparr>))"
    using assms(3) by (simp add: subscribe_refines(2) [OF assms(1)] assms(2) bm_put_def sub_merge_def)
qed

lemma silent_told: "visible os = [] \<Longrightarrow> filter (\<lambda>x. \<not> is_notice x) os = []"
proof (induction os)
  case (Cons x os)
  then show ?case by (cases x) simp_all
qed simp

definition granted_seconds :: "config \<Rightarrow> u16 \<Rightarrow> u16" where
  "granted_seconds cfg ttl = (if ttl > 0 then ttl else SubscriptionTtlSeconds cfg)"

lemma subscribe_request_told:
  assumes "rt_wf (en_cfg env) r" "8 \<le> MaxPayloadSize (en_cfg env)"
    and "subscribe (en_cfg env) (Some (rt_logger r)) sid eid (hdr_client_id hdr) source ttl now_ms (rt_events r) = (E_OK, ev, out)"
  shows "\<exists>ok. told (handle_subscribe_request env source hdr sid eid ttl now_ms r) = told r @
      [Out_Send source (sd_frame (sd_wire (rt_client_id r) SD_SUBSCRIBE_ACK E_OK (rt_sd_seq r) 8)
        (serialize_subscribe sid eid (granted_seconds (en_cfg env) ttl))) ok]"
    and "rt_events (handle_subscribe_request env source hdr sid eid ttl now_ms r) = ev"
proof -
  let ?h = "sd_wire (rt_client_id r) SD_SUBSCRIBE_ACK E_OK (rt_sd_seq r) 8" and ?cfg = "en_cfg env"
  let ?pl = "serialize_subscribe sid eid (granted_seconds ?cfg ttl)"
  have hdr: "default_header\<lparr> hdr_version := PROTOCOL_VERSION,
      hdr_message_type := message_type_code REQUEST_NO_RETURN, hdr_return_code := E_OK,
      hdr_flags := 0, hdr_service_id := SD_SERVICE_ID, hdr_method_event_id := sd_method_code SD_SUBSCRIBE_ACK,
      hdr_client_id := rt_client_id r, hdr_sequence_counter := rt_sd_seq r, hdr_request_id := 0,
      hdr_payload_length := of_nat SD_SUBSCRIBE_PAYLOAD_SIZE \<rparr> = ?h"
    by (simp add: default_header_def sd_wire_def sd_header_def)
  define r1 where "r1 = emit out (r\<lparr>rt_events := ev\<rparr>)"
  have r1: "rt_client_id r1 = rt_client_id r" "rt_sd_seq r1 = rt_sd_seq r" "rt_tx_buffer r1 = rt_tx_buffer r" "rt_events r1 = ev"
    by (simp_all add: r1_def emit_def)
  have "visible out = []" using events_silent(2) [of ?cfg "Some (rt_logger r)" sid eid "hdr_client_id hdr" source ttl now_ms "rt_events r"]
    by (simp add: assms(3))
  then have told1: "told r1 = told r" by (simp add: r1_def silent_told)
  define tx where "tx = crc16_append (blit HEADER_SIZE ?pl (blit 0 (serialize ?h) (rt_tx_buffer r))) 28"
  define r2 where "r2 = r1\<lparr>rt_tx_buffer := tx, rt_sd_seq := rt_sd_seq r + 1\<rparr>"
  have tx: "take 30 tx = sd_frame ?h ?pl"
    using ack_tx_frame [OF rt_wf_parts(10) [OF assms(1)], of ?pl ?h] assms(2) by (simp add: tx_def)
  have eq: "handle_subscribe_request env source hdr sid eid ttl now_ms r =
    (if \<not> fst (rt_send env source 30 r2) then
       rt_warn env CatTransport ''sub_ack_send_fail'' sid eid (hdr_client_id hdr) 0
         (diag_increment DroppedMessages None (snd (rt_send env source 30 r2)))
     else rt_debug env CatEvents ''subscribe_ack_tx'' sid eid (hdr_client_id hdr) (ucast E_OK) (snd (rt_send env source 30 r2)))"
    unfolding handle_subscribe_request_def Let_def assms(3) prod.case
    unfolding r1_def [symmetric] r1 hdr
    by (simp add: r2_def tx_def granted_seconds_def case_prod_beta)
  have "told r2 = told r" by (simp add: r2_def told1 [symmetric]) (simp add: told_def)
  then have "told (snd (rt_send env source 30 r2)) = told r @ [Out_Send source (sd_frame ?h ?pl) (fst (rt_send env source 30 r2))]"
    by (simp add: rt_send_def Let_def case_prod_beta) (simp add: r2_def tx)
  moreover have "rt_events (snd (rt_send env source 30 r2)) = ev"
    by (simp add: rt_send_def Let_def case_prod_beta emit_def r2_def r1(4))
  ultimately show "\<exists>ok. told (handle_subscribe_request env source hdr sid eid ttl now_ms r) = told r @
      [Out_Send source (sd_frame ?h ?pl) ok]"
    and "rt_events (handle_subscribe_request env source hdr sid eid ttl now_ms r) = ev"
    unfolding eq by auto
qed

definition asks :: "renewal \<Rightarrow> bool" where
  "asks rn \<longleftrightarrow> rn \<in> {Rn_Initial, Rn_Renew, Rn_Retry}"

lemma subscribe_sent:
  assumes "rt_wf (en_cfg env) r" "8 \<le> MaxPayloadSize (en_cfg env)"
    and "tracker_of (rt_sd r) (sid, eid) = Some st" "asks (renewal_of (en_cfg env) now_ms (rt_sd r) st)"
    and "get_provider_address sid (rt_sd r) = Some dest"
  shows "\<exists>sq. (dest, sd_frame (sd_wire (sd_client_id (rt_sd r)) SD_SUBSCRIBE_EVENT 0 sq 8)
      (serialize_subscribe sid eid (st_requested_ttl st))) \<in> set (sent (rt_process_renewals env now_ms r))"
proof -
  let ?sd = "rt_sd r" and ?cfg = "en_cfg env"
  let ?f = "renewal_emit ?cfg now_ms (send_sd_unicast env) ?sd"
  let ?Q = "\<lambda>m. \<exists>sq ok. m = Out_Send dest (sd_frame (sd_wire (sd_client_id ?sd) SD_SUBSCRIBE_EVENT 0 sq 8)
      (serialize_subscribe sid eid (st_requested_ttl st))) ok"
  have sd: "sd_wf ?cfg ?sd" by (rule rt_wf_parts(5) [OF assms(1)])
  have st: "st \<in> set (live (sd_trackers ?sd))" "st_service_id st = sid" "st_event_id st = eid"
    using assms(3) by (auto simp: tracker_of_def t_lookup_def st_key_def dest!: map_of_SomeD)
  have u: "\<exists>ok. told (send_sd_unicast env d (subscribe_message ?sd m st' ttl) w) = told w @
      [Out_Send d (sd_frame (sd_wire (sd_client_id ?sd) m 0 (rt_sd_seq w) 8)
        (serialize_subscribe (st_service_id st') (st_event_id st') ttl)) ok]"
    if "rt_wf ?cfg w" for w :: "('a, 'b) runtime" and d m st' ttl
    using send_sd_unicast_told [OF that, of "serialize_subscribe (st_service_id st') (st_event_id st') ttl" d "sd_client_id ?sd" m 8]
      assms(2) by (simp add: subscribe_message_def)
  have step: "rt_wf ?cfg (?f st' w) \<and> (\<exists>os. told (?f st' w) = told w @ os)" if "rt_wf ?cfg w" for st' w
  proof -
    have "\<exists>os. told (send_sd_unicast env d (subscribe_message ?sd m st' ttl) w) = told w @ os" for d m ttl
      using u [OF that, of d m st' ttl] by blast
    then show ?thesis using rt_wf_sd_unicast [OF that] that by (simp add: renewal_emit_def renewal_message_def)
  qed
  have one: "\<exists>m\<in>set (told (?f st w)). ?Q m" if "rt_wf ?cfg w" for w
    using u [OF that, of dest SD_SUBSCRIBE_EVENT st "st_requested_ttl st"] assms(4,5) st
    by (auto simp: renewal_emit_def renewal_message_def asks_def)
  have "told (rt_process_renewals env now_ms r) = told (fold ?f (live (sd_trackers ?sd)) r)"
    by (simp add: rt_process_renewals_def process_subscription_renewals_run [OF sd])
  moreover have "\<exists>m\<in>set (told (fold ?f (live (sd_trackers ?sd)) r)). ?Q m"
    by (rule fold_tells [where cfg = ?cfg and f = ?f and Q = ?Q and x = st, OF step one assms(1) st(1)])
  moreover have "(d, data) \<in> set (sent_frames os)" if "Out_Send d data ok \<in> set os" for d data ok os
    using that by (induction os rule: sent_frames.induct) auto
  ultimately show ?thesis unfolding frames_told by (metis (no_types, lifting))
qed

lemma subscription_answered:
  assumes "rt_wf (en_cfg env) r" "8 \<le> MaxPayloadSize (en_cfg env)" "MaxPayloadSize (en_cfg env) < 2 ^ 32" "cid \<noteq> 0"
    and "subscribers_of (rt_events r) (sid, eid) = Some m" "m cid \<noteq> None \<or> card (dom m) < MaxSubscribers (en_cfg env)"
    and r'_def: "r' = validate_and_dispatch env source (sd_frame (sd_wire cid SD_SUBSCRIBE_EVENT 0 s 8)
      (serialize_subscribe sid eid ttl)) now_ms r"
  shows "\<exists>sq ok. told r' = told r @ [Out_Send source (sd_frame (sd_wire (rt_client_id r) SD_SUBSCRIBE_ACK E_OK sq 8)
      (serialize_subscribe sid eid (granted_seconds (en_cfg env) ttl))) ok]"
    and "subscribers_of (rt_events r') (sid, eid) = Some (m(cid \<mapsto>
      \<lparr>sb_client_id = cid, sb_addr = source, sb_expiry_ms = subscription_expiry (en_cfg env) ttl now_ms\<rparr>))"
proof -
  let ?hdr = "sd_wire cid SD_SUBSCRIBE_EVENT 0 s 8" and ?cfg = "en_cfg env" and ?pl = "serialize_subscribe sid eid ttl"
  have len: "length ?pl \<le> MaxPayloadSize ?cfg" "8 = length ?pl" using assms(2) by simp_all
  obtain w where w: "only_noted r w" "rt_wf ?cfg w" "r' = handle_sd_message env source ?hdr ?pl now_ms w"
    using sd_frame_received [OF assms(1,4) len(1) assms(3) len(2)] unfolding r'_def by blast
  define w1 where "w1 = rt_debug env CatEvents ''subscribe_rx'' sid eid cid (ucast ttl) w"
  have same: "rt_events w = rt_events r" "rt_client_id w = rt_client_id r" using w(1) by (auto simp: only_noted_def)
  have w1: "rt_events w1 = rt_events r" "told w1 = told r" "rt_wf ?cfg w1" "rt_client_id w1 = rt_client_id r"
    using same told_noted [OF w(1)] w(2) by (simp_all add: w1_def)
  have r': "r' = handle_subscribe_request env source ?hdr sid eid ttl now_ms w1"
    using deserialize_serialize_subscribe [of sid eid ttl "[]"]
    by (simp add: w(3) handle_sd_message_def sd_method_of_def w1_def)
  note g = subscribe_granted [OF rt_wf_parts(7) [OF assms(1)] assms(5,6),
      where lg = "Some (rt_logger w1)" and a = source and ttl = ttl and now_ms = now_ms]
  obtain ev out where s: "subscribe ?cfg (Some (rt_logger w1)) sid eid (hdr_client_id ?hdr) source ttl now_ms (rt_events w1) =
      (E_OK, ev, out)" using g(1) by (cases "subscribe ?cfg (Some (rt_logger w1)) sid eid cid source ttl now_ms (rt_events r)") (simp add: w1)
  note T = subscribe_request_told [OF w1(3) assms(2) s]
  show "\<exists>sq ok. told r' = told r @ [Out_Send source (sd_frame (sd_wire (rt_client_id r) SD_SUBSCRIBE_ACK E_OK sq 8)
      (serialize_subscribe sid eid (granted_seconds ?cfg ttl))) ok]" using T(1) unfolding r' w1(2,4) by blast
  show "subscribers_of (rt_events r') (sid, eid) = Some (m(cid \<mapsto>
      \<lparr>sb_client_id = cid, sb_addr = source, sb_expiry_ms = subscription_expiry ?cfg ttl now_ms\<rparr>))"
    using g(2) s by (simp add: r' T(2) w1(1))
qed

lemma ack_received:
  assumes "rt_wf (en_cfg env) r" "8 \<le> MaxPayloadSize (en_cfg env)" "MaxPayloadSize (en_cfg env) < 2 ^ 32" "cid \<noteq> 0"
    and "tracker_of (rt_sd r) (sid, eid) = Some st" "st_active st"
    and r'_def: "r' = validate_and_dispatch env source (sd_frame (sd_wire cid SD_SUBSCRIBE_ACK E_OK s 8)
      (serialize_subscribe sid eid granted)) now_ms r"
  shows "told r' = told r @ call_ack (sd_callbacks (rt_sd r)) sid eid E_OK granted"
    and "tracker_of (rt_sd r') (sid, eid) = Some (st\<lparr>st_granted_ttl := granted\<rparr>)"
proof -
  let ?hdr = "sd_wire cid SD_SUBSCRIBE_ACK E_OK s 8" and ?cfg = "en_cfg env" and ?pl = "serialize_subscribe sid eid granted"
  have len: "length ?pl \<le> MaxPayloadSize ?cfg" "8 = length ?pl" using assms(2) by simp_all
  obtain w where w: "only_noted r w" "rt_wf ?cfg w" "r' = handle_sd_message env source ?hdr ?pl now_ms w"
    using sd_frame_received [OF assms(1,4) len(1) assms(3) len(2)] unfolding r'_def by blast
  define w1 where "w1 = rt_debug env CatEvents ''subscribe_ack_rx'' sid eid cid (ucast E_OK) w"
  have same: "rt_sd w = rt_sd r" using w(1) by (auto simp: only_noted_def)
  then have w1: "told w1 = told r" using told_noted [OF w(1)] by (simp add: w1_def)
  have r': "r' = (case handle_subscribe_ack ?cfg (Some (rt_logger w1)) sid eid E_OK granted (rt_sd r) of
      (sd, out) \<Rightarrow> emit out (w1\<lparr>rt_sd := sd\<rparr>))"
    using deserialize_serialize_subscribe [of sid eid granted "[]"]
    by (simp add: w(3) handle_sd_message_def sd_method_of_def w1_def [symmetric] Let_def)
      (simp add: w1_def same)
  have "filter (\<lambda>x. \<not> is_notice x) (snd (handle_subscribe_ack ?cfg (Some (rt_logger w1)) sid eid E_OK granted (rt_sd r))) =
      call_ack (sd_callbacks (rt_sd r)) sid eid E_OK granted"
    by (simp add: handle_subscribe_ack_def Let_def case_prod_beta told_calls split: option.split)
  then show "told r' = told r @ call_ack (sd_callbacks (rt_sd r)) sid eid E_OK granted"
    by (simp add: r' case_prod_beta w1)
  show "tracker_of (rt_sd r') (sid, eid) = Some (st\<lparr>st_granted_ttl := granted\<rparr>)"
    using assms(5,6) by (simp add: r' case_prod_beta handle_subscribe_ack_tables(3) [OF rt_wf_parts(5) [OF assms(1)] refl])
qed

lemma renewal_keeps_active:
  assumes "asks (renewal_of cfg now_ms sd st)"
  shows "st_active (renewal_entry cfg now_ms sd st)"
proof -
  have "st_active st" using assms by (auto simp: renewal_of_def asks_def split: if_splits)
  then show ?thesis using assms by (auto simp: renewal_entry_def asks_def)
qed

text \<open>C18: A subscription is granted on both sides: when the renewal loop decides to send a subscribe message,
  it sends it to the provider; a provider that has registered the event and has room for the subscriber
  (or knows it already) records address and expiry, leaves the other subscribers of the event as they
  are and sends one acknowledgement to the subscriber; and when that arrives, the subscription holds the
  granted time to live, and the application is told so, once.\<close>

theorem subscription_handshake:
  assumes consumer: "env_ok cenv" "rt_wf (en_cfg cenv) c" "sd_client_id (rt_sd c) = cid" "cid \<noteq> 0"
      "tracker_of (rt_sd c) (sid, eid) = Some st" "asks (renewal_of (en_cfg cenv) t0 (rt_sd c) st)"
      "get_provider_address sid (rt_sd c) = Some dest"
    and provider: "rt_wf (en_cfg penv) p" "rt_client_id p \<noteq> 0" "subscribers_of (rt_events p) (sid, eid) = Some m"
      "m cid \<noteq> None \<or> card (dom m) < MaxSubscribers (en_cfg penv)"
    and fits: "8 \<le> MaxPayloadSize (en_cfg penv)" "MaxPayloadSize (en_cfg penv) < 2 ^ 32"
      "8 \<le> MaxPayloadSize (en_cfg cenv)" "MaxPayloadSize (en_cfg cenv) < 2 ^ 32"
    and c1_def: "c1 = rt_process_renewals cenv t0 c"
    and granted: "granted = granted_seconds (en_cfg penv) (st_requested_ttl st)"
  shows "\<exists>f g. (dest, f) \<in> set (sent c1) \<and> sent (validate_and_dispatch penv caddr f t1 p) = sent p @ [(caddr, g)] \<and>
    subscribers_of (rt_events (validate_and_dispatch penv caddr f t1 p)) (sid, eid) = Some (m(cid \<mapsto>
      \<lparr>sb_client_id = cid, sb_addr = caddr,
       sb_expiry_ms = subscription_expiry (en_cfg penv) (st_requested_ttl st) t1\<rparr>)) \<and>
    map_option st_granted_ttl (tracker_of (rt_sd (validate_and_dispatch cenv paddr g t2 c1)) (sid, eid)) = Some granted \<and>
    told (validate_and_dispatch cenv paddr g t2 c1) =
      told c1 @ call_ack (sd_callbacks (rt_sd c)) sid eid E_OK granted"
proof -
  let ?ttl = "st_requested_ttl st"
  obtain s where f: "(dest, sd_frame (sd_wire cid SD_SUBSCRIBE_EVENT 0 s 8) (serialize_subscribe sid eid ?ttl)) \<in> set (sent c1)"
    using subscribe_sent [OF consumer(2) fits(3) consumer(5,6,7)] unfolding c1_def consumer(3) by blast
  let ?f = "sd_frame (sd_wire cid SD_SUBSCRIBE_EVENT 0 s 8) (serialize_subscribe sid eid ?ttl)"
  note A = subscription_answered [OF provider(1) fits(1,2) consumer(4) provider(3,4) refl, of caddr s ?ttl t1]
  obtain sq ok where g: "told (validate_and_dispatch penv caddr ?f t1 p) = told p @
      [Out_Send caddr (sd_frame (sd_wire (rt_client_id p) SD_SUBSCRIBE_ACK E_OK sq 8) (serialize_subscribe sid eid granted)) ok]"
    using A(1) unfolding granted by blast
  let ?g = "sd_frame (sd_wire (rt_client_id p) SD_SUBSCRIBE_ACK E_OK sq 8) (serialize_subscribe sid eid granted)"
  have wf1: "rt_wf (en_cfg cenv) c1" unfolding c1_def by (rule rt_wf_process_loops(2)) (use consumer in simp_all)
  note sd = rt_wf_parts(5) [OF consumer(2)]
  have sd1: "rt_sd c1 = (rt_sd c)\<lparr>sd_trackers := map_slots (renewal_entry (en_cfg cenv) t0 (rt_sd c)) (sd_trackers (rt_sd c))\<rparr>"
    by (simp add: c1_def rt_process_renewals_def process_subscription_renewals_run [OF sd])
  have "rt_sd c1 = fst (process_subscription_renewals (en_cfg cenv) t0 (send_sd_unicast cenv) (rt_sd c) c)"
    by (simp add: c1_def rt_process_renewals_def case_prod_beta)
  then have tr: "tracker_of (rt_sd c1) (sid, eid) = Some (renewal_entry (en_cfg cenv) t0 (rt_sd c) st)"
    using consumer(5) by (simp add: process_subscription_renewals_wf(2) [OF sd])
  note R = ack_received [OF wf1 fits(3,4) provider(2) tr renewal_keeps_active [OF consumer(6)] refl, of paddr sq granted t2]
  show ?thesis
    using f g A(2) R by (intro exI [of _ ?f] exI [of _ ?g] conjI) (simp_all add: frames_told sd1)
qed

definition demo_subscriber :: "(nat, nat) runtime" where
  "demo_subscriber = demo_rt\<lparr>rt_sd := (sd_apply EmbeddedConfig (Op_Subscribe 0x1000 0x8001 5 100) demo_sd)\<lparr>sd_client_id := 7\<rparr>\<rparr>"

definition demo_publisher :: "(nat, nat) runtime" where
  "demo_publisher = rt_apply demo_env (Do_Register_Event 0x1000 0x8001) demo_rt"

lemma demo_subscription_wf: "rt_wf EmbeddedConfig demo_subscriber" "rt_wf EmbeddedConfig demo_publisher"
proof -
  have "sd_wf EmbeddedConfig (sd_apply EmbeddedConfig (Op_Subscribe 0x1000 0x8001 5 100) demo_sd)"
    by (rule sd_reach_wf) (intro sd_step demo_reach)
  then show "rt_wf EmbeddedConfig demo_subscriber"
    unfolding demo_subscriber_def by (intro rt_wf_set(5)) simp_all
  show "rt_wf EmbeddedConfig demo_publisher"
    using rt_wf_apply [OF demo_env_ok, of demo_rt "Do_Register_Event 0x1000 0x8001"]
    by (simp add: demo_publisher_def del: rt_apply.simps)
qed

theorem subscription_handshake_witness:
  "\<exists>f g. ([9], f) \<in> set (sent (rt_process_renewals demo_env 110 demo_subscriber)) \<and>
     sent (validate_and_dispatch demo_env [1] f 120 demo_publisher) = sent demo_publisher @ [([1], g)] \<and>
     map_option st_granted_ttl (tracker_of (rt_sd (validate_and_dispatch demo_env [2] g 130
       (rt_process_renewals demo_env 110 demo_subscriber))) (0x1000, 0x8001)) = Some 5"
proof -
  have "map_option (\<lambda>st. (asks (renewal_of EmbeddedConfig 110 (rt_sd demo_subscriber) st), st_requested_ttl st))
      (tracker_of (rt_sd demo_subscriber) (0x1000, 0x8001)) = Some (True, 5)" by code_simp
  then obtain st where st: "tracker_of (rt_sd demo_subscriber) (0x1000, 0x8001) = Some st"
    "asks (renewal_of EmbeddedConfig 110 (rt_sd demo_subscriber) st)" "st_requested_ttl st = 5" by auto
  have "get_provider_address 0x1000 (rt_sd demo_subscriber) = Some [9]" "sd_client_id (rt_sd demo_subscriber) = 7"
    "rt_client_id demo_publisher = 7"
    by code_simp+
  moreover have "subscribers_of (rt_events demo_publisher) (0x1000, 0x8001) = Some Map.empty"
  proof -
    have e: "rt_events demo_publisher = fst (snd (register_event EmbeddedConfig (Some (rt_logger demo_rt)) 0x1000 0x8001 (rt_events demo_rt)))"
      by (simp add: demo_publisher_def rt_register_event_def case_prod_beta emit_def)
    have "subscribers_of (rt_events demo_rt) (0x1000, 0x8001) = None" "used (rt_events demo_rt) < MAX_EVENTS EmbeddedConfig"
      by code_simp+
    then show ?thesis unfolding e by (simp add: register_event_refines [OF rt_wf_parts(7) [OF demo_wf]])
  qed
  moreover have "8 \<le> MaxPayloadSize EmbeddedConfig" "MaxPayloadSize EmbeddedConfig < 2 ^ 32"
    "0 < MaxSubscribers EmbeddedConfig"
    by (simp_all add: EmbeddedConfig_def)
  ultimately show ?thesis
    using subscription_handshake [OF demo_env_ok, where penv = demo_env and c = demo_subscriber and p = demo_publisher
        and sid = "0x1000" and eid = "0x8001" and ?t0.0 = 110 and ?t1.0 = 120 and ?t2.0 = 130 and caddr = "[1]" and paddr = "[2]"
        and dest = "[9]" and cid = 7 and m = Map.empty and st = st and granted = 5
        and ?c1.0 = "rt_process_renewals demo_env 110 demo_subscriber"] demo_subscription_wf st
    by (auto simp: granted_seconds_def)
qed

end
