(* ===== verification/Event_Properties.thy ===== *)
theory Event_Properties
  imports Request_Properties
begin

text \<open>
  Events over two runtimes: what the provider publishes reaches the handlers of its subscribers.
\<close>

section \<open>The frames of a notification\<close>

lemma notification_frames_nth:
  "j < length ds \<Longrightarrow> notification_frames sid eid payload keys sq ds ! j =
     (ds ! j, notification_frame (ds ! j) sid eid payload (sq + of_nat j) keys)"
proof (induction ds arbitrary: j sq)
  case (Cons d ds)
  then show ?case by (cases j) (simp_all add: ac_simps)
qed simp

lemma notification_frames_dests: "map fst (notification_frames sid eid payload keys sq ds) = ds"
  by (induction ds arbitrary: sq) simp_all

lemma told_event:
  assumes "handlers_wf cfg (rt_handlers c)" "handler_lookup (rt_handlers c) (hdr_service_id hdr, hdr_method_event_id hdr) = Some h"
    and "eh_context h = Some ctx"
  shows "told (handle_notification env hdr payload c) =
    told c @ [Out_Event ctx (hdr_service_id hdr) (hdr_method_event_id hdr) payload]"
proof -
  define c1 where "c1 = rt_debug env CatEvents ''notification_rx'' (hdr_service_id hdr) (hdr_method_event_id hdr)
    (hdr_client_id hdr) (of_nat (length payload)) c"
  have "told c1 = told c" unfolding c1_def by (rule told_noted) (rule only_noted_logs)
  then show ?thesis
    using find_handler_lookup [OF assms(1)] assms(2,3)
    by (simp add: handle_notification_def c1_def [symmetric])
qed

lemma notification_received:
  assumes sender: "rt_wf cfg r" "length payload < 2 ^ 32"
    and id: "sid \<noteq> SD_SERVICE_ID" "is_event_id eid"
    and c: "rt_wf (en_cfg env) c" "length payload \<le> MaxPayloadSize (en_cfg env)" "MaxPayloadSize (en_cfg env) < 2 ^ 32"
    and handler: "handler_lookup (rt_handlers c) (sid, eid) = Some h" "eh_context h = Some ctx"
    and keys: "keys_agree (rt_auth r) dest (rt_auth c) peer"
      "has_key dest (rt_auth r) \<or>
       (\<forall>se. service_lookup (rt_dispatcher c) sid = Some se \<longrightarrow> \<not> se_auth_required se)"
    and sq: "seq_verdict (en_cfg env) (used (e2e_peers (rt_e2e c)) < MaxTrackedPeers (en_cfg env))
      (last_seen (rt_e2e c) peer) sq \<in> {Accept, FirstSeen, TableFull}"
  shows "told (validate_and_dispatch env peer (notification_frame dest sid eid payload sq (rt_auth r)) now_ms c) =
    told c @ [Out_Event ctx sid eid payload]"
proof -
  let ?hdr = "notification_header dest sid eid (length payload) sq (rt_auth r)"
  let ?f = "notification_frame dest sid eid payload sq (rt_auth r)"
  have hs: "hdr_service_id ?hdr = sid" "hdr_method_event_id ?hdr = eid" "hdr_sequence_counter ?hdr = sq"
    "hdr_payload_length ?hdr = of_nat (length payload)" "hdr_message_type ?hdr = message_type_code NOTIFICATION"
    by (simp_all add: notification_header_def)
  have mt: "message_type_of (message_type_code NOTIFICATION) = Some NOTIFICATION" by (simp add: message_type_of_def)
  have h: "header_ok ?hdr" "has_auth ?hdr \<longleftrightarrow> has_key dest (rt_auth r)"
    using id mt by (simp_all add: header_ok_def notification_header_def has_auth_def FLAG_AUTH_def
        validate_type_id_consistency_def validate_client_id_def is_valid_message_type_def)
  have f: "?f = frame_of (rt_auth r) ?hdr payload (has_key dest (rt_auth r)) dest" by (simp add: notification_frame_def)
  then have "deserialize ?f = ?hdr" by (simp add: frame_of_header)
  then have "seq_ok (en_cfg env) peer ?f c" using sq by (simp add: seq_ok_def hs)
  note B = built_frame_accepted [OF rt_wf_parts(2) [OF sender(1)] rt_wf_parts(2) [OF c(1)] keys(1) h hs(4) c(2,3) f this]
  have acc: "accepted (en_cfg env) peer ?f c" "deserialize ?f = ?hdr" "frame_payload ?f = payload"
    using B keys(2) by (auto simp: hs)
  then obtain c' where c': "only_noted c c'" "rt_wf (en_cfg env) c'"
    "validate_and_dispatch env peer ?f now_ms c = dispatch_message env peer ?hdr payload now_ms c'"
    using pipeline [OF c(1), of peer ?f now_ms] by auto
  have "rt_handlers c' = rt_handlers c" using c'(1) by (auto simp: only_noted_def)
  then show ?thesis
    using told_event [OF rt_wf_parts(9) [OF c'(2)], of ?hdr h ctx env payload] handler id(1) told_noted [OF c'(1)]
    by (simp add: c'(3) dispatch_message_def hs message_type_of_def)
qed

text \<open>C16: A published event reaches its subscribers: one frame per live subscriber is handed to the
  transport, in table order, and when the runtime of a subscriber receives its frame (with room for the
  payload, agreeing keys and a counter it accepts, where the counters of the frames are consecutive), it
  calls its handler for the event once, with the payload that was published.\<close>

theorem event_reaches_subscribers:
  assumes provider: "rt_wf (en_cfg penv) r" "sendable (en_cfg penv) p n" "sid \<noteq> SD_SERVICE_ID" "is_event_id eid"
    and "event_lookup (rt_events r) (sid, eid) = Some ev" "j < length (live (ev_subs ev))" "dest = sb_addr (live (ev_subs ev) ! j)"
    and consumer: "rt_wf (en_cfg env) c" "n \<le> MaxPayloadSize (en_cfg env)" "MaxPayloadSize (en_cfg env) < 2 ^ 32"
    and handler: "handler_lookup (rt_handlers c) (sid, eid) = Some h" "eh_context h = Some ctx"
    and keys: "keys_agree (rt_auth r) dest (rt_auth c) peer"
      "has_key dest (rt_auth r) \<or>
       (\<forall>se. service_lookup (rt_dispatcher c) sid = Some se \<longrightarrow> \<not> se_auth_required se)"
    and sq: "seq_verdict (en_cfg env) (used (e2e_peers (rt_e2e c)) < MaxTrackedPeers (en_cfg env))
      (last_seen (rt_e2e c) peer) (e2e_tx_seq (rt_e2e r) + of_nat j) \<in> {Accept, FirstSeen, TableFull}"
  shows "\<exists>fs. fst (notify_event penv sid eid p n r) \<and>
    sent (snd (notify_event penv sid eid p n r)) = sent r @ fs \<and>
    map fst fs = map sb_addr (live (ev_subs ev)) \<and>
    told (validate_and_dispatch env peer (snd (fs ! j)) now_ms c) = told c @ [Out_Event ctx sid eid (payload_bytes p n)]"
proof -
  let ?fs = "notification_frames sid eid (payload_bytes p n) (rt_auth r) (e2e_tx_seq (rt_e2e r)) (map sb_addr (live (ev_subs ev)))"
  have len: "length (payload_bytes p n) = n" by (rule length_payload_bytes [OF provider(2)])
  have "0 < used (ev_subs ev)" using assms(6) by (auto simp: live_def)
  note N = notify_event_sent [OF provider(1,2) assms(5) this]
  have "snd (?fs ! j) = notification_frame dest sid eid (payload_bytes p n) (e2e_tx_seq (rt_e2e r) + of_nat j) (rt_auth r)"
    using assms(6,7) by (simp add: notification_frames_nth)
  moreover have "length (payload_bytes p n) < 2 ^ 32" using len consumer(2,3) by simp
  ultimately show ?thesis
    using N notification_received [OF provider(1) _ provider(3,4) consumer(1) _ consumer(3) handler keys sq,
        where payload = "payload_bytes p n" and now_ms = now_ms] len consumer(2)
    by (intro exI [of _ ?fs]) (simp add: notification_frames_dests)
qed

definition demo_events :: EventManager where
  "demo_events = fst (snd (subscribe EmbeddedConfig None 0x1000 0x8001 9 [2] 5 100
     (fst (snd (register_event EmbeddedConfig None 0x1000 0x8001 (events_init EmbeddedConfig))))))"

definition demo_handlers :: EventHandlers where
  "demo_handlers = handler_put EmbeddedConfig 4 (0x1000, 0x8001) (handlers_init EmbeddedConfig)"

theorem event_reaches_subscribers_witness:
  "\<exists>f. sent (snd (notify_event demo_env 0x1000 0x8001 (Some [1, 2, 3]) 3 (demo_rt\<lparr>rt_events := demo_events\<rparr>))) =
      sent demo_rt @ [([2], f)] \<and>
    told (validate_and_dispatch demo_env [1] f 200 (demo_rt\<lparr>rt_handlers := demo_handlers\<rparr>)) =
      told demo_rt @ [Out_Event 4 0x1000 0x8001 [1, 2, 3]]"
proof -
  let ?r = "demo_rt\<lparr>rt_events := demo_events\<rparr>" and ?c = "demo_rt\<lparr>rt_handlers := demo_handlers\<rparr>"
  have "events_wf EmbeddedConfig demo_events"
    unfolding demo_events_def by (intro subscribe_refines(1) register_event_refines(1) events_wf_init)
  then have wf: "rt_wf EmbeddedConfig ?r" by (simp add: rt_wf_set)
  have "handlers_wf EmbeddedConfig demo_handlers" unfolding demo_handlers_def by (rule handlers.put_inv) simp
  then have wf': "rt_wf EmbeddedConfig ?c" by (simp add: rt_wf_set)
  have "map_option (\<lambda>ev. map sb_addr (live (ev_subs ev))) (event_lookup demo_events (0x1000, 0x8001)) = Some [[2]]"
    by code_simp
  then obtain ev where ev: "event_lookup demo_events (0x1000, 0x8001) = Some ev" "map sb_addr (live (ev_subs ev)) = [[2]]"
    by auto
  then have ln: "length (live (ev_subs ev)) = 1" by (metis One_nat_def length_Cons length_map list.size(3))
  then have d: "sb_addr (live (ev_subs ev) ! 0) = [2]"
    using nth_map [of 0 "live (ev_subs ev)" sb_addr] ev(2) by simp
  have "map_option eh_context (handler_lookup demo_handlers (0x1000, 0x8001)) = Some (Some 4)" by code_simp
  then obtain h where h: "handler_lookup demo_handlers (0x1000, 0x8001) = Some h" "eh_context h = Some 4" by auto
  have k: "keys_agree (rt_auth demo_rt) [2] (rt_auth demo_rt) [1]" "service_lookup (rt_dispatcher demo_rt) 0x1000 = None"
    by code_simp+
  have v: "seq_verdict EmbeddedConfig (used (e2e_peers (rt_e2e demo_rt)) < MaxTrackedPeers EmbeddedConfig)
      (last_seen (rt_e2e demo_rt) [1]) (e2e_tx_seq (rt_e2e demo_rt)) = FirstSeen" by code_simp
  have m: "3 \<le> MaxPayloadSize EmbeddedConfig" "MaxPayloadSize EmbeddedConfig < 2 ^ 32" by (simp_all add: EmbeddedConfig_def)
  obtain fs where "sent (snd (notify_event demo_env 0x1000 0x8001 (Some [1, 2, 3]) 3 ?r)) = sent demo_rt @ fs"
    "map fst fs = [[2]]" "told (validate_and_dispatch demo_env [1] (snd (fs ! 0)) 200 ?c) =
      told demo_rt @ [Out_Event 4 0x1000 0x8001 [1, 2, 3]]"
    using event_reaches_subscribers [where penv = demo_env and r = ?r and p = "Some [1, 2, 3]" and n = 3
        and sid = "0x1000" and eid = "0x8001" and ev = ev and j = 0 and dest = "sb_addr (live (ev_subs ev) ! 0)" and env = demo_env and c = ?c
        and h = h and ctx = 4 and peer = "[1]" and now_ms = 200, OF _ _ _ _ _ _ refl] wf wf' ev h k v m ln
    unfolding d
    by (auto simp: sendable_def payload_bytes_def SD_SERVICE_ID_def is_event_id_def told_def sent_def)
  then show ?thesis by (cases fs) auto
qed

end
