(* ===== verification/Frame_Typing.thy ===== *)
theory Frame_Typing
  imports Sd_Frames
begin

text \<open>
  Everything a runtime hands to its transport is a frame of the protocol: it passes the checks of a
  receiver that do not depend on the receiver's state (steps 1 to 7), or is the empty datagram that an
  oversized payload leaves.  The predicate \<open>typed\<close> on runtimes says so of all outputs made so far and
  fixes the client id; each operation keeps it.  A policy \<open>P\<close> on headers and payloads goes with it: what a runtime
  may say when its messages are those the application asks for and its replies answer requests it has heard, and
  what it may tell its application when it hears only what the policy allows.
\<close>

section \<open>Typed outputs\<close>

type_synonym policy = "MessageHeader \<Rightarrow> bytes \<Rightarrow> bool"

text \<open>An event handler and a service are called for messages that the policy allows.\<close>

definition told_event :: "policy \<Rightarrow> u16 \<Rightarrow> u16 \<Rightarrow> bytes \<Rightarrow> bool" where
  "told_event P sid eid payload \<longleftrightarrow> (\<exists>h. message_type_of (hdr_message_type h) = Some NOTIFICATION \<and>
     hdr_service_id h = sid \<and> hdr_method_event_id h = eid \<and> P h payload)"

definition told_call :: "policy \<Rightarrow> u16 \<Rightarrow> bytes \<Rightarrow> bool" where
  "told_call P mid payload \<longleftrightarrow> (\<exists>h. message_type_of (hdr_message_type h) \<in> {Some REQUEST, Some REQUEST_NO_RETURN} \<and>
     hdr_service_id h \<noteq> SD_SERVICE_ID \<and> hdr_method_event_id h = mid \<and> P h payload)"

definition frame_typed :: "config \<Rightarrow> policy \<Rightarrow> bytes \<Rightarrow> bool" where
  "frame_typed cfg P f \<longleftrightarrow> f = [] \<or> wire_ok cfg f \<and> P (deserialize f) (frame_payload f)"

fun effect_typed :: "config \<Rightarrow> policy \<Rightarrow> effect \<Rightarrow> bool" where
  "effect_typed cfg P (Out_Send dest f ok) = frame_typed cfg P f"
| "effect_typed cfg P (Out_Broadcast f ok) = frame_typed cfg P f"
| "effect_typed cfg P (Out_Event ctx sid eid payload) = told_event P sid eid payload"
| "effect_typed cfg P (Out_Service_Call ctx mid payload) = told_call P mid payload"
| "effect_typed cfg P _ = True"

abbreviation outs_typed :: "config \<Rightarrow> policy \<Rightarrow> effect list \<Rightarrow> bool" where
  "outs_typed cfg P \<equiv> list_all (effect_typed cfg P)"

definition typed :: "config \<Rightarrow> policy \<Rightarrow> u16 \<Rightarrow> ('t, 'a) runtime \<Rightarrow> bool" where
  "typed cfg P c r \<longleftrightarrow> rt_client_id r = c \<and> sd_client_id (rt_sd r) = c \<and> outs_typed cfg P (rt_out r)"

lemma outs_frames: "outs_typed cfg P os \<Longrightarrow> list_all (frame_typed cfg P) (map snd (sent_frames os) @ broadcast_frames os)"
proof (induction os)
  case (Cons x os)
  then show ?case by (cases x) auto
qed simp

lemma typed_frames:
  assumes "typed cfg P c r" "f \<in> set (map snd (sent r) @ broadcasts r)"
  shows "frame_typed cfg P f"
proof -
  have "list_all (frame_typed cfg P) (map snd (sent r) @ broadcasts r)"
    using assms(1) outs_frames unfolding typed_def sent_def broadcasts_def by blast
  then show ?thesis using assms(2) unfolding list_all_iff by blast
qed

lemma typed_emit [simp]: "typed cfg P c (emit os r) \<longleftrightarrow> typed cfg P c r \<and> outs_typed cfg P os"
  by (auto simp: typed_def emit_def)

lemma typed_free [simp]:
  "typed cfg P c (r\<lparr>rt_transport := t\<rparr>) = typed cfg P c r" "typed cfg P c (r\<lparr>rt_app := a\<rparr>) = typed cfg P c r"
  "typed cfg P c (r\<lparr>rt_local_addr := ad\<rparr>) = typed cfg P c r" "typed cfg P c (r\<lparr>rt_logger := l\<rparr>) = typed cfg P c r"
  "typed cfg P c (r\<lparr>rt_e2e := e\<rparr>) = typed cfg P c r" "typed cfg P c (r\<lparr>rt_sd_seq := s\<rparr>) = typed cfg P c r"
  "typed cfg P c (r\<lparr>rt_auth := k\<rparr>) = typed cfg P c r" "typed cfg P c (r\<lparr>rt_diag := d\<rparr>) = typed cfg P c r"
  "typed cfg P c (r\<lparr>rt_dtcs := dt\<rparr>) = typed cfg P c r" "typed cfg P c (r\<lparr>rt_diag_service := ds\<rparr>) = typed cfg P c r"
  "typed cfg P c (r\<lparr>rt_diag_enabled := b\<rparr>) = typed cfg P c r" "typed cfg P c (r\<lparr>rt_uptime_ms := u\<rparr>) = typed cfg P c r"
  "typed cfg P c (r\<lparr>rt_uptime_epoch_ms := u\<rparr>) = typed cfg P c r" "typed cfg P c (r\<lparr>rt_uptime_started := b\<rparr>) = typed cfg P c r"
  "typed cfg P c (r\<lparr>rt_dispatcher := dp\<rparr>) = typed cfg P c r" "typed cfg P c (r\<lparr>rt_events := ev\<rparr>) = typed cfg P c r"
  "typed cfg P c (r\<lparr>rt_requests := rq\<rparr>) = typed cfg P c r" "typed cfg P c (r\<lparr>rt_tx_buffer := tx\<rparr>) = typed cfg P c r"
  "typed cfg P c (r\<lparr>rt_response_buffer := rb\<rparr>) = typed cfg P c r" "typed cfg P c (r\<lparr>rt_handlers := h\<rparr>) = typed cfg P c r"
  by (simp_all add: typed_def)

lemma typed_sd [simp]:
  "sd_client_id sd = sd_client_id (rt_sd r) \<Longrightarrow> typed cfg P c (r\<lparr>rt_sd := sd\<rparr>) = typed cfg P c r"
  by (simp add: typed_def)

lemma typed_ids: "typed cfg P c r \<Longrightarrow> rt_client_id r = c" "typed cfg P c r \<Longrightarrow> sd_client_id (rt_sd r) = c"
  by (simp_all add: typed_def)

section \<open>Components that send nothing\<close>

lemma visible_typed: "visible os = [] \<Longrightarrow> outs_typed cfg P os"
proof (induction os)
  case (Cons x os)
  then show ?case by (cases x) (auto simp: visible_def)
qed simp

lemma outs_typed_log_at [simp]: "outs_typed cfg' P (log_at cfg lg level category tag sid mid cid extra)"
  by (rule visible_typed) simp

lemma outs_typed_logs [simp]:
  "outs_typed cfg' P (log_trace cfg lg c t s m i x)" "outs_typed cfg' P (log_debug cfg lg c t s m i x)"
  "outs_typed cfg' P (log_info cfg lg c t s m i x)" "outs_typed cfg' P (log_warn cfg lg c t s m i x)"
  "outs_typed cfg' P (log_error cfg lg c t s m i x)"
  by (simp_all add: log_defs)

lemma outs_typed_if_logger [simp]: "(\<And>l. outs_typed cfg P (f l)) \<Longrightarrow> outs_typed cfg P (if_logger f lg)"
  by (simp add: if_logger_def split: option.split)

lemma outs_typed_calls [simp]:
  "outs_typed cfg P (call_lost cb sid)" "outs_typed cfg P (call_found cb sid a)" "outs_typed cfg P (call_ack cb sid eid rc ttl)"
  "outs_typed cfg P (call_done e rc p)"
  by (simp_all add: call_lost_def call_found_def call_ack_def call_done_def split: option.split)

lemma outs_typed_tables [simp]:
  "outs_typed cfg' P (snd (snd (validate_sequence cfg lg source s e)))"
  "outs_typed cfg' P (snd (reset_peer cfg lg source e))"
  "outs_typed cfg' P (snd (auth_verify cfg lg h p peer mac k))"
  "outs_typed cfg' P (snd (snd (set_key cfg lg peer key k)))"
  "outs_typed cfg' P (snd (increment ctr hdr d))"
  "outs_typed cfg' P (snd (snd (register_service cfg lg se dp)))"
  "outs_typed cfg' P (snd (snd (unregister_service cfg lg sid dp)))"
  "outs_typed cfg' P (snd (snd (register_event cfg lg sid eid ev)))"
  "outs_typed cfg' P (snd (snd (subscribe cfg lg sid eid cid a ttl now_ms ev)))"
  "outs_typed cfg' P (snd (unsubscribe cfg lg sid eid cid ev))"
  "outs_typed cfg' P (snd (snd (allocate cfg lg sid mid timeout now_ms cb ctx t)))"
  "outs_typed cfg' P (snd (snd (complete cfg lg rid rc pl t)))"
  by (simp_all add: validate_sequence_def reset_peer_def auth_verify_def set_key_def increment_def
      register_service_def unregister_service_def register_event_def subscribe_def subscribe_slot_def
      unsubscribe_def allocate_def complete_def Let_def case_prod_beta split: option.split)

lemma outs_typed_evict [simp]: "outs_typed cfg' P (snd (evict_expired_requests cfg lg now_ms t))"
proof -
  have "outs_typed cfg' P (snd (fold (evict_slot cfg lg now_ms) xs to))" if "outs_typed cfg' P (snd to)" for xs to
    using that
    by (induction xs arbitrary: to) (auto simp: evict_slot_def Let_def case_prod_beta split: option.split)
  then show ?thesis by (simp add: evict_expired_requests_def case_prod_beta)
qed

lemma outs_typed_diagnostics [simp]:
  "outs_typed cfg' P (snd (snd (snd (snd (diag_on_request cfg lg ds ctr disp u ready mid p resp rlen dtcs)))))"
  by (cases "diag_method_of mid")
    (simp_all add: diag_on_request_def case_prod_beta Let_def split: DiagMethod.split)

lemma discovery_typed [simp]:
  "outs_typed cfg' P (snd (snd (sd_offer cfg lg sid major minor ttl now_ms sd)))"
  "outs_typed cfg' P (snd (sd_stop_offer cfg lg sid sd))"
  "outs_typed cfg' P (snd (snd (sd_find cfg lg sid major now_ms sd)))"
  "outs_typed cfg' P (snd (handle_offer cfg lg sid major ttl session a now_ms sd))"
  "outs_typed cfg' P (snd (handle_subscribe_ack cfg lg sid eid rc ttl sd))"
  by (simp_all add: sd_offer_def sd_stop_offer_def sd_find_def handle_offer_def handle_subscribe_ack_def
      Let_def case_prod_beta split: option.split)

lemma discovery_client [simp]:
  "sd_client_id (fst (snd (sd_offer cfg lg sid major minor ttl now_ms sd))) = sd_client_id sd"
  "sd_client_id (fst (sd_stop_offer cfg lg sid sd)) = sd_client_id sd"
  "sd_client_id (fst (snd (sd_find cfg lg sid major now_ms sd))) = sd_client_id sd"
  "sd_client_id (snd (sd_subscribe_event cfg sid eid ttl now_ms sd)) = sd_client_id sd"
  "sd_client_id (snd (sd_unsubscribe_event sid eid sd)) = sd_client_id sd"
  "sd_client_id (fst (handle_offer cfg lg sid major ttl session a now_ms sd)) = sd_client_id sd"
  "sd_client_id (fst (handle_subscribe_ack cfg lg sid eid rc ttl sd)) = sd_client_id sd"
  by (simp_all add: sd_offer_def sd_stop_offer_def sd_find_def sd_subscribe_event_def sd_unsubscribe_event_def
      handle_offer_def handle_subscribe_ack_def flag_resubscribe_def Let_def case_prod_beta split: option.split)

section \<open>Operations that send nothing\<close>

lemma typed_steps [simp]:
  "typed cfg P c (rt_trace env ct tag s m i x r) = typed cfg P c r" "typed cfg P c (rt_debug env ct tag s m i x r) = typed cfg P c r"
  "typed cfg P c (rt_info env ct tag s m i x r) = typed cfg P c r" "typed cfg P c (rt_warn env ct tag s m i x r) = typed cfg P c r"
  "typed cfg P c (rt_error env ct tag s m i x r) = typed cfg P c r" "typed cfg P c (diag_increment d h r) = typed cfg P c r"
  "typed cfg P c (snd (rt_next_sequence r)) = typed cfg P c r" "typed cfg P c (rt_reset_peer env a r) = typed cfg P c r"
  "typed cfg P c (snd (rt_validate_seq env a sq r)) = typed cfg P c r" "typed cfg P c (rt_complete env rid rc p r) = typed cfg P c r"
  by (simp_all add: rt_trace_def rt_debug_def rt_info_def rt_warn_def rt_error_def diag_increment_def
      rt_next_sequence_def rt_reset_peer_def rt_validate_seq_def rt_complete_def case_prod_beta)

lemma typed_build [simp]: "typed cfg P c (snd (build_message cfg' hdr p n auth peer r)) = typed cfg P c r"
  by (subst build_message_frame) simp

lemma typed_service_call [simp]:
  "told_call P mid p \<Longrightarrow>
   typed cfg P c (snd (snd (snd (entry_call (service_call env) se mid p resp rlen r)))) = typed cfg P c r"
  by (simp add: entry_call_def service_call_def case_prod_beta split: option.split service_ctx.split)

lemma typed_dispatch [simp]:
  "told_call P mid p \<Longrightarrow>
   typed cfg P c (snd (snd (snd (dispatch cfg' lg ready (service_call env) emit sid mid p resp rlen t r)))) = typed cfg P c r"
  by (simp add: dispatch_def case_prod_beta split: option.split)

lemma typed_handlers [simp]:
  "told_call P (hdr_method_event_id hdr) payload \<Longrightarrow>
   typed cfg P c (handle_fire_and_forget env hdr payload r) = typed cfg P c r"
  "told_event P (hdr_service_id hdr) (hdr_method_event_id hdr) payload \<Longrightarrow>
   typed cfg P c (handle_notification env hdr payload r) = typed cfg P c r"
  "typed cfg P c (handle_response env hdr payload r) = typed cfg P c r"
  "typed cfg P c (handle_error env hdr payload r) = typed cfg P c r"
  "typed cfg P c (handle_sd_offer env hdr f now_ms r) = typed cfg P c r"
  by (simp_all add: handle_fire_and_forget_def handle_notification_def handle_response_def handle_error_def
      handle_sd_offer_def Let_def case_prod_beta split: option.split)

lemma typed_checks [simp]:
  "typed cfg P c (snd (check_sequence env source data hdr r)) = typed cfg P c r"
  "typed cfg P c (snd (check_auth env source data hdr r)) = typed cfg P c r"
proof -
  obtain v r' where v: "rt_validate_seq env source (hdr_sequence_counter hdr) r = (v, r')" by fastforce
  have "typed cfg P c r' = typed cfg P c r" using typed_steps(9) [of cfg P c env source "hdr_sequence_counter hdr" r] v by simp
  then show "typed cfg P c (snd (check_sequence env source data hdr r)) = typed cfg P c r"
    by (simp add: check_sequence_def v split: SeqResult.split)
  show "typed cfg P c (snd (check_auth env source data hdr r)) = typed cfg P c r"
    by (simp add: check_auth_def Let_def case_prod_beta split: option.split)
qed

lemma typed_services [simp]:
  "typed cfg P c (snd (rt_register_service env sid svc major minor auth r)) = typed cfg P c r"
  "typed cfg P c (snd (rt_unregister_service env sid r)) = typed cfg P c r"
  "typed cfg P c (snd (rt_register_event env sid eid r)) = typed cfg P c r"
  "typed cfg P c (snd (offer_service env sid ttl now_ms r)) = typed cfg P c r"
  "typed cfg P c (stop_offer env sid r) = typed cfg P c r"
  "typed cfg P c (snd (find_service env sid mj now_ms r)) = typed cfg P c r"
  "typed cfg P c (snd (set_hmac_key env peer key r)) = typed cfg P c r"
  by (simp_all add: rt_register_service_def rt_unregister_service_def rt_register_event_def offer_service_def
      stop_offer_def find_service_def set_hmac_key_def case_prod_beta split: option.split)

lemma typed_settings [simp]:
  "typed cfg P c (set_local_address a r) = typed cfg P c r" "typed cfg P c (set_sd_callbacks cb r) = typed cfg P c r"
  "typed cfg P c (set_diagnostic_callback f ctx r) = typed cfg P c r" "typed cfg P c (set_log_callback f ctx r) = typed cfg P c r"
  "typed cfg P c (snd (subscribe_event env sid eid h ttl now_ms r)) = typed cfg P c r"
  "typed cfg P c (snd (unsubscribe_event sid eid r)) = typed cfg P c r"
  by (simp_all add: set_local_address_def set_sd_callbacks_def set_diagnostic_callback_def set_log_callback_def
      subscribe_event_def unsubscribe_event_def case_prod_beta)

lemma typed_diagnostics [simp]:
  "typed cfg P c (snd (enable_diagnostics env now_ms auth r)) = typed cfg P c r"
  "typed cfg P c (snd (report_dtc env code severity now_ms r)) = typed cfg P c r"
  "typed cfg P c (snd (clear_dtc code r)) = typed cfg P c r" "typed cfg P c (clear_all_dtcs r) = typed cfg P c r"
  by (simp_all add: enable_diagnostics_def report_dtc_def clear_dtc_def clear_all_dtcs_def Let_def case_prod_beta)

lemma typed_loops [simp]:
  "typed cfg P c (track_uptime now_ms r) = typed cfg P c r"
  "typed cfg P c (rt_evict_requests env now_ms r) = typed cfg P c r"
  "typed cfg P c (rt_evict_subscriptions env now_ms r) = typed cfg P c r"
  by (simp_all add: track_uptime_def rt_evict_requests_def rt_evict_subscriptions_def Let_def case_prod_beta)

section \<open>Messages\<close>

text \<open>A header as the code fills it in is one that steps 3 to 7 accept.\<close>

lemma header_okI:
  assumes "hdr_version h = PROTOCOL_VERSION" "hdr_message_type h = message_type_code mt"
    and "type_id_consistent (Some mt) (hdr_method_event_id h)"
    and "mt = REQUEST \<or> mt = REQUEST_NO_RETURN \<Longrightarrow> hdr_client_id h \<noteq> 0"
  shows "header_ok h"
  using assms
  by (auto simp: header_ok_def validate_type_id_consistency_def validate_client_id_def message_type_of_code)

text \<open>A reply to a request has its service, method, client and request id.\<close>

definition answers :: "MessageHeader \<Rightarrow> MessageHeader \<Rightarrow> bool" where
  "answers h req \<longleftrightarrow> message_type_of (hdr_message_type h) \<in> {Some RESPONSE, Some ERROR} \<and>
     hdr_service_id h = hdr_service_id req \<and> hdr_method_event_id h = hdr_method_event_id req \<and>
     hdr_client_id h = hdr_client_id req \<and> hdr_request_id h = hdr_request_id req"

text \<open>The policy allows a message of the given type, client, service, method or event and payload; it allows all messages
  of service discovery.\<close>

definition says :: "policy \<Rightarrow> MessageType \<Rightarrow> u16 \<Rightarrow> u16 \<Rightarrow> u16 \<Rightarrow> bytes \<Rightarrow> bool" where
  "says P mt c sid mid payload \<longleftrightarrow> (\<forall>h. message_type_of (hdr_message_type h) = Some mt \<and> hdr_client_id h = c \<and>
     hdr_service_id h = sid \<and> hdr_method_event_id h = mid \<longrightarrow> P h payload)"

definition discovers :: "policy \<Rightarrow> bool" where
  "discovers P \<longleftrightarrow> (\<forall>h payload. message_type_of (hdr_message_type h) = Some REQUEST_NO_RETURN \<and>
     hdr_service_id h = SD_SERVICE_ID \<longrightarrow> P h payload)"

lemma saysD:
  "says P mt c sid mid payload \<Longrightarrow> hdr_message_type h = message_type_code mt \<Longrightarrow> hdr_client_id h = c \<Longrightarrow>
   hdr_service_id h = sid \<Longrightarrow> hdr_method_event_id h = mid \<Longrightarrow> P h payload"
  by (auto simp: says_def message_type_of_code simp del: message_type_code.simps)

lemma discoversD:
  "discovers P \<Longrightarrow> hdr_message_type h = message_type_code REQUEST_NO_RETURN \<Longrightarrow> hdr_service_id h = SD_SERVICE_ID \<Longrightarrow> P h payload"
  by (auto simp: discovers_def message_type_of_code simp del: message_type_code.simps)

definition heard :: "config \<Rightarrow> policy \<Rightarrow> bytes \<Rightarrow> bool" where
  "heard cfg P data \<longleftrightarrow>
     (wire_ok cfg data \<longrightarrow> P (deserialize data) (frame_payload data) \<and>
        (message_type_of (hdr_message_type (deserialize data)) = Some REQUEST \<longrightarrow>
         (\<forall>h payload. answers h (deserialize data) \<longrightarrow> P h payload)))"

definition hears :: "('t, 'a) env \<Rightarrow> policy \<Rightarrow> bool" where
  "hears env P \<longleftrightarrow> (\<forall>t source data t'. impl_poll env t = (Some (source, data), t') \<longrightarrow> heard (en_cfg env) P data)"

definition payload_typed :: "config \<Rightarrow> bytes option \<Rightarrow> nat \<Rightarrow> bool" where
  "payload_typed cfg p n \<longleftrightarrow> MaxPayloadSize cfg < n \<or> sendable cfg p n"

lemma frame_of_payload:
  assumes "hdr_payload_length hdr = of_nat (length payload)" "length payload < 2 ^ 32"
  shows "frame_payload (frame_of keys hdr payload auth peer) = payload"
proof -
  have "unat (hdr_payload_length (deserialize (frame_of keys hdr payload auth peer))) = length payload"
    unfolding frame_of_header assms(1) by (rule unat_of_nat_u32 [OF assms(2)])
  then show ?thesis unfolding frame_payload_def by (simp only: HEADER_SIZE_def frame_of_parts(2))
qed

lemma build_typed:
  assumes "rt_wf cfg r" "payload_typed cfg p n" "MaxPayloadSize cfg < 2 ^ 32"
    and "header_ok hdr" "has_auth hdr \<longleftrightarrow> auth" "hdr_payload_length hdr = of_nat n" "P hdr (payload_bytes p n)"
  shows "frame_typed cfg P (take (fst (build_message cfg hdr p n auth peer r))
    (rt_tx_buffer (snd (build_message cfg hdr p n auth peer r))))"
proof (cases "MaxPayloadSize cfg < n")
  case True
  then show ?thesis by (simp add: build_message_def frame_typed_def)
next
  case False
  then have p: "sendable cfg p n" using assms(2) by (simp add: payload_typed_def)
  have "n \<le> MaxPayloadSize cfg" using False by simp
  then have "wire_ok cfg (frame_of (rt_auth r) hdr (payload_bytes p n) auth peer)"
    using frame_of_wire_ok [OF assms(4,5) _ _ assms(3)] assms(6) length_payload_bytes [OF p] by simp
  moreover have "frame_payload (frame_of (rt_auth r) hdr (payload_bytes p n) auth peer) = payload_bytes p n"
    using False assms(3,6) length_payload_bytes [OF p] by (intro frame_of_payload) simp_all
  ultimately show ?thesis using assms(7) by (simp add: build_and_send [OF assms(1) p] frame_typed_def frame_of_header)
qed

lemma typed_rt_send [simp]:
  "typed cfg P c (snd (rt_send env dest n r)) \<longleftrightarrow> typed cfg P c r \<and> frame_typed cfg P (take n (rt_tx_buffer r))"
  by (simp add: rt_send_def Let_def case_prod_beta)

lemma typed_rt_broadcast [simp]:
  "typed cfg P c (snd (rt_broadcast env n r)) \<longleftrightarrow> typed cfg P c r \<and> frame_typed cfg P (take n (rt_tx_buffer r))"
  by (simp add: rt_broadcast_def Let_def case_prod_beta)

lemma auth_flag [simp]:
  "has_auth (h\<lparr>hdr_flags := (if a then FLAG_AUTH else 0)\<rparr>) = a"
  by (simp add: has_auth_def FLAG_AUTH_def)

lemma request_impl_typed:
  assumes "rt_wf (en_cfg env) r" "typed (en_cfg env) P c r" "c \<noteq> 0" "is_method_id mid" "payload_typed (en_cfg env) p n"
    and "MaxPayloadSize (en_cfg env) < 2 ^ 32" "MaxPendingRequests (en_cfg env) \<le> 2 ^ 32" "says P REQUEST c sid mid (payload_bytes p n)"
  shows "typed (en_cfg env) P c (snd (request_impl env target sid mid p n cb ctx timeout now_ms r))"
proof -
  let ?cfg = "en_cfg env"
  obtain rid reqs out where a: "allocate ?cfg (Some (rt_logger r)) sid mid timeout now_ms cb ctx (rt_requests r) = (rid, reqs, out)"
    using prod_cases3 by blast
  have out: "outs_typed ?cfg P out" using outs_typed_tables(11) [of ?cfg P ?cfg "Some (rt_logger r)" sid mid timeout now_ms cb ctx "rt_requests r"] a by simp
  show ?thesis
  proof (cases rid)
    case None
    then show ?thesis using a out assms(2) by (simp add: request_impl_def)
  next
    case (Some i)
    define r1 where "r1 = emit out (r\<lparr>rt_requests := reqs\<rparr>)"
    have reqs: "tracker_wf ?cfg reqs" by (rule allocate_Some(2) [OF rt_wf_parts(8) [OF assms(1)] assms(7) a [unfolded Some]])
    have "rt_wf ?cfg (r\<lparr>rt_requests := reqs\<rparr>)" by (rule rt_wf_set(8) [OF assms(1) reqs])
    then have wf: "rt_wf ?cfg (snd (rt_next_sequence r1))" by (simp add: r1_def rt_wf_next_sequence)
    have t: "typed ?cfg P c r1" using assms(2) out by (simp add: r1_def)
    have h: "header_ok ((make_request_header sid mid n i auth r1)\<lparr>hdr_sequence_counter := sq\<rparr>)" for auth sq
      using assms(3,4) typed_ids(1) [OF t] by (intro header_okI [of _ REQUEST]) (simp_all add: make_request_header_def)
    have f: "has_auth ((make_request_header sid mid n i auth r1)\<lparr>hdr_sequence_counter := sq\<rparr>) = auth"
      "hdr_payload_length ((make_request_header sid mid n i auth r1)\<lparr>hdr_sequence_counter := sq\<rparr>) = of_nat n" for auth sq
      by (simp_all add: make_request_header_def has_auth_def FLAG_AUTH_def)
    have p: "P ((make_request_header sid mid n i auth r1)\<lparr>hdr_sequence_counter := sq\<rparr>) (payload_bytes p n)" for auth sq
      by (rule saysD [OF assms(8)]) (simp_all add: make_request_header_def typed_ids(1) [OF t])
    note b = build_typed [where P = P, OF wf assms(5,6) h f p]
    show ?thesis
      using t [unfolded r1_def] b [unfolded r1_def] by (simp add: request_impl_def a Some Let_def case_prod_beta)
  qed
qed

lemma fire_and_forget_typed:
  assumes "rt_wf (en_cfg env) r" "typed (en_cfg env) P c r" "c \<noteq> 0" "is_method_id mid" "payload_typed (en_cfg env) p n"
    and "MaxPayloadSize (en_cfg env) < 2 ^ 32" "says P REQUEST_NO_RETURN c sid mid (payload_bytes p n)"
  shows "typed (en_cfg env) P c (snd (fire_and_forget env sid mid p n r))"
proof (cases "get_provider_address sid (rt_sd r)")
  case (Some provider)
  let ?h = "\<lambda>auth sq. default_header\<lparr> hdr_version := PROTOCOL_VERSION,
                hdr_message_type := message_type_code REQUEST_NO_RETURN, hdr_return_code := 0,
                hdr_flags := (if auth then FLAG_AUTH else 0), hdr_service_id := sid,
                hdr_method_event_id := mid, hdr_client_id := rt_client_id r,
                hdr_sequence_counter := sq, hdr_request_id := REQUEST_ID_NONE,
                hdr_payload_length := of_nat n \<rparr>"
  have wf: "rt_wf (en_cfg env) (snd (rt_next_sequence r))" using assms(1) by (rule rt_wf_next_sequence)
  have h: "header_ok (?h auth sq)" "has_auth (?h auth sq) = auth" "hdr_payload_length (?h auth sq) = of_nat n" for auth sq
    using assms(3,4) typed_ids(1) [OF assms(2)]
    by (intro header_okI [of _ REQUEST_NO_RETURN]) (simp_all add: has_auth_def FLAG_AUTH_def)
  have o: "P (?h auth sq) (payload_bytes p n)" for auth sq
    by (rule saysD [OF assms(7)]) (simp_all add: typed_ids(1) [OF assms(2)])
  show ?thesis
    using assms(2) build_typed [where P = P, OF wf assms(5,6) h o]
    by (simp add: fire_and_forget_def Some Let_def case_prod_beta)
qed (use assms(2) in \<open>simp add: fire_and_forget_def\<close>)

lemma send_notification_typed:
  assumes "rt_wf (en_cfg env) r" "typed (en_cfg env) P c r" "is_event_id eid" "payload_typed (en_cfg env) p n"
    and "MaxPayloadSize (en_cfg env) < 2 ^ 32" "says P NOTIFICATION CLIENT_ID_PROVIDER sid eid (payload_bytes p n)"
  shows "typed (en_cfg env) P c (send_notification env sid eid p n dest cid r)"
proof -
  let ?h = "\<lambda>auth sq. default_header\<lparr> hdr_version := PROTOCOL_VERSION,
            hdr_message_type := message_type_code NOTIFICATION, hdr_return_code := 0,
            hdr_flags := (if auth then FLAG_AUTH else 0), hdr_service_id := sid,
            hdr_method_event_id := eid, hdr_client_id := CLIENT_ID_PROVIDER,
            hdr_sequence_counter := sq, hdr_request_id := REQUEST_ID_NONE,
            hdr_payload_length := of_nat n \<rparr>"
  have wf: "rt_wf (en_cfg env) (snd (rt_next_sequence r))" using assms(1) by (rule rt_wf_next_sequence)
  have h: "header_ok (?h auth sq)" "has_auth (?h auth sq) = auth" "hdr_payload_length (?h auth sq) = of_nat n" for auth sq
    using assms(3) by (intro header_okI [of _ NOTIFICATION]) (simp_all add: has_auth_def FLAG_AUTH_def)
  have o: "P (?h auth sq) (payload_bytes p n)" for auth sq by (rule saysD [OF assms(6)]) simp_all
  show ?thesis
    using assms(2) build_typed [where P = P, OF wf assms(4,5) h o]
    by (simp add: send_notification_def Let_def case_prod_beta)
qed

lemma notify_typed:
  assumes "rt_wf (en_cfg env) r" "typed (en_cfg env) P c r" "is_event_id eid" "payload_typed (en_cfg env) p n"
    and "MaxPayloadSize (en_cfg env) < 2 ^ 32" "says P NOTIFICATION CLIENT_ID_PROVIDER sid eid (payload_bytes p n)"
  shows "typed (en_cfg env) P c (snd (notify_event env sid eid p n r))"
proof -
  have "rt_wf (en_cfg env) w \<and> typed (en_cfg env) P c w \<Longrightarrow>
      rt_wf (en_cfg env) (send_notification env sid eid p n dest cid w) \<and>
      typed (en_cfg env) P c (send_notification env sid eid p n dest cid w)" for dest cid w
    using send_notification_typed [OF _ _ assms(3-6)] rt_wf_send_notification by blast
  then have "typed (en_cfg env) P c (fold (\<lambda>i. send_notification env sid eid p n (dest i) (cid i)) xs r)" for dest cid and xs :: "nat list"
    using assms(1,2) fold_keeps [where I = "\<lambda>w. rt_wf (en_cfg env) w \<and> typed (en_cfg env) P c w"
        and f = "\<lambda>i. send_notification env sid eid p n (dest i) (cid i)" and w = r and xs = xs] by blast
  then show ?thesis using assms(2) by (simp add: notify_event_def notify_def split: option.split)
qed

lemma handle_request_typed:
  assumes "env_ok env" "rt_wf (en_cfg env) r" "typed (en_cfg env) P c r" "is_method_id (hdr_method_event_id hdr)"
    and "MaxPayloadSize (en_cfg env) < 2 ^ 32" "\<And>h p. answers h hdr \<Longrightarrow> P h p" "told_call P (hdr_method_event_id hdr) payload"
  shows "typed (en_cfg env) P c (handle_request env source hdr payload r)"
proof -
  let ?cfg = "en_cfg env"
  obtain rc resp n r1 where d: "dispatch_result env hdr payload r = (rc, resp, n, r1)" using prod_cases4 by blast
  define r0 where "r0 = rt_info env CatDispatch ''request_rx'' (hdr_service_id hdr) (hdr_method_event_id hdr)
                (hdr_client_id hdr) (hdr_request_id hdr) r"
  have r0: "rt_wf ?cfg r0" "typed ?cfg P c r0" using assms(2,3) by (simp_all add: r0_def)
  note d' = d [unfolded dispatch_result_def Let_def, folded r0_def]
  have b: "buffer_ok (Some (rt_response_buffer r0)) (MaxPayloadSize ?cfg)"
    using rt_wf_parts(11) [OF r0(1)] by (simp add: buffer_ok_def)
  have s: "map_option length resp = Some (MaxPayloadSize ?cfg)" "rt_wf ?cfg r1"
    using dispatch_shape [OF assms(1) r0(1) b d'] rt_wf_parts(11) [OF r0(1)] by simp_all
  then obtain buf where buf: "resp = Some buf" "length buf = MaxPayloadSize ?cfg" by auto
  have t: "typed ?cfg P c r1" using typed_dispatch [OF assms(7), of ?cfg c ?cfg "Some (rt_logger r0)" "service_ready env r0" env
      "hdr_service_id hdr"] d' r0(2) by (metis snd_conv)
  define r2 where "r2 = r1\<lparr>rt_response_buffer := buf\<rparr>"
  have "rt_wf ?cfg r2" using s buf by (simp add: r2_def rt_wf_set)
  then have wf: "rt_wf ?cfg (snd (rt_next_sequence r2))" by (rule rt_wf_next_sequence)
  have t2: "typed ?cfg P c r2" using t by (simp add: r2_def)
  let ?h = "\<lambda>auth sq. default_header\<lparr> hdr_version := PROTOCOL_VERSION,
            hdr_message_type := message_type_code (if rc \<noteq> E_OK then ERROR else RESPONSE),
            hdr_return_code := rc, hdr_flags := (if auth then FLAG_AUTH else 0),
            hdr_service_id := hdr_service_id hdr, hdr_method_event_id := hdr_method_event_id hdr,
            hdr_client_id := hdr_client_id hdr, hdr_sequence_counter := sq,
            hdr_request_id := hdr_request_id hdr,
            hdr_payload_length := (if rc \<noteq> E_OK then 0 else of_nat n) \<rparr>"
  have h: "header_ok (?h auth sq)" "has_auth (?h auth sq) = auth"
    "hdr_payload_length (?h auth sq) = of_nat (if rc \<noteq> E_OK then 0 else n)" for auth sq
    using assms(4) by (intro header_okI [of _ "if rc \<noteq> E_OK then ERROR else RESPONSE"])
      (auto simp: has_auth_def FLAG_AUTH_def split: if_splits)
  have a: "P (?h auth sq) pl" for auth sq pl by (rule assms(6)) (simp add: answers_def message_type_of_code)
  have p: "payload_typed ?cfg (if rc \<noteq> E_OK then None else Some (rt_response_buffer (snd (rt_next_sequence r2))))
      (if rc \<noteq> E_OK then 0 else n)"
    using buf(2) by (auto simp: payload_typed_def sendable_def r2_def rt_next_sequence_def case_prod_beta)
  show ?thesis
    using t2 build_typed [where P = P, OF wf p assms(5) h a]
    unfolding handle_request_def Let_def r0_def [symmetric] d' prod.case buf option.case r2_def [symmetric] case_prod_beta
      fst_conv snd_conv
    by simp
qed

section \<open>Service discovery\<close>

lemma sd_frame_typed:
  assumes "cid \<noteq> 0" "length payload \<le> MaxPayloadSize cfg" "MaxPayloadSize cfg < 2 ^ 32" "discovers P"
  shows "frame_typed cfg P (sd_frame (sd_wire cid m rc sq (length payload)) payload)"
proof -
  let ?h = "sd_wire cid m rc sq (length payload)"
  have "wire_ok cfg (frame_of undefined ?h payload False undefined)"
    using frame_of_wire_ok [OF sd_wire_ok [OF assms(1)], of m rc sq "length payload" False payload cfg] assms(2,3) by simp
  moreover have "P ?h pl" for pl by (rule discoversD [OF assms(4)]) (simp_all add: sd_wire_def sd_header_def)
  ultimately show ?thesis
    unfolding frame_typed_def sd_frame_of [of _ payload undefined undefined] frame_of_header by blast
qed

text \<open>A discovery message of client \<open>c\<close> that fits the configuration.\<close>

definition sd_message_typed :: "config \<Rightarrow> u16 \<Rightarrow> bytes \<Rightarrow> bool" where
  "sd_message_typed cfg c msg \<longleftrightarrow>
     (\<exists>m payload. msg = build_sd_header c m (length payload) @ payload \<and> length payload \<le> MaxPayloadSize cfg)"

lemma sd_tx_typed:
  assumes "rt_wf cfg r" "sd_message_typed cfg c msg" "c \<noteq> 0" "MaxPayloadSize cfg < 2 ^ 32" "discovers P"
  shows "frame_typed cfg P (take (length msg + 2) (crc16_append ((blit 0 msg (rt_tx_buffer r))[10 := sq]) (length msg)))"
proof -
  obtain m payload where m: "msg = build_sd_header c m (length payload) @ payload" "length payload \<le> MaxPayloadSize cfg"
    using assms(2) unfolding sd_message_typed_def by blast
  have "take (length msg + 2) (crc16_append ((blit 0 msg (rt_tx_buffer r))[10 := sq]) (length msg)) =
      sd_frame (sd_wire c m 0 sq (length payload)) payload"
    using sd_tx_frame [OF rt_wf_parts(10) [OF assms(1)] m(2), of "sd_header c (sd_method_code m) (length payload)" sq]
    by (simp add: m(1) build_sd_header_def sd_wire_def sd_header_def)
  then show ?thesis using sd_frame_typed [OF assms(3) m(2) assms(4,5)] by simp
qed

lemma send_sd_typed:
  assumes "rt_wf (en_cfg env) r" "typed (en_cfg env) P c r" "sd_message_typed (en_cfg env) c msg" "c \<noteq> 0"
    and "MaxPayloadSize (en_cfg env) < 2 ^ 32" "discovers P"
  shows "typed (en_cfg env) P c (send_sd_unicast env dest msg r)" "typed (en_cfg env) P c (send_sd_broadcast env msg r)"
  using assms(2) sd_tx_typed [OF assms(1,3-6)]
  by (simp_all add: send_sd_unicast_def send_sd_broadcast_def Let_def case_prod_beta)

text \<open>The configuration has room for discovery messages.\<close>

definition sd_fits_config :: "config \<Rightarrow> bool" where
  "sd_fits_config cfg \<longleftrightarrow> SD_OFFER_PAYLOAD_SIZE cfg \<le> MaxPayloadSize cfg \<and> MaxPayloadSize cfg < 2 ^ 32"

lemma messages_typed:
  assumes "sd_fits_config cfg" "length (sd_local_addr sd) = TransportAddressSize cfg"
  shows "sd_message_typed cfg (sd_client_id sd) (offer_message cfg sd pe)"
    and "sd_message_typed cfg (sd_client_id sd) (find_message sd ce)"
    and "sd_message_typed cfg (sd_client_id sd) (subscribe_message sd m st ttl)"
proof -
  have n: "length (serialize_offer cfg s ma mi t se (sd_local_addr sd)) = SD_OFFER_PAYLOAD_SIZE cfg" for s ma mi t se
    using assms(2) by simp
  have f: "SD_OFFER_PAYLOAD_SIZE cfg \<le> MaxPayloadSize cfg" "8 \<le> SD_OFFER_PAYLOAD_SIZE cfg"
    using assms(1) by (simp_all add: sd_fits_config_def SD_OFFER_PAYLOAD_SIZE_def)
  show "sd_message_typed cfg (sd_client_id sd) (offer_message cfg sd pe)"
    unfolding sd_message_typed_def offer_message_def using n f by (intro exI conjI) auto
  show "sd_message_typed cfg (sd_client_id sd) (find_message sd ce)"
    unfolding sd_message_typed_def find_message_def using f
    by (intro exI [of _ SD_FIND_SERVICE] exI [of _ "serialize_find (cn_service_id ce)"]) simp
  show "sd_message_typed cfg (sd_client_id sd) (subscribe_message sd m st ttl)"
    unfolding sd_message_typed_def subscribe_message_def using f
    by (intro exI [of _ m] exI [of _ "serialize_subscribe (st_service_id st) (st_event_id st) ttl"]) simp
qed

text \<open>What the runtime needs for its frames to be typed: a client id, room for discovery messages, and a policy that
  allows them and replies to what the transport brings.\<close>

definition typing_env :: "('t, 'a) env \<Rightarrow> policy \<Rightarrow> u16 \<Rightarrow> bool" where
  "typing_env env P c \<longleftrightarrow> env_ok env \<and> sd_fits_config (en_cfg env) \<and> c \<noteq> 0 \<and> discovers P \<and> hears env P"

text \<open>Well-formed and typed.\<close>

definition well_typed :: "('t, 'a) env \<Rightarrow> policy \<Rightarrow> u16 \<Rightarrow> ('t, 'a) runtime \<Rightarrow> bool" where
  "well_typed env P c r \<longleftrightarrow> rt_wf (en_cfg env) r \<and> typed (en_cfg env) P c r"

lemma well_typed_sd_send:
  assumes "typing_env env P c" "well_typed env P c r" "sd_message_typed (en_cfg env) c msg"
  shows "well_typed env P c (send_sd_unicast env dest msg r)" "well_typed env P c (send_sd_broadcast env msg r)"
  using assms send_sd_typed [of env r P c msg]
  by (simp_all add: well_typed_def typing_env_def sd_fits_config_def rt_wf_sd_unicast rt_wf_sd_broadcast)

lemma well_typed_messages:
  assumes "typing_env env P c" "well_typed env P c r"
  shows "sd_message_typed (en_cfg env) c (offer_message (en_cfg env) (rt_sd r) pe)"
    and "sd_message_typed (en_cfg env) c (find_message (rt_sd r) ce)"
    and "sd_message_typed (en_cfg env) c (subscribe_message (rt_sd r) m st ttl)"
proof -
  have a: "length (sd_local_addr (rt_sd r)) = TransportAddressSize (en_cfg env)"
    using rt_wf_parts(5) assms(2) by (auto simp: well_typed_def sd_wf_def)
  have c: "sd_client_id (rt_sd r) = c" using assms(2) typed_ids(2) by (auto simp: well_typed_def)
  have f: "sd_fits_config (en_cfg env)" using assms(1) by (simp add: typing_env_def)
  show "sd_message_typed (en_cfg env) c (offer_message (en_cfg env) (rt_sd r) pe)"
    and "sd_message_typed (en_cfg env) c (find_message (rt_sd r) ce)"
    and "sd_message_typed (en_cfg env) c (subscribe_message (rt_sd r) m st ttl)"
    using messages_typed [OF f a] unfolding c by blast+
qed

lemma subscribe_request_typed:
  assumes "typing_env env P c" "well_typed env P c r"
  shows "typed (en_cfg env) P c (handle_subscribe_request env source hdr sid eid ttl now_ms r)"
proof -
  let ?cfg = "en_cfg env"
  have wf: "rt_wf ?cfg r" and t: "typed ?cfg P c r" using assms(2) by (simp_all add: well_typed_def)
  have c: "rt_client_id r = c" "c \<noteq> 0" and f: "8 \<le> MaxPayloadSize ?cfg" "MaxPayloadSize ?cfg < 2 ^ 32" "discovers P"
    using assms(1) typed_ids(1) [OF t]
    by (auto simp: typing_env_def sd_fits_config_def SD_OFFER_PAYLOAD_SIZE_def)
  let ?h = "\<lambda>rc. default_header\<lparr> hdr_version := PROTOCOL_VERSION,
      hdr_message_type := message_type_code REQUEST_NO_RETURN, hdr_return_code := rc,
      hdr_flags := 0, hdr_service_id := SD_SERVICE_ID, hdr_method_event_id := sd_method_code SD_SUBSCRIBE_ACK,
      hdr_client_id := c, hdr_sequence_counter := rt_sd_seq r, hdr_request_id := 0,
      hdr_payload_length := of_nat SD_SUBSCRIBE_PAYLOAD_SIZE \<rparr>"
  have hdr: "?h rc = sd_wire c SD_SUBSCRIBE_ACK rc (rt_sd_seq r) 8" for rc
    by (simp add: default_header_def sd_wire_def sd_header_def)
  have "frame_typed ?cfg P (take 30 (crc16_append (blit HEADER_SIZE (serialize_subscribe sid eid g)
      (blit 0 (serialize (sd_wire c SD_SUBSCRIBE_ACK rc (rt_sd_seq r) 8)) (rt_tx_buffer r))) 28))" for g rc
    using ack_tx_frame [OF rt_wf_parts(10) [OF wf], of "serialize_subscribe sid eid g" "sd_wire c SD_SUBSCRIBE_ACK rc (rt_sd_seq r) 8"]
      sd_frame_typed [OF c(2), of "serialize_subscribe sid eid g" ?cfg P SD_SUBSCRIBE_ACK rc "rt_sd_seq r"] f
    by simp
  note frame = this [unfolded hdr [symmetric]]
  have e: "rt_tx_buffer (emit os w) = rt_tx_buffer w" "rt_sd_seq (emit os w) = rt_sd_seq w" for os and w :: "('a, 'b) runtime"
    by (simp_all add: emit_def)
  show ?thesis
    using t c(1) frame by (simp add: handle_subscribe_request_def Let_def case_prod_beta e)
qed

lemma well_typed_find:
  assumes "typing_env env P c" "well_typed env P c r"
  shows "well_typed env P c (handle_sd_find env source hdr sid r)"
proof -
  define r0 where "r0 = rt_reset_peer env source (rt_debug env CatServiceDiscovery ''find_rx'' sid 0 (hdr_client_id hdr) 0 r)"
  have r0: "well_typed env P c r0" using assms(2) by (auto simp: well_typed_def r0_def intro: rt_wf_reset_peer)
  note M = well_typed_messages(1) [OF assms(1) r0]
  show ?thesis
    unfolding handle_sd_find_def r0_def [symmetric] Let_def handle_find_def
    by (rule fold_keeps [where I = "well_typed env P c"]) (simp_all add: well_typed_sd_send(1) [OF assms(1)] M r0)
qed

lemma well_typed_sd_message:
  assumes "typing_env env P c" "well_typed env P c r"
  shows "well_typed env P c (handle_sd_message env source hdr payload now_ms r)"
proof (cases "sd_method_of (hdr_method_event_id hdr)")
  case None
  then show ?thesis using assms(2) by (simp add: handle_sd_message_def)
next
  case (Some m)
  have wf: "rt_wf (en_cfg env) (handle_sd_message env source hdr payload now_ms r)"
    using rt_wf_sd_message assms(2) by (auto simp: well_typed_def)
  have d: "well_typed env P c (rt_debug env ct tag sid eid cid x r)" for ct tag sid eid cid x
    using assms(2) by (simp add: well_typed_def)
  have f: "typed (en_cfg env) P c (handle_sd_find env source hdr sid r)" for sid
    using well_typed_find [OF assms] by (simp add: well_typed_def)
  have t: "typed (en_cfg env) P c r" using assms(2) by (simp add: well_typed_def)
  have "typed (en_cfg env) P c (handle_sd_message env source hdr payload now_ms r)"
    using Some t f subscribe_request_typed [OF assms(1) d]
    by (cases m) (auto simp: handle_sd_message_def Let_def case_prod_beta split: option.split)
  then show ?thesis using wf by (simp add: well_typed_def)
qed

lemma well_typed_dispatch:
  assumes "typing_env env P c" "well_typed env P c r" "validate_type_id_consistency hdr"
    and "P hdr payload" "\<And>h p. message_type_of (hdr_message_type hdr) = Some REQUEST \<Longrightarrow> answers h hdr \<Longrightarrow> P h p"
  shows "well_typed env P c (dispatch_message env source hdr payload now_ms r)"
proof -
  have e: "env_ok env" "MaxPayloadSize (en_cfg env) < 2 ^ 32" using assms(1) by (simp_all add: typing_env_def sd_fits_config_def)
  have r: "rt_wf (en_cfg env) r" "typed (en_cfg env) P c r" using assms(2) by (simp_all add: well_typed_def)
  have m: "is_method_id (hdr_method_event_id hdr)" if "message_type_of (hdr_message_type hdr) = Some REQUEST"
    using assms(3) that by (simp add: validate_type_id_consistency_def)
  have calls: "told_call P (hdr_method_event_id hdr) payload"
    if "hdr_service_id hdr \<noteq> SD_SERVICE_ID" "message_type_of (hdr_message_type hdr) \<in> {Some REQUEST, Some REQUEST_NO_RETURN}"
    using that assms(4) unfolding told_call_def by blast
  have events: "told_event P (hdr_service_id hdr) (hdr_method_event_id hdr) payload"
    if "message_type_of (hdr_message_type hdr) = Some NOTIFICATION"
    using that assms(4) unfolding told_event_def by blast
  have "typed (en_cfg env) P c (dispatch_message env source hdr payload now_ms r)"
    using r(2) calls events handle_request_typed [OF e(1) r m e(2) assms(5)] well_typed_sd_message [OF assms(1,2)]
    by (auto simp: dispatch_message_def well_typed_def split: option.split MessageType.split)
  then show ?thesis using rt_wf_dispatch_message [OF e(1) r(1)] by (simp add: well_typed_def)
qed

lemma typed_noted: "only_noted r r' \<Longrightarrow> typed cfg P c r \<Longrightarrow> typed cfg P c r'"
proof -
  have "is_notice x \<Longrightarrow> effect_typed cfg P x" for x by (cases x) simp_all
  then have "list_all is_notice os \<Longrightarrow> outs_typed cfg P os" for os unfolding list_all_iff by blast
  then show "only_noted r r' \<Longrightarrow> typed cfg P c r \<Longrightarrow> typed cfg P c r'"
    by (auto simp: only_noted_def typed_def)
qed

lemma well_typed_receive:
  assumes "typing_env env P c" "well_typed env P c r" "heard (en_cfg env) P data"
  shows "well_typed env P c (validate_and_dispatch env source data now_ms r)"
proof (cases "accepted (en_cfg env) source data r")
  case True
  have wf: "rt_wf (en_cfg env) r" using assms(2) by (simp add: well_typed_def)
  obtain r' where r': "only_noted r r'" "rt_wf (en_cfg env) r'" "validate_and_dispatch env source data now_ms r =
      dispatch_message env source (deserialize data) (frame_payload data) now_ms r'"
    using pipeline [OF wf, of source data now_ms] True by auto
  have "wire_ok (en_cfg env) data" using True by (simp add: accepted_def)
  moreover from this have "validate_type_id_consistency (deserialize data)" by (simp add: wire_ok_def Let_def)
  moreover have "well_typed env P c r'" using r'(1,2) assms(2) typed_noted by (auto simp: well_typed_def)
  ultimately show ?thesis
    using assms(3) unfolding r'(3) by (intro well_typed_dispatch [OF assms(1)]) (auto simp: heard_def)
next
  case False
  have wf: "rt_wf (en_cfg env) r" using assms(2) by (simp add: well_typed_def)
  then have "only_noted r (validate_and_dispatch env source data now_ms r)"
    using pipeline [OF wf, of source data now_ms] False by simp
  moreover have "env_ok env" using assms(1) by (simp add: typing_env_def)
  ultimately show ?thesis
    using assms(2) wf typed_noted rt_wf_validate_and_dispatch by (auto simp: well_typed_def)
qed

lemma well_typed_drain:
  "typing_env env P c \<Longrightarrow> well_typed env P c r \<Longrightarrow> well_typed env P c (drain env now_ms n r)"
proof (induction n arbitrary: r)
  case (Suc n)
  have t: "well_typed env P c (r\<lparr>rt_transport := t\<rparr>)" for t using Suc.prems(2) by (simp add: well_typed_def)
  have h: "heard (en_cfg env) P data" if "transport_poll env t = (Some (source, data), t')" for t source data t'
    using Suc.prems(1) that by (auto simp: typing_env_def hears_def transport_poll_def)
  show ?case
    using Suc.IH [OF Suc.prems(1) well_typed_receive [OF Suc.prems(1) t]] t
    by (auto split: prod.split option.split dest: h)
qed simp

text \<open>A loop of service discovery sends for the entries of one table, as it was before the loop.\<close>

lemma well_typed_loop:
  assumes "well_typed env P c r" "\<And>x w. well_typed env P c w \<Longrightarrow> well_typed env P c (f x w)"
    and "sd_wf (en_cfg env) sd" "sd_client_id sd = sd_client_id (rt_sd r)"
  shows "well_typed env P c ((fold f xs r)\<lparr>rt_sd := sd\<rparr>)"
proof -
  have "well_typed env P c (fold f xs r)"
    by (rule fold_keeps [where I = "well_typed env P c"]) (use assms(1,2) in blast)+
  moreover have "sd_client_id sd = c" using assms(1,4) by (simp add: well_typed_def typed_def)
  ultimately show ?thesis using assms(3) by (simp add: well_typed_def typed_def rt_wf_set(5))
qed

lemma well_typed_loops:
  assumes "typing_env env P c" "well_typed env P c r"
  shows "well_typed env P c (rt_process_offers env now_ms r)"
    and "well_typed env P c (rt_process_renewals env now_ms r)"
    and "well_typed env P c (rt_process_ttls env now_ms r)"
    and "well_typed env P c (rt_process_finds env now_ms r)"
proof -
  let ?cfg = "en_cfg env" and ?sd = "rt_sd r"
  have sd: "sd_wf ?cfg ?sd" using assms(2) rt_wf_parts(5) by (auto simp: well_typed_def)
  note M = well_typed_messages [OF assms] and S = well_typed_sd_send [OF assms(1)]
  have e: "well_typed env P c (emit os w)" if "well_typed env P c w" "outs_typed ?cfg P os" for os and w :: "('a, 'b) runtime"
    using that by (simp add: well_typed_def)
  have p: "well_typed env P c (rt_reset_peer env a w)" if "well_typed env P c w" for a and w :: "('a, 'b) runtime"
    using that rt_wf_reset_peer by (auto simp: well_typed_def)
  show "well_typed env P c (rt_process_offers env now_ms r)"
    using process_offers_wf(1) [OF sd, of now_ms "send_sd_broadcast env" r] assms(2) M S
    by (auto simp: rt_process_offers_def process_offers_run [OF sd] offer_emit_def intro!: well_typed_loop)
  show "well_typed env P c (rt_process_renewals env now_ms r)"
    using process_subscription_renewals_wf(1) [OF sd, of now_ms "send_sd_unicast env" r] assms(2) M S
    by (auto simp: rt_process_renewals_def process_subscription_renewals_run [OF sd] renewal_emit_def renewal_message_def
        intro!: well_typed_loop split: option.split)
  show "well_typed env P c (rt_process_ttls env now_ms r)"
    using process_consumer_ttls_wf(1) [OF sd, of "Some (rt_logger r)" now_ms emit "rt_reset_peer env" r] assms(2)
    by (auto simp: rt_process_ttls_def process_consumer_ttls_run [OF sd] ttl_emit_def intro!: well_typed_loop e p)
  show "well_typed env P c (rt_process_finds env now_ms r)"
    using process_finds_wf(1) [OF sd, of "Some (rt_logger r)" now_ms emit "send_sd_broadcast env" r] assms(2) M S
    by (auto simp: rt_process_finds_def process_finds_run [OF sd] find_emit_def intro!: well_typed_loop e)
qed

lemma well_typed_process:
  assumes "typing_env env P c" "well_typed env P c r"
  shows "well_typed env P c (process env now_ms r)"
proof -
  have k: "well_typed env P c (rt_evict_subscriptions env now_ms (rt_evict_requests env now_ms w))" if "well_typed env P c w"
    for w :: "('a, 'b) runtime"
    using that by (auto simp: well_typed_def intro: inv_intros)
  have u: "well_typed env P c (track_uptime now_ms r)" using assms(2) by (auto simp: well_typed_def intro: inv_intros)
  show ?thesis unfolding process_def Let_def by (intro well_typed_loops well_typed_drain k u assms(1))
qed

section \<open>Runs\<close>

text \<open>The arguments a caller passes when it means what it says: method ids for methods, event ids for events, and a
  payload pointer that is null only with length zero.\<close>

fun op_typed :: "config \<Rightarrow> rt_op \<Rightarrow> bool" where
  "op_typed cfg (Do_Request sid mid p n cb ctx timeout now_ms) = (is_method_id mid \<and> payload_typed cfg p n)"
| "op_typed cfg (Do_Request_To target sid mid p n cb ctx timeout now_ms) = (is_method_id mid \<and> payload_typed cfg p n)"
| "op_typed cfg (Do_Fire_And_Forget sid mid p n) = (is_method_id mid \<and> payload_typed cfg p n)"
| "op_typed cfg (Do_Notify sid eid p n) = (is_event_id eid \<and> payload_typed cfg p n)"
| "op_typed cfg _ = True"

text \<open>The message an operation is about to send: its type, service, method or event, and payload.\<close>

fun op_call :: "rt_op \<Rightarrow> (MessageType \<times> u16 \<times> u16 \<times> bytes) option" where
  "op_call (Do_Request sid mid p n cb ctx timeout now_ms) = Some (REQUEST, sid, mid, payload_bytes p n)"
| "op_call (Do_Request_To target sid mid p n cb ctx timeout now_ms) = Some (REQUEST, sid, mid, payload_bytes p n)"
| "op_call (Do_Fire_And_Forget sid mid p n) = Some (REQUEST_NO_RETURN, sid, mid, payload_bytes p n)"
| "op_call (Do_Notify sid eid p n) = Some (NOTIFICATION, sid, eid, payload_bytes p n)"
| "op_call _ = None"

text \<open>Notifications carry the client id of providers.\<close>

definition speaker :: "u16 \<Rightarrow> MessageType \<Rightarrow> u16" where
  "speaker c mt = (if mt = NOTIFICATION then CLIENT_ID_PROVIDER else c)"

lemma well_typed_apply:
  assumes "typing_env env P c" "well_typed env P c r" "op_ok (en_cfg env) op" "op_typed (en_cfg env) op"
    and "\<And>mt sid mid payload. op_call op = Some (mt, sid, mid, payload) \<Longrightarrow> says P mt (speaker c mt) sid mid payload"
  shows "well_typed env P c (rt_apply env op r)"
proof -
  have e: "env_ok env" "c \<noteq> 0" "MaxPayloadSize (en_cfg env) < 2 ^ 32" "MaxPendingRequests (en_cfg env) \<le> 2 ^ 32"
    using assms(1) by (simp_all add: typing_env_def sd_fits_config_def env_ok_def)
  have r: "rt_wf (en_cfg env) r" "typed (en_cfg env) P c r" using assms(2) by (simp_all add: well_typed_def)
  have "typed (en_cfg env) P c (rt_apply env op r)"
    using r assms(4,5) request_impl_typed [OF r e(2) _ _ e(3,4)] fire_and_forget_typed [OF r e(2) _ _ e(3)]
      notify_typed [OF r _ _ e(3)] well_typed_process [OF assms(1,2)]
    by (cases op) (auto simp: well_typed_def request_def request_to_def speaker_def split: option.split)
  then show ?thesis using rt_wf_apply [OF e(1) r(1) assms(3)] by (simp add: well_typed_def)
qed

lemma well_typed_init:
  "well_typed env P c (runtime_init env transport app c)"
  using rt_wf_init [of env transport app c] by (simp add: well_typed_def typed_def runtime_init_def Let_def)

lemma well_typed_run:
  "typing_env env P c \<Longrightarrow> (\<And>mt sid mid payload. says P mt (speaker c mt) sid mid payload) \<Longrightarrow> well_typed env P c r \<Longrightarrow>
   \<forall>op\<in>set ops. op_ok (en_cfg env) op \<and> op_typed (en_cfg env) op \<Longrightarrow> well_typed env P c (fold (rt_apply env) ops r)"
  by (induction ops arbitrary: r) (simp_all add: well_typed_apply)

text \<open>C3: Everything a runtime puts on the wire is a frame of the protocol: after any run of API calls and process
  cycles of a runtime with a client id, in a configuration with room for the discovery payloads, whatever it receives, every unicast and broadcast it has made passes the
  checks of a receiver that do not depend on the receiver's state (length, CRC, version, payload bound, announced
  size, message type, kind of id, client id), except the empty datagrams that oversized payloads
  leave; the calls only have to use method ids for methods, event ids for events and null payloads of length zero.\<close>

theorem sent_frames_well_formed:
  assumes "env_ok env" "c \<noteq> 0" "SD_OFFER_PAYLOAD_SIZE (en_cfg env) \<le> MaxPayloadSize (en_cfg env)"
    and "MaxPayloadSize (en_cfg env) < 2 ^ 32" "\<forall>op\<in>set ops. op_ok (en_cfg env) op \<and> op_typed (en_cfg env) op"
    and "r = fold (rt_apply env) ops (runtime_init env transport app c)"
    and "f \<in> set (map snd (sent r) @ broadcasts r)"
  shows "f = [] \<or> wire_ok (en_cfg env) f"
proof -
  let ?P = "\<lambda>h payload. True"
  have e: "typing_env env ?P c" "says ?P mt (speaker c mt) sid mid payload" for mt sid mid payload
    using assms(1-4) by (simp_all add: typing_env_def sd_fits_config_def discovers_def hears_def heard_def says_def)
  have "typed (en_cfg env) ?P c r"
    unfolding assms(6) using well_typed_run [OF e well_typed_init assms(5)] by (simp add: well_typed_def)
  then show ?thesis using typed_frames [OF _ assms(7)] unfolding frame_typed_def by blast
qed

theorem sent_frames_well_formed_witness:
  "\<exists>f. map snd (sent (rt_apply demo_env (Do_Request_To [1] 0x1000 3 (Some [7, 8]) 2 (Some 9) 4 100 5) demo_rt)) = [f] \<and>
     length f = 24 \<and> wire_ok EmbeddedConfig f"
proof -
  let ?op = "Do_Request_To [1] 0x1000 3 (Some [7, 8]) 2 (Some 9) 4 100 5"
  have p: "sendable EmbeddedConfig (Some [7, 8]) 2" by (simp add: sendable_def) (simp add: EmbeddedConfig_def)
  have free: "active_count (rt_requests demo_rt) < MaxPendingRequests EmbeddedConfig" by code_simp
  have sends: "fst (impl_send demo_env [1] d t)" for d t by (simp add: demo_env_def)
  obtain i s where s: "request_impl demo_env [1] 0x1000 3 (Some [7, 8]) 2 (Some 9) 4 100 5 demo_rt = (Some i, s)"
    using request_impl_made [OF demo_env_ok, unfolded demo_cfg, OF demo_wf p free sends] by blast
  have "sent demo_rt = []" "\<not> has_key [1] (rt_auth demo_rt)" by code_simp+
  then obtain f where f: "sent (rt_apply demo_env ?op demo_rt) = [([1], f)]" "length f = 24"
    using request_succeeded(1) [OF demo_env_ok _ _ s] p
    by (auto simp: request_to_def s request_frame_def length_frame_of payload_bytes_def)
  have ops: "\<forall>op\<in>set [?op]. op_ok (en_cfg demo_env) op \<and> op_typed (en_cfg demo_env) op"
    using p by (simp add: payload_ok_def payload_typed_def is_method_id_def)
  have cfg: "SD_OFFER_PAYLOAD_SIZE (en_cfg demo_env) \<le> MaxPayloadSize (en_cfg demo_env)" "MaxPayloadSize (en_cfg demo_env) < 2 ^ 32"
    by (simp_all add: SD_OFFER_PAYLOAD_SIZE_def) (simp_all add: EmbeddedConfig_def)
  have "f = [] \<or> wire_ok (en_cfg demo_env) f"
    using sent_frames_well_formed [OF demo_env_ok _ cfg ops refl, of 7 f 0 0] f(1) by (simp add: demo_rt_def)
  then show ?thesis using f by auto
qed

end
