(* ===== verification/Network.thy ===== *)
theory Network
  imports Frame_Typing
begin

text \<open>
  Several runtimes on one network (\<open>runtime.hpp\<close>, composed).  The network keeps every frame a runtime has handed to
  its transport and may bring any of them to any runtime, in any order, any number of times or never;
  the source address it shows is arbitrary.  A runtime takes a step by a call of its application, the process
  cycle included, or by one turn of its receive loop, so that frames of several runtimes interleave
  inside a cycle.
\<close>

section \<open>The network\<close>

record ('t, 'a) net =
  nt_node :: "nat \<Rightarrow> ('t, 'a) runtime"
  nt_frames :: "bytes list"
  nt_calls :: "(nat \<times> MessageType \<times> u16 \<times> u16 \<times> bytes) list"

definition frames_out :: "('t, 'a) runtime \<Rightarrow> bytes list" where
  "frames_out r = map snd (sent r) @ broadcasts r"

text \<open>Node \<open>i\<close> is now \<open>r\<close>, after a step in which its application may have said something.\<close>

definition net_put ::
    "nat \<Rightarrow> (MessageType \<times> u16 \<times> u16 \<times> bytes) option \<Rightarrow> ('t, 'a) runtime \<Rightarrow> ('t, 'a) net \<Rightarrow> ('t, 'a) net" where
  "net_put i call r nt = nt\<lparr> nt_node := (nt_node nt)(i := r), nt_frames := nt_frames nt @ frames_out r,
     nt_calls := nt_calls nt @ (case call of None \<Rightarrow> [] | Some m \<Rightarrow> [(i, m)]) \<rparr>"

text \<open>A transport that brings frames of the network only.\<close>

definition carries :: "('t, 'a) env \<Rightarrow> bytes list \<Rightarrow> bool" where
  "carries env fs \<longleftrightarrow> (\<forall>t source data t'. impl_poll env t = (Some (source, data), t') \<longrightarrow> data \<in> set fs)"

inductive net_run :: "config \<Rightarrow> (nat \<Rightarrow> u16) \<Rightarrow> ('t, 'a) net \<Rightarrow> bool" for cfg ids where
  net_start:
    "(\<And>i. en_cfg (envs i) = cfg) \<Longrightarrow>
     net_run cfg ids \<lparr>nt_node = (\<lambda>i. runtime_init (envs i) (ts i) (as i) (ids i)), nt_frames = [], nt_calls = []\<rparr>"
| net_call:
    "net_run cfg ids nt \<Longrightarrow> env_ok env \<Longrightarrow> en_cfg env = cfg \<Longrightarrow> carries env (nt_frames nt) \<Longrightarrow>
     op_ok cfg op \<Longrightarrow> op_typed cfg op \<Longrightarrow>
     net_run cfg ids (net_put i (op_call op) (rt_apply env op (nt_node nt i)) nt)"
| net_deliver:
    "net_run cfg ids nt \<Longrightarrow> env_ok env \<Longrightarrow> en_cfg env = cfg \<Longrightarrow> carries env (nt_frames nt) \<Longrightarrow>
     data \<in> set (nt_frames nt) \<Longrightarrow>
     net_run cfg ids (net_put i None (validate_and_dispatch env source data now_ms (nt_node nt i)) nt)"

section \<open>Causes\<close>

text \<open>What a frame of the network needs: a reply, that the network has the request; any other message, except those of
  service discovery, that the application of a node has said it.\<close>

definition called :: "(nat \<Rightarrow> u16) \<Rightarrow> ('t, 'a) net \<Rightarrow> MessageType \<Rightarrow> MessageHeader \<Rightarrow> bytes \<Rightarrow> bool" where
  "called ids nt mt h payload \<longleftrightarrow>
     (\<exists>i. speaker (ids i) mt = hdr_client_id h \<and>
        (i, mt, hdr_service_id h, hdr_method_event_id h, payload) \<in> set (nt_calls nt))"

definition requested :: "config \<Rightarrow> ('t, 'a) net \<Rightarrow> MessageHeader \<Rightarrow> bool" where
  "requested cfg nt h \<longleftrightarrow>
     (\<exists>g \<in> set (nt_frames nt). wire_ok cfg g \<and> message_type_of (hdr_message_type (deserialize g)) = Some REQUEST \<and>
        answers h (deserialize g))"

definition caused :: "config \<Rightarrow> (nat \<Rightarrow> u16) \<Rightarrow> ('t, 'a) net \<Rightarrow> policy" where
  "caused cfg ids nt h payload \<longleftrightarrow>
     (case message_type_of (hdr_message_type h) of
        Some RESPONSE \<Rightarrow> requested cfg nt h
      | Some ERROR \<Rightarrow> requested cfg nt h
      | Some mt \<Rightarrow> (mt = REQUEST_NO_RETURN \<and> hdr_service_id h = SD_SERVICE_ID) \<or> called ids nt mt h payload
      | None \<Rightarrow> True)"

lemma discovers_caused: "discovers (caused cfg ids nt)"
  by (auto simp: discovers_def caused_def)

lemma caused_mono:
  assumes "set (nt_frames nt) \<subseteq> set (nt_frames nt')" "set (nt_calls nt) \<subseteq> set (nt_calls nt')" "caused cfg ids nt h payload"
  shows "caused cfg ids nt' h payload"
  using assms unfolding caused_def called_def requested_def by (auto split: option.splits MessageType.splits)

lemma typed_mono: "typed cfg P c r \<Longrightarrow> (\<And>h payload. P h payload \<Longrightarrow> Q h payload) \<Longrightarrow> typed cfg Q c r"
proof -
  assume t: "typed cfg P c r" and PQ: "\<And>h payload. P h payload \<Longrightarrow> Q h payload"
  have "effect_typed cfg P x \<Longrightarrow> effect_typed cfg Q x" for x
    using PQ by (cases x) (auto simp: frame_typed_def told_event_def told_call_def)
  then show "typed cfg Q c r" using t by (auto simp: typed_def list_all_iff)
qed

lemma typed_grows:
  "set (nt_frames nt) \<subseteq> set (nt_frames nt') \<Longrightarrow> set (nt_calls nt) \<subseteq> set (nt_calls nt') \<Longrightarrow>
   typed cfg (caused cfg ids nt) c r \<Longrightarrow> typed cfg (caused cfg ids nt') c r"
  by (erule typed_mono) (rule caused_mono)

text \<open>The invariant of the network.\<close>

definition net_ok :: "config \<Rightarrow> (nat \<Rightarrow> u16) \<Rightarrow> ('t, 'a) net \<Rightarrow> bool" where
  "net_ok cfg ids nt \<longleftrightarrow>
     (\<forall>i. rt_wf cfg (nt_node nt i) \<and> typed cfg (caused cfg ids nt) (ids i) (nt_node nt i)) \<and>
     (\<forall>f \<in> set (nt_frames nt). frame_typed cfg (caused cfg ids nt) f)"

lemma net_ok_put:
  assumes "net_ok cfg ids nt" "nt' = net_put i call r nt" "rt_wf cfg r" "typed cfg (caused cfg ids nt') (ids i) r"
  shows "net_ok cfg ids nt'"
proof -
  have sub: "set (nt_frames nt) \<subseteq> set (nt_frames nt')" "set (nt_calls nt) \<subseteq> set (nt_calls nt')"
    by (auto simp: assms(2) net_put_def)
  note mono = caused_mono [OF sub]
  have node: "nt_node nt' = (nt_node nt)(i := r)" by (simp add: assms(2) net_put_def)
  have "frame_typed cfg (caused cfg ids nt') f" if "f \<in> set (nt_frames nt')" for f
  proof (cases "f \<in> set (nt_frames nt)")
    case True
    then show ?thesis using assms(1) mono unfolding net_ok_def frame_typed_def by blast
  next
    case False
    then have "f \<in> set (map snd (sent r) @ broadcasts r)" using that by (auto simp: assms(2) net_put_def frames_out_def)
    then show ?thesis by (rule typed_frames [OF assms(4)])
  qed
  moreover have "typed cfg (caused cfg ids nt') (ids j) (nt_node nt' j)" for j
    using assms(1,4) by (cases "j = i") (simp_all add: net_ok_def node typed_grows [OF sub])
  moreover have "rt_wf cfg (nt_node nt' j)" for j using assms(1,3) by (simp add: net_ok_def node)
  ultimately show ?thesis by (simp add: net_ok_def)
qed

text \<open>A runtime that hears frames of the network only may reply to what it hears.\<close>

lemma net_hears:
  assumes "net_ok cfg ids nt" "set (nt_frames nt) \<subseteq> set (nt_frames nt')" "set (nt_calls nt) \<subseteq> set (nt_calls nt')"
    and "data \<in> set (nt_frames nt)"
  shows "heard cfg (caused cfg ids nt') data"
proof -
  have said: "caused cfg ids nt' (deserialize data) (frame_payload data)" if "wire_ok cfg data"
  proof -
    have "data \<noteq> []" using that by (auto simp: wire_ok_def Let_def MIN_MESSAGE_SIZE_def)
    then have "caused cfg ids nt (deserialize data) (frame_payload data)"
      using assms(1,4) by (auto simp: net_ok_def frame_typed_def)
    then show ?thesis by (rule caused_mono [OF assms(2,3)])
  qed
  have "caused cfg ids nt' h payload" if "wire_ok cfg data"
    "message_type_of (hdr_message_type (deserialize data)) = Some REQUEST" "answers h (deserialize data)" for h payload
  proof -
    have "requested cfg nt' h" unfolding requested_def using assms(2,4) that by blast
    then show ?thesis using that(3) by (auto simp: caused_def answers_def)
  qed
  then show ?thesis using said by (auto simp: heard_def)
qed

lemma net_node_typed:
  assumes "net_ok cfg ids nt" "set (nt_frames nt) \<subseteq> set (nt_frames nt')" "set (nt_calls nt) \<subseteq> set (nt_calls nt')"
    and "env_ok env" "en_cfg env = cfg" "carries env (nt_frames nt)" "ids i \<noteq> 0" "sd_fits_config cfg"
  shows "typing_env env (caused cfg ids nt') (ids i)"
    and "well_typed env (caused cfg ids nt') (ids i) (nt_node nt i)"
proof -
  show "typing_env env (caused cfg ids nt') (ids i)"
    using assms(4-8) net_hears [OF assms(1-3)] discovers_caused by (auto simp: typing_env_def hears_def carries_def)
  show "well_typed env (caused cfg ids nt') (ids i) (nt_node nt i)"
    using assms(1,5) by (simp add: well_typed_def net_ok_def typed_grows [OF assms(2,3)])
qed

lemma net_put_grows:
  "set (nt_frames nt) \<subseteq> set (nt_frames (net_put i call r nt))"
  "set (nt_calls nt) \<subseteq> set (nt_calls (net_put i call r nt))"
  by (auto simp: net_put_def)

lemma net_run_ok:
  assumes "net_run cfg ids nt" "\<And>i. ids i \<noteq> 0" "sd_fits_config cfg"
  shows "net_ok cfg ids nt"
  using assms(1)
proof (induction rule: net_run.induct)
  case (net_start envs ts as)
  have "well_typed (envs i) P (ids i) (runtime_init (envs i) (ts i) (as i) (ids i))" for i P
    by (rule well_typed_init)
  then show ?case using net_start by (simp add: net_ok_def well_typed_def)
next
  case (net_call nt env op i)
  let ?nt = "net_put i (op_call op) (rt_apply env op (nt_node nt i)) nt"
  note w = net_node_typed [OF net_call.IH net_put_grows net_call.hyps(2-4) assms(2,3)]
  have "says (caused cfg ids ?nt) mt (speaker (ids i) mt) sid mid payload"
    if "op_call op = Some (mt, sid, mid, payload)" for mt sid mid payload
  proof -
    have "mt \<notin> {RESPONSE, ERROR}" using that by (cases op) auto
    then show ?thesis using that by (cases mt) (auto simp: says_def caused_def called_def net_put_def)
  qed
  then have "well_typed env (caused cfg ids ?nt) (ids i) (rt_apply env op (nt_node nt i))"
    using net_call.hyps by (intro well_typed_apply [OF w]) simp_all
  then show ?case using net_ok_put [OF net_call.IH refl] net_call.hyps(3) by (simp add: well_typed_def)
next
  case (net_deliver nt env data i source now_ms)
  let ?nt = "net_put i None (validate_and_dispatch env source data now_ms (nt_node nt i)) nt"
  note w = net_node_typed [OF net_deliver.IH net_put_grows net_deliver.hyps(2-4) assms(2,3)]
  have "well_typed env (caused cfg ids ?nt) (ids i) (validate_and_dispatch env source data now_ms (nt_node nt i))"
    using net_deliver.hyps net_hears [OF net_deliver.IH net_put_grows] by (intro well_typed_receive [OF w]) simp
  then show ?case using net_ok_put [OF net_deliver.IH refl] net_deliver.hyps(3) by (simp add: well_typed_def)
qed

text \<open>C4: No reply comes out of thin air: on a network that loses, repeats, reorders and misdirects frames as it
  likes, every response and every error message answers a request on the network, with its service, method,
  client and request id, and that request comes from a node with that client id whose application
  has called that method with its payload.\<close>

theorem replies_have_causes:
  assumes "net_run cfg ids nt" "\<And>i. ids i \<noteq> 0"
    and "SD_OFFER_PAYLOAD_SIZE cfg \<le> MaxPayloadSize cfg" "MaxPayloadSize cfg < 2 ^ 32"
    and "f \<in> set (nt_frames nt)" "f \<noteq> []"
    and "message_type_of (hdr_message_type (deserialize f)) \<in> {Some RESPONSE, Some ERROR}"
  shows "\<exists>g \<in> set (nt_frames nt). \<exists>i. wire_ok cfg g \<and>
    message_type_of (hdr_message_type (deserialize g)) = Some REQUEST \<and> answers (deserialize f) (deserialize g) \<and>
    ids i = hdr_client_id (deserialize g) \<and>
    (i, REQUEST, hdr_service_id (deserialize g), hdr_method_event_id (deserialize g), frame_payload g) \<in> set (nt_calls nt)"
proof -
  have ok: "net_ok cfg ids nt" using net_run_ok [OF assms(1,2)] assms(3,4) by (simp add: sd_fits_config_def)
  have typed: "caused cfg ids nt (deserialize k) (frame_payload k)" if "k \<in> set (nt_frames nt)" "k \<noteq> []" for k
    using ok that unfolding net_ok_def frame_typed_def by blast
  have "requested cfg nt (deserialize f)" using typed [OF assms(5,6)] assms(7) by (auto simp: caused_def)
  then obtain g where g: "g \<in> set (nt_frames nt)" "wire_ok cfg g"
    "message_type_of (hdr_message_type (deserialize g)) = Some REQUEST" "answers (deserialize f) (deserialize g)"
    unfolding requested_def by blast
  have "g \<noteq> []" using g(2) by (auto simp: wire_ok_def Let_def MIN_MESSAGE_SIZE_def)
  then have "called ids nt REQUEST (deserialize g) (frame_payload g)" using typed [OF g(1)] g(3) by (simp add: caused_def)
  then show ?thesis using g unfolding called_def speaker_def by auto
qed

text \<open>C5: No application hears what nobody has said: on such a network every event that a runtime hands to an event
  handler, with its payload, has been raised by the application of some node, and every method call that it hands to
  a service, with its payload, has been made by the application of some node.\<close>

theorem applications_hear_what_was_said:
  assumes "net_run cfg ids nt" "\<And>i. ids i \<noteq> 0"
    and "SD_OFFER_PAYLOAD_SIZE cfg \<le> MaxPayloadSize cfg" "MaxPayloadSize cfg < 2 ^ 32"
    and "x \<in> set (rt_out (nt_node nt i))"
  shows "case x of
      Out_Event ctx sid eid payload \<Rightarrow> \<exists>j. (j, NOTIFICATION, sid, eid, payload) \<in> set (nt_calls nt)
    | Out_Service_Call ctx mid payload \<Rightarrow>
        \<exists>j mt sid. (mt = REQUEST \<or> mt = REQUEST_NO_RETURN) \<and> (j, mt, sid, mid, payload) \<in> set (nt_calls nt)
    | _ \<Rightarrow> True"
proof -
  have "net_ok cfg ids nt" using net_run_ok [OF assms(1,2)] assms(3,4) by (simp add: sd_fits_config_def)
  then have "effect_typed cfg (caused cfg ids nt) x" using assms(5) by (auto simp: net_ok_def typed_def list_all_iff)
  then show ?thesis
    by (cases x) (force simp: told_event_def told_call_def caused_def called_def)+
qed

section \<open>A network of two\<close>

text \<open>Node 0 calls a method of a service that node 1 does not have.\<close>

definition demo_call :: rt_op where
  "demo_call = Do_Request_To [1] 0x1000 3 None 0 None 0 100 5"

definition demo_net :: "(nat, nat) net" where
  "demo_net = \<lparr>nt_node = (\<lambda>i. demo_rt), nt_frames = [], nt_calls = []\<rparr>"

definition demo_called :: "(nat, nat) net" where
  "demo_called = net_put 0 (op_call demo_call) (rt_apply demo_env demo_call demo_rt) demo_net"

lemma demo_carries: "carries demo_env fs"
  by (simp add: carries_def demo_env_def)

lemma demo_called_run: "net_run EmbeddedConfig (\<lambda>i. 7) demo_called"
proof -
  have "net_run EmbeddedConfig (\<lambda>i. 7) demo_net"
    unfolding demo_net_def demo_rt_def
    using net_start [of "\<lambda>i. demo_env" EmbeddedConfig "\<lambda>i. 7" "\<lambda>i. 0" "\<lambda>i. 0"] by simp
  then have "net_run EmbeddedConfig (\<lambda>i. 7) (net_put 0 (op_call demo_call) (rt_apply demo_env demo_call (nt_node demo_net 0)) demo_net)"
    by (rule net_call [OF _ demo_env_ok demo_cfg demo_carries])
      (simp_all add: demo_call_def payload_ok_def payload_typed_def sendable_def is_method_id_def)
  then show ?thesis by (simp add: demo_called_def demo_net_def)
qed

lemma demo_call_reaches:
  assumes r: "rt_wf EmbeddedConfig r" "rt_auth r = rt_auth demo_rt" "rt_e2e r = rt_e2e demo_rt"
    and open_service: "\<forall>se. service_lookup (rt_dispatcher r) 0x1000 = Some se \<longrightarrow> \<not> se_auth_required se"
  obtains g r' i where "g \<in> set (nt_frames demo_called)" "only_noted r r'" "rt_wf EmbeddedConfig r'"
    and "validate_and_dispatch demo_env [2] g 6 r =
      handle_request demo_env [2] (request_header [1] 0x1000 3 0 i demo_rt) [] r'"
proof -
  let ?a = "allocate EmbeddedConfig (Some (rt_logger demo_rt)) 0x1000 3 100 5 None 0 (rt_requests demo_rt)"
  have m: "MaxPayloadSize EmbeddedConfig < 2 ^ 32" by (simp add: EmbeddedConfig_def)
  have p: "sendable EmbeddedConfig None 0" by (simp add: sendable_def)
  have free: "active_count (rt_requests demo_rt) < MaxPendingRequests EmbeddedConfig" by code_simp
  have "fst (impl_send demo_env [1] d t)" for d t by (simp add: demo_env_def)
  then obtain i s' where s': "request_impl demo_env [1] 0x1000 3 None 0 None 0 100 5 demo_rt = (Some i, s')"
    using request_impl_made [OF demo_env_ok, unfolded demo_cfg, OF demo_wf p free] by blast
  have k: "keys_agree (rt_auth demo_rt) [1] (rt_auth demo_rt) [2]" by code_simp
  have v: "seq_verdict EmbeddedConfig (used (e2e_peers (rt_e2e demo_rt)) < MaxTrackedPeers EmbeddedConfig)
      (last_seen (rt_e2e demo_rt) [2]) (e2e_tx_seq (rt_e2e demo_rt)) = FirstSeen" by code_simp
  have c: "rt_client_id demo_rt = 7" by (simp add: demo_rt_def runtime_init_def Let_def)
  obtain f r' where f: "sent s' = sent demo_rt @ [([1], f)]" "only_noted r r'" "rt_wf EmbeddedConfig r'"
    "validate_and_dispatch demo_env [2] f 6 r =
      handle_request demo_env [2] (request_header [1] 0x1000 3 0 i demo_rt) [] r'"
    using request_reaches [OF demo_env_ok, where s = demo_rt and p = None and n = 0 and target = "[1]"
        and sid = "0x1000" and mid = 3 and timeout = 100 and now_ms = 5 and cb = None and ctx = 0 and i = i
        and s' = s' and renv = demo_env and r = r and source = "[2]" and rx_ms = 6] s' p m k v c r open_service
    by (auto simp: SD_SERVICE_ID_def is_method_id_def payload_bytes_def)
  have "f \<in> set (nt_frames demo_called)"
    using f(1) by (simp add: demo_called_def net_put_def frames_out_def demo_call_def request_to_def s')
  then show ?thesis using f that by blast
qed

text \<open>A request for a service that the runtime does not have is answered with an error message.\<close>

lemma unknown_service_reply:
  assumes "env_ok env" "rt_wf (en_cfg env) r" "find_service_entry (hdr_service_id hdr) (rt_dispatcher r) = None"
  obtains f where "sent (handle_request env source hdr payload r) = sent r @ [(source, f)]"
    and "deserialize f = reply_header source hdr E_UNKNOWN_SERVICE 0 r" and "f \<noteq> []"
proof -
  obtain r1 where d: "dispatch_result env hdr payload r =
      (E_UNKNOWN_SERVICE, Some (rt_response_buffer r), MaxPayloadSize (en_cfg env), r1)"
    using assms(3) by (auto simp: dispatch_result_def Let_def dispatch_def rt_info_def)
  let ?f = "frame_of (rt_auth r) (reply_header source hdr E_UNKNOWN_SERVICE 0 r) [] (has_key source (rt_auth r)) source"
  have ne: "E_UNKNOWN_SERVICE \<noteq> E_OK" by (simp add: E_UNKNOWN_SERVICE_def E_OK_def)
  have "sent (handle_request env source hdr payload r) = sent r @ [(source, ?f)]"
    using handle_request_sent [OF assms(1,2) d, of source] ne by simp
  moreover have "?f \<noteq> []" by (simp add: frame_of_def crc_trailer_def)
  ultimately show ?thesis using that frame_of_header by blast
qed

theorem replies_have_causes_witness:
  "\<exists>(nt :: (nat, nat) net) f. net_run EmbeddedConfig (\<lambda>i. 7) nt \<and> f \<in> set (nt_frames nt) \<and>
     message_type_of (hdr_message_type (deserialize f)) = Some ERROR \<and>
     (\<exists>g \<in> set (nt_frames nt). answers (deserialize f) (deserialize g))"
proof -
  have none: "service_lookup (rt_dispatcher demo_rt) 0x1000 = None" by code_simp
  obtain g r' i where g: "g \<in> set (nt_frames demo_called)" "only_noted demo_rt r'" "rt_wf EmbeddedConfig r'"
    "validate_and_dispatch demo_env [2] g 6 demo_rt =
      handle_request demo_env [2] (request_header [1] 0x1000 3 0 i demo_rt) [] r'"
    by (rule demo_call_reaches [OF demo_wf refl refl]) (simp add: none)
  let ?hdr = "request_header [1] 0x1000 3 0 i demo_rt"
  let ?nt = "net_put 1 None (validate_and_dispatch demo_env [2] g 6 (nt_node demo_called 1)) demo_called"
  have node: "nt_node demo_called (Suc 0) = demo_rt" by (simp add: demo_called_def net_put_def demo_net_def)
  have "rt_dispatcher r' = rt_dispatcher demo_rt" using g(2) by (auto simp: only_noted_def)
  moreover have "find_service_entry 0x1000 (rt_dispatcher demo_rt) = None" by code_simp
  moreover have "hdr_service_id ?hdr = 0x1000" by (simp add: request_header_def make_request_header_def)
  ultimately obtain f where f: "sent (handle_request demo_env [2] ?hdr [] r') = sent r' @ [([2], f)]"
    "deserialize f = reply_header [2] ?hdr E_UNKNOWN_SERVICE 0 r'" "f \<noteq> []"
    using unknown_service_reply [OF demo_env_ok, of r' ?hdr "[2]" "[]"] g(3) by auto
  have run: "net_run EmbeddedConfig (\<lambda>i. 7) ?nt"
    by (rule net_deliver [OF demo_called_run demo_env_ok demo_cfg demo_carries g(1)])
  have mem: "f \<in> set (nt_frames ?nt)" using f(1) by (simp add: net_put_def frames_out_def node g(4))
  have type: "message_type_of (hdr_message_type (deserialize f)) = Some ERROR"
    by (simp add: f(2) reply_header_def message_type_of_def E_UNKNOWN_SERVICE_def E_OK_def)
  have "SD_OFFER_PAYLOAD_SIZE EmbeddedConfig \<le> MaxPayloadSize EmbeddedConfig" "MaxPayloadSize EmbeddedConfig < 2 ^ 32"
    by (simp_all add: EmbeddedConfig_def SD_OFFER_PAYLOAD_SIZE_def)
  then have "\<exists>g \<in> set (nt_frames ?nt). answers (deserialize f) (deserialize g)"
    using replies_have_causes [OF run _ _ _ mem f(3)] type by auto
  then show ?thesis using run mem type by blast
qed

text \<open>Node 1 registers the service before the call arrives, and hears it.\<close>

definition demo_serving :: rt_op where
  "demo_serving = Do_Register_Service 0x1000 4 1 0 False"

lemma out_kept:
  assumes "x \<in> set (rt_out r)"
  shows "x \<in> set (rt_out (rt_info env c tag s m k y r))" and "x \<in> set (rt_out (rt_warn env c tag s m k y r))"
    and "x \<in> set (rt_out (diag_increment d h r))" and "x \<in> set (rt_out (snd (rt_send env dest n r)))"
    and "x \<in> set (rt_out (snd (rt_next_sequence r)))" and "x \<in> set (rt_out (snd (build_message cfg hdr p n auth peer r)))"
    and "x \<in> set (rt_out (emit os r))"
  using assms by (simp_all add: rt_info_def rt_warn_def diag_increment_def rt_send_def rt_next_sequence_def
      build_message_def emit_def Let_def case_prod_beta)

lemma request_told:
  assumes "find_service_entry (hdr_service_id hdr) (rt_dispatcher r) = Some se" "se_context se = Some (AppCtx n)"
    and "app_is_ready env n (rt_app r)"
  shows "Out_Service_Call n (hdr_method_event_id hdr) payload \<in> set (rt_out (handle_request env source hdr payload r))"
proof -
  obtain rc resp m r1 where d: "dispatch_result env hdr payload r = (rc, resp, m, r1)" by (metis prod_cases4)
  have "Out_Service_Call n (hdr_method_event_id hdr) payload \<in> set (rt_out r1)"
    using d assms
    by (auto simp: dispatch_result_def Let_def dispatch_def entry_ready_def entry_call_def service_ready_def service_call_def
        rt_info_def emit_def split: prod.splits)
  then have "Out_Service_Call n (hdr_method_event_id hdr) payload \<in>
      set (rt_out (case resp of None \<Rightarrow> r1 | Some b \<Rightarrow> r1\<lparr>rt_response_buffer := b\<rparr>))"
    by (cases resp) simp_all
  then show ?thesis
    unfolding handle_request_def Let_def d [unfolded dispatch_result_def Let_def] prod.case
    by (simp add: case_prod_beta out_kept)
qed

theorem applications_hear_what_was_said_witness:
  "\<exists>nt :: (nat, nat) net. net_run EmbeddedConfig (\<lambda>i. 7) nt \<and> Out_Service_Call 4 3 [] \<in> set (rt_out (nt_node nt 1)) \<and>
     (\<exists>j mt sid. (mt = REQUEST \<or> mt = REQUEST_NO_RETURN) \<and> (j, mt, sid, 3, []) \<in> set (nt_calls nt))"
proof -
  let ?r = "rt_apply demo_env demo_serving demo_rt"
  let ?served = "net_put 1 (op_call demo_serving) ?r demo_called"
  have op: "op_ok EmbeddedConfig demo_serving" "op_typed EmbeddedConfig demo_serving" by (simp_all add: demo_serving_def)
  have node: "nt_node demo_called (Suc 0) = demo_rt" by (simp add: demo_called_def net_put_def demo_net_def)
  have run: "net_run EmbeddedConfig (\<lambda>i. 7) ?served"
    using net_call [OF demo_called_run demo_env_ok demo_cfg demo_carries op, of 1] by (simp add: node)
  have wf: "rt_wf EmbeddedConfig ?r" using rt_wf_apply [OF demo_env_ok, of demo_rt demo_serving] op by simp
  have parts: "rt_auth ?r = rt_auth demo_rt" "rt_e2e ?r = rt_e2e demo_rt" "rt_app ?r = rt_app demo_rt"
    by (simp_all add: demo_serving_def rt_register_service_def emit_def case_prod_beta)
  have se: "service_lookup (rt_dispatcher ?r) 0x1000 = Some (make_service_entry 0x1000 (AppCtx 4) 1 0 False)" by code_simp
  obtain g r' i where g: "g \<in> set (nt_frames demo_called)" "only_noted ?r r'" "rt_wf EmbeddedConfig r'"
    "validate_and_dispatch demo_env [2] g 6 ?r = handle_request demo_env [2] (request_header [1] 0x1000 3 0 i demo_rt) [] r'"
    by (rule demo_call_reaches [OF wf parts(1,2)]) (simp_all add: se make_service_entry_def default_service_def)
  let ?hdr = "request_header [1] 0x1000 3 0 i demo_rt"
  let ?nt = "net_put 1 None (validate_and_dispatch demo_env [2] g 6 (nt_node ?served 1)) ?served"
  have h: "hdr_service_id ?hdr = 0x1000" "hdr_method_event_id ?hdr = 3"
    by (simp_all add: request_header_def make_request_header_def)
  have "rt_dispatcher r' = rt_dispatcher ?r" using g(2) by (auto simp: only_noted_def)
  then have "find_service_entry 0x1000 (rt_dispatcher r') = Some (make_service_entry 0x1000 (AppCtx 4) 1 0 False)"
    using find_service_lookup [OF rt_wf_parts(6) [OF wf]] se by simp
  then have told: "Out_Service_Call 4 3 [] \<in> set (rt_out (handle_request demo_env [2] ?hdr [] r'))"
    using request_told [of ?hdr r' _ 4 demo_env "[]" "[2]"] h by (simp add: make_service_entry_def demo_env_def)
  have "g \<in> set (nt_frames ?served)" using g(1) by (simp add: net_put_def)
  then have run': "net_run EmbeddedConfig (\<lambda>i. 7) ?nt"
    by (rule net_deliver [OF run demo_env_ok demo_cfg demo_carries])
  have heard: "Out_Service_Call 4 3 [] \<in> set (rt_out (nt_node ?nt 1))" using told g(4) by (simp add: net_put_def)
  have "SD_OFFER_PAYLOAD_SIZE EmbeddedConfig \<le> MaxPayloadSize EmbeddedConfig" "MaxPayloadSize EmbeddedConfig < 2 ^ 32"
    by (simp_all add: EmbeddedConfig_def SD_OFFER_PAYLOAD_SIZE_def)
  then have "\<exists>j mt sid. (mt = REQUEST \<or> mt = REQUEST_NO_RETURN) \<and> (j, mt, sid, 3, []) \<in> set (nt_calls ?nt)"
    using applications_hear_what_was_said [OF run' _ _ _ heard] by simp
  then show ?thesis using run' heard by blast
qed

end
