(* ===== verification/Replay_Window.thy ===== *)
theory Replay_Window
  imports Sd_Frames
begin

text \<open>
  The replay protection of the runtime over time (\<open>security/e2e_protection.hpp\<close> inside \<open>runtime.hpp\<close>):
  which steps move the counter the runtime last accepted from a peer, which steps forget it, and for how long
  a frame that has passed once stays shut out.
\<close>

section \<open>Steps that forget a peer\<close>

text \<open>A search by the peer itself, or an offer in its name with a new session id, is taken for its reboot.\<close>

definition reopens :: "config \<Rightarrow> addr \<Rightarrow> addr \<Rightarrow> bytes \<Rightarrow> ('t, 'a) runtime \<Rightarrow> bool" where
  "reopens cfg a source data r \<longleftrightarrow>
     wire_ok cfg data \<and> hdr_service_id (deserialize data) = SD_SERVICE_ID \<and>
     (case sd_method_of (hdr_method_event_id (deserialize data)) of
        Some SD_FIND_SERVICE \<Rightarrow> source = a \<and> deserialize_find (frame_payload data) \<noteq> None
      | Some SD_OFFER_SERVICE \<Rightarrow>
          (case deserialize_offer cfg (frame_payload data) of
             None \<Rightarrow> False
           | Some f \<Rightarrow> of_provider f = a \<and> detect_reboot (of_service_id f) (of_session f) (rt_sd r))
      | _ \<Rightarrow> False)"

text \<open>A service found at that address whose time to live is over.\<close>

definition expires :: "addr \<Rightarrow> u32 \<Rightarrow> ('t, 'a) runtime \<Rightarrow> bool" where
  "expires a now_ms r \<longleftrightarrow>
     (\<exists>ce \<in> set (live (sd_consumers (rt_sd r))).
        cn_state ce = C_FOUND \<and> time_after now_ms (cn_ttl_expiry_ms ce) \<and> cn_provider_addr ce = a)"

text \<open>A frame that moves the counter of a tracked peer.\<close>

definition advances :: "config \<Rightarrow> addr \<Rightarrow> addr \<Rightarrow> bytes \<Rightarrow> ('t, 'a) runtime \<Rightarrow> bool" where
  "advances cfg a source data r \<longleftrightarrow>
     source = a \<and> wire_ok cfg data \<and> hdr_service_id (deserialize data) \<noteq> SD_SERVICE_ID \<and>
     (case last_seen (rt_e2e r) a of
        None \<Rightarrow> False
      | Some s \<Rightarrow> seq_verdict cfg True (Some s) (hdr_sequence_counter (deserialize data)) = Accept)"

section \<open>What each step does to the counters\<close>

abbreviation peers_of :: "('t, 'a) runtime \<Rightarrow> PeerEntry tbl" where
  "peers_of r \<equiv> e2e_peers (rt_e2e r)"

lemma last_seen_peers: "peers_of r' = peers_of r \<Longrightarrow> last_seen (rt_e2e r') a = last_seen (rt_e2e r) a"
  by (simp add: last_seen_def peer_entry_def)

lemma last_seen_reset:
  assumes "rt_wf (en_cfg env) r"
  shows "last_seen (rt_e2e (rt_reset_peer env b r)) a = (if a = b then None else last_seen (rt_e2e r) a)"
proof -
  note wf = rt_wf_parts(1) [OF assms]
  have "rt_e2e (rt_reset_peer env b r) = e2e_del (en_cfg env) b (rt_e2e r)"
    using validate_sequence_state(2) [of "en_cfg env" "Some (rt_logger r)" b "rt_e2e r"]
    by (simp add: rt_reset_peer_def case_prod_beta)
  then show ?thesis
    using e2e.del_inv [OF wf] by (simp add: last_seen_def e2e_del_table(2) [OF wf] bm_del_def)
qed

lemma sd_send_keeps [simp]:
  "rt_e2e (send_sd_unicast env dest msg r) = rt_e2e r" "rt_e2e (send_sd_broadcast env msg r) = rt_e2e r"
  "rt_auth (send_sd_unicast env dest msg r) = rt_auth r" "rt_dispatcher (send_sd_unicast env dest msg r) = rt_dispatcher r"
  by (simp_all add: send_sd_unicast_def send_sd_broadcast_def rt_broadcast_def rt_send_def rt_trace_def rt_warn_def
      diag_increment_def Let_def case_prod_beta)

text \<open>The answers to a search go out through the discovery helper only.\<close>

lemma handle_find_keeps [simp]:
  "rt_e2e (handle_find cfg sid source (send_sd_unicast env) sd r) = rt_e2e r"
  "rt_auth (handle_find cfg sid source (send_sd_unicast env) sd r) = rt_auth r"
  "rt_dispatcher (handle_find cfg sid source (send_sd_unicast env) sd r) = rt_dispatcher r"
  unfolding handle_find_def Let_def
  by (rule fold_keeps [where I = "\<lambda>w. rt_e2e w = rt_e2e r"] fold_keeps [where I = "\<lambda>w. rt_auth w = rt_auth r"]
      fold_keeps [where I = "\<lambda>w. rt_dispatcher w = rt_dispatcher r"]; simp)+

lemma handle_subscribe_request_peers [simp]:
  "rt_e2e (handle_subscribe_request env source hdr sid eid ttl now_ms r) = rt_e2e r"
  by (simp add: handle_subscribe_request_def Let_def case_prod_beta)

lemma sd_message_peers:
  assumes wf: "rt_wf (en_cfg env) r"
    and data: "hdr = deserialize data" "wire_ok (en_cfg env) data"
    and sd: "hdr_service_id hdr = SD_SERVICE_ID" and quiet: "\<not> reopens (en_cfg env) a source data r"
  shows "last_seen (rt_e2e (handle_sd_message env source hdr (frame_payload data) now_ms r)) a = last_seen (rt_e2e r) a"
proof (cases "sd_method_of (hdr_method_event_id hdr)")
  case None
  then show ?thesis by (simp add: handle_sd_message_def)
next
  case (Some m)
  show ?thesis
  proof (cases m)
    case SD_OFFER_SERVICE
    then show ?thesis
      using quiet data sd Some wf
      by (auto simp: reopens_def handle_sd_message_def handle_sd_offer_def Let_def case_prod_beta last_seen_reset
          split: option.split)
  next
    case SD_FIND_SERVICE
    show ?thesis
      using quiet data sd Some SD_FIND_SERVICE wf
      by (auto simp: reopens_def handle_sd_message_def handle_sd_find_def Let_def case_prod_beta last_seen_reset
          split: option.split)
  qed (use Some in \<open>auto simp: handle_sd_message_def Let_def case_prod_beta split: option.split\<close>)
qed


lemma check_auth_sd: "rt_sd (snd (check_auth env source data hdr r)) = rt_sd r"
  by (simp add: check_auth_def Let_def case_prod_beta rt_error_def split: option.split)

text \<open>The counter of a peer after a frame has been received, from that peer or another.\<close>

lemma untyped_frame_peers: "\<not> wire_ok (en_cfg env) data \<Longrightarrow> rt_e2e (validate_and_dispatch env source data now_ms r) = rt_e2e r"
  by (auto simp: validate_and_dispatch_def wire_ok_def Let_def)

lemma heard_peer:
  assumes "rt_wf (en_cfg env) r" "\<not> reopens (en_cfg env) a source data r"
  shows "last_seen (rt_e2e (validate_and_dispatch env source data now_ms r)) a =
    (if source = a \<and> wire_ok (en_cfg env) data \<and> hdr_service_id (deserialize data) \<noteq> SD_SERVICE_ID
     then last_seen (e2e_put (en_cfg env) (hdr_sequence_counter (deserialize data)) a (rt_e2e r)) a
     else last_seen (rt_e2e r) a)"
proof (cases "wire_ok (en_cfg env) data")
  case False
  then show ?thesis by (simp add: untyped_frame_peers)
next
  case wire: True
  let ?hdr = "deserialize data"
  show ?thesis
  proof (cases "hdr_service_id ?hdr = SD_SERVICE_ID")
    case False
    have "peers_of (validate_and_dispatch env source data now_ms r) =
        peers_of (r\<lparr>rt_e2e := e2e_put (en_cfg env) (hdr_sequence_counter ?hdr) source (rt_e2e r)\<rparr>)"
      using validated_peers [OF wire False] by simp
    from last_seen_peers [OF this, of a] show ?thesis
      using False wire last_seen_put_other [OF rt_wf_parts(1) [OF assms(1)]] by auto
  next
    case True
    let ?a = "check_auth env source data ?hdr r"
    define w where "w = rt_debug env CatDispatch ''dispatch'' SD_SERVICE_ID (hdr_method_event_id ?hdr)
         (hdr_client_id ?hdr) (hdr_payload_length ?hdr) (snd ?a)"
    have w: "rt_e2e w = rt_e2e r" "rt_wf (en_cfg env) w" "rt_sd w = rt_sd r"
      using rt_wf_check_auth [OF assms(1)] by (simp_all add: w_def check_auth_e2e check_auth_sd)
    have quiet: "\<not> reopens (en_cfg env) a source data w" using assms(2) unfolding reopens_def w(3) .
    have s: "check_sequence env source data ?hdr r = (True, r)" using True by (simp add: check_sequence_def)
    show ?thesis
      using sd_message_peers [OF w(2) refl wire True quiet, of now_ms]
      unfolding wire_ok_steps [where source = source and r = r and now_ms = now_ms, OF wire refl refl refl] s
      by (simp add: True w_def [symmetric] dispatch_message_def w(1) check_auth_e2e)
  qed
qed


text \<open>The calls of the application, other than \<open>process\<close>, leave the peer table alone.\<close>

lemma send_notification_peers: "peers_of (send_notification env sid eid p n dest cid r) = peers_of r"
  by (simp add: send_notification_def Let_def case_prod_beta)

lemma rt_apply_peers:
  assumes "\<And>now_ms. op \<noteq> Do_Process now_ms"
  shows "peers_of (rt_apply env op r) = peers_of r"
proof (cases op)
  case (Do_Notify sid eid p n)
  have "peers_of (notify sid eid (send_notification env sid eid p n) (rt_events r) r) = peers_of r"
    unfolding notify_def by (auto split: option.split intro!: fold_keeps [where I = "\<lambda>w. peers_of w = peers_of r"]
        simp: send_notification_peers)
  then show ?thesis by (simp add: Do_Notify notify_event_def)
qed (use assms in \<open>simp_all add: case_prod_beta set_local_address_def rt_register_service_def rt_unregister_service_def
    rt_register_event_def offer_service_def stop_offer_def find_service_def set_sd_callbacks_def request_def
    request_to_def request_impl_def fire_and_forget_def subscribe_event_def unsubscribe_event_def set_hmac_key_def
    set_diagnostic_callback_def set_log_callback_def enable_diagnostics_def report_dtc_def clear_dtc_def
    clear_all_dtcs_def Let_def split: option.split\<close>)

section \<open>The end of a process cycle\<close>

definition cycle_end :: "('t, 'a) env \<Rightarrow> u32 \<Rightarrow> ('t, 'a) runtime \<Rightarrow> ('t, 'a) runtime" where
  "cycle_end env now_ms r =
     rt_process_finds env now_ms (rt_process_ttls env now_ms (rt_process_renewals env now_ms
       (rt_process_offers env now_ms (rt_evict_subscriptions env now_ms (rt_evict_requests env now_ms r)))))"

lemma process_cycle:
  "process env now_ms r = cycle_end env now_ms (drain env now_ms (MaxReceiveQueueSize (en_cfg env)) (track_uptime now_ms r))"
  by (simp add: process_def cycle_end_def Let_def)


text \<open>The loops of a cycle send and log; only the expiry of found services touches the peer table.\<close>

lemma loop_peers:
  assumes "rt_wf (en_cfg env) r"
  shows "peers_of (rt_process_offers env now_ms r) = peers_of r"
    and "peers_of (rt_process_renewals env now_ms r) = peers_of r"
    and "peers_of (rt_process_finds env now_ms r) = peers_of r"
    and "sd_consumers (rt_sd (rt_process_offers env now_ms r)) = sd_consumers (rt_sd r)"
    and "sd_consumers (rt_sd (rt_process_renewals env now_ms r)) = sd_consumers (rt_sd r)"
proof -
  note sd = rt_wf_parts(5) [OF assms]
  show "peers_of (rt_process_offers env now_ms r) = peers_of r"
    by (auto simp: rt_process_offers_def process_offers_run [OF sd] offer_emit_def
        intro!: fold_keeps [where I = "\<lambda>w. peers_of w = peers_of r"])
  show "peers_of (rt_process_renewals env now_ms r) = peers_of r"
    by (auto simp: rt_process_renewals_def process_subscription_renewals_run [OF sd] renewal_emit_def
        intro!: fold_keeps [where I = "\<lambda>w. peers_of w = peers_of r"] split: option.split)
  show "peers_of (rt_process_finds env now_ms r) = peers_of r"
    by (auto simp: rt_process_finds_def process_finds_run [OF sd] find_emit_def
        intro!: fold_keeps [where I = "\<lambda>w. peers_of w = peers_of r"])
  show "sd_consumers (rt_sd (rt_process_offers env now_ms r)) = sd_consumers (rt_sd r)"
    by (simp add: rt_process_offers_def process_offers_run [OF sd])
  show "sd_consumers (rt_sd (rt_process_renewals env now_ms r)) = sd_consumers (rt_sd r)"
    by (simp add: rt_process_renewals_def process_subscription_renewals_run [OF sd])
qed

lemma fold_keeps_on:
  "(\<And>x w. x \<in> set xs \<Longrightarrow> I w \<Longrightarrow> I (f x w)) \<Longrightarrow> I w \<Longrightarrow> I (fold f xs w)"
  by (induction xs arbitrary: w) simp_all

lemma ttls_peer:
  assumes "rt_wf (en_cfg env) r" "\<not> expires a now_ms r"
  shows "last_seen (rt_e2e (rt_process_ttls env now_ms r)) a = last_seen (rt_e2e r) a"
proof -
  note sd = rt_wf_parts(5) [OF assms(1)]
  let ?I = "\<lambda>w. rt_wf (en_cfg env) w \<and> last_seen (rt_e2e w) a = last_seen (rt_e2e r) a"
  have "?I (ttl_emit (en_cfg env) lg now_ms emit (rt_reset_peer env) (rt_sd r) ce w)"
    if "ce \<in> set (live (sd_consumers (rt_sd r)))" "?I w" for lg ce w
    using that assms(2) by (auto simp: expires_def ttl_emit_def ttl_over_def last_seen_reset intro!: rt_wf_reset_peer)
  then have "?I (fold (ttl_emit (en_cfg env) lg now_ms emit (rt_reset_peer env) (rt_sd r)) (live (sd_consumers (rt_sd r))) r)"
    for lg using assms(1) by (rule_tac fold_keeps_on [where I = ?I]) blast+
  then show ?thesis by (simp add: rt_process_ttls_def process_consumer_ttls_run [OF sd])
qed

lemma cycle_end_peer:
  assumes "rt_wf (en_cfg env) r" "\<not> expires a now_ms r"
  shows "last_seen (rt_e2e (cycle_end env now_ms r)) a = last_seen (rt_e2e r) a"
    and "rt_wf (en_cfg env) (cycle_end env now_ms r)"
proof -
  define r1 where "r1 = rt_evict_subscriptions env now_ms (rt_evict_requests env now_ms r)"
  have r1: "rt_wf (en_cfg env) r1" unfolding r1_def using assms(1) by (auto intro: inv_intros)
  have same: "rt_e2e r1 = rt_e2e r" "rt_sd r1 = rt_sd r"
    by (simp_all add: r1_def rt_evict_subscriptions_def rt_evict_requests_def case_prod_beta)
  define r2 where "r2 = rt_process_renewals env now_ms (rt_process_offers env now_ms r1)"
  note wf1 = rt_wf_process_loops(1) [OF r1, of now_ms]
  have r2: "rt_wf (en_cfg env) r2" using rt_wf_process_loops(2) [OF wf1] by (simp add: r2_def)
  have p2: "peers_of r2 = peers_of r" "sd_consumers (rt_sd r2) = sd_consumers (rt_sd r)"
    using loop_peers [OF r1] loop_peers [OF wf1] same by (simp_all add: r2_def)
  note wf3 = rt_wf_process_loops(3) [OF r2, of now_ms]
  have e: "cycle_end env now_ms r = rt_process_finds env now_ms (rt_process_ttls env now_ms r2)"
    by (simp add: cycle_end_def r2_def r1_def)
  show "rt_wf (en_cfg env) (cycle_end env now_ms r)" unfolding e by (rule rt_wf_process_loops(4) [OF wf3])
  have "\<not> expires a now_ms r2" using assms(2) by (simp add: expires_def p2(2))
  from ttls_peer [OF r2 this] last_seen_peers [OF loop_peers(3) [OF wf3], of now_ms a] last_seen_peers [OF p2(1), of a]
  show "last_seen (rt_e2e (cycle_end env now_ms r)) a = last_seen (rt_e2e r) a" unfolding e by simp
qed


section \<open>Runs\<close>

text \<open>
  A run of the runtime in which nothing makes it forget the peer \<open>a\<close>, with the number of frames that moved the
  counter of \<open>a\<close>.  A process cycle is a clock step, polls and receptions in turn, and the end of the cycle
  (\<open>process_cycle\<close>).
\<close>

inductive peer_run :: "('t, 'a) env \<Rightarrow> addr \<Rightarrow> ('t, 'a) runtime \<Rightarrow> nat \<Rightarrow> ('t, 'a) runtime \<Rightarrow> bool" for env a r where
  run_start: "peer_run env a r 0 r"
| run_receive:
    "peer_run env a r n r1 \<Longrightarrow> \<not> reopens (en_cfg env) a source data r1 \<Longrightarrow>
     peer_run env a r (if advances (en_cfg env) a source data r1 then Suc n else n)
       (validate_and_dispatch env source data now_ms r1)"
| run_call:
    "peer_run env a r n r1 \<Longrightarrow> op_ok (en_cfg env) op \<Longrightarrow> (\<And>now_ms. op \<noteq> Do_Process now_ms) \<Longrightarrow>
     peer_run env a r n (rt_apply env op r1)"
| run_poll: "peer_run env a r n r1 \<Longrightarrow> peer_run env a r n (r1\<lparr>rt_transport := t\<rparr>)"
| run_clock: "peer_run env a r n r1 \<Longrightarrow> peer_run env a r n (track_uptime now_ms r1)"
| run_cycle_end:
    "peer_run env a r n r1 \<Longrightarrow> \<not> expires a now_ms r1 \<Longrightarrow> peer_run env a r n (cycle_end env now_ms r1)"

text \<open>Each counted frame moves the counter ahead by at most the window.\<close>

definition moved :: "config \<Rightarrow> nat \<Rightarrow> u8 \<Rightarrow> u8 option \<Rightarrow> bool" where
  "moved cfg n s now \<longleftrightarrow> (\<exists>d \<le> n * unat (SeqCounterAcceptWindow cfg). now = Some (s + of_nat d))"

lemma moved_start [simp]: "moved cfg 0 s (Some s)"
  by (simp add: moved_def)

lemma moved_Suc:
  assumes "moved cfg n s (Some x)" "y - x \<le> SeqCounterAcceptWindow cfg"
  shows "moved cfg (Suc n) s (Some y)"
proof -
  obtain d where d: "d \<le> n * unat (SeqCounterAcceptWindow cfg)" "x = s + of_nat d"
    using assms(1) by (auto simp: moved_def)
  have "unat (y - x) \<le> unat (SeqCounterAcceptWindow cfg)" using assms(2) by (simp add: word_le_nat_alt)
  moreover have "y = s + of_nat (d + unat (y - x))" by (simp add: d(2))
  ultimately show ?thesis using d(1) unfolding moved_def
    by (intro exI [of _ "d + unat (y - x)"]) auto
qed

text \<open>A counter that is behind, but by less than 256 less the window, is not acceptable.\<close>

lemma moved_rejects:
  assumes "moved cfg n s (Some x)" "Suc n * unat (SeqCounterAcceptWindow cfg) < 256"
  shows "seq_verdict cfg room (Some x) s \<in> {Duplicate, Stale}"
proof -
  obtain d where d: "d \<le> n * unat (SeqCounterAcceptWindow cfg)" "x = s + of_nat d"
    using assms(1) by (auto simp: moved_def)
  have small: "d + unat (SeqCounterAcceptWindow cfg) < 256" using d(1) assms(2) by simp
  show ?thesis
  proof (cases "d = 0")
    case False
    have e: "s - x = of_nat (256 - d)" using small by (simp add: d(2) of_nat_diff)
    have "unat (s - x) = 256 - d" unfolding e unat_of_nat using False small by simp
    then have "\<not> s - x \<le> SeqCounterAcceptWindow cfg" using small by (simp add: word_le_nat_alt)
    then show ?thesis by simp
  qed (simp add: d(2))
qed


lemma peer_run_counter:
  assumes "env_ok env" "rt_wf (en_cfg env) r" "last_seen (rt_e2e r) a = Some s" "peer_run env a r n r'"
  shows "rt_wf (en_cfg env) r' \<and> moved (en_cfg env) n s (last_seen (rt_e2e r') a)"
  using assms(4)
proof (induction rule: peer_run.induct)
  case run_start
  show ?case using assms(2,3) by simp
next
  case (run_receive n r1 source data now_ms)
  let ?cfg = "en_cfg env" and ?seq = "hdr_sequence_counter (deserialize data)"
  have wf: "rt_wf ?cfg r1" using run_receive.IH by simp
  obtain x where x: "last_seen (rt_e2e r1) a = Some x" "moved ?cfg n s (Some x)"
    using run_receive.IH by (auto simp: moved_def)
  note H = heard_peer [OF wf run_receive.hyps(2), of now_ms]
  note v = validate_sequence_verdict [OF rt_wf_parts(1) [OF wf], of None a ?seq, unfolded x(1) seq_verdict.simps]
  have "moved ?cfg (if advances ?cfg a source data r1 then Suc n else n) s
      (last_seen (rt_e2e (validate_and_dispatch env source data now_ms r1)) a)"
  proof (cases "advances ?cfg a source data r1")
    case True
    then have t: "source = a" "wire_ok ?cfg data" "hdr_service_id (deserialize data) \<noteq> SD_SERVICE_ID"
      "?seq \<noteq> x" "?seq - x \<le> SeqCounterAcceptWindow ?cfg"
      by (auto simp: advances_def x(1) split: if_splits)
    then have "last_seen (e2e_put ?cfg ?seq a (rt_e2e r1)) a = Some ?seq"
      using v by (intro last_seen_put_same [OF rt_wf_parts(1) [OF wf]]) auto
    then show ?thesis using H t True moved_Suc [OF x(2) t(5)] by simp
  next
    case False
    have "last_seen (rt_e2e (validate_and_dispatch env source data now_ms r1)) a = Some x"
    proof (cases "source = a \<and> wire_ok ?cfg data \<and> hdr_service_id (deserialize data) \<noteq> SD_SERVICE_ID")
      case True
      then have "fst (validate_sequence ?cfg None a ?seq (rt_e2e r1)) \<notin> {Accept, FirstSeen}"
        using False unfolding v by (auto simp: advances_def x(1))
      then show ?thesis using H True last_seen_put_rejected [OF rt_wf_parts(1) [OF wf]] x(1) by simp
    qed (use H x(1) in auto)
    then show ?thesis using False x(2) by simp
  qed
  then show ?case using rt_wf_validate_and_dispatch [OF assms(1) wf] by blast
next
  case (run_call n r1 op)
  then show ?case using rt_wf_apply [OF assms(1)] last_seen_peers [OF rt_apply_peers] by metis
next
  case (run_poll n r1 t)
  then show ?case by (simp add: rt_wf_def)
next
  case (run_clock n r1 now_ms)
  then show ?case by (simp add: track_uptime_def Let_def)
next
  case (run_cycle_end n r1 now_ms)
  then show ?case using cycle_end_peer by metis
qed

section \<open>The properties\<close>

text \<open>C13: No replay inside the window: once the sequence check has let a frame pass, the same frame from the same peer
  is discarded and not dispatched, at any later point of a run, whatever frames other peers and
  this one send and whatever the application calls, as long as the number \<open>n\<close> of further frames that have moved the
  peer's counter satisfies \<open>(n + 1) * window < 256\<close> and the runtime has not forgotten the peer: by a search from its
  address, by an offer in its name with a new session id, or by the expiry of a service found there.\<close>

theorem replay_window:
  assumes "env_ok env" "rt_wf (en_cfg env) r" "hdr_service_id (deserialize data) \<noteq> SD_SERVICE_ID"
    and "wire_ok (en_cfg env) data"
    and "fst (validate_sequence (en_cfg env) None a (hdr_sequence_counter (deserialize data)) (rt_e2e r))
      \<in> {Accept, FirstSeen}"
    and "peer_run env a (validate_and_dispatch env a data t1 r) n r'"
    and "(n + 1) * unat (SeqCounterAcceptWindow (en_cfg env)) < 256"
  shows "\<not> accepted (en_cfg env) a data r' \<and> only_noted r' (validate_and_dispatch env a data t2 r')"
proof -
  let ?cfg = "en_cfg env" and ?r1 = "validate_and_dispatch env a data t1 r"
  let ?seq = "hdr_sequence_counter (deserialize data)"
  have "last_seen (rt_e2e ?r1) a = Some ?seq"
    using last_seen_put_same [OF rt_wf_parts(1) [OF assms(2)] assms(5)] validated_peers [OF assms(4,3), of a t1 r]
    by (simp add: last_seen_def peer_entry_def)
  then have wf: "rt_wf ?cfg r'" and m: "moved ?cfg n ?seq (last_seen (rt_e2e r') a)"
    using peer_run_counter [OF assms(1) rt_wf_validate_and_dispatch [OF assms(1,2)] _ assms(6)] by simp_all
  obtain x where x: "last_seen (rt_e2e r') a = Some x" using m by (auto simp: moved_def)
  have "\<not> seq_ok ?cfg a data r'"
    using moved_rejects [OF m [unfolded x]] assms(3,7) by (auto simp: seq_ok_def x split: if_splits)
  then have "\<not> accepted ?cfg a data r'" by (simp add: accepted_def)
  then show ?thesis using pipeline [OF wf, of a data t2] by simp
qed


theorem replay_window_witness:
  "\<exists>r'. peer_run demo_env [1] (validate_and_dispatch demo_env [1] demo_frame 5 demo_rt) 0 r' \<and>
     \<not> accepted EmbeddedConfig [1] demo_frame r'"
proof -
  let ?r1 = "validate_and_dispatch demo_env [1] demo_frame 5 demo_rt"
  let ?r' = "track_uptime 9 (rt_apply demo_env (Do_Find 0x1000 1 6) ?r1)"
  have run: "peer_run demo_env [1] ?r1 0 ?r'"
    by (intro run_clock run_call run_start) simp_all
  have w: "unat (SeqCounterAcceptWindow EmbeddedConfig) = 15" by (simp add: EmbeddedConfig_def)
  have "fst (validate_sequence EmbeddedConfig None [1] 0 (rt_e2e demo_rt)) = FirstSeen" by code_simp
  moreover have "hdr_sequence_counter demo_header = 0" "hdr_service_id demo_header \<noteq> SD_SERVICE_ID"
    by (simp_all add: demo_header_def default_header_def SD_SERVICE_ID_def)
  ultimately have "\<not> accepted EmbeddedConfig [1] demo_frame ?r'"
    using replay_window [OF demo_env_ok _ _ _ _ run] demo_frame_wire w by simp
  then show ?thesis using run by blast
qed

text \<open>C14: A search reopens the door: after a search message from the address of a peer, which carries no authentication,
  the runtime accepts a frame of that peer a second time that it has accepted before and would discard
  until then, authenticated frames included.\<close>

theorem find_reopens_replay:
  assumes "rt_wf (en_cfg env) r" "4 \<le> MaxPayloadSize (en_cfg env)" "MaxPayloadSize (en_cfg env) < 2 ^ 32" "cid \<noteq> 0"
    and "wire_ok (en_cfg env) data" "hdr_service_id (deserialize data) \<noteq> SD_SERVICE_ID" "auth_ok a data r"
    and "last_seen (rt_e2e r) a = Some (hdr_sequence_counter (deserialize data))"
  shows "\<not> accepted (en_cfg env) a data r \<and>
    accepted (en_cfg env) a data
      (validate_and_dispatch env a (sd_frame (sd_wire cid SD_FIND_SERVICE 0 sq 4) (serialize_find sid)) now_ms r)"
proof -
  let ?cfg = "en_cfg env" and ?hdr = "sd_wire cid SD_FIND_SERVICE 0 sq 4"
  have len: "length (serialize_find sid) \<le> MaxPayloadSize ?cfg" "4 = length (serialize_find sid)"
    using assms(2) by simp_all
  obtain r' where r': "only_noted r r'" "rt_wf ?cfg r'"
    "validate_and_dispatch env a (sd_frame ?hdr (serialize_find sid)) now_ms r =
       handle_sd_message env a ?hdr (serialize_find sid) now_ms r'"
    using sd_frame_received [OF assms(1,4) len(1) assms(3) len(2)] by blast
  define r1 where "r1 = rt_reset_peer env a (rt_debug env CatServiceDiscovery ''find_rx'' sid 0 cid 0 r')"
  have h: "handle_sd_message env a ?hdr (serialize_find sid) now_ms r' =
      handle_find ?cfg sid a (send_sd_unicast env) (rt_sd r1) r1"
    using deserialize_serialize_find [of sid "[]"]
    by (simp add: handle_sd_message_def sd_method_of_def handle_sd_find_def Let_def r1_def)
  have gone: "last_seen (rt_e2e r1) a = None" using r'(2) by (simp add: r1_def last_seen_reset)
  have same: "rt_auth r1 = rt_auth r" "rt_dispatcher r1 = rt_dispatcher r"
    using r'(1) by (auto simp: only_noted_def r1_def rt_reset_peer_def rt_debug_def case_prod_beta)
  have "auth_ok a data (handle_find ?cfg sid a (send_sd_unicast env) (rt_sd r1) r1)"
    using assms(7) unfolding auth_ok_def handle_find_keeps same .
  moreover have "seq_ok ?cfg a data (handle_find ?cfg sid a (send_sd_unicast env) (rt_sd r1) r1)"
    by (simp add: seq_ok_def gone)
  moreover have "\<not> seq_ok ?cfg a data r" using assms(6,8) by (simp add: seq_ok_def)
  ultimately show ?thesis unfolding r'(3) h using assms(5) by (simp add: accepted_def)
qed

text \<open>The runtime of the witnesses after a frame with counter 0.\<close>

definition demo_heard :: "(nat, nat) runtime" where
  "demo_heard = demo_rt\<lparr>rt_e2e := e2e_put EmbeddedConfig 0 [1] (rt_e2e demo_rt)\<rparr>"

theorem find_reopens_replay_witness:
  "accepted EmbeddedConfig [1] demo_frame
     (validate_and_dispatch demo_env [1] (sd_frame (sd_wire 5 SD_FIND_SERVICE 0 0 4) (serialize_find 0x1000)) 9 demo_heard)"
proof -
  have wf: "rt_wf EmbeddedConfig demo_heard" using demo_wf by (auto simp: demo_heard_def intro!: rt_wf_set inv_intros rt_wf_parts)
  have "last_seen (rt_e2e demo_heard) [1] = Some 0" by code_simp
  moreover have "service_lookup (rt_dispatcher demo_heard) 0x1000 = None" by code_simp
  then have "auth_ok [1] demo_frame demo_heard"
    by (simp add: auth_ok_def demo_frame_wire) (simp add: demo_header_def default_header_def has_auth_def)
  moreover have "hdr_sequence_counter demo_header = 0" "hdr_service_id demo_header \<noteq> SD_SERVICE_ID"
    by (simp_all add: demo_header_def default_header_def SD_SERVICE_ID_def)
  ultimately show ?thesis
    using find_reopens_replay [of demo_env demo_heard 5 demo_frame "[1]"] wf demo_frame_wire
    by simp (simp add: EmbeddedConfig_def)
qed

end
