(* ===== verification/Subscription_Lease.thy ===== *)
theory Subscription_Lease
  imports Handshake_Properties
begin

text \<open>
  The life of one subscription in time: the consumer renews it in its renewal loop (\<open>service_discovery.hpp\<close>), the
  provider extends it on every subscribe message and evicts it when its time is over (\<open>event_manager.hpp\<close>).  Time
  is counted in milliseconds without bound; each side sees it through a 32-bit clock of its own that wraps.
\<close>

section \<open>Two parties and a clock\<close>

record lease_setup =
  le_consumer :: config
  le_provider :: config
  le_key :: "u16 \<times> u16"
  le_client :: u16
  le_addr :: addr
  le_ttl :: u16
  le_offset :: nat
  le_period :: nat
  le_delay :: nat

text \<open>The discovery state of the consumer, the events of the provider, the time, when the consumer last ran its
  renewal loop, and since when a subscribe message is on its way.\<close>

record lease =
  ls_sd :: ServiceDiscovery
  ls_events :: EventManager
  ls_now :: nat
  ls_cycle :: nat
  ls_wire :: "nat option"

definition consumer_clock :: "lease \<Rightarrow> u32" where
  "consumer_clock x = of_nat (ls_now x)"

definition provider_clock :: "lease_setup \<Rightarrow> nat \<Rightarrow> u32" where
  "provider_clock L n = of_nat (n + le_offset L)"

definition ask_due :: "lease_setup \<Rightarrow> lease \<Rightarrow> bool" where
  "ask_due L x \<longleftrightarrow> (\<exists>st. tracker_of (ls_sd x) (le_key L) = Some st \<and>
     asks (renewal_of (le_consumer L) (consumer_clock x) (ls_sd x) st))"

definition renewal_round :: "lease_setup \<Rightarrow> lease \<Rightarrow> lease" where
  "renewal_round L x = x\<lparr>
     ls_sd := fst (process_subscription_renewals (le_consumer L) (consumer_clock x) (\<lambda>_ _ w. w) (ls_sd x) ()),
     ls_cycle := ls_now x, ls_wire := (if ask_due L x then Some (ls_now x) else ls_wire x) \<rparr>"

definition lease_subscribe :: "lease_setup \<Rightarrow> lease \<Rightarrow> lease" where
  "lease_subscribe L x = x\<lparr> ls_wire := None,
     ls_events := fst (snd (subscribe (le_provider L) None (fst (le_key L)) (snd (le_key L)) (le_client L) (le_addr L)
       (le_ttl L) (provider_clock L (ls_now x)) (ls_events x))) \<rparr>"

text \<open>Time passes as long as the consumer runs its loop every \<open>le_period\<close> ms and messages arrive within
  \<open>le_delay\<close> ms.  Other clients and other events come and go.\<close>

inductive lease_run :: "lease_setup \<Rightarrow> lease \<Rightarrow> lease \<Rightarrow> bool" for L x0 where
  lease_start: "lease_run L x0 x0"
| lease_tick:
    "lease_run L x0 x \<Longrightarrow> ls_now x < ls_cycle x + le_period L \<Longrightarrow>
     (\<And>s. ls_wire x = Some s \<Longrightarrow> ls_now x < s + le_delay L) \<Longrightarrow> lease_run L x0 (x\<lparr>ls_now := Suc (ls_now x)\<rparr>)"
| lease_round: "lease_run L x0 x \<Longrightarrow> lease_run L x0 (renewal_round L x)"
| lease_arrival: "lease_run L x0 x \<Longrightarrow> ls_wire x \<noteq> None \<Longrightarrow> lease_run L x0 (lease_subscribe L x)"
| lease_ack:
    "lease_run L x0 x \<Longrightarrow>
     lease_run L x0 (x\<lparr>ls_sd := fst (handle_subscribe_ack (le_consumer L) lg (fst (le_key L)) (snd (le_key L)) E_OK
       (granted_seconds (le_provider L) (le_ttl L)) (ls_sd x))\<rparr>)"
| lease_evict:
    "lease_run L x0 x \<Longrightarrow>
     lease_run L x0 (x\<lparr>ls_events := evict_expired_subscriptions (le_provider L) (provider_clock L (ls_now x)) (ls_events x)\<rparr>)"
| lease_other_joins:
    "lease_run L x0 x \<Longrightarrow> (sid, eid) \<noteq> le_key L \<or> cid \<noteq> le_client L \<Longrightarrow>
     lease_run L x0 (x\<lparr>ls_events := fst (snd (subscribe (le_provider L) lg sid eid cid a ttl now_ms (ls_events x)))\<rparr>)"
| lease_other_leaves:
    "lease_run L x0 x \<Longrightarrow> (sid, eid) \<noteq> le_key L \<or> cid \<noteq> le_client L \<Longrightarrow>
     lease_run L x0 (x\<lparr>ls_events := fst (unsubscribe (le_provider L) lg sid eid cid (ls_events x))\<rparr>)"

section \<open>The invariant\<close>

abbreviation lease_ms :: "lease_setup \<Rightarrow> nat" where
  "lease_ms L \<equiv> unat (granted_seconds (le_provider L) (le_ttl L)) * 1000"

text \<open>The consumer holds a granted subscription that it last asked for at time \<open>s\<close>.\<close>

definition holds :: "lease_setup \<Rightarrow> nat \<Rightarrow> ServiceDiscovery \<Rightarrow> bool" where
  "holds L s sd \<longleftrightarrow> sd_wf (le_consumer L) sd \<and> get_provider_address (fst (le_key L)) sd \<noteq> None \<and>
     (\<exists>st. tracker_of sd (le_key L) = Some st \<and> st_active st \<and> \<not> st_needs_unsubscribe st \<and> \<not> st_needs_send st \<and>
        st_requested_ttl st = le_ttl L \<and>
        st_granted_ttl st = granted_seconds (le_provider L) (le_ttl L) \<and> st_last_sent_ms st = of_nat s)"

text \<open>The provider lists the subscriber, with the time to live counted from time \<open>t\<close>.\<close>

definition listed :: "lease_setup \<Rightarrow> nat \<Rightarrow> EventManager \<Rightarrow> bool" where
  "listed L t ev \<longleftrightarrow> events_wf (le_provider L) ev \<and>
     (\<exists>m sb. subscribers_of ev (le_key L) = Some m \<and> m (le_client L) = Some sb \<and> sb_addr sb = le_addr L \<and>
        sb_expiry_ms sb = provider_clock L t + of_nat (lease_ms L))"

definition lease_ok :: "lease_setup \<Rightarrow> lease \<Rightarrow> bool" where
  "lease_ok L x \<longleftrightarrow> (\<exists>s t. holds L s (ls_sd x) \<and> listed L t (ls_events x) \<and>
     s \<le> ls_cycle x \<and> ls_cycle x \<le> ls_now x \<and> ls_now x \<le> ls_cycle x + le_period L \<and> 2 * ls_cycle x < 2 * s + lease_ms L \<and>
     t \<le> ls_now x \<and>
     (ls_wire x = None \<and> s \<le> t \<or>
      ls_wire x = Some s \<and> ls_now x \<le> s + le_delay L \<and> 2 * s < 2 * t + lease_ms L + 2 * le_period L))"

text \<open>Period and delay leave room for one renewal in half the time to live.\<close>

definition in_time :: "lease_setup \<Rightarrow> bool" where
  "in_time L \<longleftrightarrow> 2 * le_period L + 2 * le_delay L < lease_ms L"

text \<open>Both clocks measure the time to live exactly.\<close>

lemma lease_expiry:
  "subscription_expiry (le_provider L) (le_ttl L) (provider_clock L n) = provider_clock L n + of_nat (lease_ms L)"
  unfolding subscription_expiry_def granted_seconds_def ttl_ms by simp

lemma lease_runs_on:
  assumes "t \<le> n" "n \<le> t + lease_ms L"
  shows "\<not> time_after (provider_clock L n) (provider_clock L t + of_nat (lease_ms L))"
proof -
  have b: "lease_ms L < 2 ^ 31" by (rule ttl_ms)
  have "provider_clock L n = provider_clock L t + of_nat (n - t)" using assms(1) by (simp add: provider_clock_def of_nat_diff)
  then show ?thesis using time_after_elapsed [OF b, of "n - t" "provider_clock L t"] assms b by simp
qed

lemma holds_renewal:
  assumes "holds L s sd" "tracker_of sd (le_key L) = Some st" "s \<le> n" "n < s + 2 ^ 31" "0 < lease_ms L"
  shows "renewal_of (le_consumer L) (of_nat n) sd st = (if 2 * s + lease_ms L \<le> 2 * n then Rn_Renew else Rn_Keep)"
proof -
  let ?h = "unat (granted_seconds (le_provider L) (le_ttl L)) * 500"
  have h: "?h < 2 ^ 31" by (rule ttl_ms)
  have "(of_nat n :: u32) = of_nat s + of_nat (n - s)" using assms(3) by (simp add: of_nat_diff)
  then have "time_after_or_eq (of_nat n) (of_nat s + of_nat ?h) \<longleftrightarrow> ?h \<le> n - s"
    using time_after_or_eq_elapsed [OF h, of "n - s" "of_nat s"] assms(4) by simp
  moreover have "st_service_id st = fst (le_key L)" by (rule tracker_of_key [OF assms(2)])
  moreover have "granted_seconds (le_provider L) (le_ttl L) > 0"
    using assms(5) by (simp add: word_gt_0 unat_gt_0)
  moreover have st: "st_active st" "\<not> st_needs_unsubscribe st" "\<not> st_needs_send st"
    "st_granted_ttl st = granted_seconds (le_provider L) (le_ttl L)" "st_last_sent_ms st = of_nat s"
    "get_provider_address (fst (le_key L)) sd \<noteq> None"
    using assms(1,2) by (simp_all add: holds_def)
  moreover have "ucast (granted_seconds (le_provider L) (le_ttl L)) * 500 = (of_nat ?h :: u32)" by (rule ttl_ms)
  moreover have "?h \<le> n - s \<longleftrightarrow> 2 * s + lease_ms L \<le> 2 * n" using assms(3) by linarith
  ultimately show ?thesis unfolding renewal_of_def by (simp only: st if_True if_False simp_thms)
qed


section \<open>Preservation\<close>

lemma holds_round:
  assumes "holds L s sd" "tracker_of sd (le_key L) = Some st" "0 < lease_ms L" "s \<le> n" "n < s + 2 ^ 31"
  shows "holds L (if 2 * s + lease_ms L \<le> 2 * n then n else s)
    (fst (process_subscription_renewals (le_consumer L) (of_nat n) send sd w))"
proof -
  have wf: "sd_wf (le_consumer L) sd" using assms(1) by (simp add: holds_def)
  note W = process_subscription_renewals_wf [OF wf, of "of_nat n" send w]
  note R = holds_renewal [OF assms(1,2,4,5,3)]
  define sd' where "sd' = fst (process_subscription_renewals (le_consumer L) (of_nat n) send sd w)"
  have wf': "sd_wf (le_consumer L) sd'" unfolding sd'_def by (rule W(1))
  have "tracker_of sd' (le_key L) = Some (renewal_entry (le_consumer L) (of_nat n) sd st)"
    unfolding sd'_def W(2) assms(2) by simp
  moreover have "renewal_entry (le_consumer L) (of_nat n) sd st =
      (if 2 * s + lease_ms L \<le> 2 * n then st\<lparr>st_last_sent_ms := of_nat n\<rparr> else st)"
    unfolding renewal_entry_def R by simp
  moreover have "get_provider_address k sd' = get_provider_address k sd" for k
    unfolding get_provider_address_of [OF wf] get_provider_address_of [OF wf'] by (simp only: sd'_def W(3))
  moreover have "st_active st" "\<not> st_needs_unsubscribe st" "\<not> st_needs_send st" "st_requested_ttl st = le_ttl L"
    "st_granted_ttl st = granted_seconds (le_provider L) (le_ttl L)" "st_last_sent_ms st = of_nat s"
    "get_provider_address (fst (le_key L)) sd \<noteq> None"
    using assms(1,2) by (simp_all add: holds_def)
  ultimately show ?thesis unfolding sd'_def [symmetric] holds_def using wf' by simp
qed

lemma holds_ack:
  assumes "holds L s sd"
  shows "holds L s (fst (handle_subscribe_ack (le_consumer L) lg (fst (le_key L)) (snd (le_key L)) E_OK
    (granted_seconds (le_provider L) (le_ttl L)) sd))"
proof -
  have wf: "sd_wf (le_consumer L) sd" using assms by (simp add: holds_def)
  note A = handle_subscribe_ack_tables [OF wf refl, of lg "fst (le_key L)" "snd (le_key L)" E_OK
      "granted_seconds (le_provider L) (le_ttl L)"]
  show ?thesis
    using assms unfolding holds_def get_provider_address_of [OF wf] get_provider_address_of [OF A(1)] A(2) A(3)
    by (auto simp: A(1))
qed

lemma listed_subscribe:
  assumes "listed L t ev"
  shows "listed L n (fst (snd (subscribe (le_provider L) lg (fst (le_key L)) (snd (le_key L)) (le_client L) (le_addr L)
    (le_ttl L) (provider_clock L n) ev)))"
proof -
  have wf: "events_wf (le_provider L) ev" using assms by (simp add: listed_def)
  show ?thesis
    using assms subscribe_refines [OF wf, of lg "fst (le_key L)" "snd (le_key L)" "le_client L" "le_addr L" "le_ttl L" "provider_clock L n"]
    by (auto simp: listed_def bm_put_def sub_merge_def lease_expiry)
qed

lemma listed_lookup:
  assumes "listed L t ev" "events_wf (le_provider L) ev'"
    and "\<And>m sb. subscribers_of ev (le_key L) = Some m \<Longrightarrow> m (le_client L) = Some sb \<Longrightarrow>
      sb_expiry_ms sb = provider_clock L t + of_nat (lease_ms L) \<Longrightarrow>
      \<exists>m'. subscribers_of ev' (le_key L) = Some m' \<and> m' (le_client L) = Some sb"
  shows "listed L t ev'"
proof -
  obtain m sb where m: "subscribers_of ev (le_key L) = Some m" "m (le_client L) = Some sb" "sb_addr sb = le_addr L"
    "sb_expiry_ms sb = provider_clock L t + of_nat (lease_ms L)"
    using assms(1) unfolding listed_def by auto
  from assms(3) [OF m(1,2,4)] m(3,4) show ?thesis using assms(2) unfolding listed_def by auto
qed

lemma listed_evict:
  assumes "listed L t ev" "t \<le> n" "n \<le> t + lease_ms L"
  shows "listed L t (evict_expired_subscriptions (le_provider L) (provider_clock L n) ev)"
proof (rule listed_lookup [OF assms(1)])
  have wf: "events_wf (le_provider L) ev" using assms(1) by (simp add: listed_def)
  note E = evict_refines [OF wf, of "provider_clock L n"]
  show "events_wf (le_provider L) (evict_expired_subscriptions (le_provider L) (provider_clock L n) ev)" by (rule E)
  fix m sb assume "subscribers_of ev (le_key L) = Some m" "m (le_client L) = Some sb"
    "sb_expiry_ms sb = provider_clock L t + of_nat (lease_ms L)"
  then show "\<exists>m'. subscribers_of (evict_expired_subscriptions (le_provider L) (provider_clock L n) ev) (le_key L) = Some m' \<and>
      m' (le_client L) = Some sb"
    using lease_runs_on [OF assms(2,3)] by (simp add: E(2) del: of_nat_mult)
qed

lemma listed_others:
  assumes "listed L t ev" "(sid, eid) \<noteq> le_key L \<or> cid \<noteq> le_client L"
  shows "listed L t (fst (snd (subscribe (le_provider L) lg sid eid cid a ttl now_ms ev)))"
    and "listed L t (fst (unsubscribe (le_provider L) lg sid eid cid ev))"
proof -
  have wf: "events_wf (le_provider L) ev" using assms(1) by (simp add: listed_def)
  note S = subscribe_refines [OF wf, of lg sid eid cid a ttl now_ms] and U = unsubscribe_refines [OF wf, of lg sid eid cid]
  show "listed L t (fst (snd (subscribe (le_provider L) lg sid eid cid a ttl now_ms ev)))"
    by (rule listed_lookup [OF assms(1) S(1)])
      (use assms(2) in \<open>auto simp: S(2) bm_put_def sub_merge_def split: option.split\<close>)
  show "listed L t (fst (unsubscribe (le_provider L) lg sid eid cid ev))"
    by (rule listed_lookup [OF assms(1) U(1)])
      (use assms(2) in \<open>auto simp: U(2) bm_del_def split: option.split\<close>)
qed


text \<open>The arithmetic of one renewal: \<open>n\<close> is now, \<open>c\<close> the last round, \<open>s\<close> the last message, \<open>t\<close> its arrival, \<open>m\<close> the lease.\<close>

lemma lease_arith:
  fixes n c s t m p d :: nat
  assumes "n \<le> c + p" "2 * c < 2 * s + m" "2 * p + 2 * d < m"
  shows "n < s + m" "0 < m"
    and "s \<le> t \<Longrightarrow> n \<le> t + m" "n \<le> s + d \<Longrightarrow> 2 * s < 2 * t + m + 2 * p \<Longrightarrow> n \<le> t + m"
    and "s \<le> t \<Longrightarrow> 2 * n < 2 * t + m + 2 * p" "n \<le> s + d \<Longrightarrow> \<not> 2 * s + m \<le> 2 * n"
  using assms by - linarith+

text \<open>The provider's entry is never over while the invariant holds.\<close>

lemma lease_okE:
  assumes "lease_ok L x" "in_time L"
  obtains s t where "holds L s (ls_sd x)" "listed L t (ls_events x)" "s \<le> ls_cycle x" "ls_cycle x \<le> ls_now x"
    "ls_now x \<le> ls_cycle x + le_period L" "2 * ls_cycle x < 2 * s + lease_ms L" "t \<le> ls_now x" "ls_now x \<le> t + lease_ms L"
    "ls_now x < s + 2 ^ 31" "ls_wire x = None \<and> s \<le> t \<or>
     ls_wire x = Some s \<and> ls_now x \<le> s + le_delay L \<and> 2 * s < 2 * t + lease_ms L + 2 * le_period L"
proof -
  obtain s t where k: "holds L s (ls_sd x)" "listed L t (ls_events x)" "s \<le> ls_cycle x" "ls_cycle x \<le> ls_now x"
    "ls_now x \<le> ls_cycle x + le_period L" "2 * ls_cycle x < 2 * s + lease_ms L" "t \<le> ls_now x"
    "ls_wire x = None \<and> s \<le> t \<or>
     ls_wire x = Some s \<and> ls_now x \<le> s + le_delay L \<and> 2 * s < 2 * t + lease_ms L + 2 * le_period L"
    using assms(1) unfolding lease_ok_def by blast
  have room: "2 * le_period L + 2 * le_delay L < lease_ms L" using assms(2) by (simp add: in_time_def)
  have b: "lease_ms L < 2 ^ 31" by (rule ttl_ms)
  moreover have "ls_now x < s + lease_ms L" by (rule lease_arith(1) [OF k(5,6) room])
  ultimately have "ls_now x < s + 2 ^ 31" by simp
  moreover have "ls_now x \<le> t + lease_ms L" using k(8) lease_arith(3,4) [OF k(5,6) room] by blast
  ultimately show ?thesis using that k by blast
qed

lemma lease_ok_round:
  assumes "lease_ok L x" "in_time L"
  shows "lease_ok L (renewal_round L x)"
  using assms
proof (rule lease_okE)
  fix s t
  assume k: "holds L s (ls_sd x)" "listed L t (ls_events x)" "s \<le> ls_cycle x" "ls_cycle x \<le> ls_now x"
    "ls_now x \<le> ls_cycle x + le_period L" "2 * ls_cycle x < 2 * s + lease_ms L" "t \<le> ls_now x" "ls_now x \<le> t + lease_ms L"
    "ls_now x < s + 2 ^ 31" "ls_wire x = None \<and> s \<le> t \<or>
     ls_wire x = Some s \<and> ls_now x \<le> s + le_delay L \<and> 2 * s < 2 * t + lease_ms L + 2 * le_period L"
  have room: "2 * le_period L + 2 * le_delay L < lease_ms L" using assms(2) by (simp add: in_time_def)
  have sn: "s \<le> ls_now x" using k(3,4) by simp
  obtain st where st: "tracker_of (ls_sd x) (le_key L) = Some st" using k(1) by (auto simp: holds_def)
  let ?due = "2 * s + lease_ms L \<le> 2 * ls_now x"
  have pos: "0 < lease_ms L" by (rule lease_arith(2) [OF k(5,6) room])
  note R = holds_renewal [OF k(1) st sn k(9) pos]
  have due: "ask_due L x \<longleftrightarrow> ?due" by (simp add: ask_due_def st consumer_clock_def R asks_def)
  have "ls_sd (renewal_round L x) =
      fst (process_subscription_renewals (le_consumer L) (of_nat (ls_now x)) (\<lambda>_ _ w. w) (ls_sd x) ())"
    by (simp add: renewal_round_def consumer_clock_def)
  then have h: "holds L (if ?due then ls_now x else s) (ls_sd (renewal_round L x))"
    by (simp only:) (rule holds_round [OF k(1) st pos sn k(9)])
  show ?thesis
  proof (cases ?due)
    case True
    have "2 * ls_now x < 2 * t + lease_ms L + 2 * le_period L" using True k(10) lease_arith(5,6) [OF k(5,6) room] by blast
    then show ?thesis using h True due k(2,4,7) pos
      unfolding lease_ok_def by (intro exI [of _ "ls_now x"] exI [of _ t]) (simp add: renewal_round_def)
  next
    case False
    then show ?thesis using h due k
      unfolding lease_ok_def by (intro exI [of _ s] exI [of _ t]) (auto simp: renewal_round_def)
  qed
qed


lemma lease_ok_run:
  assumes "in_time L" "lease_ok L x0" "lease_run L x0 x"
  shows "lease_ok L x"
  using assms(3)
proof (induction rule: lease_run.induct)
  case lease_start
  show ?case by (rule assms(2))
next
  case (lease_tick x)
  from lease_tick.IH assms(1) show ?case
  proof (rule lease_okE)
    fix s t
    assume k: "holds L s (ls_sd x)" "listed L t (ls_events x)" "s \<le> ls_cycle x" "ls_cycle x \<le> ls_now x"
      "2 * ls_cycle x < 2 * s + lease_ms L" "t \<le> ls_now x"
      "ls_wire x = None \<and> s \<le> t \<or>
       ls_wire x = Some s \<and> ls_now x \<le> s + le_delay L \<and> 2 * s < 2 * t + lease_ms L + 2 * le_period L"
    then show ?thesis using lease_tick.hyps(2,3) unfolding lease_ok_def
      by (intro exI [of _ s] exI [of _ t]) auto
  qed
next
  case (lease_round x)
  show ?case by (rule lease_ok_round [OF lease_round.IH assms(1)])
next
  case (lease_arrival x)
  from lease_arrival.IH assms(1) show ?case
  proof (rule lease_okE)
    fix s t
    assume k: "holds L s (ls_sd x)" "listed L t (ls_events x)" "s \<le> ls_cycle x" "ls_cycle x \<le> ls_now x"
      "ls_now x \<le> ls_cycle x + le_period L" "2 * ls_cycle x < 2 * s + lease_ms L"
    have "listed L (ls_now x) (ls_events (lease_subscribe L x))"
      using listed_subscribe [OF k(2)] by (simp add: lease_subscribe_def)
    then show ?thesis using k unfolding lease_ok_def
      by (intro exI [of _ s] exI [of _ "ls_now x"]) (simp add: lease_subscribe_def)
  qed
next
  case (lease_ack x lg)
  have "holds L s (fst (handle_subscribe_ack (le_consumer L) lg (fst (le_key L)) (snd (le_key L)) E_OK
      (granted_seconds (le_provider L) (le_ttl L)) (ls_sd x)))" if "holds L s (ls_sd x)" for s
    using that by (rule holds_ack)
  then show ?case using lease_ack.IH unfolding lease_ok_def by auto
next
  case (lease_evict x)
  from lease_evict.IH assms(1) show ?case
  proof (rule lease_okE)
    fix s t
    assume k: "holds L s (ls_sd x)" "listed L t (ls_events x)" "s \<le> ls_cycle x" "ls_cycle x \<le> ls_now x"
      "ls_now x \<le> ls_cycle x + le_period L" "2 * ls_cycle x < 2 * s + lease_ms L" "t \<le> ls_now x" "ls_now x \<le> t + lease_ms L"
      "ls_wire x = None \<and> s \<le> t \<or>
       ls_wire x = Some s \<and> ls_now x \<le> s + le_delay L \<and> 2 * s < 2 * t + lease_ms L + 2 * le_period L"
    then show ?thesis using listed_evict [OF k(2,7,8)] unfolding lease_ok_def
      by (intro exI [of _ s] exI [of _ t]) simp
  qed
next
  case (lease_other_joins x sid eid cid lg a ttl now_ms)
  then show ?case using listed_others(1) unfolding lease_ok_def by fastforce
next
  case (lease_other_leaves x sid eid cid lg)
  then show ?case using listed_others(2) unfolding lease_ok_def by fastforce
qed


section \<open>The property\<close>

text \<open>C19: A granted subscription does not lapse: as long as the consumer runs its renewal loop every \<open>le_period\<close> ms and
  a subscribe message takes at most \<open>le_delay\<close> ms, with twice their sum below the granted time to live,
  the provider lists the subscriber with its address at any time, and no eviction round removes it, whatever
  other clients do, across any number of renewals and wraps of either clock.\<close>

theorem subscription_does_not_lapse:
  assumes "in_time L" "holds L (ls_cycle x0) (ls_sd x0)" "listed L t (ls_events x0)" "ls_wire x0 = None"
    and "ls_cycle x0 \<le> t" "t \<le> ls_now x0" "ls_now x0 \<le> ls_cycle x0 + le_period L"
    and "lease_run L x0 x"
  shows "\<exists>m sb. subscribers_of (ls_events x) (le_key L) = Some m \<and> m (le_client L) = Some sb \<and>
    sb_addr sb = le_addr L \<and> \<not> time_after (provider_clock L (ls_now x)) (sb_expiry_ms sb)"
proof -
  have "0 < lease_ms L" using assms(1) by (simp add: in_time_def)
  then have "lease_ok L x0" unfolding lease_ok_def
    using assms(2-7) by (intro exI [of _ "ls_cycle x0"] exI [of _ t]) auto
  from lease_ok_run [OF assms(1) this assms(8)] assms(1) show ?thesis
  proof (rule lease_okE)
    fix s t assume k: "listed L t (ls_events x)" "t \<le> ls_now x" "ls_now x \<le> t + lease_ms L"
    then show ?thesis using lease_runs_on [OF k(2,3)] unfolding listed_def by auto
  qed
qed

definition demo_lease :: lease_setup where
  "demo_lease = \<lparr>le_consumer = EmbeddedConfig, le_provider = EmbeddedConfig, le_key = (0x1000, 0x8001), le_client = 7,
     le_addr = [1], le_ttl = 5, le_offset = 3, le_period = 1000, le_delay = 200\<rparr>"

definition demo_leased :: lease where
  "demo_leased = \<lparr>
     ls_sd = fold (sd_apply EmbeddedConfig)
       [Op_Subscribe 0x1000 0x8001 5 100, Op_Process_Renewals 110, Op_Rx_Ack 0x1000 0x8001 E_OK 5] demo_sd,
     ls_events = fst (snd (subscribe EmbeddedConfig None 0x1000 0x8001 7 [1] 5 123
       (fst (snd (register_event EmbeddedConfig None 0x1000 0x8001 (events_init EmbeddedConfig)))))),
     ls_now = 130, ls_cycle = 110, ls_wire = None\<rparr>"

lemma demo_lease_holds: "holds demo_lease 110 (ls_sd demo_leased)"
proof -
  have "sd_wf EmbeddedConfig (ls_sd demo_leased)"
    unfolding demo_leased_def lease.simps fold.simps comp_def id_def
    by (rule sd_reach_wf) (intro sd_step demo_reach)
  moreover have "get_provider_address 0x1000 (ls_sd demo_leased) = Some [9]" by code_simp
  moreover have "map_option (\<lambda>st. (st_active st, st_needs_unsubscribe st, st_needs_send st, st_requested_ttl st,
      st_granted_ttl st, st_last_sent_ms st)) (tracker_of (ls_sd demo_leased) (0x1000, 0x8001)) =
    Some (True, False, False, 5, 5, 110)" by code_simp
  ultimately show ?thesis by (auto simp: holds_def demo_lease_def granted_seconds_def)
qed

lemma demo_lease_listed: "listed demo_lease 120 (ls_events demo_leased)"
proof -
  have "events_wf EmbeddedConfig (ls_events demo_leased)"
    unfolding demo_leased_def lease.simps by (intro subscribe_refines(1) register_event_refines(1) events_wf_init)
  moreover have "(case subscribers_of (ls_events demo_leased) (0x1000, 0x8001) of None \<Rightarrow> None
      | Some m \<Rightarrow> map_option (\<lambda>sb. (sb_addr sb, sb_expiry_ms sb)) (m 7)) = Some ([1], 5123)" by code_simp
  ultimately show ?thesis
    by (auto simp: listed_def demo_lease_def granted_seconds_def provider_clock_def split: option.splits)
qed

theorem subscription_does_not_lapse_witness:
  "\<exists>x. lease_run demo_lease demo_leased x \<and> ls_now x = 131 \<and> ls_cycle x = 130 \<and>
     (\<exists>m. subscribers_of (ls_events x) (0x1000, 0x8001) = Some m \<and> m 7 \<noteq> None)"
proof -
  define x1 where "x1 = renewal_round demo_lease demo_leased"
  have due: "\<not> ask_due demo_lease demo_leased"
    using demo_lease_holds holds_renewal [OF demo_lease_holds, of _ 130]
    by (auto simp: ask_due_def asks_def consumer_clock_def demo_lease_def demo_leased_def granted_seconds_def)
  have x1: "ls_now x1 = 130" "ls_cycle x1 = 130" "ls_wire x1 = None"
    by (simp_all add: x1_def renewal_round_def due) (simp_all add: demo_leased_def)
  define x2 where "x2 = x1\<lparr>ls_now := Suc (ls_now x1)\<rparr>"
  define x3 where "x3 = x2\<lparr>ls_events := evict_expired_subscriptions (le_provider demo_lease)
    (provider_clock demo_lease (ls_now x2)) (ls_events x2)\<rparr>"
  have "lease_run demo_lease demo_leased x1" unfolding x1_def by (intro lease_round lease_start)
  then have "lease_run demo_lease demo_leased x2"
    unfolding x2_def by (rule lease_tick) (simp_all add: x1 demo_lease_def)
  then have run: "lease_run demo_lease demo_leased x3" unfolding x3_def by (rule lease_evict)
  have i: "in_time demo_lease" by (simp add: in_time_def demo_lease_def granted_seconds_def)
  have "holds demo_lease (ls_cycle demo_leased) (ls_sd demo_leased)" "ls_wire demo_leased = None"
    "ls_cycle demo_leased \<le> 120" "120 \<le> ls_now demo_leased"
    "ls_now demo_leased \<le> ls_cycle demo_leased + le_period demo_lease"
    using demo_lease_holds by (simp_all add: demo_leased_def demo_lease_def)
  from subscription_does_not_lapse [OF i this(1) demo_lease_listed this(2-5) run]
  have "\<exists>m. subscribers_of (ls_events x3) (0x1000, 0x8001) = Some m \<and> m 7 \<noteq> None"
    by (auto simp: demo_lease_def)
  moreover have "ls_now x3 = 131" "ls_cycle x3 = 130" by (simp_all add: x3_def x2_def x1)
  ultimately show ?thesis using run by blast
qed

end
