(* ===== verification/Build_Check.thy ===== *)
theory Build_Check
  imports Request_Properties
begin

text \<open>
  The build check (\<open>src/verify_build.cpp\<close>): a transport that takes every frame and brings none, a service that
  echoes its payload, and a \<open>main\<close> that makes one call of most parts of the library.
\<close>

section \<open>Transport and service\<close>

definition mock_send :: "addr \<Rightarrow> bytes \<Rightarrow> unit \<Rightarrow> bool \<times> unit" where
  "mock_send dest data t = (True, t)"

definition mock_broadcast :: "bytes \<Rightarrow> unit \<Rightarrow> bool \<times> unit" where
  "mock_broadcast data t = (True, t)"

definition mock_poll :: "unit \<Rightarrow> (addr \<times> bytes) option \<times> unit" where
  "mock_poll t = (None, t)"

definition echo_service_on_request ::
    "u16 \<Rightarrow> bytes \<Rightarrow> bytes option \<Rightarrow> nat \<Rightarrow> ReturnCode \<times> bytes option \<times> nat" where
  "echo_service_on_request mid payload response response_length =
     (case response of
        Some buf \<Rightarrow>
          if length payload \<le> MaxPayloadSize DefaultConfig
          then (E_OK, Some (blit 0 payload buf), length payload)
          else (E_OK, response, response_length)
      | None \<Rightarrow> (E_OK, response, response_length))"

definition echo_service_is_ready :: bool where
  "echo_service_is_ready = True"

definition check_env :: "(unit, unit) env" where
  "check_env = \<lparr> en_cfg = DefaultConfig, impl_send = mock_send, impl_broadcast = mock_broadcast, impl_poll = mock_poll,
     app_is_ready = (\<lambda>ctx a. echo_service_is_ready),
     app_on_request = (\<lambda>ctx mid p resp n a. case echo_service_on_request mid p resp n of (rc, resp, n) \<Rightarrow> (rc, resp, n, a)) \<rparr>"

section \<open>The program\<close>

text \<open>The calls before the process cycle, with their results, and the whole program.\<close>

definition build_check_calls :: "bool list \<times> (unit, unit) runtime" where
  "build_check_calls =
     (let r = runtime_init check_env () () 0x0001;
          r = set_local_address ((zero_addr DefaultConfig)[0 := 0x01]) r;
          (registered, r) = rt_register_service check_env 0x0100 (AppCtx 0) 1 0 False r;
          (event, r) = rt_register_event check_env 0x0100 0x8001 r;
          (offered, r) = offer_service check_env 0x0100 5 0 r;
          (diagnostics, r) = enable_diagnostics check_env 0 False r;
          (error, r) = report_dtc check_env 0x0010 SevError 100 r;
          (warning, r) = report_dtc check_env 0x0020 SevWarning 200 r;
          (cleared, r) = clear_dtc 0x0010 r
      in ([registered, event, offered, diagnostics, error, warning, cleared], clear_all_dtcs r))"

definition build_check_main :: "(unit, unit) runtime" where
  "build_check_main = process check_env 1000 (snd build_check_calls)"

section \<open>What it checks\<close>

text \<open>Every call whose result the program ignores succeeds, both services are offered and the trouble codes are gone.\<close>

lemma build_check_succeeds:
  "case build_check_calls of (results, r) \<Rightarrow> results = replicate 7 True \<and> used (rt_dtcs r) = 0 \<and>
     list_all (\<lambda>sid. map_option pv_state (provider_of (rt_sd r) sid) = Some P_OFFERED) [0x0100, DIAG_SERVICE_ID]"
  by code_simp

text \<open>The echo service answers with the payload in a buffer of the size that the runtime passes; it does not look at
  the length it is given.\<close>

lemma echo_service_echoes:
  assumes "length payload \<le> MaxPayloadSize DefaultConfig" "length buf = MaxPayloadSize DefaultConfig"
  obtains out where "echo_service_on_request mid payload (Some buf) n = (E_OK, Some out, length payload)"
    and "take (length payload) out = payload" and "length out = length buf"
  using assms by (simp add: echo_service_on_request_def blit_front)

end
