(* ===== verification/Node_Transport.thy ===== *)
theory Node_Transport
  imports Runtime
begin

text \<open>
  The UDP transport of the Node.js binding (\<open>NodeUdpTransport\<close> in \<open>node-module/src/sero-node.cpp\<close>).
  The socket calls of the operating system are parameters, fields of the record \<open>sockets\<close> that work
  on a state of their own; calls whose result the code ignores share the field \<open>os_setopt\<close>.
\<close>

section \<open>Addresses\<close>

record sockaddr_in =
  sin_addr :: bytes
  sin_port :: u16

record 's sockets =
  os_inet_pton :: "string \<Rightarrow> bytes option"
  os_socket :: "'s \<Rightarrow> int \<times> 's"
  os_bind :: "int \<Rightarrow> sockaddr_in \<Rightarrow> 's \<Rightarrow> int \<times> 's"
  os_join :: "int \<Rightarrow> bytes \<Rightarrow> bytes \<Rightarrow> 's \<Rightarrow> int \<times> 's"
  os_setopt :: "string \<Rightarrow> int \<Rightarrow> bytes \<Rightarrow> 's \<Rightarrow> 's"
  os_close :: "int \<Rightarrow> 's \<Rightarrow> 's"
  os_sendto :: "int \<Rightarrow> bytes \<Rightarrow> sockaddr_in \<Rightarrow> 's \<Rightarrow> int \<times> 's"
  os_recvfrom :: "int \<Rightarrow> nat \<Rightarrow> 's \<Rightarrow> int \<times> bytes \<times> sockaddr_in \<times> 's"

text \<open>\<open>inet_pton\<close> leaves the zeroed bytes alone when the text is not an address.\<close>

definition pton :: "'s sockets \<Rightarrow> string \<Rightarrow> bytes" where
  "pton os ip = (case os_inet_pton os ip of None \<Rightarrow> replicate 4 0 | Some b \<Rightarrow> b)"

definition make_addr :: "'s sockets \<Rightarrow> string \<Rightarrow> u16 \<Rightarrow> addr" where
  "make_addr os ip port = pton os ip @ [ucast (drop_bit 8 port), ucast (port AND 0xFF), 0, 0]"

definition addr_to_sockaddr :: "addr \<Rightarrow> sockaddr_in" where
  "addr_to_sockaddr a =
     \<lparr> sin_addr = take 4 a, sin_port = push_bit 8 (ucast (a ! 4)) OR ucast (a ! 5) \<rparr>"

definition sockaddr_to_addr :: "sockaddr_in \<Rightarrow> addr" where
  "sockaddr_to_addr sa =
     sin_addr sa @ [ucast (drop_bit 8 (sin_port sa)), ucast (sin_port sa AND 0xFF), 0, 0]"

section \<open>The transport\<close>

definition MCAST_GROUP :: string where "MCAST_GROUP = ''239.0.0.1''"
definition MCAST_PORT :: u16 where "MCAST_PORT = 30490"
definition MAX_BUF :: nat where "MAX_BUF = HEADER_SIZE + MaxPayloadSize DefaultConfig + HMAC_SIZE + CRC_SIZE"

record 's udp =
  unicast_fd :: int
  mcast_fd :: int
  udp_local_addr :: addr
  udp_os :: 's

definition udp_init :: "'s \<Rightarrow> 's udp" where
  "udp_init s = \<lparr> unicast_fd = - 1, mcast_fd = - 1, udp_local_addr = replicate 8 0, udp_os = s \<rparr>"

definition udp_setopts :: "'s sockets \<Rightarrow> int \<Rightarrow> (string \<times> bytes) list \<Rightarrow> 's \<Rightarrow> 's" where
  "udp_setopts os fd opts s = fold (\<lambda>(name, v). os_setopt os name fd v) opts s"

text \<open>\<open>init\<close>, with its early returns: the flag is the result.\<close>

definition udp_open_unicast :: "'s sockets \<Rightarrow> string \<Rightarrow> u16 \<Rightarrow> 's udp \<Rightarrow> bool \<times> 's udp" where
  "udp_open_unicast os bind_ip bind_port t =
     (case os_socket os (udp_os t) of (fd, s) \<Rightarrow>
        let t = t\<lparr>unicast_fd := fd, udp_os := s\<rparr> in
        if fd < 0 then (False, t)
        else
          let s = udp_setopts os fd
                [(''SO_REUSEADDR'', [1]), (''SO_REUSEPORT'', [1]), (''O_NONBLOCK'', [])] s
          in case os_bind os fd \<lparr> sin_addr = pton os bind_ip, sin_port = bind_port \<rparr> s of
               (res, s) \<Rightarrow> (\<not> res < 0, t\<lparr>udp_os := s\<rparr>))"

definition udp_open_mcast :: "'s sockets \<Rightarrow> string \<Rightarrow> 's udp \<Rightarrow> bool \<times> 's udp" where
  "udp_open_mcast os bind_ip t =
     (case os_socket os (udp_os t) of (fd, s) \<Rightarrow>
        let t = t\<lparr>mcast_fd := fd, udp_os := s\<rparr> in
        if fd < 0 then (False, t)
        else
          let s = udp_setopts os fd
                [(''SO_REUSEADDR'', [1]), (''SO_REUSEPORT'', [1]), (''O_NONBLOCK'', [])] s
          in case os_bind os fd \<lparr> sin_addr = [0, 0, 0, 0], sin_port = MCAST_PORT \<rparr> s of (res, s) \<Rightarrow>
               if res < 0 then (False, t\<lparr>udp_os := s\<rparr>)
               else case os_join os fd (pton os MCAST_GROUP) (pton os bind_ip) s of
                      (res, s) \<Rightarrow> (\<not> res < 0, t\<lparr>udp_os := s\<rparr>))"

definition udp_open :: "'s sockets \<Rightarrow> string \<Rightarrow> u16 \<Rightarrow> 's udp \<Rightarrow> bool \<times> 's udp" where
  "udp_open os bind_ip bind_port t =
     (case udp_open_unicast os bind_ip bind_port t of (ok, t) \<Rightarrow>
        if \<not> ok then (False, t)
        else case udp_open_mcast os bind_ip t of (ok, t) \<Rightarrow>
          if \<not> ok then (False, t)
          else (True, t\<lparr> udp_os := udp_setopts os (unicast_fd t)
                  [(''IP_MULTICAST_IF'', pton os bind_ip), (''IP_MULTICAST_LOOP'', [1])] (udp_os t),
                udp_local_addr := make_addr os bind_ip bind_port \<rparr>))"

definition udp_shutdown :: "'s sockets \<Rightarrow> 's udp \<Rightarrow> 's udp" where
  "udp_shutdown os t =
     (let t = (if unicast_fd t \<ge> 0
               then t\<lparr>unicast_fd := - 1, udp_os := os_close os (unicast_fd t) (udp_os t)\<rparr> else t)
      in if mcast_fd t \<ge> 0
         then t\<lparr>mcast_fd := - 1, udp_os := os_close os (mcast_fd t) (udp_os t)\<rparr> else t)"

definition udp_send :: "'s sockets \<Rightarrow> addr \<Rightarrow> bytes \<Rightarrow> 's udp \<Rightarrow> bool \<times> 's udp" where
  "udp_send os dest data t =
     (case os_sendto os (unicast_fd t) data (addr_to_sockaddr dest) (udp_os t) of
        (n, s) \<Rightarrow> (n = int (length data), t\<lparr>udp_os := s\<rparr>))"

definition udp_broadcast :: "'s sockets \<Rightarrow> bytes \<Rightarrow> 's udp \<Rightarrow> bool \<times> 's udp" where
  "udp_broadcast os data t =
     (case os_sendto os (unicast_fd t) data
             \<lparr> sin_addr = pton os MCAST_GROUP, sin_port = MCAST_PORT \<rparr> (udp_os t) of
        (n, s) \<Rightarrow> (n = int (length data), t\<lparr>udp_os := s\<rparr>))"

definition try_recv :: "'s sockets \<Rightarrow> int \<Rightarrow> 's udp \<Rightarrow> (addr \<times> bytes) option \<times> 's udp" where
  "try_recv os fd t =
     (case os_recvfrom os fd MAX_BUF (udp_os t) of (n, buf, from, s) \<Rightarrow>
        (if n \<le> 0 then None else Some (sockaddr_to_addr from, take (nat n) buf), t\<lparr>udp_os := s\<rparr>))"

definition udp_poll :: "'s sockets \<Rightarrow> 's udp \<Rightarrow> (addr \<times> bytes) option \<times> 's udp" where
  "udp_poll os t =
     (case try_recv os (mcast_fd t) t of
        (Some m, t) \<Rightarrow> (Some m, t)
      | (None, t) \<Rightarrow> try_recv os (unicast_fd t) t)"

section \<open>Facts\<close>

lemma port_bytes: "push_bit 8 (ucast (ucast (drop_bit 8 p) :: u8)) OR ucast (ucast (p AND 0xFF) :: u8) = (p :: u16)"
proof (rule bit_word_eqI)
  fix n assume n: "n < LENGTH(16)"
  have m: "(0xFF :: u16) = mask 8" by (simp add: mask_eq_exp_minus_1)
  show "bit (push_bit 8 (ucast (ucast (drop_bit 8 p) :: u8)) OR ucast (ucast (p AND 0xFF) :: u8) :: u16) n = bit p n"
    unfolding m using n by (cases "n < 8") (auto simp: bit_simps simp del: mask_numeral)
qed

text \<open>The two address forms carry the same information.\<close>

lemma sockaddr_roundtrip:
  assumes "length (sin_addr sa) = 4"
  shows "addr_to_sockaddr (sockaddr_to_addr sa) = sa"
  using assms by (cases sa) (simp add: addr_to_sockaddr_def sockaddr_to_addr_def nth_append port_bytes)

end
