(* ===== verification/Example_Transport.thy ===== *)
theory Example_Transport
  imports Node_Transport
begin

text \<open>
  The UDP transport of the example programs (\<open>examples/udp_transport.hpp\<close>), over the same socket calls
  and with the same members as that of the Node.js binding.  The two are the same except that this
  one does not share its unicast port (\<open>SO_REUSEPORT\<close>), and the facts at the end say so.  The examples
  use the transport through the record \<open>link\<close>.
\<close>

section \<open>Addresses and constants\<close>

definition example_make_addr :: "'s sockets \<Rightarrow> string \<Rightarrow> u16 \<Rightarrow> addr" where
  "example_make_addr os ip port = pton os ip @ [ucast (drop_bit 8 port), ucast (port AND 0xFF), 0, 0]"

definition example_to_sockaddr :: "addr \<Rightarrow> sockaddr_in" where
  "example_to_sockaddr a =
     \<lparr> sin_addr = take 4 a, sin_port = push_bit 8 (ucast (a ! 4)) OR ucast (a ! 5) \<rparr>"

definition example_from_sockaddr :: "sockaddr_in \<Rightarrow> addr" where
  "example_from_sockaddr sa =
     sin_addr sa @ [ucast (drop_bit 8 (sin_port sa)), ucast (sin_port sa AND 0xFF), 0, 0]"

definition EXAMPLE_MCAST_GROUP :: string where "EXAMPLE_MCAST_GROUP = ''239.0.0.1''"
definition EXAMPLE_MCAST_PORT :: u16 where "EXAMPLE_MCAST_PORT = 30490"
definition EXAMPLE_MAX_BUF :: nat where
  "EXAMPLE_MAX_BUF = HEADER_SIZE + MaxPayloadSize DefaultConfig + HMAC_SIZE + CRC_SIZE"

section \<open>The transport\<close>

definition example_open_unicast :: "'s sockets \<Rightarrow> string \<Rightarrow> u16 \<Rightarrow> 's udp \<Rightarrow> bool \<times> 's udp" where
  "example_open_unicast os bind_ip bind_port t =
     (case os_socket os (udp_os t) of (fd, s) \<Rightarrow>
        let t = t\<lparr>unicast_fd := fd, udp_os := s\<rparr> in
        if fd < 0 then (False, t)
        else
          let s = udp_setopts os fd [(''SO_REUSEADDR'', [1]), (''O_NONBLOCK'', [])] s
          in case os_bind os fd \<lparr> sin_addr = pton os bind_ip, sin_port = bind_port \<rparr> s of
               (res, s) \<Rightarrow> (\<not> res < 0, t\<lparr>udp_os := s\<rparr>))"

definition example_open_mcast :: "'s sockets \<Rightarrow> string \<Rightarrow> 's udp \<Rightarrow> bool \<times> 's udp" where
  "example_open_mcast os bind_ip t =
     (case os_socket os (udp_os t) of (fd, s) \<Rightarrow>
        let t = t\<lparr>mcast_fd := fd, udp_os := s\<rparr> in
        if fd < 0 then (False, t)
        else
          let s = udp_setopts os fd
                [(''SO_REUSEADDR'', [1]), (''SO_REUSEPORT'', [1]), (''O_NONBLOCK'', [])] s
          in case os_bind os fd \<lparr> sin_addr = [0, 0, 0, 0], sin_port = EXAMPLE_MCAST_PORT \<rparr> s of (res, s) \<Rightarrow>
               if res < 0 then (False, t\<lparr>udp_os := s\<rparr>)
               else case os_join os fd (pton os EXAMPLE_MCAST_GROUP) (pton os bind_ip) s of
                      (res, s) \<Rightarrow> (\<not> res < 0, t\<lparr>udp_os := s\<rparr>))"

text \<open>\<open>init\<close>: the flag is its result; a failure leaves open what was opened before.\<close>

definition example_open :: "'s sockets \<Rightarrow> string \<Rightarrow> u16 \<Rightarrow> 's udp \<Rightarrow> bool \<times> 's udp" where
  "example_open os bind_ip bind_port t =
     (case example_open_unicast os bind_ip bind_port t of (ok, t) \<Rightarrow>
        if \<not> ok then (False, t)
        else case example_open_mcast os bind_ip t of (ok, t) \<Rightarrow>
          if \<not> ok then (False, t)
          else (True, t\<lparr> udp_os := udp_setopts os (unicast_fd t)
                  [(''IP_MULTICAST_IF'', pton os bind_ip), (''IP_MULTICAST_LOOP'', [1])] (udp_os t),
                udp_local_addr := example_make_addr os bind_ip bind_port \<rparr>))"

definition example_shutdown :: "'s sockets \<Rightarrow> 's udp \<Rightarrow> 's udp" where
  "example_shutdown os t =
     (let t = (if unicast_fd t \<ge> 0
               then t\<lparr>unicast_fd := - 1, udp_os := os_close os (unicast_fd t) (udp_os t)\<rparr> else t)
      in if mcast_fd t \<ge> 0
         then t\<lparr>mcast_fd := - 1, udp_os := os_close os (mcast_fd t) (udp_os t)\<rparr> else t)"

definition example_send :: "'s sockets \<Rightarrow> addr \<Rightarrow> bytes \<Rightarrow> 's udp \<Rightarrow> bool \<times> 's udp" where
  "example_send os dest data t =
     (case os_sendto os (unicast_fd t) data (example_to_sockaddr dest) (udp_os t) of
        (n, s) \<Rightarrow> (n = int (length data), t\<lparr>udp_os := s\<rparr>))"

definition example_broadcast :: "'s sockets \<Rightarrow> bytes \<Rightarrow> 's udp \<Rightarrow> bool \<times> 's udp" where
  "example_broadcast os data t =
     (case os_sendto os (unicast_fd t) data
             \<lparr> sin_addr = pton os EXAMPLE_MCAST_GROUP, sin_port = EXAMPLE_MCAST_PORT \<rparr> (udp_os t) of
        (n, s) \<Rightarrow> (n = int (length data), t\<lparr>udp_os := s\<rparr>))"

definition example_try_recv :: "'s sockets \<Rightarrow> int \<Rightarrow> 's udp \<Rightarrow> (addr \<times> bytes) option \<times> 's udp" where
  "example_try_recv os fd t =
     (case os_recvfrom os fd EXAMPLE_MAX_BUF (udp_os t) of (n, buf, from, s) \<Rightarrow>
        (if n \<le> 0 then None else Some (example_from_sockaddr from, take (nat n) buf), t\<lparr>udp_os := s\<rparr>))"

definition example_poll :: "'s sockets \<Rightarrow> 's udp \<Rightarrow> (addr \<times> bytes) option \<times> 's udp" where
  "example_poll os t =
     (case example_try_recv os (mcast_fd t) t of
        (Some m, t) \<Rightarrow> (Some m, t)
      | (None, t) \<Rightarrow> example_try_recv os (unicast_fd t) t)"

text \<open>The time of the monotonic clock in milliseconds, cut to 32 bits.\<close>

definition example_now_ms :: "int \<Rightarrow> int \<Rightarrow> u32" where
  "example_now_ms tv_sec tv_nsec = of_int (tv_sec * 1000 + tv_nsec div 1000000)"

section \<open>The transport as the examples use it\<close>

record 't link =
  link_send :: "addr \<Rightarrow> bytes \<Rightarrow> 't \<Rightarrow> bool \<times> 't"
  link_broadcast :: "bytes \<Rightarrow> 't \<Rightarrow> bool \<times> 't"
  link_poll :: "'t \<Rightarrow> (addr \<times> bytes) option \<times> 't"

definition example_link :: "'s sockets \<Rightarrow> 's udp link" where
  "example_link os = \<lparr> link_send = example_send os, link_broadcast = example_broadcast os, link_poll = example_poll os \<rparr>"

section \<open>Facts\<close>

text \<open>After opening, the two transports behave alike.\<close>

lemma example_constants:
  "EXAMPLE_MCAST_GROUP = MCAST_GROUP" "EXAMPLE_MCAST_PORT = MCAST_PORT" "EXAMPLE_MAX_BUF = MAX_BUF"
  "example_to_sockaddr = addr_to_sockaddr" "example_from_sockaddr = sockaddr_to_addr" "example_make_addr = make_addr"
  by (simp_all add: fun_eq_iff EXAMPLE_MCAST_GROUP_def MCAST_GROUP_def EXAMPLE_MCAST_PORT_def MCAST_PORT_def
      EXAMPLE_MAX_BUF_def MAX_BUF_def example_to_sockaddr_def addr_to_sockaddr_def example_from_sockaddr_def
      sockaddr_to_addr_def example_make_addr_def make_addr_def)

lemma example_is_node_transport:
  "example_send = udp_send" "example_broadcast = udp_broadcast" "example_poll = udp_poll"
  "example_shutdown = udp_shutdown" "example_open_mcast = udp_open_mcast"
proof -
  have r: "example_try_recv = try_recv"
    unfolding example_try_recv_def [abs_def] try_recv_def [abs_def] example_constants ..
  show "example_send = udp_send" "example_broadcast = udp_broadcast" "example_poll = udp_poll"
    "example_shutdown = udp_shutdown" "example_open_mcast = udp_open_mcast"
    unfolding example_send_def [abs_def] udp_send_def [abs_def] example_broadcast_def [abs_def] udp_broadcast_def [abs_def]
      example_poll_def [abs_def] udp_poll_def [abs_def] example_shutdown_def [abs_def] udp_shutdown_def [abs_def]
      example_open_mcast_def [abs_def] udp_open_mcast_def [abs_def] example_constants r
    by (rule refl)+
qed

text \<open>Two readings of the clock differ by the milliseconds between them, across its wrap.\<close>

lemma example_clock_elapsed:
  "example_now_ms s' ns' - example_now_ms s ns = of_int ((s' * 1000 + ns' div 1000000) - (s * 1000 + ns div 1000000))"
  by (simp add: example_now_ms_def)

end
