(* ===== verification/Calculator.thy ===== *)
theory Calculator
  imports Runtime_Api Example_Transport
begin

text \<open>
  The calculator example: the provider \<open>examples/server.cpp\<close> and the consumer
  \<open>examples/client.cpp\<close>.  The transport is a parameter, the record \<open>link\<close> that \<open>example_link\<close> fills
  with the UDP transport of the examples.  A value of type \<open>int32_t\<close> is a word read with \<open>sint\<close>.  What the programs print about calls, and the undefined
  behaviour they run into, is recorded as a list of \<open>printed\<close> items.  The callbacks a call of the runtime makes
  run when it returns: those of the client only touch its own variables.
\<close>

type_synonym i32 = "32 word"

datatype printed =
  Result string i32 i32 i32
| Failed string i32 i32 ReturnCode
| Counter_Event u32
| Signed_Overflow
| Bad_Response_Buffer

section \<open>The calculator service\<close>

definition SERVICE_ID :: u16 where "SERVICE_ID = 0x0100"
definition METHOD_ADD :: u16 where "METHOD_ADD = 0x0001"
definition METHOD_MUL :: u16 where "METHOD_MUL = 0x0002"
definition EVENT_CTR :: u16 where "EVENT_CTR = 0x8001"
definition SERVER_CLIENT_ID :: u16 where "SERVER_CLIENT_ID = 0x0001"

definition read_i32 :: "bytes \<Rightarrow> nat \<Rightarrow> i32" where
  "read_i32 p i =
     push_bit 24 (ucast (p ! i)) OR push_bit 16 (ucast (p ! (i + 1))) OR
     push_bit 8 (ucast (p ! (i + 2))) OR ucast (p ! (i + 3))"

definition write_i32 :: "i32 \<Rightarrow> bytes" where
  "write_i32 u = [ucast (drop_bit 24 u), ucast (drop_bit 16 u), ucast (drop_bit 8 u), ucast u]"

text \<open>Storing four bytes at the response pointer: there has to be a buffer of that size.\<close>

definition store_i32 :: "i32 \<Rightarrow> bytes option \<Rightarrow> bytes option \<times> printed list" where
  "store_i32 r out =
     (case out of
        Some buf \<Rightarrow> if length buf < 4 then (out, [Bad_Response_Buffer]) else (Some (write_i32 r @ drop 4 buf), [])
      | None \<Rightarrow> (None, [Bad_Response_Buffer]))"

text \<open>Overflow of \<open>int32_t\<close> arithmetic is undefined behaviour; the word that wraps stands for its result.\<close>

definition fits_i32 :: "int \<Rightarrow> bool" where
  "fits_i32 x \<longleftrightarrow> - (2 ^ 31) \<le> x \<and> x < 2 ^ 31"

definition overflow_note :: "int \<Rightarrow> printed list" where
  "overflow_note x = (if fits_i32 x then [] else [Signed_Overflow])"

definition do_add :: "bytes \<Rightarrow> bytes option \<Rightarrow> printed list \<Rightarrow> ReturnCode \<times> bytes option \<times> nat \<times> printed list" where
  "do_add input out notes =
     (if length input < 8 then (E_MALFORMED_MESSAGE, out, 0, notes)
      else
        let a = read_i32 input 0; b = read_i32 input 4; r = a + b
        in case store_i32 r out of (out, bad) \<Rightarrow>
             (E_OK, out, 4, notes @ overflow_note (sint a + sint b) @ bad @ [Result ''Add'' a b r]))"

definition do_mul :: "bytes \<Rightarrow> bytes option \<Rightarrow> printed list \<Rightarrow> ReturnCode \<times> bytes option \<times> nat \<times> printed list" where
  "do_mul input out notes =
     (if length input < 8 then (E_MALFORMED_MESSAGE, out, 0, notes)
      else
        let a = read_i32 input 0; b = read_i32 input 4; r = a * b
        in case store_i32 r out of (out, bad) \<Rightarrow>
             (E_OK, out, 4, notes @ overflow_note (sint a * sint b) @ bad @ [Result ''Mul'' a b r]))"

definition calculator_on_request ::
    "u16 \<Rightarrow> bytes \<Rightarrow> bytes option \<Rightarrow> nat \<Rightarrow> printed list \<Rightarrow> ReturnCode \<times> bytes option \<times> nat \<times> printed list" where
  "calculator_on_request mid payload out rlen notes =
     (if mid = METHOD_ADD then do_add payload out notes
      else if mid = METHOD_MUL then do_mul payload out notes
      else (E_UNKNOWN_METHOD, out, 0, notes))"

definition server_env :: "'t link \<Rightarrow> ('t, printed list) env" where
  "server_env l = \<lparr> en_cfg = DefaultConfig, impl_send = link_send l, impl_broadcast = link_broadcast l,
     impl_poll = link_poll l, app_is_ready = (\<lambda>ctx notes. True),
     app_on_request = (\<lambda>ctx. calculator_on_request) \<rparr>"

section \<open>The main loop of the server\<close>

record 't server =
  sv_rt :: "('t, printed list) runtime"
  sv_counter :: u32
  sv_last_event_ms :: u32

definition server_start :: "'t link \<Rightarrow> 't \<Rightarrow> addr \<Rightarrow> u32 \<Rightarrow> 't server" where
  "server_start l transport local_addr now =
     (let r = set_local_address local_addr (runtime_init (server_env l) transport [] SERVER_CLIENT_ID);
          r = snd (rt_register_service (server_env l) SERVICE_ID (AppCtx 0) 1 0 False r);
          r = snd (rt_register_event (server_env l) SERVICE_ID EVENT_CTR r);
          r = snd (offer_service (server_env l) SERVICE_ID 30 now r)
      in \<lparr> sv_rt = r, sv_counter = 0, sv_last_event_ms = now \<rparr>)"

definition server_step :: "'t link \<Rightarrow> u32 \<Rightarrow> 't server \<Rightarrow> 't server" where
  "server_step l now sv =
     (let r = process (server_env l) now (sv_rt sv)
      in if now - sv_last_event_ms sv \<ge> 250
         then
           let counter = sv_counter sv + 1;
               payload = [ucast (drop_bit 24 counter), ucast (drop_bit 16 counter),
                          ucast (drop_bit 8 counter), ucast counter]
           in sv\<lparr> sv_rt := snd (notify_event (server_env l) SERVICE_ID EVENT_CTR (Some payload) 4 r),
                  sv_counter := counter, sv_last_event_ms := now \<rparr>
         else sv\<lparr>sv_rt := r\<rparr>)"

section \<open>The client\<close>

definition CLIENT_CLIENT_ID :: u16 where "CLIENT_CLIENT_ID = 0x0002"

text \<open>The handler of counter events.\<close>

definition counter_on_event :: "u16 \<Rightarrow> bytes \<Rightarrow> printed list" where
  "counter_on_event event_id payload =
     (if event_id = EVENT_CTR \<and> length payload \<ge> 4 then
        [Counter_Event
           (push_bit 24 (ucast (payload ! 0)) OR push_bit 16 (ucast (payload ! 1)) OR
            push_bit 8 (ucast (payload ! 2)) OR ucast (payload ! 3))]
      else [])"

record CallContext =
  cc_name :: string
  cc_a :: i32
  cc_b :: i32

definition on_response :: "ReturnCode \<Rightarrow> bytes option \<Rightarrow> CallContext \<Rightarrow> printed" where
  "on_response rc resp ctx =
     (case resp of
        Some p \<Rightarrow>
          if rc = E_OK \<and> length p \<ge> 4 then Result (cc_name ctx) (cc_a ctx) (cc_b ctx) (read_i32 p 0)
          else Failed (cc_name ctx) (cc_a ctx) (cc_b ctx) rc
      | None \<Rightarrow> Failed (cc_name ctx) (cc_a ctx) (cc_b ctx) rc)"

text \<open>The variables of \<open>main\<close>.\<close>

record ('t, 'a) client =
  cl_rt :: "('t, 'a) runtime"
  cl_service_found :: bool
  cl_was_subscribed :: bool
  cl_subscribed :: bool
  cl_last_call_ms :: u32
  cl_call_counter :: u32
  cl_call_ctx :: CallContext
  cl_notes :: "printed list"

text \<open>The callbacks; every request has the one context \<open>call_ctx\<close>.\<close>

fun client_callback :: "effect \<Rightarrow> ('t, 'a) client \<Rightarrow> ('t, 'a) client" where
  "client_callback (Out_Service_Found f ctx sid a) cl =
     (if sid = SERVICE_ID then cl\<lparr>cl_service_found := True\<rparr> else cl)"
| "client_callback (Out_Service_Lost f ctx sid) cl =
     (if sid = SERVICE_ID then cl\<lparr>cl_service_found := False\<rparr> else cl)"
| "client_callback (Out_Request_Done f ctx rc payload) cl =
     cl\<lparr>cl_notes := cl_notes cl @ [on_response rc payload (cl_call_ctx cl)]\<rparr>"
| "client_callback (Out_Event h sid eid payload) cl =
     cl\<lparr>cl_notes := cl_notes cl @ counter_on_event eid payload\<rparr>"
| "client_callback _ cl = cl"

definition client_rt :: "(('t, 'a) runtime \<Rightarrow> ('t, 'a) runtime) \<Rightarrow> ('t, 'a) client \<Rightarrow> ('t, 'a) client" where
  "client_rt f cl =
     (let r = f ((cl_rt cl)\<lparr>rt_out := []\<rparr>)
      in fold client_callback (rt_out r) (cl\<lparr>cl_rt := r\<lparr>rt_out := []\<rparr>\<rparr>))"

definition client_start :: "('t, 'a) env \<Rightarrow> 't \<Rightarrow> 'a \<Rightarrow> addr \<Rightarrow> u32 \<Rightarrow> ('t, 'a) client" where
  "client_start env transport app local_addr now =
     (let r = set_local_address local_addr (runtime_init env transport app CLIENT_CLIENT_ID);
          r = set_sd_callbacks \<lparr> on_service_found = Some 1, service_found_ctx = 0, on_service_lost = Some 2,
                service_lost_ctx = 0, on_subscription_ack = Some 3, subscription_ack_ctx = 0 \<rparr> r;
          r = snd (find_service env SERVICE_ID 1 now r)
      in \<lparr> cl_rt = r\<lparr>rt_out := []\<rparr>, cl_service_found = False, cl_was_subscribed = False, cl_subscribed = False,
           cl_last_call_ms = now, cl_call_counter = 0,
           cl_call_ctx = \<lparr>cc_name = [], cc_a = 0, cc_b = 0\<rparr>, cl_notes = [] \<rparr>)"

text \<open>Subscribing once the service is found.\<close>

definition client_subscribe :: "('t, 'a) env \<Rightarrow> u32 \<Rightarrow> ('t, 'a) client \<Rightarrow> ('t, 'a) client" where
  "client_subscribe env now cl =
     (let cl = (if cl_service_found cl \<and> \<not> cl_subscribed cl
                then client_rt (\<lambda>r. snd (subscribe_event env SERVICE_ID EVENT_CTR 0 30 now r))
                       (cl\<lparr>cl_subscribed := True, cl_was_subscribed := True\<rparr>)
                else cl)
      in if \<not> cl_service_found cl then cl\<lparr>cl_subscribed := False\<rparr> else cl)"

text \<open>Method and context of the call with a given number.\<close>

definition call_method :: "u32 \<Rightarrow> u16" where
  "call_method n = (if n mod 2 = 1 then METHOD_ADD else METHOD_MUL)"

definition call_operands :: "u32 \<Rightarrow> CallContext" where
  "call_operands n = \<lparr> cc_name = (if call_method n = METHOD_ADD then ''Add'' else ''Mul''), cc_a = n, cc_b = n + 10 \<rparr>"

definition ON_RESPONSE :: nat where "ON_RESPONSE = 4"

definition client_call :: "('t, 'a) env \<Rightarrow> u32 \<Rightarrow> ('t, 'a) client \<Rightarrow> ('t, 'a) client" where
  "client_call env now cl =
     (if cl_service_found cl \<and> now - cl_last_call_ms cl \<ge> 3000
      then
        let n = cl_call_counter cl + 1; ctx = call_operands n
        in client_rt (\<lambda>r. snd (request env SERVICE_ID (call_method n)
                 (Some (write_i32 (cc_a ctx) @ write_i32 (cc_b ctx))) 8 (Some ON_RESPONSE) 0 1000 now r))
             (cl\<lparr> cl_last_call_ms := now, cl_call_counter := n, cl_call_ctx := ctx \<rparr>)
      else cl)"

definition client_step :: "('t, 'a) env \<Rightarrow> u32 \<Rightarrow> ('t, 'a) client \<Rightarrow> ('t, 'a) client" where
  "client_step env now cl = client_call env now (client_subscribe env now (client_rt (process env now) cl))"

end
