(* ===== verification/Demo_Protocol.thy ===== *)
theory Demo_Protocol
  imports Calculator
begin

text \<open>
  What the two peers of the ESP32 demo share (\<open>examples/demo_constants.hpp\<close>), the time service of the
  desktop (\<open>examples/time_service.hpp\<close>) and its handler for the events of the sensor service
  (\<open>examples/esp32_event_handler.hpp\<close>).  A \<open>float\<close> is the word of its bits, which is what the code
  copies.  What the desktop prints is a list of \<open>printout\<close> items.
\<close>

section \<open>Constants\<close>

definition SENSOR_SERVICE_ID :: u16 where "SENSOR_SERVICE_ID = 0x1000"
definition SENSOR_MAJOR_VERSION :: u8 where "SENSOR_MAJOR_VERSION = 1"
definition SENSOR_GET_TEMPERATURE :: u16 where "SENSOR_GET_TEMPERATURE = 0x0001"
definition SENSOR_GET_UPTIME :: u16 where "SENSOR_GET_UPTIME = 0x0002"
definition SENSOR_SET_LED :: u16 where "SENSOR_SET_LED = 0x0003"
definition SENSOR_EVT_TEMPERATURE :: u16 where "SENSOR_EVT_TEMPERATURE = 0x8001"
definition SENSOR_EVT_BUTTON :: u16 where "SENSOR_EVT_BUTTON = 0x8002"

definition ECHO_SERVICE_ID :: u16 where "ECHO_SERVICE_ID = 0x2000"
definition ECHO_MAJOR_VERSION :: u8 where "ECHO_MAJOR_VERSION = 1"
definition ECHO_METHOD_ECHO :: u16 where "ECHO_METHOD_ECHO = 0x0001"
definition ECHO_METHOD_ADD :: u16 where "ECHO_METHOD_ADD = 0x0002"
definition ECHO_METHOD_MULTIPLY :: u16 where "ECHO_METHOD_MULTIPLY = 0x0003"

definition TIME_SERVICE_ID :: u16 where "TIME_SERVICE_ID = 0x3000"
definition TIME_MAJOR_VERSION :: u8 where "TIME_MAJOR_VERSION = 1"
definition TIME_MINOR_VERSION :: u8 where "TIME_MINOR_VERSION = 0"
definition TIME_GET_TIME :: u16 where "TIME_GET_TIME = 0x0001"
definition TIME_PING :: u16 where "TIME_PING = 0x0002"
definition TIME_EVT_TICK :: u16 where "TIME_EVT_TICK = 0x8001"

definition DESKTOP_UNICAST_PORT :: u16 where "DESKTOP_UNICAST_PORT = 30492"
definition DESKTOP_CLIENT_ID :: u16 where "DESKTOP_CLIENT_ID = 0x0200"

definition DEMO_HMAC_KEY :: bytes where
  "DEMO_HMAC_KEY =
     [0x53, 0x65, 0x72, 0x6F, 0x20, 0x44, 0x65, 0x6D, 0x6F, 0x20, 0x4B, 0x65, 0x79, 0x20, 0x66, 0x6F,
      0x72, 0x20, 0x48, 0x4D, 0x41, 0x43, 0x2D, 0x32, 0x35, 0x36, 0x21, 0x21, 0x21, 0x21, 0x21, 0x21]"

section \<open>Payload helpers\<close>

type_synonym f32 = "32 word"
type_synonym u64 = "64 word"

definition demo_write_u32 :: "u32 \<Rightarrow> bytes" where
  "demo_write_u32 v = [ucast (drop_bit 24 v), ucast (drop_bit 16 v), ucast (drop_bit 8 v), ucast v]"

definition demo_read_u32 :: "bytes \<Rightarrow> nat \<Rightarrow> u32" where
  "demo_read_u32 p i =
     push_bit 24 (ucast (p ! i)) OR push_bit 16 (ucast (p ! (i + 1))) OR
     push_bit 8 (ucast (p ! (i + 2))) OR ucast (p ! (i + 3))"

definition demo_write_i32 :: "i32 \<Rightarrow> bytes" where "demo_write_i32 v = demo_write_u32 v"
definition demo_read_i32 :: "bytes \<Rightarrow> nat \<Rightarrow> i32" where "demo_read_i32 p i = demo_read_u32 p i"

definition demo_write_u64 :: "u64 \<Rightarrow> bytes" where
  "demo_write_u64 v = demo_write_u32 (ucast (drop_bit 32 v)) @ demo_write_u32 (ucast v)"

definition demo_read_u64 :: "bytes \<Rightarrow> nat \<Rightarrow> u64" where
  "demo_read_u64 p i = push_bit 32 (ucast (demo_read_u32 p i)) OR ucast (demo_read_u32 p (i + 4))"

definition demo_write_float :: "f32 \<Rightarrow> bytes" where "demo_write_float v = demo_write_u32 v"
definition demo_read_float :: "bytes \<Rightarrow> nat \<Rightarrow> f32" where "demo_read_float p i = demo_read_u32 p i"

section \<open>Output of the desktop\<close>

datatype printout =
  Service_Up u16 addr
| Service_Down u16
| Subscription_Answer u16 u16 ReturnCode u16
| Temperature f32
| Temperature_Failed ReturnCode
| Uptime u32
| Uptime_Failed ReturnCode
| Echoed nat "bytes option"
| Echo_Failed ReturnCode
| Math_Result string i32 i32 i32
| Math_Failed string i32 i32 ReturnCode
| Key_Set addr
| Counter_Incremented string
| Counter_Value string u32
| Requests_Pending nat
| Tick u32 u64
| Event_Temperature f32
| Event_Button u32
| Time_Sent u64
| Pong_Sent
| Response_Overrun

section \<open>The time service\<close>

text \<open>The clock the service reads and what it prints.\<close>

record time_app =
  ta_epoch :: u64
  ta_prints :: "printout list"

text \<open>Storing at the response pointer, which has to point to a buffer that is large enough.\<close>

definition store_bytes :: "bytes \<Rightarrow> bytes option \<Rightarrow> bytes option \<times> printout list" where
  "store_bytes bs response =
     (case response of
        Some buf \<Rightarrow> if length buf < length bs then (response, [Response_Overrun])
                    else (Some (bs @ drop (length bs) buf), [])
      | None \<Rightarrow> (None, [Response_Overrun]))"

definition handle_get_time :: "bytes option \<Rightarrow> time_app \<Rightarrow> ReturnCode \<times> bytes option \<times> nat \<times> time_app" where
  "handle_get_time response a =
     (let epoch = ta_epoch a in
      case store_bytes (demo_write_u64 epoch) response of (response, bad) \<Rightarrow>
        (E_OK, response, 8, a\<lparr>ta_prints := ta_prints a @ bad @ [Time_Sent epoch]\<rparr>))"

definition handle_ping :: "bytes option \<Rightarrow> time_app \<Rightarrow> ReturnCode \<times> bytes option \<times> nat \<times> time_app" where
  "handle_ping response a =
     (case store_bytes [0x70, 0x6F, 0x6E, 0x67] response of (response, bad) \<Rightarrow>
        (E_OK, response, 4, a\<lparr>ta_prints := ta_prints a @ bad @ [Pong_Sent]\<rparr>))"

definition time_on_request ::
    "u16 \<Rightarrow> bytes \<Rightarrow> bytes option \<Rightarrow> nat \<Rightarrow> time_app \<Rightarrow> ReturnCode \<times> bytes option \<times> nat \<times> time_app" where
  "time_on_request mid payload response rlen a =
     (if mid = TIME_GET_TIME then handle_get_time response a
      else if mid = TIME_PING then handle_ping response a
      else (E_UNKNOWN_METHOD, response, 0, a))"

section \<open>The handler of sensor events\<close>

record Esp32EventHandler =
  last_temperature :: f32
  temp_event_count :: u32
  button_event_count :: u32

definition esp32_handler_init :: Esp32EventHandler where
  "esp32_handler_init = \<lparr>last_temperature = 0, temp_event_count = 0, button_event_count = 0\<rparr>"

definition esp32_on_event ::
    "u16 \<Rightarrow> u16 \<Rightarrow> bytes \<Rightarrow> Esp32EventHandler \<Rightarrow> Esp32EventHandler \<times> printout list" where
  "esp32_on_event service_id event_id payload h =
     (if service_id = SENSOR_SERVICE_ID then
        if event_id = SENSOR_EVT_TEMPERATURE \<and> length payload \<ge> 4 then
          let temp = demo_read_float payload 0
          in (h\<lparr>last_temperature := temp, temp_event_count := temp_event_count h + 1\<rparr>, [Event_Temperature temp])
        else if event_id = SENSOR_EVT_BUTTON \<and> length payload \<ge> 4 then
          (h\<lparr>button_event_count := button_event_count h + 1\<rparr>, [Event_Button (demo_read_u32 payload 0)])
        else (h, [])
      else (h, []))"

section \<open>Facts\<close>

lemma demo_u32_codec: "demo_write_u32 = write_u32" "demo_read_u32 = read_u32"
  by (simp_all add: fun_eq_iff demo_write_u32_def write_u32_def demo_read_u32_def read_u32_def)

lemma demo_u32_roundtrip: "demo_read_u32 (xs @ demo_write_u32 v @ ys) (length xs) = v"
  unfolding demo_u32_codec by (rule read_u32_at)

lemma length_demo_writes [simp]: "length (demo_write_u32 v) = 4" "length (demo_write_u64 w) = 8"
  by (simp_all add: demo_write_u32_def demo_write_u64_def)

lemma u64_halves: "push_bit 32 (ucast (ucast (drop_bit 32 v) :: u32)) OR ucast (ucast v :: u32) = (v :: u64)"
proof (rule bit_word_eqI)
  fix n assume "n < LENGTH(64)"
  then show "bit (push_bit 32 (ucast (ucast (drop_bit 32 v) :: u32)) OR ucast (ucast v :: u32) :: u64) n = bit v n"
    by (cases "n < 32") (auto simp: bit_simps)
qed

lemma demo_u64_roundtrip: "demo_read_u64 (demo_write_u64 v @ rest) 0 = v"
proof -
  have "demo_read_u32 (demo_write_u64 v @ rest) 0 = ucast (drop_bit 32 v)"
    using demo_u32_roundtrip [of "[]" "ucast (drop_bit 32 v)"] by (simp add: demo_write_u64_def)
  moreover have "demo_read_u32 (demo_write_u64 v @ rest) 4 = ucast v"
    using demo_u32_roundtrip [of "demo_write_u32 (ucast (drop_bit 32 v))" "ucast v" rest]
    by (simp add: demo_write_u64_def)
  ultimately show ?thesis by (simp add: demo_read_u64_def u64_halves)
qed

lemma store_bytes_length: "map_option length (fst (store_bytes bs response)) = map_option length response"
  by (auto simp: store_bytes_def split: option.split)

lemma time_contract:
  "time_on_request mid payload response rlen a = (rc, response', rlen', a') \<Longrightarrow>
   map_option length response' = map_option length response"
  using store_bytes_length [of _ response]
  by (auto simp: time_on_request_def handle_get_time_def handle_ping_def Let_def case_prod_beta split: if_splits)

text \<open>Without a response buffer, as in a fire-and-forget call, both methods store through a null pointer.\<close>

lemma time_null_response:
  "mid = TIME_GET_TIME \<or> mid = TIME_PING \<Longrightarrow>
   Response_Overrun \<in> set (ta_prints (snd (snd (snd (time_on_request mid payload None rlen a)))))"
  by (auto simp: time_on_request_def handle_get_time_def handle_ping_def Let_def store_bytes_def
      TIME_GET_TIME_def TIME_PING_def)

end
