(* ===== verification/Desktop_Peer.thy ===== *)
theory Desktop_Peer
  imports Demo_Protocol
begin

text \<open>
  The desktop peer of the ESP32 demo (\<open>examples/desktop_peer.cpp\<close>): provider of the time service and
  consumer of the sensor and echo services.  The transport is a parameter (record \<open>link\<close>), and so is
  the epoch clock, read once per cycle.  The callbacks of the library run during calls of the runtime and touch only
  the variables of this program; here they run, in order, when the call returns.  What it prints
  about calls, events and counters is recorded; its fixed status lines are not.
\<close>

definition desktop_env :: "'t link \<Rightarrow> ('t, time_app) env" where
  "desktop_env l = \<lparr> en_cfg = DefaultConfig, impl_send = link_send l, impl_broadcast = link_broadcast l,
     impl_poll = link_poll l, app_is_ready = (\<lambda>ctx a. True), app_on_request = (\<lambda>ctx. time_on_request) \<rparr>"

section \<open>State\<close>

record AppState =
  sensor_found :: bool
  sensor_subscribed :: bool
  was_sensor_sub :: bool
  echo_found :: bool
  echo_hmac_set :: bool
  last_temp_req_ms :: u32
  last_uptime_req_ms :: u32
  last_led_toggle_ms :: u32
  last_echo_req_ms :: u32
  last_math_req_ms :: u32
  last_tick_ms :: u32
  last_diag_ms :: u32
  led_state :: bool
  call_counter :: u32

record MathCtx =
  math_op :: string
  math_a :: i32
  math_b :: i32

record 't desktop =
  dk_rt :: "('t, time_app) runtime"
  dk_app :: AppState
  dk_math_ctx :: MathCtx
  dk_handler :: Esp32EventHandler
  dk_tick_count :: u32
  dk_prints :: "printout list"

section \<open>Callbacks\<close>

fun diag_name :: "DiagnosticCounter \<Rightarrow> string" where
  "diag_name CrcErrors = ''CrcErrors''"
| "diag_name VersionMismatches = ''VersionMismatches''"
| "diag_name OversizedPayloads = ''OversizedPayloads''"
| "diag_name TypeIdMismatches = ''TypeIdMismatches''"
| "diag_name DuplicateMessages = ''DuplicateMessages''"
| "diag_name StaleMessages = ''StaleMessages''"
| "diag_name AuthFailures = ''AuthFailures''"
| "diag_name UnknownMessageTypes = ''UnknownMsgTypes''"
| "diag_name DroppedMessages = ''DroppedMessages''"

definition app_service_found :: "u16 \<Rightarrow> AppState \<Rightarrow> AppState" where
  "app_service_found sid app =
     (let app = (if sid = SENSOR_SERVICE_ID then app\<lparr>sensor_found := True\<rparr> else app)
      in if sid = ECHO_SERVICE_ID then app\<lparr>echo_found := True\<rparr> else app)"

definition app_service_lost :: "u16 \<Rightarrow> AppState \<Rightarrow> AppState" where
  "app_service_lost sid app =
     (let app = (if sid = SENSOR_SERVICE_ID then app\<lparr>sensor_found := False, sensor_subscribed := False\<rparr> else app)
      in if sid = ECHO_SERVICE_ID then app\<lparr>echo_found := False, echo_hmac_set := False\<rparr> else app)"

text \<open>A completion callback gets a payload pointer and a length, zero for a null pointer.\<close>

definition on_temperature_response :: "ReturnCode \<Rightarrow> bytes option \<Rightarrow> printout" where
  "on_temperature_response rc payload =
     (case payload of
        Some p \<Rightarrow> if rc = E_OK \<and> length p \<ge> 4 then Temperature (demo_read_float p 0) else Temperature_Failed rc
      | None \<Rightarrow> Temperature_Failed rc)"

definition on_uptime_response :: "ReturnCode \<Rightarrow> bytes option \<Rightarrow> printout" where
  "on_uptime_response rc payload =
     (case payload of
        Some p \<Rightarrow> if rc = E_OK \<and> length p \<ge> 4 then Uptime (demo_read_u32 p 0) else Uptime_Failed rc
      | None \<Rightarrow> Uptime_Failed rc)"

definition on_echo_response :: "ReturnCode \<Rightarrow> bytes option \<Rightarrow> printout" where
  "on_echo_response rc payload =
     (if rc = E_OK then
        (let len = (case payload of None \<Rightarrow> 0 | Some p \<Rightarrow> length p)
         in Echoed len (if len > 0 \<and> len \<le> 32 then payload else None))
      else Echo_Failed rc)"

definition on_math_response :: "ReturnCode \<Rightarrow> bytes option \<Rightarrow> MathCtx \<Rightarrow> printout" where
  "on_math_response rc payload m =
     (case payload of
        Some p \<Rightarrow>
          if rc = E_OK \<and> length p \<ge> 4 then Math_Result (math_op m) (math_a m) (math_b m) (demo_read_i32 p 0)
          else Math_Failed (math_op m) (math_a m) (math_b m) rc
      | None \<Rightarrow> Math_Failed (math_op m) (math_a m) (math_b m) rc)"

definition ON_TEMPERATURE :: nat where "ON_TEMPERATURE = 1"
definition ON_UPTIME :: nat where "ON_UPTIME = 2"
definition ON_ECHO :: nat where "ON_ECHO = 3"
definition ON_MATH :: nat where "ON_MATH = 4"

definition on_reply :: "nat \<Rightarrow> ReturnCode \<Rightarrow> bytes option \<Rightarrow> MathCtx \<Rightarrow> printout list" where
  "on_reply f rc payload m =
     (if f = ON_TEMPERATURE then [on_temperature_response rc payload]
      else if f = ON_UPTIME then [on_uptime_response rc payload]
      else if f = ON_ECHO then [on_echo_response rc payload]
      else if f = ON_MATH then [on_math_response rc payload m]
      else [])"

definition dk_print :: "printout list \<Rightarrow> 't desktop \<Rightarrow> 't desktop" where
  "dk_print ps dk = dk\<lparr>dk_prints := dk_prints dk @ ps\<rparr>"

fun desktop_callback :: "effect \<Rightarrow> 't desktop \<Rightarrow> 't desktop" where
  "desktop_callback (Out_Diag f ctx c hdr) dk = dk_print [Counter_Incremented (diag_name c)] dk"
| "desktop_callback (Out_Service_Found f ctx sid a) dk =
     dk_print [Service_Up sid a] (dk\<lparr>dk_app := app_service_found sid (dk_app dk)\<rparr>)"
| "desktop_callback (Out_Service_Lost f ctx sid) dk =
     dk_print [Service_Down sid] (dk\<lparr>dk_app := app_service_lost sid (dk_app dk)\<rparr>)"
| "desktop_callback (Out_Subscription_Ack f ctx sid eid rc ttl) dk =
     dk_print [Subscription_Answer sid eid rc ttl] dk"
| "desktop_callback (Out_Request_Done f ctx rc payload) dk =
     dk_print (on_reply f rc payload (dk_math_ctx dk)) dk"
| "desktop_callback (Out_Event h sid eid payload) dk =
     (case esp32_on_event sid eid payload (dk_handler dk) of (h', ps) \<Rightarrow> dk_print ps (dk\<lparr>dk_handler := h'\<rparr>))"
| "desktop_callback _ dk = dk"

text \<open>A call of the runtime, with its result, and the callbacks it makes.\<close>

definition desktop_call ::
    "(('t, time_app) runtime \<Rightarrow> 'r \<times> ('t, time_app) runtime) \<Rightarrow> 't desktop \<Rightarrow> 'r \<times> 't desktop" where
  "desktop_call f dk =
     (case f ((dk_rt dk)\<lparr>rt_out := []\<rparr>) of (x, r) \<Rightarrow>
        (x, fold desktop_callback (rt_out r) (dk\<lparr>dk_rt := r\<lparr>rt_out := []\<rparr>\<rparr>)))"

definition desktop_rt :: "(('t, time_app) runtime \<Rightarrow> ('t, time_app) runtime) \<Rightarrow> 't desktop \<Rightarrow> 't desktop" where
  "desktop_rt f dk = snd (desktop_call (\<lambda>r. ((), f r)) dk)"

abbreviation set_app :: "(AppState \<Rightarrow> AppState) \<Rightarrow> 't desktop \<Rightarrow> 't desktop" where
  "set_app f dk \<equiv> dk\<lparr>dk_app := f (dk_app dk)\<rparr>"

definition ALL_COUNTERS :: "DiagnosticCounter list" where
  "ALL_COUNTERS = [CrcErrors, VersionMismatches, OversizedPayloads, TypeIdMismatches, DuplicateMessages,
     StaleMessages, AuthFailures, UnknownMessageTypes, DroppedMessages]"

definition print_diagnostics :: "('t, time_app) runtime \<Rightarrow> printout list" where
  "print_diagnostics r =
     concat (map (\<lambda>c. let v = counter_get c (rt_diag r) in if v > 0 then [Counter_Value (diag_name c) v] else [])
       ALL_COUNTERS)
     @ [Requests_Pending (active_count (rt_requests r))]"

section \<open>Start\<close>

definition desktop_start :: "'t link \<Rightarrow> 't \<Rightarrow> addr \<Rightarrow> u32 \<Rightarrow> 't desktop" where
  "desktop_start l transport local_addr now =
     (let env = desktop_env l;
          r = set_local_address local_addr
                (runtime_init env transport \<lparr>ta_epoch = 0, ta_prints = []\<rparr> DESKTOP_CLIENT_ID);
          r = set_diagnostic_callback (Some 20) 0 r;
          r = snd (rt_register_service env TIME_SERVICE_ID (AppCtx 0) TIME_MAJOR_VERSION TIME_MINOR_VERSION False r);
          r = snd (rt_register_event env TIME_SERVICE_ID TIME_EVT_TICK r);
          r = snd (offer_service env TIME_SERVICE_ID 30 now r);
          r = set_sd_callbacks \<lparr> on_service_found = Some 11, service_found_ctx = 0, on_service_lost = Some 12,
                service_lost_ctx = 0, on_subscription_ack = Some 13, subscription_ack_ctx = 0 \<rparr> r;
          r = snd (find_service env SENSOR_SERVICE_ID SENSOR_MAJOR_VERSION now r);
          r = snd (find_service env ECHO_SERVICE_ID ECHO_MAJOR_VERSION now r);
          r = snd (enable_diagnostics env now False r);
          app = \<lparr> sensor_found = False, sensor_subscribed = False, was_sensor_sub = False, echo_found = False,
                  echo_hmac_set = False, last_temp_req_ms = now, last_uptime_req_ms = now,
                  last_led_toggle_ms = now, last_echo_req_ms = now, last_math_req_ms = now, last_tick_ms = now,
                  last_diag_ms = now, led_state = False, call_counter = 0 \<rparr>
      in \<lparr> dk_rt = r\<lparr>rt_out := []\<rparr>, dk_app = app, dk_math_ctx = \<lparr>math_op = [], math_a = 0, math_b = 0\<rparr>,
           dk_handler = esp32_handler_init, dk_tick_count = 0, dk_prints = [] \<rparr>)"

section \<open>The main loop\<close>

text \<open>The tick event, once a second.\<close>

definition desktop_tick :: "'t link \<Rightarrow> u32 \<Rightarrow> u64 \<Rightarrow> 't desktop \<Rightarrow> 't desktop" where
  "desktop_tick l now epoch dk =
     (if now - last_tick_ms (dk_app dk) \<ge> 1000 then
        let dk = set_app (\<lambda>a. a\<lparr>last_tick_ms := now\<rparr>) dk
        in case desktop_call (notify_event (desktop_env l) TIME_SERVICE_ID TIME_EVT_TICK (Some (demo_write_u64 epoch)) 8) dk of
             (True, dk) \<Rightarrow>
               (let n = dk_tick_count dk + 1; dk = dk\<lparr>dk_tick_count := n\<rparr>
                in if n mod 10 = 0 then dk_print [Tick n epoch] dk else dk)
           | (False, dk) \<Rightarrow> dk
      else dk)"

definition desktop_subscribe :: "'t link \<Rightarrow> u32 \<Rightarrow> 't desktop \<Rightarrow> 't desktop" where
  "desktop_subscribe l now dk =
     (if \<not> sensor_subscribed (dk_app dk) then
        set_app (\<lambda>a. a\<lparr>sensor_subscribed := True, was_sensor_sub := True\<rparr>)
          (desktop_rt (\<lambda>r. snd (subscribe_event (desktop_env l) SENSOR_SERVICE_ID SENSOR_EVT_BUTTON 0 30 now r))
            (desktop_rt (\<lambda>r. snd (subscribe_event (desktop_env l) SENSOR_SERVICE_ID SENSOR_EVT_TEMPERATURE 0 30 now r)) dk))
      else dk)"

definition desktop_get_temperature :: "'t link \<Rightarrow> u32 \<Rightarrow> 't desktop \<Rightarrow> 't desktop" where
  "desktop_get_temperature l now dk =
     (if now - last_temp_req_ms (dk_app dk) \<ge> 8000 then
        desktop_rt (\<lambda>r. snd (request (desktop_env l) SENSOR_SERVICE_ID SENSOR_GET_TEMPERATURE None 0
            (Some ON_TEMPERATURE) 0 2000 now r))
          (set_app (\<lambda>a. a\<lparr>last_temp_req_ms := now\<rparr>) dk)
      else dk)"

definition desktop_get_uptime :: "'t link \<Rightarrow> u32 \<Rightarrow> 't desktop \<Rightarrow> 't desktop" where
  "desktop_get_uptime l now dk =
     (if now - last_uptime_req_ms (dk_app dk) \<ge> 12000 then
        desktop_rt (\<lambda>r. snd (request (desktop_env l) SENSOR_SERVICE_ID SENSOR_GET_UPTIME None 0
            (Some ON_UPTIME) 0 2000 now r))
          (set_app (\<lambda>a. a\<lparr>last_uptime_req_ms := now\<rparr>) dk)
      else dk)"

definition desktop_toggle_led :: "'t link \<Rightarrow> u32 \<Rightarrow> 't desktop \<Rightarrow> 't desktop" where
  "desktop_toggle_led l now dk =
     (if now - last_led_toggle_ms (dk_app dk) \<ge> 6000 then
        let led = (\<not> led_state (dk_app dk))
        in desktop_rt (\<lambda>r. snd (fire_and_forget (desktop_env l) SENSOR_SERVICE_ID SENSOR_SET_LED
               (Some [if led then 1 else 0]) 1 r))
             (set_app (\<lambda>a. a\<lparr>last_led_toggle_ms := now, led_state := led\<rparr>) dk)
      else dk)"

definition desktop_sensor :: "'t link \<Rightarrow> u32 \<Rightarrow> 't desktop \<Rightarrow> 't desktop" where
  "desktop_sensor l now dk =
     (if sensor_found (dk_app dk) then
        desktop_toggle_led l now (desktop_get_uptime l now (desktop_get_temperature l now (desktop_subscribe l now dk)))
      else set_app (\<lambda>a. a\<lparr>sensor_subscribed := False\<rparr>) dk)"

text \<open>The key of the echo provider, once it is found; the result of \<open>set_hmac_key\<close> is ignored.\<close>

definition desktop_set_key :: "'t link \<Rightarrow> 't desktop \<Rightarrow> 't desktop" where
  "desktop_set_key l dk =
     (if \<not> echo_hmac_set (dk_app dk) then
        (case get_provider_address ECHO_SERVICE_ID (rt_sd (dk_rt dk)) of
           None \<Rightarrow> dk
         | Some peer \<Rightarrow>
             set_app (\<lambda>a. a\<lparr>echo_hmac_set := True\<rparr>)
               (dk_print [Key_Set peer]
                 (desktop_rt (\<lambda>r. snd (set_hmac_key (desktop_env l) peer DEMO_HMAC_KEY r)) dk)))
      else dk)"

definition ECHO_MESSAGE :: bytes where "ECHO_MESSAGE = map of_char ''Hello from Desktop!''"

definition desktop_echo_call :: "'t link \<Rightarrow> u32 \<Rightarrow> 't desktop \<Rightarrow> 't desktop" where
  "desktop_echo_call l now dk =
     (if now - last_echo_req_ms (dk_app dk) \<ge> 7000 then
        desktop_rt (\<lambda>r. snd (request (desktop_env l) ECHO_SERVICE_ID ECHO_METHOD_ECHO
            (Some ECHO_MESSAGE) (length ECHO_MESSAGE) (Some ON_ECHO) 0 2000 now r))
          (set_app (\<lambda>a. a\<lparr>last_echo_req_ms := now\<rparr>) dk)
      else dk)"

definition math_method :: "u32 \<Rightarrow> u16" where
  "math_method n = (if n mod 2 = 1 then ECHO_METHOD_ADD else ECHO_METHOD_MULTIPLY)"

definition math_operands :: "u32 \<Rightarrow> MathCtx" where
  "math_operands n = \<lparr> math_op = (if n mod 2 = 1 then ''ADD'' else ''MULTIPLY''), math_a = n * 3, math_b = n + 7 \<rparr>"

definition desktop_math_call :: "'t link \<Rightarrow> u32 \<Rightarrow> 't desktop \<Rightarrow> 't desktop" where
  "desktop_math_call l now dk =
     (if now - last_math_req_ms (dk_app dk) \<ge> 5000 then
        let n = call_counter (dk_app dk) + 1; m = math_operands n
        in desktop_rt (\<lambda>r. snd (request (desktop_env l) ECHO_SERVICE_ID (math_method n)
               (Some (demo_write_i32 (math_a m) @ demo_write_i32 (math_b m))) 8 (Some ON_MATH) 0 2000 now r))
             ((set_app (\<lambda>a. a\<lparr>last_math_req_ms := now, call_counter := n\<rparr>) dk)\<lparr>dk_math_ctx := m\<rparr>)
      else dk)"

definition desktop_echo :: "'t link \<Rightarrow> u32 \<Rightarrow> 't desktop \<Rightarrow> 't desktop" where
  "desktop_echo l now dk =
     (if echo_found (dk_app dk) then
        desktop_math_call l now (desktop_echo_call l now (desktop_set_key l dk))
      else set_app (\<lambda>a. a\<lparr>echo_hmac_set := False\<rparr>) dk)"

definition desktop_diag :: "u32 \<Rightarrow> 't desktop \<Rightarrow> 't desktop" where
  "desktop_diag now dk =
     (if now - last_diag_ms (dk_app dk) \<ge> 30000 then
        dk_print (print_diagnostics (dk_rt dk)) (set_app (\<lambda>a. a\<lparr>last_diag_ms := now\<rparr>) dk)
      else dk)"

definition set_clock :: "u64 \<Rightarrow> ('t, time_app) runtime \<Rightarrow> ('t, time_app) runtime" where
  "set_clock epoch r = r\<lparr>rt_app := (rt_app r)\<lparr>ta_epoch := epoch\<rparr>\<rparr>"

text \<open>One cycle of the main loop, at a time of the two clocks.\<close>

definition desktop_step :: "'t link \<Rightarrow> u32 \<times> u64 \<Rightarrow> 't desktop \<Rightarrow> 't desktop" where
  "desktop_step l t dk =
     (case t of (now, epoch) \<Rightarrow>
        desktop_diag now (desktop_echo l now (desktop_sensor l now (desktop_tick l now epoch
          (desktop_rt (\<lambda>r. process (desktop_env l) now (set_clock epoch r)) dk)))))"

text \<open>After the loop; the transport is closed by its own \<open>shutdown\<close>.\<close>

definition desktop_stop :: "'t link \<Rightarrow> 't desktop \<Rightarrow> 't desktop" where
  "desktop_stop l dk = desktop_rt (stop_offer (desktop_env l) TIME_SERVICE_ID) dk"

end
