(* ===== verification/Text_Output.thy ===== *)
theory Text_Output
  imports Prelude
begin

text \<open>
  The text functions of the C and C++ libraries that the binding and the examples use: decimal and
  hexadecimal numbers as \<open>std::to_string\<close> and \<open>printf\<close> write them, and \<open>strtoul\<close> with base 16.
  Characters beyond ASCII are their UTF-8 bytes.
\<close>

section \<open>Writing numbers\<close>

text \<open>\<open>std::to_string\<close> and the conversions \<open>%u\<close> and \<open>%zu\<close>.\<close>

fun decimal :: "nat \<Rightarrow> string" where
  "decimal n = (if n < 10 then [char_of (48 + n)] else decimal (n div 10) @ [char_of (48 + n mod 10)])"

declare decimal.simps [simp del]

text \<open>The conversion \<open>%04X\<close> of a 16-bit value.\<close>

definition hex_digit :: "nat \<Rightarrow> char" where
  "hex_digit d = (if d < 10 then char_of (48 + d) else char_of (55 + d))"

definition hex4 :: "u16 \<Rightarrow> string" where
  "hex4 v = (let n = unat v in map hex_digit [n div 4096, n div 256 mod 16, n div 16 mod 16, n mod 16])"

section \<open>Reading a hexadecimal number\<close>

definition hex_value :: "char \<Rightarrow> nat option" where
  "hex_value c =
     (let n = of_char c :: nat in
      if 48 \<le> n \<and> n \<le> 57 then Some (n - 48)
      else if 65 \<le> n \<and> n \<le> 70 then Some (n - 55)
      else if 97 \<le> n \<and> n \<le> 102 then Some (n - 87)
      else None)"

definition is_space :: "char \<Rightarrow> bool" where
  "is_space c \<longleftrightarrow> c = CHR '' '' \<or> (9 \<le> (of_char c :: nat) \<and> (of_char c :: nat) \<le> 13)"

text \<open>The value of the longest prefix of digits, after the value so far.\<close>

fun hex_number :: "nat \<Rightarrow> string \<Rightarrow> nat" where
  "hex_number acc [] = acc"
| "hex_number acc (c # cs) = (case hex_value c of None \<Rightarrow> acc | Some d \<Rightarrow> hex_number (16 * acc + d) cs)"

text \<open>The prefix \<open>0x\<close> counts when a digit follows.\<close>

fun skip_0x :: "string \<Rightarrow> string" where
  "skip_0x (z # x # c # cs) =
     (if z = CHR ''0'' \<and> (x = CHR ''x'' \<or> x = CHR ''X'') \<and> hex_value c \<noteq> None then c # cs else z # x # c # cs)"
| "skip_0x cs = cs"

definition sign_of :: "string \<Rightarrow> bool \<times> string" where
  "sign_of s = (case s of
     c # cs \<Rightarrow> if c = CHR ''-'' then (True, cs) else if c = CHR ''+'' then (False, cs) else (False, s)
   | [] \<Rightarrow> (False, []))"

text \<open>\<open>unsigned long\<close> has 64 bits; a number beyond them reads as the largest one, whatever its sign.\<close>

definition strtoul16 :: "string \<Rightarrow> 64 word" where
  "strtoul16 s =
     (case sign_of (dropWhile is_space s) of (neg, cs) \<Rightarrow>
        let n = hex_number 0 (skip_0x cs) in
        if n \<ge> 2 ^ 64 then - 1 else if neg then - of_nat n else of_nat n)"

section \<open>Facts\<close>

lemma hex_value_digit: "d < 16 \<Longrightarrow> hex_value (hex_digit d) = Some d"
  by (simp add: hex_value_def hex_digit_def)

lemma unat_u16_less: "unat (v :: u16) < 65536"
  proof -
  have "unat v < 2 ^ LENGTH(16)" by (rule unsigned_less)
  then show ?thesis by simp
qed

lemma hex_number_hex4: "hex_number 0 (hex4 v) = unat v"
proof -
  have "unat v < 65536" by (rule unat_u16_less)
  then have "unat v div 4096 < 16" by simp
  then have "hex_number 0 (hex4 v) =
      16 * (16 * (16 * (unat v div 4096) + unat v div 256 mod 16) + unat v div 16 mod 16) + unat v mod 16"
    by (simp add: hex4_def Let_def hex_value_digit)
  also have "\<dots> = unat v"
  proof -
    define n where "n = unat v"
    have "n = 16 * (n div 16) + n mod 16" "n div 16 = 16 * (n div 16 div 16) + n div 16 mod 16"
      "n div 16 div 16 = 16 * (n div 16 div 16 div 16) + n div 16 div 16 mod 16" by simp_all
    moreover have "n div 16 div 16 = n div 256" "n div 256 div 16 = n div 4096" by (simp_all flip: div_mult2_eq)
    ultimately have "16 * (16 * (16 * (n div 4096) + n div 256 mod 16) + n div 16 mod 16) + n mod 16 = n" by metis
    then show ?thesis by (simp only: n_def)
  qed
  finally show ?thesis .
qed

text \<open>A number below \<open>10 ^ k\<close> has at most \<open>k\<close> digits.\<close>

lemma length_decimal: "n < 10 ^ Suc k \<Longrightarrow> length (decimal n) \<le> Suc k"
proof (induction k arbitrary: n)
  case 0
  then show ?case by (simp add: decimal.simps [of n])
next
  case (Suc k)
  have "n div 10 < 10 ^ Suc k" using Suc.prems by (simp add: less_mult_imp_div_less mult.commute)
  then show ?case using Suc.IH [of "n div 10"] by (subst decimal.simps) simp
qed

text \<open>What \<open>%04X\<close> writes, with or without the prefix, is what \<open>strtoul\<close> reads.\<close>

lemma strtoul_hex4:
  shows "ucast (strtoul16 (hex4 v)) = v" and "ucast (strtoul16 (''0x'' @ hex4 v)) = v"
proof -
  obtain a b c d where h: "hex4 v = map hex_digit [a, b, c, d]" and lt: "a < 16" "b < 16" "c < 16" "d < 16"
  proof
    show "hex4 v = map hex_digit [unat v div 4096, unat v div 256 mod 16, unat v div 16 mod 16, unat v mod 16]"
      by (simp add: hex4_def Let_def)
  qed (use unat_u16_less [of v] in auto)
  have digit: "\<not> is_space (hex_digit n)" "hex_digit n \<noteq> CHR ''-''" "hex_digit n \<noteq> CHR ''+''"
      "hex_digit n \<noteq> CHR ''x''" "hex_digit n \<noteq> CHR ''X''" if "n < 16" for n
  proof -
    have "n \<in> set [0..<16]" using that by simp
    moreover have "\<forall>n \<in> set [0..<16]. \<not> is_space (hex_digit n) \<and> hex_digit n \<noteq> CHR ''-'' \<and> hex_digit n \<noteq> CHR ''+'' \<and>
        hex_digit n \<noteq> CHR ''x'' \<and> hex_digit n \<noteq> CHR ''X''" by code_simp
    ultimately show "\<not> is_space (hex_digit n)" "hex_digit n \<noteq> CHR ''-''" "hex_digit n \<noteq> CHR ''+''"
      "hex_digit n \<noteq> CHR ''x''" "hex_digit n \<noteq> CHR ''X''" by blast+
  qed
  have small: "unat v < 2 ^ 64" using unat_u16_less [of v] by simp
  have cast: "ucast (of_nat (unat v) :: 64 word) = v"
    by simp (rule bit_word_eqI, simp add: bit_simps)
  have sp: "\<not> is_space (CHR ''0'')" by code_simp
  have "dropWhile is_space (hex4 v) = hex4 v" "sign_of (hex4 v) = (False, hex4 v)" "skip_0x (hex4 v) = hex4 v"
    by (simp_all add: h digit lt sign_of_def)
  then show "ucast (strtoul16 (hex4 v)) = v"
    using small cast by (simp add: strtoul16_def Let_def hex_number_hex4)
  have "dropWhile is_space (''0x'' @ hex4 v) = ''0x'' @ hex4 v"
    "sign_of (''0x'' @ hex4 v) = (False, ''0x'' @ hex4 v)" "skip_0x (''0x'' @ hex4 v) = hex4 v"
    by (simp_all add: h hex_value_digit lt sp sign_of_def)
  then show "ucast (strtoul16 (''0x'' @ hex4 v)) = v"
    using small cast by (simp only: strtoul16_def Let_def hex_number_hex4 prod.case if_False) simp
qed

end
