(* ===== verification/Scanner_Devices.thy ===== *)
theory Scanner_Devices
  imports Runtime_Api Text_Output
begin

text \<open>
  The data of the diagnostic scanner (\<open>examples/diag_scanner.cpp\<close>) and its text: what it knows of the devices, the
  dashboard it prints about them, and the arguments of its command line.  A program argument is a
  string; the characters of the frame are their UTF-8 bytes.
\<close>

section \<open>What the scanner knows of a device\<close>

definition SCANNER_CLIENT_ID :: u16 where "SCANNER_CLIENT_ID = 0xFF00"
definition SCANNER_PORT :: u16 where "SCANNER_PORT = 30493"
definition SCAN_INTERVAL_MS :: u32 where "SCAN_INTERVAL_MS = 10000"
definition REQUEST_TIMEOUT_MS :: u32 where "REQUEST_TIMEOUT_MS = 2000"

record DeviceInfo =
  di_client_id :: u16
  di_uptime_ms :: u32
  di_protocol_version :: u8
  di_info_received :: bool

record DeviceDtc =
  dd_code :: u16
  dd_severity :: u8
  dd_status :: u8
  dd_occurrence_count :: u32
  dd_first_seen_ms :: u32
  dd_last_seen_ms :: u32

record DeviceService =
  ds_service_id :: u16
  ds_major :: u8
  ds_minor :: u8
  ds_auth_required :: bool
  ds_ready :: bool

record DeviceCounters =
  dcs_values :: "u32 list"
  dcs_received :: bool

record DiscoveredDevice =
  dv_addr :: addr
  dv_found :: bool
  dv_last_query_ms :: u32
  dv_queries_pending :: bool
  dv_info :: DeviceInfo
  dv_dtcs :: "DeviceDtc list"
  dv_services :: "DeviceService list"
  dv_counters :: DeviceCounters

definition new_device :: "addr \<Rightarrow> DiscoveredDevice" where
  "new_device a = \<lparr> dv_addr = a, dv_found = True, dv_last_query_ms = 0, dv_queries_pending = False,
     dv_info = \<lparr>di_client_id = 0, di_uptime_ms = 0, di_protocol_version = 0, di_info_received = False\<rparr>,
     dv_dtcs = [], dv_services = [],
     dv_counters = \<lparr>dcs_values = replicate 9 0, dcs_received = False\<rparr> \<rparr>"

fun find_device_by_addr :: "addr \<Rightarrow> DiscoveredDevice list \<Rightarrow> nat option" where
  "find_device_by_addr a [] = None"
| "find_device_by_addr a (d # ds) =
     (if dv_addr d = a then Some 0 else map_option Suc (find_device_by_addr a ds))"

section \<open>Text of the dashboard\<close>

definition severity_str :: "u8 \<Rightarrow> string" where
  "severity_str sev =
     (if sev = 0 then ''INF'' else if sev = 1 then ''WRN'' else if sev = 2 then ''ERR''
      else if sev = 3 then ''FTL'' else ''???'')"

definition counter_name :: "u8 \<Rightarrow> string" where
  "counter_name idx =
     (let names = [''CrcErrors'', ''VersionMismatches'', ''OversizedPayloads'', ''TypeIdMismatches'',
        ''DuplicateMessages'', ''StaleMessages'', ''AuthFailures'', ''UnknownMsgTypes'', ''DroppedMessages'']
      in if idx < 9 then names ! unat idx else ''Unknown'')"

text \<open>\<open>snprintf\<close> into a buffer of the given size.\<close>

definition snprintf :: "nat \<Rightarrow> string \<Rightarrow> string" where
  "snprintf buf_size s = take (buf_size - 1) s"

definition format_uptime :: "u32 \<Rightarrow> nat \<Rightarrow> string" where
  "format_uptime ms buf_size =
     (let secs = ms div 1000; mins = secs div 60; hours = mins div 60; mins = mins mod 60; secs = secs mod 60
      in snprintf buf_size (decimal (unat hours) @ ''h '' @ decimal (unat mins) @ ''m '' @ decimal (unat secs) @ ''s''))"

text \<open>The buffers of the callers, of 32 and 64 bytes, hold every duration.\<close>

lemma format_uptime_fits:
  assumes "32 \<le> buf_size"
  shows "format_uptime ms buf_size =
    decimal (unat ms div 3600000) @ ''h '' @ decimal (unat ms div 60000 mod 60) @ ''m '' @
    decimal (unat ms div 1000 mod 60) @ ''s''"
proof -
  let ?n = "unat ms"
  have "?n < 2 ^ LENGTH(32)" by (rule unsigned_less)
  then have "?n \<le> 4294967295" by simp
  then have "?n div 3600000 \<le> 4294967295 div 3600000" by (rule div_le_mono)
  then have "?n div 3600000 < 10 ^ Suc 3" by simp
  then have h: "length (decimal (?n div 3600000)) \<le> 4" using length_decimal [of _ 3] by simp
  have "k mod 60 < 10 ^ Suc 1" for k :: nat using mod_less_divisor [of 60 k] by simp
  then have m: "length (decimal (k mod 60)) \<le> 2" for k using length_decimal [of "k mod 60" 1] by (simp add: numeral_2_eq_2)
  define t where "t = decimal (?n div 3600000) @ ''h '' @ decimal (?n div 60000 mod 60) @ ''m '' @
    decimal (?n div 1000 mod 60) @ ''s''"
  have "length t < buf_size" using h m [of "?n div 60000"] m [of "?n div 1000"] assms by (simp add: t_def)
  moreover have "format_uptime ms buf_size = snprintf buf_size t"
    by (simp add: format_uptime_def t_def Let_def unat_div unat_mod div_mult2_eq [symmetric])
  ultimately show ?thesis unfolding t_def [symmetric] by (simp add: snprintf_def)
qed

text \<open>The age of a trouble code: a duration, or the bare time stamp.\<close>

definition dtc_age :: "DeviceInfo \<Rightarrow> DeviceDtc \<Rightarrow> string" where
  "dtc_age info dtc =
     (if di_info_received info \<and> di_uptime_ms info > dd_last_seen_ms dtc
      then format_uptime (di_uptime_ms info - dd_last_seen_ms dtc) 32
      else snprintf 32 (''t='' @ decimal (unat (dd_last_seen_ms dtc))))"

definition nl :: string where "nl = [CHR 0x0A]"
definition double_rule :: string where "double_rule = [CHR 0xE2, CHR 0x95, CHR 0x90]"
definition single_rule :: string where "single_rule = [CHR 0xE2, CHR 0x94, CHR 0x80]"
definition bar :: string where "bar = [CHR 0xE2, CHR 0x94, CHR 0x82]"
definition corner_top :: string where "corner_top = [CHR 0xE2, CHR 0x94, CHR 0x8C]"
definition corner_bottom :: string where "corner_bottom = [CHR 0xE2, CHR 0x94, CHR 0x94]"
definition em_dash :: string where "em_dash = [CHR 0xE2, CHR 0x80, CHR 0x94]"
definition clear_screen :: string where "clear_screen = CHR 0x1B # ''[2J'' @ CHR 0x1B # ''[H''"

definition repeated :: "nat \<Rightarrow> string \<Rightarrow> string" where
  "repeated n s = concat (replicate n s)"

text \<open>The conversions \<open>%u.%u.%u.%u:%u\<close> of an address.\<close>

definition addr_text :: "addr \<Rightarrow> string" where
  "addr_text a =
     decimal (unat (a ! 0)) @ ''.'' @ decimal (unat (a ! 1)) @ ''.'' @ decimal (unat (a ! 2)) @ ''.'' @
     decimal (unat (a ! 3)) @ '':'' @ decimal (256 * unat (a ! 4) + unat (a ! 5))"

definition services_text :: "DeviceService list \<Rightarrow> string" where
  "services_text svcs =
     bar @ '' Services: '' @
     (if svcs = [] then ''(none)''
      else concat (map (\<lambda>i. let s = svcs ! i in
             (if i > 0 then '', '' else []) @
             ''0x'' @ hex4 (ds_service_id s) @ '' v'' @ decimal (unat (ds_major s)) @ ''.'' @ decimal (unat (ds_minor s)) @
             (if ds_auth_required s then ''[auth]'' else []) @
             (if ds_ready s then ''[ready]'' else ''[not-ready]'')) [0..<length svcs])) @ nl"

definition dtcs_text :: "DeviceInfo \<Rightarrow> DeviceDtc list \<Rightarrow> string" where
  "dtcs_text info dtcs =
     (if dtcs = [] then bar @ '' DTCs: (none)'' @ nl
      else bar @ '' DTCs: '' @ decimal (length dtcs) @ '' active'' @ nl @
        concat (map (\<lambda>dtc. bar @ ''   ['' @ severity_str (dd_severity dtc) @ ''] 0x'' @ hex4 (dd_code dtc) @
          ''  (count: '' @ decimal (unat (dd_occurrence_count dtc)) @ '', last: '' @ dtc_age info dtc @ '' ago)'' @ nl)
          dtcs))"

definition counters_text :: "DeviceCounters \<Rightarrow> string" where
  "counters_text c =
     (if dcs_received c then
        let positive = filter (\<lambda>i. dcs_values c ! i > 0) [0..<9] in
        bar @ '' Counters:'' @
        concat (map (\<lambda>i. '' '' @ counter_name (of_nat i) @ ''='' @ decimal (unat (dcs_values c ! i))) positive) @
        (if positive = [] then '' (all zero)'' else []) @ nl
      else [])"

definition device_name :: "DiscoveredDevice \<Rightarrow> string" where
  "device_name dev = ''0x'' @ hex4 (di_client_id (dv_info dev))"

definition device_text :: "DiscoveredDevice \<Rightarrow> string" where
  "device_text dev =
     nl @ corner_top @ repeated 3 single_rule @ '' Device '' @ device_name dev @
     '' ('' @ addr_text (dv_addr dev) @ '') '' @
     (if di_info_received (dv_info dev)
      then ''uptime: '' @ format_uptime (di_uptime_ms (dv_info dev)) 64 @ ''  proto: v'' @
        decimal (unat (di_protocol_version (dv_info dev))) else []) @ nl @
     services_text (dv_services dev) @ dtcs_text (dv_info dev) (dv_dtcs dev) @ counters_text (dv_counters dev) @
     corner_bottom @ repeated 55 single_rule @ nl"

definition print_dashboard :: "DiscoveredDevice list \<Rightarrow> string" where
  "print_dashboard devices =
     nl @ clear_screen @ repeated 59 double_rule @ nl @
     '' Sero Diagnostic Scanner  '' @ em_dash @ ''  '' @ decimal (length devices) @ '' device(s) discovered'' @ nl @
     repeated 59 double_rule @ nl @
     concat (map device_text (filter dv_found devices)) @
     nl @ ''[Press Ctrl+C to quit. Refreshing every '' @ decimal (unat (SCAN_INTERVAL_MS div 1000)) @ '' seconds.]'' @ nl"

section \<open>Arguments of the command line\<close>

record scan_args =
  sa_bind_ip :: string
  sa_clear_target :: u16
  sa_clear_code :: u16
  sa_do_clear :: bool

definition default_args :: scan_args where
  "default_args = \<lparr>sa_bind_ip = ''0.0.0.0'', sa_clear_target = 0, sa_clear_code = 0xFFFF, sa_do_clear = False\<rparr>"

definition dashed :: "string \<Rightarrow> bool" where
  "dashed a \<longleftrightarrow> take 1 a = ''-''"

text \<open>The arguments after the name of the program.\<close>

fun parse_args :: "string list \<Rightarrow> scan_args \<Rightarrow> scan_args" where
  "parse_args [] sa = sa"
| "parse_args [a] sa = (if \<not> dashed a then sa\<lparr>sa_bind_ip := a\<rparr> else sa)"
| "parse_args (a # b # as) sa =
     (if a = ''--clear'' then
        let sa = sa\<lparr>sa_do_clear := True, sa_clear_target := ucast (strtoul16 b)\<rparr> in
        (case as of
           [] \<Rightarrow> sa
         | c # cs \<Rightarrow>
             if \<not> dashed c then parse_args cs (sa\<lparr>sa_clear_code := ucast (strtoul16 c)\<rparr>)
             else parse_args (c # cs) sa)
      else if \<not> dashed a then parse_args (b # as) (sa\<lparr>sa_bind_ip := a\<rparr>)
      else parse_args (b # as) sa)"

text \<open>What the main loop is told to clear.\<close>

definition clear_command :: "scan_args \<Rightarrow> (u16 \<times> u16) option" where
  "clear_command sa = (if sa_do_clear sa then Some (sa_clear_target sa, sa_clear_code sa) else None)"

end
