(* ===== verification/Diag_Scanner.thy ===== *)
theory Diag_Scanner
  imports Scanner_Devices
begin

text \<open>
  The diagnostic scanner (\<open>examples/diag_scanner.cpp\<close>), a client of the library: it finds the devices
  that offer the diagnostics service, queries each of them periodically and decodes the answers.
  The transport is the parameter of the runtime; what the program prints is a list of texts.  A context pointer is the position of the device in
  \<open>devices\<close>, which only grows at the end.  The callbacks the runtime makes during \<open>process\<close> run when it
  returns, in order; \<open>clock\<close> is the time they read.
\<close>

section \<open>Response callbacks\<close>

definition payload_length :: "bytes option \<Rightarrow> nat" where
  "payload_length payload = (case payload of None \<Rightarrow> 0 | Some p \<Rightarrow> length p)"

definition on_device_info :: "ReturnCode \<Rightarrow> bytes option \<Rightarrow> DiscoveredDevice \<Rightarrow> DiscoveredDevice" where
  "on_device_info rc payload dev =
     (if rc = E_OK \<and> payload_length payload \<ge> 8 then
        let p = the payload in
        dev\<lparr>dv_info := \<lparr> di_client_id = read_u16 p 0, di_uptime_ms = read_u32 p 2,
          di_protocol_version = p ! 6, di_info_received = True \<rparr>\<rparr>
      else dev)"

text \<open>The loop of the two list callbacks: at most \<open>count\<close> records, as long as one fits.\<close>

fun read_records :: "nat \<Rightarrow> (bytes \<Rightarrow> nat \<Rightarrow> 'r) \<Rightarrow> nat \<Rightarrow> bytes \<Rightarrow> nat \<Rightarrow> 'r list" where
  "read_records sz rd 0 p offset = []"
| "read_records sz rd (Suc n) p offset =
     (if offset + sz \<le> length p then rd p offset # read_records sz rd n p (offset + sz) else [])"

definition read_service :: "bytes \<Rightarrow> nat \<Rightarrow> DeviceService" where
  "read_service p offset = \<lparr> ds_service_id = read_u16 p offset, ds_major = p ! (offset + 2),
     ds_minor = p ! (offset + 3), ds_auth_required = (p ! (offset + 4) \<noteq> 0),
     ds_ready = (p ! (offset + 5) \<noteq> 0) \<rparr>"

definition on_service_list :: "ReturnCode \<Rightarrow> bytes option \<Rightarrow> DiscoveredDevice \<Rightarrow> DiscoveredDevice" where
  "on_service_list rc payload dev =
     (if rc \<noteq> E_OK \<or> payload_length payload < 2 then dev
      else let p = the payload in
        dev\<lparr>dv_services := read_records 6 read_service (unat (read_u16 p 0)) p 2\<rparr>)"

definition read_dtc :: "bytes \<Rightarrow> nat \<Rightarrow> DeviceDtc" where
  "read_dtc p offset = \<lparr> dd_code = read_u16 p offset, dd_severity = p ! (offset + 2),
     dd_status = p ! (offset + 3), dd_occurrence_count = read_u32 p (offset + 4),
     dd_first_seen_ms = read_u32 p (offset + 8), dd_last_seen_ms = read_u32 p (offset + 12) \<rparr>"

definition on_dtcs :: "ReturnCode \<Rightarrow> bytes option \<Rightarrow> DiscoveredDevice \<Rightarrow> DiscoveredDevice" where
  "on_dtcs rc payload dev =
     (if rc \<noteq> E_OK \<or> payload_length payload < 2 then dev
      else let p = the payload in
        dev\<lparr>dv_dtcs := read_records 16 read_dtc (unat (read_u16 p 0)) p 2\<rparr>)"

definition on_counters :: "ReturnCode \<Rightarrow> bytes option \<Rightarrow> DiscoveredDevice \<Rightarrow> DiscoveredDevice" where
  "on_counters rc payload dev =
     (if rc \<noteq> E_OK \<or> payload_length payload < 36 then dev
      else let p = the payload in
        dev\<lparr>dv_counters := \<lparr> dcs_values = map (\<lambda>i. read_u32 p (i * 4)) [0..<9], dcs_received = True \<rparr>\<rparr>)"

text \<open>\<open>on_clear_response\<close> only prints.\<close>

definition on_clear_response :: "ReturnCode \<Rightarrow> string" where
  "on_clear_response rc =
     (if rc = E_OK then ''[scanner] DTCs cleared successfully'' @ nl
      else ''[scanner] DTC clear failed: rc='' @ decimal (unat rc) @ nl)"

text \<open>The callbacks of requests by number.\<close>

definition ON_DEVICE_INFO :: nat where "ON_DEVICE_INFO = 1"
definition ON_SERVICE_LIST :: nat where "ON_SERVICE_LIST = 2"
definition ON_DTCS :: nat where "ON_DTCS = 3"
definition ON_COUNTERS :: nat where "ON_COUNTERS = 4"
definition ON_CLEAR_RESPONSE :: nat where "ON_CLEAR_RESPONSE = 5"

definition response_cb :: "nat \<Rightarrow> ReturnCode \<Rightarrow> bytes option \<Rightarrow> DiscoveredDevice \<Rightarrow> DiscoveredDevice" where
  "response_cb f rc payload dev =
     (if f = ON_DEVICE_INFO then on_device_info rc payload dev
      else if f = ON_SERVICE_LIST then on_service_list rc payload dev
      else if f = ON_DTCS then on_dtcs rc payload dev
      else if f = ON_COUNTERS then on_counters rc payload dev
      else dev)"

fun completion :: "effect \<Rightarrow> DiscoveredDevice list \<Rightarrow> DiscoveredDevice list" where
  "completion (Out_Request_Done f i rc payload) devs = devs[i := response_cb f rc payload (devs ! i)]"
| "completion _ devs = devs"

fun completion_text :: "effect \<Rightarrow> string list" where
  "completion_text (Out_Request_Done f i rc payload) = (if f = ON_CLEAR_RESPONSE then [on_clear_response rc] else [])"
| "completion_text _ = []"

section \<open>Queries\<close>

definition diag_method_code :: "DiagMethod \<Rightarrow> u16" where
  "diag_method_code m = (case m of DIAG_GET_DTCS \<Rightarrow> 1 | DIAG_CLEAR_DTCS \<Rightarrow> 2 | DIAG_GET_COUNTERS \<Rightarrow> 3
     | DIAG_GET_SERVICE_LIST \<Rightarrow> 4 | DIAG_GET_DEVICE_INFO \<Rightarrow> 5)"

text \<open>The four requests of \<open>query_device\<close>, whose results it ignores.\<close>

definition query_requests :: "('t, 'a) env \<Rightarrow> u32 \<Rightarrow> addr \<Rightarrow> nat \<Rightarrow> ('t, 'a) runtime \<Rightarrow> ('t, 'a) runtime" where
  "query_requests env now_ms a i r =
     fold (\<lambda>(m, f) r. snd (request_to env a DIAG_SERVICE_ID (diag_method_code m) None 0 (Some f) i
             REQUEST_TIMEOUT_MS now_ms r))
       [(DIAG_GET_DEVICE_INFO, ON_DEVICE_INFO), (DIAG_GET_SERVICE_LIST, ON_SERVICE_LIST),
        (DIAG_GET_DTCS, ON_DTCS), (DIAG_GET_COUNTERS, ON_COUNTERS)] r"

record ('t, 'a) scanner =
  sc_rt :: "('t, 'a) runtime"
  sc_devices :: "DiscoveredDevice list"
  sc_last_scan_ms :: u32
  sc_dashboard_printed :: bool
  sc_clear :: "(u16 \<times> u16) option"
  sc_prints :: "string list"

definition sc_print :: "string list \<Rightarrow> ('t, 'a) scanner \<Rightarrow> ('t, 'a) scanner" where
  "sc_print ss sc = sc\<lparr>sc_prints := sc_prints sc @ ss\<rparr>"

text \<open>A call of the runtime whose only callbacks are completions of requests.\<close>

definition on_rt :: "(('t, 'a) runtime \<Rightarrow> ('t, 'a) runtime) \<Rightarrow> ('t, 'a) scanner \<Rightarrow> ('t, 'a) scanner" where
  "on_rt f sc =
     (let r = f ((sc_rt sc)\<lparr>rt_out := []\<rparr>)
      in sc_print (concat (map completion_text (rt_out r)))
           (sc\<lparr>sc_rt := r\<lparr>rt_out := []\<rparr>, sc_devices := fold completion (rt_out r) (sc_devices sc)\<rparr>))"

definition query_device :: "('t, 'a) env \<Rightarrow> u32 \<Rightarrow> nat \<Rightarrow> ('t, 'a) scanner \<Rightarrow> ('t, 'a) scanner" where
  "query_device env now_ms i sc =
     (let sc = on_rt (query_requests env now_ms (dv_addr (sc_devices sc ! i)) i) sc
      in sc\<lparr>sc_devices := (sc_devices sc)[i := (sc_devices sc ! i)\<lparr>dv_last_query_ms := now_ms\<rparr>]\<rparr>)"

section \<open>Discovery and the main loop\<close>

definition on_diag_service_found ::
    "('t, 'a) env \<Rightarrow> u32 \<Rightarrow> u16 \<Rightarrow> addr \<Rightarrow> ('t, 'a) scanner \<Rightarrow> ('t, 'a) scanner" where
  "on_diag_service_found env clock sid a sc =
     (if sid \<noteq> DIAG_SERVICE_ID then sc
      else if find_device_by_addr a (sc_devices sc) \<noteq> None then sc
      else
        let sc = query_device env clock (length (sc_devices sc))
              (sc_print [''[scanner] Discovered diagnostics device at '' @ addr_text a @ nl]
                 (sc\<lparr>sc_devices := sc_devices sc @ [new_device a]\<rparr>))
        in sc\<lparr>sc_last_scan_ms := clock, sc_dashboard_printed := False\<rparr>)"

definition on_diag_service_lost ::
    "('t, 'a) env \<Rightarrow> u32 \<Rightarrow> u16 \<Rightarrow> ('t, 'a) scanner \<Rightarrow> ('t, 'a) scanner" where
  "on_diag_service_lost env clock sid sc =
     (if sid \<noteq> DIAG_SERVICE_ID then sc
      else on_rt (\<lambda>r. snd (find_service env DIAG_SERVICE_ID 1 clock r)) sc)"

fun scanner_callback :: "('t, 'a) env \<Rightarrow> u32 \<Rightarrow> effect \<Rightarrow> ('t, 'a) scanner \<Rightarrow> ('t, 'a) scanner" where
  "scanner_callback env clock (Out_Service_Found f ctx sid a) sc = on_diag_service_found env clock sid a sc"
| "scanner_callback env clock (Out_Service_Lost f ctx sid) sc = on_diag_service_lost env clock sid sc"
| "scanner_callback env clock x sc = 
     sc_print (completion_text x) (sc\<lparr>sc_devices := completion x (sc_devices sc)\<rparr>)"

definition scanner_process :: "('t, 'a) env \<Rightarrow> u32 \<Rightarrow> u32 \<Rightarrow> ('t, 'a) scanner \<Rightarrow> ('t, 'a) scanner" where
  "scanner_process env now clock sc =
     (let r = process env now ((sc_rt sc)\<lparr>rt_out := []\<rparr>)
      in fold (scanner_callback env clock) (rt_out r) (sc\<lparr>sc_rt := r\<lparr>rt_out := []\<rparr>\<rparr>))"

definition scan_devices :: "('t, 'a) env \<Rightarrow> u32 \<Rightarrow> ('t, 'a) scanner \<Rightarrow> ('t, 'a) scanner" where
  "scan_devices env now sc =
     fold (\<lambda>i sc. if dv_found (sc_devices sc ! i) then query_device env now i sc else sc)
       [0..<length (sc_devices sc)] sc"

text \<open>The one-shot clear command: the first known device with the client id.\<close>

definition clear_step :: "('t, 'a) env \<Rightarrow> u32 \<Rightarrow> ('t, 'a) scanner \<Rightarrow> ('t, 'a) scanner" where
  "clear_step env now sc =
     (case sc_clear sc of
        None \<Rightarrow> sc
      | Some (target, code) \<Rightarrow>
          (case filter (\<lambda>dev. dv_found dev \<and> di_info_received (dv_info dev) \<and> di_client_id (dv_info dev) = target)
                  (sc_devices sc) of
             [] \<Rightarrow> sc
           | dev # _ \<Rightarrow>
               sc_print [''[scanner] Sent CLEAR_DTCS to device 0x'' @ hex4 target @ '' (code=0x'' @ hex4 code @ '')'' @ nl]
               (on_rt (\<lambda>r. snd (request_to env (dv_addr dev) DIAG_SERVICE_ID (diag_method_code DIAG_CLEAR_DTCS)
                   (Some (write_u16 code)) 2 (Some ON_CLEAR_RESPONSE) 0 REQUEST_TIMEOUT_MS now r)) sc)
                 \<lparr>sc_clear := None\<rparr>))"

definition scanner_start :: "('t, 'a) env \<Rightarrow> 't \<Rightarrow> 'a \<Rightarrow> addr \<Rightarrow> (u16 \<times> u16) option \<Rightarrow> u32 \<Rightarrow> ('t, 'a) scanner" where
  "scanner_start env transport app local_addr clear now =
     (let r = set_local_address local_addr (runtime_init env transport app SCANNER_CLIENT_ID);
          r = set_sd_callbacks \<lparr> on_service_found = Some 1, service_found_ctx = 0, on_service_lost = Some 2,
                service_lost_ctx = 0, on_subscription_ack = None, subscription_ack_ctx = 0 \<rparr> r;
          r = snd (find_service env DIAG_SERVICE_ID 1 now r)
      in \<lparr> sc_rt = r\<lparr>rt_out := []\<rparr>, sc_devices = [], sc_last_scan_ms = 0, sc_dashboard_printed = False,
           sc_clear = clear,
           sc_prints = [''[scanner] Searching for diagnostics services (0x'' @ hex4 DIAG_SERVICE_ID @ '')...'' @ nl @ nl] \<rparr>)"

definition scanner_step :: "('t, 'a) env \<Rightarrow> u32 \<Rightarrow> u32 \<Rightarrow> ('t, 'a) scanner \<Rightarrow> ('t, 'a) scanner" where
  "scanner_step env now clock sc =
     (let sc = scanner_process env now clock sc;
          sc = (if now - sc_last_scan_ms sc \<ge> SCAN_INTERVAL_MS
                then clear_step env now (scan_devices env now
                       (sc\<lparr>sc_last_scan_ms := now, sc_dashboard_printed := False\<rparr>))
                else sc)
      in if \<not> sc_dashboard_printed sc \<and> sc_last_scan_ms sc > 0 \<and> now - sc_last_scan_ms sc \<ge> 500
         then sc_print [print_dashboard (sc_devices sc)] (sc\<lparr>sc_dashboard_printed := True\<rparr>) else sc)"

end
