(* ===== verification/Example_Programs.thy ===== *)
theory Example_Programs
  imports Calculator Desktop_Peer Diag_Scanner "HOL-Library.Sublist"
begin

text \<open>
  The programs of \<open>src/examples\<close> from their first statement to their last: arguments, transport, start, loop and
  end, with the UDP transport of the examples.  A run is given by the times the loop reads; the two
  programs of the calculator never leave their loop, so that theirs is the state after those cycles.
  An exit code other than zero is \<open>Inl\<close>.  Signal handlers only end the loop of a program.
\<close>

section \<open>Programs\<close>

definition SERVER_PORT :: u16 where "SERVER_PORT = 9000"
definition CLIENT_PORT :: u16 where "CLIENT_PORT = 9001"

definition server_main :: "'s sockets \<Rightarrow> 's \<Rightarrow> u32 \<Rightarrow> u32 list \<Rightarrow> int + 's udp server" where
  "server_main os s now ticks =
     (case example_open os ''192.168.1.132'' SERVER_PORT (udp_init s) of (ok, t) \<Rightarrow>
        if \<not> ok then Inl 1
        else Inr (fold (server_step (example_link os)) ticks
                   (server_start (example_link os) t (udp_local_addr t) now)))"

text \<open>A program without services.\<close>

definition consumer_env :: "'s sockets \<Rightarrow> ('s udp, unit) env" where
  "consumer_env os = \<lparr> en_cfg = DefaultConfig, impl_send = example_send os, impl_broadcast = example_broadcast os,
     impl_poll = example_poll os, app_is_ready = (\<lambda>ctx a. False),
     app_on_request = (\<lambda>ctx mid payload response len a. (E_NOT_OK, response, 0, a)) \<rparr>"

definition client_main :: "'s sockets \<Rightarrow> 's \<Rightarrow> u32 \<Rightarrow> u32 list \<Rightarrow> int + ('s udp, unit) client" where
  "client_main os s now ticks =
     (case example_open os ''127.0.0.1'' CLIENT_PORT (udp_init s) of (ok, t) \<Rightarrow>
        if \<not> ok then Inl 1
        else Inr (fold (client_step (consumer_env os)) ticks
                   (client_start (consumer_env os) t () (udp_local_addr t) now)))"

text \<open>The result of a program that ends: its output and the sockets it leaves.\<close>

definition desktop_main ::
    "'s sockets \<Rightarrow> string list \<Rightarrow> 's \<Rightarrow> u32 \<Rightarrow> (u32 \<times> u64) list \<Rightarrow> int + printout list \<times> 's udp" where
  "desktop_main os args s now ticks =
     (let bind_ip = (case args of [] \<Rightarrow> ''0.0.0.0'' | a # _ \<Rightarrow> a); l = example_link os in
      case example_open os bind_ip DESKTOP_UNICAST_PORT (udp_init s) of (ok, t) \<Rightarrow>
        if \<not> ok then Inl 1
        else
          let dk = desktop_stop l (fold (desktop_step l) ticks (desktop_start l t (udp_local_addr t) now))
          in Inr (dk_prints dk, example_shutdown os (rt_transport (dk_rt dk))))"

definition scanner_banner :: string where
  "scanner_banner = repeated 39 double_rule @ nl @ '' Sero Diagnostic Scanner'' @ nl @ repeated 39 double_rule @ nl @ nl"

definition scanner_main ::
    "'s sockets \<Rightarrow> string list \<Rightarrow> 's \<Rightarrow> u32 \<Rightarrow> (u32 \<times> u32) list \<Rightarrow> int + string list \<times> 's udp" where
  "scanner_main os args s now ticks =
     (let sa = parse_args args default_args in
      case example_open os (sa_bind_ip sa) SCANNER_PORT (udp_init s) of (ok, t) \<Rightarrow>
        if \<not> ok then Inl 1
        else
          let env = consumer_env os;
              sc = fold (\<lambda>(now, clock). scanner_step env now clock) ticks
                     (scanner_start env t () (udp_local_addr t) (clear_command sa) now)
          in Inr ([scanner_banner,
                   ''[transport] Bound to '' @ sa_bind_ip sa @ '':'' @ decimal (unat SCANNER_PORT) @ nl] @ sc_prints sc @
                  [nl @ ''[scanner] Shutting down...'' @ nl],
                example_shutdown os (rt_transport (sc_rt sc))))"

section \<open>From the dashboard to the command line\<close>

lemma sublist_parts:
  "sublist x y \<Longrightarrow> sublist x (a @ y)" "sublist x y \<Longrightarrow> sublist x (y @ b)"
  by (auto simp: sublist_def) (metis append.assoc)+

lemma sublist_concat: "sublist x y \<Longrightarrow> y \<in> set ys \<Longrightarrow> sublist x (concat ys)"
  by (induction ys) (auto intro: sublist_parts)

lemma device_name_shown: "sublist (device_name dev) (device_text dev)"
  unfolding device_text_def
  by ((rule sublist_parts(2), rule sublist_order.order_refl) | rule sublist_parts(1))+

lemma dashboard_names:
  assumes "dev \<in> set devices" "dv_found dev"
  shows "sublist (device_name dev) (print_dashboard devices)"
proof -
  have shown: "sublist (device_name dev) (concat (map device_text (filter dv_found devices)))"
    using assms by (intro sublist_concat [OF device_name_shown]) simp
  show ?thesis unfolding print_dashboard_def by ((rule sublist_parts(2), rule shown) | rule sublist_parts(1))+
qed

lemma parse_clear:
  "clear_command (parse_args [''--clear'', ''0x'' @ hex4 target] default_args) = Some (target, 0xFFFF)"
  "clear_command (parse_args [''--clear'', ''0x'' @ hex4 target, ''0x'' @ hex4 code] default_args) = Some (target, code)"
  using strtoul_hex4(2) [of target] strtoul_hex4(2) [of code]
  by (simp_all add: default_args_def clear_command_def dashed_def)

end
