(* ===== verification/Scanner_Properties.thy ===== *)
theory Scanner_Properties
  imports Example_Programs Request_Balance
begin

text \<open>
  The diagnostic scanner against the library: what it decodes is what the diagnostics service
  encoded, and which devices it can query in one round.
\<close>

section \<open>Decoding records\<close>

lemma read_records_encoded:
  assumes "\<And>x. x \<in> set xs \<Longrightarrow> length (enc x) = sz"
    and "\<And>x pre post. x \<in> set xs \<Longrightarrow> rd (pre @ enc x @ post) (length pre) = dec x"
  shows "read_records sz rd (length xs) (pre @ concat (map enc xs)) (length pre) = map dec xs"
  using assms
proof (induction xs arbitrary: pre)
  case (Cons x xs)
  have l: "length (enc x) = sz" using Cons.prems(1) by simp
  have "read_records sz rd (length xs) ((pre @ enc x) @ concat (map enc xs)) (length (pre @ enc x)) = map dec xs"
    using Cons.prems by (intro Cons.IH) auto
  then show ?case using Cons.prems(2) [of x pre "concat (map enc xs)"] l by simp
qed simp

definition scanned_dtc :: "Dtc \<Rightarrow> DeviceDtc" where
  "scanned_dtc d = \<lparr> dd_code = dtc_code d, dd_severity = dtc_severity d,
     dd_status = (if dtc_active d then 1 else 0), dd_occurrence_count = dtc_occurrence_count d,
     dd_first_seen_ms = dtc_first_seen_ms d, dd_last_seen_ms = dtc_last_seen_ms d \<rparr>"

lemma read_dtc_record: "read_dtc (pre @ dtc_record d @ post) (length pre) = scanned_dtc d"
proof -
  let ?a = "write_u16 (dtc_code d)" and ?b = "[dtc_severity d, if dtc_active d then 1 else 0]"
    and ?c = "write_u32 (dtc_occurrence_count d)" and ?e = "write_u32 (dtc_first_seen_ms d)"
    and ?f = "write_u32 (dtc_last_seen_ms d)"
  have "read_u32 ((pre @ ?a @ ?b) @ ?c @ ?e @ ?f @ post) (length (pre @ ?a @ ?b)) = dtc_occurrence_count d"
    "read_u32 ((pre @ ?a @ ?b @ ?c) @ ?e @ ?f @ post) (length (pre @ ?a @ ?b @ ?c)) = dtc_first_seen_ms d"
    "read_u32 ((pre @ ?a @ ?b @ ?c @ ?e) @ ?f @ post) (length (pre @ ?a @ ?b @ ?c @ ?e)) = dtc_last_seen_ms d"
    by (rule read_u32_at)+
  then show ?thesis
    using read_u16_at [of pre "dtc_code d" "?b @ ?c @ ?e @ ?f @ post"]
    by (simp add: read_dtc_def scanned_dtc_def dtc_record_def nth_append)
qed

definition scanned_service :: "(service_ctx \<Rightarrow> bool) \<Rightarrow> ServiceEntry \<Rightarrow> DeviceService" where
  "scanned_service ready se = \<lparr> ds_service_id = se_service_id se, ds_major = se_major_version se,
     ds_minor = se_minor_version se, ds_auth_required = se_auth_required se, ds_ready = entry_ready ready se \<rparr>"

lemma read_service_record:
  "read_service (pre @ service_record ready se @ post) (length pre) = scanned_service ready se"
  using read_u16_at [of pre "se_service_id se"]
  by (simp add: read_service_def scanned_service_def service_record_def nth_append)

lemma read_words_encoded:
  assumes "i < length xs"
  shows "read_u32 (concat (map write_u32 xs)) (i * 4) = xs ! i"
proof -
  have "concat (map write_u32 xs) = concat (map write_u32 (take i xs)) @ write_u32 (xs ! i) @
      concat (map write_u32 (drop (Suc i) xs))"
    using assms id_take_nth_drop [of i xs] by (metis concat.simps(2) concat_append list.simps(9) map_append)
  moreover have "length (concat (map write_u32 (take i xs))) = i * 4"
    using assms length_concat_const [of "take i xs" write_u32 4] by simp
  ultimately show ?thesis using read_u32_at by metis
qed

section \<open>The scanner reads the device\<close>

text \<open>The answer of the diagnostics service as the callback of the caller gets it.\<close>

definition diag_answer ::
    "config \<Rightarrow> DiagnosticsService \<Rightarrow> DiagnosticCounters \<Rightarrow> MethodDispatcher \<Rightarrow> u32 \<Rightarrow> (service_ctx \<Rightarrow> bool) \<Rightarrow>
       DtcStore \<Rightarrow> bytes \<Rightarrow> DiagMethod \<Rightarrow> ReturnCode \<times> bytes option" where
  "diag_answer cfg ds counters disp uptime_ms ready dtcs buf m =
     (case diag_on_request cfg None ds counters disp uptime_ms ready (diag_method_code m) [] (Some buf)
             (length buf) dtcs of
        (rc, resp, n, _) \<Rightarrow> (rc, map_option (take n) resp))"

lemma diag_method_of_code [simp]: "diag_method_of (diag_method_code m) = Some m"
  by (cases m) (simp_all add: diag_method_of_def diag_method_code_def)

lemma list_answer:
  assumes "rc = E_OK" "take n buf' = list_response cap sz enc xs" "k = min (length xs) ((cap - 2) div sz)"
    and "k < 2 ^ 16" "\<And>x. x \<in> set xs \<Longrightarrow> length (enc x) = sz"
    and "\<And>x pre post. x \<in> set xs \<Longrightarrow> rd (pre @ enc x @ post) (length pre) = dec x"
  shows "read_records sz rd (unat (read_u16 (take n buf') 0)) (take n buf') 2 = map dec (take k xs)"
    and "2 \<le> length (take n buf')"
proof -
  have p: "take n buf' = write_u16 (of_nat k) @ concat (map enc (take k xs))"
    using assms(2,3) by (simp add: list_response_def fits_def)
  have "unat (of_nat k :: u16) = length (take k xs)"
    using assms(3,4) by (simp add: unat_of_nat take_bit_nat_eq_self)
  moreover have "read_u16 (take n buf') 0 = of_nat k" using read_u16_at [of "[]"] by (simp add: p)
  moreover have "read_records sz rd (length (take k xs)) (write_u16 (of_nat k) @ concat (map enc (take k xs)))
      (length (write_u16 (of_nat k))) = map dec (take k xs)"
    using assms(5,6) by (intro read_records_encoded) (auto dest: in_set_takeD)
  ultimately show "read_records sz rd (unat (read_u16 (take n buf') 0)) (take n buf') 2 = map dec (take k xs)"
    by (simp add: p)
  show "2 \<le> length (take n buf')" by (simp add: p)
qed

text \<open>C27: The scanner shows what the device holds: its callbacks turn the answers of the diagnostics
  service into the trouble codes of the store and the services of the dispatcher, in table order and
  as many as fit the response buffer, and into all nine counters and the device information.\<close>

theorem scanner_reads_device:
  assumes wf: "dtc_wf cfg dtcs" "dispatcher_wf cfg disp" "counters_wf counters"
    and buf: "36 \<le> length buf" "length buf < 2 ^ 16"
    and answer: "answer = diag_answer cfg ds counters disp uptime_ms ready dtcs buf"
  shows "dv_dtcs (case answer DIAG_GET_DTCS of (rc, p) \<Rightarrow> on_dtcs rc p dev) =
      map scanned_dtc (take ((length buf - 2) div 16) (live dtcs)) \<and>
    dv_services (case answer DIAG_GET_SERVICE_LIST of (rc, p) \<Rightarrow> on_service_list rc p dev) =
      map (scanned_service ready) (take ((length buf - 2) div 6) (live disp)) \<and>
    dcs_values (dv_counters (case answer DIAG_GET_COUNTERS of (rc, p) \<Rightarrow> on_counters rc p dev)) =
      dc_counters counters \<and>
    dv_info (case answer DIAG_GET_DEVICE_INFO of (rc, p) \<Rightarrow> on_device_info rc p dev) =
      \<lparr> di_client_id = ds_client_id ds, di_uptime_ms = (if ds_wired ds then uptime_ms else 0),
        di_protocol_version = PROTOCOL_VERSION, di_info_received = True \<rparr>"
proof (intro conjI)
  note ans = answer diag_answer_def diag_on_request_def
  have small: "min (length xs) ((length buf - 2) div sz) < 2 ^ 16" for xs :: "'z list" and sz
  proof -
    have "(length buf - 2) div sz \<le> length buf" by (metis diff_le_self div_le_dividend le_trans)
    then show ?thesis using buf(2) by linarith
  qed
  obtain b n where g: "handle_get_dtcs dtcs (Some buf) (length buf) = (E_OK, Some b, n)"
      "take n b = list_response (length buf) 16 dtc_record (live dtcs)"
    using get_dtcs_response [OF wf(1), of "length buf" buf] buf(1) by auto
  note l = list_answer [OF refl g(2) refl small, where rd = read_dtc and dec = scanned_dtc,
      OF length_dtc_record read_dtc_record]
  show "dv_dtcs (case answer DIAG_GET_DTCS of (rc, p) \<Rightarrow> on_dtcs rc p dev) =
      map scanned_dtc (take ((length buf - 2) div 16) (live dtcs))"
    using l by (simp add: ans g(1) on_dtcs_def payload_length_def Let_def min_def)
  obtain b n where g: "handle_get_service_list ready disp (Some buf) (length buf) = (E_OK, Some b, n)"
      "take n b = list_response (length buf) 6 (service_record ready) (live disp)"
    using get_service_list_response [OF wf(2), of "length buf" buf ready] buf(1) by auto
  note l = list_answer [OF refl g(2) refl small, where rd = read_service and dec = "scanned_service ready",
      OF length_service_record read_service_record]
  show "dv_services (case answer DIAG_GET_SERVICE_LIST of (rc, p) \<Rightarrow> on_service_list rc p dev) =
      map (scanned_service ready) (take ((length buf - 2) div 6) (live disp))"
    using l by (simp add: ans g(1) on_service_list_def payload_length_def Let_def min_def)
  obtain b where g: "handle_get_counters counters (Some buf) (length buf) = (E_OK, Some b, 36)"
      "length b = length buf" "take 36 b = concat (map write_u32 (dc_counters counters))"
    using get_counters_response [OF buf(1) _ wf(3), of buf] by auto
  have n: "length (dc_counters counters) = 9" using wf(3) by (simp add: counters_wf_def)
  have "map (\<lambda>i. read_u32 (take 36 b) (i * 4)) [0..<9] = dc_counters counters"
    using n read_words_encoded [of _ "dc_counters counters"] by (intro nth_equalityI) (simp_all add: g(3))
  then show "dcs_values (dv_counters (case answer DIAG_GET_COUNTERS of (rc, p) \<Rightarrow> on_counters rc p dev)) =
      dc_counters counters"
    using g(2) buf(1) by (simp add: ans g(1) on_counters_def payload_length_def Let_def)
  obtain b where g: "handle_get_device_info ds uptime_ms (Some buf) (length buf) = (E_OK, Some b, 8)"
      "length b = length buf"
      "take 8 b = write_u16 (ds_client_id ds) @ write_u32 (if ds_wired ds then uptime_ms else 0) @ [PROTOCOL_VERSION, 0]"
    using get_device_info_response [of "length buf" buf ds uptime_ms] buf(1) by auto
  show "dv_info (case answer DIAG_GET_DEVICE_INFO of (rc, p) \<Rightarrow> on_device_info rc p dev) =
      \<lparr> di_client_id = ds_client_id ds, di_uptime_ms = (if ds_wired ds then uptime_ms else 0),
        di_protocol_version = PROTOCOL_VERSION, di_info_received = True \<rparr>"
    using buf(1) g(2) read_u16_at [of "[]"] read_u32_at [of "write_u16 (ds_client_id ds)"]
    by (simp add: ans g(1,3) on_device_info_def payload_length_def Let_def nth_append)
qed

definition demo_store :: DtcStore where
  "demo_store = dtc_put EmbeddedConfig (SevError, 50) 7 (dtc_init EmbeddedConfig)"

theorem scanner_reads_device_witness:
  "dv_dtcs (case diag_answer EmbeddedConfig diag_service_default counters_init (dispatcher_init EmbeddedConfig) 0
       (\<lambda>c. True) demo_store (replicate 256 0) DIAG_GET_DTCS of (rc, p) \<Rightarrow> on_dtcs rc p (new_device [1])) =
     [\<lparr>dd_code = 7, dd_severity = 2, dd_status = 1, dd_occurrence_count = 1, dd_first_seen_ms = 50, dd_last_seen_ms = 50\<rparr>]"
proof -
  have "dtc_wf EmbeddedConfig demo_store" unfolding demo_store_def by (rule dtc.put_inv) simp
  moreover have "map scanned_dtc (live demo_store) =
     [\<lparr>dd_code = 7, dd_severity = 2, dd_status = 1, dd_occurrence_count = 1, dd_first_seen_ms = 50, dd_last_seen_ms = 50\<rparr>]"
    by code_simp
  moreover have "length (live demo_store) = 1" by code_simp
  ultimately show ?thesis
    using scanner_reads_device [of EmbeddedConfig demo_store "dispatcher_init EmbeddedConfig" counters_init
        "replicate 256 0" _ diag_service_default 0 "\<lambda>c. True" "new_device [1]", OF _ _ _ _ _ refl]
    by (simp add: counters_wf_init)
qed

section \<open>A round of queries\<close>

text \<open>A request when the transport takes every frame.\<close>

definition takes_all :: "('t, 'a) env \<Rightarrow> bool" where
  "takes_all env \<longleftrightarrow> (\<forall>a data t. fst (impl_send env a data t))"

lemma request_to_adds:
  assumes cfg: "MaxPendingRequests (en_cfg env) \<le> 2 ^ 32" "takes_all env"
    and wf: "tracker_wf (en_cfg env) (rt_requests r)"
    and room: "active_count (rt_requests r) < MaxPendingRequests (en_cfg env)"
    and r': "r' = snd (request_to env target sid mid p n (Some f) ctx timeout now_ms r)"
  shows "tracker_wf (en_cfg env) (rt_requests r')"
    and "open_calls (rt_requests r') = add_mset (f, ctx) (open_calls (rt_requests r))"
    and "active_count (rt_requests r') = active_count (rt_requests r) + 1"
proof -
  let ?cfg = "en_cfg env"
  obtain k reqs out where a: "allocate ?cfg (Some (rt_logger r)) sid mid timeout now_ms (Some f) ctx (rt_requests r)
      = (k, reqs, out)" using prod_cases3 by blast
  then obtain i where i: "k = Some i"
    using allocate_None(1) [OF wf, of "Some (rt_logger r)" sid mid timeout now_ms "Some f" ctx] room by fastforce
  note a = a [unfolded i]
  note n = allocate_Some [OF wf cfg(1) a]
  have "fst (rt_send env target k r)" for k r
    using cfg(2) by (simp add: takes_all_def rt_send_def transport_send_def Let_def case_prod_beta)
  then have "fst (request_impl env target sid mid p n (Some f) ctx timeout now_ms r) \<noteq> None"
    by (simp add: request_impl_def Let_def a case_prod_beta)
  then have q: "rt_requests r' = reqs"
    by (auto simp: r' request_to_def intro: request_impl_shape [OF a, of target p n])
  let ?e = "new_pending ?cfg sid mid timeout now_ms (Some f) ctx i"
  have m: "mset (actives reqs) = add_mset ?e (mset (actives (rt_requests r)))"
    by (rule actives_removed [OF n(2) wf, of i]) (use n in auto)
  show "tracker_wf ?cfg (rt_requests r')" using n(2) by (simp add: q)
  show "open_calls (rt_requests r') = add_mset (f, ctx) (open_calls (rt_requests r))"
    using m by (simp add: q open_calls_def owed_def new_pending_def)
  show "active_count (rt_requests r') = active_count (rt_requests r) + 1"
  proof -
    have "length (actives reqs) = length (actives (rt_requests r)) + 1" using arg_cong [OF m, of size] by simp
    then show ?thesis by (simp add: q active_count_def actives_def)
  qed
qed

lemma request_to_refused:
  assumes "tracker_wf (en_cfg env) (rt_requests r)"
    and "active_count (rt_requests r) = MaxPendingRequests (en_cfg env)"
  shows "(snd (request_to env target sid mid p n cb ctx timeout now_ms r))\<lparr>rt_out := os\<rparr> = r\<lparr>rt_out := os\<rparr>"
proof -
  obtain k reqs out where a: "allocate (en_cfg env) (Some (rt_logger r)) sid mid timeout now_ms cb ctx (rt_requests r)
      = (k, reqs, out)" using prod_cases3 by blast
  then have "k = None" "reqs = rt_requests r"
    using allocate_None [OF assms(1), of "Some (rt_logger r)" sid mid timeout now_ms cb ctx] assms(2) by auto
  with a show ?thesis using request_impl_no_slot [of env r sid mid timeout now_ms cb ctx reqs out target p n]
    by (simp add: request_to_def emit_def)
qed

lemma request_to_full:
  assumes "tracker_wf (en_cfg env) (rt_requests r)"
    and "active_count (rt_requests r) = MaxPendingRequests (en_cfg env)"
  shows "rt_requests (snd (request_to env target sid mid p n cb ctx timeout now_ms r)) = rt_requests r"
  using arg_cong [OF request_to_refused [OF assms, where os = "[]"], of rt_requests] by simp

abbreviation device_queries :: "nat list" where
  "device_queries \<equiv> [ON_DEVICE_INFO, ON_SERVICE_LIST, ON_DTCS, ON_COUNTERS]"

lemma query_requests_room:
  assumes "en_cfg env = DefaultConfig" "takes_all env" "tracker_wf DefaultConfig (rt_requests r)"
    and "active_count (rt_requests r) + 4 \<le> 16" "r' = query_requests env now_ms a i r"
  shows "tracker_wf DefaultConfig (rt_requests r') \<and> active_count (rt_requests r') = active_count (rt_requests r) + 4 \<and>
    open_calls (rt_requests r') = open_calls (rt_requests r) + mset (map (\<lambda>f. (f, i)) device_queries)"
proof -
  have "MaxPendingRequests DefaultConfig \<le> 2 ^ 32" "MaxPendingRequests DefaultConfig = 16"
    by (simp_all add: DefaultConfig_def)
  note add = request_to_adds [where env = env, unfolded assms(1), OF this(1) assms(2) _ _ refl, unfolded this(2)]
  show ?thesis using assms(3,4) by (simp add: assms(5) query_requests_def add)
qed

lemma query_requests_full:
  assumes "en_cfg env = DefaultConfig" "tracker_wf DefaultConfig (rt_requests r)" "active_count (rt_requests r) = 16"
  shows "rt_requests (query_requests env now_ms a i r) = rt_requests r"
proof -
  have "MaxPendingRequests DefaultConfig = 16" by (simp add: DefaultConfig_def)
  note full = request_to_full [where env = env, unfolded assms(1), unfolded this]
  show ?thesis using assms(2,3) by (simp add: query_requests_def full)
qed

lemma response_cb_found: "dv_found (response_cb f rc p dev) = dv_found dev"
  by (simp add: response_cb_def on_device_info_def on_service_list_def on_dtcs_def on_counters_def Let_def)

lemma completion_found: "map dv_found (completion x devs) = map dv_found devs"
proof (cases x)
  case (Out_Request_Done f i rc p)
  then show ?thesis
    by (cases "i < length devs")
      (auto simp: map_update response_cb_found list_update_same_conv list_update_beyond not_less)
qed simp_all

lemma completions_found: "map dv_found (fold completion os devs) = map dv_found devs"
  by (induction os arbitrary: devs) (simp_all add: completion_found)

lemma query_device_devices: "map dv_found (sc_devices (query_device env now_ms i sc)) = map dv_found (sc_devices sc)"
proof -
  let ?devs = "sc_devices (on_rt (query_requests env now_ms (dv_addr (sc_devices sc ! i)) i) sc)"
  have "map dv_found ?devs = map dv_found (sc_devices sc)" by (simp add: on_rt_def sc_print_def Let_def completions_found)
  moreover have "map dv_found (?devs[i := (?devs ! i)\<lparr>dv_last_query_ms := now_ms\<rparr>]) = map dv_found ?devs"
    by (cases "i < length ?devs") (auto simp: map_update list_update_same_conv list_update_beyond not_less)
  ultimately show ?thesis by (simp add: query_device_def Let_def)
qed

text \<open>After the first \<open>n\<close> devices: their queries are pending, up to the fourth device.\<close>

lemma scan_prefix:
  assumes "en_cfg env = DefaultConfig" "takes_all env" "tracker_wf DefaultConfig (rt_requests (sc_rt sc))"
    and "active_count (rt_requests (sc_rt sc)) = 0" "\<And>dev. dev \<in> set (sc_devices sc) \<Longrightarrow> dv_found dev"
    and "n \<le> length (sc_devices sc)"
    and "sc' = fold (\<lambda>i sc. if dv_found (sc_devices sc ! i) then query_device env now i sc else sc) [0..<n] sc"
  shows "tracker_wf DefaultConfig (rt_requests (sc_rt sc')) \<and>
    active_count (rt_requests (sc_rt sc')) = 4 * min n 4 \<and>
    open_calls (rt_requests (sc_rt sc')) =
      mset (concat (map (\<lambda>i. map (\<lambda>f. (f, i)) device_queries) [0..<min n 4])) \<and>
    map dv_found (sc_devices sc') = map dv_found (sc_devices sc)"
  using assms(6,7)
proof (induction n arbitrary: sc')
  case 0
  have "actives (rt_requests (sc_rt sc)) = []" using assms(4) by (simp add: active_count_def actives_def)
  then show ?case using 0 assms(3,4) by (simp add: open_calls_def)
next
  case (Suc n)
  define sc1 where "sc1 = fold (\<lambda>i sc. if dv_found (sc_devices sc ! i) then query_device env now i sc else sc) [0..<n] sc"
  have I: "tracker_wf DefaultConfig (rt_requests (sc_rt sc1))"
    "active_count (rt_requests (sc_rt sc1)) = 4 * min n 4"
    "open_calls (rt_requests (sc_rt sc1)) =
      mset (concat (map (\<lambda>i. map (\<lambda>f. (f, i)) device_queries) [0..<min n 4]))"
    "map dv_found (sc_devices sc1) = map dv_found (sc_devices sc)"
    using Suc.IH [OF _ sc1_def] Suc.prems(1) by simp_all
  have len: "length (sc_devices sc1) = length (sc_devices sc)" using arg_cong [OF I(4), of length] by simp
  have "dv_found (sc_devices sc1 ! n)"
    using arg_cong [OF I(4), of "\<lambda>xs. xs ! n"] assms(5) Suc.prems(1) len by simp
  then have sc': "sc' = query_device env now n sc1" using Suc.prems(2) by (simp add: sc1_def)
  let ?r = "(sc_rt sc1)\<lparr>rt_out := []\<rparr>" and ?a = "dv_addr (sc_devices sc1 ! n)"
  have q: "rt_requests (sc_rt sc') = rt_requests (query_requests env now ?a n ?r)"
    by (simp add: sc' query_device_def on_rt_def sc_print_def Let_def)
  have d: "map dv_found (sc_devices sc') = map dv_found (sc_devices sc)"
    using I(4) by (simp add: sc' query_device_devices)
  show ?case
  proof (cases "n < 4")
    case True
    then have "min (Suc n) 4 = Suc n" "min n 4 = n" by simp_all
    then show ?thesis
      using query_requests_room [OF assms(1,2), of ?r _ now ?a n, OF _ _ refl] I d True by (simp add: q)
  next
    case False
    then have "min (Suc n) 4 = 4" "min n 4 = 4" by simp_all
    then show ?thesis using query_requests_full [OF assms(1), of ?r now ?a n] I d by (simp add: q)
  qed
qed

text \<open>C30: A round of queries serves four devices: with no request pending and a transport that takes
  every frame, the requests pending after a round over any number of devices are the four queries of
  each of the first four; the requests to all further devices are refused for lack of a slot, and
  nobody looks at that result.\<close>

theorem scan_serves_four_devices:
  assumes "en_cfg env = DefaultConfig" "takes_all env" "tracker_wf DefaultConfig (rt_requests (sc_rt sc))"
    and "active_count (rt_requests (sc_rt sc)) = 0" "\<forall>dev \<in> set (sc_devices sc). dv_found dev"
    and "4 \<le> length (sc_devices sc)"
  shows "open_calls (rt_requests (sc_rt (scan_devices env now sc))) =
    mset (concat (map (\<lambda>i. map (\<lambda>f. (f, i)) [ON_DEVICE_INFO, ON_SERVICE_LIST, ON_DTCS, ON_COUNTERS]) [0..<4]))"
  using scan_prefix [OF assms(1-4) _ le_refl refl, of now] assms(5,6) by (simp add: scan_devices_def min_def)

definition demo_wire :: "(nat, nat) env" where
  "demo_wire = \<lparr> en_cfg = DefaultConfig, impl_send = (\<lambda>a d n. (True, Suc n)), impl_broadcast = (\<lambda>d n. (True, n)),
     impl_poll = (\<lambda>n. (None, n)), app_is_ready = (\<lambda>n a. True),
     app_on_request = (\<lambda>n mid p resp rlen a. (E_OK, resp, 0, a)) \<rparr>"

definition demo_scanner :: "(nat, nat) scanner" where
  "demo_scanner = \<lparr> sc_rt = runtime_init demo_wire 0 0 SCANNER_CLIENT_ID,
     sc_devices = map (\<lambda>i. new_device [of_nat i]) [0..<5], sc_last_scan_ms = 0, sc_dashboard_printed = False,
     sc_clear = None, sc_prints = [] \<rparr>"

theorem scan_serves_four_devices_witness:
  "(ON_DTCS, 3) \<in># open_calls (rt_requests (sc_rt (scan_devices demo_wire 10000 demo_scanner))) \<and>
     (ON_DTCS, 4) \<notin># open_calls (rt_requests (sc_rt (scan_devices demo_wire 10000 demo_scanner)))"
proof -
  have "takes_all demo_wire" "en_cfg demo_wire = DefaultConfig" by (simp_all add: takes_all_def demo_wire_def)
  moreover have "tracker_wf DefaultConfig (rt_requests (sc_rt demo_scanner))"
      "active_count (rt_requests (sc_rt demo_scanner)) = 0"
    by (simp_all add: demo_scanner_def runtime_init_def Let_def demo_wire_def)
      (simp add: active_count_def tracker_init_def default_pending_def)
  moreover have "\<forall>dev \<in> set (sc_devices demo_scanner). dv_found dev" "4 \<le> length (sc_devices demo_scanner)"
    by (simp_all add: demo_scanner_def new_device_def)
  ultimately show ?thesis
    using scan_serves_four_devices [of demo_wire demo_scanner 10000] by (simp add: upt_rec)
qed

section \<open>The clear command\<close>

lemma clear_step_sends:
  assumes "dev \<in> set (sc_devices sc)" "dv_found dev" "di_info_received (dv_info dev)"
    and "sc_clear sc = Some (di_client_id (dv_info dev), code)"
  obtains dev' where "dev' \<in> set (sc_devices sc)" "di_client_id (dv_info dev') = di_client_id (dv_info dev)"
    and "clear_step env now sc = (sc_print [''[scanner] Sent CLEAR_DTCS to device 0x'' @
        hex4 (di_client_id (dv_info dev)) @ '' (code=0x'' @ hex4 code @ '')'' @ nl]
      (on_rt (\<lambda>r. snd (request_to env (dv_addr dev') DIAG_SERVICE_ID 2 (Some (write_u16 code)) 2
         (Some ON_CLEAR_RESPONSE) 0 REQUEST_TIMEOUT_MS now r)) sc))\<lparr>sc_clear := None\<rparr>"
proof -
  let ?P = "\<lambda>d. dv_found d \<and> di_info_received (dv_info d) \<and> di_client_id (dv_info d) = di_client_id (dv_info dev)"
  have "dev \<in> set (filter ?P (sc_devices sc))" using assms(1-3) by simp
  then obtain dev' ds where f: "filter ?P (sc_devices sc) = dev' # ds" by (cases "filter ?P (sc_devices sc)") auto
  have "dev' \<in> set (filter ?P (sc_devices sc))" unfolding f by simp
  then have "dev' \<in> set (sc_devices sc)" "di_client_id (dv_info dev') = di_client_id (dv_info dev)" by simp_all
  then show ?thesis using that [of dev'] f assms(4) by (simp add: clear_step_def diag_method_code_def)
qed

text \<open>When the transport takes every frame a query completes nothing, so a round of queries leaves all that is
  known of the devices.\<close>

lemma request_to_silent:
  assumes "takes_all env"
  shows "replies (snd (request_to env target sid mid p n cb ctx timeout now_ms r)) = replies r"
proof -
  obtain k reqs out where a: "allocate (en_cfg env) (Some (rt_logger r)) sid mid timeout now_ms cb ctx (rt_requests r)
      = (k, reqs, out)" using prod_cases3 by blast
  have silent: "silent out"
    using allocate_noted [of "en_cfg env" "Some (rt_logger r)" sid mid timeout now_ms cb ctx "rt_requests r"] a
    by (simp add: notices_silent)
  show ?thesis
  proof (cases k)
    case None
    then show ?thesis using a silent by (simp add: request_to_def request_impl_no_slot)
  next
    case (Some i)
    have "fst (rt_send env target k r)" for k r
      using assms by (simp add: takes_all_def rt_send_def transport_send_def Let_def case_prod_beta)
    then have "fst (request_impl env target sid mid p n cb ctx timeout now_ms r) \<noteq> None"
      by (simp add: request_impl_def Let_def a Some case_prod_beta)
    then show ?thesis
      by (auto simp: request_to_def intro: request_impl_shape [OF a [unfolded Some], of target p n])
  qed
qed

lemma completions_silent: "silent os \<Longrightarrow> fold completion os devs = devs"
proof (induction os)
  case (Cons x os)
  then show ?case by (cases x) simp_all
qed simp

lemma on_rt_silent:
  assumes "\<And>r. replies (f r) = replies r"
  shows "sc_devices (on_rt f sc) = sc_devices sc" and "sc_clear (on_rt f sc) = sc_clear sc"
proof -
  have "silent (rt_out (f ((sc_rt sc)\<lparr>rt_out := []\<rparr>)))" using assms [of "(sc_rt sc)\<lparr>rt_out := []\<rparr>"] by (simp add: replies_def)
  then show "sc_devices (on_rt f sc) = sc_devices sc" and "sc_clear (on_rt f sc) = sc_clear sc"
    by (simp_all add: on_rt_def sc_print_def Let_def completions_silent)
qed

lemma scan_keeps:
  assumes "takes_all env"
  shows "map dv_info (sc_devices (scan_devices env now sc)) = map dv_info (sc_devices sc)"
    and "map dv_found (sc_devices (scan_devices env now sc)) = map dv_found (sc_devices sc)"
    and "sc_clear (scan_devices env now sc) = sc_clear sc"
proof -
  have q: "replies (query_requests env now a i r) = replies r" for a i and r :: "('a, 'b) runtime"
    by (simp add: query_requests_def request_to_silent [OF assms])
  have d: "map dv_info (sc_devices (query_device env now i sc)) = map dv_info (sc_devices sc)" for i and sc :: "('a, 'b) scanner"
    using on_rt_silent(1) [of "query_requests env now (dv_addr (sc_devices sc ! i)) i" sc] q
    by (cases "i < length (sc_devices sc)")
      (simp_all add: query_device_def Let_def map_update list_update_same_conv list_update_beyond not_less)
  show "map dv_info (sc_devices (scan_devices env now sc)) = map dv_info (sc_devices sc)"
    unfolding scan_devices_def by (rule fold_constant [where g = "\<lambda>sc. map dv_info (sc_devices sc)"]) (simp add: d)
  show "map dv_found (sc_devices (scan_devices env now sc)) = map dv_found (sc_devices sc)"
    unfolding scan_devices_def
    by (rule fold_constant [where g = "\<lambda>sc. map dv_found (sc_devices sc)"]) (simp add: query_device_devices)
  show "sc_clear (scan_devices env now sc) = sc_clear sc"
    unfolding scan_devices_def
    by (rule fold_constant [where g = sc_clear]) (simp add: query_device_def Let_def on_rt_silent(2) q)
qed

text \<open>C28: The dashboard and the command line fit together, for up to three devices.  The dashboard shows every
  device under its client id, and that name and a code in the same notation are the arguments of \<open>--clear\<close>.  When
  no request is pending and the transport takes every frame, the next round of queries over the known devices
  ends with the clear command.  With fewer than four devices one clear request with that code goes to a device of
  that id, and its answer is awaited.  With four or more the queries have taken all slots: the request is refused
  and nothing is sent.  In both cases the scanner reports the command as sent and forgets it.\<close>

theorem clear_reaches_named_device:
  assumes "en_cfg env = DefaultConfig" "takes_all env" "tracker_wf DefaultConfig (rt_requests (sc_rt sc))"
    and "active_count (rt_requests (sc_rt sc)) = 0" "\<forall>dev \<in> set (sc_devices sc). dv_found dev"
    and "dev \<in> set (sc_devices sc)" "di_info_received (dv_info dev)"
    and "sc_clear sc = clear_command (parse_args [''--clear'', device_name dev, ''0x'' @ hex4 code] default_args)"
    and "scanned = scan_devices env now sc" "sc' = clear_step env now scanned"
  shows "sublist (device_name dev) (print_dashboard (sc_devices sc)) \<and> sc_clear sc' = None \<and>
    (\<exists>ps. sc_prints sc' = ps @ [''[scanner] Sent CLEAR_DTCS to device '' @ device_name dev @ '' (code=0x'' @ hex4 code @ '')'' @ nl]) \<and>
    (if length (sc_devices sc) < 4
     then open_calls (rt_requests (sc_rt sc')) = add_mset (ON_CLEAR_RESPONSE, 0) (open_calls (rt_requests (sc_rt scanned))) \<and>
       (\<exists>dev' \<in> set (sc_devices scanned). di_client_id (dv_info dev') = di_client_id (dv_info dev) \<and>
          sc_rt sc' = (snd (request_to env (dv_addr dev') DIAG_SERVICE_ID 2 (Some (write_u16 code)) 2
            (Some ON_CLEAR_RESPONSE) 0 REQUEST_TIMEOUT_MS now ((sc_rt scanned)\<lparr>rt_out := []\<rparr>)))\<lparr>rt_out := []\<rparr>)
     else sc_rt sc' = (sc_rt scanned)\<lparr>rt_out := []\<rparr>)"
proof -
  have S: "tracker_wf DefaultConfig (rt_requests (sc_rt scanned))"
    "active_count (rt_requests (sc_rt scanned)) = 4 * min (length (sc_devices sc)) 4"
    using scan_prefix [OF assms(1-4) _ le_refl refl, of now] assms(5) by (simp_all add: assms(9) scan_devices_def)
  note K = scan_keeps [OF assms(2), of now sc, folded assms(9)]
  obtain k where k: "k < length (sc_devices sc)" "sc_devices sc ! k = dev" using assms(6) by (auto simp: in_set_conv_nth)
  let ?d = "sc_devices scanned ! k"
  have len: "length (sc_devices scanned) = length (sc_devices sc)" using arg_cong [OF K(1), of length] by simp
  have "dv_info ?d = dv_info dev" "dv_found ?d"
    using arg_cong [OF K(1), of "\<lambda>xs. xs ! k"] arg_cong [OF K(2), of "\<lambda>xs. xs ! k"] k len assms(5,6) by simp_all
  then have d: "?d \<in> set (sc_devices scanned)" "dv_found ?d" "di_info_received (dv_info ?d)"
    "di_client_id (dv_info ?d) = di_client_id (dv_info dev)" using k len assms(7) by simp_all
  have "sc_clear scanned = Some (di_client_id (dv_info ?d), code)"
    using assms(8) by (simp add: K(3) d(4) device_name_def parse_clear [simplified])
  then obtain dev' where d': "dev' \<in> set (sc_devices scanned)" "di_client_id (dv_info dev') = di_client_id (dv_info dev)"
    and c: "sc' = (sc_print [''[scanner] Sent CLEAR_DTCS to device 0x'' @
        hex4 (di_client_id (dv_info dev)) @ '' (code=0x'' @ hex4 code @ '')'' @ nl]
      (on_rt (\<lambda>r. snd (request_to env (dv_addr dev') DIAG_SERVICE_ID 2 (Some (write_u16 code)) 2
         (Some ON_CLEAR_RESPONSE) 0 REQUEST_TIMEOUT_MS now r)) scanned))\<lparr>sc_clear := None\<rparr>"
    using clear_step_sends [OF d(1-3)] unfolding assms(10) d(4) by blast
  let ?r = "(sc_rt scanned)\<lparr>rt_out := []\<rparr>"
  let ?q = "snd (request_to env (dv_addr dev') DIAG_SERVICE_ID 2 (Some (write_u16 code)) 2
      (Some ON_CLEAR_RESPONSE) 0 REQUEST_TIMEOUT_MS now ?r)"
  have rt: "sc_rt sc' = ?q\<lparr>rt_out := []\<rparr>" and cleared: "sc_clear sc' = None"
    and printed: "\<exists>ps. sc_prints sc' = ps @ [''[scanner] Sent CLEAR_DTCS to device '' @ device_name dev @ '' (code=0x'' @ hex4 code @ '')'' @ nl]"
    by (simp_all add: c sc_print_def on_rt_def Let_def device_name_def)
  have m: "MaxPendingRequests DefaultConfig = 16" by (simp add: DefaultConfig_def)
  have "if length (sc_devices sc) < 4
     then open_calls (rt_requests (sc_rt sc')) = add_mset (ON_CLEAR_RESPONSE, 0) (open_calls (rt_requests (sc_rt scanned)))
     else sc_rt sc' = ?r"
    using request_to_adds(2) [OF _ assms(2) _ _ refl, of ?r] request_to_refused [of env ?r] assms(1) S m
    by (simp add: rt)
  then show ?thesis using dashboard_names [OF assms(6)] assms(5,6) cleared printed rt d' by (simp split: if_splits) blast
qed

definition demo_dashboard :: "(nat, nat) scanner" where
  "demo_dashboard = demo_scanner\<lparr>
     sc_devices := map (\<lambda>dev. dev\<lparr>dv_info := \<lparr>di_client_id = 0x0102, di_uptime_ms = 5000, di_protocol_version = 1,
       di_info_received = True\<rparr>\<rparr>) (sc_devices demo_scanner),
     sc_clear := clear_command (parse_args [''--clear'', ''0x0102'', ''0x0007''] default_args)\<rparr>"

theorem clear_reaches_named_device_witness:
  "sublist ''0x0102'' (print_dashboard (sc_devices demo_dashboard)) \<and>
     sc_clear (clear_step demo_wire 10000 (scan_devices demo_wire 10000 demo_dashboard)) = None \<and>
     sc_rt (clear_step demo_wire 10000 (scan_devices demo_wire 10000 demo_dashboard)) =
       (sc_rt (scan_devices demo_wire 10000 demo_dashboard))\<lparr>rt_out := []\<rparr>"
proof -
  let ?dev = "(new_device [0])\<lparr>dv_info := \<lparr>di_client_id = 0x0102, di_uptime_ms = 5000, di_protocol_version = 1,
       di_info_received = True\<rparr>\<rparr>"
  have dev: "?dev \<in> set (sc_devices demo_dashboard)" "di_info_received (dv_info ?dev)"
    by (auto simp: demo_dashboard_def demo_scanner_def new_device_def intro: image_eqI [of _ _ 0])
  have found: "\<forall>dev \<in> set (sc_devices demo_dashboard). dv_found dev" "\<not> length (sc_devices demo_dashboard) < 4"
    by (auto simp: demo_dashboard_def demo_scanner_def new_device_def)
  have name: "device_name ?dev = ''0x0102''" "''0x'' @ hex4 7 = ''0x0007''" by code_simp+
  have wire: "en_cfg demo_wire = DefaultConfig" "takes_all demo_wire" by (simp_all add: takes_all_def demo_wire_def)
  have idle: "tracker_wf DefaultConfig (rt_requests (sc_rt demo_dashboard))"
      "active_count (rt_requests (sc_rt demo_dashboard)) = 0"
    by (simp_all add: demo_dashboard_def demo_scanner_def runtime_init_def Let_def demo_wire_def)
      (simp add: active_count_def tracker_init_def default_pending_def)
  have "sc_clear demo_dashboard =
      clear_command (parse_args [''--clear'', device_name ?dev, ''0x'' @ hex4 7] default_args)"
    unfolding name by (simp add: demo_dashboard_def)
  then show ?thesis
    using clear_reaches_named_device [OF wire idle found(1) dev, of 7 _ 10000, OF _ refl refl] found(2) unfolding name by simp
qed

end
