(* ===== verification/Call_Loops.thy ===== *)
theory Call_Loops
  imports Request_Properties
begin

text \<open>
  What the main loops of the example programs rely on: how a process cycle and a request change the
  set of pending requests, and when a request that is still pending after a cycle was made.
\<close>

section \<open>Pending requests over a cycle and a request\<close>

definition shrinks :: "config \<Rightarrow> (u32 \<rightharpoonup> PendingEntry) \<Rightarrow> ('t, 'a) runtime \<Rightarrow> bool" where
  "shrinks cfg P r \<longleftrightarrow> tracker_wf cfg (rt_requests r) \<and> pending (rt_requests r) \<subseteq>\<^sub>m P"

interpretation shrinking: settling_cycle env "shrinks (en_cfg env) P" for env :: "('t, 'a) env" and P
proof
  fix r :: "('t, 'a) runtime" and rid rc p now_ms
  assume s: "shrinks (en_cfg env) P r"
  then have wf: "tracker_wf (en_cfg env) (rt_requests r)" by (simp add: shrinks_def)
  show "shrinks (en_cfg env) P (rt_complete env rid rc p r)"
    using s complete_replies(1,2) [OF wf, of rid rc p] by (auto simp: shrinks_def map_le_def dom_def)
  show "shrinks (en_cfg env) P (rt_evict_requests env now_ms r)"
    using s evict_wf [OF wf, of "Some (rt_logger r)" now_ms]
    by (force simp: shrinks_def map_le_def dom_def rt_evict_requests_def case_prod_beta split: option.splits if_splits)
qed (simp add: shrinks_def)

lemma process_pending:
  assumes "tracker_wf (en_cfg env) (rt_requests r)"
  shows "tracker_wf (en_cfg env) (rt_requests (process env now_ms r))"
    and "pending (rt_requests (process env now_ms r)) \<subseteq>\<^sub>m pending (rt_requests r)"
    and "pending (rt_requests (process env now_ms r)) i = Some e \<Longrightarrow> \<not> time_after now_ms (pr_deadline_ms e)"
proof -
  have s: "shrinks (en_cfg env) (pending (rt_requests r)) (process env now_ms r)"
    by (rule shrinking.process) (simp add: shrinks_def assms)
  then show "tracker_wf (en_cfg env) (rt_requests (process env now_ms r))"
    and sub: "pending (rt_requests (process env now_ms r)) \<subseteq>\<^sub>m pending (rt_requests r)"
    by (simp_all add: shrinks_def)
  assume e: "pending (rt_requests (process env now_ms r)) i = Some e"
  then have "pending (rt_requests r) i = Some e" using sub by (force simp: map_le_def)
  then show "\<not> time_after now_ms (pr_deadline_ms e)"
    using process_settles_expired [OF assms, of i e now_ms] e by auto
qed

lemma request_adds:
  assumes wf: "tracker_wf (en_cfg env) (rt_requests r)" and cap: "MaxPendingRequests (en_cfg env) \<le> 2 ^ 32"
    and r': "r' = snd (request env sid mid p n cb ctx timeout now_ms r)"
  shows "tracker_wf (en_cfg env) (rt_requests r') \<and> (pending (rt_requests r') = pending (rt_requests r) \<or>
    (\<exists>i. pending (rt_requests r) i = None \<and> pending (rt_requests r') =
       (pending (rt_requests r))(i \<mapsto> new_pending (en_cfg env) sid mid timeout now_ms cb ctx i)))"
proof (cases "get_provider_address sid (rt_sd r)")
  case None
  then show ?thesis using wf by (simp add: r' request_def)
next
  case (Some target)
  then have r': "r' = snd (request_impl env target sid mid p n cb ctx timeout now_ms r)" by (simp add: r' request_def)
  obtain k reqs out where a: "allocate (en_cfg env) (Some (rt_logger r)) sid mid timeout now_ms cb ctx (rt_requests r)
      = (k, reqs, out)" using prod_cases3 by blast
  show ?thesis
  proof (cases k)
    case None
    then show ?thesis
      using allocate_None(2) [OF wf, of "Some (rt_logger r)" sid mid timeout now_ms cb ctx] a wf
      by (simp add: r' request_impl_no_slot)
  next
    case k: (Some i)
    note a = a [unfolded k]
    note n = allocate_Some [OF wf cap a]
    obtain r4 where r4: "rt_requests r4 = reqs"
      and e: "rt_requests r' = reqs \<or> rt_requests r' = rt_requests (rt_complete env i E_NOT_OK None r4)"
      by (rule request_impl_shape [OF a, of target p n]) (auto simp: r')
    have "(pending (rt_requests r))(i := None) = pending (rt_requests r)" using n(1) by auto
    then show ?thesis
      using e n complete_replies(1,2) [of env r4 i E_NOT_OK None] r4 by auto
  qed
qed

lemma request_pending:
  assumes "tracker_wf (en_cfg env) (rt_requests r)" "MaxPendingRequests (en_cfg env) \<le> 2 ^ 32"
    and "pending (rt_requests r) = Map.empty" "r' = snd (request env sid mid p n cb ctx timeout now_ms r)"
  shows "tracker_wf (en_cfg env) (rt_requests r') \<and> (pending (rt_requests r') = Map.empty \<or>
    (\<exists>i. pending (rt_requests r') = [i \<mapsto> new_pending (en_cfg env) sid mid timeout now_ms cb ctx i]))"
  using request_adds [OF assms(1,2,4)] assms(3) by auto

section \<open>Times\<close>

lemma unat_sum_u32: "unat (a :: u32) + unat b < 2 ^ 32 \<Longrightarrow> unat (a + b) = unat a + unat b"
  by (simp add: unat_word_ariths)

text \<open>A deadline that has not passed: the request was made at most the time-out ago.\<close>

lemma not_expired:
  assumes "unat (before - start) \<le> k" "unat (now - before) < 2 ^ 31 - k" "\<not> time_after now (start + of_nat k)"
    and k: "k < 2 ^ 31"
  shows "unat (now - start) \<le> k"
proof -
  have "unat (now - start) = unat (now - before) + unat (before - start)"
    using unat_sum_u32 [of "now - before" "before - start"] assms(1,2) by (simp add: algebra_simps)
  then have l: "unat (now - start) < 2 ^ 31" using assms(1,2) by simp
  have "now = start + of_nat (unat (now - start))" by simp
  then have "\<not> k < unat (now - start)"
    using time_after_elapsed [of k "unat (now - start)" start] l k assms(3) by simp
  then show ?thesis by simp
qed

text \<open>
  The times at which a loop runs, each less than about 24 days after the one before; \<open>slack\<close> is the
  time-out of its requests.
\<close>

fun ticks :: "nat \<Rightarrow> u32 \<Rightarrow> u32 list \<Rightarrow> bool" where
  "ticks slack before [] \<longleftrightarrow> True"
| "ticks slack before (now # nows) \<longleftrightarrow> unat (now - before) < 2 ^ 31 - slack \<and> ticks slack now nows"

end
