(* ===== verification/Calculator_Properties.thy ===== *)
theory Calculator_Properties
  imports Calculator Call_Loops Sd_Reachability
begin

text \<open>
  The calculator example against the library: the client has one call outstanding at a time, and a
  call goes through both runtimes to the callback with the result of the arithmetic.
\<close>

section \<open>One call at a time\<close>

lemma callback_keeps:
  "cl_rt (client_callback x cl) = cl_rt cl" "cl_last_call_ms (client_callback x cl) = cl_last_call_ms cl"
  "cl_call_counter (client_callback x cl) = cl_call_counter cl"
  "cl_call_ctx (client_callback x cl) = cl_call_ctx cl"
  by (cases x; simp)+

lemma callbacks_keep [simp]:
  "cl_rt (fold client_callback os cl) = cl_rt cl"
  "cl_last_call_ms (fold client_callback os cl) = cl_last_call_ms cl"
  "cl_call_counter (fold client_callback os cl) = cl_call_counter cl"
  "cl_call_ctx (fold client_callback os cl) = cl_call_ctx cl"
  by (induction os arbitrary: cl) (simp_all add: callback_keeps)

lemma client_rt_keeps [simp]:
  "cl_rt (client_rt f cl) = (f ((cl_rt cl)\<lparr>rt_out := []\<rparr>))\<lparr>rt_out := []\<rparr>"
  "cl_last_call_ms (client_rt f cl) = cl_last_call_ms cl"
  "cl_call_counter (client_rt f cl) = cl_call_counter cl"
  "cl_call_ctx (client_rt f cl) = cl_call_ctx cl"
  by (simp_all add: client_rt_def Let_def)

lemma client_subscribe_keeps [simp]:
  "rt_requests (cl_rt (client_subscribe env now cl)) = rt_requests (cl_rt cl)"
  "cl_last_call_ms (client_subscribe env now cl) = cl_last_call_ms cl"
  "cl_call_counter (client_subscribe env now cl) = cl_call_counter cl"
  "cl_call_ctx (client_subscribe env now cl) = cl_call_ctx cl"
  by (simp_all add: client_subscribe_def Let_def)

text \<open>The entry of the latest call.\<close>

definition latest_call :: "config \<Rightarrow> ('t, 'a) client \<Rightarrow> u32 \<Rightarrow> PendingEntry" where
  "latest_call cfg cl i = new_pending cfg SERVICE_ID (call_method (cl_call_counter cl)) 1000
     (cl_last_call_ms cl) (Some ON_RESPONSE) 0 i"

text \<open>The loop invariant; \<open>now\<close> is the time of the last cycle.\<close>

definition one_call :: "config \<Rightarrow> u32 \<Rightarrow> ('t, 'a) client \<Rightarrow> bool" where
  "one_call cfg now cl \<longleftrightarrow> tracker_wf cfg (rt_requests (cl_rt cl)) \<and>
     (pending (rt_requests (cl_rt cl)) = Map.empty \<or>
      (\<exists>i. pending (rt_requests (cl_rt cl)) = [i \<mapsto> latest_call cfg cl i] \<and>
         cl_call_ctx cl = call_operands (cl_call_counter cl) \<and> unat (now - cl_last_call_ms cl) \<le> 1000))"

lemma one_call_process:
  assumes "one_call (en_cfg env) before cl" "unat (now - before) < 2 ^ 31 - 1000"
  shows "one_call (en_cfg env) now (client_rt (process env now) cl)"
proof -
  let ?r = "(cl_rt cl)\<lparr>rt_out := []\<rparr>" and ?P = "pending (rt_requests (cl_rt cl))"
  have wf: "tracker_wf (en_cfg env) (rt_requests ?r)" using assms(1) by (simp add: one_call_def)
  note p = process_pending [OF wf, of now]
  have sub: "pending (rt_requests (process env now ?r)) \<subseteq>\<^sub>m ?P" using p(2) by simp
  show ?thesis
  proof (cases "pending (rt_requests (process env now ?r)) = Map.empty")
    case True
    then show ?thesis using p(1) by (simp add: one_call_def)
  next
    case False
    then obtain i e where e: "pending (rt_requests (process env now ?r)) i = Some e" by fastforce
    then have "?P i = Some e" using sub by (force simp: map_le_def)
    then have old: "?P = [i \<mapsto> latest_call (en_cfg env) cl i]" "e = latest_call (en_cfg env) cl i"
        "cl_call_ctx cl = call_operands (cl_call_counter cl)" "unat (before - cl_last_call_ms cl) \<le> 1000"
      using assms(1) by (auto simp: one_call_def split: if_splits)
    have "pending (rt_requests (process env now ?r)) = [i \<mapsto> e]"
      using sub e old(1,2) by (auto simp: map_le_def fun_eq_iff dom_def)
    moreover have "unat (now - cl_last_call_ms cl) \<le> 1000"
      using not_expired [of before "cl_last_call_ms cl" 1000 now] old(4) assms(2) p(3) [OF e] by (simp add: old(2) latest_call_def new_pending_def)
    ultimately show ?thesis
      using p(1) old unfolding one_call_def by (intro conjI disjI2 exI [of _ i]) (simp_all add: latest_call_def)
  qed
qed

lemma one_call_call:
  assumes "one_call (en_cfg env) now cl" "MaxPendingRequests (en_cfg env) \<le> 2 ^ 32"
  shows "one_call (en_cfg env) now (client_call env now cl)"
proof (cases "cl_service_found cl \<and> now - cl_last_call_ms cl \<ge> 3000")
  case True
  then have "\<not> unat (now - cl_last_call_ms cl) \<le> 1000" by (simp add: word_le_nat_alt)
  then have "pending (rt_requests (cl_rt cl)) = Map.empty" "tracker_wf (en_cfg env) (rt_requests (cl_rt cl))"
    using assms(1) by (auto simp: one_call_def)
  then show ?thesis
    using request_pending [OF _ assms(2) _ refl, of "(cl_rt cl)\<lparr>rt_out := []\<rparr>"] True
    by (auto simp: one_call_def client_call_def Let_def latest_call_def)
qed (use assms(1) in \<open>auto simp: client_call_def\<close>)

lemma one_call_subscribe: "one_call cfg now cl \<Longrightarrow> one_call cfg now (client_subscribe env t cl)"
  by (simp add: one_call_def latest_call_def)

lemma one_call_run:
  assumes "MaxPendingRequests (en_cfg env) \<le> 2 ^ 32"
  shows "one_call (en_cfg env) now cl \<Longrightarrow> ticks 1000 now nows \<Longrightarrow>
    \<exists>t. one_call (en_cfg env) t (fold (client_step env) nows cl)"
proof (induction nows arbitrary: now cl)
  case (Cons t nows)
  have "one_call (en_cfg env) t (client_step env t cl)"
    unfolding client_step_def using Cons.prems
    by (intro one_call_call one_call_subscribe one_call_process [of _ now] assms) simp_all
  then show ?case using Cons.IH [of t] Cons.prems(2) by simp
qed auto

lemma one_call_start:
  assumes "MaxPendingRequests (en_cfg env) \<le> 2 ^ 32"
  shows "one_call (en_cfg env) now (client_start env transport app local_addr now)"
proof -
  have "rt_requests (cl_rt (client_start env transport app local_addr now)) = tracker_init (en_cfg env)"
    by (simp add: client_start_def Let_def set_local_address_def set_sd_callbacks_def runtime_init_def)
  moreover have "pending (tracker_init (en_cfg env)) = Map.empty"
    by (auto simp: fun_eq_iff pending_def tracker_init_def find_None_iff pending_is_def default_pending_def)
  ultimately show ?thesis by (simp add: one_call_def)
qed

text \<open>The client has one call outstanding at a time, as its comment says: whatever the network and
  the server do, in every run of its loop whose cycles are less than 24 days apart at most one request
  is pending, and when one is, it is the latest call, with the method, deadline and callback it was
  made with, and the shared context holds the operands of that call.\<close>

theorem client_one_call_at_a_time:
  assumes "MaxPendingRequests (en_cfg env) \<le> 2 ^ 32" "ticks 1000 start nows"
    and "cl = fold (client_step env) nows (client_start env transport app local_addr start)"
  shows "pending (rt_requests (cl_rt cl)) = Map.empty \<or>
    (\<exists>i. pending (rt_requests (cl_rt cl)) = [i \<mapsto> new_pending (en_cfg env) SERVICE_ID
         (call_method (cl_call_counter cl)) 1000 (cl_last_call_ms cl) (Some ON_RESPONSE) 0 i] \<and>
       cl_call_ctx cl = call_operands (cl_call_counter cl))"
  using one_call_run [OF assms(1) one_call_start [OF assms(1)] assms(2), of transport app local_addr]
  by (auto simp: one_call_def latest_call_def assms(3))

theorem client_one_call_at_a_time_witness:
  "let cl = fold (client_step demo_env) [100, 3500, 7000] (client_start demo_env 0 0 [9] 50)
   in pending (rt_requests (cl_rt cl)) = Map.empty \<or>
     (\<exists>i. pending (rt_requests (cl_rt cl)) = [i \<mapsto> new_pending EmbeddedConfig SERVICE_ID
         (call_method (cl_call_counter cl)) 1000 (cl_last_call_ms cl) (Some ON_RESPONSE) 0 i] \<and>
       cl_call_ctx cl = call_operands (cl_call_counter cl))"
proof -
  have "MaxPendingRequests EmbeddedConfig \<le> 2 ^ 32" by (simp add: EmbeddedConfig_def)
  then show ?thesis
    using client_one_call_at_a_time [of demo_env 50 "[100, 3500, 7000]" _ 0 0 "[9]", OF _ _ refl] by (simp add: Let_def)
qed

section \<open>What else a request leaves alone\<close>

lemma request_leaves:
  assumes "request_impl env target sid mid p n cb ctx timeout now_ms r = (Some i, r')"
  shows "rt_auth r' = rt_auth r" and "rt_dispatcher r' = rt_dispatcher r"
    and "e2e_peers (rt_e2e r') = e2e_peers (rt_e2e r)"
    and "\<exists>data. told r' = told r @ [Out_Send target data True]"
proof -
  let ?cfg = "en_cfg env"
  obtain k reqs out where a: "allocate ?cfg (Some (rt_logger r)) sid mid timeout now_ms cb ctx (rt_requests r)
      = (k, reqs, out)" using prod_cases3 by blast
  have k: "k = Some i" using assms by (auto simp: request_impl_def a Let_def case_prod_beta split: option.splits if_splits)
  define r1 where "r1 = emit out (r\<lparr>rt_requests := reqs\<rparr>)"
  define auth where "auth = should_auth_outgoing target r1"
  define r2 where "r2 = snd (rt_next_sequence r1)"
  define hdr where "hdr = (make_request_header sid mid n i auth r1)
    \<lparr>hdr_sequence_counter := fst (rt_next_sequence r1)\<rparr>"
  define r3 where "r3 = snd (build_message ?cfg hdr p n auth target r2)"
  define len where "len = fst (build_message ?cfg hdr p n auth target r2)"
  define r4 where "r4 = snd (rt_send env target len r3)"
  have ok: "fst (rt_send env target len r3)"
    and r': "r' = rt_debug env CatRequests ''request_tx'' sid mid (rt_client_id r4) i r4"
    using assms unfolding request_impl_def Let_def a k prod.case option.case r1_def [symmetric]
      auth_def [symmetric] case_prod_beta fst_conv snd_conv r2_def [symmetric] hdr_def [symmetric]
      r3_def [symmetric] len_def [symmetric] r4_def [symmetric]
    by (simp_all split: if_splits)
  have r1: "rt_auth r1 = rt_auth r" "rt_dispatcher r1 = rt_dispatcher r" "rt_e2e r1 = rt_e2e r"
    "told r1 = told r"
    using allocate_noted [of ?cfg "Some (rt_logger r)" sid mid timeout now_ms cb ctx "rt_requests r"]
    by (simp_all add: r1_def a emit_def) (simp add: told_def list_all_iff)
  have r2: "rt_auth r2 = rt_auth r" "rt_dispatcher r2 = rt_dispatcher r"
    "e2e_peers (rt_e2e r2) = e2e_peers (rt_e2e r)" "told r2 = told r"
    using r1 by (simp_all add: r2_def rt_next_sequence_def next_sequence_def case_prod_beta Let_def)
  have r3: "rt_auth r3 = rt_auth r" "rt_dispatcher r3 = rt_dispatcher r"
    "e2e_peers (rt_e2e r3) = e2e_peers (rt_e2e r)" "told r3 = told r"
    using r2 by (simp_all add: r3_def build_message_def Let_def case_prod_beta)
  have "rt_auth r4 = rt_auth r" "rt_dispatcher r4 = rt_dispatcher r" "e2e_peers (rt_e2e r4) = e2e_peers (rt_e2e r)"
    "told r4 = told r @ [Out_Send target (take len (rt_tx_buffer r3)) True]"
    using r3 ok by (simp_all add: r4_def rt_send_def Let_def case_prod_beta)
  then show "rt_auth r' = rt_auth r" and "rt_dispatcher r' = rt_dispatcher r"
    and "e2e_peers (rt_e2e r') = e2e_peers (rt_e2e r)"
    and "\<exists>data. told r' = told r @ [Out_Send target data True]"
    unfolding r' by (simp_all only: told_steps) (simp_all add: rt_debug_def emit_def)
qed

section \<open>A call of the calculator\<close>

lemma length_write_i32 [simp]: "length (write_i32 x) = 4"
  by (simp add: write_i32_def)

lemma i32_codec: "write_i32 = write_u32" "read_i32 = read_u32"
  by (simp_all add: fun_eq_iff write_i32_def write_u32_def read_i32_def read_u32_def)

lemma read_operands: "read_i32 (write_i32 a @ write_i32 b) 0 = a" "read_i32 (write_i32 a @ write_i32 b) 4 = b"
    "read_i32 (write_i32 a) 0 = a"
  using read_u32_at [of "[]" a] read_u32_at [of "write_u32 a" b "[]"] read_u32_at [of "[]" a "[]"]
  by (simp_all add: i32_codec)

text \<open>The value a method stands for, and the word it is stored in.\<close>

definition calc_value :: "u16 \<Rightarrow> i32 \<Rightarrow> i32 \<Rightarrow> int" where
  "calc_value mid a b = (if mid = METHOD_ADD then sint a + sint b else sint a * sint b)"

definition calc_word :: "u16 \<Rightarrow> i32 \<Rightarrow> i32 \<Rightarrow> i32" where
  "calc_word mid a b = (if mid = METHOD_ADD then a + b else a * b)"

lemma calc_word_value:
  assumes "fits_i32 (calc_value mid a b)"
  shows "sint (calc_word mid a b) = calc_value mid a b"
proof -
  have s: "signed_take_bit 31 x = x" if "fits_i32 x" for x :: int
    using that by (simp add: fits_i32_def signed_take_bit_int_eq_self)
  show ?thesis
    using s [OF assms] by (simp add: calc_word_def calc_value_def sint_word_ariths split: if_splits)
qed

lemma store_fits: "4 \<le> length buf \<Longrightarrow> store_i32 r (Some buf) = (Some (write_i32 r @ drop 4 buf), [])"
  by (simp add: store_i32_def)

lemma calculator_answer:
  assumes "mid = METHOD_ADD \<or> mid = METHOD_MUL" "4 \<le> length buf"
  shows "\<exists>notes'. calculator_on_request mid (write_i32 a @ write_i32 b) (Some buf) n notes =
    (E_OK, Some (write_i32 (calc_word mid a b) @ drop 4 buf), 4, notes')"
  using assms
  by (auto simp: calculator_on_request_def do_add_def do_mul_def Let_def store_fits read_operands calc_word_def
      METHOD_ADD_def METHOD_MUL_def)

lemma server_cfg [simp]: "en_cfg (server_env l) = DefaultConfig"
  by (simp add: server_env_def)

lemma server_env_ok: "env_ok (server_env l)"
proof -
  have "map_option length (fst (store_i32 x out)) = map_option length out" for x out
    by (auto simp: store_i32_def split: option.split)
  then have "service_contract (server_env l)"
    by (auto simp: service_contract_def server_env_def calculator_on_request_def do_add_def do_mul_def Let_def
        case_prod_beta split: if_splits)
  then show ?thesis by (simp add: env_ok_def) (simp add: DefaultConfig_def)
qed

lemma calculator_dispatch:
  assumes wf: "rt_wf DefaultConfig r"
    and se: "service_lookup (rt_dispatcher r) SERVICE_ID = Some se" "se_context se = Some (AppCtx n)"
    and hdr: "hdr_service_id hdr = SERVICE_ID" "hdr_method_event_id hdr = mid"
    and mid: "mid = METHOD_ADD \<or> mid = METHOD_MUL"
  shows "\<exists>buf r1. dispatch_result (server_env l) hdr (write_i32 a @ write_i32 b) r = (E_OK, Some buf, 4, r1) \<and>
    take 4 buf = write_i32 (calc_word mid a b)"
proof -
  define r0 where "r0 = rt_info (server_env l) CatDispatch ''request_rx'' (hdr_service_id hdr)
    (hdr_method_event_id hdr) (hdr_client_id hdr) (hdr_request_id hdr) r"
  have r0: "rt_wf DefaultConfig r0" "rt_dispatcher r0 = rt_dispatcher r"
    using wf by (simp_all add: r0_def rt_info_def emit_def)
  have buf: "4 \<le> length (rt_response_buffer r0)"
    using rt_wf_parts(11) [OF r0(1)] by (simp add: DefaultConfig_def)
  obtain notes' where ans: "app_on_request (server_env l) n mid (write_i32 a @ write_i32 b) (Some (rt_response_buffer r0))
      (MaxPayloadSize DefaultConfig) (rt_app r0) =
      (E_OK, Some (write_i32 (calc_word mid a b) @ drop 4 (rt_response_buffer r0)), 4, notes')"
    using calculator_answer [OF mid buf, of a b "MaxPayloadSize DefaultConfig" "rt_app r0"]
    by (auto simp: server_env_def)
  have ready: "entry_ready (service_ready (server_env l) r0) se"
    using se(2) by (simp add: entry_ready_def service_ready_def server_env_def)
  have "find_service_entry SERVICE_ID (rt_dispatcher r0) = Some se"
    using find_service_lookup [OF rt_wf_parts(6) [OF wf]] se(1) by (simp add: r0(2))
  then show ?thesis
    unfolding dispatch_result_def Let_def r0_def [symmetric]
    unfolding hdr server_cfg
    by (simp add: dispatch_def ready entry_call_def se(2) service_call_def ans)
qed

lemma callbacks_told:
  "fold client_callback os cl = fold client_callback (filter (\<lambda>x. \<not> is_notice x) os) cl"
proof (induction os arbitrary: cl)
  case (Cons x os)
  then show ?case by (cases x) simp_all
qed simp

lemma client_rt_told:
  assumes "told (f ((cl_rt cl)\<lparr>rt_out := []\<rparr>)) = os"
  shows "cl_notes (client_rt f cl) = cl_notes (fold client_callback os cl)"
proof -
  have "cl_notes (fold client_callback xs (cl\<lparr>cl_rt := r\<rparr>)) = cl_notes (fold client_callback xs cl)" for xs r
  proof (induction xs arbitrary: cl)
    case (Cons x xs)
    have "client_callback x (cl\<lparr>cl_rt := r\<rparr>) = (client_callback x cl)\<lparr>cl_rt := r\<rparr>" by (cases x) simp_all
    then show ?case using Cons.IH [of "client_callback x cl"] by simp
  qed simp
  then show ?thesis
    using assms callbacks_told [of "rt_out (f ((cl_rt cl)\<lparr>rt_out := []\<rparr>))" cl]
    by (simp add: client_rt_def Let_def told_def)
qed

text \<open>The result of a call in integers.\<close>

definition call_value :: "nat \<Rightarrow> int" where
  "call_value k = (if k mod 2 = 1 then 2 * int k + 10 else int k * (int k + 10))"

lemma call_value_exact:
  assumes "unat k < 46336"
  shows "calc_value (call_method k) k (k + 10) = call_value (unat k)" "fits_i32 (call_value (unat k))"
proof -
  have k10: "unat (k + 10) = unat k + 10" using unat_sum_u32 [of k 10] assms by simp
  have s: "sint k = int (unat k)" "sint (k + 10) = int (unat k) + 10"
    unfolding sint_u32 k10 using assms by simp_all
  have m: "k mod 2 = 1 \<longleftrightarrow> unat k mod 2 = 1"
    by (simp add: word_eq_iff_unsigned [where 'a = nat] unat_mod word_unat_eq_iff)
  show "calc_value (call_method k) k (k + 10) = call_value (unat k)"
    by (simp only: calc_value_def call_method_def call_value_def s m) (simp add: METHOD_ADD_def METHOD_MUL_def)
  define u where "u = unat k"
  then have u: "u < 46336" using assms by simp
  define v where "v = int u * (int u + 10)"
  have "v \<le> 46335 * (46335 + 10)" unfolding v_def using u by (intro mult_mono) simp_all
  moreover have "0 \<le> v" unfolding v_def by (intro mult_nonneg_nonneg) simp_all
  moreover have "0 \<le> 2 * int u + 10" "2 * int u + 10 < 2 ^ 31" using u by simp_all
  ultimately show "fits_i32 (call_value (unat k))"
    unfolding call_value_def fits_i32_def u_def [symmetric] v_def [symmetric] by (simp split: if_splits)
qed

text \<open>The server's side of a call: the frame of the client is answered with the result.\<close>

lemma call_answered:
  assumes client: "env_ok cenv" "rt_wf (en_cfg cenv) c" "8 \<le> MaxPayloadSize (en_cfg cenv)"
      "MaxPayloadSize (en_cfg cenv) < 2 ^ 32" "rt_client_id c \<noteq> 0" "service_lookup (rt_dispatcher c) SERVICE_ID = None"
    and server: "rt_wf DefaultConfig r" "service_lookup (rt_dispatcher r) SERVICE_ID = Some se"
      "se_context se = Some (AppCtx 0)"
    and keys: "keys_agree (rt_auth c) server (rt_auth r) client" "has_key server (rt_auth c) \<or> \<not> se_auth_required se"
    and there: "seq_verdict DefaultConfig (used (e2e_peers (rt_e2e r)) < MaxTrackedPeers DefaultConfig)
      (last_seen (rt_e2e r) client) (e2e_tx_seq (rt_e2e c)) \<in> {Accept, FirstSeen, TableFull}"
    and home: "seq_verdict (en_cfg cenv) (used (e2e_peers (rt_e2e c)) < MaxTrackedPeers (en_cfg cenv))
      (last_seen (rt_e2e c) server) (e2e_tx_seq (rt_e2e r)) \<in> {Accept, FirstSeen, TableFull}"
    and mid: "mid = METHOD_ADD \<or> mid = METHOD_MUL"
    and call: "request_impl cenv server SERVICE_ID mid (Some (write_i32 a @ write_i32 b)) 8 cb ctx timeout now c = (Some i, c')"
    and c'': "c'' = c'\<lparr>rt_out := os\<rparr>"
  shows "\<exists>q p. sent c' = sent c @ [(server, q)] \<and>
    sent (validate_and_dispatch (server_env l) client q t1 r) = sent r @ [(client, p)] \<and>
    told (validate_and_dispatch cenv server p t2 c'') = told c'' @ call_done
      (new_pending (en_cfg cenv) SERVICE_ID mid timeout now cb ctx i) E_OK (Some (write_i32 (calc_word mid a b)))"
proof -
  have pl: "sendable (en_cfg cenv) (Some (write_i32 a @ write_i32 b)) 8"
    "payload_bytes (Some (write_i32 a @ write_i32 b)) 8 = write_i32 a @ write_i32 b"
    using client(3) by (simp_all add: sendable_def payload_bytes_def)
  have ids: "SERVICE_ID \<noteq> SD_SERVICE_ID" "is_method_id mid"
    using mid by (auto simp: SERVICE_ID_def SD_SERVICE_ID_def is_method_id_def METHOD_ADD_def METHOD_MUL_def)
  have small: "8 \<le> MaxPayloadSize DefaultConfig" "MaxPayloadSize DefaultConfig < 2 ^ 32" by (simp_all add: DefaultConfig_def)
  obtain q r' where q: "sent c' = sent c @ [(server, q)]"
      "pending (rt_requests c') = (pending (rt_requests c))(i \<mapsto> new_pending (en_cfg cenv) SERVICE_ID mid timeout now cb ctx i)"
      "only_noted r r'" "rt_wf DefaultConfig r'"
      "validate_and_dispatch (server_env l) client q t1 r = handle_request (server_env l) client
        (request_header server SERVICE_ID mid 8 i c) (write_i32 a @ write_i32 b) r'"
    using request_reaches [OF client(1,2) pl(1) call ids client(5), of "server_env l" r client t1]
      server(1,2) small keys there unfolding pl(2) by auto
  note keep = request_leaves [OF call]
  have same: "rt_auth r' = rt_auth r" "rt_dispatcher r' = rt_dispatcher r" "e2e_tx_seq (rt_e2e r') = e2e_tx_seq (rt_e2e r)"
    using q(3) by (auto simp: only_noted_def)
  let ?hdr = "request_header server SERVICE_ID mid 8 i c"
  have hdr: "hdr_service_id ?hdr = SERVICE_ID" "hdr_method_event_id ?hdr = mid" "hdr_request_id ?hdr = i"
    by (simp_all add: request_header_def make_request_header_def)
  obtain buf r1 where d: "dispatch_result (server_env l) ?hdr (write_i32 a @ write_i32 b) r' = (E_OK, Some buf, 4, r1)"
    and buf: "take 4 buf = write_i32 (calc_word mid a b)"
    using calculator_dispatch [OF q(4) _ server(3) hdr(1,2) mid, of l a b] server(2) same(2) by auto
  have wf: "rt_wf (en_cfg cenv) c''" using rt_wf_request_impl [OF client(1,2)] call by (simp add: c'') (metis snd_conv)
  have "\<exists>f. sent (handle_request (server_env l) client ?hdr (write_i32 a @ write_i32 b) r') = sent r' @ [(client, f)] \<and>
    told (validate_and_dispatch cenv server f t2 c'') = told c'' @ call_done
      (new_pending (en_cfg cenv) SERVICE_ID mid timeout now cb ctx i) E_OK (Some (write_i32 (calc_word mid a b)))"
    using reply_reaches [OF server_env_ok [of l], where r = r' and hdr = ?hdr and payload = "write_i32 a @ write_i32 b"
        and rc = E_OK and buf = buf and n = 4 and ?r1.0 = r1 and answer = "write_i32 (calc_word mid a b)"
        and cenv = cenv and c = c'' and peer = server and source = client and rx_ms = t2
        and e = "new_pending (en_cfg cenv) SERVICE_ID mid timeout now cb ctx i"]
      q(2,4) small d buf hdr ids wf client keys(1) keep(1-3) same home
    by (auto simp: c'' keys_agree_def last_seen_def peer_entry_def)
  then show ?thesis using q(1,5) only_noted_sent [OF q(3)] by auto
qed

text \<open>C11: A call goes through the whole stack: when the client makes its next call, the frame it sends,
  delivered to a server that offers the calculator, makes the server send one frame, and that frame,
  delivered to the client, makes it print the sum or product of the operands of this call, in the
  integers, for each of the first 46335 calls (at the 46336th the product overflows).  The two runtimes
  accept each other's counters and have the same keys, or none and no demand for one.\<close>

theorem calculator_call_roundtrip:
  assumes client: "env_ok cenv" "rt_wf (en_cfg cenv) (cl_rt cl)" "8 \<le> MaxPayloadSize (en_cfg cenv)"
      "MaxPayloadSize (en_cfg cenv) < 2 ^ 32" "rt_client_id (cl_rt cl) \<noteq> 0"
      "service_lookup (rt_dispatcher (cl_rt cl)) SERVICE_ID = None"
    and due: "cl_service_found cl" "now - cl_last_call_ms cl \<ge> 3000" "k = cl_call_counter cl + 1" "unat k < 46336"
    and c: "c = (cl_rt cl)\<lparr>rt_out := []\<rparr>" "get_provider_address SERVICE_ID (rt_sd c) = Some server"
      "request cenv SERVICE_ID (call_method k) (Some (write_i32 k @ write_i32 (k + 10))) 8 (Some ON_RESPONSE) 0 1000 now c =
        (Some i, c')"
    and server: "rt_wf DefaultConfig r" "service_lookup (rt_dispatcher r) SERVICE_ID = Some se"
      "se_context se = Some (AppCtx 0)"
    and keys: "keys_agree (rt_auth c) server (rt_auth r) client" "has_key server (rt_auth c) \<or> \<not> se_auth_required se"
    and there: "seq_verdict DefaultConfig (used (e2e_peers (rt_e2e r)) < MaxTrackedPeers DefaultConfig)
      (last_seen (rt_e2e r) client) (e2e_tx_seq (rt_e2e c)) \<in> {Accept, FirstSeen, TableFull}"
    and home: "seq_verdict (en_cfg cenv) (used (e2e_peers (rt_e2e c)) < MaxTrackedPeers (en_cfg cenv))
      (last_seen (rt_e2e c) server) (e2e_tx_seq (rt_e2e r)) \<in> {Accept, FirstSeen, TableFull}"
  shows "\<exists>q p x. sent c' = [(server, q)] \<and>
    sent (validate_and_dispatch (server_env l) client q t1 r) = sent r @ [(client, p)] \<and>
    cl_notes (client_rt (validate_and_dispatch cenv server p t2) (client_call cenv now cl)) =
      cl_notes cl @ [Result (if unat k mod 2 = 1 then ''Add'' else ''Mul'') k (k + 10) x] \<and>
    sint x = (if unat k mod 2 = 1 then 2 * int (unat k) + 10 else int (unat k) * (int (unat k) + 10))"
proof -
  let ?x = "calc_word (call_method k) k (k + 10)"
  define cl' where "cl' = client_call cenv now cl"
  have odd: "call_method k = METHOD_ADD \<longleftrightarrow> unat k mod 2 = 1"
    by (simp add: call_method_def METHOD_ADD_def METHOD_MUL_def word_eq_iff_unsigned [where 'a = nat] unat_mod word_unat_eq_iff)
  have req: "request_impl cenv server SERVICE_ID (call_method k) (Some (write_i32 k @ write_i32 (k + 10))) 8
      (Some ON_RESPONSE) 0 1000 now c = (Some i, c')" using c(2,3) by (simp add: request_def)
  have mid: "call_method k = METHOD_ADD \<or> call_method k = METHOD_MUL" by (simp add: call_method_def)
  have wf: "rt_wf (en_cfg cenv) c" "rt_client_id c \<noteq> 0" "service_lookup (rt_dispatcher c) SERVICE_ID = None" "sent c = []"
    using client by (simp_all add: c(1) sent_def)
  obtain q p where qp: "sent c' = [(server, q)]"
      "sent (validate_and_dispatch (server_env l) client q t1 r) = sent r @ [(client, p)]"
      "told (validate_and_dispatch cenv server p t2 (c'\<lparr>rt_out := []\<rparr>)) =
        [Out_Request_Done ON_RESPONSE 0 E_OK (Some (write_i32 ?x))]"
    using call_answered [OF client(1) wf(1) client(3,4) wf(2,3) server keys there home mid req refl, of l t1 t2 "[]"] wf(4)
    by (auto simp: call_done_def new_pending_def told_def)
  let ?cl = "cl\<lparr> cl_last_call_ms := now, cl_call_counter := k, cl_call_ctx := call_operands k \<rparr>"
  have cl': "cl' = client_rt (\<lambda>r. snd (request cenv SERVICE_ID (call_method k)
      (Some (write_i32 k @ write_i32 (k + 10))) 8 (Some ON_RESPONSE) 0 1000 now r)) ?cl"
    using due by (simp add: cl'_def client_call_def Let_def call_operands_def)
  have rt: "cl_rt cl' = c'\<lparr>rt_out := []\<rparr>" "cl_call_ctx cl' = call_operands k"
    using c by (simp_all add: cl')
  obtain data where "told c' = [Out_Send server data True]" using request_leaves(4) [OF req] c(1) by (auto simp: told_def)
  then have quiet: "cl_notes cl' = cl_notes cl"
    unfolding cl' using c by (subst client_rt_told) auto
  have "cl_notes (client_rt (validate_and_dispatch cenv server p t2) cl') =
      cl_notes cl @ [on_response E_OK (Some (write_i32 ?x)) (call_operands k)]"
    using client_rt_told [of "validate_and_dispatch cenv server p t2" cl'] qp(3) by (simp add: rt quiet)
  moreover have "on_response E_OK (Some (write_i32 ?x)) (call_operands k) =
      Result (if unat k mod 2 = 1 then ''Add'' else ''Mul'') k (k + 10) ?x"
    by (simp add: on_response_def call_operands_def read_operands odd)
  moreover have "sint ?x = call_value (unat k)"
    using calc_word_value [of "call_method k" k "k + 10"] call_value_exact [OF due(4)] by simp
  ultimately show ?thesis using qp(1,2) unfolding cl'_def call_value_def by auto
qed

definition calc_sd :: ServiceDiscovery where
  "calc_sd = fold (sd_apply EmbeddedConfig)
     [Op_Find SERVICE_ID 1 50, Op_Rx_Offer SERVICE_ID 1 30 77 [1] 100] (sd_init EmbeddedConfig)"

definition calc_client :: "(nat, nat) client" where
  "calc_client = \<lparr> cl_rt = demo_rt\<lparr>rt_sd := calc_sd\<rparr>, cl_service_found = True, cl_was_subscribed = False,
     cl_subscribed = False, cl_last_call_ms = 0, cl_call_counter = 0,
     cl_call_ctx = \<lparr>cc_name = [], cc_a = 0, cc_b = 0\<rparr>, cl_notes = [] \<rparr>"

definition calc_link :: "nat link" where
  "calc_link = \<lparr> link_send = (\<lambda>a d t. (True, t)), link_broadcast = (\<lambda>d t. (True, t)), link_poll = (\<lambda>t. (None, t)) \<rparr>"

definition calc_server :: "(nat, printed list) runtime" where
  "calc_server = rt_apply (server_env calc_link) (Do_Register_Service SERVICE_ID 0 1 0 False)
     (runtime_init (server_env calc_link) 0 [] SERVER_CLIENT_ID)"

lemma calc_sd_wf: "sd_wf EmbeddedConfig calc_sd"
  by (rule sd_reach_wf) (simp add: calc_sd_def sd_start sd_step del: sd_apply.simps)

lemma calc_server_wf: "rt_wf DefaultConfig calc_server"
  using rt_wf_apply [OF server_env_ok [of calc_link], of _ "Do_Register_Service SERVICE_ID 0 1 0 False"]
    rt_wf_init [of "server_env calc_link" 0 "[]" SERVER_CLIENT_ID]
  by (simp add: calc_server_def del: rt_apply.simps)

lemma calc_request:
  assumes "c = demo_rt\<lparr>rt_sd := calc_sd, rt_out := []\<rparr>" "length p = 8"
  obtains c' where "request demo_env SERVICE_ID METHOD_ADD (Some p) 8 (Some ON_RESPONSE) 0 1000 3000 c = (Some 1, c')"
proof -
  let ?a = "allocate EmbeddedConfig (Some (rt_logger c)) SERVICE_ID METHOD_ADD 1000 3000 (Some ON_RESPONSE) 0 (rt_requests c)"
  have wf: "rt_wf EmbeddedConfig c" using demo_wf calc_sd_wf by (simp add: assms(1) rt_wf_set)
  obtain rid reqs out where a: "?a = (rid, reqs, out)" using prod_cases3 by blast
  have "fst ?a = Some 1" unfolding assms(1) by code_simp
  then have a: "?a = (Some 1, reqs, out)" using a by simp
  have m: "MaxPendingRequests EmbeddedConfig \<le> 2 ^ 32" by (simp add: EmbeddedConfig_def)
  have p: "sendable EmbeddedConfig (Some p) 8" using assms(2) by (simp add: sendable_def) (simp add: EmbeddedConfig_def)
  have "fst (request_impl demo_env [1] SERVICE_ID METHOD_ADD (Some p) 8 (Some ON_RESPONSE) 0 1000 3000 c) = Some 1"
    using request_impl_sent(1) [where env = demo_env and r = c and p = "Some p" and n = 8 and sid = SERVICE_ID
        and mid = METHOD_ADD and timeout = 1000 and now_ms = 3000 and cb = "Some ON_RESPONSE" and ctx = 0 and i = 1
        and reqs = reqs and out = out and target = "[1]", OF _ _ _ _ refl] a p wf
      allocate_Some(2) [OF rt_wf_parts(8) [OF wf] m a] by (simp add: demo_env_def)
  moreover have "get_provider_address SERVICE_ID (rt_sd c) = Some [1]" unfolding assms(1) by code_simp
  ultimately show ?thesis using that by (simp add: request_def) (metis prod.collapse)
qed

theorem calculator_call_roundtrip_witness:
  "\<exists>p. cl_notes (client_rt (validate_and_dispatch demo_env [1] p 3002) (client_call demo_env 3000 calc_client)) =
     [Result ''Add'' 1 11 12]"
proof -
  let ?c = "demo_rt\<lparr>rt_sd := calc_sd, rt_out := []\<rparr>"
  obtain c' where c': "request demo_env SERVICE_ID METHOD_ADD (Some (write_i32 1 @ write_i32 11)) 8
      (Some ON_RESPONSE) 0 1000 3000 ?c = (Some 1, c')"
    using calc_request [OF refl, of "write_i32 1 @ write_i32 11"] by auto
  let ?se = "make_service_entry SERVICE_ID (AppCtx 0) 1 0 False"
  have k: "service_lookup (rt_dispatcher demo_rt) SERVICE_ID = None"
    "service_lookup (rt_dispatcher calc_server) SERVICE_ID = Some ?se"
    "keys_agree (rt_auth demo_rt) [1] (rt_auth calc_server) [2]"
    "get_provider_address SERVICE_ID calc_sd = Some [1]" by code_simp+
  have v: "seq_verdict DefaultConfig (used (e2e_peers (rt_e2e calc_server)) < MaxTrackedPeers DefaultConfig)
      (last_seen (rt_e2e calc_server) [2]) (e2e_tx_seq (rt_e2e demo_rt)) = FirstSeen"
    "seq_verdict EmbeddedConfig (used (e2e_peers (rt_e2e demo_rt)) < MaxTrackedPeers EmbeddedConfig)
      (last_seen (rt_e2e demo_rt) [1]) (e2e_tx_seq (rt_e2e calc_server)) = FirstSeen" by code_simp+
  have m: "8 \<le> MaxPayloadSize EmbeddedConfig" "MaxPayloadSize EmbeddedConfig < 2 ^ 32"
    by (simp_all add: EmbeddedConfig_def)
  have wf: "rt_wf EmbeddedConfig (demo_rt\<lparr>rt_sd := calc_sd\<rparr>)" using demo_wf calc_sd_wf by (simp add: rt_wf_set)
  have id: "rt_client_id demo_rt = 7" by (simp add: demo_rt_def runtime_init_def Let_def)
  have one: "call_method 1 = METHOD_ADD" by (simp add: call_method_def)
  obtain p x where "cl_notes (client_rt (validate_and_dispatch demo_env [1] p 3002) (client_call demo_env 3000 calc_client)) =
      [Result ''Add'' 1 11 x]" "sint x = 12"
    using calculator_call_roundtrip [OF demo_env_ok, where cl = calc_client and now = 3000 and k = 1 and c = ?c
        and server = "[1]" and i = 1 and c' = c' and r = calc_server and se = ?se and client = "[2]"
        and l = calc_link and ?t1.0 = 3001 and ?t2.0 = 3002] c' k v m wf id one calc_server_wf
    by (auto simp: calc_client_def)
  moreover have "x = 12" if "sint x = 12" for x :: i32 using that by (simp add: signed_word_eqI)
  ultimately show ?thesis by auto
qed

text \<open>The 46336th call of the client is one that the server cannot multiply, and a message that expects no
  reply makes the calculator write its result to a null pointer.\<close>

lemma calculator_overflows:
  "\<exists>notes. calculator_on_request (call_method 46336) (write_i32 46336 @ write_i32 (46336 + 10)) out n [] =
      (E_OK, fst (store_i32 (46336 * (46336 + 10)) out), 4, Signed_Overflow # notes)"
proof -
  have "call_method 46336 = METHOD_MUL" by (simp add: call_method_def)
  moreover have "overflow_note (sint (46336 :: i32) * sint (46336 + 10 :: i32)) = [Signed_Overflow]"
    by (simp add: overflow_note_def fits_i32_def sint_u32)
  ultimately show ?thesis
    using read_operands(1,2) [of 46336 "46336 + 10"]
    by (simp add: calculator_on_request_def do_mul_def Let_def case_prod_beta METHOD_ADD_def METHOD_MUL_def)
qed

lemma calculator_null_response:
  "\<exists>notes. calculator_on_request METHOD_ADD (write_i32 a @ write_i32 b) None 0 [] = (E_OK, None, 4, notes) \<and>
     Bad_Response_Buffer \<in> set notes"
  by (simp add: calculator_on_request_def do_add_def Let_def store_i32_def)

end
