(* ===== verification/Desktop_Properties.thy ===== *)
theory Desktop_Properties
  imports Desktop_Peer Call_Loops Handshake_Properties
begin

text \<open>
  The desktop peer against the library: its calls do not pile up, the operands it prints belong to the call
  that is answered, the time service answers with the time, and when the key of the echo
  service follows its provider.
\<close>

lemma desktop_cfg [simp]: "en_cfg (desktop_env l) = DefaultConfig"
  by (simp add: desktop_env_def)

lemma desktop_env_ok: "env_ok (desktop_env l)"
proof -
  have "service_contract (desktop_env l)"
    using time_contract by (auto simp: service_contract_def desktop_env_def)
  then show ?thesis by (simp add: env_ok_def) (simp add: DefaultConfig_def)
qed

section \<open>What a call of the runtime changes\<close>

text \<open>The part of the application state that callbacks change.\<close>

fun app_effect :: "effect \<Rightarrow> AppState \<Rightarrow> AppState" where
  "app_effect (Out_Service_Found f ctx sid a) app = app_service_found sid app"
| "app_effect (Out_Service_Lost f ctx sid) app = app_service_lost sid app"
| "app_effect _ app = app"

lemma desktop_callback_keeps:
  "dk_rt (desktop_callback x dk) = dk_rt dk" "dk_math_ctx (desktop_callback x dk) = dk_math_ctx dk"
  "dk_app (desktop_callback x dk) = app_effect x (dk_app dk)"
  by (cases x; simp add: dk_print_def case_prod_beta)+

lemma desktop_callbacks_keep [simp]:
  "dk_rt (fold desktop_callback os dk) = dk_rt dk"
  "dk_math_ctx (fold desktop_callback os dk) = dk_math_ctx dk"
  "dk_app (fold desktop_callback os dk) = fold app_effect os (dk_app dk)"
  by (induction os arbitrary: dk) (simp_all add: desktop_callback_keeps)

lemma app_effects_told: "fold app_effect (filter (\<lambda>x. \<not> is_notice x) os) app = fold app_effect os app"
proof (induction os arbitrary: app)
  case (Cons x os)
  then show ?case by (cases x) simp_all
qed simp

text \<open>The times and the counter of the calls are not touched by callbacks.\<close>

definition call_times :: "AppState \<Rightarrow> u32 \<times> u32 \<times> u32 \<times> u32 \<times> u32" where
  "call_times app = (last_temp_req_ms app, last_uptime_req_ms app, last_echo_req_ms app, last_math_req_ms app, call_counter app)"

lemma call_times_effects [simp]: "call_times (fold app_effect os app) = call_times app"
proof (induction os arbitrary: app)
  case (Cons x os)
  have "call_times (app_effect x app) = call_times app"
    by (cases x) (simp_all add: call_times_def app_service_found_def app_service_lost_def Let_def)
  then show ?case using Cons by simp
qed simp

lemma desktop_call_keeps [simp]:
  "dk_rt (snd (desktop_call f dk)) = (snd (f ((dk_rt dk)\<lparr>rt_out := []\<rparr>)))\<lparr>rt_out := []\<rparr>"
  "dk_math_ctx (snd (desktop_call f dk)) = dk_math_ctx dk"
  "dk_app (snd (desktop_call f dk)) = fold app_effect (rt_out (snd (f ((dk_rt dk)\<lparr>rt_out := []\<rparr>)))) (dk_app dk)"
  by (simp_all add: desktop_call_def case_prod_beta)

lemma desktop_rt_keeps [simp]:
  "dk_rt (desktop_rt f dk) = (f ((dk_rt dk)\<lparr>rt_out := []\<rparr>))\<lparr>rt_out := []\<rparr>"
  "dk_math_ctx (desktop_rt f dk) = dk_math_ctx dk"
  "dk_app (desktop_rt f dk) = fold app_effect (rt_out (f ((dk_rt dk)\<lparr>rt_out := []\<rparr>))) (dk_app dk)"
  by (simp_all add: desktop_rt_def)

lemma dk_print_keeps [simp]:
  "dk_rt (dk_print ps dk) = dk_rt dk" "dk_math_ctx (dk_print ps dk) = dk_math_ctx dk" "dk_app (dk_print ps dk) = dk_app dk"
  by (simp_all add: dk_print_def)

section \<open>Pending calls\<close>

text \<open>
  For each completion callback the latest call made with it: service, method and time.  A pending
  request is \<open>own\<close> when it is one of these, made at most its time-out ago, and the only one with its callback; \<open>ok\<close>
  says that the shared context belongs to the latest math call.
\<close>

type_synonym calls = "nat \<Rightarrow> (u16 \<times> u16 \<times> u32) option"

definition own :: "u32 \<Rightarrow> calls \<Rightarrow> bool \<Rightarrow> RequestTracker \<Rightarrow> bool" where
  "own now calls ok t \<longleftrightarrow> tracker_wf DefaultConfig t \<and>
     (\<forall>i e. pending t i = Some e \<longrightarrow>
        (\<exists>f sid mid s. calls f = Some (sid, mid, s) \<and> e = new_pending DefaultConfig sid mid 2000 s (Some f) 0 i \<and>
           unat (now - s) \<le> 2000 \<and> (f = ON_MATH \<longrightarrow> ok))) \<and>
     (\<forall>i j e e'. pending t i = Some e \<longrightarrow> pending t j = Some e' \<longrightarrow> pr_callback e = pr_callback e' \<longrightarrow> i = j)"

lemma own_entry:
  assumes "own now calls ok t" "pending t i = Some e"
  obtains f sid mid s where "calls f = Some (sid, mid, s)" "e = new_pending DefaultConfig sid mid 2000 s (Some f) 0 i"
    "unat (now - s) \<le> 2000" "f = ON_MATH \<longrightarrow> ok"
  using assms unfolding own_def by blast

lemma own_sub:
  assumes "own before calls ok t" "tracker_wf DefaultConfig t'" "pending t' \<subseteq>\<^sub>m pending t"
    and "\<And>i e s. pending t' i = Some e \<Longrightarrow> pr_deadline_ms e = s + 2000 \<Longrightarrow> unat (before - s) \<le> 2000 \<Longrightarrow>
      unat (now - s) \<le> 2000"
  shows "own now calls ok t'"
proof -
  have sub: "pending t' i = Some e \<Longrightarrow> pending t i = Some e" for i e using assms(3) by (force simp: map_le_def)
  show ?thesis unfolding own_def
  proof (intro conjI allI impI)
    fix i e assume e: "pending t' i = Some e"
    obtain f sid mid s where k: "calls f = Some (sid, mid, s)" "e = new_pending DefaultConfig sid mid 2000 s (Some f) 0 i"
      "unat (before - s) \<le> 2000" "f = ON_MATH \<longrightarrow> ok" by (rule own_entry [OF assms(1) sub [OF e]])
    have "pr_deadline_ms e = s + 2000" by (simp add: k(2) new_pending_def)
    then have "unat (now - s) \<le> 2000" using assms(4) [OF e] k(3) by blast
    then show "\<exists>f sid mid s. calls f = Some (sid, mid, s) \<and> e = new_pending DefaultConfig sid mid 2000 s (Some f) 0 i \<and>
        unat (now - s) \<le> 2000 \<and> (f = ON_MATH \<longrightarrow> ok)" using k by blast
  next
    fix i j e e' assume "pending t' i = Some e" "pending t' j = Some e'" "pr_callback e = pr_callback e'"
    then show "i = j" using assms(1) sub unfolding own_def by blast
  qed (rule assms(2))
qed

lemma own_process:
  assumes "own before calls ok (rt_requests r)" "unat (now - before) < 2 ^ 31 - 2000" "en_cfg env = DefaultConfig"
  shows "own now calls ok (rt_requests (process env now r))"
proof -
  have wf: "tracker_wf (en_cfg env) (rt_requests r)" using assms(1,3) by (simp add: own_def)
  note p = process_pending [OF wf, of now]
  show ?thesis
  proof (rule own_sub [OF assms(1) p(1) [unfolded assms(3)] p(2)])
    fix i e s assume "pending (rt_requests (process env now r)) i = Some e" "pr_deadline_ms e = s + 2000"
      "unat (before - s) \<le> 2000"
    then show "unat (now - s) \<le> 2000" using not_expired [of before s 2000 now] p(3) [of i e] assms(2) by simp
  qed
qed

lemma own_request:
  assumes "own now calls ok (rt_requests r)" "calls f = Some (sid', mid', s)" "2000 < unat (now - s)"
    and "en_cfg env = DefaultConfig" "f \<noteq> ON_MATH \<Longrightarrow> ok' = ok" "f = ON_MATH \<Longrightarrow> ok'"
  shows "own now (calls(f \<mapsto> (sid, mid, now))) ok' (rt_requests (snd (request env sid mid p n (Some f) 0 2000 now r)))"
proof -
  let ?P = "pending (rt_requests r)" and ?calls = "calls(f \<mapsto> (sid, mid, now))"
  let ?t = "rt_requests (snd (request env sid mid p n (Some f) 0 2000 now r))"
  let ?new = "\<lambda>i. new_pending DefaultConfig sid mid 2000 now (Some f) 0 i"
  have wf: "tracker_wf (en_cfg env) (rt_requests r)" using assms(1,4) by (simp add: own_def)
  have cap: "MaxPendingRequests (en_cfg env) \<le> 2 ^ 32" by (simp add: assms(4)) (simp add: DefaultConfig_def)
  have A: "tracker_wf DefaultConfig ?t"
    "pending ?t = ?P \<or> (\<exists>i. ?P i = None \<and> pending ?t = ?P(i \<mapsto> ?new i))"
    using request_adds [OF wf cap refl, of sid mid p n "Some f" 0 2000 now] by (simp_all add: assms(4))
  have old: "\<exists>g sid mid s. ?calls g = Some (sid, mid, s) \<and> e = new_pending DefaultConfig sid mid 2000 s (Some g) 0 i \<and>
      unat (now - s) \<le> 2000 \<and> (g = ON_MATH \<longrightarrow> ok') \<and> g \<noteq> f" if "?P i = Some e" for i e
  proof -
    note m = that
    obtain g sid' mid' s' where k: "calls g = Some (sid', mid', s')"
      "e = new_pending DefaultConfig sid' mid' 2000 s' (Some g) 0 i" "unat (now - s') \<le> 2000" "g = ON_MATH \<longrightarrow> ok"
      by (rule own_entry [OF assms(1) m])
    then have "g \<noteq> f" using assms(2,3) by auto
    then show ?thesis using k assms(5) by (intro exI [of _ g]) auto
  qed
  have inj: "?P i = Some e \<Longrightarrow> ?P j = Some e' \<Longrightarrow> pr_callback e = pr_callback e' \<Longrightarrow> i = j" for i j e e'
    using assms(1) unfolding own_def by blast
  have cb: "pr_callback e \<noteq> Some f" if "?P i = Some e" for i e
    using old [OF that] by (auto simp: new_pending_def)
  show ?thesis unfolding own_def
  proof (intro conjI allI impI)
    fix i e assume e: "pending ?t i = Some e"
    show "\<exists>g sid mid s. ?calls g = Some (sid, mid, s) \<and> e = new_pending DefaultConfig sid mid 2000 s (Some g) 0 i \<and>
        unat (now - s) \<le> 2000 \<and> (g = ON_MATH \<longrightarrow> ok')"
    proof (cases "?P i = Some e")
      case True
      then show ?thesis using old by blast
    next
      case False
      then have "e = ?new i" using A(2) e by (auto split: if_splits)
      then show ?thesis using assms(6) by (intro exI [of _ f]) auto
    qed
  next
    fix i j e e' assume ij: "pending ?t i = Some e" "pending ?t j = Some e'" "pr_callback e = pr_callback e'"
    have n: "pr_callback (?new k) = Some f" for k by (simp add: new_pending_def)
    show "i = j" using A(2) ij inj cb n by (auto split: if_splits) metis+
  qed (rule A(1))
qed

text \<open>The latest calls of the desktop.\<close>

definition latest_calls :: "u32 \<times> u32 \<times> u32 \<times> u32 \<times> u32 \<Rightarrow> calls" where
  "latest_calls ct = (case ct of (temp, uptime, echo, math, n) \<Rightarrow>
     [ON_TEMPERATURE \<mapsto> (SENSOR_SERVICE_ID, SENSOR_GET_TEMPERATURE, temp),
      ON_UPTIME \<mapsto> (SENSOR_SERVICE_ID, SENSOR_GET_UPTIME, uptime),
      ON_ECHO \<mapsto> (ECHO_SERVICE_ID, ECHO_METHOD_ECHO, echo),
      ON_MATH \<mapsto> (ECHO_SERVICE_ID, math_method n, math)])"

definition desktop_own :: "u32 \<Rightarrow> 't desktop \<Rightarrow> bool" where
  "desktop_own now dk \<longleftrightarrow> own now (latest_calls (call_times (dk_app dk)))
     (dk_math_ctx dk = math_operands (call_counter (dk_app dk))) (rt_requests (dk_rt dk))"

lemma call_counter_times: "call_counter app = snd (snd (snd (snd (call_times app))))"
  by (simp add: call_times_def)

lemma desktop_own_cong:
  assumes "rt_requests (dk_rt dk') = rt_requests (dk_rt dk)" "call_times (dk_app dk') = call_times (dk_app dk)"
    and "dk_math_ctx dk' = dk_math_ctx dk"
  shows "desktop_own now dk' = desktop_own now dk"
  using assms by (simp add: desktop_own_def call_counter_times)

text \<open>The parts of the loop that make no call.\<close>

lemma own_steps:
  "desktop_own now (desktop_tick l t epoch dk) = desktop_own now dk"
  "desktop_own now (desktop_subscribe l t dk) = desktop_own now dk"
  "desktop_own now (desktop_toggle_led l t dk) = desktop_own now dk"
  "desktop_own now (desktop_set_key l dk) = desktop_own now dk"
  "desktop_own now (desktop_diag t dk) = desktop_own now dk"
  "desktop_own now (set_app (\<lambda>a. a\<lparr>sensor_subscribed := b\<rparr>) dk) = desktop_own now dk"
  "desktop_own now (set_app (\<lambda>a. a\<lparr>echo_hmac_set := b\<rparr>) dk) = desktop_own now dk"
proof -
  have c: "call_times (a\<lparr>last_tick_ms := t\<rparr>) = call_times a" "call_times (a\<lparr>last_diag_ms := t\<rparr>) = call_times a"
    "call_times (a\<lparr>sensor_subscribed := b\<rparr>) = call_times a" "call_times (a\<lparr>was_sensor_sub := b\<rparr>) = call_times a"
    "call_times (a\<lparr>echo_hmac_set := b\<rparr>) = call_times a" "call_times (a\<lparr>led_state := b\<rparr>) = call_times a"
    "call_times (a\<lparr>last_led_toggle_ms := t\<rparr>) = call_times a" for a t b
    by (simp_all add: call_times_def)
  let ?call = "desktop_call (notify_event (desktop_env l) TIME_SERVICE_ID TIME_EVT_TICK (Some (demo_write_u64 epoch)) 8)
    (set_app (\<lambda>a. a\<lparr>last_tick_ms := t\<rparr>) dk)"
  obtain ok dk' where d: "?call = (ok, dk')" using prod.exhaust by blast
  have "rt_requests (dk_rt (snd ?call)) = rt_requests (dk_rt dk)" "call_times (dk_app (snd ?call)) = call_times (dk_app dk)"
    "dk_math_ctx (snd ?call) = dk_math_ctx dk" by (simp_all add: c)
  then have r: "rt_requests (dk_rt dk') = rt_requests (dk_rt dk)" "call_times (dk_app dk') = call_times (dk_app dk)"
    "dk_math_ctx dk' = dk_math_ctx dk" unfolding d by simp_all
  show "desktop_own now (desktop_tick l t epoch dk) = desktop_own now dk"
    by (rule desktop_own_cong) (cases ok, simp_all add: desktop_tick_def Let_def d r)+
  show "desktop_own now (desktop_subscribe l t dk) = desktop_own now dk"
    by (rule desktop_own_cong) (simp_all add: desktop_subscribe_def c)
  show "desktop_own now (desktop_toggle_led l t dk) = desktop_own now dk"
    by (rule desktop_own_cong) (simp_all add: desktop_toggle_led_def Let_def c)
  show "desktop_own now (desktop_set_key l dk) = desktop_own now dk"
    by (rule desktop_own_cong) (simp_all add: desktop_set_key_def c split: option.split)
  show "desktop_own now (desktop_diag t dk) = desktop_own now dk"
    by (rule desktop_own_cong) (simp_all add: desktop_diag_def c)
  show "desktop_own now (set_app (\<lambda>a. a\<lparr>sensor_subscribed := b\<rparr>) dk) = desktop_own now dk"
    "desktop_own now (set_app (\<lambda>a. a\<lparr>echo_hmac_set := b\<rparr>) dk) = desktop_own now dk"
    by (rule desktop_own_cong; simp add: c)+
qed

lemma callbacks_distinct:
  "ON_TEMPERATURE \<noteq> ON_UPTIME" "ON_TEMPERATURE \<noteq> ON_ECHO" "ON_TEMPERATURE \<noteq> ON_MATH" "ON_UPTIME \<noteq> ON_ECHO"
  "ON_UPTIME \<noteq> ON_MATH" "ON_ECHO \<noteq> ON_MATH"
  by (simp_all add: ON_TEMPERATURE_def ON_UPTIME_def ON_ECHO_def ON_MATH_def)

lemma latest_calls_update:
  "latest_calls (t, u, e, m, n) ON_TEMPERATURE = Some (SENSOR_SERVICE_ID, SENSOR_GET_TEMPERATURE, t)"
  "latest_calls (t, u, e, m, n) ON_UPTIME = Some (SENSOR_SERVICE_ID, SENSOR_GET_UPTIME, u)"
  "latest_calls (t, u, e, m, n) ON_ECHO = Some (ECHO_SERVICE_ID, ECHO_METHOD_ECHO, e)"
  "latest_calls (t, u, e, m, n) ON_MATH = Some (ECHO_SERVICE_ID, math_method n, m)"
  "latest_calls (now, u, e, m, n) = (latest_calls (t, u, e, m, n))(ON_TEMPERATURE \<mapsto> (SENSOR_SERVICE_ID, SENSOR_GET_TEMPERATURE, now))"
  "latest_calls (t, now, e, m, n) = (latest_calls (t, u, e, m, n))(ON_UPTIME \<mapsto> (SENSOR_SERVICE_ID, SENSOR_GET_UPTIME, now))"
  "latest_calls (t, u, now, m, n) = (latest_calls (t, u, e, m, n))(ON_ECHO \<mapsto> (ECHO_SERVICE_ID, ECHO_METHOD_ECHO, now))"
  "latest_calls (t, u, e, now, n') = (latest_calls (t, u, e, m, n))(ON_MATH \<mapsto> (ECHO_SERVICE_ID, math_method n', now))"
  using callbacks_distinct by (auto simp: latest_calls_def fun_eq_iff)

lemma long_ago: "k \<le> now - (s :: u32) \<Longrightarrow> 2000 < k \<Longrightarrow> 2000 < unat (now - s)"
  unfolding word_le_nat_alt word_less_nat_alt by simp

lemma own_call:
  assumes "desktop_own now dk" "latest_calls (call_times (dk_app dk)) f = Some (sid', mid', s)" "2000 < unat (now - s)"
    and dk': "dk' = desktop_rt (\<lambda>r. snd (request (desktop_env l) sid mid p n (Some f) 0 2000 now r)) dk1"
    and dk1: "dk_rt dk1 = dk_rt dk"
      "latest_calls (call_times (dk_app dk1)) = (latest_calls (call_times (dk_app dk)))(f \<mapsto> (sid, mid, now))"
      "f \<noteq> ON_MATH \<Longrightarrow> dk_math_ctx dk1 = dk_math_ctx dk \<and> call_counter (dk_app dk1) = call_counter (dk_app dk)"
      "f = ON_MATH \<Longrightarrow> dk_math_ctx dk1 = math_operands (call_counter (dk_app dk1))"
  shows "desktop_own now dk'"
proof -
  let ?r = "(dk_rt dk)\<lparr>rt_out := []\<rparr>"
  have "own now (latest_calls (call_times (dk_app dk))) (dk_math_ctx dk = math_operands (call_counter (dk_app dk))) (rt_requests ?r)"
    using assms(1) by (simp add: desktop_own_def)
  from own_request [OF this assms(2,3), of "desktop_env l" "dk_math_ctx dk1 = math_operands (call_counter (dk_app dk1))" sid mid p n]
  have "own now (latest_calls (call_times (dk_app dk1))) (dk_math_ctx dk1 = math_operands (call_counter (dk_app dk1)))
      (rt_requests (snd (request (desktop_env l) sid mid p n (Some f) 0 2000 now ?r)))"
    using dk1(2-4) by simp
  moreover have "call_counter (dk_app dk') = call_counter (dk_app dk1)" by (simp add: dk' call_counter_times)
  ultimately show ?thesis by (simp add: desktop_own_def dk' dk1(1))
qed

lemma own_calls:
  assumes "desktop_own now dk"
  shows "desktop_own now (desktop_get_temperature l now dk)" and "desktop_own now (desktop_get_uptime l now dk)"
    and "desktop_own now (desktop_echo_call l now dk)" and "desktop_own now (desktop_math_call l now dk)"
proof -
  let ?app = "dk_app dk"
  note C = call_times_def latest_calls_update [of _ _ _ _ "call_counter ?app"]
  show "desktop_own now (desktop_get_temperature l now dk)"
  proof (cases "now - last_temp_req_ms ?app \<ge> 8000")
    case True
    show ?thesis unfolding desktop_get_temperature_def if_P [OF True]
      by (rule own_call [OF assms _ long_ago [OF True] refl])
        (simp_all add: call_times_def latest_calls_update(1) callbacks_distinct fun_upd_idem_iff latest_calls_update(5) [symmetric])
  qed (simp add: desktop_get_temperature_def assms)
  show "desktop_own now (desktop_get_uptime l now dk)"
  proof (cases "now - last_uptime_req_ms ?app \<ge> 12000")
    case True
    show ?thesis unfolding desktop_get_uptime_def if_P [OF True]
      by (rule own_call [OF assms _ long_ago [OF True] refl])
        (simp_all add: call_times_def latest_calls_update(2) callbacks_distinct latest_calls_update(6) [symmetric])
  qed (simp add: desktop_get_uptime_def assms)
  show "desktop_own now (desktop_echo_call l now dk)"
  proof (cases "now - last_echo_req_ms ?app \<ge> 7000")
    case True
    show ?thesis unfolding desktop_echo_call_def if_P [OF True]
      by (rule own_call [OF assms _ long_ago [OF True] refl])
        (simp_all add: call_times_def latest_calls_update(3) callbacks_distinct latest_calls_update(7) [symmetric])
  qed (simp add: desktop_echo_call_def assms)
  show "desktop_own now (desktop_math_call l now dk)"
  proof (cases "now - last_math_req_ms ?app \<ge> 5000")
    case True
    show ?thesis unfolding desktop_math_call_def if_P [OF True] Let_def
      by (rule own_call [OF assms _ long_ago [OF True] refl])
        (simp_all add: call_times_def latest_calls_update(4) callbacks_distinct latest_calls_update(8) [symmetric])
  qed (simp add: desktop_math_call_def assms)
qed

lemma own_sensor: "desktop_own now dk \<Longrightarrow> desktop_own now (desktop_sensor l now dk)"
  by (simp add: desktop_sensor_def own_steps own_calls)

lemma own_echo: "desktop_own now dk \<Longrightarrow> desktop_own now (desktop_echo l now dk)"
  by (simp add: desktop_echo_def own_steps own_calls)

lemma own_step:
  assumes "desktop_own before dk" "unat (now - before) < 2 ^ 31 - 2000"
  shows "desktop_own now (desktop_step l (now, epoch) dk)"
proof -
  have "own now (latest_calls (call_times (dk_app dk))) (dk_math_ctx dk = math_operands (call_counter (dk_app dk)))
      (rt_requests (process (desktop_env l) now (set_clock epoch ((dk_rt dk)\<lparr>rt_out := []\<rparr>))))"
    by (rule own_process [OF _ assms(2)]) (use assms(1) in \<open>simp_all add: desktop_own_def set_clock_def\<close>)
  then have "desktop_own now (desktop_rt (\<lambda>r. process (desktop_env l) now (set_clock epoch r)) dk)"
    by (simp add: desktop_own_def call_counter_times)
  then show ?thesis by (simp add: desktop_step_def own_steps own_sensor own_echo)
qed

lemma own_run:
  "desktop_own start dk \<Longrightarrow> ticks 2000 start (map fst ts) \<Longrightarrow> \<exists>now. desktop_own now (fold (desktop_step l) ts dk)"
proof (induction ts arbitrary: start dk)
  case (Cons t ts)
  obtain now epoch where t: "t = (now, epoch)" by fastforce
  have "desktop_own now (desktop_step l t dk)" using own_step [of start dk now l epoch] Cons.prems by (simp add: t)
  then show ?case using Cons.IH Cons.prems(2) by (simp add: t)
qed auto

lemma own_start: "desktop_own start (desktop_start l transport local_addr start)"
proof -
  have "rt_requests (dk_rt (desktop_start l transport local_addr start)) = tracker_init DefaultConfig"
    by (simp add: desktop_start_def Let_def set_local_address_def set_sd_callbacks_def set_diagnostic_callback_def
        runtime_init_def)
  moreover have "pending (tracker_init DefaultConfig) = Map.empty"
    by (auto simp: fun_eq_iff pending_def tracker_init_def find_None_iff pending_is_def default_pending_def)
  ultimately show ?thesis by (simp add: desktop_own_def own_def)
qed

lemma latest_calls_dom: "latest_calls ct f = Some c \<Longrightarrow> f \<in> {ON_TEMPERATURE, ON_UPTIME, ON_ECHO, ON_MATH}"
  by (auto simp: latest_calls_def split: prod.splits if_splits)

lemma own_count:
  assumes "desktop_own now dk"
  shows "card (dom (pending (rt_requests (dk_rt dk)))) \<le> 4"
proof -
  let ?P = "pending (rt_requests (dk_rt dk))" and ?g = "\<lambda>i. pr_callback (the (pending (rt_requests (dk_rt dk)) i))"
  let ?F = "Some ` {ON_TEMPERATURE, ON_UPTIME, ON_ECHO, ON_MATH}"
  have "inj_on ?g (dom ?P)" using assms unfolding desktop_own_def own_def inj_on_def by fastforce
  moreover have "?g ` dom ?P \<subseteq> ?F"
  proof
    fix x assume "x \<in> ?g ` dom ?P"
    then obtain i e where e: "?P i = Some e" "x = pr_callback e" by auto
    obtain f sid mid s where "latest_calls (call_times (dk_app dk)) f = Some (sid, mid, s)"
      "e = new_pending DefaultConfig sid mid 2000 s (Some f) 0 i"
      by (rule own_entry [OF assms [unfolded desktop_own_def] e(1)])
    then show "x \<in> ?F" using latest_calls_dom e(2) by (fastforce simp: new_pending_def)
  qed
  ultimately have "card (dom ?P) \<le> card ?F" by (intro card_inj_on_le) simp_all
  also have "card ?F = 4" using callbacks_distinct by (simp add: card_image)
  finally show ?thesis .
qed

text \<open>C29: The calls of the desktop do not pile up and are not mixed up: in every run of its loop whose cycles are less
  than 24 days apart, whatever the peers and the network do, at most four requests are pending, each
  one the latest call made with its callback (with the service, method, time and deadline of that call), and when a math request is
  pending, the context shared by all math calls holds the operands of that request.\<close>

theorem desktop_calls_in_order:
  assumes "ticks 2000 start (map fst ts)"
    and "dk = fold (desktop_step l) ts (desktop_start l transport local_addr start)"
  shows "card (dom (pending (rt_requests (dk_rt dk)))) \<le> 4 \<and>
    (\<forall>i e. pending (rt_requests (dk_rt dk)) i = Some e \<longrightarrow>
      (\<exists>f sid mid s. latest_calls (call_times (dk_app dk)) f = Some (sid, mid, s) \<and>
        e = new_pending DefaultConfig sid mid 2000 s (Some f) 0 i \<and>
        (f = ON_MATH \<longrightarrow> dk_math_ctx dk = math_operands (call_counter (dk_app dk)))))"
proof -
  obtain now where own: "desktop_own now dk" 
    using own_run [OF own_start [where l = l and transport = transport and local_addr = local_addr] assms(1), of l]
    unfolding assms(2) by blast
  then show ?thesis using own_count [OF own] unfolding desktop_own_def own_def by blast
qed

definition silent_link :: "nat link" where
  "silent_link = \<lparr> link_send = (\<lambda>a d t. (True, t + 1)), link_broadcast = (\<lambda>d t. (True, t + 1)), link_poll = (\<lambda>t. (None, t)) \<rparr>"

theorem desktop_calls_in_order_witness:
  "card (dom (pending (rt_requests (dk_rt (fold (desktop_step silent_link) [(100, 7), (9000, 8), (20000, 9)]
     (desktop_start silent_link 0 [9] 50)))))) \<le> 4"
proof -
  have "ticks 2000 50 (map fst [(100, 7), (9000, 8), (20000, 9 :: u64)])" by simp
  from desktop_calls_in_order [OF this refl, where l = silent_link and transport = 0 and local_addr = "[9]"] show ?thesis
    by (rule conjunct1)
qed

section \<open>The key of the echo service\<close>

lemma offer_of_other_address:
  assumes "sd_wf cfg sd" "consumer_of sd sid = Some ce" "cn_state ce = C_FOUND" "cn_session_valid ce" "ttl \<noteq> 0"
    and "major = cn_expected_major ce" "cn_provider_addr ce \<noteq> provider"
  shows "filter (\<lambda>x. \<not> is_notice x) (snd (handle_offer cfg lg sid major ttl session provider now_ms sd)) =
      (if session \<noteq> cn_session_id ce then call_lost (sd_callbacks sd) sid else []) @ call_found (sd_callbacks sd) sid provider"
    and "get_provider_address sid (fst (handle_offer cfg lg sid major ttl session provider now_ms sd)) = Some provider"
proof -
  obtain i where "t_find (consumer_is sid) (sd_consumers sd) = Some i" "t_get (sd_consumers sd) i = ce"
    using consumer_slot [OF assms(1,2)] by blast
  then show "filter (\<lambda>x. \<not> is_notice x) (snd (handle_offer cfg lg sid major ttl session provider now_ms sd)) =
      (if session \<noteq> cn_session_id ce then call_lost (sd_callbacks sd) sid else []) @ call_found (sd_callbacks sd) sid provider"
    using assms(3-7) by (simp add: handle_offer_def Let_def reboot_seen_def told_calls)
  note T = handle_offer_tables [OF assms(1) refl, of lg sid major ttl session provider now_ms]
  show "get_provider_address sid (fst (handle_offer cfg lg sid major ttl session provider now_ms sd)) = Some provider"
    by (simp add: get_provider_address_of [OF T(1)] T(2)) (simp add: assms offer_seen_def)
qed

lemma key_after_set:
  assumes "rt_wf DefaultConfig r" "card (dom (key_lookup (rt_auth r))) < MaxTrackedPeers DefaultConfig"
  shows "has_key peer (rt_auth (snd (set_hmac_key (desktop_env l) peer key r)))"
    and "rt_sd (snd (set_hmac_key (desktop_env l) peer key r)) = rt_sd r"
    and "fold app_effect (rt_out (snd (set_hmac_key (desktop_env l) peer key (r\<lparr>rt_out := []\<rparr>)))) app = app"
proof -
  have a: "rt_auth (snd (set_hmac_key (desktop_env l) peer key r)) = key_put DefaultConfig key peer (rt_auth r)"
    by (simp add: set_hmac_key_def case_prod_beta emit_def set_key_state)
  have "auth_wf DefaultConfig (key_put DefaultConfig key peer (rt_auth r))"
    by (rule keys.put_inv) (rule rt_wf_parts(2) [OF assms(1)])
  then show "has_key peer (rt_auth (snd (set_hmac_key (desktop_env l) peer key r)))"
    using assms(2) by (simp add: a has_key_def find_key_lookup key_put_table(2) [OF rt_wf_parts(2) [OF assms(1)]]
        bm_put_def key_merge_def)
  show "rt_sd (snd (set_hmac_key (desktop_env l) peer key r)) = rt_sd r"
    by (simp add: set_hmac_key_def case_prod_beta)
  have "filter (\<lambda>x. \<not> is_notice x) (rt_out (snd (set_hmac_key (desktop_env l) peer key (r\<lparr>rt_out := []\<rparr>)))) = []"
    by (simp add: set_hmac_key_def case_prod_beta emit_def silent_told)
  then show "fold app_effect (rt_out (snd (set_hmac_key (desktop_env l) peer key (r\<lparr>rt_out := []\<rparr>)))) app = app"
    using app_effects_told [of "rt_out (snd (set_hmac_key (desktop_env l) peer key (r\<lparr>rt_out := []\<rparr>)))" app] by simp
qed

text \<open>A call of the echo service is authenticated exactly when its provider has a key.\<close>

lemma echo_call_frame:
  assumes "rt_wf DefaultConfig r" "get_provider_address sid (rt_sd r) = Some peer" "sendable DefaultConfig p n"
    and "request (desktop_env l) sid mid p n cb ctx timeout t r = (Some i, r')"
  shows "\<exists>g. sent r' = sent r @ [(peer, g)] \<and> (has_auth (deserialize g) \<longleftrightarrow> has_key peer (rt_auth r))"
proof -
  have q: "request_impl (desktop_env l) peer sid mid p n cb ctx timeout t r = (Some i, r')"
    using assms(2,4) by (simp add: request_def)
  have wf: "rt_wf (en_cfg (desktop_env l)) r" "sendable (en_cfg (desktop_env l)) p n" using assms(1,3) by simp_all
  let ?g = "request_frame peer sid mid (payload_bytes p n) i r"
  have "deserialize ?g = request_header peer sid mid (length (payload_bytes p n)) i r"
    by (simp add: request_frame_def frame_of_header)
  then have "has_auth (deserialize ?g) \<longleftrightarrow> has_key peer (rt_auth r)"
    by (simp add: request_header_def make_request_header_def has_auth_def FLAG_AUTH_def)
  then show ?thesis using request_succeeded(1) [OF desktop_env_ok wf q] by blast
qed

lemma sd_frame_keeps_requests:
  assumes "rt_wf (en_cfg env) r" "cid \<noteq> 0"
    and "length payload \<le> MaxPayloadSize (en_cfg env)" "MaxPayloadSize (en_cfg env) < 2 ^ 32" "n = length payload"
  shows "rt_requests (validate_and_dispatch env source (sd_frame (sd_wire cid m rc sq n) payload) now_ms r) = rt_requests r"
proof -
  obtain r' where "only_noted r r'" "validate_and_dispatch env source (sd_frame (sd_wire cid m rc sq n) payload) now_ms r =
      handle_sd_message env source (sd_wire cid m rc sq n) payload now_ms r'"
    using sd_frame_received [OF assms] by blast
  then show ?thesis by (auto simp: only_noted_def)
qed

lemma echo_sendable: "sendable DefaultConfig (Some ECHO_MESSAGE) (length ECHO_MESSAGE)"
  by (simp add: sendable_def ECHO_MESSAGE_def) (simp add: DefaultConfig_def)

lemma echo_after_offer:
  assumes wf: "rt_wf DefaultConfig (dk_rt dk)" and app: "echo_found (dk_app dk)" "echo_hmac_set (dk_app dk)"
    and ce: "consumer_of (rt_sd (dk_rt dk)) ECHO_SERVICE_ID = Some ce" "cn_state ce = C_FOUND" "cn_session_valid ce"
    and cb: "on_service_found (sd_callbacks (rt_sd (dk_rt dk))) = Some f1" "on_service_lost (sd_callbacks (rt_sd (dk_rt dk))) = Some f2"
    and keys: "\<not> has_key peer (rt_auth (dk_rt dk))" "card (dom (key_lookup (rt_auth (dk_rt dk)))) < MaxTrackedPeers DefaultConfig"
    and offer: "peer \<noteq> cn_provider_addr ce" "length peer = 8" "ttl \<noteq> 0" "cid \<noteq> 0"
      "f = sd_frame (sd_wire cid SD_OFFER_SERVICE 0 sq 16)
        (serialize_offer DefaultConfig ECHO_SERVICE_ID (cn_expected_major ce) minor ttl session peer)"
    and dk': "dk' = desktop_set_key l (desktop_rt (validate_and_dispatch (desktop_env l) source f now) dk)"
  shows "echo_found (dk_app dk')" and "get_provider_address ECHO_SERVICE_ID (rt_sd (dk_rt dk')) = Some peer"
    and "rt_wf DefaultConfig (dk_rt dk')" and "has_key peer (rt_auth (dk_rt dk')) \<longleftrightarrow> session \<noteq> cn_session_id ce"
    and "rt_requests (dk_rt dk') = rt_requests (dk_rt dk)"
proof -
  let ?r = "(dk_rt dk)\<lparr>rt_out := []\<rparr>" and ?pl = "serialize_offer DefaultConfig ECHO_SERVICE_ID (cn_expected_major ce) minor ttl session peer"
  define r1 where "r1 = validate_and_dispatch (desktop_env l) source f now ?r"
  define dk1 where "dk1 = desktop_rt (validate_and_dispatch (desktop_env l) source f now) dk"
  have size: "TransportAddressSize DefaultConfig = 8" "MaxPayloadSize DefaultConfig = 1400" by (simp_all add: DefaultConfig_def)
  have pl: "length ?pl = 16" using offer(2) size by (simp add: SD_OFFER_PAYLOAD_SIZE_def)
  have wfr: "rt_wf (en_cfg (desktop_env l)) ?r" using wf by simp
  have pre: "length ?pl \<le> MaxPayloadSize (en_cfg (desktop_env l))" "MaxPayloadSize (en_cfg (desktop_env l)) < 2 ^ 32"
    "16 = length ?pl" "length peer = TransportAddressSize (en_cfg (desktop_env l))"
    "?pl = serialize_offer (en_cfg (desktop_env l)) ECHO_SERVICE_ID (cn_expected_major ce) minor ttl session peer"
    using pl offer(2) size by simp_all
  have r1: "r1 = validate_and_dispatch (desktop_env l) source (sd_frame (sd_wire cid SD_OFFER_SERVICE 0 sq 16) ?pl) now ?r"
    unfolding r1_def offer(5) ..
  obtain lg where H: "told r1 = told ?r @ filter (\<lambda>x. \<not> is_notice x) (snd (handle_offer DefaultConfig lg ECHO_SERVICE_ID
      (cn_expected_major ce) ttl session peer now (rt_sd ?r))) \<and>
    rt_sd r1 = fst (handle_offer DefaultConfig lg ECHO_SERVICE_ID (cn_expected_major ce) ttl session peer now (rt_sd ?r)) \<and>
    rt_auth r1 = rt_auth ?r"
    using offer_handled [OF wfr pre(1-3) offer(4) pre(4,5) r1] unfolding desktop_cfg by blast
  note h = H [THEN conjunct1] H [THEN conjunct2, THEN conjunct1] H [THEN conjunct2, THEN conjunct2]
  note sd = rt_wf_parts(5) [OF wf]
  note O = offer_of_other_address [OF sd ce offer(3) refl, of peer lg session now]
  have "told r1 = filter (\<lambda>x. \<not> is_notice x) (rt_out r1)" by (simp add: told_def)
  have t: "told r1 = (if session \<noteq> cn_session_id ce then call_lost (sd_callbacks (rt_sd (dk_rt dk))) ECHO_SERVICE_ID else []) @
      call_found (sd_callbacks (rt_sd (dk_rt dk))) ECHO_SERVICE_ID peer"
    using h(1) O(1) offer(1) by (simp add: told_def)
  have dk1: "dk_rt dk1 = r1\<lparr>rt_out := []\<rparr>" "dk_app dk1 = fold app_effect (told r1) (dk_app dk)"
    by (simp_all add: dk1_def r1_def told_def app_effects_told)
  have a1: "echo_found (dk_app dk1)" "echo_hmac_set (dk_app dk1) \<longleftrightarrow> session = cn_session_id ce"
    using app cb by (auto simp: dk1(2) t call_lost_def call_found_def app_service_lost_def app_service_found_def Let_def
        ECHO_SERVICE_ID_def SENSOR_SERVICE_ID_def)
  have p1: "get_provider_address ECHO_SERVICE_ID (rt_sd (dk_rt dk1)) = Some peer" using O(2) offer(1) by (simp add: dk1(1) h(2))
  have k1: "\<not> has_key peer (rt_auth (dk_rt dk1))" using keys(1) by (simp add: dk1(1) h(3))
  have wf1: "rt_wf DefaultConfig (dk_rt dk1)"
    using rt_wf_validate_and_dispatch [OF desktop_env_ok wfr, of source f now] by (simp add: dk1(1) r1_def)
  have room: "card (dom (key_lookup (rt_auth (dk_rt dk1)))) < MaxTrackedPeers DefaultConfig" using keys(2) by (simp add: dk1(1) h(3))
  have dk'1: "dk' = desktop_set_key l dk1" by (simp add: dk' dk1_def)
  have "rt_requests r1 = rt_requests ?r" unfolding r1
    by (rule sd_frame_keeps_requests [OF wfr offer(4) pre(1-3)])
  then have q1: "rt_requests (dk_rt dk1) = rt_requests (dk_rt dk)" by (simp add: dk1(1))
  have K: "echo_found (dk_app dk') \<and> rt_sd (dk_rt dk') = rt_sd (dk_rt dk1) \<and> rt_wf DefaultConfig (dk_rt dk') \<and>
      (has_key peer (rt_auth (dk_rt dk')) \<longleftrightarrow> session \<noteq> cn_session_id ce) \<and>
      rt_requests (dk_rt dk') = rt_requests (dk_rt dk)"
  proof (cases "session = cn_session_id ce")
    case True
    then show ?thesis using a1 k1 wf1 q1 by (simp add: dk'1 desktop_set_key_def)
  next
    case False
    have "rt_wf DefaultConfig ((dk_rt dk1)\<lparr>rt_out := []\<rparr>)" using wf1 by simp
    note S = key_after_set [OF this, where peer = peer and l = l and key = DEMO_HMAC_KEY]
    have "rt_wf (en_cfg (desktop_env l)) (snd (set_hmac_key (desktop_env l) peer DEMO_HMAC_KEY ((dk_rt dk1)\<lparr>rt_out := []\<rparr>)))"
      by (rule rt_wf_settings(4)) (simp add: wf1)
    then show ?thesis using False a1 p1 S room q1 by (simp add: dk'1 desktop_set_key_def)
  qed
  then show "echo_found (dk_app dk')" "get_provider_address ECHO_SERVICE_ID (rt_sd (dk_rt dk')) = Some peer"
    "rt_wf DefaultConfig (dk_rt dk')" "has_key peer (rt_auth (dk_rt dk')) \<longleftrightarrow> session \<noteq> cn_session_id ce"
    "rt_requests (dk_rt dk') = rt_requests (dk_rt dk)" using p1 by simp_all
qed

text \<open>C39: The key of the echo service follows its provider only when the offer looks like a reboot: when the
  service is offered from a new address, the desktop takes the new address at once, but it sets the key for it
  when it next checks the key if and only if the offer has a new session id; with the old session id the calls
  that it announces as authenticated go to the new address without authentication.\<close>

theorem echo_key_follows_reboots_only:
  assumes wf: "rt_wf DefaultConfig (dk_rt dk)" and app: "echo_found (dk_app dk)" "echo_hmac_set (dk_app dk)"
    and ce: "consumer_of (rt_sd (dk_rt dk)) ECHO_SERVICE_ID = Some ce" "cn_state ce = C_FOUND" "cn_session_valid ce"
    and cb: "on_service_found (sd_callbacks (rt_sd (dk_rt dk))) = Some f1" "on_service_lost (sd_callbacks (rt_sd (dk_rt dk))) = Some f2"
    and keys: "\<not> has_key peer (rt_auth (dk_rt dk))" "card (dom (key_lookup (rt_auth (dk_rt dk)))) < MaxTrackedPeers DefaultConfig"
    and offer: "peer \<noteq> cn_provider_addr ce" "length peer = 8" "ttl \<noteq> 0" "cid \<noteq> 0"
      "f = sd_frame (sd_wire cid SD_OFFER_SERVICE 0 sq 16)
        (serialize_offer DefaultConfig ECHO_SERVICE_ID (cn_expected_major ce) minor ttl session peer)"
    and dk': "dk' = desktop_set_key l (desktop_rt (validate_and_dispatch (desktop_env l) source f now) dk)"
    and call: "request (desktop_env l) ECHO_SERVICE_ID ECHO_METHOD_ECHO (Some ECHO_MESSAGE) (length ECHO_MESSAGE)
      (Some ON_ECHO) 0 2000 now' (dk_rt dk') = (Some i, r')"
  shows "echo_found (dk_app dk') \<and> get_provider_address ECHO_SERVICE_ID (rt_sd (dk_rt dk')) = Some peer \<and>
    (\<exists>g. sent r' = sent (dk_rt dk') @ [(peer, g)] \<and> (has_auth (deserialize g) \<longleftrightarrow> session \<noteq> cn_session_id ce))"
proof -
  note A = echo_after_offer [OF wf app ce cb keys offer dk']
  show ?thesis using echo_call_frame [OF A(3,2) echo_sendable call] A(1,2,4) by simp
qed

text \<open>A request is made when its provider is known, a slot is free and the transport takes the frame.\<close>

lemma request_made:
  assumes "env_ok env" "rt_wf (en_cfg env) r" "get_provider_address sid (rt_sd r) = Some peer" "sendable (en_cfg env) p n"
    and "active_count (rt_requests r) < MaxPendingRequests (en_cfg env)" "\<And>d t. fst (impl_send env peer d t)"
  shows "\<exists>i r'. request env sid mid p n cb ctx timeout t r = (Some i, r')"
  using request_impl_made [OF assms(1,2,4,5,6)] by (simp add: request_def assms(3))

text \<open>A desktop that has found the echo service at one address, and an offer from another.\<close>

definition echo_sd :: ServiceDiscovery where
  "echo_sd = (fold (sd_apply DefaultConfig)
     [Op_Find ECHO_SERVICE_ID 1 0, Op_Rx_Offer ECHO_SERVICE_ID 1 30 7 [1, 1, 1, 1, 1, 1, 1, 1] 40] (sd_init DefaultConfig))
     \<lparr>sd_callbacks := \<lparr> on_service_found = Some 11, service_found_ctx = 0, on_service_lost = Some 12,
       service_lost_ctx = 0, on_subscription_ack = Some 13, subscription_ack_ctx = 0 \<rparr>\<rparr>"

definition echo_desktop :: "nat desktop" where
  "echo_desktop = (let dk = desktop_start silent_link 0 [9, 9, 9, 9, 9, 9, 9, 9] 0
     in dk\<lparr>dk_rt := (runtime_init (desktop_env silent_link) 0 \<lparr>ta_epoch = 0, ta_prints = []\<rparr> 7)\<lparr>rt_sd := echo_sd\<rparr>,
           dk_app := (dk_app dk)\<lparr>echo_found := True, echo_hmac_set := True\<rparr>\<rparr>)"

definition echo_moved :: bytes where
  "echo_moved = sd_frame (sd_wire 7 SD_OFFER_SERVICE 0 1 16)
     (serialize_offer DefaultConfig ECHO_SERVICE_ID 1 0 30 7 [2, 2, 2, 2, 2, 2, 2, 2])"

lemma echo_desktop_wf: "rt_wf DefaultConfig (dk_rt echo_desktop)"
proof -
  have "sd_reach DefaultConfig (fold (sd_apply DefaultConfig) ops (sd_init DefaultConfig))" for ops
    by (induction ops rule: rev_induct) (auto intro: sd_start sd_step)
  then have "sd_wf DefaultConfig echo_sd" unfolding echo_sd_def by (intro sd_reach_wf sd_callback)
  then show ?thesis using rt_wf_init [of "desktop_env silent_link"]
    by (simp add: echo_desktop_def Let_def rt_wf_set(5))
qed

lemma no_keys: "\<not> has_key peer (auth_init cfg)" "key_lookup (auth_init cfg) = Map.empty"
proof -
  show "key_lookup (auth_init cfg) = Map.empty" by (simp add: auth_init_def t_lookup_empty)
  then show "\<not> has_key peer (auth_init cfg)" by (simp add: has_key_def find_key_lookup [OF auth_wf_init])
qed

theorem echo_key_follows_reboots_only_witness:
  "\<exists>r' g. snd (request (desktop_env silent_link) ECHO_SERVICE_ID ECHO_METHOD_ECHO (Some ECHO_MESSAGE) (length ECHO_MESSAGE)
      (Some ON_ECHO) 0 2000 60 (dk_rt (desktop_set_key silent_link
        (desktop_rt (validate_and_dispatch (desktop_env silent_link) [3] echo_moved 50) echo_desktop)))) = r' \<and>
     ([2, 2, 2, 2, 2, 2, 2, 2], g) \<in> set (sent r') \<and> \<not> has_auth (deserialize g)"
proof -
  let ?peer = "[2, 2, 2, 2, 2, 2, 2, 2] :: addr" and ?r = "dk_rt echo_desktop"
  let ?dk = "desktop_set_key silent_link (desktop_rt (validate_and_dispatch (desktop_env silent_link) [3] echo_moved 50) echo_desktop)"
  have r: "rt_sd ?r = echo_sd" "rt_auth ?r = auth_init DefaultConfig" "rt_requests ?r = tracker_init DefaultConfig"
    "echo_found (dk_app echo_desktop)" "echo_hmac_set (dk_app echo_desktop)"
    by (simp_all add: echo_desktop_def Let_def runtime_init_def)
  have "map_option (\<lambda>ce. (cn_state ce, cn_session_valid ce, cn_session_id ce, cn_expected_major ce, cn_provider_addr ce))
      (consumer_of echo_sd ECHO_SERVICE_ID) = Some (C_FOUND, True, 7, 1, [1, 1, 1, 1, 1, 1, 1, 1])" by code_simp
  then obtain ce where ce: "consumer_of (rt_sd ?r) ECHO_SERVICE_ID = Some ce" "cn_state ce = C_FOUND" "cn_session_valid ce"
    "cn_session_id ce = 7" "cn_expected_major ce = 1" "cn_provider_addr ce = [1, 1, 1, 1, 1, 1, 1, 1]" by (auto simp: r)
  have cb: "on_service_found (sd_callbacks (rt_sd ?r)) = Some 11" "on_service_lost (sd_callbacks (rt_sd ?r)) = Some 12"
    by (simp_all add: r echo_sd_def)
  have keys: "\<not> has_key ?peer (rt_auth ?r)" "card (dom (key_lookup (rt_auth ?r))) < MaxTrackedPeers DefaultConfig"
    by (simp_all add: r no_keys) (simp add: DefaultConfig_def)
  have offer: "?peer \<noteq> cn_provider_addr ce" "length ?peer = 8" "(30 :: u16) \<noteq> 0" "(7 :: u16) \<noteq> 0"
    "echo_moved = sd_frame (sd_wire 7 SD_OFFER_SERVICE 0 1 16)
      (serialize_offer DefaultConfig ECHO_SERVICE_ID (cn_expected_major ce) 0 30 7 ?peer)"
    by (simp_all add: ce echo_moved_def)
  note A = echo_after_offer [OF echo_desktop_wf r(4,5) ce(1-3) cb keys offer refl, where l = silent_link and source = "[3]" and now = 50]
  have free: "active_count (rt_requests (dk_rt ?dk)) < MaxPendingRequests DefaultConfig"
    by (simp add: A(5) r active_count_def tracker_init_def default_pending_def) (simp add: DefaultConfig_def)
  have sends: "fst (impl_send (desktop_env silent_link) ?peer d t)" for d t by (simp add: desktop_env_def silent_link_def)
  obtain i r' where q: "request (desktop_env silent_link) ECHO_SERVICE_ID ECHO_METHOD_ECHO (Some ECHO_MESSAGE) (length ECHO_MESSAGE)
      (Some ON_ECHO) 0 2000 60 (dk_rt ?dk) = (Some i, r')"
    using request_made [OF desktop_env_ok [of silent_link] _ A(2), unfolded desktop_cfg, OF A(3) echo_sendable free sends] by blast
  show ?thesis
    using echo_key_follows_reboots_only [OF echo_desktop_wf r(4,5) ce(1-3) cb keys offer refl q] q ce(4) by auto
qed

end
