(* ===== verification/Node_Binding.thy ===== *)
theory Node_Binding
  imports Node_Transport Runtime_Api
begin

text \<open>
  The Node.js binding (\<open>SeroRuntime\<close>, \<open>JsService\<close>, \<open>JsEventHandler\<close> and \<open>PendingRequest\<close> in
  \<open>node-module/src/sero-node.cpp\<close>).  JavaScript functions are numbers; calling one is a parameter
  (\<open>js\<close>).  The objects the binding allocates have addresses that are never reused, the sets of live
  addresses are part of the state, and a use of a dead object, of the runtime after \<open>destroy\<close> or of a
  null buffer is recorded as a fault: in the C++ it is undefined behaviour.

  The callbacks of the runtime run synchronously during a runtime call; the model delivers the
  effects of the call in order when it returns.  Arguments are the numbers after
  \<open>Uint32Value()\<close>, cut to their width by the binding as in the code; an absent optional argument is
  \<open>None\<close>.
\<close>

section \<open>JavaScript services\<close>

datatype fault = Null_Runtime | Freed_Request | Freed_Handler | Freed_Service | Null_Response

text \<open>What a service handler returns: an object with a return code and a response, or anything else.\<close>

datatype js_reply = Js_Reply u32 "bytes option" | Js_Not_Object

record 'j js =
  js_on_request :: "nat \<Rightarrow> u16 \<Rightarrow> bytes \<Rightarrow> 'j \<Rightarrow> js_reply \<times> 'j"
  js_is_ready :: "nat \<Rightarrow> 'j \<Rightarrow> bool"

record JsService =
  on_request_cb :: nat
  is_ready_cb :: "nat option"

text \<open>The side of the services: the JavaScript world, the live service objects, and their faults.\<close>

record 'j app =
  ap_world :: 'j
  ap_services :: "nat \<rightharpoonup> JsService"
  ap_faults :: "fault list"

definition js_service_on_request ::
    "'j js \<Rightarrow> nat \<Rightarrow> u16 \<Rightarrow> bytes \<Rightarrow> bytes option \<Rightarrow> nat \<Rightarrow> 'j app \<Rightarrow>
       ReturnCode \<times> bytes option \<times> nat \<times> 'j app" where
  "js_service_on_request js n mid payload response response_length a =
     (case ap_services a n of
        None \<Rightarrow> (E_NOT_OK, response, 0, a\<lparr>ap_faults := ap_faults a @ [Freed_Service]\<rparr>)
      | Some svc \<Rightarrow>
          (case js_on_request js (on_request_cb svc) mid payload (ap_world a) of (result, world) \<Rightarrow>
             let a = a\<lparr>ap_world := world\<rparr> in
             case result of
               Js_Not_Object \<Rightarrow> (E_NOT_OK, response, 0, a)
             | Js_Reply rc data \<Rightarrow>
                 (case data of
                    None \<Rightarrow> (ucast rc, response, 0, a)
                  | Some b \<Rightarrow>
                      let len = min (length b) (MaxPayloadSize DefaultConfig) in
                      (case response of
                         None \<Rightarrow> (ucast rc, None, len,
                           if len > 0 then a\<lparr>ap_faults := ap_faults a @ [Null_Response]\<rparr> else a)
                       | Some buf \<Rightarrow> (ucast rc, Some (blit 0 (take len b) buf), len, a)))))"

text \<open>\<open>isReady\<close> is taken as a query: what it answers may depend on the JavaScript world, but the model has no place for
  changes it makes there.\<close>

definition js_service_is_ready :: "'j js \<Rightarrow> nat \<Rightarrow> 'j app \<Rightarrow> bool" where
  "js_service_is_ready js n a =
     (case ap_services a n of
        None \<Rightarrow> False
      | Some svc \<Rightarrow> (case is_ready_cb svc of None \<Rightarrow> True | Some f \<Rightarrow> js_is_ready js f (ap_world a)))"

definition node_env :: "'s sockets \<Rightarrow> 'j js \<Rightarrow> ('s udp, 'j app) env" where
  "node_env os js = \<lparr> en_cfg = DefaultConfig, impl_send = udp_send os, impl_broadcast = udp_broadcast os,
     impl_poll = udp_poll os, app_is_ready = js_service_is_ready js,
     app_on_request = js_service_on_request js \<rparr>"

section \<open>The state of an instance\<close>

text \<open>
  The runtime refers to the transport object; while there is one, its \<open>rt_transport\<close> is the state of
  the transport, and \<open>nd_transport\<close> is the state before and after.
\<close>

datatype promise = Open | Resolved u8 bytes | Rejected string

text \<open>Calls of JavaScript functions by the trampolines.\<close>

datatype js_call =
  Call_Event nat u16 u16 bytes
| Call_Found nat u16 addr
| Call_Lost nat u16
| Call_Ack nat u16 u16 u8 u16
| Call_Diag nat string "bytes option"

record ('s, 'j) node =
  nd_transport :: "'s udp"
  nd_runtime :: "('s udp, 'j app) runtime option"
  nd_services :: "u16 \<rightharpoonup> nat"
  nd_event_handlers :: "u32 \<rightharpoonup> nat"
  nd_pending :: "nat set"
  nd_requests :: "nat set"
  nd_handler_objects :: "nat \<rightharpoonup> nat"
  nd_next :: nat
  nd_promises :: "nat \<rightharpoonup> promise"
  nd_processing :: bool
  nd_on_found :: "nat option"
  nd_on_lost :: "nat option"
  nd_on_ack :: "nat option"
  nd_on_diag :: "nat option"
  nd_exception :: "string option"
  nd_calls :: "js_call list"
  nd_faults :: "fault list"

definition fail :: "fault \<Rightarrow> ('s, 'j) node \<Rightarrow> ('s, 'j) node" where
  "fail f nd = nd\<lparr>nd_faults := nd_faults nd @ [f]\<rparr>"

definition js_calls :: "js_call list \<Rightarrow> ('s, 'j) node \<Rightarrow> ('s, 'j) node" where
  "js_calls cs nd = nd\<lparr>nd_calls := nd_calls nd @ cs\<rparr>"

text \<open>What a method returns to JavaScript.\<close>

datatype js_value =
  Js_Undefined
| Js_Bool bool
| Js_Promise nat
| Js_Counters "(string \<times> u32) list" nat
| Js_Dtcs "Dtc list"
| Js_Address addr
| Js_Throws string

definition diag_counter_name :: "DiagnosticCounter \<Rightarrow> string" where
  "diag_counter_name c = (case c of
     CrcErrors \<Rightarrow> ''crcErrors'' | VersionMismatches \<Rightarrow> ''versionMismatches''
   | OversizedPayloads \<Rightarrow> ''oversizedPayloads'' | TypeIdMismatches \<Rightarrow> ''typeIdMismatches''
   | DuplicateMessages \<Rightarrow> ''duplicateMessages'' | StaleMessages \<Rightarrow> ''staleMessages''
   | AuthFailures \<Rightarrow> ''authFailures'' | UnknownMessageTypes \<Rightarrow> ''unknownMessageTypes''
   | DroppedMessages \<Rightarrow> ''droppedMessages'')"

definition event_handler_key :: "u16 \<Rightarrow> u16 \<Rightarrow> u32" where
  "event_handler_key sid eid = push_bit 16 (ucast sid) OR ucast eid"

section \<open>Trampolines\<close>

text \<open>The static functions that are registered as callbacks, and their function numbers.\<close>

definition REQUEST_COMPLETE_CB :: nat where "REQUEST_COMPLETE_CB = 1"
definition SD_SERVICE_FOUND_CB :: nat where "SD_SERVICE_FOUND_CB = 2"
definition SD_SERVICE_LOST_CB :: nat where "SD_SERVICE_LOST_CB = 3"
definition SD_SUBSCRIPTION_ACK_CB :: nat where "SD_SUBSCRIPTION_ACK_CB = 4"
definition DIAG_CB :: nat where "DIAG_CB = 5"

definition request_complete_cb :: "ReturnCode \<Rightarrow> bytes option \<Rightarrow> nat \<Rightarrow> ('s, 'j) node \<Rightarrow> ('s, 'j) node" where
  "request_complete_cb rc payload p nd =
     (if p \<notin> nd_requests nd then fail Freed_Request nd
      else nd\<lparr> nd_pending := nd_pending nd - {p},
               nd_promises := (nd_promises nd)(p \<mapsto> Resolved rc (case payload of None \<Rightarrow> [] | Some b \<Rightarrow> b)),
               nd_requests := nd_requests nd - {p} \<rparr>)"

definition sd_on_service_found :: "u16 \<Rightarrow> addr \<Rightarrow> ('s, 'j) node \<Rightarrow> ('s, 'j) node" where
  "sd_on_service_found sid a nd =
     (case nd_on_found nd of
        None \<Rightarrow> nd
      | Some f \<Rightarrow> if nd_processing nd then js_calls [Call_Found f sid a] nd else nd)"

definition sd_on_service_lost :: "u16 \<Rightarrow> ('s, 'j) node \<Rightarrow> ('s, 'j) node" where
  "sd_on_service_lost sid nd =
     (case nd_on_lost nd of
        None \<Rightarrow> nd
      | Some f \<Rightarrow> if nd_processing nd then js_calls [Call_Lost f sid] nd else nd)"

definition sd_on_subscription_ack :: "u16 \<Rightarrow> u16 \<Rightarrow> ReturnCode \<Rightarrow> u16 \<Rightarrow> ('s, 'j) node \<Rightarrow> ('s, 'j) node" where
  "sd_on_subscription_ack sid eid rc ttl nd =
     (case nd_on_ack nd of
        None \<Rightarrow> nd
      | Some f \<Rightarrow> if nd_processing nd then js_calls [Call_Ack f sid eid rc ttl] nd else nd)"

definition diag_callback_trampoline ::
    "DiagnosticCounter \<Rightarrow> bytes option \<Rightarrow> ('s, 'j) node \<Rightarrow> ('s, 'j) node" where
  "diag_callback_trampoline counter header nd =
     (case nd_on_diag nd of
        None \<Rightarrow> nd
      | Some f \<Rightarrow>
          if nd_processing nd
          then js_calls [Call_Diag f (diag_counter_name counter) (map_option (take HEADER_SIZE) header)] nd
          else nd)"

definition js_event_handler_on_event :: "nat \<Rightarrow> u16 \<Rightarrow> u16 \<Rightarrow> bytes \<Rightarrow> ('s, 'j) node \<Rightarrow> ('s, 'j) node" where
  "js_event_handler_on_event h sid eid payload nd =
     (case nd_handler_objects nd h of
        None \<Rightarrow> fail Freed_Handler nd
      | Some f \<Rightarrow> js_calls [Call_Event f sid eid payload] nd)"

fun deliver :: "effect \<Rightarrow> ('s, 'j) node \<Rightarrow> ('s, 'j) node" where
  "deliver (Out_Request_Done f p rc payload) nd = request_complete_cb rc payload p nd"
| "deliver (Out_Service_Found f ctx sid a) nd = sd_on_service_found sid a nd"
| "deliver (Out_Service_Lost f ctx sid) nd = sd_on_service_lost sid nd"
| "deliver (Out_Subscription_Ack f ctx sid eid rc ttl) nd = sd_on_subscription_ack sid eid rc ttl nd"
| "deliver (Out_Diag f ctx counter header) nd = diag_callback_trampoline counter header nd"
| "deliver (Out_Event h sid eid payload) nd = js_event_handler_on_event h sid eid payload nd"
| "deliver (Out_Log f ctx e) nd = nd"
| "deliver (Out_Send a d ok) nd = nd"
| "deliver (Out_Broadcast d ok) nd = nd"
| "deliver (Out_Service_Call n mid p) nd = nd"

text \<open>A call \<open>runtime_->op(...)\<close>, its callbacks delivered.\<close>

definition run_rt ::
    "(('s udp, 'j app) runtime \<Rightarrow> 'x \<times> ('s udp, 'j app) runtime) \<Rightarrow> ('s udp, 'j app) runtime \<Rightarrow>
       ('s, 'j) node \<Rightarrow> 'x \<times> ('s, 'j) node" where
  "run_rt f r nd =
     (case f (r\<lparr>rt_out := []\<rparr>) of (x, r') \<Rightarrow>
        (x, fold deliver (rt_out r') (nd\<lparr>nd_runtime := Some (r'\<lparr>rt_out := []\<rparr>)\<rparr>)))"

text \<open>Dereferencing \<open>runtime_\<close>.\<close>

definition on_runtime ::
    "(('s udp, 'j app) runtime \<Rightarrow> ('s, 'j) node \<Rightarrow> js_value \<times> ('s, 'j) node) \<Rightarrow> ('s, 'j) node \<Rightarrow>
       js_value \<times> ('s, 'j) node" where
  "on_runtime f nd =
     (case nd_runtime nd of None \<Rightarrow> (Js_Undefined, fail Null_Runtime nd) | Some r \<Rightarrow> f r nd)"

text \<open>
  \<open>ensure_alive\<close> schedules an exception and returns to its caller; a call into the engine with an
  exception pending fails and takes the method out by that exception.
\<close>

definition ensure_alive :: "('s, 'j) node \<Rightarrow> ('s, 'j) node" where
  "ensure_alive nd =
     (if nd_runtime nd = None then nd\<lparr>nd_exception := Some ''SeroRuntime has been destroyed''\<rparr> else nd)"

definition engine ::
    "(('s, 'j) node \<Rightarrow> js_value \<times> ('s, 'j) node) \<Rightarrow> ('s, 'j) node \<Rightarrow> js_value \<times> ('s, 'j) node" where
  "engine f nd =
     (case nd_exception nd of Some m \<Rightarrow> (Js_Throws m, nd\<lparr>nd_exception := None\<rparr>) | None \<Rightarrow> f nd)"

definition throw :: "string \<Rightarrow> ('s, 'j) node \<Rightarrow> js_value \<times> ('s, 'j) node" where
  "throw m nd = (Js_Throws m, nd)"

end
