(* ===== verification/Node_Api.thy ===== *)
theory Node_Api
  imports Node_Binding Text_Output
begin

text \<open>
  The methods of \<open>SeroRuntime\<close> in \<open>node-module/src/sero-node.cpp\<close>, in the order of the file.  The value
  of the monotonic clock is the argument \<open>clock\<close>.  The constructor of an instance and its destruction are included.
\<close>

section \<open>Life of an instance\<close>

record node_options =
  opt_bind_ip :: "string option"
  opt_port :: "u32 option"
  opt_client_id :: "u32 option"

definition node_construct ::
    "'s sockets \<Rightarrow> 'j js \<Rightarrow> node_options option \<Rightarrow> 's \<Rightarrow> 'j \<Rightarrow> string + ('s, 'j) node" where
  "node_construct os js options s world =
     (case options of
        None \<Rightarrow> Inl ''Expected options object: { bindIp?: string, port: number, clientId: number }''
      | Some opts \<Rightarrow>
          let bind_ip = (case opt_bind_ip opts of None \<Rightarrow> ''0.0.0.0'' | Some ip \<Rightarrow> ip) in
          (case opt_port opts of
             None \<Rightarrow> Inl ''Missing required option: port''
           | Some port \<Rightarrow>
               (case opt_client_id opts of
                  None \<Rightarrow> Inl ''Missing required option: clientId''
                | Some client_id \<Rightarrow>
                    (case udp_open os bind_ip (ucast port) (udp_init s) of (ok, t) \<Rightarrow>
                       if \<not> ok then Inl (''Failed to initialise UDP transport on '' @ bind_ip @ '':'' @ decimal (unat (ucast port :: u16)))
                       else
                         let r = runtime_init (node_env os js) t
                               \<lparr>ap_world = world, ap_services = Map.empty, ap_faults = []\<rparr> (ucast client_id);
                             r = set_local_address (udp_local_addr t) r;
                             r = set_sd_callbacks
                               \<lparr> on_service_found = Some SD_SERVICE_FOUND_CB, service_found_ctx = 0,
                                 on_service_lost = Some SD_SERVICE_LOST_CB, service_lost_ctx = 0,
                                 on_subscription_ack = Some SD_SUBSCRIPTION_ACK_CB,
                                 subscription_ack_ctx = 0 \<rparr> r;
                             r = set_diagnostic_callback (Some DIAG_CB) 0 r
                         in Inr \<lparr> nd_transport = t, nd_runtime = Some r, nd_services = Map.empty,
                              nd_event_handlers = Map.empty, nd_pending = {}, nd_requests = {},
                              nd_handler_objects = Map.empty, nd_next = 0, nd_promises = Map.empty,
                              nd_processing = False, nd_on_found = None, nd_on_lost = None,
                              nd_on_ack = None, nd_on_diag = None, nd_exception = None,
                              nd_calls = [], nd_faults = [] \<rparr>))))"

definition node_process :: "'s sockets \<Rightarrow> 'j js \<Rightarrow> u32 \<Rightarrow> u32 option \<Rightarrow> ('s, 'j) node \<Rightarrow> js_value \<times> ('s, 'j) node" where
  "node_process os js clock now nd =
     on_runtime (\<lambda>r nd.
       (let now = (case now of None \<Rightarrow> clock | Some n \<Rightarrow> n);
            (_, nd) = run_rt (\<lambda>r. ((), process (node_env os js) now r)) r (nd\<lparr>nd_processing := True\<rparr>)
        in (Js_Undefined, nd\<lparr>nd_processing := False\<rparr>))) (ensure_alive nd)"

definition reject_all :: "nat set \<Rightarrow> string \<Rightarrow> (nat \<rightharpoonup> promise) \<Rightarrow> nat \<rightharpoonup> promise" where
  "reject_all ps m promises = (\<lambda>p. if p \<in> ps then Some (Rejected m) else promises p)"

definition do_destroy :: "'s sockets \<Rightarrow> ('s, 'j) node \<Rightarrow> ('s, 'j) node" where
  "do_destroy os nd =
     (let t = (case nd_runtime nd of None \<Rightarrow> nd_transport nd | Some r \<Rightarrow> rt_transport r);
          nd = (if nd_pending nd \<subseteq> nd_requests nd then nd else fail Freed_Request nd)
      in nd\<lparr> nd_promises := reject_all (nd_pending nd) ''Runtime destroyed'' (nd_promises nd),
             nd_requests := nd_requests nd - nd_pending nd, nd_pending := {}, nd_runtime := None,
             nd_services := Map.empty, nd_event_handlers := Map.empty,
             nd_handler_objects := (\<lambda>h. if h \<in> ran (nd_event_handlers nd) then None else nd_handler_objects nd h),
             nd_transport := udp_shutdown os t \<rparr>)"

definition node_destroy :: "'s sockets \<Rightarrow> ('s, 'j) node \<Rightarrow> js_value \<times> ('s, 'j) node" where
  "node_destroy os nd = (Js_Undefined, do_destroy os nd)"

section \<open>Services and events of the provider\<close>

definition free_service :: "nat \<Rightarrow> ('s, 'j) node \<Rightarrow> ('s, 'j) node" where
  "free_service n nd = nd\<lparr>nd_runtime := map_option (\<lambda>r. r\<lparr>rt_app :=
     (rt_app r)\<lparr>ap_services := (ap_services (rt_app r))(n := None)\<rparr>\<rparr>) (nd_runtime nd)\<rparr>"

definition node_register_service ::
    "'s sockets \<Rightarrow> 'j js \<Rightarrow> u32 \<Rightarrow> nat \<Rightarrow> nat option \<Rightarrow> u32 option \<Rightarrow> u32 option \<Rightarrow> bool option \<Rightarrow> ('s, 'j) node \<Rightarrow>
       js_value \<times> ('s, 'j) node" where
  "node_register_service os js sid on_request is_ready major minor auth_required nd =
     engine (on_runtime (\<lambda>r nd.
       (let sid = ucast sid; n = nd_next nd;
            major = (case major of None \<Rightarrow> 1 | Some v \<Rightarrow> ucast v);
            minor = (case minor of None \<Rightarrow> 0 | Some v \<Rightarrow> ucast v);
            auth_required = (case auth_required of None \<Rightarrow> False | Some b \<Rightarrow> b);
            svc = \<lparr>on_request_cb = on_request, is_ready_cb = is_ready\<rparr>;
            r = r\<lparr>rt_app := (rt_app r)\<lparr>ap_services := (ap_services (rt_app r))(n \<mapsto> svc)\<rparr>\<rparr>;
            (ok, nd) = run_rt (rt_register_service (node_env os js) sid (AppCtx n) major minor auth_required) r
              (nd\<lparr>nd_next := n + 1\<rparr>)
        in if ok then
             (Js_Bool True,
              (case nd_services nd sid of None \<Rightarrow> nd | Some old \<Rightarrow> free_service old nd)
                \<lparr>nd_services := (nd_services nd)(sid \<mapsto> n)\<rparr>)
           else (Js_Bool False, free_service n nd)))) (ensure_alive nd)"

definition node_unregister_service :: "'s sockets \<Rightarrow> 'j js \<Rightarrow> u32 \<Rightarrow> ('s, 'j) node \<Rightarrow> js_value \<times> ('s, 'j) node" where
  "node_unregister_service os js sid nd =
     on_runtime (\<lambda>r nd.
       (let sid = ucast sid;
            (ok, nd) = run_rt (rt_unregister_service (node_env os js) sid) r nd
        in (Js_Bool ok,
            (case nd_services nd sid of None \<Rightarrow> nd | Some old \<Rightarrow> free_service old nd)
              \<lparr>nd_services := (nd_services nd)(sid := None)\<rparr>))) (ensure_alive nd)"

definition node_offer_service ::
    "'s sockets \<Rightarrow> 'j js \<Rightarrow> u32 \<Rightarrow> u32 \<Rightarrow> u32 option \<Rightarrow> ('s, 'j) node \<Rightarrow> js_value \<times> ('s, 'j) node" where
  "node_offer_service os js clock sid ttl nd =
     on_runtime (\<lambda>r nd.
       (let ttl = (case ttl of None \<Rightarrow> OfferTtlSeconds DefaultConfig | Some t \<Rightarrow> ucast t);
            (ok, nd) = run_rt (offer_service (node_env os js) (ucast sid) ttl clock) r nd
        in (Js_Bool ok, nd))) (ensure_alive nd)"

definition node_stop_offer :: "'s sockets \<Rightarrow> 'j js \<Rightarrow> u32 \<Rightarrow> ('s, 'j) node \<Rightarrow> js_value \<times> ('s, 'j) node" where
  "node_stop_offer os js sid nd =
     on_runtime (\<lambda>r nd.
       (let (_, nd) = run_rt (\<lambda>r. ((), stop_offer (node_env os js) (ucast sid) r)) r nd
        in (Js_Undefined, nd))) (ensure_alive nd)"

definition node_register_event ::
    "'s sockets \<Rightarrow> 'j js \<Rightarrow> u32 \<Rightarrow> u32 \<Rightarrow> ('s, 'j) node \<Rightarrow> js_value \<times> ('s, 'j) node" where
  "node_register_event os js sid eid nd =
     on_runtime (\<lambda>r nd.
       (let (ok, nd) = run_rt (rt_register_event (node_env os js) (ucast sid) (ucast eid)) r nd
        in (Js_Bool ok, nd))) (ensure_alive nd)"

text \<open>A payload argument that is no buffer is a null pointer of length zero.\<close>

definition buffer_length :: "bytes option \<Rightarrow> nat" where
  "buffer_length payload = (case payload of None \<Rightarrow> 0 | Some b \<Rightarrow> length b)"

definition node_notify_event ::
    "'s sockets \<Rightarrow> 'j js \<Rightarrow> u32 \<Rightarrow> u32 \<Rightarrow> bytes option \<Rightarrow> ('s, 'j) node \<Rightarrow> js_value \<times> ('s, 'j) node" where
  "node_notify_event os js sid eid payload nd =
     on_runtime (\<lambda>r nd.
       (let (ok, nd) = run_rt (notify_event (node_env os js) (ucast sid) (ucast eid) payload
              (buffer_length payload)) r nd
        in (Js_Bool ok, nd))) (ensure_alive nd)"

section \<open>Requests and subscriptions of the consumer\<close>

definition node_find_service ::
    "'s sockets \<Rightarrow> 'j js \<Rightarrow> u32 \<Rightarrow> u32 \<Rightarrow> u32 option \<Rightarrow> ('s, 'j) node \<Rightarrow> js_value \<times> ('s, 'j) node" where
  "node_find_service os js clock sid major nd =
     on_runtime (\<lambda>r nd.
       (let major = (case major of None \<Rightarrow> 1 | Some v \<Rightarrow> ucast v);
            (ok, nd) = run_rt (find_service (node_env os js) (ucast sid) major clock) r nd
        in (Js_Bool ok, nd))) (ensure_alive nd)"

text \<open>
  The common body of \<open>Request\<close> and \<open>RequestTo\<close>: a new \<open>PendingRequest\<close> with its promise, the request,
  and the branch for a request without an id, which takes the promise from the object, rejects it and
  deletes the object.
\<close>

definition new_pending_request :: "('s, 'j) node \<Rightarrow> nat \<times> ('s, 'j) node" where
  "new_pending_request nd =
     (let p = nd_next nd in
      (p, nd\<lparr> nd_next := p + 1, nd_requests := insert p (nd_requests nd),
              nd_pending := insert p (nd_pending nd), nd_promises := (nd_promises nd)(p \<mapsto> Open) \<rparr>))"

definition request_refused :: "string \<Rightarrow> nat \<Rightarrow> ('s, 'j) node \<Rightarrow> js_value \<times> ('s, 'j) node" where
  "request_refused m p nd =
     (let nd = nd\<lparr>nd_pending := nd_pending nd - {p}\<rparr> in
      if p \<notin> nd_requests nd then (Js_Promise p, fail Freed_Request nd)
      else (Js_Promise p, nd\<lparr> nd_promises := (nd_promises nd)(p \<mapsto> Rejected m),
                              nd_requests := nd_requests nd - {p} \<rparr>))"

definition issue_request ::
    "(nat \<Rightarrow> ('s udp, 'j app) runtime \<Rightarrow> u32 option \<times> ('s udp, 'j app) runtime) \<Rightarrow> string \<Rightarrow>
       ('s, 'j) node \<Rightarrow> js_value \<times> ('s, 'j) node" where
  "issue_request send m nd =
     (case new_pending_request nd of (p, nd) \<Rightarrow>
        on_runtime (\<lambda>r nd.
          (case run_rt (send p) r nd of (rid, nd) \<Rightarrow>
             if rid = None then request_refused m p nd else (Js_Promise p, nd))) nd)"

definition node_request ::
    "'s sockets \<Rightarrow> 'j js \<Rightarrow> u32 \<Rightarrow> u32 \<Rightarrow> u32 \<Rightarrow> bytes option \<Rightarrow> u32 option \<Rightarrow> ('s, 'j) node \<Rightarrow>
       js_value \<times> ('s, 'j) node" where
  "node_request os js clock sid mid payload timeout nd =
     (let timeout = (case timeout of None \<Rightarrow> RequestTimeoutMs DefaultConfig | Some t \<Rightarrow> t) in
      engine (issue_request
        (\<lambda>p. request (node_env os js) (ucast sid) (ucast mid) payload (buffer_length payload)
           (Some REQUEST_COMPLETE_CB) p timeout clock)
        ''Request failed (service not found or table full)'') (ensure_alive nd))"

definition js_to_addr :: "'s sockets \<Rightarrow> string \<times> u32 \<Rightarrow> addr" where
  "js_to_addr os a = make_addr os (fst a) (ucast (snd a))"

definition node_request_to ::
    "'s sockets \<Rightarrow> 'j js \<Rightarrow> u32 \<Rightarrow> string \<times> u32 \<Rightarrow> u32 \<Rightarrow> u32 \<Rightarrow> bytes option \<Rightarrow> u32 option \<Rightarrow> ('s, 'j) node \<Rightarrow>
       js_value \<times> ('s, 'j) node" where
  "node_request_to os js clock target sid mid payload timeout nd =
     (let timeout = (case timeout of None \<Rightarrow> RequestTimeoutMs DefaultConfig | Some t \<Rightarrow> t) in
      engine (issue_request
        (\<lambda>p. request_to (node_env os js) (js_to_addr os target) (ucast sid) (ucast mid) payload
           (buffer_length payload) (Some REQUEST_COMPLETE_CB) p timeout clock)
        ''Request failed (table full)'') (ensure_alive nd))"

definition node_fire_and_forget ::
    "'s sockets \<Rightarrow> 'j js \<Rightarrow> u32 \<Rightarrow> u32 \<Rightarrow> bytes option \<Rightarrow> ('s, 'j) node \<Rightarrow> js_value \<times> ('s, 'j) node" where
  "node_fire_and_forget os js sid mid payload nd =
     on_runtime (\<lambda>r nd.
       (let (ok, nd) = run_rt (fire_and_forget (node_env os js) (ucast sid) (ucast mid) payload
              (buffer_length payload)) r nd
        in (Js_Bool ok, nd))) (ensure_alive nd)"

definition free_handler :: "nat \<Rightarrow> ('s, 'j) node \<Rightarrow> ('s, 'j) node" where
  "free_handler h nd = nd\<lparr>nd_handler_objects := (nd_handler_objects nd)(h := None)\<rparr>"

definition node_subscribe_event ::
    "'s sockets \<Rightarrow> 'j js \<Rightarrow> u32 \<Rightarrow> u32 \<Rightarrow> u32 \<Rightarrow> nat \<Rightarrow> u32 option \<Rightarrow> ('s, 'j) node \<Rightarrow> js_value \<times> ('s, 'j) node" where
  "node_subscribe_event os js clock sid eid handler ttl nd =
     on_runtime (\<lambda>r nd.
       (let sid = ucast sid; eid = ucast eid; h = nd_next nd;
            ttl = (case ttl of None \<Rightarrow> SubscriptionTtlSeconds DefaultConfig | Some t \<Rightarrow> ucast t);
            key = event_handler_key sid eid;
            nd = nd\<lparr>nd_next := h + 1, nd_handler_objects := (nd_handler_objects nd)(h \<mapsto> handler)\<rparr>;
            (ok, nd) = run_rt (subscribe_event (node_env os js) sid eid h ttl clock) r nd
        in if ok then
             (Js_Bool True,
              (case nd_event_handlers nd key of None \<Rightarrow> nd | Some old \<Rightarrow> free_handler old nd)
                \<lparr>nd_event_handlers := (nd_event_handlers nd)(key \<mapsto> h)\<rparr>)
           else (Js_Bool False, free_handler h nd))) (ensure_alive nd)"

definition node_unsubscribe_event ::
    "u32 \<Rightarrow> u32 \<Rightarrow> ('s, 'j) node \<Rightarrow> js_value \<times> ('s, 'j) node" where
  "node_unsubscribe_event sid eid nd =
     on_runtime (\<lambda>r nd.
       (let sid = ucast sid; eid = ucast eid; key = event_handler_key sid eid;
            (ok, nd) = run_rt (unsubscribe_event sid eid) r nd
        in (Js_Bool ok,
            (case nd_event_handlers nd key of None \<Rightarrow> nd | Some old \<Rightarrow> free_handler old nd)
              \<lparr>nd_event_handlers := (nd_event_handlers nd)(key := None)\<rparr>))) (ensure_alive nd)"

section \<open>Callbacks, keys and diagnostics\<close>

definition node_on_service_found :: "nat \<Rightarrow> ('s, 'j) node \<Rightarrow> js_value \<times> ('s, 'j) node" where
  "node_on_service_found f nd = (Js_Undefined, nd\<lparr>nd_on_found := Some f\<rparr>)"

definition node_on_service_lost :: "nat \<Rightarrow> ('s, 'j) node \<Rightarrow> js_value \<times> ('s, 'j) node" where
  "node_on_service_lost f nd = (Js_Undefined, nd\<lparr>nd_on_lost := Some f\<rparr>)"

definition node_on_subscription_ack :: "nat \<Rightarrow> ('s, 'j) node \<Rightarrow> js_value \<times> ('s, 'j) node" where
  "node_on_subscription_ack f nd = (Js_Undefined, nd\<lparr>nd_on_ack := Some f\<rparr>)"

definition node_set_hmac_key ::
    "'s sockets \<Rightarrow> 'j js \<Rightarrow> string \<times> u32 \<Rightarrow> bytes \<Rightarrow> ('s, 'j) node \<Rightarrow> js_value \<times> ('s, 'j) node" where
  "node_set_hmac_key os js peer key nd =
     engine (\<lambda>nd.
       if length key < HmacKeySize DefaultConfig then throw ''HMAC key must be at least 32 bytes'' nd
       else on_runtime (\<lambda>r nd.
         (let (ok, nd) = run_rt (set_hmac_key (node_env os js) (js_to_addr os peer) key) r nd
          in (Js_Bool ok, nd))) nd) (ensure_alive nd)"

definition node_on_diagnostic :: "nat \<Rightarrow> ('s, 'j) node \<Rightarrow> js_value \<times> ('s, 'j) node" where
  "node_on_diagnostic f nd = (Js_Undefined, nd\<lparr>nd_on_diag := Some f\<rparr>)"

definition all_counters :: "DiagnosticCounter list" where
  "all_counters = [CrcErrors, VersionMismatches, OversizedPayloads, TypeIdMismatches, DuplicateMessages,
     StaleMessages, AuthFailures, UnknownMessageTypes, DroppedMessages]"

definition node_get_diagnostics :: "('s, 'j) node \<Rightarrow> js_value \<times> ('s, 'j) node" where
  "node_get_diagnostics nd =
     on_runtime (\<lambda>r nd.
       (Js_Counters (map (\<lambda>c. (diag_counter_name c, counter_get c (rt_diag r))) all_counters)
          (active_count (rt_requests r)), nd)) (ensure_alive nd)"

definition node_enable_diagnostics ::
    "'s sockets \<Rightarrow> 'j js \<Rightarrow> u32 \<Rightarrow> bool option \<Rightarrow> ('s, 'j) node \<Rightarrow> js_value \<times> ('s, 'j) node" where
  "node_enable_diagnostics os js clock auth_required nd =
     on_runtime (\<lambda>r nd.
       (let (ok, nd) = run_rt (enable_diagnostics (node_env os js) clock
              (case auth_required of None \<Rightarrow> False | Some b \<Rightarrow> b)) r nd
        in (Js_Bool ok, nd))) (ensure_alive nd)"

definition node_report_dtc ::
    "'s sockets \<Rightarrow> 'j js \<Rightarrow> u32 \<Rightarrow> u32 \<Rightarrow> u32 \<Rightarrow> ('s, 'j) node \<Rightarrow> js_value \<times> ('s, 'j) node" where
  "node_report_dtc os js clock code severity nd =
     on_runtime (\<lambda>r nd.
       (let (ok, nd) = run_rt (report_dtc (node_env os js) (ucast code) (ucast severity) clock) r nd
        in (Js_Bool ok, nd))) (ensure_alive nd)"

definition node_clear_dtc :: "u32 \<Rightarrow> ('s, 'j) node \<Rightarrow> js_value \<times> ('s, 'j) node" where
  "node_clear_dtc code nd =
     on_runtime (\<lambda>r nd. (let (ok, nd) = run_rt (clear_dtc (ucast code)) r nd in (Js_Bool ok, nd)))
       (ensure_alive nd)"

definition node_clear_all_dtcs :: "('s, 'j) node \<Rightarrow> js_value \<times> ('s, 'j) node" where
  "node_clear_all_dtcs nd =
     on_runtime (\<lambda>r nd. (let (_, nd) = run_rt (\<lambda>r. ((), clear_all_dtcs r)) r nd in (Js_Undefined, nd)))
       (ensure_alive nd)"

definition node_get_dtcs :: "('s, 'j) node \<Rightarrow> js_value \<times> ('s, 'j) node" where
  "node_get_dtcs nd =
     on_runtime (\<lambda>r nd. (Js_Dtcs (dtc_for_each (\<lambda>d ds. ds @ [d]) (rt_dtcs r) []), nd)) (ensure_alive nd)"

definition node_set_local_address ::
    "'s sockets \<Rightarrow> string \<times> u32 \<Rightarrow> ('s, 'j) node \<Rightarrow> js_value \<times> ('s, 'j) node" where
  "node_set_local_address os a nd =
     engine (on_runtime (\<lambda>r nd.
       (let (_, nd) = run_rt (\<lambda>r. ((), set_local_address (js_to_addr os a) r)) r nd
        in (Js_Undefined, nd)))) (ensure_alive nd)"

definition node_get_local_address :: "('s, 'j) node \<Rightarrow> js_value \<times> ('s, 'j) node" where
  "node_get_local_address nd =
     (Js_Address (udp_local_addr (case nd_runtime nd of None \<Rightarrow> nd_transport nd | Some r \<Rightarrow> rt_transport r)), nd)"

section \<open>Runs\<close>

datatype node_op =
  N_Process u32 "u32 option"
| N_Destroy
| N_Register_Service u32 nat "nat option" "u32 option" "u32 option" "bool option"
| N_Unregister_Service u32
| N_Offer_Service u32 u32 "u32 option"
| N_Stop_Offer u32
| N_Register_Event u32 u32
| N_Notify_Event u32 u32 "bytes option"
| N_Find_Service u32 u32 "u32 option"
| N_Request u32 u32 u32 "bytes option" "u32 option"
| N_Request_To u32 "string \<times> u32" u32 u32 "bytes option" "u32 option"
| N_Fire_And_Forget u32 u32 "bytes option"
| N_Subscribe_Event u32 u32 u32 nat "u32 option"
| N_Unsubscribe_Event u32 u32
| N_On_Service_Found nat
| N_On_Service_Lost nat
| N_On_Subscription_Ack nat
| N_Set_Hmac_Key "string \<times> u32" bytes
| N_On_Diagnostic nat
| N_Get_Diagnostics
| N_Enable_Diagnostics u32 "bool option"
| N_Report_Dtc u32 u32 u32
| N_Clear_Dtc u32
| N_Clear_All_Dtcs
| N_Get_Dtcs
| N_Set_Local_Address "string \<times> u32"
| N_Get_Local_Address

fun node_apply :: "'s sockets \<Rightarrow> 'j js \<Rightarrow> node_op \<Rightarrow> ('s, 'j) node \<Rightarrow> js_value \<times> ('s, 'j) node" where
  "node_apply os js (N_Process clock now) nd = node_process os js clock now nd"
| "node_apply os js N_Destroy nd = node_destroy os nd"
| "node_apply os js (N_Register_Service sid f g major minor auth) nd =
     node_register_service os js sid f g major minor auth nd"
| "node_apply os js (N_Unregister_Service sid) nd = node_unregister_service os js sid nd"
| "node_apply os js (N_Offer_Service clock sid ttl) nd = node_offer_service os js clock sid ttl nd"
| "node_apply os js (N_Stop_Offer sid) nd = node_stop_offer os js sid nd"
| "node_apply os js (N_Register_Event sid eid) nd = node_register_event os js sid eid nd"
| "node_apply os js (N_Notify_Event sid eid payload) nd = node_notify_event os js sid eid payload nd"
| "node_apply os js (N_Find_Service clock sid major) nd = node_find_service os js clock sid major nd"
| "node_apply os js (N_Request clock sid mid payload timeout) nd = node_request os js clock sid mid payload timeout nd"
| "node_apply os js (N_Request_To clock target sid mid payload timeout) nd =
     node_request_to os js clock target sid mid payload timeout nd"
| "node_apply os js (N_Fire_And_Forget sid mid payload) nd = node_fire_and_forget os js sid mid payload nd"
| "node_apply os js (N_Subscribe_Event clock sid eid handler ttl) nd =
     node_subscribe_event os js clock sid eid handler ttl nd"
| "node_apply os js (N_Unsubscribe_Event sid eid) nd = node_unsubscribe_event sid eid nd"
| "node_apply os js (N_On_Service_Found f) nd = node_on_service_found f nd"
| "node_apply os js (N_On_Service_Lost f) nd = node_on_service_lost f nd"
| "node_apply os js (N_On_Subscription_Ack f) nd = node_on_subscription_ack f nd"
| "node_apply os js (N_Set_Hmac_Key peer key) nd = node_set_hmac_key os js peer key nd"
| "node_apply os js (N_On_Diagnostic f) nd = node_on_diagnostic f nd"
| "node_apply os js N_Get_Diagnostics nd = node_get_diagnostics nd"
| "node_apply os js (N_Enable_Diagnostics clock auth) nd = node_enable_diagnostics os js clock auth nd"
| "node_apply os js (N_Report_Dtc clock code severity) nd = node_report_dtc os js clock code severity nd"
| "node_apply os js (N_Clear_Dtc code) nd = node_clear_dtc code nd"
| "node_apply os js N_Clear_All_Dtcs nd = node_clear_all_dtcs nd"
| "node_apply os js N_Get_Dtcs nd = node_get_dtcs nd"
| "node_apply os js (N_Set_Local_Address a) nd = node_set_local_address os a nd"
| "node_apply os js N_Get_Local_Address nd = node_get_local_address nd"

end
