(* ===== verification/Node_Ledger.thy ===== *)
theory Node_Ledger
  imports Node_Api Request_Balance
begin

text \<open>
  The books of the Node.js binding.  A \<open>PendingRequest\<close> and its promise belong to one pending request
  of the runtime: the callbacks that the open requests of the runtime still owe are exactly the
  objects the binding keeps.  The balance of requests (\<open>Request_Balance\<close>) carries this through every
  method whose requests are not lost on the way to the transport.
\<close>

section \<open>The invariant\<close>

definition node_owes :: "nat set \<Rightarrow> callback multiset" where
  "node_owes ps = image_mset (Pair REQUEST_COMPLETE_CB) (mset_set ps)"

lemma node_owes_simps [simp]:
  "node_owes {} = {#}"
  "finite ps \<Longrightarrow> p \<notin> ps \<Longrightarrow> node_owes (insert p ps) = add_mset (REQUEST_COMPLETE_CB, p) (node_owes ps)"
  by (simp_all add: node_owes_def)

lemma node_owes_remove:
  "finite ps \<Longrightarrow> p \<in> ps \<Longrightarrow> node_owes ps = add_mset (REQUEST_COMPLETE_CB, p) (node_owes (ps - {p}))"
  by (simp add: node_owes_def mset_set.remove)

lemma set_node_owes: "finite ps \<Longrightarrow> (f, p) \<in># node_owes ps \<longleftrightarrow> f = REQUEST_COMPLETE_CB \<and> p \<in> ps"
  by (auto simp: node_owes_def)

text \<open>What the requests of an instance depend on.\<close>

definition books :: "('s, 'j) node \<Rightarrow> nat set \<times> nat set \<times> (nat \<rightharpoonup> promise) \<times> bool" where
  "books nd = (nd_pending nd, nd_requests nd, nd_promises nd, Freed_Request \<in> set (nd_faults nd))"

definition books_ok :: "('s, 'j) node \<Rightarrow> bool" where
  "books_ok nd \<longleftrightarrow> finite (nd_pending nd) \<and> nd_requests nd = nd_pending nd \<and>
     (\<forall>p. nd_promises nd p = Some Open \<longleftrightarrow> p \<in> nd_pending nd) \<and>
     (\<forall>p. nd_next nd \<le> p \<longrightarrow> nd_promises nd p = None) \<and> Freed_Request \<notin> set (nd_faults nd)"

definition node_ok :: "('s, 'j) node \<Rightarrow> bool" where
  "node_ok nd \<longleftrightarrow> books_ok nd \<and>
     (case nd_runtime nd of
        None \<Rightarrow> nd_pending nd = {}
      | Some r \<Rightarrow> tracker_wf DefaultConfig (rt_requests r) \<and>
          open_calls (rt_requests r) = node_owes (nd_pending nd))"

text \<open>A promise that is settled stays as it is.\<close>

definition settled_kept :: "(nat \<rightharpoonup> promise) \<Rightarrow> (nat \<rightharpoonup> promise) \<Rightarrow> bool" where
  "settled_kept ps ps' \<longleftrightarrow> (\<forall>p v. ps p = Some v \<and> v \<noteq> Open \<longrightarrow> ps' p = Some v)"

lemma settled_kept_refl [simp]: "settled_kept ps ps"
  by (simp add: settled_kept_def)

lemma settled_keptI: "(\<And>p v. ps p = Some v \<Longrightarrow> v \<noteq> Open \<Longrightarrow> qs p = Some v) \<Longrightarrow> settled_kept ps qs"
  by (simp add: settled_kept_def)

lemma books_ok_pending:
  assumes "books_ok nd" "p \<in> nd_pending nd"
  shows "nd_promises nd p = Some Open" and "p < nd_next nd"
  using assms by (force simp: books_ok_def not_le [symmetric])+

lemma settled_kept_trans: "settled_kept ps qs \<Longrightarrow> settled_kept qs rs \<Longrightarrow> settled_kept ps rs"
  by (simp add: settled_kept_def)

lemma settled_kept_upd: "ps p = None \<or> ps p = Some Open \<Longrightarrow> settled_kept ps (ps(p := v))"
  by (auto simp: settled_kept_def)

definition advances :: "('s, 'j) node \<Rightarrow> ('s, 'j) node \<Rightarrow> bool" where
  "advances nd nd' \<longleftrightarrow> node_ok nd' \<and> settled_kept (nd_promises nd) (nd_promises nd')"

lemma advances_trans: "advances nd nd1 \<Longrightarrow> advances nd1 nd2 \<Longrightarrow> advances nd nd2"
  by (auto simp: advances_def intro: settled_kept_trans)

text \<open>Steps beside the requests.\<close>

definition beside :: "('s, 'j) node \<Rightarrow> ('s, 'j) node \<Rightarrow> bool" where
  "beside nd nd' \<longleftrightarrow> books nd' = books nd \<and> nd_next nd \<le> nd_next nd' \<and>
     map_option rt_requests (nd_runtime nd') = map_option rt_requests (nd_runtime nd)"

lemma beside_books_ok: "books_ok nd \<Longrightarrow> books nd' = books nd \<Longrightarrow> nd_next nd \<le> nd_next nd' \<Longrightarrow> books_ok nd'"
  by (auto simp: books_ok_def books_def)

lemma beside_advances: "node_ok nd \<Longrightarrow> beside nd nd' \<Longrightarrow> advances nd nd'"
  using beside_books_ok [of nd nd']
  by (auto simp: advances_def node_ok_def beside_def books_def split: option.splits)

lemma advances_node_ok: "advances nd nd' \<Longrightarrow> node_ok nd'"
  by (simp add: advances_def)

lemma advances_beside: "advances nd nd1 \<Longrightarrow> beside nd1 nd2 \<Longrightarrow> advances nd nd2"
  using beside_advances [of nd1 nd2] by (auto dest: advances_node_ok intro: advances_trans)

lemma beside_steps [simp]:
  "beside nd nd" "beside nd (ensure_alive nd') = beside nd nd'"
  "beside nd (free_service n nd') = beside nd nd'" "beside nd (free_handler h nd') = beside nd nd'"
  "f \<noteq> Freed_Request \<Longrightarrow> beside nd (fail f nd') = beside nd nd'" "beside nd (js_calls cs nd') = beside nd nd'"
  "beside nd (nd'\<lparr>nd_services := ss\<rparr>) = beside nd nd'" "beside nd (nd'\<lparr>nd_event_handlers := hs\<rparr>) = beside nd nd'"
  "beside nd (nd'\<lparr>nd_handler_objects := ho\<rparr>) = beside nd nd'"
  "beside nd (nd'\<lparr>nd_processing := b\<rparr>) = beside nd nd'" "beside nd (nd'\<lparr>nd_exception := ex\<rparr>) = beside nd nd'"
  "beside nd (nd'\<lparr>nd_on_found := cb\<rparr>) = beside nd nd'" "beside nd (nd'\<lparr>nd_on_lost := cb\<rparr>) = beside nd nd'"
  "beside nd (nd'\<lparr>nd_on_ack := cb\<rparr>) = beside nd nd'" "beside nd (nd'\<lparr>nd_on_diag := cb\<rparr>) = beside nd nd'"
  by (auto simp: beside_def books_def ensure_alive_def free_service_def free_handler_def fail_def js_calls_def
      option.map_comp comp_def)

lemma beside_next: "beside nd (nd\<lparr>nd_next := Suc (nd_next nd)\<rparr>)"
  by (simp add: beside_def books_def)

section \<open>Delivering the callbacks\<close>

lemma deliver_beside: "reply_call x = {#} \<Longrightarrow> beside nd (deliver x nd)"
  by (cases x) (simp_all add: sd_on_service_found_def sd_on_service_lost_def sd_on_subscription_ack_def
      diag_callback_trampoline_def js_event_handler_on_event_def split: option.split)

lemma deliver_runtime: "nd_runtime (deliver x nd) = nd_runtime nd"
  by (cases x) (auto simp: request_complete_cb_def sd_on_service_found_def sd_on_service_lost_def
      sd_on_subscription_ack_def diag_callback_trampoline_def js_event_handler_on_event_def fail_def
      js_calls_def split: option.split)

lemma fold_deliver_runtime: "nd_runtime (fold deliver os nd) = nd_runtime nd"
  by (induction os arbitrary: nd) (simp_all add: deliver_runtime)

lemma deliver_reply:
  assumes "books_ok nd" "p \<in> nd_pending nd"
  shows "books_ok (request_complete_cb rc payload p nd)"
    and "nd_pending (request_complete_cb rc payload p nd) = nd_pending nd - {p}"
    and "settled_kept (nd_promises nd) (nd_promises (request_complete_cb rc payload p nd))"
  using books_ok_pending [OF assms] assms
  by (auto simp: books_ok_def request_complete_cb_def intro!: settled_kept_upd)

lemma fold_deliver:
  assumes "books_ok nd" "made_calls os \<subseteq># node_owes (nd_pending nd)"
  shows "books_ok (fold deliver os nd) \<and>
    made_calls os + node_owes (nd_pending (fold deliver os nd)) = node_owes (nd_pending nd) \<and>
    settled_kept (nd_promises nd) (nd_promises (fold deliver os nd))"
  using assms
proof (induction os arbitrary: nd)
  case (Cons x os)
  show ?case
  proof (cases "reply_call x = {#}")
    case True
    then have b: "beside nd (deliver x nd)" by (rule deliver_beside)
    then have "books_ok (deliver x nd)" "nd_pending (deliver x nd) = nd_pending nd"
        "nd_promises (deliver x nd) = nd_promises nd"
      using beside_books_ok [OF Cons.prems(1)] by (auto simp: beside_def books_def)
    then show ?thesis using Cons.IH [of "deliver x nd"] Cons.prems True by simp
  next
    case False
    then obtain f p rc payload where x: "x = Out_Request_Done f p rc payload" by (cases x) auto
    let ?nd = "request_complete_cb rc payload p nd"
    have fin: "finite (nd_pending nd)" using Cons.prems(1) by (simp add: books_ok_def)
    have "(f, p) \<in># node_owes (nd_pending nd)"
      using Cons.prems(2) x by (auto intro: mset_subset_eqD)
    then have f: "f = REQUEST_COMPLETE_CB" and p: "p \<in> nd_pending nd" by (simp_all add: set_node_owes [OF fin])
    note d = deliver_reply [OF Cons.prems(1) p, of rc payload]
    note o = node_owes_remove [OF fin p]
    have "made_calls os \<subseteq># node_owes (nd_pending ?nd)" using Cons.prems(2) by (simp add: x f d(2) o)
    then show ?thesis using Cons.IH [OF d(1)] d(2,3) o x f by (auto intro: settled_kept_trans)
  qed
qed simp

section \<open>Calls of the runtime\<close>

definition steady :: "(('t, 'a) runtime \<Rightarrow> 'x \<times> ('t, 'a) runtime) \<Rightarrow> bool" where
  "steady f \<longleftrightarrow> (\<forall>r. tracker_wf DefaultConfig (rt_requests r) \<longrightarrow>
     tracker_wf DefaultConfig (rt_requests (snd (f r))) \<and> balance (snd (f r)) = balance r)"

lemma steadyI:
  "(\<And>r. rt_requests (snd (f r)) = rt_requests r) \<Longrightarrow> (\<And>r. replies (snd (f r)) = replies r) \<Longrightarrow> steady f"
  by (simp add: steady_def balance_def)

lemma steady_process: "en_cfg env = DefaultConfig \<Longrightarrow> steady (\<lambda>r. ((), process env now r))"
  using balanced.process [of env] by (simp add: steady_def)

text \<open>A call whose balance is that of the objects the binding holds.\<close>

lemma run_rt_books:
  assumes "books_ok nd" "tracker_wf DefaultConfig (rt_requests (snd (f (r\<lparr>rt_out := []\<rparr>))))"
    and "balance (snd (f (r\<lparr>rt_out := []\<rparr>))) = node_owes (nd_pending nd)"
  shows "advances nd (snd (run_rt f r nd))"
proof -
  obtain x r' where f: "f (r\<lparr>rt_out := []\<rparr>) = (x, r')" by fastforce
  let ?nd = "nd\<lparr>nd_runtime := Some (r'\<lparr>rt_out := []\<rparr>)\<rparr>"
  have o: "made_calls (rt_out r') + open_calls (rt_requests r') = node_owes (nd_pending nd)"
    using assms(3) by (simp add: f balance_def replies_def made_calls_replies)
  have "books_ok ?nd" using assms(1) by (simp add: books_ok_def)
  moreover have "made_calls (rt_out r') \<subseteq># node_owes (nd_pending ?nd)" by (simp flip: o)
  ultimately have d: "books_ok (fold deliver (rt_out r') ?nd)"
      "made_calls (rt_out r') + node_owes (nd_pending (fold deliver (rt_out r') ?nd)) = node_owes (nd_pending nd)"
      "settled_kept (nd_promises nd) (nd_promises (fold deliver (rt_out r') ?nd))"
    using fold_deliver [of ?nd "rt_out r'"] by simp_all
  then have "open_calls (rt_requests r') = node_owes (nd_pending (fold deliver (rt_out r') ?nd))"
    using o by (metis add_left_cancel)
  then show ?thesis using d assms(2) by (simp add: run_rt_def f advances_def node_ok_def fold_deliver_runtime)
qed

lemma run_rt_steady:
  assumes "node_ok nd0" "nd_runtime nd0 = Some r0" "rt_requests r = rt_requests r0" "steady f" "beside nd0 nd"
  shows "advances nd0 (snd (run_rt f r nd))"
proof -
  have ok: "node_ok nd" "settled_kept (nd_promises nd0) (nd_promises nd)"
    using beside_advances [OF assms(1,5)] by (auto simp: advances_def)
  moreover obtain r1 where "nd_runtime nd = Some r1" "rt_requests r1 = rt_requests r0"
    using assms(2,5) by (auto simp: beside_def)
  ultimately have "books_ok nd" "tracker_wf DefaultConfig (rt_requests r)"
      "open_calls (rt_requests r) = node_owes (nd_pending nd)"
    using assms(3) by (auto simp: node_ok_def)
  then have "advances nd (snd (run_rt f r nd))"
    using assms(4) by (intro run_rt_books) (auto simp: steady_def balance_def replies_def)
  then show ?thesis using ok(2) by (auto simp: advances_def intro: settled_kept_trans)
qed

lemma on_runtime_advances:
  assumes "node_ok nd" "\<And>r. nd_runtime nd = Some r \<Longrightarrow> advances nd (snd (f r nd))"
  shows "advances nd (snd (on_runtime f nd))"
  using assms by (auto simp: on_runtime_def intro!: beside_advances split: option.split)

lemma engine_advances:
  assumes "node_ok nd" "nd_exception nd = None \<Longrightarrow> advances nd (snd (f nd))"
  shows "advances nd (snd (engine f nd))"
  using assms by (auto simp: engine_def intro!: beside_advances split: option.split)

lemma alive_advances:
  assumes "node_ok nd" "node_ok (ensure_alive nd) \<Longrightarrow> advances (ensure_alive nd) nd'"
  shows "advances nd nd'"
proof -
  have "advances nd (ensure_alive nd)" using assms(1) by (rule beside_advances) simp
  then show ?thesis using assms(2) by (auto dest: advances_node_ok intro: advances_trans)
qed

section \<open>The methods that make no request\<close>

lemma node_env_cfg [simp]: "en_cfg (node_env os js) = DefaultConfig"
  by (simp add: node_env_def)

text \<open>Most methods are one call of the runtime with work on tables before and after.\<close>

lemma call_advances:
  assumes "node_ok nd" "\<And>nd. steady (f nd)" "\<And>r nd. rt_requests (h r nd) = rt_requests r"
    and "\<And>nd. beside nd (e nd)" "\<And>nd0 x nd. beside nd (snd (k nd0 x nd))"
  shows "advances nd (snd (on_runtime (\<lambda>r nd. case run_rt (f nd) (h r nd) (e nd) of (x, nd') \<Rightarrow> k nd x nd') nd))"
proof (rule on_runtime_advances [OF assms(1)])
  fix r assume "nd_runtime nd = Some r"
  then have "advances nd (snd (run_rt (f nd) (h r nd) (e nd)))"
    using assms(1-4) by (intro run_rt_steady) simp_all
  then show "advances nd (snd (case run_rt (f nd) (h r nd) (e nd) of (x, nd') \<Rightarrow> k nd x nd'))"
    using advances_beside [OF _ assms(5)] by (simp add: case_prod_beta)
qed

lemma method_advances:
  assumes "node_ok nd" "\<And>nd. steady (f nd)" "\<And>r nd. rt_requests (h r nd) = rt_requests r"
    and "\<And>nd. beside nd (e nd)" "\<And>nd0 x nd. beside nd (snd (k nd0 x nd))"
  shows "advances nd (snd (on_runtime (\<lambda>r nd. case run_rt (f nd) (h r nd) (e nd) of (x, nd') \<Rightarrow> k nd x nd')
    (ensure_alive nd)))"
  by (rule alive_advances [OF assms(1)], rule call_advances) (use assms in simp_all)

lemma checked_method_advances:
  assumes "node_ok nd" "\<And>nd. steady (f nd)" "\<And>r nd. rt_requests (h r nd) = rt_requests r"
    and "\<And>nd. beside nd (e nd)" "\<And>nd0 x nd. beside nd (snd (k nd0 x nd))"
  shows "advances nd (snd (engine (on_runtime (\<lambda>r nd. case run_rt (f nd) (h r nd) (e nd) of (x, nd') \<Rightarrow> k nd x nd'))
    (ensure_alive nd)))"
  by (rule alive_advances [OF assms(1)], rule engine_advances, assumption, rule call_advances)
    (use assms in simp_all)

lemma process_advances: "node_ok nd \<Longrightarrow> advances nd (snd (node_process os js clock now nd))"
  unfolding node_process_def Let_def
  by (rule method_advances [where h = "\<lambda>r nd. r"]) (simp_all add: steady_process)

lemma destroy_advances:
  assumes "node_ok nd"
  shows "advances nd (snd (node_destroy os nd))"
proof -
  have b: "books_ok nd" using assms by (simp add: node_ok_def)
  have "settled_kept (nd_promises nd) (reject_all (nd_pending nd) m (nd_promises nd))" for m
    using books_ok_pending(1) [OF b] by (auto simp: reject_all_def intro!: settled_keptI)
  moreover have "reject_all (nd_pending nd) m (nd_promises nd) p \<noteq> Some Open" for m p
    using b by (auto simp: reject_all_def books_ok_def)
  moreover have "nd_next nd \<le> p \<Longrightarrow> reject_all (nd_pending nd) m (nd_promises nd) p = None" for m p
    using b books_ok_pending(2) [OF b, of p] by (auto simp: reject_all_def books_ok_def)
  ultimately show ?thesis
    using b by (simp add: node_destroy_def do_destroy_def advances_def node_ok_def books_ok_def Let_def)
qed

lemma service_advances:
  assumes "node_ok nd"
  shows "advances nd (snd (node_unregister_service os js sid nd))"
    and "advances nd (snd (node_offer_service os js clock sid ttl nd))"
    and "advances nd (snd (node_stop_offer os js sid nd))"
    and "advances nd (snd (node_find_service os js clock sid mj nd))"
    and "advances nd (snd (node_register_event os js sid eid nd))"
    and "advances nd (snd (node_notify_event os js sid eid payload nd))"
    and "advances nd (snd (node_fire_and_forget os js sid mid payload nd))"
  unfolding node_unregister_service_def node_offer_service_def node_stop_offer_def node_find_service_def
    node_register_event_def node_notify_event_def node_fire_and_forget_def Let_def
  by (rule method_advances [OF assms, where h = "\<lambda>r nd. r"];
      simp add: steadyI split: option.split)+

lemma register_service_advances:
  "node_ok nd \<Longrightarrow> advances nd (snd (node_register_service os js sid on_request is_ready major minor auth nd))"
  unfolding node_register_service_def Let_def
  by (rule checked_method_advances, assumption+) (auto intro!: steadyI simp: beside_next split: option.split)

lemma subscription_advances:
  assumes "node_ok nd"
  shows "advances nd (snd (node_subscribe_event os js clock sid eid handler ttl nd))"
    and "advances nd (snd (node_unsubscribe_event sid eid nd))"
  unfolding node_subscribe_event_def node_unsubscribe_event_def Let_def
  by (rule method_advances [OF assms, where h = "\<lambda>r nd. r"];
      auto intro!: steadyI simp: beside_next split: option.split)+

lemma diagnostics_advances:
  assumes "node_ok nd"
  shows "advances nd (snd (node_enable_diagnostics os js clock auth nd))"
    and "advances nd (snd (node_report_dtc os js clock code severity nd))"
    and "advances nd (snd (node_clear_dtc code nd))"
    and "advances nd (snd (node_clear_all_dtcs nd))"
  unfolding node_enable_diagnostics_def node_report_dtc_def node_clear_dtc_def node_clear_all_dtcs_def Let_def
  by (rule method_advances [OF assms, where h = "\<lambda>r nd. r"]; simp add: steadyI)+

lemma reader_advances:
  assumes "node_ok nd"
  shows "advances nd (snd (node_get_diagnostics nd))" and "advances nd (snd (node_get_dtcs nd))"
    and "advances nd (snd (node_get_local_address nd))"
    and "advances nd (snd (node_on_service_found f nd))" and "advances nd (snd (node_on_service_lost f nd))"
    and "advances nd (snd (node_on_subscription_ack f nd))" and "advances nd (snd (node_on_diagnostic f nd))"
  using assms
  by (auto simp: node_get_diagnostics_def node_get_dtcs_def node_get_local_address_def node_on_service_found_def
      node_on_service_lost_def node_on_subscription_ack_def node_on_diagnostic_def on_runtime_def
      intro!: beside_advances split: option.split)

lemma address_advances:
  assumes "node_ok nd"
  shows "advances nd (snd (node_set_local_address os a nd))"
    and "advances nd (snd (node_set_hmac_key os js peer key nd))"
proof -
  show "advances nd (snd (node_set_local_address os a nd))"
    unfolding node_set_local_address_def Let_def
    by (rule checked_method_advances [OF assms, where h = "\<lambda>r nd. r"]) (simp_all add: steadyI)
  show "advances nd (snd (node_set_hmac_key os js peer key nd))"
    unfolding node_set_hmac_key_def Let_def
    by (rule alive_advances [OF assms], rule engine_advances, assumption)
      (auto simp: throw_def beside_advances steadyI intro!: call_advances [where h = "\<lambda>r nd. r"])
qed

end
