(* ===== verification/Node_Requests.thy ===== *)
theory Node_Requests
  imports Node_Ledger
begin

text \<open>
  \<open>Request\<close> and \<open>RequestTo\<close> of the Node.js binding in the books of \<open>Node_Ledger\<close>: a request that gets an
  id adds a promise and the callback it waits for, a request that finds no provider or no slot
  rejects its promise, and a request that is lost on the way to the transport uses its object after
  the callback has freed it.
\<close>

section \<open>The outcomes of a request\<close>

lemma request_impl_outcome:
  assumes wf: "tracker_wf (en_cfg env) (rt_requests r)" and cap: "MaxPendingRequests (en_cfg env) \<le> 2 ^ 32"
    and q: "request_impl env target sid mid p n (Some f) ctx timeout now_ms r = (rid, r')"
  shows "rid \<noteq> None \<Longrightarrow> tracker_wf (en_cfg env) (rt_requests r') \<and> balance r' = add_mset (f, ctx) (balance r)"
    and "rid = None \<Longrightarrow> \<not> active_count (rt_requests r) < MaxPendingRequests (en_cfg env) \<Longrightarrow>
      rt_requests r' = rt_requests r \<and> replies r' = replies r"
    and "rid = None \<Longrightarrow> active_count (rt_requests r) < MaxPendingRequests (en_cfg env) \<Longrightarrow>
      replies r' = replies r @ [Out_Request_Done f ctx E_NOT_OK None]"
proof -
  let ?cfg = "en_cfg env"
  obtain k reqs out where a: "allocate ?cfg (Some (rt_logger r)) sid mid timeout now_ms (Some f) ctx (rt_requests r)
      = (k, reqs, out)" using prod_cases3 by blast
  have full: "k = None \<longleftrightarrow> \<not> active_count (rt_requests r) < MaxPendingRequests ?cfg"
  proof -
    have "active_count (rt_requests r) \<le> MaxPendingRequests ?cfg"
      using wf by (auto simp: active_count_def tracker_wf_def intro: order_trans [OF length_filter_le])
    then show ?thesis
      using allocate_None(1) [OF wf, of "Some (rt_logger r)" sid mid timeout now_ms "Some f" ctx] a by auto
  qed
  have silent: "silent out"
    using allocate_noted [of ?cfg "Some (rt_logger r)" sid mid timeout now_ms "Some f" ctx "rt_requests r"]
    by (simp add: a notices_silent)
  have "balance r' = add_mset (f, ctx) (balance r)" "tracker_wf ?cfg (rt_requests r')" if "rid \<noteq> None"
  proof -
    have "k \<noteq> None" using that q request_impl_no_slot [where reqs = reqs and out = out, of env r sid mid timeout now_ms "Some f" ctx target p n] a
      by (cases k) auto
    then show "balance r' = add_mset (f, ctx) (balance r)" "tracker_wf ?cfg (rt_requests r')"
      using balance_request [OF wf cap, of target sid mid p n "Some f" ctx timeout now_ms] q full
      by (auto simp: issue_def)
  qed
  then show "rid \<noteq> None \<Longrightarrow> tracker_wf ?cfg (rt_requests r') \<and> balance r' = add_mset (f, ctx) (balance r)"
    by blast
  show "rt_requests r' = rt_requests r \<and> replies r' = replies r"
    if "\<not> active_count (rt_requests r) < MaxPendingRequests ?cfg"
  proof -
    have "k = None" using that full by simp
    moreover from this have "reqs = rt_requests r"
      using allocate_None(2) [OF wf, of "Some (rt_logger r)" sid mid timeout now_ms "Some f" ctx] a by simp
    ultimately show ?thesis
      using request_impl_no_slot [of env r sid mid timeout now_ms "Some f" ctx reqs out] a q silent by auto
  qed
  show "replies r' = replies r @ [Out_Request_Done f ctx E_NOT_OK None]"
    if none: "rid = None" and room: "active_count (rt_requests r) < MaxPendingRequests ?cfg"
  proof -
    obtain i where "k = Some i" using room full by auto
    then have a: "allocate ?cfg (Some (rt_logger r)) sid mid timeout now_ms (Some f) ctx (rt_requests r) =
        (Some i, reqs, out)" using a by simp
    note n = allocate_Some [OF wf cap a]
    obtain r4 where r4: "rt_requests r4 = reqs" "replies r4 = replies r"
      and "r' = rt_warn env CatTransport ''request_send_fail'' sid mid
          (rt_client_id (rt_complete env i E_NOT_OK None r4)) i
          (diag_increment DroppedMessages None (rt_complete env i E_NOT_OK None r4))"
      using q none by (auto intro: request_impl_shape [OF a, of target p n])
    then show ?thesis
      using complete_replies(3) [of env r4 i E_NOT_OK None] n(2,3)
      by (simp add: call_done_def new_pending_def)
  qed
qed

section \<open>Requests of the binding\<close>

text \<open>
  What the binding relies on: the send function it is given either issues the request, refuses it
  without a trace, or loses it, in which case the callback has already been made.
\<close>

datatype outcome = Issued | Refused | Lost

definition sends ::
    "(nat \<Rightarrow> ('t, 'a) runtime \<Rightarrow> u32 option \<times> ('t, 'a) runtime) \<Rightarrow> nat \<Rightarrow> ('t, 'a) runtime \<Rightarrow> outcome \<Rightarrow> bool" where
  "sends send p r c = (case send p r of (rid, r') \<Rightarrow>
     case c of
       Issued \<Rightarrow> rid \<noteq> None \<and> tracker_wf DefaultConfig (rt_requests r') \<and>
         balance r' = add_mset (REQUEST_COMPLETE_CB, p) (balance r)
     | Refused \<Rightarrow> rid = None \<and> rt_requests r' = rt_requests r \<and> replies r' = replies r
     | Lost \<Rightarrow> rid = None \<and> replies r' = replies r @ [Out_Request_Done REQUEST_COMPLETE_CB p E_NOT_OK None])"

lemma fold_deliver_quiet: "made_calls os = {#} \<Longrightarrow> books (fold deliver os nd) = books nd \<and>
    nd_next nd \<le> nd_next (fold deliver os nd)"
proof (induction os arbitrary: nd)
  case (Cons x os)
  then show ?case using deliver_beside [of x nd] Cons.IH [of "deliver x nd"] by (force simp: beside_def intro: le_trans)
qed simp

lemma new_pending_books:
  assumes "books_ok nd" "new_pending_request nd = (p, nd1)"
  shows "books_ok nd1" and "nd_pending nd1 = insert p (nd_pending nd)" and "p \<notin> nd_pending nd"
    and "settled_kept (nd_promises nd) (nd_promises nd1)" and "nd_runtime nd1 = nd_runtime nd"
proof -
  have p: "p = nd_next nd" "p \<notin> nd_pending nd" "nd_promises nd p = None"
    using assms books_ok_pending(2) [OF assms(1), of p] by (auto simp: new_pending_request_def books_ok_def Let_def)
  then show "p \<notin> nd_pending nd" by simp
  show "books_ok nd1" "nd_pending nd1 = insert p (nd_pending nd)" "nd_runtime nd1 = nd_runtime nd"
      "settled_kept (nd_promises nd) (nd_promises nd1)"
    using assms p by (auto simp: new_pending_request_def books_ok_def Let_def split: if_splits intro!: settled_kept_upd)
qed

lemma issue_request_outcome:
  assumes ok: "node_ok nd" and r: "nd_runtime nd = Some r" and c: "sends send (nd_next nd) (r\<lparr>rt_out := []\<rparr>) c"
  shows "c \<noteq> Lost \<Longrightarrow> advances nd (snd (issue_request send m nd))"
    and "c = Lost \<Longrightarrow> Freed_Request \<in> set (nd_faults (snd (issue_request send m nd)))"
proof -
  obtain p nd1 where n: "new_pending_request nd = (p, nd1)" by fastforce
  have p: "p = nd_next nd" using n by (auto simp: new_pending_request_def Let_def)
  have b: "books_ok nd" using ok by (simp add: node_ok_def)
  note N = new_pending_books [OF b n]
  have fin: "finite (nd_pending nd)" using b by (simp add: books_ok_def)
  obtain rid r' where s: "send p (r\<lparr>rt_out := []\<rparr>) = (rid, r')" by fastforce
  define nd2 where "nd2 = fold deliver (rt_out r') (nd1\<lparr>nd_runtime := Some (r'\<lparr>rt_out := []\<rparr>)\<rparr>)"
  have i: "issue_request send m nd = (if rid = None then request_refused m p nd2 else (Js_Promise p, nd2))"
    by (simp add: issue_request_def n on_runtime_def N(5) r run_rt_def s nd2_def)
  have nd2: "snd (run_rt (send p) r nd1) = nd2" by (simp add: run_rt_def s nd2_def)
  have open_r: "open_calls (rt_requests r) = node_owes (nd_pending nd)" "tracker_wf DefaultConfig (rt_requests r)"
    using ok by (simp_all add: node_ok_def r)
  show "advances nd (snd (issue_request send m nd))" if "c \<noteq> Lost"
  proof (cases "c = Issued")
    case True
    then have "rid \<noteq> None" "tracker_wf DefaultConfig (rt_requests r')"
        "balance r' = add_mset (REQUEST_COMPLETE_CB, p) (balance (r\<lparr>rt_out := []\<rparr>))"
      using c s p by (simp_all add: sends_def)
    moreover from this have "advances nd1 nd2"
      using N open_r fin unfolding nd2 [symmetric] by (intro run_rt_books) (simp_all add: s balance_def replies_def)
    ultimately show ?thesis using N(4) i by (auto simp: advances_def intro: settled_kept_trans)
  next
    case False
    then have rid: "rid = None" "rt_requests r' = rt_requests r" "made_calls (rt_out r') = {#}"
      using that c s p made_calls_replies [of "rt_out r'"] by (cases c; simp add: sends_def replies_def)+
    have q: "books nd2 = books nd1" "nd_next nd1 \<le> nd_next nd2"
      using fold_deliver_quiet [OF rid(3), of "nd1\<lparr>nd_runtime := Some (r'\<lparr>rt_out := []\<rparr>)\<rparr>"]
      by (simp_all add: nd2_def books_def)
    have B: "books_ok nd2" by (rule beside_books_ok [OF N(1) q])
    have P: "nd_pending nd2 = insert p (nd_pending nd)" "nd_promises nd2 = nd_promises nd1"
      using q(1) N(2) by (simp_all add: books_def)
    have R: "nd_runtime nd2 = Some (r'\<lparr>rt_out := []\<rparr>)" by (simp add: nd2_def fold_deliver_runtime)
    have "settled_kept (nd_promises nd2) (nd_promises (snd (request_refused m p nd2)))"
      using books_ok_pending(1) [OF B, of p] P by (auto simp: request_refused_def Let_def fail_def intro!: settled_kept_upd)
    moreover have "node_ok (snd (request_refused m p nd2))"
      using B P R rid(2) open_r N(3) books_ok_pending [OF B, of p]
      by (auto simp: request_refused_def Let_def node_ok_def books_ok_def)
    ultimately show ?thesis using N(4) P(2) rid(1) i by (auto simp: advances_def intro: settled_kept_trans)
  qed
  show "Freed_Request \<in> set (nd_faults (snd (issue_request send m nd)))" if "c = Lost"
  proof -
    have rid: "rid = None" "made_calls (rt_out r') = {#(REQUEST_COMPLETE_CB, p)#}"
      using that c s p made_calls_replies [of "rt_out r'"] by (simp_all add: sends_def replies_def)
    have f: "books_ok nd2" "{#(REQUEST_COMPLETE_CB, p)#} + node_owes (nd_pending nd2) = node_owes (insert p (nd_pending nd))"
      using fold_deliver [of "nd1\<lparr>nd_runtime := Some (r'\<lparr>rt_out := []\<rparr>)\<rparr>" "rt_out r'"] N fin rid(2)
      by (auto simp: nd2_def books_ok_def)
    then have "node_owes (nd_pending nd2) = node_owes (nd_pending nd)" using fin N(3) by simp
    then have "(REQUEST_COMPLETE_CB, p) \<notin># node_owes (nd_pending nd2)" using N(3) fin by (simp add: set_node_owes)
    then have "p \<notin> nd_requests nd2" using f(1) by (simp add: set_node_owes books_ok_def)
    then show ?thesis by (simp add: i rid(1) request_refused_def fail_def Let_def)
  qed
qed

section \<open>Every method\<close>

text \<open>
  The requests that are lost: there is a provider and a free slot, so the runtime allocates the
  request, and yet it returns no id.
\<close>

definition lost_in :: "('t, 'a) runtime \<Rightarrow> u32 option \<times> ('t, 'a) runtime \<Rightarrow> bool" where
  "lost_in r result \<longleftrightarrow>
     active_count (rt_requests r) < MaxPendingRequests DefaultConfig \<and> fst result = None"

fun request_lost :: "'s sockets \<Rightarrow> 'j js \<Rightarrow> node_op \<Rightarrow> ('s, 'j) node \<Rightarrow> bool" where
  "request_lost os js (N_Request clock sid mid payload timeout) nd =
     (nd_exception nd = None \<and>
      (case nd_runtime nd of
         None \<Rightarrow> False
       | Some r \<Rightarrow>
           get_provider_address (ucast sid) (rt_sd r) \<noteq> None \<and>
           lost_in r (request (node_env os js) (ucast sid) (ucast mid) payload (buffer_length payload)
             (Some REQUEST_COMPLETE_CB) (nd_next nd)
             (case timeout of None \<Rightarrow> RequestTimeoutMs DefaultConfig | Some t \<Rightarrow> t) clock (r\<lparr>rt_out := []\<rparr>))))"
| "request_lost os js (N_Request_To clock target sid mid payload timeout) nd =
     (nd_exception nd = None \<and>
      (case nd_runtime nd of
         None \<Rightarrow> False
       | Some r \<Rightarrow>
           lost_in r (request_to (node_env os js) (js_to_addr os target) (ucast sid) (ucast mid) payload
             (buffer_length payload) (Some REQUEST_COMPLETE_CB) (nd_next nd)
             (case timeout of None \<Rightarrow> RequestTimeoutMs DefaultConfig | Some t \<Rightarrow> t) clock (r\<lparr>rt_out := []\<rparr>))))"
| "request_lost os js _ nd = False"

definition outcome_of :: "('t, 'a) runtime \<Rightarrow> bool \<Rightarrow> u32 option \<times> ('t, 'a) runtime \<Rightarrow> outcome" where
  "outcome_of r found result =
     (if fst result \<noteq> None then Issued else if found \<and> lost_in r result then Lost else Refused)"

lemma request_to_sends:
  assumes "tracker_wf DefaultConfig (rt_requests r)"
    and "send p r = request_to (node_env os js) target sid mid payload n (Some REQUEST_COMPLETE_CB) p timeout clock r"
  shows "sends send p r (outcome_of r True (send p r))"
proof -
  have cap: "MaxPendingRequests DefaultConfig \<le> 2 ^ 32" by (simp add: DefaultConfig_def)
  obtain rid r' where q: "request_impl (node_env os js) target sid mid payload n (Some REQUEST_COMPLETE_CB) p
      timeout clock r = (rid, r')" by fastforce
  note o = request_impl_outcome [OF _ _ q, unfolded node_env_cfg, OF assms(1) cap]
  show ?thesis
    using o by (auto simp: sends_def outcome_of_def assms(2) request_to_def q lost_in_def)
qed

lemma request_sends:
  assumes "tracker_wf DefaultConfig (rt_requests r)"
    and "send p r = request (node_env os js) sid mid payload n (Some REQUEST_COMPLETE_CB) p timeout clock r"
  shows "sends send p r (outcome_of r (get_provider_address sid (rt_sd r) \<noteq> None) (send p r))"
proof (cases "get_provider_address sid (rt_sd r)")
  case None
  then show ?thesis by (simp add: assms(2) request_def sends_def outcome_of_def)
next
  case (Some a)
  then have "send p r = request_to (node_env os js) a sid mid payload n (Some REQUEST_COMPLETE_CB) p timeout clock r"
    by (simp add: assms(2) request_def request_to_def)
  then show ?thesis using request_to_sends [OF assms(1)] Some by simp
qed

lemma outcome_of_out [simp]: "outcome_of (r\<lparr>rt_out := os\<rparr>) = outcome_of r"
  by (intro ext) (simp add: outcome_of_def lost_in_def)

lemma issue_request_lost:
  assumes ok: "node_ok nd"
    and s: "\<And>r. nd_runtime nd = Some r \<Longrightarrow> tracker_wf DefaultConfig (rt_requests r) \<Longrightarrow>
      sends send (nd_next nd) (r\<lparr>rt_out := []\<rparr>) (outcome_of r (found r) (send (nd_next nd) (r\<lparr>rt_out := []\<rparr>)))"
    and l: "lost \<longleftrightarrow> nd_exception nd = None \<and> (case nd_runtime nd of None \<Rightarrow> False
      | Some r \<Rightarrow> found r \<and> lost_in r (send (nd_next nd) (r\<lparr>rt_out := []\<rparr>)))"
  shows "\<not> lost \<Longrightarrow> advances nd (snd (engine (issue_request send m) (ensure_alive nd)))"
    and "lost \<Longrightarrow> Freed_Request \<in> set (nd_faults (snd (engine (issue_request send m) (ensure_alive nd))))"
proof -
  let ?new = "snd (engine (issue_request send m) (ensure_alive nd))"
  have "(\<not> lost \<longrightarrow> advances nd ?new) \<and> (lost \<longrightarrow> Freed_Request \<in> set (nd_faults ?new))"
  proof (cases "nd_runtime nd")
    case None
    then show ?thesis using ok l by (simp add: engine_def ensure_alive_def beside_advances)
  next
    case (Some r)
    have alive: "ensure_alive nd = nd" using Some by (simp add: ensure_alive_def)
    have wf: "tracker_wf DefaultConfig (rt_requests r)" using ok Some by (simp add: node_ok_def)
    note i = issue_request_outcome [OF ok Some s [OF Some wf], of m]
    show ?thesis
    proof (cases "nd_exception nd")
      case None
      then show ?thesis using i l Some by (auto simp: alive engine_def outcome_of_def lost_in_def split: if_splits)
    next
      case (Some e)
      then show ?thesis using ok l by (simp add: alive engine_def beside_advances)
    qed
  qed
  then show "\<not> lost \<Longrightarrow> advances nd ?new" and "lost \<Longrightarrow> Freed_Request \<in> set (nd_faults ?new)" by blast+
qed

lemma node_request_lost:
  assumes "node_ok nd"
  shows "\<not> request_lost os js (N_Request clock sid mid payload timeout) nd \<Longrightarrow>
      advances nd (snd (node_request os js clock sid mid payload timeout nd))"
    and "request_lost os js (N_Request clock sid mid payload timeout) nd \<Longrightarrow>
      Freed_Request \<in> set (nd_faults (snd (node_request os js clock sid mid payload timeout nd)))"
    and "\<not> request_lost os js (N_Request_To clock target sid mid payload timeout) nd \<Longrightarrow>
      advances nd (snd (node_request_to os js clock target sid mid payload timeout nd))"
    and "request_lost os js (N_Request_To clock target sid mid payload timeout) nd \<Longrightarrow>
      Freed_Request \<in> set (nd_faults (snd (node_request_to os js clock target sid mid payload timeout nd)))"
proof -
  let ?t = "case timeout of None \<Rightarrow> RequestTimeoutMs DefaultConfig | Some t \<Rightarrow> t"
  let ?s = "\<lambda>p. request (node_env os js) (ucast sid) (ucast mid) payload (buffer_length payload)
    (Some REQUEST_COMPLETE_CB) p ?t clock"
  have s: "sends ?s (nd_next nd) (r\<lparr>rt_out := []\<rparr>) (outcome_of r
      (get_provider_address (ucast sid) (rt_sd r) \<noteq> None) (?s (nd_next nd) (r\<lparr>rt_out := []\<rparr>)))"
    if "tracker_wf DefaultConfig (rt_requests r)" for r
    using request_sends [where r = "r\<lparr>rt_out := []\<rparr>" and send = ?s and p = "nd_next nd", OF _ refl] that
    by (simp del: not_None_eq)
  note i = issue_request_lost [where send = ?s and found = "\<lambda>r. get_provider_address (ucast sid) (rt_sd r) \<noteq> None",
      OF assms s request_lost.simps(1)]
  show "\<not> request_lost os js (N_Request clock sid mid payload timeout) nd \<Longrightarrow>
      advances nd (snd (node_request os js clock sid mid payload timeout nd))"
    and "request_lost os js (N_Request clock sid mid payload timeout) nd \<Longrightarrow>
      Freed_Request \<in> set (nd_faults (snd (node_request os js clock sid mid payload timeout nd)))"
    unfolding node_request_def Let_def by (rule i; assumption)+
  let ?s = "\<lambda>p. request_to (node_env os js) (js_to_addr os target) (ucast sid) (ucast mid) payload
    (buffer_length payload) (Some REQUEST_COMPLETE_CB) p ?t clock"
  have s: "sends ?s (nd_next nd) (r\<lparr>rt_out := []\<rparr>) (outcome_of r True (?s (nd_next nd) (r\<lparr>rt_out := []\<rparr>)))"
    if "tracker_wf DefaultConfig (rt_requests r)" for r
    using request_to_sends [where r = "r\<lparr>rt_out := []\<rparr>" and send = ?s and p = "nd_next nd", OF _ refl] that
    by simp
  have l: "request_lost os js (N_Request_To clock target sid mid payload timeout) nd \<longleftrightarrow> nd_exception nd = None \<and>
      (case nd_runtime nd of None \<Rightarrow> False | Some r \<Rightarrow> True \<and> lost_in r (?s (nd_next nd) (r\<lparr>rt_out := []\<rparr>)))"
    by (simp split: option.split)
  note i = issue_request_lost [where send = ?s and found = "\<lambda>r. True", OF assms s l]
  show "\<not> request_lost os js (N_Request_To clock target sid mid payload timeout) nd \<Longrightarrow>
      advances nd (snd (node_request_to os js clock target sid mid payload timeout nd))"
    and "request_lost os js (N_Request_To clock target sid mid payload timeout) nd \<Longrightarrow>
      Freed_Request \<in> set (nd_faults (snd (node_request_to os js clock target sid mid payload timeout nd)))"
    unfolding node_request_to_def Let_def by (rule i; assumption)+
qed

lemma node_apply_advances:
  assumes "node_ok nd" "\<not> request_lost os js op nd"
  shows "advances nd (snd (node_apply os js op nd))"
  using assms
  by (cases op) (simp_all add: process_advances destroy_advances service_advances register_service_advances
      subscription_advances diagnostics_advances reader_advances address_advances node_request_lost)

lemma node_apply_lost:
  assumes "node_ok nd" "request_lost os js op nd"
  shows "Freed_Request \<in> set (nd_faults (snd (node_apply os js op nd)))"
  using assms by (cases op) (simp_all only: node_apply.simps request_lost.simps(3-) node_request_lost)

lemma node_construct_ok:
  assumes "node_construct os js options s world = Inr nd"
  shows "node_ok nd"
proof -
  obtain r where r: "nd_runtime nd = Some r" "rt_requests r = tracker_init DefaultConfig"
    and n: "nd_pending nd = {}" "nd_requests nd = {}" "nd_promises nd = Map.empty" "nd_faults nd = []"
    using assms
    by (auto simp: node_construct_def Let_def set_diagnostic_callback_def set_sd_callbacks_def
        set_local_address_def runtime_init_def split: option.splits prod.splits if_splits)
  have "open_calls (tracker_init DefaultConfig) = {#}"
    by (simp add: open_calls_def actives_def tracker_init_def default_pending_def)
  then show ?thesis by (simp add: node_ok_def books_ok_def r n)
qed

end
