(* ===== verification/Node_Properties.thy ===== *)
theory Node_Properties
  imports Node_Requests
begin

text \<open>
  The properties of the Node.js binding: promises are settled once as long as no request is lost on
  the way to the transport, and the three places where a callback of the runtime meets an object
  that is gone or a null buffer.
\<close>

section \<open>Promises\<close>

text \<open>No request of a run is lost.\<close>

fun none_lost :: "'s sockets \<Rightarrow> 'j js \<Rightarrow> node_op list \<Rightarrow> ('s, 'j) node \<Rightarrow> bool" where
  "none_lost os js [] nd = True"
| "none_lost os js (op # ops) nd =
     (\<not> request_lost os js op nd \<and> none_lost os js ops (snd (node_apply os js op nd)))"

definition node_run :: "'s sockets \<Rightarrow> 'j js \<Rightarrow> node_op list \<Rightarrow> ('s, 'j) node \<Rightarrow> ('s, 'j) node" where
  "node_run os js ops nd = fold (\<lambda>op nd. snd (node_apply os js op nd)) ops nd"

lemma node_run_simps [simp]:
  "node_run os js [] nd = nd"
  "node_run os js (op # ops) nd = node_run os js ops (snd (node_apply os js op nd))"
  "node_run os js (ops @ ops') nd = node_run os js ops' (node_run os js ops nd)"
  by (simp_all add: node_run_def)

lemma none_lost_append [simp]:
  "none_lost os js (ops @ ops') nd \<longleftrightarrow> none_lost os js ops nd \<and> none_lost os js ops' (node_run os js ops nd)"
  by (induction ops arbitrary: nd) auto

lemma run_advances: "node_ok nd \<Longrightarrow> none_lost os js ops nd \<Longrightarrow> advances nd (node_run os js ops nd)"
proof (induction ops arbitrary: nd)
  case (Cons op ops)
  then have "advances nd (snd (node_apply os js op nd))" by (simp add: node_apply_advances)
  then show ?case using Cons by (auto dest: advances_node_ok intro: advances_trans)
qed (simp add: beside_advances)

text \<open>As long as no request is lost on the way to the transport, the binding keeps one promise per
  request: after any methods, the open promises are exactly the ones whose completion callback the
  runtime still owes, no callback has touched a request object that was freed, and a promise that is
  settled keeps its value whatever methods follow.\<close>

theorem promises_settled_once:
  assumes "node_construct os js options s world = Inr nd0" "none_lost os js (ops @ later) nd0"
    and "nd = node_run os js ops nd0"
  shows "(\<forall>r. nd_runtime nd = Some r \<longrightarrow> open_calls (rt_requests r) =
      image_mset (Pair REQUEST_COMPLETE_CB) (mset_set {p. nd_promises nd p = Some Open})) \<and>
    Freed_Request \<notin> set (nd_faults nd) \<and>
    settled_kept (nd_promises nd) (nd_promises (node_run os js later nd))"
proof -
  have "node_ok nd" "none_lost os js later nd"
    using run_advances [OF node_construct_ok [OF assms(1)]] assms(2,3) by (auto dest: advances_node_ok)
  then show ?thesis
    using run_advances [of nd os js later]
    by (auto simp add: advances_def node_ok_def books_ok_def node_owes_def)
qed

definition demo_sockets :: "int \<Rightarrow> nat sockets" where
  "demo_sockets res = \<lparr> os_inet_pton = (\<lambda>s. Some [127, 0, 0, 1]), os_socket = (\<lambda>n. (int n, Suc n)),
     os_bind = (\<lambda>fd a n. (0, n)), os_join = (\<lambda>fd g i n. (0, n)), os_setopt = (\<lambda>name fd v n. n),
     os_close = (\<lambda>fd n. n), os_sendto = (\<lambda>fd d a n. (if res < 0 then res else int (length d), n)),
     os_recvfrom = (\<lambda>fd k n. (- 1, [], \<lparr>sin_addr = [], sin_port = 0\<rparr>, n)) \<rparr>"

definition demo_js :: "nat js" where
  "demo_js = \<lparr> js_on_request = (\<lambda>f mid p w. (Js_Reply 0 (Some [1, 2, 3]), Suc w)), js_is_ready = (\<lambda>f w. True) \<rparr>"

definition demo_options :: node_options where
  "demo_options = \<lparr> opt_bind_ip = None, opt_port = Some 4000, opt_client_id = Some 7 \<rparr>"

definition demo_node :: "int \<Rightarrow> (nat, nat) node" where
  "demo_node res = projr (node_construct (demo_sockets res) demo_js (Some demo_options) 3 0)"

lemma demo_construct:
  "node_construct (demo_sockets res) demo_js (Some demo_options) 3 0 = Inr (demo_node res)"
  by (simp add: demo_node_def node_construct_def demo_options_def udp_open_def udp_open_unicast_def
      udp_open_mcast_def udp_setopts_def udp_init_def Let_def demo_sockets_def)

lemma demo_node_fields:
  "nd_exception (demo_node res) = None" "nd_promises (demo_node res) = Map.empty"
  "\<exists>r. nd_runtime (demo_node res) = Some r \<and> active_count (rt_requests r) = 0"
  by (simp_all add: demo_node_def node_construct_def demo_options_def udp_open_def udp_open_unicast_def
      udp_open_mcast_def udp_setopts_def udp_init_def Let_def demo_sockets_def set_diagnostic_callback_def
      set_sd_callbacks_def set_local_address_def runtime_init_def active_count_def tracker_init_def
      default_pending_def)

text \<open>A transport that takes every datagram loses no request.\<close>

lemma accepted_request:
  assumes "\<And>dest data t. fst (udp_send os dest data t)"
    and "tracker_wf DefaultConfig (rt_requests r)"
  shows "\<not> lost_in r (request_to (node_env os js) target sid mid p n cb ctx timeout now_ms r)"
proof (cases "active_count (rt_requests r) < MaxPendingRequests DefaultConfig")
  case True
  have "fst (rt_send (node_env os js) dest k r)" for dest k r
    using assms by (simp add: rt_send_def transport_send_def node_env_def Let_def case_prod_beta)
  moreover have "\<exists>rid. fst (allocate DefaultConfig lg sid mid timeout now_ms cb ctx (rt_requests r)) = Some rid" for lg
    using allocate_None(1) [OF assms(2), of lg sid mid timeout now_ms cb ctx] True by auto
  then obtain rid where "fst (allocate DefaultConfig (Some (rt_logger r)) sid mid timeout now_ms cb ctx (rt_requests r)) = Some rid"
    by blast
  ultimately show ?thesis
    by (simp add: lost_in_def request_to_def request_impl_def Let_def case_prod_beta)
qed (simp add: lost_in_def)

lemma accepted_never_lost:
  assumes "\<And>dest data t. fst (udp_send os dest data t)" "node_ok nd"
  shows "\<not> request_lost os js op nd"
proof (cases "nd_runtime nd")
  case None
  then show ?thesis by (cases op) simp_all
next
  case (Some r)
  then have "tracker_wf DefaultConfig (rt_requests (r\<lparr>rt_out := []\<rparr>))" using assms(2) by (simp add: node_ok_def)
  note n = accepted_request [OF assms(1) this]
  have "lost_in (r\<lparr>rt_out := os'\<rparr>) x = lost_in r x" for os' x by (simp add: lost_in_def)
  then show ?thesis using n Some by (cases op) (auto simp: request_def simp flip: request_to_def)
qed

lemma accepted_none_lost:
  assumes "\<And>dest data t. fst (udp_send os dest data t)"
  shows "node_ok nd \<Longrightarrow> none_lost os js ops nd"
proof (induction ops arbitrary: nd)
  case (Cons op ops)
  then show ?case using accepted_never_lost [OF assms Cons.prems, of js op] node_apply_advances [OF Cons.prems, of os js op]
    by (simp add: advances_node_ok)
qed simp

theorem promises_settled_once_witness:
  "Freed_Request \<notin> set (nd_faults (node_run (demo_sockets 0) demo_js
     [N_Request_To 5 (''peer'', 4000) 0x1000 3 None None, N_Process 6 None, N_Destroy] (demo_node 0)))"
proof -
  let ?ops = "[N_Request_To 5 (''peer'', 4000) 0x1000 3 None None, N_Process 6 None, N_Destroy]"
  have "none_lost (demo_sockets 0) demo_js (?ops @ []) (demo_node 0)"
    by (rule accepted_none_lost) (auto simp: udp_send_def demo_sockets_def intro: node_construct_ok [OF demo_construct])
  then show ?thesis using promises_settled_once [OF demo_construct _ refl] by blast
qed

section \<open>A request that is lost\<close>

text \<open>C37: When the runtime has allocated a request but the transport refuses the frame, the completion
  callback frees the request object and the method then uses and frees it again: after any methods
  without such a loss, the next one touches a freed request object exactly when it is a request that
  is lost.\<close>

theorem lost_request_uses_freed_object:
  assumes "node_construct os js options s world = Inr nd0" "none_lost os js ops nd0"
    and "nd = node_run os js ops nd0"
  shows "Freed_Request \<in> set (nd_faults (snd (node_apply os js op nd))) \<longleftrightarrow> request_lost os js op nd"
proof -
  have ok: "node_ok nd"
    using run_advances [OF node_construct_ok [OF assms(1)] assms(2)] assms(3) by (auto dest: advances_node_ok)
  show ?thesis
    using node_apply_lost [OF ok] node_apply_advances [OF ok, of os js op]
    by (auto simp: advances_def node_ok_def books_ok_def)
qed

text \<open>A transport that refuses every datagram.\<close>

lemma refused_request:
  assumes "\<And>dest data t. \<not> fst (udp_send os dest data t)"
  shows "fst (request_to (node_env os js) target sid mid p n cb ctx timeout now_ms r) = None"
proof -
  have "\<not> fst (rt_send (node_env os js) dest k r)" for dest k r
    using assms by (simp add: rt_send_def transport_send_def node_env_def Let_def case_prod_beta)
  then show ?thesis by (simp add: request_to_def request_impl_def Let_def case_prod_beta split: option.split)
qed

theorem lost_request_uses_freed_object_witness:
  "Freed_Request \<in> set (nd_faults (snd (node_apply (demo_sockets (- 1)) demo_js
     (N_Request_To 5 (''peer'', 4000) 0x1000 3 None None) (demo_node (- 1)))))"
proof -
  obtain r where r: "nd_runtime (demo_node (- 1)) = Some r" "active_count (rt_requests r) = 0"
    using demo_node_fields(3) by blast
  have "\<not> fst (udp_send (demo_sockets (- 1)) dest data t)" for dest data t
    by (simp add: udp_send_def demo_sockets_def)
  then have "request_lost (demo_sockets (- 1)) demo_js (N_Request_To 5 (''peer'', 4000) 0x1000 3 None None)
      (demo_node (- 1))"
    using r by (simp add: demo_node_fields lost_in_def refused_request DefaultConfig_def)
  then show ?thesis
    using lost_request_uses_freed_object [OF demo_construct, where ops = "[]" and nd = "demo_node (- 1)"]
    by (simp del: request_lost.simps node_apply.simps)
qed

section \<open>Destruction\<close>

text \<open>\<open>destroy\<close> rejects the open promises and leaves the settled ones; a later call of \<open>process\<close> goes
  through the null pointer, since \<open>ensure_alive\<close> only schedules its exception.\<close>

lemma destroy_rejects_open:
  assumes "node_ok nd"
  shows "nd_promises (snd (node_destroy os nd)) =
    (\<lambda>p. if nd_promises nd p = Some Open then Some (Rejected ''Runtime destroyed'') else nd_promises nd p)"
  using assms by (auto simp: node_destroy_def do_destroy_def reject_all_def node_ok_def books_ok_def Let_def)

lemma process_after_destroy:
  "Null_Runtime \<in> set (nd_faults (snd (node_process os js clock now (snd (node_destroy os' nd)))))"
  by (simp add: node_process_def node_destroy_def do_destroy_def on_runtime_def ensure_alive_def fail_def Let_def)

section \<open>A response to a request that wants none\<close>

lemma rt_app_debug [simp]: "rt_app (rt_debug env c tag s m i x r) = rt_app r"
  by (simp add: rt_debug_def emit_def)

lemma node_env_call: "app_on_request (node_env os js) = js_service_on_request js"
  by (simp add: node_env_def)

text \<open>A fire-and-forget message reaches the service with a null response buffer; when the handler of a
  JavaScript service returns a response that is not empty, the adapter copies it through that null
  pointer.\<close>

theorem fire_and_forget_null_response:
  assumes "find_service_entry (hdr_service_id hdr) (rt_dispatcher r) = Some se"
    and "se_context se = Some (AppCtx n)" "entry_ready (service_ready (node_env os js) r) se"
    and "ap_services (rt_app r) n = Some svc"
    and "js_on_request js (on_request_cb svc) (hdr_method_event_id hdr) payload (ap_world (rt_app r)) =
      (Js_Reply rc (Some response), world)" "response \<noteq> []"
  shows "ap_faults (rt_app (handle_fire_and_forget (node_env os js) hdr payload r)) =
    ap_faults (rt_app r) @ [Null_Response]"
proof -
  have "MaxPayloadSize DefaultConfig > 0" by (simp add: DefaultConfig_def)
  then show ?thesis
    using assms
    by (simp add: handle_fire_and_forget_def Let_def entry_call_def service_call_def js_service_on_request_def
        node_env_call emit_def)
qed

definition demo_fnf :: MessageHeader where
  "demo_fnf = default_header\<lparr>hdr_service_id := 0x1000, hdr_method_event_id := 3\<rparr>"

definition demo_serving :: "(nat udp, nat app) runtime" where
  "demo_serving = (runtime_init (node_env (demo_sockets 0) demo_js) (udp_init 3)
       \<lparr>ap_world = 0, ap_services = [2 \<mapsto> \<lparr>on_request_cb = 8, is_ready_cb = None\<rparr>], ap_faults = []\<rparr> 7)
     \<lparr>rt_dispatcher := t_push (make_service_entry 0x1000 (AppCtx 2) 1 0 False) (dispatcher_init DefaultConfig)\<rparr>"

theorem fire_and_forget_null_response_witness:
  "ap_faults (rt_app (handle_fire_and_forget (node_env (demo_sockets 0) demo_js) demo_fnf [9] demo_serving)) =
     [Null_Response]"
proof -
  have "find_service_entry (hdr_service_id demo_fnf) (rt_dispatcher demo_serving) =
      Some (make_service_entry 0x1000 (AppCtx 2) 1 0 False)"
    by code_simp
  then show ?thesis
    using fire_and_forget_null_response [where hdr = demo_fnf and r = demo_serving and os = "demo_sockets 0"
        and js = demo_js and payload = "[9]" and n = 2 and svc = "\<lparr>on_request_cb = 8, is_ready_cb = None\<rparr>"
        and response = "[1, 2, 3]" and rc = 0 and world = 1]
    by (simp add: demo_serving_def runtime_init_def Let_def make_service_entry_def demo_js_def entry_ready_def
        service_ready_def js_service_is_ready_def node_env_def)
qed

section \<open>A subscription that fails\<close>

lemma deliver_handlers: "nd_handler_objects (deliver x nd) = nd_handler_objects nd \<and>
    set (nd_faults nd) \<subseteq> set (nd_faults (deliver x nd))"
  by (cases x) (auto simp: request_complete_cb_def sd_on_service_found_def sd_on_service_lost_def fail_def
      sd_on_subscription_ack_def diag_callback_trampoline_def js_event_handler_on_event_def js_calls_def
      split: option.split)

lemma fold_deliver_faults: "set (nd_faults nd) \<subseteq> set (nd_faults (fold deliver os nd))"
proof (induction os arbitrary: nd)
  case (Cons x os)
  then show ?case using deliver_handlers [of x nd] Cons.IH [of "deliver x nd"] by auto
qed simp

lemma freed_handler_called:
  "Out_Event h sid eid p \<in> set os \<Longrightarrow> nd_handler_objects nd h = None \<Longrightarrow>
   Freed_Handler \<in> set (nd_faults (fold deliver os nd))"
proof (induction os arbitrary: nd)
  case (Cons x os)
  show ?case
  proof (cases "x = Out_Event h sid eid p")
    case True
    then show ?thesis
      using Cons.prems(2) fold_deliver_faults [of "fail Freed_Handler nd" os]
      by (auto simp: js_event_handler_on_event_def fail_def)
  next
    case False
    then show ?thesis using Cons deliver_handlers [of x nd] by simp
  qed
qed simp

lemma registered_handler:
  assumes "handlers_wf cfg t" "used t < MAX_EVENT_HANDLERS cfg"
  obtains t' where "register_event_handler cfg sid eid h t = (True, t')"
    and "find_event_handler sid eid t' = Some (make_event_handler_entry sid eid h)"
proof -
  have ok: "fst (register_event_handler cfg sid eid h t)"
    using assms(2) by (simp add: register_event_handler_def split: option.split)
  define t' where "t' = handler_put cfg h (sid, eid) t"
  have reg: "register_event_handler cfg sid eid h t = (True, t')"
    using ok by (simp add: t'_def handler_put_def prod_eq_iff)
  have "card (dom (handler_lookup t)) < MAX_EVENT_HANDLERS cfg"
    using assms card_dom_t_lookup by (metis handlers_wf_def)
  then have "handler_lookup t' (sid, eid) = Some (make_event_handler_entry sid eid h)"
    unfolding t'_def using handlers.put_same [OF assms(1)] by (simp add: handler_merge_def)
  then have "find_event_handler sid eid t' = Some (make_event_handler_entry sid eid h)"
    using find_handler_lookup [of cfg t' sid eid] handlers.put_inv [OF assms(1), of h "(sid, eid)"] by (simp add: t'_def)
  then show ?thesis using that reg by blast
qed

text \<open>C38: A subscription that the runtime refuses because its table of subscriptions is full still leaves
  the new handler in the table of event handlers, while the method frees that handler: when it has
  returned \<open>false\<close>, the next notification of the event calls a freed object.\<close>

theorem refused_subscription_leaves_freed_handler:
  assumes "nd_runtime nd = Some r" "handlers_wf DefaultConfig (rt_handlers r)"
    and "used (rt_handlers r) < MAX_EVENT_HANDLERS DefaultConfig"
    and "t_find (tracker_is (ucast sid, ucast eid)) (sd_trackers (rt_sd r)) = None"
    and "MAX_SUB_TRACKERS DefaultConfig \<le> used (sd_trackers (rt_sd r))"
    and "node_subscribe_event os js clock sid eid handler ttl nd = (result, nd')"
    and "hdr_service_id hdr = ucast sid" "hdr_method_event_id hdr = ucast eid"
  shows "result = Js_Bool False \<and> (\<exists>r'. nd_runtime nd' = Some r' \<and>
    Freed_Handler \<in> set (nd_faults (snd (run_rt (\<lambda>r. ((), handle_notification (node_env os js) hdr payload r)) r' nd'))))"
proof -
  let ?sid = "ucast sid :: u16" and ?eid = "ucast eid :: u16" and ?h = "nd_next nd"
  obtain hs where hs: "register_event_handler DefaultConfig ?sid ?eid ?h (rt_handlers r) = (True, hs)"
    and find: "find_event_handler ?sid ?eid hs = Some (make_event_handler_entry ?sid ?eid ?h)"
    using registered_handler [OF assms(2,3)] by blast
  define r' where "r' = r\<lparr>rt_handlers := hs, rt_out := []\<rparr>"
  define nd2 where "nd2 = free_handler ?h (nd\<lparr>nd_next := ?h + 1,
    nd_handler_objects := (nd_handler_objects nd)(?h \<mapsto> handler), nd_runtime := Some r'\<rparr>)"
  have sub: "subscribe_event (node_env os js) ?sid ?eid ?h ttl' clock (r\<lparr>rt_out := []\<rparr>) = (False, r')" for ttl'
    using hs assms(4,5) by (simp add: subscribe_event_def sd_subscribe_event_def r'_def Let_def)
  have nd': "result = Js_Bool False" "nd' = nd2"
    using assms(1,6) by (auto simp: node_subscribe_event_def ensure_alive_def on_runtime_def run_rt_def sub nd2_def
        r'_def Let_def)
  have gone: "nd_handler_objects nd2 ?h = None" "nd_runtime nd2 = Some r'"
    by (simp_all add: nd2_def free_handler_def)
  have "Out_Event ?h ?sid ?eid payload \<in> set (rt_out (handle_notification (node_env os js) hdr payload r''))"
    if "rt_handlers r'' = hs" for r'' :: "('a udp, 'b app) runtime"
    using find by (simp add: handle_notification_def that assms(7,8) emit_def)
  then have "Freed_Handler \<in> set (nd_faults (snd (run_rt (\<lambda>r. ((), handle_notification (node_env os js) hdr payload r)) r' nd2)))"
    using gone by (auto simp: run_rt_def r'_def intro!: freed_handler_called [of ?h ?sid ?eid payload])
  then show ?thesis using nd' gone by auto
qed

definition demo_tracker :: "nat \<Rightarrow> SubTracker" where
  "demo_tracker i = default_tracker\<lparr>st_service_id := 1, st_event_id := of_nat i, st_active := True\<rparr>"

definition demo_full :: "(nat, nat) node" where
  "demo_full = (demo_node 0)\<lparr>nd_runtime := Some (demo_serving\<lparr>rt_sd := (rt_sd demo_serving)
     \<lparr>sd_trackers := \<lparr>slots = map demo_tracker [0..<512], used = 512\<rparr>\<rparr>\<rparr>)\<rparr>"

theorem refused_subscription_leaves_freed_handler_witness:
  "fst (node_subscribe_event (demo_sockets 0) demo_js 5 0x1000 0x8001 9 None demo_full) = Js_Bool False"
proof -
  obtain r where r: "nd_runtime demo_full = Some r"
    "sd_trackers (rt_sd r) = \<lparr>slots = map demo_tracker [0..<512], used = 512\<rparr>"
    "rt_handlers r = handlers_init DefaultConfig"
    by (simp add: demo_full_def demo_serving_def runtime_init_def Let_def node_env_def)
  have "t_wf 512 (sd_trackers (rt_sd r))" by (simp add: r(2) t_wf_def)
  then have "t_find (tracker_is (0x1000, 0x8001)) (sd_trackers (rt_sd r)) = None"
    by (auto simp: t_find_None live_def tracker_is_def r(2) demo_tracker_def)
  moreover have "used (rt_handlers r) < MAX_EVENT_HANDLERS DefaultConfig"
    "MAX_SUB_TRACKERS DefaultConfig \<le> used (sd_trackers (rt_sd r))"
    by (simp_all add: r(2,3) MAX_SUB_TRACKERS_def MAX_EVENT_HANDLERS_def handlers_init_def t_empty_def)
      (simp_all add: DefaultConfig_def)
  moreover have "handlers_wf DefaultConfig (rt_handlers r)" by (simp add: r(3))
  ultimately show ?thesis
    using refused_subscription_leaves_freed_handler [where nd = demo_full and sid = "0x1000" and eid = "0x8001"
        and os = "demo_sockets 0" and js = demo_js and clock = 5 and handler = 9 and ttl = None
        and hdr = "default_header\<lparr>hdr_service_id := 0x1000, hdr_method_event_id := 0x8001\<rparr>" and payload = "[]",
        OF r(1)]
    by (simp add: prod_eq_iff)
qed

end
