(* ===== verification/Node_Arguments.thy ===== *)
theory Node_Arguments
  imports Node_Requests
begin

text \<open>
  The face of the Node.js binding towards JavaScript (\<open>node-module/src/sero-node.cpp\<close>): what the module
  exports, how a method reads its arguments, and a call with any arguments.  Values of JavaScript are
  a parameter type, and what the engine says of them is the record \<open>napi\<close>: tests, conversions, which
  fail with a message, and properties of objects.  Arguments beyond the last one are the value
  \<open>undefined\<close>.  A conversion that fails leaves the method by an exception of C++.
\<close>

section \<open>Values and conversions\<close>

record 'v napi =
  na_undefined :: 'v
  na_is_undefined :: "'v \<Rightarrow> bool"
  na_is_number :: "'v \<Rightarrow> bool"
  na_is_boolean :: "'v \<Rightarrow> bool"
  na_is_object :: "'v \<Rightarrow> bool"
  na_is_function :: "'v \<Rightarrow> bool"
  na_is_buffer :: "'v \<Rightarrow> bool"
  na_uint32 :: "'v \<Rightarrow> string + u32"
  na_utf8 :: "'v \<Rightarrow> string + string"
  na_boolean :: "'v \<Rightarrow> string + bool"
  na_function :: "'v \<Rightarrow> string + nat"
  na_buffer :: "'v \<Rightarrow> string + bytes"
  na_has :: "'v \<Rightarrow> string \<Rightarrow> bool"
  na_get :: "'v \<Rightarrow> string \<Rightarrow> string + 'v"

text \<open>The next step of a method after a conversion.\<close>

fun conv :: "string + 'x \<Rightarrow> ('x \<Rightarrow> string + 'y) \<Rightarrow> string + 'y" where
  "conv (Inl m) f = Inl m"
| "conv (Inr x) f = f x"

definition arg :: "'v napi \<Rightarrow> 'v list \<Rightarrow> nat \<Rightarrow> 'v" where
  "arg e info i = (if i < length info then info ! i else na_undefined e)"

abbreviation u32_arg :: "'v napi \<Rightarrow> 'v list \<Rightarrow> nat \<Rightarrow> string + u32" where
  "u32_arg e info i \<equiv> na_uint32 e (arg e info i)"

text \<open>An optional argument counts when it is there and of the right type.\<close>

definition opt_arg :: "('v \<Rightarrow> bool) \<Rightarrow> ('v \<Rightarrow> string + 'x) \<Rightarrow> 'v list \<Rightarrow> nat \<Rightarrow> string + 'x option" where
  "opt_arg is rd info i =
     (if i < length info \<and> is (info ! i) then conv (rd (info ! i)) (Inr \<circ> Some) else Inr None)"

text \<open>The payload of the two request methods, which do not look at the number of arguments.\<close>

definition payload_arg :: "'v napi \<Rightarrow> 'v list \<Rightarrow> nat \<Rightarrow> string + bytes option" where
  "payload_arg e info i =
     (if na_is_buffer e (arg e info i) then conv (na_buffer e (arg e info i)) (Inr \<circ> Some) else Inr None)"

definition opt_property :: "'v napi \<Rightarrow> ('v \<Rightarrow> string + 'x) \<Rightarrow> 'v \<Rightarrow> string \<Rightarrow> string + 'x option" where
  "opt_property e rd obj name =
     (if na_has e obj name then conv (na_get e obj name) (\<lambda>v. conv (rd v) (Inr \<circ> Some)) else Inr None)"

text \<open>The two fields that \<open>js_to_addr\<close> reads.\<close>

definition addr_arg :: "'v napi \<Rightarrow> 'v list \<Rightarrow> nat \<Rightarrow> string + string \<times> u32" where
  "addr_arg e info i =
     conv (na_get e (arg e info i) ''ip'') (\<lambda>v. conv (na_utf8 e v) (\<lambda>ip.
     conv (na_get e (arg e info i) ''port'') (\<lambda>v. conv (na_uint32 e v) (\<lambda>port. Inr (ip, port)))))"

text \<open>\<open>addr_to_js\<close>: the text of the address, by \<open>inet_ntop\<close>, and the port.\<close>

definition addr_to_js :: "(bytes \<Rightarrow> string) \<Rightarrow> addr \<Rightarrow> string \<times> u16" where
  "addr_to_js ntop a = (ntop (take 4 a), push_bit 8 (ucast (a ! 4)) OR ucast (a ! 5))"

section \<open>Exports\<close>

datatype js_method =
  M_Process | M_Destroy | M_Register_Service | M_Unregister_Service | M_Offer_Service | M_Stop_Offer
| M_Register_Event | M_Notify_Event | M_Find_Service | M_Request | M_Request_To | M_Fire_And_Forget
| M_Subscribe_Event | M_Unsubscribe_Event | M_On_Service_Found | M_On_Service_Lost | M_On_Subscription_Ack
| M_Set_Hmac_Key | M_On_Diagnostic | M_Get_Diagnostics | M_Enable_Diagnostics | M_Report_Dtc | M_Clear_Dtc
| M_Clear_All_Dtcs | M_Get_Dtcs | M_Set_Local_Address | M_Get_Local_Address

definition exported_methods :: "(string \<times> js_method) list" where
  "exported_methods =
     [(''process'', M_Process), (''destroy'', M_Destroy), (''registerService'', M_Register_Service),
      (''unregisterService'', M_Unregister_Service), (''offerService'', M_Offer_Service),
      (''stopOffer'', M_Stop_Offer), (''registerEvent'', M_Register_Event), (''notifyEvent'', M_Notify_Event),
      (''findService'', M_Find_Service), (''request'', M_Request), (''requestTo'', M_Request_To),
      (''fireAndForget'', M_Fire_And_Forget), (''subscribeEvent'', M_Subscribe_Event),
      (''unsubscribeEvent'', M_Unsubscribe_Event), (''onServiceFound'', M_On_Service_Found),
      (''onServiceLost'', M_On_Service_Lost), (''onSubscriptionAck'', M_On_Subscription_Ack),
      (''setHmacKey'', M_Set_Hmac_Key), (''onDiagnostic'', M_On_Diagnostic),
      (''getDiagnostics'', M_Get_Diagnostics), (''enableDiagnostics'', M_Enable_Diagnostics),
      (''reportDtc'', M_Report_Dtc), (''clearDtc'', M_Clear_Dtc), (''clearAllDtcs'', M_Clear_All_Dtcs),
      (''getDtcs'', M_Get_Dtcs), (''setLocalAddress'', M_Set_Local_Address),
      (''getLocalAddress'', M_Get_Local_Address)]"

definition exported_return_codes :: "(string \<times> nat) list" where
  "exported_return_codes =
     [(''E_OK'', 0x00), (''E_NOT_OK'', 0x01), (''E_UNKNOWN_SERVICE'', 0x02), (''E_UNKNOWN_METHOD'', 0x03),
      (''E_NOT_READY'', 0x04), (''E_NOT_REACHABLE'', 0x05), (''E_TIMEOUT'', 0x06),
      (''E_MALFORMED_MESSAGE'', 0x07), (''E_AUTH_FAILED'', 0x08), (''E_DUPLICATE'', 0x09)]"

definition exported_severities :: "(string \<times> nat) list" where
  "exported_severities = [(''Info'', 0), (''Warning'', 1), (''Error'', 2), (''Fatal'', 3)]"

definition exported_counters :: "(string \<times> nat) list" where
  "exported_counters =
     [(''CrcErrors'', 0), (''VersionMismatches'', 1), (''OversizedPayloads'', 2), (''TypeIdMismatches'', 3),
      (''DuplicateMessages'', 4), (''StaleMessages'', 5), (''AuthFailures'', 6), (''UnknownMessageTypes'', 7),
      (''DroppedMessages'', 8)]"

definition exported_message_types :: "(string \<times> nat) list" where
  "exported_message_types =
     [(''REQUEST'', 0x00), (''REQUEST_NO_RETURN'', 0x01), (''RESPONSE'', 0x02), (''NOTIFICATION'', 0x03),
      (''ERROR'', 0x80)]"

section \<open>Reading the arguments of a method\<close>

definition decode_options :: "'v napi \<Rightarrow> 'v list \<Rightarrow> string + node_options option" where
  "decode_options e info =
     (if info = [] \<or> \<not> na_is_object e (info ! 0) then Inr None
      else
        let opts = info ! 0 in
        conv (if na_has e opts ''bindIp''
              then conv (na_get e opts ''bindIp'') (\<lambda>v.
                     if na_is_undefined e v then Inr None else conv (na_utf8 e v) (Inr \<circ> Some))
              else Inr None) (\<lambda>ip.
        conv (opt_property e (na_uint32 e) opts ''port'') (\<lambda>port.
        if port = None then Inr (Some \<lparr>opt_bind_ip = ip, opt_port = None, opt_client_id = None\<rparr>)
        else conv (opt_property e (na_uint32 e) opts ''clientId'') (\<lambda>cid.
          Inr (Some \<lparr>opt_bind_ip = ip, opt_port = port, opt_client_id = cid\<rparr>)))))"

definition decode_register_service :: "'v napi \<Rightarrow> 'v list \<Rightarrow> string + node_op" where
  "decode_register_service e info =
     (if length info < 2 then Inl ''registerService(serviceId, handler, options?)''
      else
        conv (u32_arg e info 0) (\<lambda>sid.
        conv (na_get e (info ! 1) ''onRequest'') (\<lambda>f.
        conv (na_get e (info ! 1) ''isReady'') (\<lambda>g.
        let with_opts = (length info > 2 \<and> na_is_object e (info ! 2)); opts = info ! 2 in
        conv (if with_opts then opt_property e (na_uint32 e) opts ''majorVersion'' else Inr None) (\<lambda>major.
        conv (if with_opts then opt_property e (na_uint32 e) opts ''minorVersion'' else Inr None) (\<lambda>minor.
        conv (if with_opts then opt_property e (na_boolean e) opts ''authRequired'' else Inr None) (\<lambda>auth.
        conv (na_function e f) (\<lambda>f.
        conv (if na_is_function e g then conv (na_function e g) (Inr \<circ> Some) else Inr None) (\<lambda>g.
          Inr (N_Register_Service sid f g major minor auth))))))))))"

text \<open>The operation that a method performs; \<open>clock\<close> is the value of \<open>now_ms()\<close>.\<close>

fun decode :: "'v napi \<Rightarrow> u32 \<Rightarrow> js_method \<Rightarrow> 'v list \<Rightarrow> string + node_op" where
  "decode e clock M_Process info =
     conv (opt_arg (na_is_number e) (na_uint32 e) info 0) (\<lambda>now. Inr (N_Process clock now))"
| "decode e clock M_Destroy info = Inr N_Destroy"
| "decode e clock M_Register_Service info = decode_register_service e info"
| "decode e clock M_Unregister_Service info = conv (u32_arg e info 0) (\<lambda>sid. Inr (N_Unregister_Service sid))"
| "decode e clock M_Offer_Service info =
     conv (u32_arg e info 0) (\<lambda>sid. conv (opt_arg (na_is_number e) (na_uint32 e) info 1) (\<lambda>ttl.
       Inr (N_Offer_Service clock sid ttl)))"
| "decode e clock M_Stop_Offer info = conv (u32_arg e info 0) (\<lambda>sid. Inr (N_Stop_Offer sid))"
| "decode e clock M_Register_Event info =
     conv (u32_arg e info 0) (\<lambda>sid. conv (u32_arg e info 1) (\<lambda>eid. Inr (N_Register_Event sid eid)))"
| "decode e clock M_Notify_Event info =
     conv (u32_arg e info 0) (\<lambda>sid. conv (u32_arg e info 1) (\<lambda>eid.
     conv (opt_arg (na_is_buffer e) (na_buffer e) info 2) (\<lambda>payload. Inr (N_Notify_Event sid eid payload))))"
| "decode e clock M_Find_Service info =
     conv (u32_arg e info 0) (\<lambda>sid. conv (opt_arg (na_is_number e) (na_uint32 e) info 1) (\<lambda>major.
       Inr (N_Find_Service clock sid major)))"
| "decode e clock M_Request info =
     conv (u32_arg e info 0) (\<lambda>sid. conv (u32_arg e info 1) (\<lambda>mid.
     conv (payload_arg e info 2) (\<lambda>payload. conv (opt_arg (na_is_number e) (na_uint32 e) info 3) (\<lambda>timeout.
       Inr (N_Request clock sid mid payload timeout)))))"
| "decode e clock M_Request_To info =
     conv (addr_arg e info 0) (\<lambda>target. conv (u32_arg e info 1) (\<lambda>sid. conv (u32_arg e info 2) (\<lambda>mid.
     conv (payload_arg e info 3) (\<lambda>payload. conv (opt_arg (na_is_number e) (na_uint32 e) info 4) (\<lambda>timeout.
       Inr (N_Request_To clock target sid mid payload timeout))))))"
| "decode e clock M_Fire_And_Forget info =
     conv (u32_arg e info 0) (\<lambda>sid. conv (u32_arg e info 1) (\<lambda>mid.
     conv (opt_arg (na_is_buffer e) (na_buffer e) info 2) (\<lambda>payload. Inr (N_Fire_And_Forget sid mid payload))))"
| "decode e clock M_Subscribe_Event info =
     conv (u32_arg e info 0) (\<lambda>sid. conv (u32_arg e info 1) (\<lambda>eid.
     conv (opt_arg (na_is_number e) (na_uint32 e) info 3) (\<lambda>ttl. conv (na_function e (arg e info 2)) (\<lambda>handler.
       Inr (N_Subscribe_Event clock sid eid handler ttl)))))"
| "decode e clock M_Unsubscribe_Event info =
     conv (u32_arg e info 0) (\<lambda>sid. conv (u32_arg e info 1) (\<lambda>eid. Inr (N_Unsubscribe_Event sid eid)))"
| "decode e clock M_On_Service_Found info = conv (na_function e (arg e info 0)) (\<lambda>f. Inr (N_On_Service_Found f))"
| "decode e clock M_On_Service_Lost info = conv (na_function e (arg e info 0)) (\<lambda>f. Inr (N_On_Service_Lost f))"
| "decode e clock M_On_Subscription_Ack info =
     conv (na_function e (arg e info 0)) (\<lambda>f. Inr (N_On_Subscription_Ack f))"
| "decode e clock M_Set_Hmac_Key info =
     conv (addr_arg e info 0) (\<lambda>peer. conv (na_buffer e (arg e info 1)) (\<lambda>key. Inr (N_Set_Hmac_Key peer key)))"
| "decode e clock M_On_Diagnostic info = conv (na_function e (arg e info 0)) (\<lambda>f. Inr (N_On_Diagnostic f))"
| "decode e clock M_Get_Diagnostics info = Inr N_Get_Diagnostics"
| "decode e clock M_Enable_Diagnostics info =
     conv (opt_arg (na_is_boolean e) (na_boolean e) info 0) (\<lambda>auth. Inr (N_Enable_Diagnostics clock auth))"
| "decode e clock M_Report_Dtc info =
     conv (u32_arg e info 0) (\<lambda>code. conv (u32_arg e info 1) (\<lambda>severity. Inr (N_Report_Dtc clock code severity)))"
| "decode e clock M_Clear_Dtc info = conv (u32_arg e info 0) (\<lambda>code. Inr (N_Clear_Dtc code))"
| "decode e clock M_Clear_All_Dtcs info = Inr N_Clear_All_Dtcs"
| "decode e clock M_Get_Dtcs info = Inr N_Get_Dtcs"
| "decode e clock M_Set_Local_Address info = conv (addr_arg e info 0) (\<lambda>a. Inr (N_Set_Local_Address a))"
| "decode e clock M_Get_Local_Address info = Inr N_Get_Local_Address"

section \<open>Calls\<close>

text \<open>The methods that begin with \<open>ensure_alive\<close>.\<close>

definition checks_alive :: "js_method \<Rightarrow> bool" where
  "checks_alive m \<longleftrightarrow> m \<notin> {M_Destroy, M_On_Service_Found, M_On_Service_Lost, M_On_Subscription_Ack,
     M_On_Diagnostic, M_Get_Local_Address}"

definition node_call ::
    "'s sockets \<Rightarrow> 'j js \<Rightarrow> 'v napi \<Rightarrow> u32 \<Rightarrow> js_method \<Rightarrow> 'v list \<Rightarrow> ('s, 'j) node \<Rightarrow> js_value \<times> ('s, 'j) node" where
  "node_call os js e clock m info nd =
     (case decode e clock m info of
        Inr op \<Rightarrow> node_apply os js op nd
      | Inl msg \<Rightarrow> engine (throw msg) (if checks_alive m then ensure_alive nd else nd))"

definition node_new ::
    "'s sockets \<Rightarrow> 'j js \<Rightarrow> 'v napi \<Rightarrow> 'v list \<Rightarrow> 's \<Rightarrow> 'j \<Rightarrow> string + ('s, 'j) node" where
  "node_new os js e info s world = conv (decode_options e info) (\<lambda>opts. node_construct os js opts s world)"

text \<open>A session: calls in order, each with the time it reads.\<close>

type_synonym 'v js_invocation = "u32 \<times> js_method \<times> 'v list"

definition js_step ::
    "'s sockets \<Rightarrow> 'j js \<Rightarrow> 'v napi \<Rightarrow> 'v js_invocation \<Rightarrow> ('s, 'j) node \<Rightarrow> ('s, 'j) node" where
  "js_step os js e call nd = (case call of (clock, m, info) \<Rightarrow> snd (node_call os js e clock m info nd))"

definition js_session ::
    "'s sockets \<Rightarrow> 'j js \<Rightarrow> 'v napi \<Rightarrow> 'v js_invocation list \<Rightarrow> ('s, 'j) node \<Rightarrow> ('s, 'j) node" where
  "js_session os js e calls nd = fold (js_step os js e) calls nd"

end
