(* ===== verification/Node_Sessions.thy ===== *)
theory Node_Sessions
  imports Node_Properties Node_Arguments
begin

text \<open>
  The binding as a script sees it: calls with any arguments.  A call whose arguments do not convert
  is an exception and nothing else, so the books of promises hold over sessions; addresses survive the
  way through JavaScript; the exported numbers are those of the library.
\<close>

section \<open>Exported constants\<close>

lemma exported_constants:
  "map snd exported_return_codes =
     map unat [E_OK, E_NOT_OK, E_UNKNOWN_SERVICE, E_UNKNOWN_METHOD, E_NOT_READY, E_NOT_REACHABLE, E_TIMEOUT,
       E_MALFORMED_MESSAGE, E_AUTH_FAILED, E_DUPLICATE]"
  "map snd exported_severities = map unat [SevInfo, SevWarning, SevError, SevFatal]"
  "map snd exported_counters = map counter_index all_counters"
  "map snd exported_message_types =
     map (unat \<circ> message_type_code) [REQUEST, REQUEST_NO_RETURN, RESPONSE, NOTIFICATION, ERROR]"
  by (simp_all add: exported_return_codes_def exported_severities_def exported_counters_def
      exported_message_types_def all_counters_def const_simps)

lemma exported_methods_distinct: "distinct (map fst exported_methods)" "distinct (map snd exported_methods)"
  by code_simp+

lemma every_method_exported: "m \<in> snd ` set exported_methods"
  by (cases m) (simp_all add: exported_methods_def)

section \<open>Addresses\<close>

lemma ucast_back: "ucast (ucast p :: u32) = (p :: u16)"
  by (rule bit_word_eqI) (auto simp: bit_simps)

text \<open>The address of a peer, as a received datagram gives it, that a script gets as text and port number and
  passes to a method leads back to the same address, when the two text functions of the system are
  inverse to each other on addresses of four bytes.\<close>

theorem address_survives_javascript:
  assumes "\<And>b. length b = 4 \<Longrightarrow> os_inet_pton os (ntop b) = Some b" "length (sin_addr peer) = 4"
    and "addr_to_js ntop (sockaddr_to_addr peer) = (ip, port)"
    and "na_get e v ''ip'' = Inr ip_value" "na_utf8 e ip_value = Inr ip"
    and "na_get e v ''port'' = Inr port_value" "na_uint32 e port_value = Inr (ucast port)"
  shows "map_sum id (js_to_addr os) (addr_arg e [v] 0) = Inr (sockaddr_to_addr peer) \<and>
    addr_to_sockaddr (sockaddr_to_addr peer) = peer"
proof -
  have ip: "ip = ntop (sin_addr peer)" and port: "port = sin_port peer"
    using assms(2,3) port_bytes [of "sin_port peer"] by (auto simp: addr_to_js_def sockaddr_to_addr_def nth_append)
  have "addr_arg e [v] 0 = Inr (ip, ucast port)"
    using assms(4-7) by (simp add: addr_arg_def arg_def)
  moreover have "js_to_addr os (ip, ucast port) = sockaddr_to_addr peer"
    using assms(1,2) by (simp add: js_to_addr_def make_addr_def pton_def sockaddr_to_addr_def ip port ucast_back)
  ultimately show ?thesis using sockaddr_roundtrip [OF assms(2)] by simp
qed

text \<open>A small world of values, with texts of four characters for addresses.\<close>

datatype script_value =
  V_Undefined | V_Number u32 | V_Bool bool | V_Text string | V_Function nat | V_Buffer bytes
| V_Object "(string \<times> script_value) list"

definition script_napi :: "script_value napi" where
  "script_napi =
     \<lparr> na_undefined = V_Undefined, na_is_undefined = (\<lambda>v. v = V_Undefined),
       na_is_number = (\<lambda>v. case v of V_Number n \<Rightarrow> True | _ \<Rightarrow> False),
       na_is_boolean = (\<lambda>v. case v of V_Bool b \<Rightarrow> True | _ \<Rightarrow> False),
       na_is_object = (\<lambda>v. case v of V_Object fs \<Rightarrow> True | V_Function f \<Rightarrow> True | V_Buffer b \<Rightarrow> True | _ \<Rightarrow> False),
       na_is_function = (\<lambda>v. case v of V_Function f \<Rightarrow> True | _ \<Rightarrow> False),
       na_is_buffer = (\<lambda>v. case v of V_Buffer b \<Rightarrow> True | _ \<Rightarrow> False),
       na_uint32 = (\<lambda>v. case v of V_Number n \<Rightarrow> Inr n | _ \<Rightarrow> Inl ''A number was expected''),
       na_utf8 = (\<lambda>v. case v of V_Text s \<Rightarrow> Inr s | _ \<Rightarrow> Inl ''A string was expected''),
       na_boolean = (\<lambda>v. case v of V_Bool b \<Rightarrow> Inr b | _ \<Rightarrow> Inl ''A boolean was expected''),
       na_function = (\<lambda>v. case v of V_Function f \<Rightarrow> Inr f | _ \<Rightarrow> Inl ''Invalid argument''),
       na_buffer = (\<lambda>v. case v of V_Buffer b \<Rightarrow> Inr b | _ \<Rightarrow> Inl ''Invalid argument''),
       na_has = (\<lambda>v name. case v of V_Object fs \<Rightarrow> map_of fs name \<noteq> None | _ \<Rightarrow> False),
       na_get = (\<lambda>v name. case v of
           V_Undefined \<Rightarrow> Inl ''Cannot convert undefined to object''
         | V_Object fs \<Rightarrow> Inr (case map_of fs name of None \<Rightarrow> V_Undefined | Some x \<Rightarrow> x)
         | _ \<Rightarrow> Inr V_Undefined) \<rparr>"

definition text_of_addr :: "bytes \<Rightarrow> string" where
  "text_of_addr b = map (\<lambda>x. char_of (unat x)) b"

definition text_sockets :: "nat sockets" where
  "text_sockets = (demo_sockets 0)\<lparr>os_inet_pton := (\<lambda>s. Some (map (\<lambda>c. of_nat (of_char c)) s))\<rparr>"

lemma text_sockets_inverse: "os_inet_pton text_sockets (text_of_addr b) = Some b"
proof -
  have "of_nat (of_char (char_of (unat x) :: char)) = (x :: u8)" for x
  proof -
    have "unat x < 2 ^ LENGTH(8)" by (rule unsigned_less)
    then show ?thesis by simp
  qed
  then show ?thesis by (simp add: text_sockets_def text_of_addr_def comp_def)
qed

theorem address_survives_javascript_witness:
  "map_sum id (js_to_addr text_sockets)
     (addr_arg script_napi [V_Object [(''ip'', V_Text (text_of_addr [10, 0, 0, 9])), (''port'', V_Number 30491)]] 0) =
   Inr (sockaddr_to_addr \<lparr>sin_addr = [10, 0, 0, 9], sin_port = 30491\<rparr>)"
proof -
  have "addr_to_js text_of_addr (sockaddr_to_addr \<lparr>sin_addr = [10, 0, 0, 9], sin_port = 30491\<rparr>) =
      (text_of_addr [10, 0, 0, 9], 30491)"
    by (simp add: addr_to_js_def sockaddr_to_addr_def)
  then show ?thesis
    using address_survives_javascript [of text_sockets text_of_addr "\<lparr>sin_addr = [10, 0, 0, 9], sin_port = 30491\<rparr>"
        "text_of_addr [10, 0, 0, 9]" 30491 script_napi _ "V_Text (text_of_addr [10, 0, 0, 9])" "V_Number 30491"]
    by (simp add: text_sockets_inverse script_napi_def)
qed

section \<open>Sessions\<close>

definition invocation_lost :: "'s sockets \<Rightarrow> 'j js \<Rightarrow> 'v napi \<Rightarrow> 'v js_invocation \<Rightarrow> ('s, 'j) node \<Rightarrow> bool" where
  "invocation_lost os js e call nd =
     (case call of (clock, m, info) \<Rightarrow>
        (case decode e clock m info of Inl msg \<Rightarrow> False | Inr op \<Rightarrow> request_lost os js op nd))"

fun session_complete :: "'s sockets \<Rightarrow> 'j js \<Rightarrow> 'v napi \<Rightarrow> 'v js_invocation list \<Rightarrow> ('s, 'j) node \<Rightarrow> bool" where
  "session_complete os js e [] nd = True"
| "session_complete os js e (call # calls) nd =
     (\<not> invocation_lost os js e call nd \<and> session_complete os js e calls (js_step os js e call nd))"

lemma js_session_simps [simp]:
  "js_session os js e [] nd = nd"
  "js_session os js e (call # calls) nd = js_session os js e calls (js_step os js e call nd)"
  by (simp_all add: js_session_def)

lemma invocation_advances:
  assumes "node_ok nd" "\<not> invocation_lost os js e call nd"
  shows "advances nd (js_step os js e call nd)"
proof -
  obtain clock m info where c: "call = (clock, m, info)" using prod_cases3 by blast
  show ?thesis
  proof (cases "decode e clock m info")
    case (Inl msg)
    have thrown: "advances nd' (snd (engine (throw msg) nd'))" if "node_ok nd'" for nd' :: "('a, 'b) node"
      using that by (intro engine_advances) (simp_all add: throw_def beside_advances)
    have "advances nd (snd (engine (throw msg) (ensure_alive nd)))"
      by (rule alive_advances [OF assms(1)]) (rule thrown)
    then show ?thesis using thrown [OF assms(1)] by (simp add: js_step_def node_call_def c Inl)
  next
    case (Inr op)
    then show ?thesis using assms node_apply_advances [OF assms(1), of os js op]
      by (simp add: js_step_def node_call_def invocation_lost_def c)
  qed
qed

lemma session_advances:
  "node_ok nd \<Longrightarrow> session_complete os js e calls nd \<Longrightarrow> advances nd (js_session os js e calls nd)"
proof (induction calls arbitrary: nd)
  case (Cons call calls)
  then have "advances nd (js_step os js e call nd)" by (simp add: invocation_advances)
  then show ?case using Cons by (auto dest: advances_node_ok intro: advances_trans)
qed (simp add: beside_advances)

text \<open>C24: As long as no request is lost on the way to the transport, an instance keeps one promise per
  request whatever a script does: after any calls with any arguments, those with arguments of the
  wrong type included, the open promises are exactly the ones whose completion callback the runtime
  still owes, no callback has touched a request object that was freed, and a settled promise keeps its
  value whatever calls follow.\<close>

theorem session_settles_promises:
  assumes "node_new os js e options s world = Inr nd0" "session_complete os js e (calls @ later) nd0"
    and "nd = js_session os js e calls nd0"
  shows "(\<forall>r. nd_runtime nd = Some r \<longrightarrow> open_calls (rt_requests r) =
      image_mset (Pair REQUEST_COMPLETE_CB) (mset_set {p. nd_promises nd p = Some Open})) \<and>
    Freed_Request \<notin> set (nd_faults nd) \<and>
    settled_kept (nd_promises nd) (nd_promises (js_session os js e later nd))"
proof -
  have "session_complete os js e (calls @ later) nd' \<longleftrightarrow>
      session_complete os js e calls nd' \<and> session_complete os js e later (js_session os js e calls nd')" for nd'
    by (induction calls arbitrary: nd') auto
  then have parts: "session_complete os js e calls nd0" "session_complete os js e later nd" using assms by auto
  have "node_ok nd0"
    using assms(1) by (cases "decode_options e options") (auto simp: node_new_def intro: node_construct_ok)
  then have ok: "node_ok nd" using session_advances [OF _ parts(1)] assms(3) by (auto dest: advances_node_ok)
  then show ?thesis
    using session_advances [OF ok parts(2)] by (auto simp add: advances_def node_ok_def books_ok_def node_owes_def)
qed

lemma accepted_session_complete:
  assumes "\<And>dest data t. fst (udp_send os dest data t)"
  shows "node_ok nd \<Longrightarrow> session_complete os js e calls nd"
proof (induction calls arbitrary: nd)
  case (Cons call calls)
  have "\<not> invocation_lost os js e call nd"
    using accepted_never_lost [OF assms Cons.prems] by (auto simp: invocation_lost_def split: prod.split sum.split)
  then show ?case using Cons.IH [OF advances_node_ok [OF invocation_advances [OF Cons.prems]]] by simp
qed simp

definition demo_script :: "script_value js_invocation list" where
  "demo_script =
     [(5, M_Request_To, [V_Object [(''ip'', V_Text ''10.0.0.9''), (''port'', V_Number 4000)], V_Number 0x1000, V_Number 3]),
      (6, M_Request, [V_Text ''calculator'']), (7, M_Process, []), (8, M_Destroy, []), (9, M_Offer_Service, [])]"

theorem session_settles_promises_witness:
  "Freed_Request \<notin> set (nd_faults (js_session (demo_sockets 0) demo_js script_napi demo_script (demo_node 0)))"
proof -
  have "node_new (demo_sockets 0) demo_js script_napi
      [V_Object [(''port'', V_Number 4000), (''clientId'', V_Number 7)]] 3 0 = Inr (demo_node 0)"
    using demo_construct [of 0]
    by (simp add: node_new_def decode_options_def script_napi_def opt_property_def demo_options_def)
  note new = this
  have "session_complete (demo_sockets 0) demo_js script_napi (demo_script @ []) (demo_node 0)"
    by (rule accepted_session_complete)
      (auto simp: udp_send_def demo_sockets_def intro: node_construct_ok [OF demo_construct])
  then show ?thesis using session_settles_promises [OF new _ refl] by blast
qed

end
