(* ===== verification/Spec2Isabelle.thy ===== *)
theory Spec2Isabelle
  imports Codec_Properties Sha256_Vectors Table_Properties Sd_Properties Handshake_Properties Event_Properties Network
    Replay_Window Subscription_Lease Build_Check
    Scanner_Properties Calculator_Properties Desktop_Properties Node_Sessions
begin

text \<open>
  Sero is a header-only C++ middleware for embedded devices (\<open>src/include/sero\<close>): peers exchange
  frames over a datagram transport to call methods of each other's services, to subscribe to events
  and to find services on the network.  A Node.js binding (\<open>src/node-module/src/sero-node.cpp\<close>) wraps one
  runtime and a UDP transport as a JavaScript object, and the programs under \<open>src/examples\<close> use the library.
  This development models the whole library, the binding and the examples and proves what makes
  them correct.

  \<^bold>\<open>The program.\<close>  \<open>Runtime\<close> (\<open>runtime.hpp\<close>) owns one object per concern and composes them.  A call
  of \<open>process\<close> drains the transport through the validation pipeline (\<open>validate_and_dispatch\<close>), whose
  last step calls a handler by message type, and then runs the periodic loops: eviction of timed-out
  requests and of expired subscriptions, offers, subscription renewals, expiry of found services and
  searches.  The other public methods are calls of the application.

  \<^bold>\<open>How the code is modelled.\<close>  A class is a record of its members (or the table itself, when that is
  all it has), a method is a function that returns the result, the new state and the effects in
  order.  Integers are words of the width in the code, so wrap-around is that of C++; sizes are
  natural numbers.  A fixed array with a fill count is a \<open>tbl\<close> (\<open>Fixed_Table\<close>), with the linear
  search, append and move-last-into-the-gap removal that the classes share.  A template
  configuration is a value of the record \<open>config\<close>, quantified over in the theorems; \<open>DefaultConfig\<close> and
  \<open>EmbeddedConfig\<close> are the two of the source.  Log entries and application callbacks become values
  of \<open>effect\<close> (\<open>Effects\<close>), a callback pointer being a number with \<open>None\<close> for null.  The
  transport implementation and the application services are parameters, fields of the record \<open>env\<close>
  (\<open>Runtime\<close>): functions over a transport state and an application state that the model never
  looks into.  The contract \<open>service_contract\<close> demands of a service only what the C++ demands: that it
  writes inside the response buffer it is given.

  The binding is an instance of that environment (\<open>node_env\<close>): its transport is the model of
  \<open>NodeUdpTransport\<close> over the socket calls of the operating system (record \<open>sockets\<close>, a parameter), its
  services are the adapter \<open>JsService\<close> over the JavaScript functions (record \<open>js\<close>, a parameter).  The
  state of an instance is the record \<open>node\<close>; objects the binding allocates have addresses, the sets of
  live ones are part of the state, and a use of a dead object, of the runtime after \<open>destroy\<close> or of a
  null buffer, which is undefined behaviour in C++, is recorded as a value of \<open>fault\<close>.  A method is
  called with a list of JavaScript values; what the engine says of a value and how it converts it is a
  parameter (record \<open>napi\<close>), and a conversion that fails is an exception of the call.

  An example program is a record of its variables with the runtime among them, a start and a function for one
  cycle of its loop at a given time; a run is a \<open>fold\<close> of the cycle over the times.  The callbacks
  a call of the runtime makes are applied to the program, in order, when the call returns: they touch
  no variable of the runtime.  What a program prints about its work is a list of values; for the scanner it
  is the text itself.

  \<^bold>\<open>Theories and sources\<close> (paths under \<open>src/include/sero\<close>).
  \<^item> \<open>Prelude\<close>, \<open>Fixed_Table\<close>, \<open>Slot_Loops\<close>: words, byte strings and clock arithmetic (\<open>time_after\<close>);
    tables and their refinement to finite maps (locales \<open>bounded_map\<close>, \<open>deletable_map\<close>); loops that
    update every slot of a table while they act on the rest of the state (locale \<open>slot_loop\<close>).
  \<^item> \<open>Core_Types\<close> (\<open>core/types.hpp\<close>, \<open>core/config.hpp\<close>), \<open>Message_Header\<close>, \<open>Effects\<close> (\<open>core/log.hpp\<close>),
    \<open>Diagnostic_Counters\<close>, \<open>Dtc_Store\<close>.
  \<^item> \<open>Crc16\<close>, \<open>Sha256\<close>, \<open>Hmac\<close>, \<open>E2E_Protection\<close>, \<open>Message_Authenticator\<close> (\<open>security\<close>).
    \<open>Fips180\<close>: SHA-256 written from FIPS 180-4, with the proof that the code's tables, compression and padding are these.
  \<^item> \<open>Method_Dispatcher\<close> (with \<open>service.hpp\<close>), \<open>Request_Tracker\<close>, \<open>Event_Manager\<close>, \<open>Event_Handlers\<close>,
    \<open>Diagnostics_Service\<close>, \<open>Sd_Payload\<close> and \<open>Service_Discovery\<close> (\<open>service\<close>).
  \<^item> \<open>Runtime\<close> (state, sending), \<open>Runtime_Receive\<close> (pipeline and handlers), \<open>Runtime_Api\<close> (process cycle
    and public methods, reachable states) (\<open>runtime.hpp\<close>).
  \<^item> \<open>Sd_State_Machine\<close>, \<open>Sd_Operations\<close>, \<open>Sd_Reachability\<close>: invariant of service discovery, effect
    of each operation on the abstract provider, consumer and subscription maps, and reachable states.
    \<open>Consumer_Machine\<close>: what a consumer knows of a service as an abstract machine, which the consumer table refines, and
    the session ids of the offers taken in a run.
  \<^item> \<open>Runtime_Invariant\<close>, \<open>Runtime_Wf\<close>: the invariant \<open>rt_wf\<close> and its preservation by every operation.
    \<open>Runtime_Frames\<close>, \<open>Sent_Frames\<close>: the pipeline against the predicate \<open>accepted\<close>, and the frames
    each operation hands to the transport.
  \<^item> \<open>Request_Ledger\<close>, \<open>Request_Balance\<close>: which operations touch pending requests, as a proof rule (locales
    \<open>settling\<close>, \<open>settling_cycle\<close>), used for the balance of issued requests and completion callbacks and
    for the fate of one request in a process cycle.  \<open>Request_Settlement\<close>: with what result, by the frames the cycle takes.
  \<^item> \<open>Node_Transport\<close>, \<open>Node_Binding\<close> (adapters, state, trampolines), \<open>Node_Api\<close> (the methods of
    \<open>SeroRuntime\<close>), \<open>Node_Arguments\<close> (exports, arguments, calls of a script): \<open>sero-node.cpp\<close>.  \<open>Node_Ledger\<close>, \<open>Node_Requests\<close>: the books of
    promises and request objects against the balance of the runtime.
  \<^item> \<open>Example_Transport\<close> (\<open>udp_transport.hpp\<close>), \<open>Calculator\<close> (\<open>server.cpp\<close>, \<open>client.cpp\<close>), \<open>Scanner_Devices\<close>
    and \<open>Diag_Scanner\<close> (\<open>diag_scanner.cpp\<close>; numbers as text in \<open>Text_Output\<close>), \<open>Demo_Protocol\<close> (\<open>demo_constants.hpp\<close>, \<open>time_service.hpp\<close>,
    \<open>esp32_event_handler.hpp\<close>) and \<open>Desktop_Peer\<close> (\<open>desktop_peer.cpp\<close>): the examples;
    \<open>Example_Programs\<close>: their \<open>main\<close> functions.
    \<open>Call_Loops\<close>: what a program that calls periodically needs to know of its pending requests.
  \<^item> \<open>Sd_Frames\<close>: the frames of service discovery, sent and received.  \<open>Frame_Typing\<close>: every operation
    keeps the outputs of a runtime well typed, and within a policy for what may be sent, with the property
    this gives.  \<open>Network\<close>: several runtimes, whose steps interleave, on a network that keeps every frame.
  \<^item> \<open>Replay_Window\<close>: what each operation does to the sequence state of a peer, with the two properties on replays.
    \<open>Subscription_Lease\<close>: one subscription between consumer and provider, in time.  \<open>Build_Check\<close>: \<open>verify_build.cpp\<close>.
  \<^item> \<open>Codec_Properties\<close>, \<open>Sha256_Vectors\<close>, \<open>Table_Properties\<close>, \<open>Sd_Properties\<close>, \<open>Handshake_Properties\<close>,
    \<open>Runtime_Properties\<close>, \<open>Request_Properties\<close>, \<open>Event_Properties\<close>, \<open>Node_Properties\<close>, \<open>Node_Sessions\<close>,
    \<open>Calculator_Properties\<close>, \<open>Scanner_Properties\<close>, \<open>Desktop_Properties\<close>: the properties.

  \<^bold>\<open>What is shown.\<close>  Codecs: the CRC table loop is the bit-serial CRC and detects all bursts of 16
  bits; the streaming hash is that of a reference written from FIPS 180-4, on any split of the input, the two-part HMAC is HMAC; header
  and payloads round-trip.  Tables: each class implements a bounded map, and time-outs are exact in
  milliseconds across the wrap of the clock.  Service discovery: the consumer refines an abstract machine
  after the protocol document (with two edges more than the document draws), reboots are seen exactly when the session id
  differs from that of the last offer taken, and lead to new subscribe messages, the number of
  searches is bounded; over two runtimes a search finds its provider, a subscription is granted on both
  sides and then does not lapse.  Runtime: the invariant holds in all reachable states; the pipeline accepts
  exactly the frames of the specification, counts the first failing check, enforces authentication
  and discards replays, within bounds that are stated, together with the message that lifts the protection; every frame it sends passes the stateless checks of a receiver; on a network that
  loses, repeats, reorders and misdirects frames every reply answers a request that an application made, and no application hears
  an event or a method call that no application has said; a request arrives as it was sent and is answered exactly once;
  notifications reach every subscriber.  Requests: over any run the callbacks made and owed are those
  of the issued requests, the first cycle after a deadline settles its request, with the
  first reply it accepts or else a time-out, and a reply reaches
  the callback it belongs to.  Binding: whatever a script calls with whatever arguments, promises are settled once as long as the
  transport takes the frames; the theorems on lost requests, refused subscriptions and null responses state exactly where
  the code uses freed or null memory.  Examples: the calls of client and desktop do not pile up and keep
  their operands, a call comes back with sum or product, the scanner reads what the device holds and clears the device that its dashboard names as long as it knows at most three, and
  theorems of their own state where an example does not do what it means to.

  \<^bold>\<open>Bounds and loops.\<close>  No definition needs fuel beyond what the code has: the drain loop runs
  \<open>MaxReceiveQueueSize\<close> times at most, as in the code, the search for a request id at most
  \<open>MaxPendingRequests\<close> times, the loops over tables as often as the fill count says.  The block loop of
  SHA-256 is \<open>while\<close>, with a proof that it ends.

  \<^bold>\<open>Hypotheses of the theorems.\<close>  A theorem names the configuration bounds it needs (a payload bound
  below \<open>2 ^ 32\<close>, a retry count below 255) and, where a time difference is taken, that it is below
  \<open>2 ^ 31\<close> milliseconds, the range in which the code's comparison is meaningful.

  \<^bold>\<open>Not modelled.\<close>  Callbacks of the application that call back into the runtime (the model records
  them and goes on), and so JavaScript functions that throw or call methods of the instance that
  calls them; changes that a JavaScript \<open>isReady\<close> function makes to the JavaScript world (it is a query in the model); the
  constant-time property of \<open>hmac_equal\<close>; in the examples signals and, except in the scanner, the
  text of status lines; the tests and the build files.
\<close>

end
